(* ===== verification/Prelude.thy ===== *)
theory Prelude
  imports Main "HOL-Library.Char_ord" "HOL-Library.List_Lexorder" "HOL-Library.Product_Lexorder"
begin

text \<open>
  Shared vocabulary of the development: the types the components share (row identifiers, points in
  time, JSON values), the pieces of Python's string library the sources use, SQL tables as lists of
  rows with the SELECT and UPDATE ... RETURNING statements the sources issue, and the two locales
  that state what a guarded single-row UPDATE promises. The collection \<open>table_simps\<close> holds the
  rewriting lemmas for tables.
\<close>

named_theorems table_simps \<open>rewriting lemmas for SELECT and UPDATE on tables\<close>

section \<open>Shared types\<close>

text \<open>
  A UUID is the 128-bit number it denotes. A \<open>datetime\<close> (always UTC in the sources) is its number
  of microseconds since the epoch.
\<close>

type_synonym uuid = nat
type_synonym time = int

abbreviation seconds :: "int \<Rightarrow> time" where
  "seconds n \<equiv> n * 1000000"

abbreviation days :: "int \<Rightarrow> time" where
  "days n \<equiv> n * 86400000000"

text \<open>
  Values stored in JSONB columns and error details. \<open>JUuid\<close> and \<open>JTime\<close> stand for the texts
  \<open>str(uuid)\<close> and \<open>datetime.isoformat()\<close>.
\<close>

datatype jv =
    JNull
  | JBool bool
  | JInt int
  | JStr string
  | JUuid uuid
  | JTime time
  | JList "jv list"
  | JObj "(string \<times> jv) list"

type_synonym jobj = "(string \<times> jv) list"

definition jopt :: "('a \<Rightarrow> jv) \<Rightarrow> 'a option \<Rightarrow> jv" where
  "jopt f v = (case v of None \<Rightarrow> JNull | Some x \<Rightarrow> f x)"

text \<open>\<open>d.get(k)\<close> and \<open>d[k] = v\<close> on a dictionary that keeps insertion order.\<close>

fun jget :: "string \<Rightarrow> jobj \<Rightarrow> jv option" where
  "jget k [] = None"
| "jget k ((a, v) # d) = (if a = k then Some v else jget k d)"

fun jput :: "string \<Rightarrow> jv \<Rightarrow> jobj \<Rightarrow> jobj" where
  "jput k v [] = [(k, v)]"
| "jput k v ((a, w) # d) = (if a = k then (a, v) # d else (a, w) # jput k v d)"

lemma jget_jput [simp]: "jget k (jput k' v d) = (if k = k' then Some v else jget k d)"
  by (induction d) auto

definition or_empty :: "jobj option \<Rightarrow> jobj" where
  "or_empty d = (case d of None \<Rightarrow> [] | Some x \<Rightarrow> x)"

text \<open>\<open>d.update(e)\<close>\<close>

definition jupdate :: "jobj \<Rightarrow> jobj option \<Rightarrow> jobj" where
  "jupdate d e = fold (\<lambda>(k, v) d. jput k v d) (or_empty e) d"

text \<open>Truth value of an optional string: \<open>None\<close> and the empty string are false.\<close>

definition truthy :: "string option \<Rightarrow> bool" where
  "truthy s = (case s of None \<Rightarrow> False | Some x \<Rightarrow> x \<noteq> [])"

lemma truthy_simps [simp]: "truthy None = False" "truthy (Some x) = (x \<noteq> [])"
  by (simp_all add: truthy_def)

section \<open>Python strings (ASCII)\<close>

definition py_isspace :: "char \<Rightarrow> bool" where
  "py_isspace c = (of_char c \<in> {9, 10, 11, 12, 13, 28, 29, 30, 31, 32::nat})"

definition strip_by :: "(char \<Rightarrow> bool) \<Rightarrow> string \<Rightarrow> string" where
  "strip_by p s = rev (dropWhile p (rev (dropWhile p s)))"

definition rstrip_by :: "(char \<Rightarrow> bool) \<Rightarrow> string \<Rightarrow> string" where
  "rstrip_by p s = rev (dropWhile p (rev s))"

definition py_strip :: "string \<Rightarrow> string" where
  "py_strip s = strip_by py_isspace s"

definition to_lower :: "char \<Rightarrow> char" where
  "to_lower c = (if CHR ''A'' \<le> c \<and> c \<le> CHR ''Z'' then char_of (of_char c + 32 :: nat) else c)"

definition to_upper :: "char \<Rightarrow> char" where
  "to_upper c = (if CHR ''a'' \<le> c \<and> c \<le> CHR ''z'' then char_of (of_char c - 32 :: nat) else c)"

definition py_lower :: "string \<Rightarrow> string" where
  "py_lower s = map to_lower s"

definition py_upper :: "string \<Rightarrow> string" where
  "py_upper s = map to_upper s"

lemma strip_by_subset: "set (strip_by p s) \<subseteq> set s"
  unfolding strip_by_def by (auto dest!: set_dropWhileD)

lemma strip_by_infix: "\<exists>xs ys. s = xs @ strip_by p s @ ys"
proof -
  have 1: "s = takeWhile p s @ dropWhile p s" by simp
  have "rev (dropWhile p s) = takeWhile p (rev (dropWhile p s)) @ dropWhile p (rev (dropWhile p s))"
    by simp
  then have "dropWhile p s = strip_by p s @ rev (takeWhile p (rev (dropWhile p s)))"
    unfolding strip_by_def by (metis rev_append rev_rev_ident)
  with 1 show ?thesis by metis
qed

lemma hd_strip_by: "strip_by p s \<noteq> [] \<Longrightarrow> \<not> p (hd (strip_by p s))"
proof -
  assume ne: "strip_by p s \<noteq> []"
  let ?t = "dropWhile p s"
  from ne have "?t \<noteq> []" unfolding strip_by_def by fastforce
  then have h: "\<not> p (hd ?t)" by (rule hd_dropWhile)
  obtain ys where "?t = strip_by p s @ ys"
    unfolding strip_by_def by (metis rev_append rev_rev_ident takeWhile_dropWhile_id)
  with ne h show ?thesis by (metis hd_append2)
qed

lemma last_strip_by: "strip_by p s \<noteq> [] \<Longrightarrow> \<not> p (last (strip_by p s))"
  unfolding strip_by_def by (simp add: last_rev hd_dropWhile)

section \<open>Tables\<close>

text \<open>
  A table is the list of its rows, in the order the database returns them when a query names no
  order. \<open>scalar\<close> is \<open>session.scalar(select(...).where(p))\<close>: the first row or nothing.
  \<open>update_returning\<close> is \<open>UPDATE ... WHERE p ... RETURNING\<close> read with
  \<open>scalar_one_or_none\<close>; every use in the sources restricts the primary key, so that at most one
  row is returned.
\<close>

definition scalar :: "('r \<Rightarrow> bool) \<Rightarrow> 'r list \<Rightarrow> 'r option" where
  "scalar p t = find p t"

definition update_where :: "('r \<Rightarrow> bool) \<Rightarrow> ('r \<Rightarrow> 'r) \<Rightarrow> 'r list \<Rightarrow> 'r list" where
  "update_where p f t = map (\<lambda>r. if p r then f r else r) t"

definition update_returning ::
  "('r \<Rightarrow> bool) \<Rightarrow> ('r \<Rightarrow> 'r) \<Rightarrow> 'r list \<Rightarrow> 'r list \<times> 'r option" where
  "update_returning p f t = (update_where p f t, map_option f (scalar p t))"

lemma scalar_Nil [simp]: "scalar p [] = None"
  by (simp add: scalar_def)

lemma scalar_Cons [simp]: "scalar p (r # t) = (if p r then Some r else scalar p t)"
  by (simp add: scalar_def)

lemma scalar_append:
  "scalar p (xs @ ys) = (case scalar p xs of None \<Rightarrow> scalar p ys | Some r \<Rightarrow> Some r)"
  by (induction xs) auto

lemma scalar_Some: "scalar p t = Some r \<Longrightarrow> r \<in> set t \<and> p r"
  by (induction t) (auto split: if_splits)

lemma scalar_None: "scalar p t = None \<longleftrightarrow> (\<forall>r \<in> set t. \<not> p r)"
  by (induction t) auto

lemma update_where_Nil [simp]: "update_where p f [] = []"
  by (simp add: update_where_def)

lemma update_where_Cons [simp]:
  "update_where p f (r # t) = (if p r then f r else r) # update_where p f t"
  by (simp add: update_where_def)

lemma update_where_append [simp]:
  "update_where p f (xs @ ys) = update_where p f xs @ update_where p f ys"
  by (simp add: update_where_def)

lemma set_update_where: "set (update_where p f t) = (\<lambda>r. if p r then f r else r) ` set t"
  by (simp add: update_where_def)

lemma length_update_where [simp]: "length (update_where p f t) = length t"
  by (simp add: update_where_def)

lemma update_where_id [table_simps]: "(\<And>r. r \<in> set t \<Longrightarrow> \<not> p r) \<Longrightarrow> update_where p f t = t"
  by (induction t) auto

lemma map_update_where [table_simps]:
  "(\<And>r. p r \<Longrightarrow> g (f r) = g r) \<Longrightarrow> map g (update_where p f t) = map g t"
  by (induction t) auto

lemma scalar_update_where_other:
  "(\<And>r. p r \<Longrightarrow> \<not> q r) \<Longrightarrow> (\<And>r. p r \<Longrightarrow> \<not> q (f r)) \<Longrightarrow>
   scalar q (update_where p f t) = scalar q t"
  by (induction t) auto

lemma update_returning_None:
  "snd (update_returning p f t) = None \<Longrightarrow> fst (update_returning p f t) = t"
  by (auto simp: update_returning_def scalar_None intro: update_where_id)

subsection \<open>Primary keys\<close>

text \<open>A lookup by primary key is \<open>session.get(Model, id)\<close>.\<close>

definition by_key :: "('r \<Rightarrow> 'k) \<Rightarrow> 'k \<Rightarrow> 'r list \<Rightarrow> 'r option" where
  "by_key key k t = scalar (\<lambda>r. key r = k) t"

lemma by_key_Some: "by_key key k t = Some r \<Longrightarrow> r \<in> set t \<and> key r = k"
  unfolding by_key_def by (rule scalar_Some)

lemma by_key_None: "by_key key k t = None \<longleftrightarrow> k \<notin> key ` set t"
  unfolding by_key_def scalar_None by auto

lemma by_key_mem: "distinct (map key t) \<Longrightarrow> r \<in> set t \<Longrightarrow> by_key key (key r) t = Some r"
  unfolding by_key_def by (induction t) (auto simp: rev_image_eqI)

lemma by_key_unique:
  assumes "distinct (map key t)" and "by_key key k t = Some r" and "x \<in> set t" and "key x = k"
  shows "x = r"
  using by_key_mem[OF assms(1,3)] assms(2) unfolding assms(4) by simp

lemma scalar_by_unique_key:
  assumes "distinct (map key t)" and "r \<in> set t" and "p r" and "\<And>x. p x \<Longrightarrow> key x = key r"
  shows "scalar p t = Some r"
  using assms(1,2)
proof (induction t)
  case (Cons a t)
  show ?case
  proof (cases "p a")
    case True
    then have "key a = key r" by (rule assms(4))
    with Cons.prems have "a = r" by (auto simp: rev_image_eqI)
    with True show ?thesis by simp
  next
    case False
    with assms(3) Cons.prems(2) have "r \<in> set t" by auto
    with False Cons show ?thesis by simp
  qed
qed simp

lemma by_key_append:
  "by_key key k (xs @ ys) = (case by_key key k xs of None \<Rightarrow> by_key key k ys | Some r \<Rightarrow> Some r)"
  unfolding by_key_def by (rule scalar_append)

lemma by_key_update_where_other [table_simps]:
  "(\<And>r. p r \<Longrightarrow> key (f r) = key r) \<Longrightarrow> (\<And>r. p r \<Longrightarrow> key r \<noteq> k) \<Longrightarrow>
   by_key key k (update_where p f t) = by_key key k t"
  unfolding by_key_def by (rule scalar_update_where_other) auto

lemma by_key_update_where:
  "(\<And>r. key (f r) = key r) \<Longrightarrow>
   by_key key k (update_where p f t) =
     map_option (\<lambda>r. if p r then f r else r) (by_key key k t)"
  unfolding by_key_def by (induction t) auto

lemma update_where_mem:
  "distinct (map key t) \<Longrightarrow> (\<And>r. key (f r) = key r) \<Longrightarrow> r \<in> set (update_where p f t) \<Longrightarrow>
   \<exists>r0. by_key key (key r) t = Some r0 \<and> r = (if p r0 then f r0 else r0)"
  by (auto simp: set_update_where by_key_mem)

text \<open>The table with one row replaced, found by its key.\<close>

definition put_row :: "('r \<Rightarrow> 'k) \<Rightarrow> 'r \<Rightarrow> 'r list \<Rightarrow> 'r list" where
  "put_row key r t = update_where (\<lambda>x. key x = key r) (\<lambda>_. r) t"

lemma set_put_row: "r' \<in> set (put_row key r t) \<Longrightarrow> r' = r \<or> r' \<in> set t \<and> key r' \<noteq> key r"
  by (auto simp: put_row_def set_update_where split: if_splits)

lemma put_row_other: "x \<in> set t \<Longrightarrow> key x \<noteq> key r \<Longrightarrow> x \<in> set (put_row key r t)"
  by (auto simp: put_row_def set_update_where intro!: rev_image_eqI)

lemma keys_put_row [table_simps]: "map key (put_row key r t) = map key t"
  unfolding put_row_def by (induction t) auto

lemma by_key_put_row [table_simps]:
  "by_key key k (put_row key r t) =
     (if k = key r then map_option (\<lambda>_. r) (by_key key k t) else by_key key k t)"
  unfolding by_key_def put_row_def by (induction t) auto

lemma map_put_row:
  assumes "distinct (map key t)" and "by_key key (key r) t = Some r0" and "g r = g r0"
  shows "map g (put_row key r t) = map g t"
proof -
  have "g (if key x = key r then r else x) = g x" if "x \<in> set t" for x
    using by_key_mem[OF assms(1) that] assms(2,3) by auto
  then show ?thesis by (simp add: put_row_def update_where_def)
qed

lemma update_where_put_row:
  assumes "distinct (map key t)" and "r \<in> set t" and "key (f r) = key r" and "\<not> p (f r)"
  shows "update_where p f (put_row key (f r) t) = update_where (\<lambda>x. key x = key r \<or> p x) f t"
  unfolding put_row_def update_where_def map_map
proof (rule map_cong[OF refl])
  fix x
  assume x: "x \<in> set t"
  show "((\<lambda>r. if p r then f r else r) \<circ> (\<lambda>x. if key x = key (f r) then f r else x)) x =
    (if key x = key r \<or> p x then f x else x)"
  proof (cases "key x = key r")
    case True
    with by_key_unique[OF assms(1) by_key_mem[OF assms(1,2)] x] have "x = r" .
    with assms(3,4) show ?thesis by simp
  qed (use assms(3) in simp)
qed

section \<open>Guarded single-row transitions\<close>

text \<open>
  The worker and the API change a row with one UPDATE whose WHERE clause names the row's primary
  key and the state it must be in. \<open>row_transition\<close> is the contract of such a statement: it changes
  at most the named row, keeps every primary key, and reports the new row exactly when the guard
  held. \<open>exclusive_transition\<close> adds that the new row no longer satisfies the guard: then of any
  number of attempts on the same row only the first succeeds, which is what makes a transition a
  claim.
\<close>

locale row_transition =
  fixes key :: "'r \<Rightarrow> uuid"
    and guard :: "'r \<Rightarrow> bool"
    and upd :: "'r \<Rightarrow> 'r"
    and step :: "uuid \<Rightarrow> 'r list \<Rightarrow> 'r list \<times> 'r option"
  assumes step_eq: "step i t = update_returning (\<lambda>r. key r = i \<and> guard r) upd t"
    and key_upd: "key (upd r) = key r"
begin

lemma keys: "map key (fst (step i t)) = map key t"
  by (simp add: step_eq update_returning_def map_update_where key_upd)

lemma frame: "k \<noteq> i \<Longrightarrow> by_key key k (fst (step i t)) = by_key key k t"
  unfolding step_eq update_returning_def fst_conv
  by (rule by_key_update_where_other) (auto simp: key_upd)

lemma unchanged: "snd (step i t) = None \<Longrightarrow> fst (step i t) = t"
  unfolding step_eq by (rule update_returning_None)

lemma result:
  assumes "distinct (map key t)"
  shows "snd (step i t) =
    (case by_key key i t of None \<Rightarrow> None | Some r \<Rightarrow> if guard r then Some (upd r) else None)"
proof -
  have "map_option upd (scalar (\<lambda>r. key r = i \<and> guard r) t) =
    (case scalar (\<lambda>r. key r = i) t of None \<Rightarrow> None | Some r \<Rightarrow> if guard r then Some (upd r) else None)"
    using assms
  proof (induction t)
    case (Cons a t)
    have "scalar (\<lambda>r. key r = i \<and> guard r) t = None" if "key a = i"
      using Cons.prems that unfolding scalar_None by (auto simp: image_iff)
    with Cons show ?case by auto
  qed simp
  then show ?thesis by (simp add: step_eq update_returning_def by_key_def)
qed

lemma row:
  "by_key key i (fst (step i t)) = map_option (\<lambda>r. if guard r then upd r else r) (by_key key i t)"
  unfolding step_eq update_returning_def by_key_def by (induction t) (auto simp: key_upd)

lemma as_put:
  assumes "distinct (map key t)"
  shows "fst (step i t) =
    (case by_key key i t of None \<Rightarrow> t
     | Some r \<Rightarrow> if guard r then put_row key (upd r) t else t)"
proof (cases "snd (step i t)")
  case None
  then have "fst (step i t) = t" by (rule unchanged)
  with None result[OF assms, of i] show ?thesis by (auto split: option.splits if_splits)
next
  case (Some r')
  with result[OF assms, of i] obtain r where r: "by_key key i t = Some r" "guard r"
    by (auto split: option.splits if_splits)
  have "(if key x = i \<and> guard x then upd x else x) = (if key x = key (upd r) then upd r else x)"
    if "x \<in> set t" for x
  proof (cases "key x = i")
    case True
    with by_key_mem[OF assms that] r(1) have "x = r" by simp
    with True r(2) show ?thesis by (simp add: key_upd)
  next
    case False
    with by_key_Some[OF r(1)] show ?thesis by (simp add: key_upd)
  qed
  with r show ?thesis by (simp add: step_eq update_returning_def put_row_def update_where_def)
qed

lemma row_mem:
  assumes "distinct (map key t)" and "r \<in> set (fst (step i t))"
  shows "r \<in> set t \<or> (\<exists>r0 \<in> set t. key r0 = i \<and> guard r0 \<and> r = upd r0)"
  using assms(2) unfolding step_eq update_returning_def by (auto simp: set_update_where)

end

locale exclusive_transition = row_transition +
  assumes guard_upd: "guard r \<Longrightarrow> \<not> guard (upd r)"
begin

lemma second_refused:
  assumes "distinct (map key t)" and "step i t = (t', Some r)"
  shows "step i t' = (t', None)"
proof -
  have "t' = fst (step i t)" using assms(2) by simp
  then have t': "t' = update_where (\<lambda>r. key r = i \<and> guard r) upd t"
    by (simp add: step_eq update_returning_def)
  have "\<forall>r \<in> set t'. \<not> (key r = i \<and> guard r)"
    unfolding t' set_update_where using guard_upd by (auto simp: key_upd)
  then have "scalar (\<lambda>r. key r = i \<and> guard r) t' = None"
    by (simp add: scalar_None)
  then have n: "snd (step i t') = None" by (simp add: step_eq update_returning_def)
  then have "fst (step i t') = t'" by (rule unchanged)
  with n show ?thesis by (metis prod.collapse)
qed

end

end
