(* ===== verification/Core_Types.thy ===== *)
theory Core_Types
  imports Prelude
begin

text \<open>
  The vocabulary of \<open>packages/core\<close>: the enumerations of \<open>enums.py\<close> (one datatype per class, its
  constructors under a two-letter prefix, and \<open>..._value\<close> for the string value where the sources use
  it), the audit action and error code identifiers of \<open>constants.py\<close>, the error classes of
  \<open>errors.py\<close>, and the fields and policy methods of \<open>settings.py\<close> the modelled code reads.
\<close>

section \<open>Enumerations\<close>

datatype user_role =
    UR_COACH
  | UR_PLAYER
  | UR_ADMIN

fun user_role_value :: "user_role \<Rightarrow> string" where
  "user_role_value UR_COACH = ''coach''"
| "user_role_value UR_PLAYER = ''player''"
| "user_role_value UR_ADMIN = ''admin''"

datatype sport =
    SP_BASKETBALL
  | SP_VOLLEYBALL

fun sport_value :: "sport \<Rightarrow> string" where
  "sport_value SP_BASKETBALL = ''basketball''"
| "sport_value SP_VOLLEYBALL = ''volleyball''"

datatype team_level =
    TL_YOUTH
  | TL_AAU_CLUB
  | TL_MIDDLE_SCHOOL
  | TL_HIGH_SCHOOL
  | TL_JUCO
  | TL_COLLEGE_D3
  | TL_COLLEGE_D2
  | TL_COLLEGE_D1
  | TL_PROFESSIONAL
  | TL_INTERNATIONAL

fun team_level_value :: "team_level \<Rightarrow> string" where
  "team_level_value TL_YOUTH = ''youth''"
| "team_level_value TL_AAU_CLUB = ''aau_club''"
| "team_level_value TL_MIDDLE_SCHOOL = ''middle_school''"
| "team_level_value TL_HIGH_SCHOOL = ''high_school''"
| "team_level_value TL_JUCO = ''juco''"
| "team_level_value TL_COLLEGE_D3 = ''college_d3''"
| "team_level_value TL_COLLEGE_D2 = ''college_d2''"
| "team_level_value TL_COLLEGE_D1 = ''college_d1''"
| "team_level_value TL_PROFESSIONAL = ''professional''"
| "team_level_value TL_INTERNATIONAL = ''international''"

datatype institution_type =
    IT_NONE
  | IT_K12_SCHOOL
  | IT_COLLEGE
  | IT_CLUB
  | IT_ACADEMY
  | IT_PROFESSIONAL

datatype team_role =
    TR_HEAD_COACH
  | TR_ASSISTANT_COACH
  | TR_MANAGER
  | TR_PLAYER
  | TR_CAPTAIN

fun team_role_value :: "team_role \<Rightarrow> string" where
  "team_role_value TR_HEAD_COACH = ''head_coach''"
| "team_role_value TR_ASSISTANT_COACH = ''assistant_coach''"
| "team_role_value TR_MANAGER = ''manager''"
| "team_role_value TR_PLAYER = ''player''"
| "team_role_value TR_CAPTAIN = ''captain''"

datatype game_type =
    GT_SCRIMMAGE
  | GT_PRESEASON
  | GT_REGULAR_SEASON
  | GT_TOURNAMENT
  | GT_PLAYOFF
  | GT_PRACTICE
  | GT_FILM_EXCHANGE

fun game_type_value :: "game_type \<Rightarrow> string" where
  "game_type_value GT_SCRIMMAGE = ''scrimmage''"
| "game_type_value GT_PRESEASON = ''preseason''"
| "game_type_value GT_REGULAR_SEASON = ''regular_season''"
| "game_type_value GT_TOURNAMENT = ''tournament''"
| "game_type_value GT_PLAYOFF = ''playoff''"
| "game_type_value GT_PRACTICE = ''practice''"
| "game_type_value GT_FILM_EXCHANGE = ''film_exchange''"

datatype game_status =
    GS_SCHEDULED
  | GS_UPLOADING
  | GS_PROCESSING
  | GS_COMPLETED
  | GS_FAILED

datatype camera_position =
    CP_SIDELINE
  | CP_BASELINE
  | CP_ELEVATED_CORNER
  | CP_BROADCAST
  | CP_OTHER

datatype camera_height =
    CH_FLOOR
  | CH_ELEVATED
  | CH_OVERHEAD

datatype video_status =
    VS_PENDING_UPLOAD
  | VS_UPLOADING
  | VS_UPLOADED
  | VS_TRANSCODING
  | VS_QUEUED
  | VS_PROCESSING
  | VS_PROCESSED
  | VS_FAILED

fun video_status_value :: "video_status \<Rightarrow> string" where
  "video_status_value VS_PENDING_UPLOAD = ''pending_upload''"
| "video_status_value VS_UPLOADING = ''uploading''"
| "video_status_value VS_UPLOADED = ''uploaded''"
| "video_status_value VS_TRANSCODING = ''transcoding''"
| "video_status_value VS_QUEUED = ''queued''"
| "video_status_value VS_PROCESSING = ''processing''"
| "video_status_value VS_PROCESSED = ''processed''"
| "video_status_value VS_FAILED = ''failed''"

datatype processing_job_stage =
    ST_TRANSCODE
  | ST_DETECTION
  | ST_TRACKING
  | ST_COURT_MAPPING
  | ST_EVENTS
  | ST_METRICS

fun processing_job_stage_value :: "processing_job_stage \<Rightarrow> string" where
  "processing_job_stage_value ST_TRANSCODE = ''transcode''"
| "processing_job_stage_value ST_DETECTION = ''detection''"
| "processing_job_stage_value ST_TRACKING = ''tracking''"
| "processing_job_stage_value ST_COURT_MAPPING = ''court_mapping''"
| "processing_job_stage_value ST_EVENTS = ''events''"
| "processing_job_stage_value ST_METRICS = ''metrics''"

datatype processing_job_status =
    JS_PENDING
  | JS_RUNNING
  | JS_COMPLETED
  | JS_FAILED

fun processing_job_status_value :: "processing_job_status \<Rightarrow> string" where
  "processing_job_status_value JS_PENDING = ''pending''"
| "processing_job_status_value JS_RUNNING = ''running''"
| "processing_job_status_value JS_COMPLETED = ''completed''"
| "processing_job_status_value JS_FAILED = ''failed''"

datatype upload_method =
    UM_PUT
  | UM_MULTIPART

fun upload_method_value :: "upload_method \<Rightarrow> string" where
  "upload_method_value UM_PUT = ''PUT''"
| "upload_method_value UM_MULTIPART = ''MULTIPART''"

datatype model_artifact_status =
    MA_CANDIDATE
  | MA_ACTIVE
  | MA_RETIRED
  | MA_BLOCKED

datatype video_event_type =
    ET_SHOT_ATTEMPT
  | ET_SHOT_MADE
  | ET_REBOUND
  | ET_PASS

fun video_event_type_value :: "video_event_type \<Rightarrow> string" where
  "video_event_type_value ET_SHOT_ATTEMPT = ''shot_attempt''"
| "video_event_type_value ET_SHOT_MADE = ''shot_made''"
| "video_event_type_value ET_REBOUND = ''rebound''"
| "video_event_type_value ET_PASS = ''pass''"

datatype review_status =
    RS_MACHINE_ONLY
  | RS_NEEDS_REVIEW
  | RS_APPROVED
  | RS_REJECTED

fun review_status_value :: "review_status \<Rightarrow> string" where
  "review_status_value RS_MACHINE_ONLY = ''machine_only''"
| "review_status_value RS_NEEDS_REVIEW = ''needs_review''"
| "review_status_value RS_APPROVED = ''approved''"
| "review_status_value RS_REJECTED = ''rejected''"

datatype billing_account_status =
    BA_ACTIVE
  | BA_SUSPENDED
  | BA_CLOSED

datatype subscription_status =
    SS_TRIALING
  | SS_ACTIVE
  | SS_PAST_DUE
  | SS_CANCELED
  | SS_INCOMPLETE

datatype plan_code =
    PC_FREE
  | PC_STARTER
  | PC_PRO
  | PC_ENTERPRISE

section \<open>Audit actions and error codes\<close>

text \<open>Both are classes of string constants: \<open>A_...\<close> for \<open>AuditAction\<close>, \<open>E_...\<close> for \<open>ErrorCode\<close>.\<close>

type_synonym audit_action = string
type_synonym error_code = string

abbreviation "A_ADMIN_AUDIT_LOGS_VIEWED \<equiv> ''admin.audit.logs.viewed''"
abbreviation "A_METRICS_SCRAPE_REJECTED \<equiv> ''observability.metrics.rejected''"
abbreviation "A_USER_REGISTER_SUCCEEDED \<equiv> ''auth.register.succeeded''"
abbreviation "A_USER_REGISTER_FAILED \<equiv> ''auth.register.failed''"
abbreviation "A_USER_LOGIN_SUCCEEDED \<equiv> ''auth.login.succeeded''"
abbreviation "A_USER_LOGIN_FAILED \<equiv> ''auth.login.failed''"
abbreviation "A_USER_REFRESH_SUCCEEDED \<equiv> ''auth.refresh.succeeded''"
abbreviation "A_USER_REFRESH_FAILED \<equiv> ''auth.refresh.failed''"
abbreviation "A_USER_LOGOUT \<equiv> ''auth.logout''"
abbreviation "A_USER_DATA_EXPORTED \<equiv> ''auth.data.exported''"
abbreviation "A_USER_ACCOUNT_DELETED \<equiv> ''auth.account.deleted''"
abbreviation "A_TEAM_CREATED \<equiv> ''teams.create''"
abbreviation "A_TEAM_DELETED \<equiv> ''teams.delete''"
abbreviation "A_TEAM_INVITE_CREATED \<equiv> ''teams.invite.create''"
abbreviation "A_TEAM_PRIVACY_CONSENT_RECORDED \<equiv> ''teams.privacy_consent.recorded''"
abbreviation "A_TEAM_JOIN_SUCCEEDED \<equiv> ''teams.join.succeeded''"
abbreviation "A_TEAM_JOIN_FAILED \<equiv> ''teams.join.failed''"
abbreviation "A_GAME_CREATED \<equiv> ''games.create''"
abbreviation "A_VIDEO_UPLOAD_INITIATED \<equiv> ''videos.upload.initiate''"
abbreviation "A_VIDEO_UPLOAD_COMPLETED \<equiv> ''videos.upload.complete''"
abbreviation "A_VIDEO_UPLOAD_FAILED \<equiv> ''videos.upload.failed''"
abbreviation "A_VIDEO_UPLOAD_ABANDONED \<equiv> ''videos.upload.abandoned''"
abbreviation "A_VIDEO_PROCESSING_QUEUED \<equiv> ''videos.processing.queue''"
abbreviation "A_VIDEO_PROCESSING_DISPATCHED \<equiv> ''videos.processing.dispatch''"
abbreviation "A_VIDEO_PROCESSING_STARTED \<equiv> ''videos.processing.start''"
abbreviation "A_VIDEO_PROCESSING_COMPLETED \<equiv> ''videos.processing.complete''"
abbreviation "A_VIDEO_PROCESSING_FAILED \<equiv> ''videos.processing.failed''"
abbreviation "A_VIDEO_PROCESSING_CANCELLED \<equiv> ''videos.processing.cancelled''"
abbreviation "A_VIDEO_PROCESSING_RECOVERED_STALE \<equiv> ''videos.processing.stale_recovered''"
abbreviation "A_VIDEO_OUTPUT_MATERIALIZED \<equiv> ''videos.output.materialized''"
abbreviation "A_VIDEO_RAW_OBJECT_DELETED \<equiv> ''videos.raw_object.deleted''"
abbreviation "A_VIDEO_RAW_OBJECT_DELETE_FAILED \<equiv> ''videos.raw_object.delete_failed''"
abbreviation "A_VIDEO_PLAYBACK_ISSUED \<equiv> ''videos.playback.issued''"
abbreviation "A_VIDEO_DEMO_PREVIEW_REQUESTED \<equiv> ''videos.demo_preview.requested''"
abbreviation "A_VIDEO_DEMO_PREVIEW_REJECTED \<equiv> ''videos.demo_preview.rejected''"
abbreviation "A_VIDEO_DEMO_PREVIEW_GENERATED \<equiv> ''videos.demo_preview.generated''"
abbreviation "A_VIDEO_DEMO_PREVIEW_FAILED \<equiv> ''videos.demo_preview.failed''"
abbreviation "A_VIDEO_DEMO_PREVIEW_CANCELLED \<equiv> ''videos.demo_preview.cancelled''"
abbreviation "A_VIDEO_EVENT_REVIEWED \<equiv> ''videos.events.reviewed''"
abbreviation "A_VIDEO_EVENT_MANUAL_CREATED \<equiv> ''videos.events.manual_created''"
abbreviation "A_VIDEO_EVENT_EXPORT_CREATED \<equiv> ''videos.events.export_created''"
abbreviation "A_PILOT_INTEREST_RECEIVED \<equiv> ''marketing.pilot_interest.received''"
abbreviation "A_PILOT_INTEREST_REJECTED \<equiv> ''marketing.pilot_interest.rejected''"
abbreviation "A_GAME_UPDATED \<equiv> ''games.update''"
abbreviation "A_VIDEO_PROCESSING_REQUEUED \<equiv> ''videos.processing.requeued''"
abbreviation "A_VIDEO_DELETED \<equiv> ''videos.delete''"
abbreviation "A_VIDEO_DELETE_FAILED \<equiv> ''videos.delete.failed''"
abbreviation "A_USER_EMAIL_VERIFICATION_REQUESTED \<equiv> ''auth.email_verification.requested''"
abbreviation "A_USER_EMAIL_VERIFICATION_SENT \<equiv> ''auth.email_verification.sent''"
abbreviation "A_USER_EMAIL_VERIFICATION_CONFIRMED \<equiv> ''auth.email_verification.confirmed''"
abbreviation "A_USER_EMAIL_VERIFICATION_REJECTED \<equiv> ''auth.email_verification.rejected''"
abbreviation "A_USER_EMAIL_VERIFICATION_TOKENS_PRUNED \<equiv> ''auth.email_verification.tokens_pruned''"
abbreviation "A_USER_PASSWORD_RESET_REQUESTED \<equiv> ''auth.password_reset.requested''"
abbreviation "A_USER_PASSWORD_RESET_SENT \<equiv> ''auth.password_reset.sent''"
abbreviation "A_USER_PASSWORD_RESET_SUCCEEDED \<equiv> ''auth.password_reset.succeeded''"
abbreviation "A_USER_PASSWORD_RESET_REJECTED \<equiv> ''auth.password_reset.rejected''"
abbreviation "A_USER_PASSWORD_RESET_TOKENS_PRUNED \<equiv> ''auth.password_reset.tokens_pruned''"
abbreviation "A_USER_MFA_TOTP_ENROLLED \<equiv> ''auth.mfa.totp.enrolled''"
abbreviation "A_USER_MFA_TOTP_CONFIRMED \<equiv> ''auth.mfa.totp.confirmed''"
abbreviation "A_USER_MFA_TOTP_DISABLED \<equiv> ''auth.mfa.totp.disabled''"
abbreviation "A_USER_MFA_RECOVERY_USED \<equiv> ''auth.mfa.recovery.used''"
abbreviation "A_BILLING_ACCOUNT_CREATED \<equiv> ''billing.account.created''"
abbreviation "A_BILLING_TEAM_LINKED \<equiv> ''billing.team.linked''"
abbreviation "A_BILLING_SUBSCRIPTION_CREATED \<equiv> ''billing.subscription.created''"
abbreviation "A_BILLING_SUBSCRIPTION_UPDATED \<equiv> ''billing.subscription.updated''"
abbreviation "A_BILLING_QUOTA_DENIED \<equiv> ''billing.quota.denied''"

abbreviation "E_VALIDATION_FAILED \<equiv> ''VALIDATION_FAILED''"
abbreviation "E_EMAIL_TAKEN \<equiv> ''EMAIL_TAKEN''"
abbreviation "E_REGISTRATION_DISABLED \<equiv> ''REGISTRATION_DISABLED''"
abbreviation "E_REGISTRATION_INVITE_REQUIRED \<equiv> ''REGISTRATION_INVITE_REQUIRED''"
abbreviation "E_REGISTRATION_INVITE_INVALID \<equiv> ''REGISTRATION_INVITE_INVALID''"
abbreviation "E_REGISTRATION_NOT_ALLOWLISTED \<equiv> ''REGISTRATION_NOT_ALLOWLISTED''"
abbreviation "E_INVALID_CREDENTIALS \<equiv> ''INVALID_CREDENTIALS''"
abbreviation "E_RATE_LIMITED \<equiv> ''RATE_LIMITED''"
abbreviation "E_UNAUTHENTICATED \<equiv> ''UNAUTHENTICATED''"
abbreviation "E_FORBIDDEN \<equiv> ''FORBIDDEN''"
abbreviation "E_NOT_FOUND \<equiv> ''NOT_FOUND''"
abbreviation "E_METHOD_NOT_ALLOWED \<equiv> ''METHOD_NOT_ALLOWED''"
abbreviation "E_USER_INACTIVE \<equiv> ''USER_INACTIVE''"
abbreviation "E_INTERNAL_ERROR \<equiv> ''INTERNAL_ERROR''"
abbreviation "E_CSRF_FAILED \<equiv> ''CSRF_FAILED''"
abbreviation "E_TEAM_NOT_FOUND \<equiv> ''TEAM_NOT_FOUND''"
abbreviation "E_INVITE_NOT_FOUND \<equiv> ''INVITE_NOT_FOUND''"
abbreviation "E_INVITE_EXPIRED \<equiv> ''INVITE_EXPIRED''"
abbreviation "E_INVITE_EXHAUSTED \<equiv> ''INVITE_EXHAUSTED''"
abbreviation "E_INVITE_INACTIVE \<equiv> ''INVITE_INACTIVE''"
abbreviation "E_INVITE_ROLE_MISMATCH \<equiv> ''INVITE_ROLE_MISMATCH''"
abbreviation "E_JERSEY_NUMBER_REQUIRED \<equiv> ''JERSEY_NUMBER_REQUIRED''"
abbreviation "E_JERSEY_NUMBER_TAKEN \<equiv> ''JERSEY_NUMBER_TAKEN''"
abbreviation "E_ALREADY_MEMBER \<equiv> ''ALREADY_MEMBER''"
abbreviation "E_PRIVACY_CONSENT_REQUIRED \<equiv> ''PRIVACY_CONSENT_REQUIRED''"
abbreviation "E_PRIVACY_CONSENT_INVALID \<equiv> ''PRIVACY_CONSENT_INVALID''"
abbreviation "E_GAME_NOT_FOUND \<equiv> ''GAME_NOT_FOUND''"
abbreviation "E_VIDEO_NOT_FOUND \<equiv> ''VIDEO_NOT_FOUND''"
abbreviation "E_INVALID_CONTENT_TYPE \<equiv> ''INVALID_CONTENT_TYPE''"
abbreviation "E_INVALID_FILENAME \<equiv> ''INVALID_FILENAME''"
abbreviation "E_CONTENT_TYPE_EXTENSION_MISMATCH \<equiv> ''CONTENT_TYPE_EXTENSION_MISMATCH''"
abbreviation "E_FILE_TOO_LARGE \<equiv> ''FILE_TOO_LARGE''"
abbreviation "E_FILE_TOO_SMALL \<equiv> ''FILE_TOO_SMALL''"
abbreviation "E_INVALID_FILE_SIZE \<equiv> ''INVALID_FILE_SIZE''"
abbreviation "E_STORAGE_NOT_CONFIGURED \<equiv> ''STORAGE_NOT_CONFIGURED''"
abbreviation "E_STORAGE_FAILURE \<equiv> ''STORAGE_FAILURE''"
abbreviation "E_INVALID_VIDEO_STATE \<equiv> ''INVALID_VIDEO_STATE''"
abbreviation "E_MULTIPART_PARTS_REQUIRED \<equiv> ''MULTIPART_PARTS_REQUIRED''"
abbreviation "E_INVALID_MULTIPART_PARTS \<equiv> ''INVALID_MULTIPART_PARTS''"
abbreviation "E_PROCESSING_JOB_NOT_FOUND \<equiv> ''PROCESSING_JOB_NOT_FOUND''"
abbreviation "E_PROCESSING_JOB_TERMINAL \<equiv> ''PROCESSING_JOB_TERMINAL''"
abbreviation "E_PROCESSING_STORAGE_FAILURE \<equiv> ''PROCESSING_STORAGE_FAILURE''"
abbreviation "E_PROCESSING_CHECKSUM_MISMATCH \<equiv> ''PROCESSING_CHECKSUM_MISMATCH''"
abbreviation "E_PROCESSING_OBJECT_MISSING \<equiv> ''PROCESSING_OBJECT_MISSING''"
abbreviation "E_PROCESSING_SIZE_MISMATCH \<equiv> ''PROCESSING_SIZE_MISMATCH''"
abbreviation "E_PROCESSING_CONTENT_TYPE_MISMATCH \<equiv> ''PROCESSING_CONTENT_TYPE_MISMATCH''"
abbreviation "E_PROCESSING_TRANSCODER_UNAVAILABLE \<equiv> ''PROCESSING_TRANSCODER_UNAVAILABLE''"
abbreviation "E_PROCESSING_TRANSCODE_FAILED \<equiv> ''PROCESSING_TRANSCODE_FAILED''"
abbreviation "E_PROCESSING_CANCELLED \<equiv> ''PROCESSING_CANCELLED''"
abbreviation "E_PROCESSING_STALE_RECOVERED \<equiv> ''PROCESSING_STALE_RECOVERED''"
abbreviation "E_PROCESSING_STAGE_UNKNOWN \<equiv> ''PROCESSING_STAGE_UNKNOWN''"
abbreviation "E_PROCESSING_JOB_NOT_REQUEUABLE \<equiv> ''PROCESSING_JOB_NOT_REQUEUABLE''"
abbreviation "E_CV_PIPELINE_DISABLED \<equiv> ''CV_PIPELINE_DISABLED''"
abbreviation "E_CV_STAGE_PREREQUISITE_MISSING \<equiv> ''CV_STAGE_PREREQUISITE_MISSING''"
abbreviation "E_CV_MODEL_ARTIFACT_REQUIRED \<equiv> ''CV_MODEL_ARTIFACT_REQUIRED''"
abbreviation "E_PLAYBACK_NOT_AVAILABLE \<equiv> ''PLAYBACK_NOT_AVAILABLE''"
abbreviation "E_DEMO_PREVIEW_NOT_ENABLED \<equiv> ''DEMO_PREVIEW_NOT_ENABLED''"
abbreviation "E_DEMO_PREVIEW_IN_PROGRESS \<equiv> ''DEMO_PREVIEW_IN_PROGRESS''"
abbreviation "E_DEMO_PREVIEW_MACHINE_BUSY \<equiv> ''DEMO_PREVIEW_MACHINE_BUSY''"
abbreviation "E_DEMO_PREVIEW_FAILED \<equiv> ''DEMO_PREVIEW_FAILED''"
abbreviation "E_INVALID_PAGINATION \<equiv> ''INVALID_PAGINATION''"
abbreviation "E_GAME_TERMINAL_STATUS \<equiv> ''GAME_TERMINAL_STATUS''"
abbreviation "E_EMAIL_VERIFICATION_TOKEN_INVALID \<equiv> ''EMAIL_VERIFICATION_TOKEN_INVALID''"
abbreviation "E_EMAIL_VERIFICATION_TOKEN_EXPIRED \<equiv> ''EMAIL_VERIFICATION_TOKEN_EXPIRED''"
abbreviation "E_EMAIL_VERIFICATION_TOKEN_USED \<equiv> ''EMAIL_VERIFICATION_TOKEN_USED''"
abbreviation "E_EMAIL_ALREADY_VERIFIED \<equiv> ''EMAIL_ALREADY_VERIFIED''"
abbreviation "E_PASSWORD_RESET_TOKEN_INVALID \<equiv> ''PASSWORD_RESET_TOKEN_INVALID''"
abbreviation "E_PASSWORD_RESET_TOKEN_EXPIRED \<equiv> ''PASSWORD_RESET_TOKEN_EXPIRED''"
abbreviation "E_PASSWORD_RESET_TOKEN_USED \<equiv> ''PASSWORD_RESET_TOKEN_USED''"
abbreviation "E_MFA_NOT_ENROLLED \<equiv> ''MFA_NOT_ENROLLED''"
abbreviation "E_MFA_ALREADY_ENROLLED \<equiv> ''MFA_ALREADY_ENROLLED''"
abbreviation "E_MFA_NOT_CONFIRMED \<equiv> ''MFA_NOT_CONFIRMED''"
abbreviation "E_MFA_REQUIRED \<equiv> ''MFA_REQUIRED''"
abbreviation "E_MFA_INVALID_CODE \<equiv> ''MFA_INVALID_CODE''"
abbreviation "E_MFA_DISABLED_REQUIRES_PASSWORD \<equiv> ''MFA_DISABLED_REQUIRES_PASSWORD''"
abbreviation "E_BILLING_ACCOUNT_NOT_FOUND \<equiv> ''BILLING_ACCOUNT_NOT_FOUND''"
abbreviation "E_BILLING_PLAN_NOT_FOUND \<equiv> ''BILLING_PLAN_NOT_FOUND''"
abbreviation "E_BILLING_QUOTA_EXCEEDED \<equiv> ''BILLING_QUOTA_EXCEEDED''"
abbreviation "E_BILLING_ENTITLEMENT_REQUIRED \<equiv> ''BILLING_ENTITLEMENT_REQUIRED''"

definition AuditAction :: "string list" where
  "AuditAction = [
    A_ADMIN_AUDIT_LOGS_VIEWED, A_METRICS_SCRAPE_REJECTED, A_USER_REGISTER_SUCCEEDED,
    A_USER_REGISTER_FAILED, A_USER_LOGIN_SUCCEEDED, A_USER_LOGIN_FAILED,
    A_USER_REFRESH_SUCCEEDED, A_USER_REFRESH_FAILED, A_USER_LOGOUT, A_USER_DATA_EXPORTED,
    A_USER_ACCOUNT_DELETED, A_TEAM_CREATED, A_TEAM_DELETED, A_TEAM_INVITE_CREATED,
    A_TEAM_PRIVACY_CONSENT_RECORDED, A_TEAM_JOIN_SUCCEEDED, A_TEAM_JOIN_FAILED, A_GAME_CREATED,
    A_VIDEO_UPLOAD_INITIATED, A_VIDEO_UPLOAD_COMPLETED, A_VIDEO_UPLOAD_FAILED,
    A_VIDEO_UPLOAD_ABANDONED, A_VIDEO_PROCESSING_QUEUED, A_VIDEO_PROCESSING_DISPATCHED,
    A_VIDEO_PROCESSING_STARTED, A_VIDEO_PROCESSING_COMPLETED, A_VIDEO_PROCESSING_FAILED,
    A_VIDEO_PROCESSING_CANCELLED, A_VIDEO_PROCESSING_RECOVERED_STALE,
    A_VIDEO_OUTPUT_MATERIALIZED, A_VIDEO_RAW_OBJECT_DELETED, A_VIDEO_RAW_OBJECT_DELETE_FAILED,
    A_VIDEO_PLAYBACK_ISSUED, A_VIDEO_DEMO_PREVIEW_REQUESTED, A_VIDEO_DEMO_PREVIEW_REJECTED,
    A_VIDEO_DEMO_PREVIEW_GENERATED, A_VIDEO_DEMO_PREVIEW_FAILED, A_VIDEO_DEMO_PREVIEW_CANCELLED,
    A_VIDEO_EVENT_REVIEWED, A_VIDEO_EVENT_MANUAL_CREATED, A_VIDEO_EVENT_EXPORT_CREATED,
    A_PILOT_INTEREST_RECEIVED, A_PILOT_INTEREST_REJECTED, A_GAME_UPDATED,
    A_VIDEO_PROCESSING_REQUEUED, A_VIDEO_DELETED, A_VIDEO_DELETE_FAILED,
    A_USER_EMAIL_VERIFICATION_REQUESTED, A_USER_EMAIL_VERIFICATION_SENT,
    A_USER_EMAIL_VERIFICATION_CONFIRMED, A_USER_EMAIL_VERIFICATION_REJECTED,
    A_USER_EMAIL_VERIFICATION_TOKENS_PRUNED, A_USER_PASSWORD_RESET_REQUESTED,
    A_USER_PASSWORD_RESET_SENT, A_USER_PASSWORD_RESET_SUCCEEDED, A_USER_PASSWORD_RESET_REJECTED,
    A_USER_PASSWORD_RESET_TOKENS_PRUNED, A_USER_MFA_TOTP_ENROLLED, A_USER_MFA_TOTP_CONFIRMED,
    A_USER_MFA_TOTP_DISABLED, A_USER_MFA_RECOVERY_USED, A_BILLING_ACCOUNT_CREATED,
    A_BILLING_TEAM_LINKED, A_BILLING_SUBSCRIPTION_CREATED, A_BILLING_SUBSCRIPTION_UPDATED,
    A_BILLING_QUOTA_DENIED]"

definition ErrorCode :: "string list" where
  "ErrorCode = [
    E_VALIDATION_FAILED, E_EMAIL_TAKEN, E_REGISTRATION_DISABLED, E_REGISTRATION_INVITE_REQUIRED,
    E_REGISTRATION_INVITE_INVALID, E_REGISTRATION_NOT_ALLOWLISTED, E_INVALID_CREDENTIALS,
    E_RATE_LIMITED, E_UNAUTHENTICATED, E_FORBIDDEN, E_NOT_FOUND, E_METHOD_NOT_ALLOWED,
    E_USER_INACTIVE, E_INTERNAL_ERROR, E_CSRF_FAILED, E_TEAM_NOT_FOUND, E_INVITE_NOT_FOUND,
    E_INVITE_EXPIRED, E_INVITE_EXHAUSTED, E_INVITE_INACTIVE, E_INVITE_ROLE_MISMATCH,
    E_JERSEY_NUMBER_REQUIRED, E_JERSEY_NUMBER_TAKEN, E_ALREADY_MEMBER,
    E_PRIVACY_CONSENT_REQUIRED, E_PRIVACY_CONSENT_INVALID, E_GAME_NOT_FOUND, E_VIDEO_NOT_FOUND,
    E_INVALID_CONTENT_TYPE, E_INVALID_FILENAME, E_CONTENT_TYPE_EXTENSION_MISMATCH,
    E_FILE_TOO_LARGE, E_FILE_TOO_SMALL, E_INVALID_FILE_SIZE, E_STORAGE_NOT_CONFIGURED,
    E_STORAGE_FAILURE, E_INVALID_VIDEO_STATE, E_MULTIPART_PARTS_REQUIRED,
    E_INVALID_MULTIPART_PARTS, E_PROCESSING_JOB_NOT_FOUND, E_PROCESSING_JOB_TERMINAL,
    E_PROCESSING_STORAGE_FAILURE, E_PROCESSING_CHECKSUM_MISMATCH, E_PROCESSING_OBJECT_MISSING,
    E_PROCESSING_SIZE_MISMATCH, E_PROCESSING_CONTENT_TYPE_MISMATCH,
    E_PROCESSING_TRANSCODER_UNAVAILABLE, E_PROCESSING_TRANSCODE_FAILED, E_PROCESSING_CANCELLED,
    E_PROCESSING_STALE_RECOVERED, E_PROCESSING_STAGE_UNKNOWN, E_PROCESSING_JOB_NOT_REQUEUABLE,
    E_CV_PIPELINE_DISABLED, E_CV_STAGE_PREREQUISITE_MISSING, E_CV_MODEL_ARTIFACT_REQUIRED,
    E_PLAYBACK_NOT_AVAILABLE, E_DEMO_PREVIEW_NOT_ENABLED, E_DEMO_PREVIEW_IN_PROGRESS,
    E_DEMO_PREVIEW_MACHINE_BUSY, E_DEMO_PREVIEW_FAILED, E_INVALID_PAGINATION,
    E_GAME_TERMINAL_STATUS, E_EMAIL_VERIFICATION_TOKEN_INVALID,
    E_EMAIL_VERIFICATION_TOKEN_EXPIRED, E_EMAIL_VERIFICATION_TOKEN_USED,
    E_EMAIL_ALREADY_VERIFIED, E_PASSWORD_RESET_TOKEN_INVALID, E_PASSWORD_RESET_TOKEN_EXPIRED,
    E_PASSWORD_RESET_TOKEN_USED, E_MFA_NOT_ENROLLED, E_MFA_ALREADY_ENROLLED, E_MFA_NOT_CONFIRMED,
    E_MFA_REQUIRED, E_MFA_INVALID_CODE, E_MFA_DISABLED_REQUIRES_PASSWORD,
    E_BILLING_ACCOUNT_NOT_FOUND, E_BILLING_PLAN_NOT_FOUND, E_BILLING_QUOTA_EXCEEDED,
    E_BILLING_ENTITLEMENT_REQUIRED]"

section \<open>Errors\<close>

text \<open>
  An \<open>AppError\<close> carries the HTTP status, the code and the details (the message text is not
  modelled). Each subclass is a function of the code and details its constructor was given, with the
  class defaults where the call site passes none. \<open>RuntimeError\<close> is Python's own exception, with
  its message; \<open>StorageException\<close> any other exception that escapes the storage client; \<open>ValueError\<close>
  the one with its message, \<open>PyError\<close> any other exception by the name of its class.
\<close>

datatype exn =
    AppError (status_code: int) (code: error_code) (details: jobj)
  | RuntimeError string
  | StorageException
  | ValueError string
  | PyError string

definition ValidationFailedError :: "error_code \<Rightarrow> jobj \<Rightarrow> exn" where
  "ValidationFailedError c d = AppError 422 c d"

definition AuthenticationError :: exn where
  "AuthenticationError = AppError 401 E_UNAUTHENTICATED []"

definition InvalidCredentialsError :: exn where
  "InvalidCredentialsError = AppError 401 E_INVALID_CREDENTIALS []"

definition ForbiddenError :: "error_code \<Rightarrow> jobj \<Rightarrow> exn" where
  "ForbiddenError c d = AppError 403 c d"

definition NotFoundError :: "error_code \<Rightarrow> exn" where
  "NotFoundError c = AppError 404 c []"

definition ConflictError :: "error_code \<Rightarrow> jobj \<Rightarrow> exn" where
  "ConflictError c d = AppError 409 c d"

definition TooManyRequestsError :: "jobj \<Rightarrow> exn" where
  "TooManyRequestsError d = AppError 429 E_RATE_LIMITED d"

definition StorageFailureError :: "jobj \<Rightarrow> exn" where
  "StorageFailureError d = AppError 502 E_STORAGE_FAILURE d"

definition is_storage_failure :: "exn \<Rightarrow> bool" where
  "is_storage_failure e =
     (case e of AppError s c d \<Rightarrow> s = 502 \<and> c = E_STORAGE_FAILURE | _ \<Rightarrow> False)"

definition ServiceUnavailableError :: "error_code \<Rightarrow> exn" where
  "ServiceUnavailableError c = AppError 503 c []"

lemmas error_defs =
  ValidationFailedError_def AuthenticationError_def InvalidCredentialsError_def ForbiddenError_def
  NotFoundError_def ConflictError_def TooManyRequestsError_def ServiceUnavailableError_def
  StorageFailureError_def

section \<open>Settings\<close>

record settings =
  app_env :: string
  frontend_app_url :: string
  s3_endpoint_url :: "string option"
  s3_access_key :: "string option"
  s3_secret_key :: "string option"
  s3_bucket_raw :: "string option"
  redis_url :: "string option"
  rate_limit_fail_closed :: "bool option"
  require_privacy_consent_for_sensitive_uploads :: "bool option"
  require_verified_email_for_sensitive_actions :: "bool option"
  team_join_rate_limit_attempts :: int
  team_join_rate_limit_window_seconds :: int
  video_upload_rate_limit_attempts :: int
  video_upload_rate_limit_window_seconds :: int
  billing_provider :: string
  billing_default_plan_code :: string
  max_upload_size_bytes :: int
  min_upload_size_bytes :: int
  upload_multipart_threshold_bytes :: int
  upload_multipart_part_size_bytes :: int
  upload_url_expires_seconds :: int
  upload_presigned_put_checksum_header :: bool
  allowed_video_content_types :: "string list"
  upload_content_type_extensions :: "(string \<times> string list) list"
  raw_video_retention_days :: int
  celery_task_default_queue :: string
  celery_transcode_queue :: string
  celery_gpu_queue :: string
  celery_cpu_queue :: string
  cv_pipeline_enabled :: bool
  cv_require_model_artifacts :: bool
  cv_model_artifact_required_stages :: "string list"
  worker_stale_heartbeat_seconds :: int
  worker_dispatch_interval_seconds :: int
  raw_video_retention_cleanup_batch_size :: int
  csp_report_retention_days :: int
  worker_abandoned_upload_grace_seconds :: int
  jwt_algorithm :: string
  jwt_issuer :: string
  jwt_private_key :: "string option"
  jwt_private_key_text :: string
  access_token_expire_minutes :: int
  refresh_token_expire_days :: int
  playback_token_expire_seconds :: int
  playback_url_expires_seconds :: int
  playback_token_audience :: string
  auth_rate_limit_attempts :: int
  auth_rate_limit_window_seconds :: int
  registration_mode :: string
  registration_invite_codes :: "string list"
  registration_email_allowlist :: "string list"
  email_verification_token_ttl_minutes :: int
  email_verification_request_rate_attempts :: int
  email_verification_request_rate_window_seconds :: int
  email_delivery_provider :: string
  email_verification_redirect_path :: string
  password_reset_token_ttl_minutes :: int
  password_reset_request_rate_attempts :: int
  password_reset_request_rate_window_seconds :: int
  password_reset_confirm_rate_attempts :: int
  password_reset_confirm_rate_window_seconds :: int
  password_reset_redirect_path :: string
  mfa_secret_key :: "string option"
  mfa_totp_issuer :: string
  mfa_totp_step_seconds :: int
  mfa_totp_digits :: nat
  mfa_recovery_code_count :: nat
  cookie_access_name :: string
  cookie_refresh_name :: string
  cookie_csrf_name :: string
  cookie_host_prefix :: bool
  csrf_secret :: "string option"
  csrf_token_ttl_seconds :: int
  csrf_protected_methods :: "string list"
  csrf_exempt_paths :: "string list"
  trusted_proxy_ips :: "string list"
  cookie_refresh_path :: string
  cookie_secure :: bool
  cookie_samesite :: string
  cookie_domain :: "string option"
  worker_job_max_retries :: int
  worker_job_retry_backoff_seconds :: int
  celery_broker_url :: "string option"
  email_verification_from_address :: string
  postmark_server_token :: "string option"
  postmark_message_stream :: string
  demo_preview_url_expires_seconds :: int
  celery_demo_preview_queue :: string
  cv_demo_preview_enabled :: bool
  cv_alpha_detector_preview_enabled :: bool
  cv_demo_timeout_seconds :: int
  cv_alpha_candidate_tags_enabled :: bool
  video_demo_preview_rate_limit_attempts :: int
  video_demo_preview_rate_limit_window_seconds :: int

text \<open>The defaults of the class, the development environment.\<close>

definition default_settings :: settings where
  "default_settings = \<lparr>
     app_env = ''development'', frontend_app_url = ''http://localhost:3000'',
     s3_endpoint_url = None, s3_access_key = None, s3_secret_key = None, s3_bucket_raw = None,
     redis_url = None, rate_limit_fail_closed = None,
     require_privacy_consent_for_sensitive_uploads = None,
     require_verified_email_for_sensitive_actions = None,
     team_join_rate_limit_attempts = 20, team_join_rate_limit_window_seconds = 60,
     video_upload_rate_limit_attempts = 30, video_upload_rate_limit_window_seconds = 3600,
     billing_provider = ''stub'', billing_default_plan_code = ''free'',
     max_upload_size_bytes = 10737418240, min_upload_size_bytes = 1048576,
     upload_multipart_threshold_bytes = 1073741824,
     upload_multipart_part_size_bytes = 100 * 1024 * 1024, upload_url_expires_seconds = 3600,
     upload_presigned_put_checksum_header = True,
     allowed_video_content_types = [''video/mp4'', ''video/quicktime'', ''video/x-matroska''],
     upload_content_type_extensions = 
       [(''video/mp4'', [''.mp4'']), (''video/quicktime'', [''.mov'']),
        (''video/x-matroska'', [''.mkv''])],
     raw_video_retention_days = 365,
     celery_task_default_queue = ''nextballup.default'',
     celery_transcode_queue = ''nextballup.transcode'',
     celery_gpu_queue = ''nextballup.gpu'', celery_cpu_queue = ''nextballup.cpu'',
     cv_pipeline_enabled = False, cv_require_model_artifacts = True,
     cv_model_artifact_required_stages = 
       [''detection'', ''tracking'', ''court_mapping'', ''events''],
     worker_stale_heartbeat_seconds = 300, worker_dispatch_interval_seconds = 10,
     raw_video_retention_cleanup_batch_size = 100,
     csp_report_retention_days = 90,
     worker_abandoned_upload_grace_seconds = 300,
     jwt_algorithm = ''RS256'',
     jwt_issuer = ''nextballup'',
     jwt_private_key = None,
     jwt_private_key_text = [],
     access_token_expire_minutes = 15,
     refresh_token_expire_days = 7,
     playback_token_expire_seconds = 120,
     playback_url_expires_seconds = 600,
     playback_token_audience = ''video:playback'',
     auth_rate_limit_attempts = 5,
     auth_rate_limit_window_seconds = 60,
     registration_mode = ''open'',
     registration_invite_codes = [],
     registration_email_allowlist = [],
     email_verification_token_ttl_minutes = 60,
     email_verification_request_rate_attempts = 5,
     email_verification_request_rate_window_seconds = 900,
     email_delivery_provider = ''logging'',
     email_verification_redirect_path = ''/verify-email'',
     password_reset_token_ttl_minutes = 30,
     password_reset_request_rate_attempts = 5,
     password_reset_request_rate_window_seconds = 900,
     password_reset_confirm_rate_attempts = 10,
     password_reset_confirm_rate_window_seconds = 900,
     password_reset_redirect_path = ''/reset-password'',
     mfa_secret_key = None,
     mfa_totp_issuer = ''NextBallUp'',
     mfa_totp_step_seconds = 30,
     mfa_totp_digits = 6,
     mfa_recovery_code_count = 10,
     cookie_access_name = ''nbu_access_token'',
     cookie_refresh_name = ''nbu_refresh_token'',
     cookie_csrf_name = ''nbu_csrf_token'',
     cookie_host_prefix = False,
     csrf_secret = None,
     csrf_token_ttl_seconds = 86400,
     csrf_protected_methods = [''POST'', ''PUT'', ''PATCH'', ''DELETE''],
     csrf_exempt_paths = [''/api/v1/auth/login'', ''/api/v1/auth/register'', ''/api/v1/auth/refresh'',
        ''/api/v1/auth/password/forgot'', ''/api/v1/auth/password/reset'', ''/api/v1/_csp-report'',
        ''/api/v1/pilot-interest''],
     trusted_proxy_ips = [],
     cookie_refresh_path = ''/api/v1/auth/refresh'',
     cookie_secure = False,
     cookie_samesite = ''lax'',
     cookie_domain = None,
     worker_job_max_retries = 3,
     worker_job_retry_backoff_seconds = 30,
     celery_broker_url = None,
     email_verification_from_address = ''no-reply@nextballup.invalid'',
     postmark_server_token = None, postmark_message_stream = ''outbound'',
     demo_preview_url_expires_seconds = 7200,
     celery_demo_preview_queue = ''nextballup.demo_preview'',
     cv_demo_preview_enabled = False, cv_alpha_detector_preview_enabled = False,
     cv_demo_timeout_seconds = 1800, cv_alpha_candidate_tags_enabled = False,
     video_demo_preview_rate_limit_attempts = 6, video_demo_preview_rate_limit_window_seconds = 600\<rparr>"

definition storage_configured :: "settings \<Rightarrow> bool" where
  "storage_configured s =
     (truthy (s3_endpoint_url s) \<and> truthy (s3_access_key s) \<and>
      truthy (s3_secret_key s) \<and> truthy (s3_bucket_raw s))"

definition should_rate_limit_fail_closed :: "settings \<Rightarrow> bool" where
  "should_rate_limit_fail_closed s =
     (case rate_limit_fail_closed s of
        Some b \<Rightarrow> b
      | None \<Rightarrow> app_env s \<in> {''staging'', ''production''})"

definition should_require_sensitive_upload_consent :: "settings \<Rightarrow> bool" where
  "should_require_sensitive_upload_consent s =
     (case require_privacy_consent_for_sensitive_uploads s of
        Some b \<Rightarrow> b
      | None \<Rightarrow> app_env s \<noteq> ''test'')"

definition should_require_verified_email_for_sensitive_actions :: "settings \<Rightarrow> bool" where
  "should_require_verified_email_for_sensitive_actions s =
     (case require_verified_email_for_sensitive_actions s of
        Some b \<Rightarrow> b
      | None \<Rightarrow> app_env s \<in> {''staging'', ''production''})"

definition load_jwt_private_key :: "settings \<Rightarrow> string" where
  "load_jwt_private_key s =
     (case jwt_private_key s of
        Some k \<Rightarrow> if k = [] then jwt_private_key_text s else k
      | None \<Rightarrow> jwt_private_key_text s)"

definition effective_csrf_secret :: "settings \<Rightarrow> string" where
  "effective_csrf_secret s =
     (case csrf_secret s of
        Some k \<Rightarrow> if k = [] then ''csrf-dev-fallback::'' @ take 64 (load_jwt_private_key s) else k
      | None \<Rightarrow> ''csrf-dev-fallback::'' @ take 64 (load_jwt_private_key s))"

definition effective_mfa_secret_key :: "settings \<Rightarrow> string" where
  "effective_mfa_secret_key s =
     (case mfa_secret_key s of
        Some k \<Rightarrow> if k = [] then ''mfa-dev-fallback::'' @ take 64 (load_jwt_private_key s) else k
      | None \<Rightarrow> ''mfa-dev-fallback::'' @ take 64 (load_jwt_private_key s))"

definition is_registration_invite_required :: "settings \<Rightarrow> bool" where
  "is_registration_invite_required s = (registration_mode s = ''invite_only'')"

definition is_registration_disabled :: "settings \<Rightarrow> bool" where
  "is_registration_disabled s = (registration_mode s = ''disabled'')"

definition is_registration_email_allowlisted :: "settings \<Rightarrow> string \<Rightarrow> bool" where
  "is_registration_email_allowlisted s email =
     (if registration_mode s \<noteq> ''allowlist'' then True
      else py_lower (py_strip email) \<in> set (registration_email_allowlist s))"

definition is_valid_registration_invite_code :: "settings \<Rightarrow> string option \<Rightarrow> bool" where
  "is_valid_registration_invite_code s invite =
     (if \<not> is_registration_invite_required s then True
      else
        (case invite of
           None \<Rightarrow> False
         | Some c \<Rightarrow> c \<noteq> [] \<and> py_strip c \<in> set (registration_invite_codes s)))"

definition alpha_detector_preview_enabled :: "settings \<Rightarrow> bool" where
  "alpha_detector_preview_enabled s =
     (cv_alpha_detector_preview_enabled s \<and> app_env s \<in> {''development'', ''test'', ''staging''})"

definition local_demo_preview_enabled :: "settings \<Rightarrow> bool" where
  "local_demo_preview_enabled s =
     ((cv_demo_preview_enabled s \<and> app_env s \<in> {''development'', ''test''}) \<or> alpha_detector_preview_enabled s)"

definition alpha_candidate_tags_enabled :: "settings \<Rightarrow> bool" where
  "alpha_candidate_tags_enabled s = (cv_alpha_candidate_tags_enabled s \<and> alpha_detector_preview_enabled s)"

definition rstrip_slashes :: "string \<Rightarrow> string" where
  "rstrip_slashes s = rstrip_by (\<lambda>c. c = CHR ''/'') s"

definition token_link :: "string \<Rightarrow> string \<Rightarrow> string \<Rightarrow> string \<Rightarrow> string" where
  "token_link base path fallback token =
     (let path = (if path = [] then fallback else path);
          path = (if take 1 path \<noteq> ''/'' then ''/'' @ path else path)
      in rstrip_slashes base @ path @ ''?token='' @ token)"

definition email_verification_link :: "settings \<Rightarrow> string \<Rightarrow> string" where
  "email_verification_link s token =
     token_link (frontend_app_url s) (email_verification_redirect_path s) ''/verify-email'' token"

definition password_reset_link :: "settings \<Rightarrow> string \<Rightarrow> string" where
  "password_reset_link s token =
     token_link (frontend_app_url s) (password_reset_redirect_path s) ''/reset-password'' token"

end
