(* ===== verification/Encoding.thy ===== *)
theory Encoding
  imports Prelude
begin

text \<open>
  The byte encodings of Python's standard library that the sources use: \<open>bytes.hex\<close> and
  \<open>bytes.fromhex\<close>, \<open>str(uuid)\<close>, \<open>base64.b64encode\<close> and the lenient \<open>base64.b64decode\<close> (characters
  outside the alphabet are skipped, padding ends the input once it completes a group). A byte string
  is the list of its byte values.
\<close>

type_synonym bytes = "nat list"

abbreviation is_bytes :: "bytes \<Rightarrow> bool" where
  "is_bytes bs \<equiv> (\<forall>b \<in> set bs. b < 256)"

section \<open>Decimal\<close>

text \<open>\<open>str(n)\<close> of an integer.\<close>

fun nat_str :: "nat \<Rightarrow> string" where
  "nat_str n = (if n < 10 then [char_of (48 + n)] else nat_str (n div 10) @ [char_of (48 + n mod 10)])"

declare nat_str.simps [simp del]

definition int_str :: "int \<Rightarrow> string" where
  "int_str n = (if n < 0 then ''-'' @ nat_str (nat (- n)) else nat_str (nat n))"

section \<open>Hexadecimal\<close>

definition hex_digit :: "nat \<Rightarrow> char" where
  "hex_digit n = (if n < 10 then char_of (48 + n) else char_of (87 + n))"

definition hex_val :: "char \<Rightarrow> nat option" where
  "hex_val c =
     (let n = of_char c in
      if 48 \<le> n \<and> n \<le> 57 then Some (n - 48)
      else if 97 \<le> n \<and> n \<le> 102 then Some (n - 87)
      else if 65 \<le> n \<and> n \<le> 70 then Some (n - 55) else None)"

lemma hex_val_digit [simp]: "n < 16 \<Longrightarrow> hex_val (hex_digit n) = Some n"
  by (auto simp: hex_val_def hex_digit_def Let_def)

lemma hex_digit_inj: "m < 16 \<Longrightarrow> n < 16 \<Longrightarrow> hex_digit m = hex_digit n \<Longrightarrow> m = n"
  by (metis hex_val_digit option.inject)

lemma hex_digit_range: "n < 16 \<Longrightarrow> of_char (hex_digit n) \<in> {48..57} \<union> {97..102::nat}"
  by (auto simp: hex_digit_def)

fun hex :: "bytes \<Rightarrow> string" where
  "hex [] = []"
| "hex (b # bs) = hex_digit (b div 16) # hex_digit (b mod 16) # hex bs"

fun fromhex :: "string \<Rightarrow> bytes option" where
  "fromhex [] = Some []"
| "fromhex [c] = (if py_isspace c then Some [] else None)"
| "fromhex (c # d # s) =
     (if py_isspace c then fromhex (d # s)
      else case (hex_val c, hex_val d) of
        (Some h, Some l) \<Rightarrow> map_option (\<lambda>bs. (16 * h + l) # bs) (fromhex s)
      | _ \<Rightarrow> None)"

lemma not_space_hex_digit [simp]: "n < 16 \<Longrightarrow> \<not> py_isspace (hex_digit n)"
  using hex_digit_range[of n] by (auto simp: py_isspace_def)

lemma fromhex_hex [simp]: "is_bytes bs \<Longrightarrow> fromhex (hex bs) = Some bs"
  by (induction bs) auto

section \<open>UUIDs\<close>

fun hex_string :: "nat \<Rightarrow> nat \<Rightarrow> string" where
  "hex_string 0 n = []"
| "hex_string (Suc k) n = hex_string k (n div 16) @ [hex_digit (n mod 16)]"

definition uuid_str :: "uuid \<Rightarrow> string" where
  "uuid_str n =
     (let h = hex_string 32 n in
      take 8 h @ ''-'' @ take 4 (drop 8 h) @ ''-'' @ take 4 (drop 12 h) @ ''-'' @
      take 4 (drop 16 h) @ ''-'' @ drop 20 h)"

lemma length_hex_string [simp]: "length (hex_string k n) = k"
  by (induction k arbitrary: n) auto

lemma hex_string_inj: "m < 16 ^ k \<Longrightarrow> n < 16 ^ k \<Longrightarrow> hex_string k m = hex_string k n \<Longrightarrow> m = n"
proof (induction k arbitrary: m n)
  case (Suc k)
  then have "m div 16 < 16 ^ k" "n div 16 < 16 ^ k"
    and h: "hex_string k (m div 16) = hex_string k (n div 16)" "hex_digit (m mod 16) = hex_digit (n mod 16)"
    by (simp_all add: less_mult_imp_div_less mult.commute)
  then have "m div 16 = n div 16" by (intro Suc.IH)
  moreover have "m mod 16 = n mod 16" by (rule hex_digit_inj[OF _ _ h(2)]) simp_all
  ultimately show ?case by (metis div_mult_mod_eq)
qed simp

lemma set_hex_string: "c \<in> set (hex_string k n) \<Longrightarrow> of_char c \<in> {48..57} \<union> {97..102::nat}"
proof (induction k arbitrary: n)
  case (Suc k)
  then show ?case using hex_digit_range[of "n mod 16"] by auto
qed simp

lemma uuid_str_inj:
  assumes "m < 2 ^ 128" "n < 2 ^ 128" "uuid_str m = uuid_str n"
  shows "m = n"
proof (rule hex_string_inj[of _ 32])
  let ?a = "hex_string 32 m" and ?b = "hex_string 32 n"
  have "take 8 ?a = take 8 ?b" "take 4 (drop 8 ?a) = take 4 (drop 8 ?b)"
    "take 4 (drop 12 ?a) = take 4 (drop 12 ?b)" "take 4 (drop 16 ?a) = take 4 (drop 16 ?b)"
    "drop 20 ?a = drop 20 ?b"
    using assms(3) unfolding uuid_str_def Let_def by simp_all
  moreover have "h = take 8 h @ take 4 (drop 8 h) @ take 4 (drop 12 h) @ take 4 (drop 16 h) @ drop 20 h"
    for h :: string
    using append_take_drop_id[of 8 h] append_take_drop_id[of 4 "drop 8 h"]
      append_take_drop_id[of 4 "drop 12 h"] append_take_drop_id[of 4 "drop 16 h"] by simp
  ultimately show "?a = ?b" by metis
qed (use assms(1,2) in simp_all)

lemma set_uuid_str: "c \<in> set (uuid_str n) \<Longrightarrow> of_char c \<in> {45} \<union> {48..57} \<union> {97..102::nat}"
  unfolding uuid_str_def Let_def
  by (auto dest!: in_set_takeD in_set_dropD set_hex_string)

section \<open>Base 64\<close>

definition b64_char :: "nat \<Rightarrow> char" where
  "b64_char n =
     (if n < 26 then char_of (65 + n)
      else if n < 52 then char_of (71 + n)
      else if n < 62 then char_of (n - 4)
      else if n = 62 then CHR ''+'' else CHR ''/'')"

definition b64_val :: "char \<Rightarrow> nat option" where
  "b64_val c =
     (let n = of_char c in
      if 65 \<le> n \<and> n \<le> 90 then Some (n - 65)
      else if 97 \<le> n \<and> n \<le> 122 then Some (n - 71)
      else if 48 \<le> n \<and> n \<le> 57 then Some (n + 4)
      else if c = CHR ''+'' then Some 62
      else if c = CHR ''/'' then Some 63 else None)"

fun b64encode :: "bytes \<Rightarrow> string" where
  "b64encode [] = []"
| "b64encode [a] = [b64_char (a div 4), b64_char (a mod 4 * 16), CHR ''='', CHR ''='']"
| "b64encode [a, b] =
     [b64_char (a div 4), b64_char (a mod 4 * 16 + b div 16), b64_char (b mod 16 * 4), CHR ''='']"
| "b64encode (a # b # c # s) =
     b64_char (a div 4) # b64_char (a mod 4 * 16 + b div 16) #
     b64_char (b mod 16 * 4 + c div 64) # b64_char (c mod 64) # b64encode s"

text \<open>
  \<open>binascii.a2b_base64\<close>: the position in the group of four, the bits left over, the padding
  characters seen in a row. \<open>None\<close> is \<open>binascii.Error\<close>.
\<close>

fun a2b_base64 :: "nat \<Rightarrow> nat \<Rightarrow> nat \<Rightarrow> string \<Rightarrow> bytes option" where
  "a2b_base64 quad_pos leftchar pads [] = (if quad_pos \<noteq> 0 then None else Some [])"
| "a2b_base64 quad_pos leftchar pads (ch # s) =
     (if ch = CHR ''='' then
        (if quad_pos \<ge> 2 then
           (if quad_pos + (pads + 1) \<ge> 4 then Some []
            else a2b_base64 quad_pos leftchar (pads + 1) s)
         else a2b_base64 quad_pos leftchar pads s)
      else case b64_val ch of
        None \<Rightarrow> a2b_base64 quad_pos leftchar pads s
      | Some v \<Rightarrow>
          (if quad_pos = 0 then a2b_base64 1 v 0 s
           else if quad_pos = 1 then
             map_option (Cons (leftchar * 4 + v div 16)) (a2b_base64 2 (v mod 16) 0 s)
           else if quad_pos = 2 then
             map_option (Cons (leftchar * 16 + v div 4)) (a2b_base64 3 (v mod 4) 0 s)
           else map_option (Cons (leftchar * 64 + v)) (a2b_base64 0 0 0 s)))"

definition b64decode :: "string \<Rightarrow> bytes option" where
  "b64decode s = (if \<forall>c \<in> set s. of_char c < (128::nat) then a2b_base64 0 0 0 s else None)"

lemma b64_val_char [simp]: "n < 64 \<Longrightarrow> b64_val (b64_char n) = Some n"
  by (auto simp: b64_val_def b64_char_def Let_def)

lemma b64_char_not_pad [simp]: "n < 64 \<Longrightarrow> b64_char n \<noteq> CHR ''=''"
proof
  assume "n < 64" and eq: "b64_char n = CHR ''=''"
  then have "b64_val CHR ''='' = Some n" using b64_val_char by metis
  then show False by (simp add: b64_val_def)
qed

lemma b64_char_ascii: "n < 64 \<Longrightarrow> of_char (b64_char n) < (128::nat)"
  by (auto simp: b64_char_def)

lemma b64_groups:
  "a < 256 \<Longrightarrow> a div 4 < 64" "a mod 4 * 16 < (64::nat)" "b mod 16 * 4 < (64::nat)"
  "b < 256 \<Longrightarrow> a mod 4 * 16 + b div 16 < (64::nat)"
  "c < 256 \<Longrightarrow> b mod 16 * 4 + c div 64 < (64::nat)"
  by auto

lemma div_16_4: "b < 256 \<Longrightarrow> b div 16 < (16::nat)" "c < 256 \<Longrightarrow> c div 64 < (4::nat)"
  by auto

lemma a2b_b64encode: "is_bytes bs \<Longrightarrow> a2b_base64 0 0 0 (b64encode bs) = Some bs"
proof (induction bs rule: b64encode.induct)
  case (2 a)
  then show ?case by (simp add: b64_groups div_16_4)
next
  case (3 a b)
  then show ?case by (simp add: b64_groups div_16_4)
next
  case (4 a b c s)
  then show ?case by (simp add: b64_groups div_16_4)
qed simp

lemma b64encode_ascii: "is_bytes bs \<Longrightarrow> \<forall>c \<in> set (b64encode bs). of_char c < (128::nat)"
proof (induction bs rule: b64encode.induct)
  case (2 a)
  then show ?case by (simp add: b64_groups b64_char_ascii)
next
  case (3 a b)
  then show ?case by (simp add: b64_groups b64_char_ascii)
next
  case (4 a b c s)
  then show ?case by (simp add: b64_groups b64_char_ascii)
qed simp

lemma b64decode_b64encode: "is_bytes bs \<Longrightarrow> b64decode (b64encode bs) = Some bs"
  by (simp add: b64decode_def a2b_b64encode b64encode_ascii)

end
