(* ===== verification/Storage.thy ===== *)
theory Storage
  imports Core_Types Encoding Complex_Main
begin

text \<open>
  \<open>apps/api/src/nextballup_api/storage.py\<close>: object keys, the S3 presigner and its error details. The
  boto3 client is the record \<open>s3_client\<close>, whose functions say how each call ends; the digest of a key
  (\<open>hashlib\<close>) is the argument \<open>sha256_hex\<close>. The presigner methods return \<open>exn + 'a\<close>; \<open>presign_upload\<close>
  also returns the multipart calls it made. Handlers receive a \<open>presigner\<close>, the record of the
  \<open>StoragePresigner\<close> protocol. A file size is below \<open>2 ^ 53\<close>, so that the ceiling of the float quotient
  in \<open>presign_upload\<close> is the ceiling of the exact one.
\<close>

section \<open>Object keys\<close>

definition in_range :: "char \<Rightarrow> char \<Rightarrow> char \<Rightarrow> bool" where
  "in_range a b c \<longleftrightarrow> a \<le> c \<and> c \<le> b"

definition alnum :: "char \<Rightarrow> bool" where
  "alnum c \<longleftrightarrow> in_range CHR ''A'' CHR ''Z'' c \<or> in_range CHR ''a'' CHR ''z'' c \<or>
     in_range CHR ''0'' CHR ''9'' c"

definition safe_filename_char :: "char \<Rightarrow> bool" where
  "safe_filename_char c \<longleftrightarrow> alnum c \<or> c \<in> set ''._-''"

definition sub_unsafe :: "(char \<Rightarrow> bool) \<Rightarrow> string \<Rightarrow> string" where
  "sub_unsafe safe s = map (\<lambda>c. if safe c then c else CHR ''_'') s"

text \<open>\<open>_MULTIDOT.sub("__", ...)\<close>: every run of two or more dots becomes two underscores.\<close>

function multidot_sub :: "string \<Rightarrow> string" where
  "multidot_sub [] = []"
| "multidot_sub (c # s) =
     (if c = CHR ''.'' \<and> s \<noteq> [] \<and> hd s = CHR ''.''
      then ''__'' @ multidot_sub (dropWhile (\<lambda>x. x = CHR ''.'') s)
      else c # multidot_sub s)"
  by pat_completeness auto
termination
  by (relation "measure length") (auto simp: le_imp_less_Suc length_dropWhile_le)

definition sanitize_filename_component :: "string \<Rightarrow> string" where
  "sanitize_filename_component filename =
     (if filename = [] then ''upload''
      else
        (let cleaned = sub_unsafe safe_filename_char filename;
             cleaned = multidot_sub cleaned;
             stripped = strip_by (\<lambda>c. c \<in> set ''._'') cleaned;
             cleaned = (if stripped = [] then ''upload'' else stripped)
         in take 200 cleaned))"

definition storage_path :: "string \<Rightarrow> string \<Rightarrow> string \<Rightarrow> string \<Rightarrow> string" where
  "storage_path prefix team_id video_id name =
     prefix @ ''/'' @ team_id @ ''/'' @ video_id @ ''/'' @ name"

definition storage_key_for_video :: "string \<Rightarrow> string \<Rightarrow> string \<Rightarrow> string" where
  "storage_key_for_video team_id video_id filename =
     storage_path ''raw'' team_id video_id (sanitize_filename_component filename)"

definition storage_key_for_mezzanine :: "string \<Rightarrow> string \<Rightarrow> string" where
  "storage_key_for_mezzanine team_id video_id = storage_path ''mezzanine'' team_id video_id ''video.mp4''"

definition storage_key_for_hls :: "string \<Rightarrow> string \<Rightarrow> string" where
  "storage_key_for_hls team_id video_id = storage_path ''hls'' team_id video_id ''manifest.m3u8''"

definition storage_key_for_thumbnail :: "string \<Rightarrow> string \<Rightarrow> string" where
  "storage_key_for_thumbnail team_id video_id =
     storage_path ''thumbnails'' team_id video_id ''preview.jpg''"

definition storage_key_for_demo_preview :: "string \<Rightarrow> string \<Rightarrow> string" where
  "storage_key_for_demo_preview team_id video_id =
     storage_path ''artifacts'' team_id video_id ''demo-preview.annotated.mp4''"

definition storage_key_for_detections :: "string \<Rightarrow> string \<Rightarrow> string" where
  "storage_key_for_detections team_id video_id =
     storage_path ''artifacts'' team_id video_id ''detections.json''"

definition storage_key_for_tracking :: "string \<Rightarrow> string \<Rightarrow> string" where
  "storage_key_for_tracking team_id video_id =
     storage_path ''artifacts'' team_id video_id ''tracking.json''"

definition storage_key_for_court_mapping :: "string \<Rightarrow> string \<Rightarrow> string" where
  "storage_key_for_court_mapping team_id video_id =
     storage_path ''artifacts'' team_id video_id ''court.json''"

definition storage_key_for_events :: "string \<Rightarrow> string \<Rightarrow> string" where
  "storage_key_for_events team_id video_id =
     storage_path ''artifacts'' team_id video_id ''events.json''"

definition storage_key_for_metrics :: "string \<Rightarrow> string \<Rightarrow> string" where
  "storage_key_for_metrics team_id video_id =
     storage_path ''artifacts'' team_id video_id ''metrics.json''"

text \<open>Every object a video can own.\<close>

definition video_object_keys :: "string \<Rightarrow> string \<Rightarrow> string \<Rightarrow> string list" where
  "video_object_keys team_id video_id filename =
     [storage_key_for_video team_id video_id filename, storage_key_for_mezzanine team_id video_id,
      storage_key_for_hls team_id video_id, storage_key_for_thumbnail team_id video_id,
      storage_key_for_demo_preview team_id video_id, storage_key_for_detections team_id video_id,
      storage_key_for_tracking team_id video_id, storage_key_for_court_mapping team_id video_id,
      storage_key_for_events team_id video_id, storage_key_for_metrics team_id video_id]"

lemmas storage_key_defs =
  storage_key_for_video_def storage_key_for_mezzanine_def storage_key_for_hls_def
  storage_key_for_thumbnail_def storage_key_for_demo_preview_def storage_key_for_detections_def
  storage_key_for_tracking_def storage_key_for_court_mapping_def storage_key_for_events_def
  storage_key_for_metrics_def

definition normalize_etag :: "string option \<Rightarrow> string option" where
  "normalize_etag etag =
     (case etag of
        None \<Rightarrow> None
      | Some e \<Rightarrow>
          (let s = strip_by (\<lambda>c. c = CHR 0x22) (py_strip e) in if s = [] then None else Some s))"

section \<open>Object metadata\<close>

text \<open>
  The metadata of a stored object is the dictionary \<open>head_object\<close> returns. \<open>object_checksum_sha256\<close>
  is the digest both the API (\<open>_uploaded_object_checksum_sha256\<close>) and the worker
  (\<open>_metadata_checksum_sha256\<close>) read from it.
\<close>

fun jv_truthy :: "jv \<Rightarrow> bool" where
  "jv_truthy JNull = False"
| "jv_truthy (JBool b) = b"
| "jv_truthy (JInt n) = (n \<noteq> 0)"
| "jv_truthy (JStr s) = (s \<noteq> [])"
| "jv_truthy (JList l) = (l \<noteq> [])"
| "jv_truthy (JObj d) = (d \<noteq> [])"
| "jv_truthy v = True"

fun as_int :: "jv option \<Rightarrow> int option" where
  "as_int (Some (JInt n)) = Some n"
| "as_int (Some (JBool b)) = Some (of_bool b)"
| "as_int v = None"

fun as_str :: "jv option \<Rightarrow> string option" where
  "as_str (Some (JStr s)) = Some s"
| "as_str v = None"

definition object_checksum_sha256 :: "jobj \<Rightarrow> string option" where
  "object_checksum_sha256 metadata =
     (let from_metadata =
        (case jget ''Metadata'' metadata of
           Some (JObj m) \<Rightarrow>
             (let value = (case jget ''nbu-sha256'' m of
                  Some v \<Rightarrow> if jv_truthy v then Some v else jget ''Nbu-Sha256'' m
                | None \<Rightarrow> jget ''Nbu-Sha256'' m)
              in case as_str value of
                   Some s \<Rightarrow> if length s = 64 then Some (py_lower s) else None
                 | None \<Rightarrow> None)
         | _ \<Rightarrow> None)
      in case from_metadata of
           Some s \<Rightarrow> Some s
         | None \<Rightarrow>
             (case as_str (jget ''ChecksumSHA256'' metadata) of
                Some raw \<Rightarrow> map_option hex (b64decode raw)
              | None \<Rightarrow> None))"

section \<open>Error details\<close>

text \<open>How a boto3 call ends: a result, a \<open>ClientError\<close> (class name and response) or another
  \<open>BotoCoreError\<close> (class name).\<close>

datatype 'a boto = BOk 'a | BClientError string jv | BBotoCoreError string

definition safe_storage_token :: "jv option \<Rightarrow> string option" where
  "safe_storage_token v =
     (case v of
        Some (JStr s) \<Rightarrow>
          if s = [] then None
          else Some (take 160 (sub_unsafe (\<lambda>c. alnum c \<or> c \<in> set ''_.:-'') s))
      | _ \<Rightarrow> None)"

fun is_int :: "jv \<Rightarrow> bool" where
  "is_int (JInt n) = True"
| "is_int (JBool b) = True"
| "is_int v = False"

definition get_dict :: "string \<Rightarrow> jobj \<Rightarrow> jv" where
  "get_dict k d = (case jget k d of None \<Rightarrow> JObj [] | Some v \<Rightarrow> v)"

definition storage_client_error_details ::
  "(string \<Rightarrow> string) \<Rightarrow> string \<Rightarrow> string \<Rightarrow> string \<Rightarrow> jv \<Rightarrow> jobj" where
  "storage_client_error_details sha256_hex operation key exc_type exc_response =
     (let response = (case exc_response of JObj d \<Rightarrow> d | _ \<Rightarrow> []);
          error = get_dict ''Error'' response;
          metadata = get_dict ''ResponseMetadata'' response
      in [(''operation'', JStr operation), (''storage_key_sha256'', JStr (sha256_hex key)),
          (''exception_type'', JStr exc_type)] @
         (case error of
            JObj e \<Rightarrow>
              (case safe_storage_token (jget ''Code'' e) of
                 Some c \<Rightarrow> [(''provider_error_code'', JStr c)] | None \<Rightarrow> [])
          | _ \<Rightarrow> []) @
         (case metadata of
            JObj m \<Rightarrow>
              (case jget ''HTTPStatusCode'' m of
                 Some v \<Rightarrow> if is_int v then [(''http_status_code'', v)] else [] | None \<Rightarrow> []) @
              (case safe_storage_token (jget ''RequestId'' m) of
                 Some c \<Rightarrow> [(''request_id'', JStr c)] | None \<Rightarrow> [])
          | _ \<Rightarrow> []))"

definition storage_boto_error_details ::
  "(string \<Rightarrow> string) \<Rightarrow> string \<Rightarrow> string \<Rightarrow> string \<Rightarrow> jobj" where
  "storage_boto_error_details sha256_hex operation key exc_type =
     [(''operation'', JStr operation), (''storage_key_sha256'', JStr (sha256_hex key)),
      (''exception_type'', JStr exc_type)]"

definition STORAGE_DIAGNOSTIC_KEYS :: "string list" where
  "STORAGE_DIAGNOSTIC_KEYS = [''operation'', ''provider_error_code'', ''http_status_code'',
     ''request_id'', ''exception_type'', ''storage_key_sha256'']"

fun sanitize_details :: "jobj \<Rightarrow> jobj" where
  "sanitize_details [] = []"
| "sanitize_details ((k, v) # d) =
     (if k \<notin> set STORAGE_DIAGNOSTIC_KEYS then sanitize_details d
      else case v of
        JStr s \<Rightarrow> (k, JStr (take 256 s)) # sanitize_details d
      | _ \<Rightarrow> if is_int v then (k, v) # sanitize_details d else sanitize_details d)"

definition storage_failure_diagnostics :: "exn \<Rightarrow> jobj" where
  "storage_failure_diagnostics e =
     (case e of AppError s c d \<Rightarrow> sanitize_details d | _ \<Rightarrow> [])"

section \<open>The presigner\<close>

record presigned_part =
  pp_part_number :: int
  pp_url :: string

record presigned_upload =
  pu_method :: upload_method
  pu_url :: "string option"
  pu_headers :: "(string \<times> string) list option"
  pu_upload_id :: "string option"
  pu_parts :: "presigned_part list option"
  pu_part_size_bytes :: "int option"

text \<open>
  The calls of the boto3 client. \<open>generate_presigned_url\<close> takes the operation, its parameters, the
  lifetime and the HTTP method.
\<close>

record s3_client =
  generate_presigned_url :: "string \<Rightarrow> jobj \<Rightarrow> int \<Rightarrow> string option \<Rightarrow> string boto"
  create_multipart_upload :: "string \<Rightarrow> string \<Rightarrow> string \<Rightarrow> jobj boto"
  complete_multipart_upload :: "string \<Rightarrow> string \<Rightarrow> string \<Rightarrow> (int \<times> string) list \<Rightarrow> unit boto"
  abort_multipart_upload :: "string \<Rightarrow> string \<Rightarrow> string \<Rightarrow> unit boto"
  client_head_object :: "string \<Rightarrow> string \<Rightarrow> jobj boto"
  client_download_file :: "string \<Rightarrow> string \<Rightarrow> string \<Rightarrow> unit boto"
  client_upload_file :: "string \<Rightarrow> string \<Rightarrow> string \<Rightarrow> jobj \<Rightarrow> unit boto"
  client_delete_object :: "string \<Rightarrow> string \<Rightarrow> unit boto"

text \<open>\<open>except (BotoCoreError, ClientError)\<close> with a fixed detail.\<close>

definition boto_or :: "jobj \<Rightarrow> 'a boto \<Rightarrow> exn + 'a" where
  "boto_or d r = (case r of BOk x \<Rightarrow> Inr x | _ \<Rightarrow> Inl (StorageFailureError d))"

definition boto_or_details :: "(string \<Rightarrow> string) \<Rightarrow> string \<Rightarrow> string \<Rightarrow> 'a boto \<Rightarrow> exn + 'a" where
  "boto_or_details sha256_hex operation key r =
     (case r of
        BOk x \<Rightarrow> Inr x
      | BClientError n resp \<Rightarrow>
          Inl (StorageFailureError (storage_client_error_details sha256_hex operation key n resp))
      | BBotoCoreError n \<Rightarrow>
          Inl (StorageFailureError (storage_boto_error_details sha256_hex operation key n)))"

definition bucket :: "settings \<Rightarrow> string" where
  "bucket s = (case s3_bucket_raw s of None \<Rightarrow> [] | Some b \<Rightarrow> b)"

definition num_parts :: "int \<Rightarrow> int \<Rightarrow> int" where
  "num_parts file_size_bytes part_size = max 1 (ceiling (of_int file_size_bytes / of_int part_size :: rat))"

fun presign_parts :: "(int \<Rightarrow> string boto) \<Rightarrow> int list \<Rightarrow> presigned_part list option" where
  "presign_parts sign [] = Some []"
| "presign_parts sign (i # is) =
     (case sign i of
        BOk u \<Rightarrow> map_option (Cons \<lparr>pp_part_number = i, pp_url = u\<rparr>) (presign_parts sign is)
      | _ \<Rightarrow> None)"

datatype s3_call = CreateMultipart string | AbortMultipart string string

definition presign_put ::
  "settings \<Rightarrow> s3_client \<Rightarrow> string \<Rightarrow> string \<Rightarrow> string option \<Rightarrow> exn + presigned_upload" where
  "presign_put s c key content_type checksum_sha256 =
     (let params0 = [(''Bucket'', JStr (bucket s)), (''Key'', JStr key), (''ContentType'', JStr content_type)];
          headers0 = [(''Content-Type'', content_type)];
          checksum = (if truthy checksum_sha256 then the checksum_sha256 else [])
      in case
           (if truthy checksum_sha256 \<and> upload_presigned_put_checksum_header s then
              (case fromhex checksum of
                 None \<Rightarrow> Inl StorageException
               | Some bs \<Rightarrow>
                   Inr (params0 @ [(''ChecksumSHA256'', JStr (b64encode bs))],
                        headers0 @ [(''x-amz-checksum-sha256'', b64encode bs)]))
            else Inr (params0, headers0)) of
           Inl e \<Rightarrow> Inl e
         | Inr (params1, headers1) \<Rightarrow>
             (let params = (if truthy checksum_sha256
                  then params1 @ [(''Metadata'', JObj [(''nbu-sha256'', JStr checksum)])] else params1);
                  headers = (if truthy checksum_sha256
                  then headers1 @ [(''x-amz-meta-nbu-sha256'', checksum)] else headers1)
              in case boto_or [(''key'', JStr key)]
                   (generate_presigned_url c ''put_object'' params (upload_url_expires_seconds s) (Some ''PUT'')) of
                   Inl e \<Rightarrow> Inl e
                 | Inr url \<Rightarrow>
                     Inr \<lparr>pu_method = UM_PUT, pu_url = Some url, pu_headers = Some headers,
                       pu_upload_id = None, pu_parts = None, pu_part_size_bytes = None\<rparr>))"

definition abort_multipart :: "settings \<Rightarrow> s3_client \<Rightarrow> string \<Rightarrow> string \<Rightarrow> exn + unit" where
  "abort_multipart s c key upload_id =
     boto_or [(''key'', JStr key), (''upload_id'', JStr upload_id)]
       (abort_multipart_upload c (bucket s) key upload_id)"

text \<open>An upload id that is not a non-empty string is refused outside the \<open>except\<close> clause.\<close>

definition presign_multipart ::
  "settings \<Rightarrow> s3_client \<Rightarrow> string \<Rightarrow> string \<Rightarrow> int \<Rightarrow> (exn + presigned_upload) \<times> s3_call list" where
  "presign_multipart s c key content_type file_size_bytes =
     (let part_size = upload_multipart_part_size_bytes s;
          failed = StorageFailureError [(''key'', JStr key)]
      in if part_size = 0 then (Inl StorageException, [])
         else
           (case create_multipart_upload c (bucket s) key content_type of
              BOk response \<Rightarrow>
                (case jget ''UploadId'' response of
                   Some (JStr uid) \<Rightarrow>
                     if uid = [] then (Inl failed, [CreateMultipart key])
                     else
                       (case presign_parts
                          (\<lambda>i. generate_presigned_url c ''upload_part''
                             [(''Bucket'', JStr (bucket s)), (''Key'', JStr key),
                              (''UploadId'', JStr uid), (''PartNumber'', JInt i)]
                             (upload_url_expires_seconds s) None)
                          [1 .. num_parts file_size_bytes part_size] of
                          Some parts \<Rightarrow>
                            (Inr \<lparr>pu_method = UM_MULTIPART, pu_url = None, pu_headers = None,
                               pu_upload_id = Some uid, pu_parts = Some parts,
                               pu_part_size_bytes = Some part_size\<rparr>, [CreateMultipart key])
                        | None \<Rightarrow>
                            ((case abort_multipart s c key uid of
                                Inl e \<Rightarrow> Inl e | Inr u \<Rightarrow> Inl failed),
                             [CreateMultipart key, AbortMultipart key uid]))
                 | _ \<Rightarrow> (Inl failed, [CreateMultipart key]))
            | _ \<Rightarrow> (Inl failed, [])))"

definition presign_upload ::
  "settings \<Rightarrow> s3_client \<Rightarrow> string \<Rightarrow> string \<Rightarrow> int \<Rightarrow> string option \<Rightarrow>
     (exn + presigned_upload) \<times> s3_call list" where
  "presign_upload s c key content_type file_size_bytes checksum_sha256 =
     (if file_size_bytes \<le> upload_multipart_threshold_bytes s
      then (presign_put s c key content_type checksum_sha256, [])
      else presign_multipart s c key content_type file_size_bytes)"

definition complete_multipart ::
  "settings \<Rightarrow> s3_client \<Rightarrow> string \<Rightarrow> string \<Rightarrow> (int \<times> string) list \<Rightarrow> exn + unit" where
  "complete_multipart s c key upload_id parts =
     boto_or [(''key'', JStr key), (''upload_id'', JStr upload_id)]
       (complete_multipart_upload c (bucket s) key upload_id (sort_key fst parts))"

definition head_object ::
  "(string \<Rightarrow> string) \<Rightarrow> settings \<Rightarrow> s3_client \<Rightarrow> string \<Rightarrow> exn + jobj option" where
  "head_object sha256_hex s c key =
     (case client_head_object c (bucket s) key of
        BOk response \<Rightarrow> Inr (Some response)
      | BClientError n resp \<Rightarrow>
          (let details = storage_client_error_details sha256_hex ''head_object'' key n resp
           in if jget ''provider_error_code'' details \<in>
                {Some (JStr ''404''), Some (JStr ''NoSuchKey''), Some (JStr ''NotFound'')}
              then Inr None else Inl (StorageFailureError details))
      | BBotoCoreError n \<Rightarrow>
          Inl (StorageFailureError (storage_boto_error_details sha256_hex ''head_object'' key n)))"

definition presign_get ::
  "settings \<Rightarrow> s3_client \<Rightarrow> string \<Rightarrow> int \<Rightarrow> string option \<Rightarrow> exn + string" where
  "presign_get s c key expires_in response_content_type =
     boto_or [(''key'', JStr key)]
       (generate_presigned_url c ''get_object''
          ([(''Bucket'', JStr (bucket s)), (''Key'', JStr key)] @
           (if truthy response_content_type
            then [(''ResponseContentType'', JStr (the response_content_type))] else []))
          expires_in (Some ''GET''))"

definition download_file ::
  "(string \<Rightarrow> string) \<Rightarrow> settings \<Rightarrow> s3_client \<Rightarrow> string \<Rightarrow> string \<Rightarrow> exn + unit" where
  "download_file sha256_hex s c key destination =
     boto_or_details sha256_hex ''download_file'' key (client_download_file c (bucket s) key destination)"

definition upload_file ::
  "(string \<Rightarrow> string) \<Rightarrow> settings \<Rightarrow> s3_client \<Rightarrow> string \<Rightarrow> string \<Rightarrow> string \<Rightarrow> jobj option \<Rightarrow> exn + unit" where
  "upload_file sha256_hex s c key source content_type metadata =
     boto_or_details sha256_hex ''upload_file'' key
       (client_upload_file c source (bucket s) key
          ([(''ContentType'', JStr content_type)] @
           (if or_empty metadata \<noteq> [] then [(''Metadata'', JObj (or_empty metadata))] else [])))"

definition delete_object :: "settings \<Rightarrow> s3_client \<Rightarrow> string \<Rightarrow> exn + unit" where
  "delete_object s c key = boto_or [(''key'', JStr key)] (client_delete_object c (bucket s) key)"

text \<open>The protocol the handlers are written against, and its S3 implementation.\<close>

record presigner =
  ps_presign_upload :: "string \<Rightarrow> string \<Rightarrow> int \<Rightarrow> string option \<Rightarrow> exn + presigned_upload"
  ps_complete_multipart :: "string \<Rightarrow> string \<Rightarrow> (int \<times> string) list \<Rightarrow> exn + unit"
  ps_abort_multipart :: "string \<Rightarrow> string \<Rightarrow> exn + unit"
  ps_head_object :: "string \<Rightarrow> exn + jobj option"
  ps_presign_get :: "string \<Rightarrow> int \<Rightarrow> string option \<Rightarrow> exn + string"
  ps_delete_object :: "string \<Rightarrow> exn + unit"

definition s3_presigner :: "(string \<Rightarrow> string) \<Rightarrow> settings \<Rightarrow> s3_client \<Rightarrow> presigner" where
  "s3_presigner sha256_hex s c =
     \<lparr>ps_presign_upload = (\<lambda>k t n chk. fst (presign_upload s c k t n chk)),
      ps_complete_multipart = complete_multipart s c, ps_abort_multipart = abort_multipart s c,
      ps_head_object = head_object sha256_hex s c, ps_presign_get = presign_get s c,
      ps_delete_object = delete_object s c\<rparr>"

section \<open>Lemmas\<close>

lemma set_multidot_sub: "set (multidot_sub s) \<subseteq> insert (CHR ''_'') (set s)"
  by (induction s rule: multidot_sub.induct) (auto dest: set_dropWhileD)

lemma multidot_hd: "multidot_sub s \<noteq> [] \<Longrightarrow> hd (multidot_sub s) = CHR ''.'' \<Longrightarrow> s \<noteq> [] \<and> hd s = CHR ''.''"
  by (cases s) (auto split: if_splits)

text \<open>No two dots in a row.\<close>

fun no_dotdot :: "string \<Rightarrow> bool" where
  "no_dotdot (a # b # s) = (\<not> (a = CHR ''.'' \<and> b = CHR ''.'') \<and> no_dotdot (b # s))"
| "no_dotdot s = True"

lemma no_dotdot_Cons: "no_dotdot s \<Longrightarrow> c \<noteq> CHR ''.'' \<or> s = [] \<or> hd s \<noteq> CHR ''.'' \<Longrightarrow> no_dotdot (c # s)"
  by (cases s) auto

lemma no_dotdot_multidot: "no_dotdot (multidot_sub s)"
proof (induction s rule: multidot_sub.induct)
  case (2 c s)
  show ?case
  proof (cases "c = CHR ''.'' \<and> s \<noteq> [] \<and> hd s = CHR ''.''")
    case True
    then have "no_dotdot (multidot_sub (dropWhile (\<lambda>x. x = CHR ''.'') s))" using 2(1) by simp
    then show ?thesis using True by (auto intro!: no_dotdot_Cons)
  next
    case False
    then have "no_dotdot (multidot_sub s)" using 2(2) by simp
    with False multidot_hd[of s] show ?thesis by (auto intro!: no_dotdot_Cons)
  qed
qed simp

lemma no_dotdot_append: "no_dotdot (xs @ ys) \<Longrightarrow> no_dotdot xs \<and> no_dotdot ys"
proof (induction xs)
  case (Cons c xs)
  then show ?case by (cases xs; cases ys) auto
qed simp

lemma no_dotdot_infix: "no_dotdot s \<Longrightarrow> \<not> (\<exists>xs ys. s = xs @ ''..'' @ ys)"
proof
  assume "no_dotdot s" and "\<exists>xs ys. s = xs @ ''..'' @ ys"
  then obtain xs ys where "no_dotdot (xs @ ''..'' @ ys)" by blast
  then have "no_dotdot (''..'' @ ys)" using no_dotdot_append by blast
  then show False by simp
qed

lemma segment_inj:
  assumes "a @ c # b = a' @ c # b'" and "c \<notin> set a" and "c \<notin> set a'"
  shows "a = a' \<and> b = b'"
  using assms by (induction a arbitrary: a') (auto simp: Cons_eq_append_conv append_eq_Cons_conv)

lemma storage_path_inj:
  assumes "storage_path p t v n = storage_path p' t' v' n'"
    and "CHR ''/'' \<notin> set p \<union> set t \<union> set v" and "CHR ''/'' \<notin> set p' \<union> set t' \<union> set v'"
  shows "p = p' \<and> t = t' \<and> v = v' \<and> n = n'"
  using assms unfolding storage_path_def append_Cons append_Nil by (metis UnI1 UnI2 segment_inj)

lemma no_slash_uuid: "CHR ''/'' \<notin> set (uuid_str n)"
  using set_uuid_str[of "CHR ''/''" n] by auto

lemma video_object_keys_path:
  "k \<in> set (video_object_keys t v f) \<Longrightarrow> \<exists>p n. k = storage_path p t v n \<and> CHR ''/'' \<notin> set p"
  unfolding video_object_keys_def storage_key_defs by (auto intro!: exI[where P = "\<lambda>p. \<exists>n. _ p n"])

lemma presign_parts_numbers:
  "presign_parts sign is = Some ps \<Longrightarrow> map pp_part_number ps = is"
  by (induction "is" arbitrary: ps) (auto split: boto.splits)

lemma num_parts_bounds:
  assumes "0 < n" and "0 < p"
  shows "(num_parts n p - 1) * p < n" and "n \<le> num_parts n p * p"
proof -
  let ?q = "of_int n / of_int p :: rat"
  have "0 < ?q" using assms by simp
  then have k: "num_parts n p = ceiling ?q" by (simp add: num_parts_def max_def)
  have "of_int (ceiling ?q - 1) < ?q" "?q \<le> of_int (ceiling ?q)" by (simp_all add: ceiling_correct)
  then have "(of_int ((ceiling ?q - 1) * p) :: rat) < of_int n" "(of_int n :: rat) \<le> of_int (ceiling ?q * p)"
    using assms(2) by (simp_all only: pos_less_divide_eq pos_divide_le_eq of_int_0_less_iff of_int_mult)
  then show "(num_parts n p - 1) * p < n" "n \<le> num_parts n p * p"
    unfolding k of_int_less_iff of_int_le_iff by blast+
qed

lemma sub_unsafe_safe:
  "safe CHR ''_'' \<Longrightarrow> c \<in> set (sub_unsafe safe s) \<Longrightarrow> safe c"
  by (auto simp: sub_unsafe_def)

lemma safe_underscore [simp]: "safe_filename_char CHR ''_''"
  by (simp add: safe_filename_char_def)

lemma stripped_clean:
  fixes filename
  defines "s \<equiv> strip_by (\<lambda>c. c \<in> set ''._'') (multidot_sub (sub_unsafe safe_filename_char filename))"
  shows "(\<forall>c \<in> set s. safe_filename_char c)" and "no_dotdot s"
proof -
  let ?m = "multidot_sub (sub_unsafe safe_filename_char filename)"
  have "set s \<subseteq> set ?m" unfolding s_def by (rule strip_by_subset)
  then show "\<forall>c \<in> set s. safe_filename_char c"
    using set_multidot_sub[of "sub_unsafe safe_filename_char filename"]
      sub_unsafe_safe[of safe_filename_char] safe_underscore by blast
  obtain xs ys where "?m = xs @ s @ ys" unfolding s_def using strip_by_infix by blast
  with no_dotdot_multidot[of "sub_unsafe safe_filename_char filename"]
  show "no_dotdot s" using no_dotdot_append by metis
qed

section \<open>Properties\<close>

text \<open>
  whatever filename a client sends, the key component made of it has between 1 and 200
  characters, all of them letters, digits, dots, underscores or dashes (so no path separator),
  contains no two dots in a row and does not start with a dot or an underscore.
\<close>

theorem sanitized_filename_safe:
  "1 \<le> length (sanitize_filename_component f) \<and> length (sanitize_filename_component f) \<le> 200 \<and>
   list_all safe_filename_char (sanitize_filename_component f) \<and>
   CHR ''/'' \<notin> set (sanitize_filename_component f) \<and>
   \<not> (\<exists>xs ys. sanitize_filename_component f = xs @ ''..'' @ ys) \<and>
   hd (sanitize_filename_component f) \<notin> set ''._''"
proof -
  define s where "s = strip_by (\<lambda>c. c \<in> set ''._'') (multidot_sub (sub_unsafe safe_filename_char f))"
  define r where "r = (if f = [] \<or> s = [] then ''upload'' else s)"
  have "r \<noteq> []" by (simp add: r_def)
  have res: "sanitize_filename_component f = take 200 r"
    by (simp add: sanitize_filename_component_def Let_def r_def s_def)
  have "\<forall>c \<in> set r. safe_filename_char c"
    using stripped_clean(1)[of f, folded s_def]
    by (auto simp: r_def safe_filename_char_def alnum_def in_range_def)
  then have safe: "\<forall>c \<in> set (take 200 r). safe_filename_char c" by (auto dest: in_set_takeD)
  have nd: "no_dotdot (take 200 r)"
    using stripped_clean(2)[of f, folded s_def] no_dotdot_append[of "take 200 r" "drop 200 r"]
    by (auto simp: r_def)
  have "hd r \<notin> set ''._''"
    using hd_strip_by[of "\<lambda>c. c \<in> set ''._''", folded s_def] by (auto simp: r_def s_def)
  then have "hd (take 200 r) \<notin> set ''._''" by simp
  moreover have "CHR ''/'' \<notin> set (take 200 r)"
    using safe by (auto simp: safe_filename_char_def alnum_def in_range_def)
  moreover have "1 \<le> length (take 200 r)" using \<open>r \<noteq> []\<close> by (cases r) auto
  ultimately show ?thesis
    unfolding res list_all_iff using safe no_dotdot_infix[OF nd] by simp
qed

text \<open>
  the objects of two different videos never share a storage key, whatever their filenames, and
  neither do objects of different teams.
\<close>

theorem video_objects_disjoint:
  assumes "t < 2 ^ 128" "v < 2 ^ 128" "t' < 2 ^ 128" "v' < 2 ^ 128" and "(t, v) \<noteq> (t', v')"
  shows "set (video_object_keys (uuid_str t) (uuid_str v) f) \<inter>
    set (video_object_keys (uuid_str t') (uuid_str v') f') = {}"
proof (rule ccontr)
  assume "\<not> ?thesis"
  then obtain k where "k \<in> set (video_object_keys (uuid_str t) (uuid_str v) f)"
    "k \<in> set (video_object_keys (uuid_str t') (uuid_str v') f')" by blast
  then obtain p n p' n' where "storage_path p (uuid_str t) (uuid_str v) n =
      storage_path p' (uuid_str t') (uuid_str v') n'" "CHR ''/'' \<notin> set p" "CHR ''/'' \<notin> set p'"
    by (metis video_object_keys_path)
  then have "uuid_str t = uuid_str t'" "uuid_str v = uuid_str v'"
    using storage_path_inj no_slash_uuid by (metis UnE)+
  then show False using assms uuid_str_inj by blast
qed

theorem video_objects_disjoint_witness:
  "set (video_object_keys (uuid_str 1) (uuid_str 2) ''a.mp4'') \<inter>
    set (video_object_keys (uuid_str 1) (uuid_str 3) ''a.mp4'') = {}"
  by (rule video_objects_disjoint) simp_all

text \<open>
  a multipart upload is cut into parts numbered from 1 without gaps, the fewest of the
  configured size that hold the whole file.
\<close>

theorem multipart_covers_file:
  assumes "presign_upload s c key ct n chk = (Inr up, calls)"
    and "upload_multipart_threshold_bytes s < n" and "0 < n"
    and "0 < upload_multipart_part_size_bytes s"
  shows "\<exists>parts. pu_parts up = Some parts \<and>
    map pp_part_number parts = [1 .. int (length parts)] \<and>
    (int (length parts) - 1) * upload_multipart_part_size_bytes s < n \<and>
    n \<le> int (length parts) * upload_multipart_part_size_bytes s"
proof -
  let ?p = "upload_multipart_part_size_bytes s"
  from assms obtain parts sign where parts: "pu_parts up = Some parts"
    "presign_parts sign [1 .. num_parts n ?p] = Some parts"
    by (auto simp: presign_upload_def presign_multipart_def Let_def
        split: boto.splits option.splits jv.splits if_splits sum.splits)
  have np: "1 \<le> num_parts n ?p" by (simp add: num_parts_def)
  have len: "int (length parts) = num_parts n ?p"
    using arg_cong[OF presign_parts_numbers[OF parts(2)], of length] np by simp
  then show ?thesis
    using parts(1) presign_parts_numbers[OF parts(2)] num_parts_bounds[OF assms(3,4)] by auto
qed

text \<open>
  No multipart upload is leaked by a failed presign: when the upload was created and the
  request still fails on a later signature, its abort was issued.
\<close>

theorem failed_presign_aborts:
  assumes "presign_upload s c key ct n chk = (Inl e, calls)"
    and "create_multipart_upload c (bucket s) key ct = BOk response"
    and "jget ''UploadId'' response = Some (JStr uid)" and "uid \<noteq> []"
    and "CreateMultipart key \<in> set calls"
  shows "AbortMultipart key uid \<in> set calls \<and> is_storage_failure e"
  using assms
  by (auto simp: presign_upload_def presign_multipart_def Let_def abort_multipart_def boto_or_def
      is_storage_failure_def StorageFailureError_def
      split: if_splits option.splits sum.splits boto.splits)

definition toy_client :: s3_client where
  "toy_client = \<lparr>generate_presigned_url = (\<lambda>op ps e m. if jget ''PartNumber'' ps = Some (JInt 3)
       then BBotoCoreError ''NoCredentialsError'' else BOk ''https://s3/x''),
     create_multipart_upload = (\<lambda>b k t. BOk [(''UploadId'', JStr ''u1'')]),
     complete_multipart_upload = (\<lambda>b k u ps. BOk ()), abort_multipart_upload = (\<lambda>b k u. BOk ()),
     client_head_object = (\<lambda>b k. BOk []), client_download_file = (\<lambda>b k f. BOk ()),
     client_upload_file = (\<lambda>f b k x. BOk ()), client_delete_object = (\<lambda>b k. BOk ())\<rparr>"

definition small_parts :: settings where
  "small_parts = default_settings\<lparr>upload_multipart_threshold_bytes := 10,
     upload_multipart_part_size_bytes := 8\<rparr>"

lemma num_parts_11: "num_parts 11 8 = 2" "num_parts 24 8 = 3"
  by (simp_all add: num_parts_def ceiling_eq_iff)

theorem multipart_covers_file_witness:
  "\<exists>up parts. fst (presign_upload small_parts toy_client ''k'' ''video/mp4'' 11 None) = Inr up \<and>
     pu_parts up = Some parts \<and> (int (length parts) - 1) * 8 < 11 \<and> 11 \<le> int (length parts) * 8"
proof -
  let ?r = "presign_upload small_parts toy_client ''k'' ''video/mp4'' 11 None"
  have "\<exists>up. fst ?r = Inr up"
    by (simp add: presign_upload_def presign_multipart_def small_parts_def toy_client_def
        default_settings_def num_parts_11 upto_rec2 upto.simps)
  then obtain up where "?r = (Inr up, snd ?r)" by (metis prod.collapse)
  from multipart_covers_file[OF this] show ?thesis
    using \<open>?r = _\<close> by (simp add: small_parts_def) (metis fst_conv)
qed

theorem failed_presign_aborts_witness:
  "AbortMultipart ''k'' ''u1'' \<in>
     set (snd (presign_upload small_parts toy_client ''k'' ''video/mp4'' 24 None))"
proof -
  let ?r = "presign_upload small_parts toy_client ''k'' ''video/mp4'' 24 None"
  have r: "?r = (Inl (StorageFailureError [(''key'', JStr ''k'')]),
      [CreateMultipart ''k'', AbortMultipart ''k'' ''u1''])"
    by (simp add: presign_upload_def presign_multipart_def small_parts_def toy_client_def
        default_settings_def num_parts_11 upto.simps abort_multipart_def boto_or_def)
  from failed_presign_aborts[OF r, of "[(''UploadId'', JStr ''u1'')]" "''u1''"] show ?thesis
    unfolding r by (simp add: toy_client_def)
qed

end
