(* ===== verification/Database.thy ===== *)
theory Database
  imports Core_Types Complex_Main
begin

text \<open>
  The rows of \<open>packages/db\<close> and the state of the database. A model class is a record whose fields
  are its columns under a short prefix; columns no modelled code reads (the timestamps of most rows,
  the external ids of billing) are left out; the rows of a table stand in the order of their creation.
  A nullable column is an option. A calendar date is its day number, a time of day its microseconds. A \<open>Float\<close> column holds the exact
  rational value of its double. The database is the record of its tables, as the owner connection
  sees them: row-level security, which can only hide rows, is not part of this model.
  \<open>write_audit\<close> and \<open>write_worker_audit\<close> append to the audit log.
\<close>

section \<open>Rows\<close>

record user_row =
  u_id :: uuid
  u_email :: string
  u_full_name :: string
  u_role :: user_role
  u_is_active :: bool
  u_is_verified :: bool
  u_session_version :: int
  u_parental_consent_on_file :: bool
  u_date_of_birth_verified :: bool
  u_password_hash :: string
  u_phone :: "string option"
  u_institution :: "string option"
  u_avatar_url :: "string option"
  u_height_inches :: "int option"
  u_weight_lbs :: "int option"
  u_position :: "string option"
  u_graduation_year :: "int option"
  u_handedness :: "string option"
  u_biometric_consent :: bool
  u_created_at :: time

record team_row =
  t_id :: uuid
  t_name :: string
  t_sport :: sport
  t_level :: team_level
  t_institution :: "string option"
  t_institution_type :: institution_type
  t_season :: string
  t_city :: "string option"
  t_state :: "string option"
  t_conference :: "string option"
  t_invite_code :: string
  t_is_active :: bool
  t_deleted_at :: "time option"
  t_created_at :: time

record membership_row =
  m_id :: uuid
  m_team_id :: uuid
  m_user_id :: uuid
  m_team_role :: team_role
  m_jersey_number :: "int option"
  m_is_active :: bool
  m_joined_at :: time

record invite_row =
  i_id :: uuid
  i_team_id :: uuid
  i_invite_code :: string
  i_role :: team_role
  i_max_uses :: int
  i_uses :: int
  i_expires_at :: time
  i_created_by :: "uuid option"
  i_is_active :: bool

record consent_row =
  c_id :: uuid
  c_team_id :: uuid
  c_recorded_by :: "uuid option"
  c_label :: string
  c_consent_source :: string
  c_covers_video_uploads :: bool
  c_covers_cv_processing :: bool
  c_commercial_ml_training_allowed :: bool
  c_minors_authorized :: bool
  c_athlete_pii_authorized :: bool
  c_evidence_uri :: "string option"
  c_evidence_sha256 :: "string option"
  c_effective_at :: time
  c_expires_at :: "time option"
  c_revoked_at :: "time option"
  c_notes :: "string option"
  c_created_at :: time

record game_row =
  g_id :: uuid
  g_team_id :: uuid
  g_status :: game_status
  g_shot_clock_enabled :: bool
  g_shot_clock_seconds :: "int option"
  g_opponent_name :: "string option"
  g_game_type :: game_type
  g_date :: int
  g_time :: "int option"
  g_location :: "string option"
  g_is_home :: bool
  g_periods :: int
  g_period_length_minutes :: int
  g_score_team :: "int option"
  g_score_opponent :: "int option"
  g_notes :: "string option"
  g_created_at :: time

record video_row =
  v_id :: uuid
  v_game_id :: uuid
  v_team_id :: uuid
  v_uploaded_by :: "uuid option"
  v_privacy_consent_id :: "uuid option"
  v_filename :: string
  v_storage_key_raw :: "string option"
  v_storage_key_mezzanine :: "string option"
  v_storage_key_hls :: "string option"
  v_status :: video_status
  v_file_size_bytes :: "int option"
  v_content_type :: "string option"
  v_duration_seconds :: "rat option"
  v_width :: "int option"
  v_height :: "int option"
  v_fps :: "rat option"
  v_codec :: "string option"
  v_checksum_sha256 :: "string option"
  v_storage_etag :: "string option"
  v_storage_output_sha256 :: "string option"
  v_camera_position :: "camera_position option"
  v_camera_height :: "camera_height option"
  v_upload_id :: "string option"
  v_upload_expires_at :: "time option"
  v_raw_retention_expires_at :: "time option"
  v_raw_delete_requested_at :: "time option"
  v_raw_delete_failed_at :: "time option"
  v_raw_storage_deleted_at :: "time option"
  v_raw_deleted_at :: "time option"
  v_raw_delete_reason :: "string option"
  v_demo_preview_status :: string
  v_demo_preview_storage_key :: "string option"
  v_demo_preview_requested_at :: "time option"
  v_demo_preview_started_at :: "time option"
  v_demo_preview_generated_at :: "time option"
  v_demo_preview_task_id :: "string option"
  v_demo_preview_error_message :: "string option"
  v_thumbnail_url :: "string option"

record job_row =
  j_id :: uuid
  j_video_id :: uuid
  j_team_id :: uuid
  j_stage :: processing_job_stage
  j_status :: processing_job_status
  j_progress_percent :: int
  j_celery_task_id :: "string option"
  j_started_at :: "time option"
  j_completed_at :: "time option"
  j_error_message :: "string option"
  j_result_metadata :: "jobj option"
  j_heartbeat_at :: "time option"
  j_created_at :: time

record artifact_row =
  a_id :: uuid
  a_stage :: processing_job_stage
  a_status :: model_artifact_status
  a_commercial_use_allowed :: bool
  a_min_plan_tier :: int
  a_created_at :: time

record plan_row =
  pl_id :: uuid
  pl_code :: string
  pl_tier :: int
  pl_max_videos_per_month :: "int option"
  pl_max_storage_gb :: "int option"
  pl_max_teams :: "int option"
  pl_raw_video_retention_days :: "int option"
  pl_features :: "(string \<times> bool) list"

record account_row =
  ba_id :: uuid
  ba_owner_user_id :: "uuid option"
  ba_status :: billing_account_status
  ba_deleted_at :: "time option"
  ba_name :: string
  ba_billing_email :: "string option"

record link_row =
  l_billing_account_id :: uuid
  l_team_id :: uuid

text \<open>
  \<open>plan_quotas_at_activation\<close> is the JSON object written by \<open>_plan_quotas_snapshot\<close>: the four
  numeric quotas by name, and the feature flags.
\<close>

record quota_snapshot =
  qs_numbers :: "(string \<times> int option) list"
  qs_features :: "(string \<times> bool) list"

record subscription_row =
  s_billing_account_id :: uuid
  s_plan_id :: uuid
  s_status :: subscription_status
  s_current_period_start :: time
  s_current_period_end :: time
  s_plan_code_at_activation :: "string option"
  s_plan_tier_at_activation :: "int option"
  s_plan_quotas_at_activation :: "quota_snapshot option"

record usage_row =
  ue_billing_account_id :: uuid
  ue_team_id :: "uuid option"
  ue_event_key :: string
  ue_quantity :: int
  ue_occurred_at :: time
  ue_event_metadata :: "jobj option"

record audit_row =
  au_action :: audit_action
  au_actor_user_id :: "uuid option"
  au_actor_email :: "string option"
  au_resource_type :: "string option"
  au_resource_id :: "uuid option"
  au_team_id :: "uuid option"
  au_ip_address :: "string option"
  au_user_agent :: "string option"
  au_request_id :: "string option"
  au_extra :: "jobj option"

record refresh_row =
  rs_id :: uuid
  rs_user_id :: uuid
  rs_jti_hash :: string
  rs_expires_at :: time
  rs_revoked_at :: "time option"
  rs_revoked_reason :: "string option"
  rs_replaced_by_session_id :: "uuid option"
  rs_ip_address :: "string option"
  rs_user_agent :: "string option"
  rs_created_at :: time

record email_token_row =
  ev_id :: uuid
  ev_user_id :: uuid
  ev_token_hash :: string
  ev_expires_at :: time
  ev_used_at :: "time option"
  ev_requested_ip :: "string option"
  ev_requested_user_agent :: "string option"
  ev_confirmed_ip :: "string option"
  ev_created_at :: time

record reset_token_row =
  pr_id :: uuid
  pr_user_id :: uuid
  pr_token_hash :: string
  pr_expires_at :: time
  pr_used_at :: "time option"
  pr_requested_ip :: "string option"
  pr_requested_user_agent :: "string option"
  pr_reset_ip :: "string option"
  pr_created_at :: time

record totp_row =
  ts_id :: uuid
  ts_user_id :: uuid
  ts_secret_ciphertext :: string
  ts_cipher :: string
  ts_issuer_label :: string
  ts_account_label :: string
  ts_confirmed_at :: "time option"
  ts_disabled_at :: "time option"
  ts_last_used_at :: "time option"

record recovery_row =
  rc_id :: uuid
  rc_user_id :: uuid
  rc_code_hash :: string
  rc_used_at :: "time option"

record csp_row =
  cr_id :: uuid
  cr_user_id :: "uuid option"
  cr_received_at :: time
  cr_document_uri :: "string option"
  cr_violated_directive :: "string option"
  cr_blocked_uri :: "string option"
  cr_source_file :: "string option"
  cr_line_number :: "int option"
  cr_column_number :: "int option"
  cr_user_agent :: "string option"
  cr_reporter_ip :: "string option"

record event_row =
  ve_id :: uuid
  ve_video_id :: uuid
  ve_team_id :: uuid
  ve_model_artifact_id :: "uuid option"
  ve_event_type :: video_event_type
  ve_event_time_ms :: int
  ve_clip_start_time_ms :: "int option"
  ve_clip_end_time_ms :: "int option"
  ve_output_frame :: int
  ve_period :: "int option"
  ve_game_clock_ms :: "int option"
  ve_shot_clock_enabled :: bool
  ve_shot_clock_ms :: "int option"
  ve_primary_track_key :: "string option"
  ve_confidence :: "rat option"
  ve_review_status :: review_status
  ve_event_metadata :: "jobj option"
  ve_created_at :: time
  ve_updated_at :: time

section \<open>The database\<close>

record db =
  users :: "user_row list"
  teams :: "team_row list"
  memberships :: "membership_row list"
  invites :: "invite_row list"
  consents :: "consent_row list"
  games :: "game_row list"
  videos :: "video_row list"
  jobs :: "job_row list"
  artifacts :: "artifact_row list"
  plans :: "plan_row list"
  accounts :: "account_row list"
  links :: "link_row list"
  subscriptions :: "subscription_row list"
  usage :: "usage_row list"
  audit_logs :: "audit_row list"
  refresh_sessions :: "refresh_row list"
  email_tokens :: "email_token_row list"
  reset_tokens :: "reset_token_row list"
  totp_secrets :: "totp_row list"
  recovery_codes :: "recovery_row list"
  csp_reports :: "csp_row list"
  events :: "event_row list"

definition empty_db :: db where
  "empty_db = \<lparr>users = [], teams = [], memberships = [], invites = [], consents = [], games = [],
     videos = [], jobs = [], artifacts = [], plans = [], accounts = [], links = [],
     subscriptions = [], usage = [], audit_logs = [], refresh_sessions = [],
     email_tokens = [], reset_tokens = [], totp_secrets = [], recovery_codes = [], csp_reports = [],
     events = []\<rparr>"

section \<open>Requests and the audit log\<close>

text \<open>
  What a handler reads of the HTTP request: the resolved client address, the User-Agent header and
  the request id set by the middleware.
\<close>

record request =
  rq_client_ip :: "string option"
  rq_user_agent :: "string option"
  rq_request_id :: "string option"

definition audit_user_agent :: "request \<Rightarrow> string option" where
  "audit_user_agent rq =
     (let ua = take 500 (case rq_user_agent rq of None \<Rightarrow> [] | Some s \<Rightarrow> s)
      in if ua = [] then None else Some ua)"

definition write_audit_event ::
  "request \<Rightarrow> audit_action \<Rightarrow> uuid option \<Rightarrow> string option \<Rightarrow> string option \<Rightarrow> uuid option \<Rightarrow> uuid option \<Rightarrow>
   jobj option \<Rightarrow> db \<Rightarrow> db" where
  "write_audit_event rq action actor_user_id actor_email resource_type resource_id team_id extra d =
     d\<lparr>audit_logs := audit_logs d @ [\<lparr>au_action = action, au_actor_user_id = actor_user_id,
        au_actor_email = actor_email, au_resource_type = resource_type,
        au_resource_id = resource_id, au_team_id = team_id, au_ip_address = rq_client_ip rq,
        au_user_agent = audit_user_agent rq, au_request_id = rq_request_id rq,
        au_extra = extra\<rparr>]\<rparr>"

text \<open>The call with an actor, a resource and extra data, which most handlers make.\<close>

definition write_audit ::
  "request \<Rightarrow> audit_action \<Rightarrow> user_row \<Rightarrow> string \<Rightarrow> uuid option \<Rightarrow> uuid option \<Rightarrow> jobj \<Rightarrow> db \<Rightarrow> db" where
  "write_audit rq action actor resource_type resource_id team_id extra d =
     write_audit_event rq action (Some (u_id actor)) (Some (u_email actor)) (Some resource_type)
       resource_id team_id (Some extra) d"

definition WORKER_ACTOR_EMAIL :: string where
  "WORKER_ACTOR_EMAIL = ''worker@nextballup.internal''"

definition write_worker_audit ::
  "audit_action \<Rightarrow> uuid option \<Rightarrow> string \<Rightarrow> uuid option \<Rightarrow> string option \<Rightarrow> jobj \<Rightarrow> db \<Rightarrow> db" where
  "write_worker_audit action team_id resource_type resource_id request_id extra d =
     d\<lparr>audit_logs := audit_logs d @ [\<lparr>au_action = action, au_actor_user_id = None,
        au_actor_email = Some WORKER_ACTOR_EMAIL, au_resource_type = Some resource_type,
        au_resource_id = resource_id, au_team_id = team_id, au_ip_address = None,
        au_user_agent = Some ''nextballup-worker'', au_request_id = request_id,
        au_extra = Some extra\<rparr>]\<rparr>"

lemma write_audit_event_frame [simp]:
  "users (write_audit_event rq a ui ue rt ri t x d) = users d"
  "teams (write_audit_event rq a ui ue rt ri t x d) = teams d"
  "memberships (write_audit_event rq a ui ue rt ri t x d) = memberships d"
  "invites (write_audit_event rq a ui ue rt ri t x d) = invites d"
  "consents (write_audit_event rq a ui ue rt ri t x d) = consents d"
  "games (write_audit_event rq a ui ue rt ri t x d) = games d"
  "videos (write_audit_event rq a ui ue rt ri t x d) = videos d"
  "jobs (write_audit_event rq a ui ue rt ri t x d) = jobs d"
  "artifacts (write_audit_event rq a ui ue rt ri t x d) = artifacts d"
  "plans (write_audit_event rq a ui ue rt ri t x d) = plans d"
  "accounts (write_audit_event rq a ui ue rt ri t x d) = accounts d"
  "links (write_audit_event rq a ui ue rt ri t x d) = links d"
  "subscriptions (write_audit_event rq a ui ue rt ri t x d) = subscriptions d"
  "usage (write_audit_event rq a ui ue rt ri t x d) = usage d"
  "refresh_sessions (write_audit_event rq a ui ue rt ri t x d) = refresh_sessions d"
  "email_tokens (write_audit_event rq a ui ue rt ri t x d) = email_tokens d"
  "reset_tokens (write_audit_event rq a ui ue rt ri t x d) = reset_tokens d"
  "totp_secrets (write_audit_event rq a ui ue rt ri t x d) = totp_secrets d"
  "recovery_codes (write_audit_event rq a ui ue rt ri t x d) = recovery_codes d"
  "csp_reports (write_audit_event rq a ui ue rt ri t x d) = csp_reports d"
  "events (write_audit_event rq a ui ue rt ri t x d) = events d"
  by (simp_all add: write_audit_event_def)

lemma write_audit_frame [simp]:
  "users (write_audit rq a u rt ri t x d) = users d"
  "teams (write_audit rq a u rt ri t x d) = teams d"
  "memberships (write_audit rq a u rt ri t x d) = memberships d"
  "invites (write_audit rq a u rt ri t x d) = invites d"
  "consents (write_audit rq a u rt ri t x d) = consents d"
  "games (write_audit rq a u rt ri t x d) = games d"
  "videos (write_audit rq a u rt ri t x d) = videos d"
  "jobs (write_audit rq a u rt ri t x d) = jobs d"
  "artifacts (write_audit rq a u rt ri t x d) = artifacts d"
  "plans (write_audit rq a u rt ri t x d) = plans d"
  "accounts (write_audit rq a u rt ri t x d) = accounts d"
  "links (write_audit rq a u rt ri t x d) = links d"
  "subscriptions (write_audit rq a u rt ri t x d) = subscriptions d"
  "usage (write_audit rq a u rt ri t x d) = usage d"
  "refresh_sessions (write_audit rq a u rt ri t x d) = refresh_sessions d"
  "email_tokens (write_audit rq a u rt ri t x d) = email_tokens d"
  "reset_tokens (write_audit rq a u rt ri t x d) = reset_tokens d"
  "totp_secrets (write_audit rq a u rt ri t x d) = totp_secrets d"
  "recovery_codes (write_audit rq a u rt ri t x d) = recovery_codes d"
  "csp_reports (write_audit rq a u rt ri t x d) = csp_reports d"
  "events (write_audit rq a u rt ri t x d) = events d"
  by (simp_all add: write_audit_def)

lemma write_worker_audit_frame [simp]:
  "users (write_worker_audit a t rt ri rq x d) = users d"
  "teams (write_worker_audit a t rt ri rq x d) = teams d"
  "memberships (write_worker_audit a t rt ri rq x d) = memberships d"
  "invites (write_worker_audit a t rt ri rq x d) = invites d"
  "consents (write_worker_audit a t rt ri rq x d) = consents d"
  "games (write_worker_audit a t rt ri rq x d) = games d"
  "videos (write_worker_audit a t rt ri rq x d) = videos d"
  "jobs (write_worker_audit a t rt ri rq x d) = jobs d"
  "artifacts (write_worker_audit a t rt ri rq x d) = artifacts d"
  "plans (write_worker_audit a t rt ri rq x d) = plans d"
  "accounts (write_worker_audit a t rt ri rq x d) = accounts d"
  "links (write_worker_audit a t rt ri rq x d) = links d"
  "subscriptions (write_worker_audit a t rt ri rq x d) = subscriptions d"
  "usage (write_worker_audit a t rt ri rq x d) = usage d"
  "refresh_sessions (write_worker_audit a t rt ri rq x d) = refresh_sessions d"
  "email_tokens (write_worker_audit a t rt ri rq x d) = email_tokens d"
  "reset_tokens (write_worker_audit a t rt ri rq x d) = reset_tokens d"
  "totp_secrets (write_worker_audit a t rt ri rq x d) = totp_secrets d"
  "recovery_codes (write_worker_audit a t rt ri rq x d) = recovery_codes d"
  "csp_reports (write_worker_audit a t rt ri rq x d) = csp_reports d"
  "events (write_worker_audit a t rt ri rq x d) = events d"
  by (simp_all add: write_worker_audit_def)

lemma audit_logs_write_audit [simp]: "audit_logs (write_audit rq a u rt ri t x d) \<noteq> []"
  by (simp add: write_audit_def write_audit_event_def)

text \<open>
  \<open>same_but_audit\<close> says that two database states agree on everything but the audit log: what a
  refused request may leave behind.
\<close>

definition same_but_audit :: "db \<Rightarrow> db \<Rightarrow> bool" where
  "same_but_audit d d' \<longleftrightarrow> d' = d\<lparr>audit_logs := audit_logs d'\<rparr>"

lemma same_but_audit_refl [simp]: "same_but_audit d d"
  by (simp add: same_but_audit_def)

lemma same_but_audit_event [simp]: "same_but_audit d (write_audit_event rq a ui ue rt ri t x d)"
  by (simp add: same_but_audit_def write_audit_event_def)

lemma same_but_audit_write [simp]: "same_but_audit d (write_audit rq a u rt ri t x d)"
  by (simp add: write_audit_def)

lemma same_but_audit_trans [trans]:
  "same_but_audit a b \<Longrightarrow> same_but_audit b c \<Longrightarrow> same_but_audit a c"
  unfolding same_but_audit_def by (metis db.update_convs(15) db.surjective)

end
