(* ===== verification/Samples.thy ===== *)
theory Samples
  imports Database
begin

text \<open>Concrete rows, on which the witnesses of the properties evaluate the model.\<close>

definition sample_coach :: user_row where
  "sample_coach = \<lparr>u_id = 4, u_email = ''coach@example.com'', u_full_name = ''Coach'',
     u_role = UR_COACH, u_is_active = True, u_is_verified = True, u_session_version = 1,
     u_parental_consent_on_file = False, u_date_of_birth_verified = False,
     u_password_hash = ''$2b$12$x'', u_phone = None, u_institution = None, u_avatar_url = None,
     u_height_inches = None, u_weight_lbs = None, u_position = None, u_graduation_year = None,
     u_handedness = None, u_biometric_consent = False, u_created_at = 0\<rparr>"

definition sample_player :: user_row where
  "sample_player = sample_coach\<lparr>u_id := 5, u_email := ''player@example.com'', u_role := UR_PLAYER\<rparr>"

definition sample_team :: team_row where
  "sample_team = \<lparr>t_id = 2, t_name = ''Hawks'', t_sport = SP_BASKETBALL, t_level = TL_COLLEGE_D1,
     t_institution = None, t_institution_type = IT_COLLEGE, t_season = ''2026'', t_city = None,
     t_state = None, t_conference = None, t_invite_code = ''ABCDEFGH'', t_is_active = True,
     t_deleted_at = None, t_created_at = 0\<rparr>"

definition sample_membership :: membership_row where
  "sample_membership = \<lparr>m_id = 30, m_team_id = 2, m_user_id = 4, m_team_role = TR_HEAD_COACH,
     m_jersey_number = None, m_is_active = True, m_joined_at = 0\<rparr>"

definition sample_game :: game_row where
  "sample_game = \<lparr>g_id = 6, g_team_id = 2, g_status = GS_SCHEDULED, g_shot_clock_enabled = False,
     g_shot_clock_seconds = None, g_opponent_name = None, g_game_type = GT_SCRIMMAGE,
     g_date = 20000, g_time = None, g_location = None, g_is_home = True, g_periods = 4,
     g_period_length_minutes = 8, g_score_team = None, g_score_opponent = None, g_notes = None,
     g_created_at = 0\<rparr>"

definition sample_video :: video_row where
  "sample_video = \<lparr>v_id = 1, v_game_id = 6, v_team_id = 2, v_uploaded_by = Some 4,
     v_privacy_consent_id = None, v_filename = ''game.mp4'',
     v_storage_key_raw = Some ''raw/2/1/game.mp4'', v_storage_key_mezzanine = None,
     v_storage_key_hls = None, v_status = VS_UPLOADED, v_file_size_bytes = Some 2000000,
     v_content_type = Some ''video/mp4'', v_duration_seconds = None, v_width = None, v_height = None,
     v_fps = None, v_codec = None, v_checksum_sha256 = None, v_storage_etag = None,
     v_storage_output_sha256 = None, v_camera_position = None, v_camera_height = None,
     v_upload_id = None, v_upload_expires_at = None, v_raw_retention_expires_at = None,
     v_raw_delete_requested_at = None, v_raw_delete_failed_at = None,
     v_raw_storage_deleted_at = None, v_raw_deleted_at = None, v_raw_delete_reason = None,
     v_demo_preview_status = ''not_started'', v_demo_preview_storage_key = None,
      v_demo_preview_requested_at = None, v_demo_preview_started_at = None, v_demo_preview_generated_at = None,
      v_demo_preview_task_id = None, v_demo_preview_error_message = None, v_thumbnail_url = None\<rparr>"

definition free_plan :: plan_row where
  "free_plan = \<lparr>pl_id = 50, pl_code = ''free'', pl_tier = 0, pl_max_videos_per_month = Some 2,
     pl_max_storage_gb = Some 1, pl_max_teams = Some 1, pl_raw_video_retention_days = Some 30,
     pl_features = []\<rparr>"

definition sample_db :: db where
  "sample_db = empty_db\<lparr>users := [sample_coach, sample_player], teams := [sample_team],
     memberships := [sample_membership], games := [sample_game], plans := [free_plan]\<rparr>"

definition sample_request :: request where
  "sample_request = \<lparr>rq_client_ip = Some ''10.0.0.1'', rq_user_agent = None, rq_request_id = Some ''r1''\<rparr>"

lemmas sample_defs =
  sample_coach_def sample_player_def sample_team_def sample_membership_def sample_game_def
  sample_video_def free_plan_def sample_db_def sample_request_def empty_db_def

end
