(* ===== verification/Billing.thy ===== *)
theory Billing
  imports Samples Encoding
begin

text \<open>
  \<open>apps/api/src/nextballup_api/billing.py\<close>: the provider registry, the billing account of a team, plan
  entitlements, the usage ledger and the two upload quotas. A function that writes takes the clock
  reading and the fresh account id as arguments and returns the new database; on an error its caller
  discards that database (the transaction is rolled back). The locale \<open>quota_gate\<close> is the contract
  of a quota: a reservation made only when the check allows it never passes the limit.
\<close>

section \<open>Providers\<close>

record checkout_session =
  checkout_url :: string
  external_session_id :: string

record provider =
  bp_name :: string
  create_checkout_session :: "uuid \<Rightarrow> string \<Rightarrow> string \<Rightarrow> string \<Rightarrow> exn + checkout_session"
  cancel_subscription :: "string \<Rightarrow> exn + unit"

definition StubBillingProvider :: provider where
  "StubBillingProvider = \<lparr>bp_name = ''stub'',
     create_checkout_session = (\<lambda>billing_account_id plan_code success_url cancel_url.
       Inr \<lparr>checkout_url = ''about:blank#stub-checkout-'' @ uuid_str billing_account_id @ ''-'' @ plan_code,
         external_session_id = ''stub_session_'' @ uuid_str billing_account_id\<rparr>),
     cancel_subscription = (\<lambda>external_subscription_id. Inr ())\<rparr>"

definition BillingDisabledProvider :: provider where
  "BillingDisabledProvider = \<lparr>bp_name = ''billing_disabled'',
     create_checkout_session = (\<lambda>billing_account_id plan_code success_url cancel_url.
       Inl (ForbiddenError E_FORBIDDEN [])),
     cancel_subscription = (\<lambda>external_subscription_id. Inl (ForbiddenError E_FORBIDDEN []))\<rparr>"

type_synonym provider_factory = "(string \<times> (settings \<Rightarrow> provider)) list"

definition PROVIDER_FACTORY :: provider_factory where
  "PROVIDER_FACTORY = [(''stub'', \<lambda>s. StubBillingProvider),
     (''billing_disabled'', \<lambda>s. BillingDisabledProvider)]"

fun register_billing_provider ::
  "string \<Rightarrow> (settings \<Rightarrow> provider) \<Rightarrow> provider_factory \<Rightarrow> provider_factory" where
  "register_billing_provider name factory [] = [(name, factory)]"
| "register_billing_provider name factory ((n, f) # r) =
     (if n = name then (n, factory) # r else (n, f) # register_billing_provider name factory r)"

definition get_billing_provider :: "provider_factory \<Rightarrow> settings \<Rightarrow> exn + provider" where
  "get_billing_provider registry s =
     (case map_of registry (billing_provider s) of
        None \<Rightarrow> Inl (RuntimeError (''No billing provider registered for `'' @ billing_provider s @ ''`''))
      | Some factory \<Rightarrow> Inr (factory s))"

definition registered_provider_names :: "provider_factory \<Rightarrow> string list" where
  "registered_provider_names registry = sort (map fst registry)"

section \<open>Entitlements\<close>

definition PLAN_SNAPSHOT_FIELDS :: "(string \<times> (plan_row \<Rightarrow> int option)) list" where
  "PLAN_SNAPSHOT_FIELDS = [(''max_videos_per_month'', pl_max_videos_per_month),
     (''max_storage_gb'', pl_max_storage_gb), (''max_teams'', pl_max_teams),
     (''raw_video_retention_days'', pl_raw_video_retention_days)]"

definition plan_quotas_snapshot :: "plan_row \<Rightarrow> quota_snapshot" where
  "plan_quotas_snapshot plan =
     \<lparr>qs_numbers = map (\<lambda>(n, f). (n, f plan)) PLAN_SNAPSHOT_FIELDS, qs_features = pl_features plan\<rparr>"

definition subscription_plan_code :: "subscription_row option \<Rightarrow> plan_row option \<Rightarrow> string option" where
  "subscription_plan_code subscription plan =
     (case subscription of
        Some s \<Rightarrow>
          (case s_plan_code_at_activation s of
             Some c \<Rightarrow> Some c | None \<Rightarrow> map_option pl_code plan)
      | None \<Rightarrow> map_option pl_code plan)"

definition subscription_plan_tier :: "subscription_row option \<Rightarrow> plan_row option \<Rightarrow> int" where
  "subscription_plan_tier subscription plan =
     (let fallback = (case plan of Some p \<Rightarrow> pl_tier p | None \<Rightarrow> 0) in
      case subscription of
        Some s \<Rightarrow> (case s_plan_tier_at_activation s of Some t \<Rightarrow> t | None \<Rightarrow> fallback)
      | None \<Rightarrow> fallback)"

definition get_default :: "string \<Rightarrow> bool \<Rightarrow> (string \<times> bool) list \<Rightarrow> bool" where
  "get_default k dflt d = (case map_of d k of None \<Rightarrow> dflt | Some b \<Rightarrow> b)"

definition feature_enabled ::
  "plan_row option \<Rightarrow> string \<Rightarrow> bool \<Rightarrow> subscription_row option \<Rightarrow> bool" where
  "feature_enabled plan feature_key dflt subscription =
     (case (case subscription of None \<Rightarrow> None | Some s \<Rightarrow> s_plan_quotas_at_activation s) of
        Some q \<Rightarrow> get_default feature_key dflt (qs_features q)
      | None \<Rightarrow>
          (case plan of
             None \<Rightarrow> dflt
           | Some p \<Rightarrow>
               if pl_features p = [] then dflt
               else get_default feature_key dflt (pl_features p)))"

definition numeric_entitlement ::
  "plan_row option \<Rightarrow> string \<Rightarrow> subscription_row option \<Rightarrow> int option" where
  "numeric_entitlement plan attribute subscription =
     (case (case subscription of None \<Rightarrow> None | Some s \<Rightarrow> s_plan_quotas_at_activation s) of
        Some q \<Rightarrow> (case map_of (qs_numbers q) attribute of None \<Rightarrow> None | Some v \<Rightarrow> v)
      | None \<Rightarrow>
          (case plan of
             None \<Rightarrow> None
           | Some p \<Rightarrow>
               (case map_of PLAN_SNAPSHOT_FIELDS attribute of None \<Rightarrow> None | Some f \<Rightarrow> f p)))"

definition plan_retention_days :: "plan_row option \<Rightarrow> subscription_row option \<Rightarrow> int option" where
  "plan_retention_days plan subscription =
     numeric_entitlement plan ''raw_video_retention_days'' subscription"

definition artifact_meets_entitlement :: "plan_row option \<Rightarrow> int \<Rightarrow> bool" where
  "artifact_meets_entitlement plan min_plan_tier =
     (case plan of None \<Rightarrow> min_plan_tier \<le> 0 | Some p \<Rightarrow> pl_tier p \<ge> min_plan_tier)"

section \<open>Accounts and subscriptions\<close>

text \<open>
  The unsaved INSERT of a link is flushed by the plan query; when the team already has a link the
  unique constraint on \<open>team_id\<close> refuses it.
\<close>

definition integrity_error :: exn where
  "integrity_error = RuntimeError ''IntegrityError''"

definition default_subscription :: "uuid \<Rightarrow> plan_row \<Rightarrow> time \<Rightarrow> subscription_row" where
  "default_subscription account_id plan now =
     \<lparr>s_billing_account_id = account_id, s_plan_id = pl_id plan, s_status = SS_ACTIVE,
      s_current_period_start = now, s_current_period_end = now + days 30,
      s_plan_code_at_activation = Some (pl_code plan), s_plan_tier_at_activation = Some (pl_tier plan),
      s_plan_quotas_at_activation = Some (plan_quotas_snapshot plan)\<rparr>"

definition get_or_create_account_for_team ::
  "settings \<Rightarrow> uuid \<Rightarrow> uuid option \<Rightarrow> uuid \<Rightarrow> time \<Rightarrow> db \<Rightarrow> (exn + account_row) \<times> db" where
  "get_or_create_account_for_team s team_id owner_user_id account_id now d =
     (if by_key t_id team_id (teams d) = None
      then (Inl (RuntimeError (''Cannot provision billing account for unknown team `'' @ uuid_str team_id @ ''`'')), d)
      else
        (let link = scalar (\<lambda>l. l_team_id l = team_id) (links d);
             found = (case link of None \<Rightarrow> None | Some l \<Rightarrow> by_key ba_id (l_billing_account_id l) (accounts d))
         in case found of
              Some account \<Rightarrow> (Inr account, d)
            | None \<Rightarrow>
                (let account = \<lparr>ba_id = account_id, ba_owner_user_id = owner_user_id,
                       ba_status = BA_ACTIVE, ba_deleted_at = None, ba_name = ''team-'' @ uuid_str team_id,
                       ba_billing_email = None\<rparr>
                 in if link \<noteq> None \<or> by_key ba_id account_id (accounts d) \<noteq> None
                    then (Inl integrity_error, d)
                    else
                      (case scalar (\<lambda>p. pl_code p = billing_default_plan_code s) (plans d) of
                         None \<Rightarrow>
                           (Inl (RuntimeError (''Default billing plan `'' @ billing_default_plan_code s @
                              ''` is missing'')), d)
                       | Some plan \<Rightarrow>
                           (Inr account,
                            d\<lparr>accounts := accounts d @ [account],
                              links := links d @ [\<lparr>l_billing_account_id = account_id, l_team_id = team_id\<rparr>],
                              subscriptions := subscriptions d @ [default_subscription account_id plan now]\<rparr>)))))"

record account_subscription =
  as_account :: account_row
  as_subscription :: "subscription_row option"
  as_plan :: "plan_row option"

definition latest_subscription :: "db \<Rightarrow> uuid \<Rightarrow> subscription_row option" where
  "latest_subscription d account_id =
     scalar (\<lambda>s. True)
       (sort_key (\<lambda>s. - s_current_period_start s)
         (filter (\<lambda>s. s_billing_account_id s = account_id \<and> s_status s \<in> {SS_TRIALING, SS_ACTIVE})
           (subscriptions d)))"

definition get_active_subscription :: "db \<Rightarrow> uuid \<Rightarrow> account_subscription option" where
  "get_active_subscription d account_id =
     (case by_key ba_id account_id (accounts d) of
        None \<Rightarrow> None
      | Some account \<Rightarrow>
          if ba_deleted_at account \<noteq> None \<or> ba_status account \<noteq> BA_ACTIVE then None
          else
            (let sub = latest_subscription d account_id;
                 plan = (case sub of None \<Rightarrow> None | Some s \<Rightarrow> by_key pl_id (s_plan_id s) (plans d))
             in Some \<lparr>as_account = account, as_subscription = sub, as_plan = plan\<rparr>))"

definition lock_active_billing_account :: "db \<Rightarrow> uuid \<Rightarrow> account_row option" where
  "lock_active_billing_account d account_id =
     scalar (\<lambda>a. ba_id a = account_id \<and> ba_status a = BA_ACTIVE \<and> ba_deleted_at a = None) (accounts d)"

record team_plan_context =
  tp_account_id :: uuid
  tp_plan :: "plan_row option"
  tp_plan_code :: "string option"
  tp_plan_tier :: int
  tp_raw_video_retention_days :: "int option"

definition resolve_team_plan :: "db \<Rightarrow> uuid \<Rightarrow> team_plan_context option" where
  "resolve_team_plan d team_id =
     (case scalar (\<lambda>l. l_team_id l = team_id) (links d) of
        None \<Rightarrow> None
      | Some link \<Rightarrow>
          (case get_active_subscription d (l_billing_account_id link) of
             None \<Rightarrow> None
           | Some sub \<Rightarrow>
               (case as_subscription sub of
                  None \<Rightarrow> None
                | Some s \<Rightarrow>
                    Some \<lparr>tp_account_id = l_billing_account_id link, tp_plan = as_plan sub,
                      tp_plan_code = subscription_plan_code (Some s) (as_plan sub),
                      tp_plan_tier = subscription_plan_tier (Some s) (as_plan sub),
                      tp_raw_video_retention_days = plan_retention_days (as_plan sub) (Some s)\<rparr>)))"

section \<open>The usage ledger\<close>

definition UPLOAD_INITIATED :: string where
  "UPLOAD_INITIATED = ''video.upload.initiated''"

definition ledger_sum :: "(usage_row \<Rightarrow> bool) \<Rightarrow> db \<Rightarrow> int" where
  "ledger_sum p d = sum_list (map ue_quantity (filter p (usage d)))"

definition videos_used_this_period :: "uuid \<Rightarrow> time \<Rightarrow> db \<Rightarrow> int" where
  "videos_used_this_period account_id period_start d =
     max 0 (ledger_sum (\<lambda>e. ue_billing_account_id e = account_id \<and> ue_event_key e = UPLOAD_INITIATED \<and>
       ue_occurred_at e \<ge> period_start) d)"

definition storage_bytes_reserved :: "uuid \<Rightarrow> db \<Rightarrow> int" where
  "storage_bytes_reserved account_id d =
     sum_list (concat (map (\<lambda>v. map (\<lambda>l. case v_file_size_bytes v of None \<Rightarrow> 0 | Some n \<Rightarrow> n)
       (filter (\<lambda>l. l_team_id l = v_team_id v \<and> l_billing_account_id l = account_id \<and>
          v_file_size_bytes v \<noteq> None \<and> v_status v \<noteq> VS_FAILED) (links d))) (videos d)))"

definition record_usage ::
  "uuid \<Rightarrow> string \<Rightarrow> int \<Rightarrow> uuid option \<Rightarrow> jobj option \<Rightarrow> time \<Rightarrow> db \<Rightarrow> db" where
  "record_usage account_id event_key quantity team_id metadata now d =
     d\<lparr>usage := usage d @ [\<lparr>ue_billing_account_id = account_id, ue_team_id = team_id,
        ue_event_key = event_key, ue_quantity = quantity, ue_occurred_at = now,
        ue_event_metadata = metadata\<rparr>]\<rparr>"

definition reserved_for :: "uuid \<Rightarrow> uuid \<Rightarrow> uuid \<Rightarrow> usage_row \<Rightarrow> bool" where
  "reserved_for account_id team_id video_id e \<longleftrightarrow>
     ue_billing_account_id e = account_id \<and> ue_team_id e = Some team_id \<and>
     ue_event_key e = UPLOAD_INITIATED \<and>
     jget ''video_id'' (or_empty (ue_event_metadata e)) = Some (JUuid video_id)"

definition release_video_upload_quota_reservation ::
  "uuid \<Rightarrow> uuid \<Rightarrow> string \<Rightarrow> time \<Rightarrow> db \<Rightarrow> db" where
  "release_video_upload_quota_reservation team_id video_id reason now d =
     (case resolve_team_plan d team_id of
        None \<Rightarrow> d
      | Some ctx \<Rightarrow>
          if ledger_sum (reserved_for (tp_account_id ctx) team_id video_id) d \<le> 0 then d
          else record_usage (tp_account_id ctx) UPLOAD_INITIATED (- 1) (Some team_id)
            (Some [(''video_id'', JUuid video_id), (''reason'', JStr reason)]) now d)"

section \<open>Quotas\<close>

record quota_check =
  qc_plan_code :: "string option"
  qc_quota_key :: string
  qc_used :: int
  qc_limit :: "int option"
  qc_allowed :: bool

definition denied_check :: "string \<Rightarrow> quota_check" where
  "denied_check key = \<lparr>qc_plan_code = None, qc_quota_key = key, qc_used = 0, qc_limit = Some 0,
     qc_allowed = False\<rparr>"

definition check_video_upload_quota ::
  "settings \<Rightarrow> uuid \<Rightarrow> uuid \<Rightarrow> uuid \<Rightarrow> time \<Rightarrow> db \<Rightarrow> (exn + quota_check) \<times> db" where
  "check_video_upload_quota s team_id owner_user_id fresh now d =
     (case get_or_create_account_for_team s team_id (Some owner_user_id) fresh now d of
        (Inl e, d) \<Rightarrow> (Inl e, d)
      | (Inr account, d) \<Rightarrow>
          (Inr (case lock_active_billing_account d (ba_id account) of
             None \<Rightarrow> denied_check ''max_videos_per_month''
           | Some locked \<Rightarrow>
               (case get_active_subscription d (ba_id account) of
                  None \<Rightarrow> denied_check ''max_videos_per_month''
                | Some sub \<Rightarrow>
                    (case as_subscription sub of
                       None \<Rightarrow> denied_check ''max_videos_per_month''
                     | Some subscription \<Rightarrow>
                         (let limit = numeric_entitlement (as_plan sub) ''max_videos_per_month'' (Some subscription);
                              used = videos_used_this_period (ba_id account) (s_current_period_start subscription) d
                          in \<lparr>qc_plan_code = subscription_plan_code (Some subscription) (as_plan sub),
                              qc_quota_key = ''max_videos_per_month'', qc_used = used, qc_limit = limit,
                              qc_allowed = (case limit of None \<Rightarrow> True | Some l \<Rightarrow> used < l)\<rparr>)))), d))"

definition check_video_storage_quota ::
  "settings \<Rightarrow> uuid \<Rightarrow> uuid \<Rightarrow> int \<Rightarrow> uuid \<Rightarrow> time \<Rightarrow> db \<Rightarrow> (exn + quota_check) \<times> db" where
  "check_video_storage_quota s team_id owner_user_id additional_bytes fresh now d =
     (case get_or_create_account_for_team s team_id (Some owner_user_id) fresh now d of
        (Inl e, d) \<Rightarrow> (Inl e, d)
      | (Inr account, d) \<Rightarrow>
          (Inr (case lock_active_billing_account d (ba_id account) of
             None \<Rightarrow> denied_check ''max_storage_bytes''
           | Some locked \<Rightarrow>
               (case get_active_subscription d (ba_id account) of
                  None \<Rightarrow> denied_check ''max_storage_bytes''
                | Some sub \<Rightarrow>
                    (case as_subscription sub of
                       None \<Rightarrow> denied_check ''max_storage_bytes''
                     | Some subscription \<Rightarrow>
                         (let max_storage_gb = numeric_entitlement (as_plan sub) ''max_storage_gb'' (Some subscription);
                              used = storage_bytes_reserved (ba_id account) d;
                              limit = map_option (\<lambda>g. g * 1024 * 1024 * 1024) max_storage_gb
                          in \<lparr>qc_plan_code = subscription_plan_code (Some subscription) (as_plan sub),
                              qc_quota_key = ''max_storage_bytes'', qc_used = used, qc_limit = limit,
                              qc_allowed = (case limit of None \<Rightarrow> True
                                | Some l \<Rightarrow> used + additional_bytes \<le> l)\<rparr>)))), d))"

definition quota_exceeded_error :: "quota_check \<Rightarrow> exn" where
  "quota_exceeded_error check =
     ForbiddenError E_BILLING_QUOTA_EXCEEDED
       [(''quota_key'', JStr (qc_quota_key check)), (''limit'', jopt JInt (qc_limit check)),
        (''used'', JInt (qc_used check)), (''plan_code'', jopt JStr (qc_plan_code check))]"

section \<open>The contract of a quota\<close>

text \<open>
  \<open>used\<close> is the amount consumed, \<open>cost x\<close> what reservation \<open>x\<close> may add, \<open>allowed x\<close> the check made
  under the account lock just before it.
\<close>

locale quota_gate =
  fixes inv :: "'d \<Rightarrow> bool"
    and used :: "'d \<Rightarrow> int"
    and limit :: "int option"
    and cost :: "'x \<Rightarrow> int"
    and allowed :: "'x \<Rightarrow> 'd \<Rightarrow> bool"
    and reserve :: "'x \<Rightarrow> 'd \<Rightarrow> 'd"
  assumes check: "limit = Some l \<Longrightarrow> allowed x d \<Longrightarrow> used d + cost x \<le> l"
    and reserve_cost: "inv d \<Longrightarrow> used (reserve x d) \<le> used d + cost x"
    and reserve_inv: "inv d \<Longrightarrow> inv (reserve x d)"
begin

lemma reserve_within:
  "inv d \<Longrightarrow> limit = Some l \<Longrightarrow> allowed x d \<Longrightarrow> used (reserve x d) \<le> l"
  using check[of l x d] reserve_cost[of d x] by linarith

lemma attempts_within:
  "inv d \<Longrightarrow> limit = Some l \<Longrightarrow> used d \<le> l \<Longrightarrow>
   used (fold (\<lambda>x d. if allowed x d then reserve x d else d) xs d) \<le> l"
proof (induction xs arbitrary: d)
  case (Cons x xs)
  show ?case
  proof (cases "allowed x d")
    case True
    with Cons.prems have "used (reserve x d) \<le> l" by (intro reserve_within)
    with True Cons reserve_inv show ?thesis by simp
  qed (use Cons in simp)
qed simp

end

definition within_limit :: "int option \<Rightarrow> int \<Rightarrow> bool" where
  "within_limit limit n = (case limit of None \<Rightarrow> True | Some l \<Rightarrow> n \<le> l)"

lemma ledger_sum_record:
  "ledger_sum p (record_usage a k q t m now d) =
     ledger_sum p d + (if p \<lparr>ue_billing_account_id = a, ue_team_id = t, ue_event_key = k,
       ue_quantity = q, ue_occurred_at = now, ue_event_metadata = m\<rparr> then q else 0)"
  by (simp add: ledger_sum_def record_usage_def)

lemma videos_used_record:
  "videos_used_this_period a p (record_usage a' k 1 t m now d) \<le> videos_used_this_period a p d + 1"
  by (simp add: videos_used_this_period_def ledger_sum_record max_def)

interpretation video_quota: quota_gate "\<lambda>d. True" "videos_used_this_period account_id period_start"
  limit "\<lambda>x. 1" "\<lambda>x d. within_limit limit (videos_used_this_period account_id period_start d + 1)"
  "\<lambda>(t, m, now). record_usage account_id UPLOAD_INITIATED 1 t m now"
  for account_id period_start limit
  by unfold_locales (auto simp: within_limit_def videos_used_record)

definition video_bytes :: "video_row \<Rightarrow> int" where
  "video_bytes v = (case v_file_size_bytes v of None \<Rightarrow> 0 | Some n \<Rightarrow> max 0 n)"

lemma one_link: "distinct (map l_team_id ls) \<Longrightarrow> length (filter (\<lambda>l. l_team_id l = t \<and> q l) ls) \<le> 1"
proof (induction ls)
  case (Cons l ls)
  have "filter (\<lambda>l. l_team_id l = t \<and> q l) ls = []" if "l_team_id l = t"
    using Cons.prems that by (auto simp: filter_empty_conv image_iff)
  with Cons show ?case by simp
qed simp

lemma storage_bytes_add_video:
  assumes "distinct (map l_team_id (links d))"
  shows "storage_bytes_reserved a (d\<lparr>videos := videos d @ [v]\<rparr>) \<le> storage_bytes_reserved a d + video_bytes v"
proof -
  let ?n = "case v_file_size_bytes v of None \<Rightarrow> 0 | Some n \<Rightarrow> n"
  let ?L = "filter (\<lambda>l. l_team_id l = v_team_id v \<and> l_billing_account_id l = a \<and>
      v_file_size_bytes v \<noteq> None \<and> v_status v \<noteq> VS_FAILED) (links d)"
  have "length ?L \<le> 1" using one_link[OF assms] by simp
  then have "?L = [] \<or> (\<exists>l. ?L = [l])" by (cases ?L) auto
  then have "sum_list (map (\<lambda>l. ?n) ?L) \<le> video_bytes v"
    by (auto simp: video_bytes_def split: option.splits)
  then show ?thesis by (simp add: storage_bytes_reserved_def)
qed

interpretation storage_quota: quota_gate "\<lambda>d. distinct (map l_team_id (links d))"
  "storage_bytes_reserved account_id" limit video_bytes
  "\<lambda>v d. within_limit limit (storage_bytes_reserved account_id d + video_bytes v)"
  "\<lambda>v d. d\<lparr>videos := videos d @ [v]\<rparr>"
  for account_id limit
  by unfold_locales (auto simp: within_limit_def intro: storage_bytes_add_video)

section \<open>Lemmas\<close>

definition billing_inv :: "db \<Rightarrow> bool" where
  "billing_inv d \<longleftrightarrow> distinct (map l_team_id (links d)) \<and> distinct (map ba_id (accounts d)) \<and>
     (\<forall>l \<in> set (links d). l_billing_account_id l \<in> ba_id ` set (accounts d))"

lemma found_account:
  assumes "billing_inv d" and "scalar (\<lambda>l. l_team_id l = t) (links d) = Some l"
  shows "\<exists>a. by_key ba_id (l_billing_account_id l) (accounts d) = Some a"
proof -
  have "l_billing_account_id l \<in> ba_id ` set (accounts d)"
    using assms scalar_Some[OF assms(2)] by (auto simp: billing_inv_def)
  then show ?thesis using by_key_None by (metis not_None_eq)
qed

lemma get_or_create_cases:
  assumes "get_or_create_account_for_team s t ow fresh now d = (Inr a, d')" and "billing_inv d"
  shows "(d' = d \<and> (\<exists>l. scalar (\<lambda>l. l_team_id l = t) (links d) = Some l \<and>
           by_key ba_id (l_billing_account_id l) (accounts d) = Some a)) \<or>
    (scalar (\<lambda>l. l_team_id l = t) (links d) = None \<and> by_key ba_id fresh (accounts d) = None \<and> ba_id a = fresh \<and>
     (\<exists>plan. d' = d\<lparr>accounts := accounts d @ [a],
       links := links d @ [\<lparr>l_billing_account_id = fresh, l_team_id = t\<rparr>],
       subscriptions := subscriptions d @ [default_subscription fresh plan now]\<rparr>))"
proof (cases "scalar (\<lambda>l. l_team_id l = t) (links d)")
  case None
  with assms(1) show ?thesis
    unfolding get_or_create_account_for_team_def Let_def by (auto split: if_splits option.splits)
next
  case (Some l)
  with found_account[OF assms(2)] obtain x where
    x: "by_key ba_id (l_billing_account_id l) (accounts d) = Some x" by blast
  from assms(1) have "x = a" "d' = d"
    unfolding get_or_create_account_for_team_def Let_def Some option.case x
    by (simp_all split: if_splits)
  with Some x show ?thesis by simp
qed

lemma get_or_create_known_team:
  "get_or_create_account_for_team s t ow fresh now d = (Inr a, d') \<Longrightarrow>
     teams d' = teams d \<and> by_key t_id t (teams d) \<noteq> None"
  unfolding get_or_create_account_for_team_def Let_def by (auto split: if_splits option.splits)

lemma get_or_create_link:
  assumes "get_or_create_account_for_team s t ow fresh now d = (Inr a, d')" and "billing_inv d"
  shows "\<exists>l. scalar (\<lambda>l. l_team_id l = t) (links d') = Some l \<and> l_billing_account_id l = ba_id a \<and>
    by_key ba_id (ba_id a) (accounts d') = Some a"
  using get_or_create_cases[OF assms]
proof (elim disjE conjE exE)
  fix l
  assume "d' = d" "scalar (\<lambda>l. l_team_id l = t) (links d) = Some l"
    and a: "by_key ba_id (l_billing_account_id l) (accounts d) = Some a"
  moreover have "ba_id a = l_billing_account_id l" using by_key_Some[OF a] by simp
  ultimately show ?thesis by simp
qed (simp add: scalar_append by_key_append by_key_def[of _ _ "[_]"])

lemma get_or_create_inv:
  assumes "get_or_create_account_for_team s t ow fresh now d = (Inr a, d')" and "billing_inv d"
  shows "billing_inv d'"
  using get_or_create_cases[OF assms] assms(2)
  by (auto simp: billing_inv_def scalar_None by_key_None)

lemma record_usage_frame [simp]:
  "users (record_usage a k q t m now d) = users d" "teams (record_usage a k q t m now d) = teams d"
  "memberships (record_usage a k q t m now d) = memberships d"
  "consents (record_usage a k q t m now d) = consents d" "games (record_usage a k q t m now d) = games d"
  "videos (record_usage a k q t m now d) = videos d" "jobs (record_usage a k q t m now d) = jobs d"
  "plans (record_usage a k q t m now d) = plans d" "accounts (record_usage a k q t m now d) = accounts d"
  "links (record_usage a k q t m now d) = links d"
  "subscriptions (record_usage a k q t m now d) = subscriptions d"
  "audit_logs (record_usage a k q t m now d) = audit_logs d"
  by (simp_all add: record_usage_def)

lemma get_active_subscription_reads:
  "accounts d = accounts d' \<Longrightarrow> subscriptions d = subscriptions d' \<Longrightarrow> plans d = plans d' \<Longrightarrow>
   get_active_subscription d = get_active_subscription d'"
  by (rule ext) (simp add: get_active_subscription_def latest_subscription_def Let_def
      cong: option.case_cong if_cong)

lemma resolve_team_plan_reads:
  "links d = links d' \<Longrightarrow> accounts d = accounts d' \<Longrightarrow> subscriptions d = subscriptions d' \<Longrightarrow>
   plans d = plans d' \<Longrightarrow> resolve_team_plan d t = resolve_team_plan d' t"
  unfolding resolve_team_plan_def using get_active_subscription_reads[of d d']
  by (simp cong: option.case_cong)

lemma resolve_release [simp]:
  "resolve_team_plan (release_video_upload_quota_reservation t v r now d) t' = resolve_team_plan d t'"
  by (rule resolve_team_plan_reads)
    (simp_all add: release_video_upload_quota_reservation_def split: option.splits)

lemma release_net:
  assumes "resolve_team_plan d t = Some ctx"
  shows "ledger_sum (reserved_for (tp_account_id ctx) t v)
      (release_video_upload_quota_reservation t v r now d) =
    (let n = ledger_sum (reserved_for (tp_account_id ctx) t v) d in if n \<le> 0 then n else n - 1)"
  using assms unfolding release_video_upload_quota_reservation_def Let_def
  by (simp add: ledger_sum_record reserved_for_def or_empty_def)

lemma get_or_create_again:
  assumes "get_or_create_account_for_team s t ow fresh now d = (Inr a, d')" and "billing_inv d"
  shows "get_or_create_account_for_team s2 t ow2 fresh2 now2 d' = (Inr a, d')"
proof -
  obtain l where "scalar (\<lambda>l. l_team_id l = t) (links d') = Some l" "l_billing_account_id l = ba_id a"
    "by_key ba_id (ba_id a) (accounts d') = Some a"
    using get_or_create_link[OF assms] by blast
  then show ?thesis
    using get_or_create_known_team[OF assms(1)] by (simp add: get_or_create_account_for_team_def)
qed

lemma upload_check_allowed:
  assumes "check_video_upload_quota s t ow fresh now d = (Inr qc, d')" and "qc_allowed qc"
  obtains a sub where "get_or_create_account_for_team s t (Some ow) fresh now d = (Inr a, d')"
    "latest_subscription d' (ba_id a) = Some sub"
    "within_limit (qc_limit qc) (videos_used_this_period (ba_id a) (s_current_period_start sub) d' + 1)"
  using assms unfolding check_video_upload_quota_def
  by (auto simp: denied_check_def Let_def within_limit_def get_active_subscription_def
      split: sum.splits prod.splits option.splits if_splits)

lemma storage_check_allowed:
  assumes "check_video_storage_quota s t ow n fresh now d = (Inr qc, d')" and "qc_allowed qc"
  obtains a where "get_or_create_account_for_team s t (Some ow) fresh now d = (Inr a, d')"
    "within_limit (qc_limit qc) (storage_bytes_reserved (ba_id a) d' + n)"
  using assms unfolding check_video_storage_quota_def
  by (auto simp: denied_check_def Let_def within_limit_def get_active_subscription_def
      split: sum.splits prod.splits option.splits if_splits)

section \<open>Properties\<close>

text \<open>
  a team has one billing account. Provisioning keeps the billing tables consistent (one link
  per team, every link to an existing account), the link of the team names the returned account, and
  every later call, by whichever user and with whatever settings, returns that account and writes
  nothing.
\<close>

theorem billing_account_once:
  assumes "billing_inv d" and "get_or_create_account_for_team s t ow fresh now d = (Inr a, d')"
  shows "billing_inv d' \<and>
    (\<forall>l \<in> set (links d'). l_team_id l = t \<longrightarrow> l_billing_account_id l = ba_id a) \<and>
    get_or_create_account_for_team s2 t ow2 fresh2 now2 d' = (Inr a, d')"
proof (intro conjI ballI impI)
  show inv: "billing_inv d'" using get_or_create_inv[OF assms(2,1)] .
  show "get_or_create_account_for_team s2 t ow2 fresh2 now2 d' = (Inr a, d')"
    using get_or_create_again[OF assms(2,1)] .
  obtain l where l: "scalar (\<lambda>l. l_team_id l = t) (links d') = Some l" "l_billing_account_id l = ba_id a"
    using get_or_create_link[OF assms(2,1)] by blast
  fix x assume x: "x \<in> set (links d')" "l_team_id x = t"
  have "by_key l_team_id t (links d') = Some l" using l(1) by (simp add: by_key_def)
  with by_key_unique[of l_team_id "links d'" t l x] x inv have "x = l" by (simp add: billing_inv_def)
  with l(2) show "l_billing_account_id x = ba_id a" by simp
qed

theorem billing_account_once_witness:
  "\<exists>a d'. get_or_create_account_for_team default_settings 2 None 90 0 sample_db = (Inr a, d') \<and>
     get_or_create_account_for_team default_settings 2 (Some 4) 91 7 d' = (Inr a, d')"
proof -
  have r: "get_or_create_account_for_team default_settings 2 None 90 0 sample_db =
    (Inr \<lparr>ba_id = 90, ba_owner_user_id = None, ba_status = BA_ACTIVE, ba_deleted_at = None,
       ba_name = ''team-'' @ uuid_str 2, ba_billing_email = None\<rparr>,
     snd (get_or_create_account_for_team default_settings 2 None 90 0 sample_db))"
    by (simp add: get_or_create_account_for_team_def sample_defs default_settings_def by_key_def Let_def)
  have inv: "billing_inv sample_db" by (simp add: sample_defs billing_inv_def)
  show ?thesis using billing_account_once[OF inv r] r by blast
qed

text \<open>
  The monthly video quota holds. When \<open>check_video_upload_quota\<close> allows an upload of a team with
  a limited plan, then recording that upload leaves the usage of the current subscription period
  within the limit it reported.
\<close>

theorem upload_quota_respected:
  assumes "check_video_upload_quota s t ow fresh now d = (Inr qc, d')"
    and "qc_allowed qc" and "qc_limit qc = Some l"
  shows "\<exists>a sub. get_or_create_account_for_team s t (Some ow) fresh now d = (Inr a, d') \<and>
    latest_subscription d' (ba_id a) = Some sub \<and>
    videos_used_this_period (ba_id a) (s_current_period_start sub)
      (record_usage (ba_id a) UPLOAD_INITIATED 1 (Some t) m now' d') \<le> l"
proof -
  obtain a sub where a: "get_or_create_account_for_team s t (Some ow) fresh now d = (Inr a, d')"
    "latest_subscription d' (ba_id a) = Some sub"
    "within_limit (qc_limit qc) (videos_used_this_period (ba_id a) (s_current_period_start sub) d' + 1)"
    using upload_check_allowed[OF assms(1,2)] .
  have "videos_used_this_period (ba_id a) (s_current_period_start sub)
      (record_usage (ba_id a) UPLOAD_INITIATED 1 (Some t) m now' d') \<le> l"
    using video_quota.reserve_within[OF _ assms(3) a(3), of "(Some t, m, now')"] by simp
  with a show ?thesis by blast
qed

text \<open>
  The storage quota holds. When \<open>check_video_storage_quota\<close> allows an upload of \<open>n\<close> bytes, then
  adding a video of that team with that size leaves the reserved bytes of the account within the
  limit it reported.
\<close>

theorem storage_quota_respected:
  assumes "billing_inv d" and "check_video_storage_quota s t ow n fresh now d = (Inr qc, d')"
    and "qc_allowed qc" and "qc_limit qc = Some l" and "v_file_size_bytes v = Some n" and "0 \<le> n"
  shows "\<exists>a. get_or_create_account_for_team s t (Some ow) fresh now d = (Inr a, d') \<and>
    storage_bytes_reserved (ba_id a) (d'\<lparr>videos := videos d' @ [v]\<rparr>) \<le> l"
proof -
  obtain a where a: "get_or_create_account_for_team s t (Some ow) fresh now d = (Inr a, d')"
    "within_limit (qc_limit qc) (storage_bytes_reserved (ba_id a) d' + n)"
    using storage_check_allowed[OF assms(2,3)] .
  have "distinct (map l_team_id (links d'))"
    using get_or_create_inv[OF a(1) assms(1)] by (simp add: billing_inv_def)
  moreover have "video_bytes v = n" using assms(5,6) by (simp add: video_bytes_def)
  ultimately show ?thesis using storage_quota.reserve_within[OF _ assms(4)] a by metis
qed

text \<open>
  an upload slot is given back at most as often as it was taken. However often the release of
  a video's reservation runs (cancel, abandonment, deletion, retries of each), the net reservation
  of that video in the ledger goes down to zero and never below.
\<close>

theorem release_never_below_zero:
  assumes "resolve_team_plan d t = Some ctx"
    and "0 \<le> ledger_sum (reserved_for (tp_account_id ctx) t v) d"
  shows "ledger_sum (reserved_for (tp_account_id ctx) t v)
      (fold (\<lambda>(r, now). release_video_upload_quota_reservation t v r now) calls d) =
    max 0 (ledger_sum (reserved_for (tp_account_id ctx) t v) d - int (length calls))"
  using assms
proof (induction calls arbitrary: d)
  case (Cons c calls)
  obtain r now where c: "c = (r, now)" by fastforce
  let ?d = "release_video_upload_quota_reservation t v r now d"
  have n: "ledger_sum (reserved_for (tp_account_id ctx) t v) ?d =
      max 0 (ledger_sum (reserved_for (tp_account_id ctx) t v) d - 1)"
    using release_net[OF Cons.prems(1)] Cons.prems(2) by (simp add: Let_def max_def)
  have "resolve_team_plan ?d t = Some ctx" using Cons.prems(1) by simp
  from Cons.IH[OF this] n c show ?case by (simp add: max_def)
qed simp

text \<open>A state with one reservation, and the two checks on it.\<close>

definition reserved_db :: db where
  "reserved_db = record_usage 90 UPLOAD_INITIATED 1 (Some 2) (Some [(''video_id'', JUuid 1)]) 5
     (snd (get_or_create_account_for_team default_settings 2 (Some 4) 90 0 sample_db))"

lemmas billing_eval =
  reserved_db_def get_or_create_account_for_team_def sample_defs default_settings_def by_key_def
  record_usage_def default_subscription_def plan_quotas_snapshot_def PLAN_SNAPSHOT_FIELDS_def
  check_video_upload_quota_def check_video_storage_quota_def lock_active_billing_account_def
  get_active_subscription_def latest_subscription_def numeric_entitlement_def
  videos_used_this_period_def ledger_sum_def storage_bytes_reserved_def UPLOAD_INITIATED_def
  subscription_plan_code_def resolve_team_plan_def subscription_plan_tier_def plan_retention_days_def Let_def

theorem upload_quota_respected_witness:
  "\<exists>a :: account_row. \<exists>sub. latest_subscription reserved_db (ba_id a) = Some sub \<and>
     videos_used_this_period (ba_id a) (s_current_period_start sub)
       (record_usage (ba_id a) UPLOAD_INITIATED 1 (Some 2) None 9 reserved_db) \<le> 2"
proof -
  have "check_video_upload_quota default_settings 2 4 91 9 reserved_db =
    (Inr \<lparr>qc_plan_code = Some ''free'', qc_quota_key = ''max_videos_per_month'', qc_used = 1,
       qc_limit = Some 2, qc_allowed = True\<rparr>, reserved_db)"
    by (simp add: billing_eval)
  from upload_quota_respected[OF this, of 2 None 9] show ?thesis by simp blast
qed

theorem storage_quota_respected_witness:
  "\<exists>a :: account_row. storage_bytes_reserved (ba_id a) (reserved_db\<lparr>videos := videos reserved_db @ [sample_video]\<rparr>)
     \<le> 1073741824"
proof -
  have inv: "billing_inv reserved_db" by (simp add: billing_eval billing_inv_def)
  have "check_video_storage_quota default_settings 2 4 2000000 91 9 reserved_db =
    (Inr \<lparr>qc_plan_code = Some ''free'', qc_quota_key = ''max_storage_bytes'', qc_used = 0,
       qc_limit = Some 1073741824, qc_allowed = True\<rparr>, reserved_db)"
    by (simp add: billing_eval)
  moreover have "v_file_size_bytes sample_video = Some 2000000" by (simp add: sample_video_def)
  ultimately show ?thesis
    using storage_quota_respected[OF inv, of default_settings 2 4 2000000 91 9] by fastforce
qed

theorem release_never_below_zero_witness:
  "ledger_sum (reserved_for 90 2 1)
     (fold (\<lambda>(r, now). release_video_upload_quota_reservation 2 1 r now)
        [(''cancelled'', 7), (''abandoned'', 8)] reserved_db) = 0"
proof -
  have ctx: "resolve_team_plan reserved_db 2 = Some \<lparr>tp_account_id = 90, tp_plan = Some free_plan,
      tp_plan_code = Some ''free'', tp_plan_tier = 0, tp_raw_video_retention_days = Some 30\<rparr>"
    by (simp add: billing_eval)
  have "ledger_sum (reserved_for 90 2 1) reserved_db = 1"
    by (simp add: billing_eval reserved_for_def or_empty_def)
  with release_never_below_zero[OF ctx, of 1 "[(''cancelled'', 7), (''abandoned'', 8)]"]
  show ?thesis by simp
qed

end
