(* ===== verification/Preview_Files.thy ===== *)
theory Preview_Files
  imports Storage Billing
begin

text \<open>
  The directory of detector previews, \<open>nextballup_core/demo_preview.py\<close>: the state file, the rendered
  video, the candidate tags and the lock files of each recording, the lock of the machine, and the
  operations on them that the API and the preview worker share. A file is its content with its
  modification time; file modes, symbolic links and temporary files are left out (the state file is
  replaced by a rename, so that a reader never sees half of it).
\<close>

section \<open>State\<close>

datatype preview_status = PV_IDLE | PV_QUEUED | PV_RUNNING | PV_COMPLETED | PV_FAILED

fun preview_status_value :: "preview_status \<Rightarrow> string" where
  "preview_status_value PV_IDLE = ''idle''"
| "preview_status_value PV_QUEUED = ''queued''"
| "preview_status_value PV_RUNNING = ''running''"
| "preview_status_value PV_COMPLETED = ''completed''"
| "preview_status_value PV_FAILED = ''failed''"

definition parse_preview_status :: "jv option \<Rightarrow> preview_status option" where
  "parse_preview_status j =
     scalar (\<lambda>x. j = Some (JStr (preview_status_value x))) [PV_IDLE, PV_QUEUED, PV_RUNNING, PV_COMPLETED, PV_FAILED]"

record preview_state =
  ps_status :: preview_status
  ps_requested_at :: "time option"
  ps_started_at :: "time option"
  ps_generated_at :: "time option"
  ps_task_id :: "string option"
  ps_error_message :: "string option"

definition plain_state :: "preview_status \<Rightarrow> preview_state" where
  "plain_state x = \<lparr>ps_status = x, ps_requested_at = None, ps_started_at = None, ps_generated_at = None,
     ps_task_id = None, ps_error_message = None\<rparr>"

type_synonym 'a stamped = "'a \<times> time"

text \<open>
  One recording's directory. The state file is the JSON object it holds; \<open>None\<close> is a file that is
  missing or holds no JSON. The content of a lock file is never read.
\<close>

record preview_dir =
  pd_state :: "jobj stamped option"
  pd_output :: "string stamped option"
  pd_candidates :: "string stamped option"
  pd_queue_lock :: "time option"
  pd_run_lock :: "time option"

record preview_fs =
  pf_dirs :: "uuid \<Rightarrow> preview_dir option"
  pf_machine_lock :: "time option"

definition no_files :: preview_dir where
  "no_files = \<lparr>pd_state = None, pd_output = None, pd_candidates = None, pd_queue_lock = None, pd_run_lock = None\<rparr>"

definition empty_fs :: preview_fs where
  "empty_fs = \<lparr>pf_dirs = \<lambda>_. None, pf_machine_lock = None\<rparr>"

definition dir_of :: "preview_fs \<Rightarrow> uuid \<Rightarrow> preview_dir" where
  "dir_of fs i = (case pf_dirs fs i of None \<Rightarrow> no_files | Some d \<Rightarrow> d)"

text \<open>A write into the directory creates it first (\<open>mkdir(parents=True, exist_ok=True)\<close>).\<close>

definition in_dir :: "uuid \<Rightarrow> (preview_dir \<Rightarrow> preview_dir) \<Rightarrow> preview_fs \<Rightarrow> preview_fs" where
  "in_dir i f fs = fs\<lparr>pf_dirs := (pf_dirs fs)(i \<mapsto> f (dir_of fs i))\<rparr>"

text \<open>The sizes and times of this module's own settings.\<close>

record demo_settings =
  ds_retention_seconds :: int
  ds_subprocess_sandbox :: bool
  ds_max_cpu_seconds :: int
  ds_max_output_bytes :: int
  ds_max_open_files :: int
  ds_sample_fps :: int

lemma dir_of_in_dir [simp]: "dir_of (in_dir i f fs) j = (if j = i then f (dir_of fs i) else dir_of fs j)"
  by (simp add: dir_of_def in_dir_def)

lemma machine_lock_in_dir [simp]: "pf_machine_lock (in_dir i f fs) = pf_machine_lock fs"
  by (simp add: in_dir_def)

section \<open>Reading and writing the state file\<close>

definition demo_preview_url_path :: "uuid \<Rightarrow> string" where
  "demo_preview_url_path i = ''/api/v1/videos/'' @ uuid_str i @ ''/demo-preview/artifact''"

text \<open>\<open>" ".join(_CONTROL_CHARS.sub(" ", message).split())\<close>, at most 1000 characters.\<close>

definition is_control :: "char \<Rightarrow> bool" where
  "is_control c = (let n = of_char c :: nat in n \<le> 31 \<or> 127 \<le> n \<and> n \<le> 159)"

function split_ws :: "string \<Rightarrow> string list" where
  "split_ws [] = []"
| "split_ws (c # cs) =
     (if py_isspace c then split_ws cs
      else (c # takeWhile (\<lambda>x. \<not> py_isspace x) cs) # split_ws (dropWhile (\<lambda>x. \<not> py_isspace x) cs))"
  by pat_completeness auto
termination
  by (relation "measure length") (simp_all add: le_imp_less_Suc length_dropWhile_le)

fun join_blank :: "string list \<Rightarrow> string" where
  "join_blank [] = []"
| "join_blank [w] = w"
| "join_blank (w # ws) = w @ CHR '' '' # join_blank ws"

definition normalized_error_message :: "string \<Rightarrow> string" where
  "normalized_error_message msg =
     (let cleaned = py_strip (map (\<lambda>c. if is_control c then CHR '' '' else c) msg);
          collapsed = join_blank (split_ws cleaned)
      in if collapsed \<noteq> [] then take 1000 collapsed else ''Local demo preview failed'')"

definition state_payload :: "preview_state \<Rightarrow> jobj" where
  "state_payload st =
     [(''error_message'', jopt JStr (ps_error_message st)), (''generated_at'', jopt JTime (ps_generated_at st)),
      (''requested_at'', jopt JTime (ps_requested_at st)), (''started_at'', jopt JTime (ps_started_at st)),
      (''status'', JStr (preview_status_value (ps_status st))), (''task_id'', jopt JStr (ps_task_id st))]"

definition datetime_from_json :: "jv option \<Rightarrow> time option" where
  "datetime_from_json j = (case j of Some (JTime t) \<Rightarrow> Some t | _ \<Rightarrow> None)"

definition str_from_json :: "jv option \<Rightarrow> string option" where
  "str_from_json j = (case j of Some (JStr x) \<Rightarrow> Some x | _ \<Rightarrow> None)"

definition write_demo_preview_state :: "time \<Rightarrow> uuid \<Rightarrow> preview_state \<Rightarrow> preview_fs \<Rightarrow> preview_state \<times> preview_fs" where
  "write_demo_preview_state now i st fs = (st, in_dir i (\<lambda>d. d\<lparr>pd_state := Some (state_payload st, now)\<rparr>) fs)"

definition read_demo_preview_state :: "uuid \<Rightarrow> preview_fs \<Rightarrow> preview_state option" where
  "read_demo_preview_state i fs =
     (case pd_state (dir_of fs i) of None \<Rightarrow> None
      | Some (payload, _) \<Rightarrow>
          map_option (\<lambda>x. \<lparr>ps_status = x, ps_requested_at = datetime_from_json (jget ''requested_at'' payload),
              ps_started_at = datetime_from_json (jget ''started_at'' payload),
              ps_generated_at = datetime_from_json (jget ''generated_at'' payload),
              ps_task_id = str_from_json (jget ''task_id'' payload),
              ps_error_message = str_from_json (jget ''error_message'' payload)\<rparr>)
            (parse_preview_status (jget ''status'' payload)))"

lemma parse_preview_status_value [simp]: "parse_preview_status (Some (JStr (preview_status_value x))) = Some x"
  by (cases x) (simp_all add: parse_preview_status_def)

lemma from_json_jopt [simp]:
  "datetime_from_json (Some (jopt JTime t)) = t" "str_from_json (Some (jopt JStr x)) = x"
  by (cases t; simp add: datetime_from_json_def jopt_def) (cases x; simp add: str_from_json_def jopt_def)

lemma write_state_snd:
  "snd (write_demo_preview_state now i st fs) = in_dir i (\<lambda>d. d\<lparr>pd_state := Some (state_payload st, now)\<rparr>) fs"
  "fst (write_demo_preview_state now i st fs) = st"
  by (simp_all add: write_demo_preview_state_def)

text \<open>What has been written is read back.\<close>

lemma read_in_dir_state:
  "read_demo_preview_state i (in_dir i (\<lambda>d. d\<lparr>pd_state := Some (state_payload st, now)\<rparr>) fs) = Some st"
  by (simp add: read_demo_preview_state_def state_payload_def)

section \<open>Resolving what the client sees\<close>

definition state_is_stale :: "settings \<Rightarrow> time \<Rightarrow> preview_state \<Rightarrow> bool" where
  "state_is_stale s now st =
     (if ps_status st \<notin> {PV_QUEUED, PV_RUNNING} then False
      else (case (if ps_started_at st = None then ps_requested_at st else ps_started_at st) of
              None \<Rightarrow> True
            | Some reference \<Rightarrow> now - reference > seconds (cv_demo_timeout_seconds s + 60)))"

record preview_artifact =
  da_output :: string
  da_url_path :: string
  da_generated_at :: time
  da_candidate_tags :: "string option"
  da_candidate_tags_error :: "string option"

definition resolve_demo_preview :: "settings \<Rightarrow> uuid \<Rightarrow> preview_fs \<Rightarrow> preview_artifact option" where
  "resolve_demo_preview s i fs =
     (if \<not> local_demo_preview_enabled s then None
      else map_option (\<lambda>(content, mtime). \<lparr>da_output = content, da_url_path = demo_preview_url_path i,
          da_generated_at = mtime, da_candidate_tags = map_option fst (pd_candidates (dir_of fs i)),
          da_candidate_tags_error = None\<rparr>) (pd_output (dir_of fs i)))"

abbreviation "STALE_MESSAGE \<equiv> ''Local demo preview job became stale before finishing''"
abbreviation "MISSING_MESSAGE \<equiv> ''Local demo preview artifact is missing after completion''"

definition resolve_demo_preview_state :: "settings \<Rightarrow> time \<Rightarrow> uuid \<Rightarrow> preview_fs \<Rightarrow> preview_state \<times> preview_fs" where
  "resolve_demo_preview_state s now i fs =
     (if \<not> local_demo_preview_enabled s then (plain_state PV_IDLE, fs)
      else
        let artifact = resolve_demo_preview s i fs
        in case read_demo_preview_state i fs of
             None \<Rightarrow>
               (case artifact of None \<Rightarrow> (plain_state PV_IDLE, fs)
                | Some a \<Rightarrow> write_demo_preview_state now i
                    ((plain_state PV_COMPLETED)\<lparr>ps_generated_at := Some (da_generated_at a)\<rparr>) fs)
           | Some st0 \<Rightarrow>
               let (st, fs1) = (if state_is_stale s now st0
                     then write_demo_preview_state now i
                       (st0\<lparr>ps_status := PV_FAILED, ps_error_message := Some STALE_MESSAGE\<rparr>) fs
                     else (st0, fs))
               in if ps_status st = PV_COMPLETED
                  then (case artifact of
                          None \<Rightarrow> write_demo_preview_state now i
                            (st\<lparr>ps_status := PV_FAILED, ps_generated_at := None, ps_error_message := Some MISSING_MESSAGE\<rparr>) fs1
                        | Some a \<Rightarrow>
                            if ps_generated_at st \<noteq> Some (da_generated_at a)
                            then write_demo_preview_state now i
                              (st\<lparr>ps_generated_at := Some (da_generated_at a), ps_error_message := None\<rparr>) fs1
                            else (st, fs1))
                  else (case artifact of
                          None \<Rightarrow> (st, fs1)
                        | Some a \<Rightarrow>
                            if ps_status st = PV_FAILED
                            then write_demo_preview_state now i
                              (st\<lparr>ps_status := PV_COMPLETED, ps_generated_at := Some (da_generated_at a), ps_error_message := None\<rparr>) fs1
                            else if ps_generated_at st \<noteq> Some (da_generated_at a)
                            then (st\<lparr>ps_generated_at := Some (da_generated_at a)\<rparr>, fs1)
                            else (st, fs1)))"

definition or_str :: "string option \<Rightarrow> string option \<Rightarrow> string option" where
  "or_str a b = (if truthy a then a else b)"

definition or_time :: "time option \<Rightarrow> time option \<Rightarrow> time option" where
  "or_time a b = (case a of None \<Rightarrow> b | Some _ \<Rightarrow> a)"

text \<open>\<open>clk\<close> gives the readings of the clock in the order the calls make them.\<close>

definition mark_demo_preview_running ::
  "settings \<Rightarrow> (nat \<Rightarrow> time) \<Rightarrow> uuid \<Rightarrow> string \<Rightarrow> preview_fs \<Rightarrow> preview_state \<times> preview_fs" where
  "mark_demo_preview_running s clk i task_id fs =
     (let (current, fs1) = resolve_demo_preview_state s (clk 0) i fs
      in write_demo_preview_state (clk 3) i
           \<lparr>ps_status = PV_RUNNING, ps_requested_at = or_time (ps_requested_at current) (Some (clk 1)),
            ps_started_at = Some (clk 2), ps_generated_at = ps_generated_at current,
            ps_task_id = Some task_id, ps_error_message = None\<rparr> fs1)"

definition mark_demo_preview_queued ::
  "settings \<Rightarrow> (nat \<Rightarrow> time) \<Rightarrow> uuid \<Rightarrow> string option \<Rightarrow> time option \<Rightarrow> time option \<Rightarrow> preview_fs \<Rightarrow> preview_state \<times> preview_fs" where
  "mark_demo_preview_queued s clk i task_id generated_at requested_at fs =
     (let (current, fs1) = resolve_demo_preview_state s (clk 0) i fs
      in write_demo_preview_state (clk 2) i
           \<lparr>ps_status = PV_QUEUED, ps_requested_at = or_time (or_time requested_at (ps_requested_at current)) (Some (clk 1)),
            ps_started_at = None, ps_generated_at = or_time generated_at (ps_generated_at current),
            ps_task_id = or_str task_id (ps_task_id current), ps_error_message = None\<rparr> fs1)"

definition mark_demo_preview_failed ::
  "settings \<Rightarrow> (nat \<Rightarrow> time) \<Rightarrow> uuid \<Rightarrow> string option \<Rightarrow> string \<Rightarrow> preview_fs \<Rightarrow> preview_state \<times> preview_fs" where
  "mark_demo_preview_failed s clk i task_id error_message fs =
     (let (current, fs1) = resolve_demo_preview_state s (clk 0) i fs
      in write_demo_preview_state (clk 1) i
           \<lparr>ps_status = PV_FAILED, ps_requested_at = ps_requested_at current, ps_started_at = ps_started_at current,
            ps_generated_at = ps_generated_at current, ps_task_id = or_str task_id (ps_task_id current),
            ps_error_message = Some (normalized_error_message error_message)\<rparr> fs1)"

definition mark_demo_preview_completed ::
  "settings \<Rightarrow> (nat \<Rightarrow> time) \<Rightarrow> uuid \<Rightarrow> string option \<Rightarrow> time \<Rightarrow> preview_fs \<Rightarrow> preview_state \<times> preview_fs" where
  "mark_demo_preview_completed s clk i task_id generated_at fs =
     (let (current, fs1) = resolve_demo_preview_state s (clk 0) i fs
      in write_demo_preview_state (clk 2) i
           \<lparr>ps_status = PV_COMPLETED, ps_requested_at = ps_requested_at current,
            ps_started_at = or_time (ps_started_at current) (Some (clk 1)), ps_generated_at = Some generated_at,
            ps_task_id = or_str task_id (ps_task_id current), ps_error_message = None\<rparr> fs1)"

section \<open>Lock files\<close>

definition lock_is_stale :: "int \<Rightarrow> time \<Rightarrow> time option \<Rightarrow> bool" where
  "lock_is_stale stale_after now lk = (case lk of None \<Rightarrow> False | Some mtime \<Rightarrow> now - mtime > seconds stale_after)"

text \<open>
  The two attempts on a lock file that nobody else touches meanwhile: the exclusive creation, and on a
  stale file its removal and the second creation. The section below takes the calls apart.
\<close>

fun lock_attempts :: "nat \<Rightarrow> int \<Rightarrow> time \<Rightarrow> time option \<Rightarrow> bool \<times> time option" where
  "lock_attempts 0 stale_after now lk = (False, lk)"
| "lock_attempts (Suc n) stale_after now lk =
     (case lk of
        None \<Rightarrow> (True, Some now)
      | Some _ \<Rightarrow> if lock_is_stale stale_after now lk then lock_attempts n stale_after now None else (False, lk))"

definition acquire_lock :: "int \<Rightarrow> error_code \<Rightarrow> jobj \<Rightarrow> time \<Rightarrow> time option \<Rightarrow> (exn + unit) \<times> time option" where
  "acquire_lock stale_after conflict_code info now lk =
     (case lock_attempts 2 stale_after now lk of
        (True, lk') \<Rightarrow> (Inr (), lk')
      | (False, lk') \<Rightarrow> (Inl (ConflictError conflict_code info), lk'))"

definition release_demo_preview_lock :: "time option \<Rightarrow> time option" where
  "release_demo_preview_lock lk = None"

lemma acquire_lock_eq:
  "acquire_lock n c x now lk =
    (if lk = None \<or> lock_is_stale n now lk then (Inr (), Some now) else (Inl (ConflictError c x), lk))"
  by (cases lk) (simp_all add: acquire_lock_def lock_is_stale_def numeral_2_eq_2)

definition queue_lock_stale_after :: "settings \<Rightarrow> int" where
  "queue_lock_stale_after s = max 15 (cv_demo_timeout_seconds s + 60)"

definition try_queue_lock :: "settings \<Rightarrow> time \<Rightarrow> uuid \<Rightarrow> preview_fs \<Rightarrow> (exn + unit) \<times> preview_fs" where
  "try_queue_lock s now i fs =
     (let (r, lk) = acquire_lock (queue_lock_stale_after s) E_DEMO_PREVIEW_IN_PROGRESS [(''video_id'', JUuid i)] now
            (pd_queue_lock (dir_of fs i))
      in (r, in_dir i (\<lambda>d. d\<lparr>pd_queue_lock := lk\<rparr>) fs))"

text \<open>
  The waiting loop: \<open>mclk\<close> is the monotonic clock and \<open>wall\<close> the wall clock at each turn, \<open>others\<close> what
  other processes do to the files between two turns (20 ms of sleep).
\<close>

partial_function (option) queue_lock_loop ::
  "settings \<Rightarrow> (nat \<Rightarrow> time) \<Rightarrow> (nat \<Rightarrow> time) \<Rightarrow> (nat \<Rightarrow> preview_fs \<Rightarrow> preview_fs) \<Rightarrow> time \<Rightarrow> uuid \<Rightarrow> nat \<Rightarrow> preview_fs \<Rightarrow>
   ((exn + unit) \<times> preview_fs) option" where
  "queue_lock_loop s mclk wall others deadline i n fs =
     (case try_queue_lock s (wall n) i (others n fs) of
        (Inr _, fs1) \<Rightarrow> Some (Inr (), fs1)
      | (Inl e, fs1) \<Rightarrow>
          if mclk n \<ge> deadline then Some (Inl e, fs1)
          else queue_lock_loop s mclk wall others deadline i (Suc n) fs1)"

definition acquire_demo_preview_queue_lock ::
  "settings \<Rightarrow> time \<Rightarrow> (nat \<Rightarrow> time) \<Rightarrow> (nat \<Rightarrow> time) \<Rightarrow> (nat \<Rightarrow> preview_fs \<Rightarrow> preview_fs) \<Rightarrow> time \<Rightarrow> uuid \<Rightarrow> preview_fs \<Rightarrow>
   ((exn + unit) \<times> preview_fs) option" where
  "acquire_demo_preview_queue_lock s start mclk wall others wait_timeout i fs =
     queue_lock_loop s mclk wall others (start + wait_timeout) i 0 fs"

lemmas preview_file_defs = resolve_demo_preview_state_def resolve_demo_preview_def write_demo_preview_state_def

lemma resolve_preview_state_write [simp]:
  "resolve_demo_preview s j (in_dir i (\<lambda>d. d\<lparr>pd_state := x\<rparr>) fs) = resolve_demo_preview s j fs"
  by (simp add: resolve_demo_preview_def)

lemma state_is_stale_simps [simp]:
  "ps_status st = PV_COMPLETED \<Longrightarrow> \<not> state_is_stale s now st" "ps_status st = PV_FAILED \<Longrightarrow> \<not> state_is_stale s now st"
  "ps_status st = PV_IDLE \<Longrightarrow> \<not> state_is_stale s now st"
  by (simp_all add: state_is_stale_def)

text \<open>What is reported, as a table over the stored state and the artifact: the specification of the lookup.\<close>

definition reported_status :: "preview_state option \<Rightarrow> bool \<Rightarrow> bool \<Rightarrow> preview_status" where
  "reported_status stored stale artifact =
     (case stored of
        None \<Rightarrow> if artifact then PV_COMPLETED else PV_IDLE
      | Some st \<Rightarrow>
          if ps_status st = PV_IDLE \<or> ps_status st \<in> {PV_QUEUED, PV_RUNNING} \<and> \<not> stale then ps_status st
          else if artifact then PV_COMPLETED else PV_FAILED)"

lemma resolve_state_status:
  assumes "local_demo_preview_enabled s" and "resolve_demo_preview_state s now i fs = (st, fs')"
  shows "ps_status st = reported_status (read_demo_preview_state i fs)
    (\<exists>st0. read_demo_preview_state i fs = Some st0 \<and> state_is_stale s now st0) (resolve_demo_preview s i fs \<noteq> None)"
proof (cases "read_demo_preview_state i fs")
  case None
  then show ?thesis using assms
    by (auto simp: resolve_demo_preview_state_def write_demo_preview_state_def reported_status_def plain_state_def split: option.splits)
next
  case (Some st0)
  then show ?thesis using assms
    by (cases "ps_status st0"; cases "state_is_stale s now st0")
      (auto simp: resolve_demo_preview_state_def write_demo_preview_state_def reported_status_def split: option.splits if_splits)
qed

lemma resolve_state_generated:
  assumes "local_demo_preview_enabled s" and "resolve_demo_preview_state s now i fs = (st, fs')"
    and "resolve_demo_preview s i fs = Some a"
  shows "ps_generated_at st = Some (da_generated_at a)"
proof (cases "read_demo_preview_state i fs")
  case None
  then show ?thesis using assms
    by (auto simp: resolve_demo_preview_state_def write_demo_preview_state_def)
next
  case (Some st0)
  then show ?thesis using assms
    by (cases "ps_status st0"; cases "state_is_stale s now st0")
      (auto simp: resolve_demo_preview_state_def write_demo_preview_state_def split: if_splits)
qed

text \<open>The lookup writes nothing but the state file of its own recording.\<close>

lemma resolve_state_frame:
  assumes "resolve_demo_preview_state s now i fs = (st, fs')"
  shows "resolve_demo_preview s j fs' = resolve_demo_preview s j fs" and "pf_machine_lock fs' = pf_machine_lock fs"
    and "pd_run_lock (dir_of fs' j) = pd_run_lock (dir_of fs j)" and "pd_queue_lock (dir_of fs' j) = pd_queue_lock (dir_of fs j)"
    and "pd_output (dir_of fs' j) = pd_output (dir_of fs j)" and "pd_candidates (dir_of fs' j) = pd_candidates (dir_of fs j)"
    and "fs' = fs \<or> local_demo_preview_enabled s \<and> read_demo_preview_state i fs' = Some st"
  using assms
  by (auto simp: resolve_demo_preview_state_def write_demo_preview_state_def Let_def read_in_dir_state
      split: option.splits if_splits prod.splits)

lemma resolve_state_cases:
  assumes "resolve_demo_preview_state s now i fs = (st, fs')" and "local_demo_preview_enabled s"
  obtains (stored) "read_demo_preview_state i fs' = Some st"
  | (empty) "fs' = fs" "read_demo_preview_state i fs = None" "resolve_demo_preview s i fs = None" "st = plain_state PV_IDLE"
  | (refreshed) st0 a where "fs' = fs" "read_demo_preview_state i fs = Some st0" "resolve_demo_preview s i fs = Some a"
      "\<not> state_is_stale s now st0" "ps_status st0 \<notin> {PV_COMPLETED, PV_FAILED}"
      "st = st0\<lparr>ps_generated_at := Some (da_generated_at a)\<rparr>"
  using assms
  by (fastforce simp: resolve_demo_preview_state_def write_demo_preview_state_def Let_def read_in_dir_state
      split: option.splits if_splits)

lemma resolve_state_settled:
  assumes "resolve_demo_preview_state s now i fs = (st, fs')" and "ps_status st \<notin> {PV_QUEUED, PV_RUNNING}"
  shows "resolve_demo_preview_state s now' i fs' = (st, fs')"
proof (cases "local_demo_preview_enabled s")
  case False
  then show ?thesis using assms by (auto simp: resolve_demo_preview_state_def)
next
  case en: True
  note ra = resolve_state_frame(1)[OF assms(1), of i]
  from assms(1) en show ?thesis
  proof (cases rule: resolve_state_cases)
    case stored
    have gen: "ps_generated_at st = Some (da_generated_at a)" if "resolve_demo_preview s i fs = Some a" for a
      by (rule resolve_state_generated[OF en assms(1) that])
    have "ps_status st \<noteq> PV_FAILED" if "resolve_demo_preview s i fs = Some a" for a
      using resolve_state_status[OF en assms(1)] that assms(2)
      by (auto simp: reported_status_def split: option.splits if_splits)
    moreover have "ps_status st \<noteq> PV_COMPLETED" if "resolve_demo_preview s i fs = None"
      using resolve_state_status[OF en assms(1)] that assms(2)
      by (auto simp: reported_status_def split: option.splits if_splits)
    ultimately show ?thesis using stored en ra gen assms(2)
      by (cases "ps_status st"; cases "resolve_demo_preview s i fs") (simp_all add: resolve_demo_preview_state_def)
  next
    case empty
    with en show ?thesis by (simp add: resolve_demo_preview_state_def)
  next
    case (refreshed st0 a)
    with assms(2) have "ps_status st0 = PV_IDLE" by (cases "ps_status st0") auto
    with refreshed en show ?thesis by (simp add: resolve_demo_preview_state_def)
  qed
qed

section \<open>Waiting for the queue lock\<close>

lemma try_queue_lock_eq:
  "try_queue_lock s now i fs =
    (let lk = pd_queue_lock (dir_of fs i)
     in if lk = None \<or> lock_is_stale (queue_lock_stale_after s) now lk
        then (Inr (), in_dir i (\<lambda>d. d\<lparr>pd_queue_lock := Some now\<rparr>) fs)
        else (Inl (ConflictError E_DEMO_PREVIEW_IN_PROGRESS [(''video_id'', JUuid i)]),
          in_dir i (\<lambda>d. d\<lparr>pd_queue_lock := lk\<rparr>) fs))"
  by (simp add: try_queue_lock_def acquire_lock_eq Let_def)

lemma queue_lock_loop_returns:
  assumes "\<And>m. mclk m + 20000 \<le> mclk (Suc m)" and "deadline \<le> mclk n + 20000 * int k"
  shows "\<exists>m r. n \<le> m \<and> m \<le> n + k \<and> queue_lock_loop s mclk wall others deadline i n fs = Some r \<and>
    (case r of (Inr _, fs') \<Rightarrow> pd_queue_lock (dir_of fs' i) = Some (wall m)
      | (Inl e, fs') \<Rightarrow> e = ConflictError E_DEMO_PREVIEW_IN_PROGRESS [(''video_id'', JUuid i)] \<and> deadline \<le> mclk m \<and>
          (\<exists>t. pd_queue_lock (dir_of fs' i) = Some t \<and> wall m - t \<le> seconds (queue_lock_stale_after s)))"
  using assms(2)
proof (induction k arbitrary: n fs)
  case 0
  then show ?case
    by (intro exI[of _ n], subst queue_lock_loop.simps)
      (auto simp: try_queue_lock_eq Let_def lock_is_stale_def split: option.splits)
next
  case (Suc k)
  show ?case
  proof (cases "try_queue_lock s (wall n) i (others n fs)")
    case (Pair r fs1)
    show ?thesis
    proof (cases "isl r \<and> mclk n < deadline")
      case True
      then obtain e where e: "r = Inl e" by (cases r) auto
      have "deadline \<le> mclk (Suc n) + 20000 * int k" using Suc.prems assms(1)[of n] by simp
      from Suc.IH[OF this, of fs1] obtain m r' where
        "Suc n \<le> m" "m \<le> Suc n + k" "queue_lock_loop s mclk wall others deadline i (Suc n) fs1 = Some r'"
        "case r' of (Inr _, fs') \<Rightarrow> pd_queue_lock (dir_of fs' i) = Some (wall m)
          | (Inl e, fs') \<Rightarrow> e = ConflictError E_DEMO_PREVIEW_IN_PROGRESS [(''video_id'', JUuid i)] \<and> deadline \<le> mclk m \<and>
              (\<exists>t. pd_queue_lock (dir_of fs' i) = Some t \<and> wall m - t \<le> seconds (queue_lock_stale_after s))"
        by blast
      then show ?thesis using Pair e True
        by (intro exI[of _ m] exI[of _ r']) (simp add: queue_lock_loop.simps[of _ _ _ _ _ _ n])
    next
      case False
      then show ?thesis using Pair
        by (intro exI[of _ n], subst queue_lock_loop.simps)
          (auto simp: try_queue_lock_eq Let_def lock_is_stale_def split: option.splits if_splits)
    qed
  qed
qed

section \<open>The lock protocol\<close>

text \<open>
  The calls of \<open>_acquire_lock\<close> and \<open>release_demo_preview_lock\<close> as steps of any number of processes that
  share one lock file: the exclusive \<open>os.open\<close>, the \<open>stat\<close> of a file that exists, the \<open>unlink\<close> of a stale
  one and the second attempt, the \<open>unlink\<close> of the holder; a holder may crash and leave the file behind.
\<close>

datatype lock_pc = LockIdle | Opening nat | Stating nat | Unlinking nat | Holding | Refused

record lock_sys =
  lk_file :: "time option"
  lk_now :: time
  lk_pc :: "nat \<Rightarrow> lock_pc"

definition lock_init :: lock_sys where
  "lock_init = \<lparr>lk_file = None, lk_now = 0, lk_pc = \<lambda>_. LockIdle\<rparr>"

definition move :: "nat \<Rightarrow> lock_pc \<Rightarrow> lock_sys \<Rightarrow> lock_sys" where
  "move p c x = x\<lparr>lk_pc := (lk_pc x)(p := c)\<rparr>"

inductive lock_step :: "int \<Rightarrow> lock_sys \<Rightarrow> lock_sys \<Rightarrow> bool" for stale_after where
  attempt: "lk_pc x p = LockIdle \<Longrightarrow> lock_step stale_after x (move p (Opening 0) x)"
| create: "lk_pc x p = Opening k \<Longrightarrow> lk_file x = None \<Longrightarrow>
    lock_step stale_after x ((move p Holding x)\<lparr>lk_file := Some (lk_now x)\<rparr>)"
| file_exists: "lk_pc x p = Opening k \<Longrightarrow> lk_file x \<noteq> None \<Longrightarrow> lock_step stale_after x (move p (Stating k) x)"
| fresh: "lk_pc x p = Stating k \<Longrightarrow> \<not> lock_is_stale stale_after (lk_now x) (lk_file x) \<Longrightarrow>
    lock_step stale_after x (move p Refused x)"
| stale: "lk_pc x p = Stating k \<Longrightarrow> lock_is_stale stale_after (lk_now x) (lk_file x) \<Longrightarrow>
    lock_step stale_after x (move p (Unlinking k) x)"
| unlink: "lk_pc x p = Unlinking k \<Longrightarrow>
    lock_step stale_after x ((move p (if k = 0 then Opening 1 else Refused) x)\<lparr>lk_file := None\<rparr>)"
| release: "lk_pc x p = Holding \<Longrightarrow> lock_step stale_after x ((move p LockIdle x)\<lparr>lk_file := None\<rparr>)"
| crash: "lk_pc x p = Holding \<Longrightarrow> lock_step stale_after x (move p LockIdle x)"
| give_up: "lk_pc x p = Refused \<Longrightarrow> lock_step stale_after x (move p LockIdle x)"
| tick: "lk_now x \<le> t \<Longrightarrow> lock_step stale_after x (x\<lparr>lk_now := t\<rparr>)"

text \<open>Executions in which no lock file gets older than the time after which it counts as abandoned.\<close>

definition lock_timely :: "int \<Rightarrow> lock_sys \<Rightarrow> bool" where
  "lock_timely stale_after x \<longleftrightarrow> \<not> lock_is_stale stale_after (lk_now x) (lk_file x)"

inductive timely_run :: "int \<Rightarrow> lock_sys \<Rightarrow> bool" for stale_after where
  init: "timely_run stale_after lock_init"
| step: "timely_run stale_after x \<Longrightarrow> lock_step stale_after x y \<Longrightarrow> lock_timely stale_after y \<Longrightarrow> timely_run stale_after y"

definition lock_inv :: "lock_sys \<Rightarrow> bool" where
  "lock_inv x \<longleftrightarrow> (\<forall>p q. lk_pc x p = Holding \<longrightarrow> lk_pc x q = Holding \<longrightarrow> p = q) \<and>
     (\<forall>p. lk_pc x p = Holding \<longrightarrow> lk_file x \<noteq> None) \<and> (\<forall>p k. lk_pc x p \<noteq> Unlinking k)"

lemma lock_inv_step:
  assumes "lock_step n x y" and "lock_inv x" and "lock_timely n x"
  shows "lock_inv y"
  using assms
proof (induction rule: lock_step.induct)
  case (create x p k)
  then have no: "lk_pc x q \<noteq> Holding" for q by (auto simp: lock_inv_def)
  with create show ?case by (auto simp: lock_inv_def move_def)
next
  case (release x p)
  then have no: "q \<noteq> p \<Longrightarrow> lk_pc x q \<noteq> Holding" for q by (auto simp: lock_inv_def)
  with release show ?case by (auto simp: lock_inv_def move_def)
qed (auto simp: lock_inv_def lock_timely_def move_def)

lemma timely_run_inv: "timely_run n x \<Longrightarrow> lock_inv x \<and> lock_timely n x"
proof (induction rule: timely_run.induct)
  case init
  then show ?case by (simp add: lock_inv_def lock_init_def lock_timely_def lock_is_stale_def)
next
  case (step x y)
  then show ?case using lock_inv_step by blast
qed

text \<open>An undisturbed \<open>_acquire_lock\<close> is a run of the protocol, and its verdict is the one of the run.\<close>

lemma acquire_lock_runs:
  assumes "lk_pc x p = Opening 0" and "acquire_lock n c i (lk_now x) (lk_file x) = (r, lk)"
  shows "(lock_step n)\<^sup>*\<^sup>* x ((move p (case r of Inr _ \<Rightarrow> Holding | Inl _ \<Rightarrow> Refused) x)\<lparr>lk_file := lk\<rparr>)"
proof (cases "lk_file x")
  case None
  with assms have "r = Inr ()" "lk = Some (lk_now x)" by (auto simp: acquire_lock_eq)
  with lock_step.create[OF assms(1) None, of n] show ?thesis by auto
next
  case (Some t)
  let ?s = "move p (Stating 0) x" and ?u = "move p (Unlinking 0) (move p (Stating 0) x)"
  have 1: "lock_step n x ?s" using Some assms(1) by (intro lock_step.file_exists) auto
  show ?thesis
  proof (cases "lock_is_stale n (lk_now x) (lk_file x)")
    case True
    with assms have r: "r = Inr ()" "lk = Some (lk_now x)" by (auto simp: acquire_lock_eq)
    let ?o = "(move p (if (0::nat) = 0 then Opening 1 else Refused) ?u)\<lparr>lk_file := None\<rparr>"
    have 2: "lock_step n ?s ?u" using True by (intro lock_step.stale[where k = 0]) (auto simp: move_def)
    have 3: "lock_step n ?u ?o" by (intro lock_step.unlink) (simp add: move_def)
    have "lock_step n ?o ((move p Holding ?o)\<lparr>lk_file := Some (lk_now ?o)\<rparr>)"
      by (intro lock_step.create[where k = 1]) (simp_all add: move_def)
    then have 4: "lock_step n ?o ((move p Holding x)\<lparr>lk_file := lk\<rparr>)" by (simp add: move_def r)
    from 1 2 3 4 show ?thesis unfolding r(1) by (auto intro: converse_rtranclp_into_rtranclp)
  next
    case False
    with Some assms have r: "r = Inl (ConflictError c i)" "lk = lk_file x" by (auto simp: acquire_lock_eq)
    have "lock_step n ?s (move p Refused ?s)" using False by (intro lock_step.fresh[where k = 0]) (auto simp: move_def)
    then have "lock_step n ?s ((move p Refused x)\<lparr>lk_file := lk\<rparr>)" by (simp add: move_def r)
    with 1 show ?thesis unfolding r(1) by (auto intro: converse_rtranclp_into_rtranclp)
  qed
qed

section \<open>The sweep of old previews\<close>

text \<open>
  \<open>entries\<close> lists the directories as \<open>iterdir\<close> yields them, \<open>entry_mtime\<close> gives the time of an empty one
  and \<open>removable\<close> says for which of them \<open>rmtree\<close> succeeds.
\<close>

definition latest_mtime :: "(uuid \<Rightarrow> time) \<Rightarrow> uuid \<Rightarrow> preview_dir \<Rightarrow> time" where
  "latest_mtime entry_mtime i d =
     (let stamps = concat (map (\<lambda>m. case m of None \<Rightarrow> [] | Some t \<Rightarrow> [t])
            [map_option snd (pd_state d), map_option snd (pd_output d), map_option snd (pd_candidates d),
             pd_queue_lock d, pd_run_lock d])
      in if stamps = [] then entry_mtime i else foldr max (tl stamps) (hd stamps))"

definition preview_expired :: "settings \<Rightarrow> demo_settings \<Rightarrow> time \<Rightarrow> (uuid \<Rightarrow> time) \<Rightarrow> uuid \<Rightarrow> preview_fs \<Rightarrow> bool" where
  "preview_expired s ds now entry_mtime i fs =
     ((case read_demo_preview_state i fs of None \<Rightarrow> True
       | Some st \<Rightarrow> \<not> (ps_status st \<in> {PV_QUEUED, PV_RUNNING} \<and> \<not> state_is_stale s now st)) \<and>
      latest_mtime entry_mtime i (dir_of fs i) < now - seconds (ds_retention_seconds ds))"

fun cleanup_expired_demo_previews ::
  "settings \<Rightarrow> demo_settings \<Rightarrow> time \<Rightarrow> (uuid \<Rightarrow> time) \<Rightarrow> (uuid \<Rightarrow> bool) \<Rightarrow> uuid list \<Rightarrow> preview_fs \<Rightarrow> uuid list \<times> preview_fs" where
  "cleanup_expired_demo_previews s ds now entry_mtime removable [] fs = ([], fs)"
| "cleanup_expired_demo_previews s ds now entry_mtime removable (i # entries) fs =
     (if preview_expired s ds now entry_mtime i fs \<and> removable i
      then let (cleaned, fs1) = cleanup_expired_demo_previews s ds now entry_mtime removable entries
                 (fs\<lparr>pf_dirs := (pf_dirs fs)(i := None)\<rparr>)
           in (i # cleaned, fs1)
      else cleanup_expired_demo_previews s ds now entry_mtime removable entries fs)"

lemma dir_of_removed: "j \<noteq> i \<Longrightarrow> dir_of (fs\<lparr>pf_dirs := (pf_dirs fs)(i := None)\<rparr>) j = dir_of fs j"
  by (simp add: dir_of_def)

lemma preview_expired_removed:
  "j \<noteq> i \<Longrightarrow> preview_expired s ds now em j (fs\<lparr>pf_dirs := (pf_dirs fs)(i := None)\<rparr>) = preview_expired s ds now em j fs"
  by (simp add: preview_expired_def read_demo_preview_state_def dir_of_removed)

lemma sweep_cons:
  assumes "cleanup_expired_demo_previews s ds now em removable (j # entries) fs = (cleaned, fs')"
    and "preview_expired s ds now em j fs" and "removable j"
  obtains c where "cleanup_expired_demo_previews s ds now em removable entries (fs\<lparr>pf_dirs := (pf_dirs fs)(j := None)\<rparr>) = (c, fs')"
    and "cleaned = j # c"
proof -
  obtain c f where r: "cleanup_expired_demo_previews s ds now em removable entries (fs\<lparr>pf_dirs := (pf_dirs fs)(j := None)\<rparr>) = (c, f)"
    by (rule prod.exhaust)
  with assms have "cleaned = j # c \<and> f = fs'" by simp
  with r that show ?thesis by simp
qed

text \<open>The sweep removes exactly the expired previews.\<close>

lemma sweep_exact:
  assumes "distinct entries" and "cleanup_expired_demo_previews s ds now em removable entries fs = (cleaned, fs')"
  shows "cleaned = filter (\<lambda>i. preview_expired s ds now em i fs \<and> removable i) entries \<and>
    pf_dirs fs' i = (if i \<in> set cleaned then None else pf_dirs fs i)"
  using assms
proof (induction entries arbitrary: fs cleaned)
  case (Cons j entries)
  let ?fs = "fs\<lparr>pf_dirs := (pf_dirs fs)(j := None)\<rparr>"
  have eq: "filter (\<lambda>i. preview_expired s ds now em i ?fs \<and> removable i) entries =
    filter (\<lambda>i. preview_expired s ds now em i fs \<and> removable i) entries"
  proof (rule filter_cong[OF refl])
    fix x
    assume "x \<in> set entries"
    with Cons.prems(1) have "x \<noteq> j" by auto
    then show "(preview_expired s ds now em x ?fs \<and> removable x) = (preview_expired s ds now em x fs \<and> removable x)"
      by (simp add: preview_expired_removed)
  qed
  show ?case
  proof (cases "preview_expired s ds now em j fs \<and> removable j")
    case True
    then have t: "preview_expired s ds now em j fs" "removable j" by simp_all
    obtain c where "cleanup_expired_demo_previews s ds now em removable entries ?fs = (c, fs')" "cleaned = j # c"
      by (rule sweep_cons[OF Cons.prems(2) t])
    with Cons.IH[of ?fs c] Cons.prems(1) t eq show ?thesis by auto
  next
    case False
    with Cons.IH[of fs cleaned] Cons.prems show ?thesis by auto
  qed
qed simp

section \<open>Properties\<close>

text \<open>
  C31: The preview state a client is shown is honest and stable. "completed" is shown only while the
  rendered video is there and with that file's time, "failed" only when there is none, "queued" and
  "running" only for a stored job that is not overdue; and once no job is in progress, asking again at any
  later time gives the same answer and changes nothing.
\<close>

theorem preview_state_honest:
  assumes "local_demo_preview_enabled s" and "resolve_demo_preview_state s now i fs = (st, fs')"
  shows "(ps_status st = PV_COMPLETED \<longrightarrow>
      (\<exists>a. resolve_demo_preview s i fs = Some a \<and> ps_generated_at st = Some (da_generated_at a))) \<and>
    (ps_status st = PV_FAILED \<longrightarrow> resolve_demo_preview s i fs = None) \<and>
    (ps_status st \<in> {PV_QUEUED, PV_RUNNING} \<longrightarrow>
      (\<exists>st0. read_demo_preview_state i fs = Some st0 \<and> ps_status st0 = ps_status st \<and> \<not> state_is_stale s now st0)) \<and>
    (ps_status st \<notin> {PV_QUEUED, PV_RUNNING} \<longrightarrow>
      (\<forall>now'. resolve_demo_preview_state s now' i fs' = (st, fs')))"
proof -
  note stat = resolve_state_status[OF assms]
  have "\<exists>a. resolve_demo_preview s i fs = Some a \<and> ps_generated_at st = Some (da_generated_at a)"
    if "ps_status st = PV_COMPLETED"
    using stat that resolve_state_generated[OF assms]
    by (auto simp: reported_status_def split: option.splits if_splits)
  moreover have "resolve_demo_preview s i fs = None" if "ps_status st = PV_FAILED"
    using stat that by (auto simp: reported_status_def split: option.splits if_splits)
  moreover have "\<exists>st0. read_demo_preview_state i fs = Some st0 \<and> ps_status st0 = ps_status st \<and> \<not> state_is_stale s now st0"
    if "ps_status st \<in> {PV_QUEUED, PV_RUNNING}"
    using stat that by (auto simp: reported_status_def split: option.splits if_splits)
  ultimately show ?thesis using resolve_state_settled[OF assms(2)] by blast
qed

definition preview_settings :: settings where
  "preview_settings = default_settings\<lparr>app_env := ''development'', cv_demo_preview_enabled := True, cv_demo_timeout_seconds := 1800\<rparr>"

definition overdue_fs :: preview_fs where
  "overdue_fs = in_dir 2 (\<lambda>d. d\<lparr>pd_state := Some (state_payload ((plain_state PV_RUNNING)\<lparr>ps_started_at := Some 0\<rparr>), 0)\<rparr>) empty_fs"

lemma preview_state_honest_witness:
  "ps_status (fst (resolve_demo_preview_state preview_settings (seconds 1861) 2 overdue_fs)) = PV_FAILED \<and>
   resolve_demo_preview preview_settings 2 overdue_fs = None"
proof -
  have en: "local_demo_preview_enabled preview_settings"
    by (simp add: local_demo_preview_enabled_def preview_settings_def)
  have rd: "read_demo_preview_state 2 overdue_fs = Some ((plain_state PV_RUNNING)\<lparr>ps_started_at := Some 0\<rparr>)"
    unfolding overdue_fs_def by (rule read_in_dir_state)
  have out: "pd_output (dir_of overdue_fs 2) = None"
    by (simp add: overdue_fs_def dir_of_def empty_fs_def no_files_def in_dir_def)
  have "cv_demo_timeout_seconds preview_settings = 1800" by (simp add: preview_settings_def)
  then have st: "ps_status (fst (resolve_demo_preview_state preview_settings (seconds 1861) 2 overdue_fs)) = PV_FAILED"
    using en by (simp add: resolve_demo_preview_state_def rd state_is_stale_def plain_state_def
      write_demo_preview_state_def resolve_demo_preview_def out)
  with preview_state_honest[OF en, of "seconds 1861" 2 overdue_fs] show ?thesis
    by (metis prod.collapse)
qed

text \<open>
  A request for the queue lock always returns. With a clock that moves on by at least the 20 ms of
  each sleep, the waiting loop ends after at most one turn more than the timeout holds sleeps, whatever
  other processes do to the files: it either holds the lock, stamped with its own time, or refuses with
  a conflict, and then the timeout has passed and a lock that is not stale is in place.
\<close>

theorem queue_lock_returns:
  assumes "\<And>m. mclk m + 20000 \<le> mclk (Suc m)" and "start \<le> mclk 0" and "0 \<le> wait_timeout"
  shows "\<exists>m r. m \<le> nat (wait_timeout div 20000) + 1 \<and>
    acquire_demo_preview_queue_lock s start mclk wall others wait_timeout i fs = Some r \<and>
    (case r of (Inr _, fs') \<Rightarrow> pd_queue_lock (dir_of fs' i) = Some (wall m)
      | (Inl e, fs') \<Rightarrow> e = ConflictError E_DEMO_PREVIEW_IN_PROGRESS [(''video_id'', JUuid i)] \<and>
          start + wait_timeout \<le> mclk m \<and>
          (\<exists>t. pd_queue_lock (dir_of fs' i) = Some t \<and> wall m - t \<le> seconds (queue_lock_stale_after s)))"
proof -
  define d where "d = wait_timeout div 20000"
  have "wait_timeout < 20000 * (d + 1)" unfolding d_def by presburger
  moreover have "int (nat d + 1) = d + 1" using assms(3) by (simp add: d_def)
  ultimately have "start + wait_timeout \<le> mclk 0 + 20000 * int (nat (wait_timeout div 20000) + 1)"
    using assms(2) unfolding d_def[symmetric] by simp
  from queue_lock_loop_returns[of mclk, OF assms(1) this, of s wall others i fs]
  show ?thesis unfolding acquire_demo_preview_queue_lock_def by simp
qed

lemma queue_lock_returns_witness:
  "\<exists>m r. m \<le> (51::nat) \<and> acquire_demo_preview_queue_lock preview_settings 0 (\<lambda>n. int n * 20000) (\<lambda>_. 5) (\<lambda>_ fs. fs) 1000000 2
     (in_dir 2 (\<lambda>d. d\<lparr>pd_queue_lock := Some 4\<rparr>) empty_fs) = Some r"
proof -
  have n: "nat (1000000 div 20000) + 1 = 51" by simp
  have "\<exists>m r. m \<le> (51::nat) \<and> acquire_demo_preview_queue_lock preview_settings 0 (\<lambda>n. int n * 20000) (\<lambda>_. 5) (\<lambda>_ fs. fs) 1000000 2
     (in_dir 2 (\<lambda>d. d\<lparr>pd_queue_lock := Some 4\<rparr>) empty_fs) = Some r \<and> True"
    using queue_lock_returns[of "\<lambda>n. int n * 20000" 0 1000000 preview_settings "\<lambda>_. 5" "\<lambda>_ fs. fs" 2
      "in_dir 2 (\<lambda>d. d\<lparr>pd_queue_lock := Some 4\<rparr>) empty_fs", unfolded n] by (simp add: conj_commute) blast
  then show ?thesis by simp
qed



text \<open>
  The assumption on the age of the files is needed. After a crash of a holder two waiting processes may
  both read the abandoned file, and then the slower one unlinks not that file but the new lock of the
  faster one: both hold the lock, and neither lock is old.
\<close>

theorem stale_lock_two_holders:
  "\<exists>x. (lock_step 1860)\<^sup>*\<^sup>* lock_init x \<and> lk_pc x 1 = Holding \<and> lk_pc x 2 = Holding \<and> lk_file x = Some (lk_now x)"
proof -
  let ?l = "lock_step 1860"
  define a where "a = move 0 (Opening 0) lock_init"
  define b where "b = (move 0 Holding a)\<lparr>lk_file := Some (lk_now a)\<rparr>"
  define c where "c = move 0 LockIdle b"
  define d where "d = c\<lparr>lk_now := seconds 1861\<rparr>"
  define e where "e = move 1 (Unlinking 0) (move 1 (Stating 0) (move 1 (Opening 0) d))"
  define f where "f = move 2 (Unlinking 0) (move 2 (Stating 0) (move 2 (Opening 0) e))"
  define g where "g = (move 1 (if (0::nat) = 0 then Opening 1 else Refused) f)\<lparr>lk_file := None\<rparr>"
  define h where "h = (move 1 Holding g)\<lparr>lk_file := Some (lk_now g)\<rparr>"
  define k where "k = (move 2 (if (0::nat) = 0 then Opening 1 else Refused) h)\<lparr>lk_file := None\<rparr>"
  define m where "m = (move 2 Holding k)\<lparr>lk_file := Some (lk_now k)\<rparr>"
  note defs = a_def b_def c_def d_def e_def f_def g_def h_def k_def m_def move_def lock_init_def lock_is_stale_def
  have late: "?l\<^sup>*\<^sup>* x (move p (Unlinking 0) (move p (Stating 0) (move p (Opening 0) x)))"
    if "lk_pc x p = LockIdle" "lk_file x = Some 0" "lk_now x = seconds 1861" for x p
  proof -
    have "?l x (move p (Opening 0) x)" using that by (intro lock_step.attempt)
    moreover have "?l (move p (Opening 0) x) (move p (Stating 0) (move p (Opening 0) x))"
      using that by (intro lock_step.file_exists[where k = 0]) (simp_all add: move_def)
    moreover have "?l (move p (Stating 0) (move p (Opening 0) x)) (move p (Unlinking 0) (move p (Stating 0) (move p (Opening 0) x)))"
      using that by (intro lock_step.stale[where k = 0]) (simp_all add: move_def lock_is_stale_def)
    ultimately show ?thesis by (meson rtranclp.intros)
  qed
  have "?l lock_init a" unfolding a_def by (intro lock_step.attempt) (simp add: lock_init_def)
  moreover have "?l a b" unfolding b_def by (intro lock_step.create[where k = 0]) (simp_all add: defs)
  moreover have "?l b c" unfolding c_def by (intro lock_step.crash) (simp add: defs)
  moreover have "?l c d" unfolding d_def by (intro lock_step.tick) (simp add: defs)
  moreover have "?l\<^sup>*\<^sup>* d e" unfolding e_def by (intro late) (simp_all add: defs)
  moreover have "?l\<^sup>*\<^sup>* e f" unfolding f_def by (intro late) (simp_all add: defs)
  moreover have "?l f g" unfolding g_def by (intro lock_step.unlink) (simp add: defs)
  moreover have "?l g h" unfolding h_def by (intro lock_step.create[where k = 1]) (simp_all add: defs)
  moreover have "?l h k" unfolding k_def by (intro lock_step.unlink) (simp add: defs)
  moreover have "?l k m" unfolding m_def by (intro lock_step.create[where k = 1]) (simp_all add: defs)
  ultimately have "?l\<^sup>*\<^sup>* lock_init m" by (meson rtranclp_trans r_into_rtranclp)
  moreover have "lk_pc m 1 = Holding \<and> lk_pc m 2 = Holding \<and> lk_file m = Some (lk_now m)" by (simp add: defs)
  ultimately show ?thesis by blast
qed

end
