(* ===== verification/Preview_Render.thy ===== *)
theory Preview_Render
  imports Preview_Files "HOL-Library.Sublist"
begin

text \<open>
  Rendering a detector preview: the runtime checks, the environment and the commands of the two inference
  subprocesses and \<open>render_demo_preview_artifact\<close> of \<open>nextballup_core/demo_preview.py\<close>. The operating system
  is the argument \<open>os\<close>: path resolution, which paths are files or directories, and the parsed evaluation
  report. What a subprocess does is an argument too: how it ends and the file it leaves. A path is the list
  of its components, absolute, after \<open>resolve_repo_relative_path\<close>.
\<close>

section \<open>Runtime checks\<close>

type_synonym path = "string list"

record os_view =
  os_resolve :: "path \<Rightarrow> path"
  os_is_dir :: "path \<Rightarrow> bool"
  os_is_file :: "path \<Rightarrow> bool"
  os_mkdir :: "path \<Rightarrow> bool"
  os_report :: "path \<Rightarrow> jv option"

record demo_paths =
  dp_training_root :: path
  dp_preview_root :: path
  dp_temp_dir :: "path option"
  dp_config :: path
  dp_checkpoint :: path
  dp_alpha_config :: path
  dp_alpha_checkpoint :: path
  dp_alpha_report :: path
  dp_candidate_script :: path
  dp_candidate_sidecar :: path
  dp_candidate_adapter :: path

definition runtime_error :: "string \<Rightarrow> bool \<Rightarrow> exn" where
  "runtime_error msg startup = (if startup then RuntimeError msg else ServiceUnavailableError E_DEMO_PREVIEW_FAILED)"

definition resolved_demo_temp_parent :: "os_view \<Rightarrow> demo_paths \<Rightarrow> exn + path option" where
  "resolved_demo_temp_parent os dp =
     (case dp_temp_dir dp of
        None \<Rightarrow> Inr None
      | Some p \<Rightarrow>
          if \<not> os_mkdir os p \<or> \<not> os_is_dir os p then Inl (ServiceUnavailableError E_DEMO_PREVIEW_FAILED) else Inr (Some p))"

definition ensure_path_within_root :: "os_view \<Rightarrow> path \<Rightarrow> path \<Rightarrow> string \<Rightarrow> bool \<Rightarrow> exn + path" where
  "ensure_path_within_root os base p label startup =
     (let resolved = os_resolve os p
      in if prefix base resolved then Inr resolved
         else Inl (runtime_error (''Local demo preview '' @ label @ '' must stay within the training repo root'') startup))"

definition preview_config_path :: "settings \<Rightarrow> demo_paths \<Rightarrow> path" where
  "preview_config_path s dp = (if alpha_detector_preview_enabled s then dp_alpha_config dp else dp_config dp)"

definition preview_checkpoint_path :: "settings \<Rightarrow> demo_paths \<Rightarrow> path" where
  "preview_checkpoint_path s dp = (if alpha_detector_preview_enabled s then dp_alpha_checkpoint dp else dp_checkpoint dp)"

definition candidate_paths :: "os_view \<Rightarrow> demo_paths \<Rightarrow> bool \<Rightarrow> exn + path \<times> path \<times> path" where
  "candidate_paths os dp startup =
     (case ensure_path_within_root os (dp_training_root dp) (dp_candidate_script dp) ''alpha candidate script'' startup of
        Inl e \<Rightarrow> Inl e
      | Inr script \<Rightarrow>
          (case ensure_path_within_root os (dp_training_root dp) (dp_candidate_sidecar dp) ''alpha candidate trainer sidecar'' startup of
             Inl e \<Rightarrow> Inl e
           | Inr sidecar \<Rightarrow>
               (case ensure_path_within_root os (dp_training_root dp) (dp_candidate_adapter dp) ''alpha candidate adapter'' startup of
                  Inl e \<Rightarrow> Inl e
                | Inr adapter \<Rightarrow> Inr (script, sidecar, adapter))))"

definition validate_alpha_candidate_tags_inputs :: "settings \<Rightarrow> os_view \<Rightarrow> demo_paths \<Rightarrow> bool \<Rightarrow> exn + unit" where
  "validate_alpha_candidate_tags_inputs s os dp startup =
     (if \<not> alpha_candidate_tags_enabled s then Inr ()
      else
        (case candidate_paths os dp startup of
           Inl e \<Rightarrow> Inl e
         | Inr (script, sidecar, adapter) \<Rightarrow>
             if \<not> os_is_file os script then Inl (runtime_error ''Alpha candidate tagging script is not available'' startup)
             else if \<not> os_is_file os sidecar
             then Inl (runtime_error ''Alpha candidate tagging trainer sidecar is not available'' startup)
             else if \<not> os_is_dir os adapter
             then Inl (runtime_error ''Alpha candidate tagging adapter directory is not available'' startup)
             else Inr ()))"

text \<open>\<open>{str(mode) for mode in modes}\<close> contains a text iff the list contains that string.\<close>

definition validate_alpha_detector_preview_report :: "settings \<Rightarrow> os_view \<Rightarrow> demo_paths \<Rightarrow> bool \<Rightarrow> exn + unit" where
  "validate_alpha_detector_preview_report s os dp startup =
     (if \<not> alpha_detector_preview_enabled s then Inr ()
      else
        (case ensure_path_within_root os (dp_training_root dp) (dp_alpha_report dp) ''alpha detector eval report'' startup of
           Inl e \<Rightarrow> Inl e
         | Inr report_path \<Rightarrow>
             if \<not> os_is_file os report_path then Inl (runtime_error ''Alpha detector preview eval report is not available'' startup)
             else
               (case os_report os report_path of
                  None \<Rightarrow> Inl (runtime_error ''Alpha detector preview eval report could not be read'' startup)
                | Some (JObj report) \<Rightarrow>
                    (case jget ''known_failure_modes'' report of
                       Some (JList modes) \<Rightarrow>
                         if \<not> {JStr ''internal_alpha_poc_only'', JStr ''not_commercial_lineage''} \<subseteq> set modes
                         then Inl (runtime_error ''Alpha detector preview artifact must be marked internal_alpha_poc_only and not_commercial_lineage'' startup)
                         else if jget ''stage'' report \<noteq> Some (JStr ''detect'') \<or> jget ''sport'' report \<noteq> Some (JStr ''basketball'')
                         then Inl (runtime_error ''Alpha detector preview eval report must describe a basketball detect artifact'' startup)
                         else Inr ()
                     | _ \<Rightarrow> Inl (runtime_error ''Alpha detector preview eval report must declare known_failure_modes'' startup))
                | Some _ \<Rightarrow> Inl (PyError ''AttributeError''))))"

definition validate_demo_preview_inputs :: "settings \<Rightarrow> os_view \<Rightarrow> demo_paths \<Rightarrow> bool \<Rightarrow> exn + path \<times> path \<times> path" where
  "validate_demo_preview_inputs s os dp startup =
     (let base = dp_training_root dp
      in if \<not> os_is_dir os base
         then Inl (runtime_error ''CV_DEMO_TRAINING_REPO_ROOT must point to the sibling training repo'' startup)
         else if \<not> os_mkdir os (dp_preview_root dp)
         then Inl (runtime_error ''CV_DEMO_PREVIEW_ROOT must be writable before enabling local demo previews'' startup)
         else
           (case ensure_path_within_root os base (base @ [''scripts'', ''local_demo_infer.py'']) ''script'' startup of
              Inl e \<Rightarrow> Inl e
            | Inr script \<Rightarrow>
                (case ensure_path_within_root os base (preview_config_path s dp) ''config'' startup of
                   Inl e \<Rightarrow> Inl e
                 | Inr config \<Rightarrow>
                     (case ensure_path_within_root os base (preview_checkpoint_path s dp) ''checkpoint'' startup of
                        Inl e \<Rightarrow> Inl e
                      | Inr checkpoint \<Rightarrow>
                          (case validate_alpha_detector_preview_report s os dp startup of
                             Inl e \<Rightarrow> Inl e
                           | Inr _ \<Rightarrow>
                               (case validate_alpha_candidate_tags_inputs s os dp startup of
                                  Inl e \<Rightarrow> Inl e
                                | Inr _ \<Rightarrow>
                                    if \<not> (os_is_file os script \<and> os_is_file os config \<and> os_is_file os checkpoint)
                                    then Inl (runtime_error ''Local demo preview dependencies are not available'' startup)
                                    else Inr (script, config, checkpoint)))))))"

definition validate_demo_preview_runtime :: "settings \<Rightarrow> os_view \<Rightarrow> demo_paths \<Rightarrow> bool \<Rightarrow> bool \<Rightarrow> exn + unit" where
  "validate_demo_preview_runtime s os dp startup require_inference_runtime =
     (if \<not> local_demo_preview_enabled s then Inr ()
      else if app_env s \<noteq> ''test'' \<and> \<not> truthy (celery_broker_url s)
      then Inl (runtime_error ''CV_DEMO_PREVIEW_ENABLED requires CELERY_BROKER_URL to be configured'' startup)
      else if py_strip (celery_demo_preview_queue s) = []
      then Inl (runtime_error ''CELERY_DEMO_PREVIEW_QUEUE must be configured before enabling local demo previews'' startup)
      else if require_inference_runtime
      then (case validate_demo_preview_inputs s os dp startup of Inl e \<Rightarrow> Inl e | Inr _ \<Rightarrow> Inr ())
      else Inr ())"

section \<open>The subprocesses\<close>

text \<open>Environment variables in the order of the process's own environment.\<close>

type_synonym environ = "(string \<times> string) list"

definition env_allowed_keys :: "string list" where
  "env_allowed_keys = [''CUDA_VISIBLE_DEVICES'', ''DYLD_LIBRARY_PATH'', ''HF_HOME'', ''HOME'', ''LANG'', ''LC_ALL'',
     ''LD_LIBRARY_PATH'', ''PATH'', ''PYTORCH_ENABLE_MPS_FALLBACK'', ''PYTORCH_MPS_FALLBACK_POLICY'',
     ''PYTORCH_MPS_HIGH_WATERMARK_RATIO'', ''PYTHONUNBUFFERED'', ''TEMP'', ''TERM'', ''TMP'', ''TMPDIR'', ''TORCH_HOME'',
     ''TRANSFORMERS_CACHE'', ''UV_CACHE_DIR'', ''UV_BIN'', ''XDG_CACHE_HOME'']"

fun split_on :: "char \<Rightarrow> string \<Rightarrow> string list" where
  "split_on c [] = [[]]"
| "split_on c (x # xs) =
     (if x = c then [] # split_on c xs
      else (case split_on c xs of [] \<Rightarrow> [[x]] | y # ys \<Rightarrow> (x # y) # ys))"

fun join_colon :: "string list \<Rightarrow> string" where
  "join_colon [] = []"
| "join_colon [x] = x"
| "join_colon (x # xs) = x @ CHR '':'' # join_colon xs"

definition defpath :: string where
  "defpath = ''/bin:/usr/bin''"

definition env_get :: "string \<Rightarrow> environ \<Rightarrow> string option" where
  "env_get k e = map_option snd (find (\<lambda>x. fst x = k) e)"

definition env_put :: "string \<Rightarrow> string \<Rightarrow> environ \<Rightarrow> environ" where
  "env_put k v e = (if k \<in> fst ` set e then map (\<lambda>x. if fst x = k then (k, v) else x) e else e @ [(k, v)])"

text \<open>\<open>extra\<close> is what \<open>_demo_preview_extra_path_entries\<close> finds.\<close>

definition build_demo_preview_path :: "string list \<Rightarrow> string \<Rightarrow> string" where
  "build_demo_preview_path extra p =
     (let entries = filter (\<lambda>x. x \<noteq> []) (split_on CHR '':'' p);
          all_of = fold (\<lambda>x acc. if x \<noteq> [] \<and> x \<notin> set acc then acc @ [x] else acc) extra entries
      in if all_of = [] then defpath else join_colon all_of)"

definition build_demo_preview_env :: "string list \<Rightarrow> environ \<Rightarrow> environ" where
  "build_demo_preview_env extra environ =
     (let e = filter (\<lambda>(k, v). k \<in> set env_allowed_keys \<and> v \<noteq> []) environ;
          e = env_put ''PATH'' (build_demo_preview_path extra (case env_get ''PATH'' e of None \<Rightarrow> defpath | Some p \<Rightarrow> p)) e
      in if env_get ''PYTHONUNBUFFERED'' e = None then env_put ''PYTHONUNBUFFERED'' ''1'' e else e)"

definition subprocess_limits :: "demo_settings \<Rightarrow> (string \<times> int) list" where
  "subprocess_limits ds =
     (if \<not> ds_subprocess_sandbox ds then []
      else (if ds_max_cpu_seconds ds > 0 then [(''RLIMIT_CPU'', ds_max_cpu_seconds ds)] else []) @
        (if ds_max_output_bytes ds > 0 then [(''RLIMIT_FSIZE'', ds_max_output_bytes ds)] else []) @
        [(''RLIMIT_NOFILE'', ds_max_open_files ds)])"

text \<open>The command lines. \<open>uv\<close> is the resolved program; numbers are given as the texts \<open>str\<close> makes of them.\<close>

definition path_str :: "path \<Rightarrow> string" where
  "path_str p = concat (map (\<lambda>x. CHR ''/'' # x) p)"

fun join_slash :: "path \<Rightarrow> string" where
  "join_slash [] = ''.''"
| "join_slash [x] = x"
| "join_slash (x # xs) = x @ CHR ''/'' # join_slash xs"

definition resolve_uv_command :: "string option \<Rightarrow> (string \<Rightarrow> bool) \<Rightarrow> (string \<Rightarrow> string option) \<Rightarrow> string \<Rightarrow> string" where
  "resolve_uv_command configured is_file which home =
     (if truthy configured \<and> is_file (the configured) then the configured
      else
        (case which ''uv'' of
           Some p \<Rightarrow> p
         | None \<Rightarrow>
             (case find is_file [home @ ''/.local/bin/uv'', ''/opt/homebrew/bin/uv'', ''/usr/local/bin/uv''] of
                Some p \<Rightarrow> p
              | None \<Rightarrow> ''uv'')))"

definition parent_dir :: "string \<Rightarrow> string" where
  "parent_dir p = (let d = rev (tl (dropWhile (\<lambda>c. c \<noteq> CHR ''/'') (rev p))) in if d = [] then ''/'' else d)"

definition demo_preview_extra_path_entries :: "string option \<Rightarrow> string option \<Rightarrow> (string \<Rightarrow> string option) \<Rightarrow> string list" where
  "demo_preview_extra_path_entries home configured_uv which =
     (if truthy home then [the home @ ''/.local/bin''] else []) @
     (if truthy configured_uv \<and> hd (the configured_uv) = CHR ''/'' then [parent_dir (the configured_uv)] else []) @
     concat (map (\<lambda>b. case which b of None \<Rightarrow> [] | Some p \<Rightarrow> if p = [] then [] else [parent_dir p]) [''uv'', ''ffmpeg'']) @
     [''/opt/homebrew/bin'', ''/usr/local/bin'']"

definition inference_command :: "string \<Rightarrow> demo_paths \<Rightarrow> path \<times> path \<times> path \<Rightarrow> string \<Rightarrow> string \<Rightarrow> string \<Rightarrow> string list" where
  "inference_command uv dp inputs input_path output_path sample_fps =
     (case inputs of (script, config, checkpoint) \<Rightarrow>
        [uv, ''run'', ''--no-sync'', ''python'', join_slash (drop (length (dp_training_root dp)) script),
         ''--config'', path_str config, ''--checkpoint'', path_str checkpoint, ''--input'', input_path,
         ''--output'', output_path, ''--sample-fps'', sample_fps])"

definition candidate_command ::
  "string \<Rightarrow> demo_paths \<Rightarrow> path \<times> path \<times> path \<Rightarrow> string \<Rightarrow> string \<Rightarrow> string \<Rightarrow> string \<Rightarrow> string \<Rightarrow> string list" where
  "candidate_command uv dp inputs input_path output_path window stride max_windows =
     (case inputs of (script, sidecar, adapter) \<Rightarrow>
        [uv, ''run'', ''--no-sync'', ''python'', join_slash (drop (length (dp_training_root dp)) script),
         ''--input'', input_path, ''--output'', output_path, ''--trainer-sidecar'', path_str sidecar,
         ''--adapter-dir'', path_str adapter, ''--window-seconds'', window, ''--stride-seconds'', stride,
         ''--max-windows'', max_windows])"

datatype proc_end = ProcMissing | ProcTimedOut | ProcExit int

text \<open>How the two subprocesses end, what they leave, and the transfers.\<close>

record preview_tools =
  pt_download :: "string \<Rightarrow> exn + unit"
  pt_infer :: proc_end
  pt_output :: "string option"
  pt_candidates :: proc_end
  pt_tags :: "string option"
  pt_unlink :: bool
  pt_upload :: "string \<Rightarrow> string \<Rightarrow> exn + unit"

definition run_demo_preview_inference :: "settings \<Rightarrow> os_view \<Rightarrow> demo_paths \<Rightarrow> proc_end \<Rightarrow> exn + unit" where
  "run_demo_preview_inference s os dp r =
     (case validate_demo_preview_inputs s os dp False of
        Inl e \<Rightarrow> Inl e
      | Inr _ \<Rightarrow>
          (case r of
             ProcMissing \<Rightarrow> Inl (ServiceUnavailableError E_DEMO_PREVIEW_FAILED)
           | ProcTimedOut \<Rightarrow> Inl (AppError 503 E_DEMO_PREVIEW_FAILED [(''timeout_seconds'', JInt (cv_demo_timeout_seconds s))])
           | ProcExit c \<Rightarrow>
               if c \<noteq> 0 then Inl (AppError 503 E_DEMO_PREVIEW_FAILED [(''returncode'', JInt c)]) else Inr ()))"

definition run_alpha_candidate_tags_inference ::
  "settings \<Rightarrow> os_view \<Rightarrow> demo_paths \<Rightarrow> proc_end \<Rightarrow> string option \<Rightarrow> exn + string option" where
  "run_alpha_candidate_tags_inference s os dp r tags =
     (if \<not> alpha_candidate_tags_enabled s then Inr None
      else
        (case candidate_paths os dp False of
           Inl e \<Rightarrow> Inl e
         | Inr _ \<Rightarrow>
             Inr (case r of
                    ProcMissing \<Rightarrow> Some ''uv is not available; cannot run alpha candidate tagging''
                  | ProcTimedOut \<Rightarrow> Some ''Alpha candidate tagging timed out''
                  | ProcExit c \<Rightarrow>
                      if c \<noteq> 0 then Some ''Alpha candidate tagging failed''
                      else if \<not> truthy tags then Some ''Alpha candidate tagging did not produce an output artifact''
                      else None)))"

section \<open>Rendering\<close>

text \<open>
  The world is the preview directory with the database, which the hook \<open>on_started\<close> writes. \<open>others\<close> is what
  other processes do to both while the download and the inference run.
\<close>

type_synonym world = "preview_fs \<times> db"

definition require_demo_preview_enabled :: "settings \<Rightarrow> exn + unit" where
  "require_demo_preview_enabled s =
     (if local_demo_preview_enabled s then Inr () else Inl (ServiceUnavailableError E_DEMO_PREVIEW_NOT_ENABLED))"

definition run_lock_stale_after :: "settings \<Rightarrow> int" where
  "run_lock_stale_after s = cv_demo_timeout_seconds s + 60"

text \<open>The body inside both locks, from the scratch directory to the files in place.\<close>

definition place_outputs ::
  "settings \<Rightarrow> time \<Rightarrow> uuid \<Rightarrow> string \<Rightarrow> string option \<Rightarrow> string option \<Rightarrow> bool \<Rightarrow> preview_fs \<Rightarrow> string option \<times> preview_fs" where
  "place_outputs s now i output candidate_error tags unlink_ok fs =
     (let fs = in_dir i (\<lambda>d. d\<lparr>pd_output := Some (output, now)\<rparr>) fs;
          (candidate_error, fs) =
            (if candidate_error \<noteq> None \<and> alpha_candidate_tags_enabled s
             then (if unlink_ok then (candidate_error, in_dir i (\<lambda>d. d\<lparr>pd_candidates := None\<rparr>) fs)
                   else (Some ''Alpha candidate tagging could not clear stale output'', fs))
             else (candidate_error, fs))
      in (candidate_error,
          if candidate_error = None \<and> tags \<noteq> None
          then in_dir i (\<lambda>d. d\<lparr>pd_candidates := Some (the tags, now)\<rparr>) fs else fs))"

definition render_body ::
  "settings \<Rightarrow> os_view \<Rightarrow> demo_paths \<Rightarrow> preview_tools \<Rightarrow> (nat \<Rightarrow> time) \<Rightarrow> (world \<Rightarrow> world) \<Rightarrow> (world \<Rightarrow> world) \<Rightarrow> uuid \<Rightarrow>
   string \<Rightarrow> world \<Rightarrow> (exn + string option) \<times> world" where
  "render_body s os dp pt clk on_started others i key w =
     (let w = on_started w in
      case resolved_demo_temp_parent os dp of
        Inl e \<Rightarrow> (Inl e, w)
      | Inr _ \<Rightarrow>
          let w = others w in
          (case pt_download pt key of
             Inl e \<Rightarrow> (Inl e, w)
           | Inr _ \<Rightarrow>
               (case run_demo_preview_inference s os dp (pt_infer pt) of
                  Inl e \<Rightarrow> (Inl e, w)
                | Inr _ \<Rightarrow>
                    if \<not> truthy (pt_output pt) then (Inl (ServiceUnavailableError E_DEMO_PREVIEW_FAILED), w)
                    else
                      (case run_alpha_candidate_tags_inference s os dp (pt_candidates pt) (pt_tags pt) of
                         Inl e \<Rightarrow> (Inl e, w)
                       | Inr candidate_error \<Rightarrow>
                           let tags = (if alpha_candidate_tags_enabled s then pt_tags pt else None);
                               (err, fs) = place_outputs s (clk 2) i (the (pt_output pt)) candidate_error tags (pt_unlink pt) (fst w)
                           in (Inr err, (fs, snd w))))))"

definition set_machine_lock :: "time option \<Rightarrow> world \<Rightarrow> world" where
  "set_machine_lock lk w = ((fst w)\<lparr>pf_machine_lock := lk\<rparr>, snd w)"

definition set_run_lock :: "uuid \<Rightarrow> time option \<Rightarrow> world \<Rightarrow> world" where
  "set_run_lock i lk w = (in_dir i (\<lambda>d. d\<lparr>pd_run_lock := lk\<rparr>) (fst w), snd w)"

text \<open>The \<open>try\<close> block after the machine lock is taken, with its \<open>finally\<close>.\<close>

definition render_locked ::
  "settings \<Rightarrow> os_view \<Rightarrow> demo_paths \<Rightarrow> preview_tools \<Rightarrow> (nat \<Rightarrow> time) \<Rightarrow> (world \<Rightarrow> world) \<Rightarrow> (world \<Rightarrow> world) \<Rightarrow> uuid \<Rightarrow>
   string \<Rightarrow> world \<Rightarrow> (exn + string option) \<times> world" where
  "render_locked s os dp pt clk on_started others i key w =
     (let (got, lk) = acquire_lock (run_lock_stale_after s) E_DEMO_PREVIEW_IN_PROGRESS [(''video_id'', JUuid i)] (clk 1)
            (pd_run_lock (dir_of (fst w) i));
          w = set_run_lock i lk w
      in case got of
           Inl e \<Rightarrow> (Inl e, set_machine_lock (release_demo_preview_lock (pf_machine_lock (fst w))) w)
         | Inr _ \<Rightarrow>
             let (r, w) = render_body s os dp pt clk on_started others i key w;
                 w = set_run_lock i (release_demo_preview_lock (pd_run_lock (dir_of (fst w) i))) w
             in (r, set_machine_lock (release_demo_preview_lock (pf_machine_lock (fst w))) w))"

definition render_demo_preview_artifact ::
  "settings \<Rightarrow> os_view \<Rightarrow> demo_paths \<Rightarrow> preview_tools \<Rightarrow> (nat \<Rightarrow> time) \<Rightarrow> (world \<Rightarrow> world) \<Rightarrow> (world \<Rightarrow> world) \<Rightarrow> uuid \<Rightarrow>
   video_status \<Rightarrow> string option \<Rightarrow> world \<Rightarrow> (exn + preview_artifact) \<times> world" where
  "render_demo_preview_artifact s os dp pt clk on_started others i status key w =
     (case require_demo_preview_enabled s of
        Inl e \<Rightarrow> (Inl e, w)
      | Inr _ \<Rightarrow>
          (case validate_demo_preview_runtime s os dp False True of
             Inl e \<Rightarrow> (Inl e, w)
           | Inr _ \<Rightarrow>
               if status \<noteq> VS_PROCESSED
               then (Inl (ConflictError E_INVALID_VIDEO_STATE [(''current_status'', JStr (video_status_value status))]), w)
               else if \<not> truthy key then (Inl (ConflictError E_INVALID_VIDEO_STATE []), w)
               else
                 let w = (in_dir i id (fst w), snd w);
                     (got, lk) = acquire_lock (run_lock_stale_after s) E_DEMO_PREVIEW_MACHINE_BUSY [(''scope'', JStr ''machine'')]
                       (clk 0) (pf_machine_lock (fst w));
                     w = set_machine_lock lk w
                 in (case got of
                       Inl e \<Rightarrow> (Inl e, w)
                     | Inr _ \<Rightarrow>
                         let (r, w) = render_locked s os dp pt clk on_started others i (the key) w
                         in (case r of
                               Inl e \<Rightarrow> (Inl e, w)
                             | Inr candidate_error \<Rightarrow>
                                 (case resolve_demo_preview s i (fst w) of
                                    None \<Rightarrow> (Inl (ServiceUnavailableError E_DEMO_PREVIEW_FAILED), w)
                                  | Some a \<Rightarrow>
                                      (Inr (if candidate_error \<noteq> None then a\<lparr>da_candidate_tags_error := candidate_error\<rparr> else a), w))))))"

section \<open>Confinement of the subprocess\<close>

lemma ensure_path_Inr: "ensure_path_within_root os base p label b = Inr q \<Longrightarrow> prefix base q"
  by (auto simp: ensure_path_within_root_def Let_def split: if_splits)

lemma alpha_report_checked:
  assumes "validate_alpha_detector_preview_report s os dp b = Inr ()" and "alpha_detector_preview_enabled s"
  shows "\<exists>p report modes. prefix (dp_training_root dp) p \<and> os_report os p = Some (JObj report) \<and>
    jget ''known_failure_modes'' report = Some (JList modes) \<and>
    {JStr ''internal_alpha_poc_only'', JStr ''not_commercial_lineage''} \<subseteq> set modes"
proof -
  from assms obtain p where p: "ensure_path_within_root os (dp_training_root dp) (dp_alpha_report dp) ''alpha detector eval report'' b = Inr p"
    by (auto simp: validate_alpha_detector_preview_report_def split: sum.splits)
  with assms obtain report where r: "os_report os p = Some (JObj report)"
    by (auto simp: validate_alpha_detector_preview_report_def split: if_splits option.splits jv.splits)
  with assms p obtain modes where "jget ''known_failure_modes'' report = Some (JList modes)"
    "{JStr ''internal_alpha_poc_only'', JStr ''not_commercial_lineage''} \<subseteq> set modes"
    by (auto simp: validate_alpha_detector_preview_report_def split: if_splits option.splits jv.splits)
  with ensure_path_Inr[OF p] r show ?thesis by blast
qed

lemma set_env_put: "(a, x) \<in> set (env_put k v e) \<Longrightarrow> a = k \<or> (a, x) \<in> set e"
  by (auto simp: env_put_def split: if_splits)

lemma build_env_mem:
  assumes "(k, x) \<in> set (build_demo_preview_env extra env)"
  shows "k = ''PATH'' \<or> k = ''PYTHONUNBUFFERED'' \<or> k \<in> set env_allowed_keys \<and> (k, x) \<in> set env"
  using assms by (auto simp: build_demo_preview_env_def Let_def split: if_splits dest!: set_env_put)


definition rooted_paths :: demo_paths where
  "rooted_paths = \<lparr>dp_training_root = [''t''], dp_preview_root = [''p''], dp_temp_dir = None, dp_config = [''t'', ''c''],
     dp_checkpoint = [''t'', ''k''], dp_alpha_config = [], dp_alpha_checkpoint = [], dp_alpha_report = [],
     dp_candidate_script = [], dp_candidate_sidecar = [], dp_candidate_adapter = []\<rparr>"


end
