(* ===== verification/Clips.thy ===== *)
theory Clips
  imports Database Encoding "HOL-Library.Product_Lexorder"
begin

text \<open>
  \<open>packages/clip_engine\<close>: \<open>build_clip_proposals\<close> turns event rows into ranked review windows. The engine works on event
  type names, so any name is allowed. Floats are exact rationals here: scores are compared after rounding to
  four decimals, so that only a score within a binary rounding error of a tie could be ranked differently.
\<close>

section \<open>Python numbers and text\<close>

text \<open>\<open>int(x)\<close> of a float truncates, \<open>round(x)\<close> rounds half to even.\<close>

definition py_trunc :: "rat \<Rightarrow> int" where
  "py_trunc x = (if 0 \<le> x then \<lfloor>x\<rfloor> else \<lceil>x\<rceil>)"

definition py_round :: "rat \<Rightarrow> int" where
  "py_round x =
     (let f = \<lfloor>x\<rfloor>; r = x - of_int f
      in if r < 1 / 2 then f else if r > 1 / 2 then f + 1 else if even f then f else f + 1)"

definition is_letter :: "char \<Rightarrow> bool" where
  "is_letter c = ((CHR ''a'' \<le> c \<and> c \<le> CHR ''z'') \<or> (CHR ''A'' \<le> c \<and> c \<le> CHR ''Z''))"

text \<open>\<open>str.title()\<close>: a letter is upper case after a character that is not a letter, lower case after a letter.\<close>

fun py_title :: "bool \<Rightarrow> string \<Rightarrow> string" where
  "py_title prev [] = []"
| "py_title prev (c # s) = hd ((if prev then py_lower else py_upper) [c]) # py_title (is_letter c) s"

definition pad_zeros :: "nat \<Rightarrow> string \<Rightarrow> string" where
  "pad_zeros n s = replicate (n - length s) CHR ''0'' @ s"

section \<open>Events and proposals\<close>

record clip_event =
  ce_id :: uuid
  ce_event_type :: string
  ce_event_time_ms :: int
  ce_confidence :: "rat option"
  ce_review_status :: string
  ce_created_at :: "time option"
  ce_metadata :: "jobj option"

record clip_proposal =
  cp_id :: string
  cp_source_event_id :: uuid
  cp_event_type :: string
  cp_label :: string
  cp_reason :: string
  cp_start_time_ms :: int
  cp_end_time_ms :: int
  cp_rank_score :: rat
  cp_confidence :: "rat option"
  cp_review_status :: string
  cp_created_at :: "time option"

definition MIN_WINDOW_MS :: int where
  "MIN_WINDOW_MS = 1000"

definition MAX_MODEL_WINDOW_MS :: int where
  "MAX_MODEL_WINDOW_MS = 15000"

definition WINDOWS_MS :: "(string \<times> int \<times> int) list" where
  "WINDOWS_MS = [(''shot_attempt'', 4000, 6000), (''shot_made'', 4000, 7000), (''rebound'', 3000, 5000), (''pass'', 2000, 4000)]"

definition DEFAULT_WINDOW_MS :: "int \<times> int" where
  "DEFAULT_WINDOW_MS = (3000, 5000)"

definition CLIP_LABELS :: "(string \<times> string) list" where
  "CLIP_LABELS = [(''shot_attempt'', ''Shot attempt''), (''shot_made'', ''Made shot''), (''rebound'', ''Rebound''), (''pass'', ''Pass'')]"

definition EVENT_WEIGHTS :: "(string \<times> rat) list" where
  "EVENT_WEIGHTS = [(''shot_made'', 98 / 100), (''shot_attempt'', 92 / 100), (''rebound'', 72 / 100), (''pass'', 42 / 100)]"

definition REVIEW_BONUS :: "(string \<times> rat) list" where
  "REVIEW_BONUS = [(''needs_review'', 4 / 100), (''machine_only'', 2 / 100)]"

definition REVIEW_QUEUE_STATUSES :: "string list" where
  "REVIEW_QUEUE_STATUSES = [''needs_review'', ''machine_only'']"

definition get_or :: "'v \<Rightarrow> string \<Rightarrow> (string \<times> 'v) list \<Rightarrow> 'v" where
  "get_or def k d = (case map_of d k of None \<Rightarrow> def | Some v \<Rightarrow> v)"

definition clip_duration_ms :: "rat option \<Rightarrow> int option" where
  "clip_duration_ms duration_seconds =
     (case duration_seconds of None \<Rightarrow> None | Some s \<Rightarrow> if s \<le> 0 then None else Some (py_trunc (s * 1000)))"

definition clip_center_ms :: "int \<Rightarrow> int option \<Rightarrow> int" where
  "clip_center_ms event_time_ms duration_ms =
     (let center = max 0 event_time_ms in case duration_ms of None \<Rightarrow> center | Some d \<Rightarrow> min center d)"

text \<open>\<open>isinstance(value, int) and not isinstance(value, bool)\<close>: a JSON number.\<close>

definition window_override :: "jv option \<Rightarrow> int \<Rightarrow> int" where
  "window_override v dflt =
     (case v of Some (JInt n) \<Rightarrow> max MIN_WINDOW_MS (min MAX_MODEL_WINDOW_MS n) | _ \<Rightarrow> dflt)"

definition window_for_event :: "clip_event \<Rightarrow> int \<times> int" where
  "window_for_event e =
     (let (pre, post) = get_or DEFAULT_WINDOW_MS (ce_event_type e) WINDOWS_MS;
          m = (case ce_metadata e of None \<Rightarrow> [] | Some m \<Rightarrow> m)
      in (window_override (jget ''clip_pre_ms'' m) pre, window_override (jget ''clip_post_ms'' m) post))"

definition bounded_confidence :: "rat option \<Rightarrow> rat" where
  "bounded_confidence v = (case v of None \<Rightarrow> 0 | Some x \<Rightarrow> max 0 (min 1 x))"

definition clip_rank_score :: "clip_event \<Rightarrow> rat" where
  "clip_rank_score e =
     (let weight = get_or (35 / 100) (ce_event_type e) EVENT_WEIGHTS;
          bonus = get_or 0 (ce_review_status e) REVIEW_BONUS
      in of_int (py_round (min 1 (weight * (4 / 10) + bounded_confidence (ce_confidence e) * (56 / 100) + bonus) * 10000)) / 10000)"

definition format_time :: "int \<Rightarrow> string" where
  "format_time value_ms =
     (let total = nat (max 0 value_ms) div 1000
      in pad_zeros 2 (nat_str (total div 60)) @ '':'' @ pad_zeros 2 (nat_str (total mod 60)))"

definition humanize_event_type :: "string \<Rightarrow> string" where
  "humanize_event_type v =
     (let t = py_title False (py_strip (map (\<lambda>c. if c = CHR ''_'' then CHR '' '' else c) v))
      in if t = [] then ''Event'' else t)"

definition clip_reason :: "string \<Rightarrow> clip_event \<Rightarrow> string" where
  "clip_reason label e =
     ''Alpha '' @ py_lower label @ '' candidate at '' @ format_time (ce_event_time_ms e) @ ''. Coach review required.''"

text \<open>The window of an event: \<open>None\<close> when it is empty.\<close>

definition clip_window :: "int option \<Rightarrow> clip_event \<Rightarrow> (int \<times> int) option" where
  "clip_window duration_ms e =
     (let center = clip_center_ms (ce_event_time_ms e) duration_ms;
          (pre, post) = window_for_event e;
          start = max 0 (center - pre);
          stop = center + post;
          (start, stop) = (case duration_ms of
              None \<Rightarrow> (start, stop)
            | Some d \<Rightarrow> if min d stop \<le> start then (max 0 (d - MIN_WINDOW_MS), d) else (start, min d stop))
      in if stop \<le> start then None else Some (start, stop))"

definition clip_eligible :: "bool \<Rightarrow> clip_event \<Rightarrow> bool" where
  "clip_eligible include_rejected e =
     (ce_review_status e \<in> set REVIEW_QUEUE_STATUSES \<or> (include_rejected \<and> ce_review_status e = ''rejected''))"

definition propose_clip :: "bool \<Rightarrow> int option \<Rightarrow> clip_event \<Rightarrow> clip_proposal option" where
  "propose_clip include_rejected duration_ms e =
     (if \<not> clip_eligible include_rejected e then None
      else
        (case clip_window duration_ms e of
           None \<Rightarrow> None
         | Some (start, stop) \<Rightarrow>
             let label = get_or (humanize_event_type (ce_event_type e)) (ce_event_type e) CLIP_LABELS
             in Some \<lparr>cp_id = ''event:'' @ uuid_str (ce_id e), cp_source_event_id = ce_id e,
                  cp_event_type = ce_event_type e, cp_label = label, cp_reason = clip_reason label e,
                  cp_start_time_ms = start, cp_end_time_ms = stop, cp_rank_score = clip_rank_score e,
                  cp_confidence = ce_confidence e, cp_review_status = ce_review_status e,
                  cp_created_at = ce_created_at e\<rparr>))"

definition clip_order :: "clip_proposal \<Rightarrow> rat \<times> int \<times> uuid" where
  "clip_order p = (- cp_rank_score p, cp_start_time_ms p, cp_source_event_id p)"

definition build_clip_proposals :: "clip_event list \<Rightarrow> rat option \<Rightarrow> int \<Rightarrow> bool \<Rightarrow> clip_proposal list" where
  "build_clip_proposals evs duration_seconds limit include_rejected =
     (if limit \<le> 0 then []
      else take (nat limit) (sort_key clip_order
             (List.map_filter (propose_clip include_rejected (clip_duration_ms duration_seconds)) evs)))"

section \<open>Windows\<close>

lemma window_override_bounds:
  assumes "MIN_WINDOW_MS \<le> dflt" and "dflt \<le> MAX_MODEL_WINDOW_MS"
  shows "MIN_WINDOW_MS \<le> window_override v dflt" and "window_override v dflt \<le> MAX_MODEL_WINDOW_MS"
  using assms by (auto simp: window_override_def MIN_WINDOW_MS_def MAX_MODEL_WINDOW_MS_def split: option.splits jv.splits)

lemma window_for_event_bounds:
  assumes "window_for_event e = (pre, post)"
  shows "1000 \<le> pre \<and> pre \<le> 15000 \<and> 1000 \<le> post \<and> post \<le> 15000"
proof -
  obtain a b where w: "get_or DEFAULT_WINDOW_MS (ce_event_type e) WINDOWS_MS = (a, b)" by fastforce
  then have "1000 \<le> a \<and> a \<le> 15000 \<and> 1000 \<le> b \<and> b \<le> 15000"
    by (auto simp: get_or_def WINDOWS_MS_def DEFAULT_WINDOW_MS_def split: if_splits)
  then show ?thesis
    using window_override_bounds[of a] window_override_bounds[of b] assms
    by (auto simp: window_for_event_def w Let_def MIN_WINDOW_MS_def MAX_MODEL_WINDOW_MS_def)
qed

text \<open>Apart from a recording of no length, the window always holds the event.\<close>

lemma clip_window_bounds:
  assumes "clip_window duration_ms e = Some (start, stop)" and "\<forall>d. duration_ms = Some d \<longrightarrow> 0 \<le> d"
  shows "0 \<le> start" and "start < stop" and "stop - start \<le> 30000" and "\<forall>d. duration_ms = Some d \<longrightarrow> stop \<le> d"
    and "start \<le> clip_center_ms (ce_event_time_ms e) duration_ms" and "clip_center_ms (ce_event_time_ms e) duration_ms \<le> stop"
proof -
  obtain pre post where w: "window_for_event e = (pre, post)" by fastforce
  note b = window_for_event_bounds[OF w]
  define c where "c = clip_center_ms (ce_event_time_ms e) duration_ms"
  have c: "0 \<le> c" "\<forall>d. duration_ms = Some d \<longrightarrow> c \<le> d"
    using assms(2) by (auto simp: c_def clip_center_ms_def Let_def split: option.splits)
  have "0 \<le> start \<and> start < stop \<and> stop - start \<le> 30000 \<and> (\<forall>d. duration_ms = Some d \<longrightarrow> stop \<le> d) \<and> start \<le> c \<and> c \<le> stop"
  proof (cases duration_ms)
    case None
    then have "start = max 0 (c - pre)" "stop = c + post" "start < stop"
      using assms(1) by (auto simp: clip_window_def w Let_def c_def split: if_splits)
    then show ?thesis using b c(1) None by (simp add: max_def split: if_splits)
  next
    case (Some d)
    have d: "0 \<le> d" "c \<le> d" using c(2) assms(2) Some by auto
    have "start < stop" using assms(1) Some by (auto simp: clip_window_def w Let_def split: if_splits)
    moreover have "(start = max 0 (d - 1000) \<and> stop = d \<and> min d (c + post) \<le> max 0 (c - pre)) \<or>
        (start = max 0 (c - pre) \<and> stop = min d (c + post))"
      using assms(1) Some by (auto simp: clip_window_def w Let_def c_def MIN_WINDOW_MS_def split: if_splits)
    ultimately show ?thesis using b c(1) d Some by (elim disjE conjE) (simp_all add: max_def min_def split: if_splits)
  qed
  then show "0 \<le> start" "start < stop" "stop - start \<le> 30000" "\<forall>d. duration_ms = Some d \<longrightarrow> stop \<le> d"
    "start \<le> clip_center_ms (ce_event_time_ms e) duration_ms" "clip_center_ms (ce_event_time_ms e) duration_ms \<le> stop"
    by (simp_all add: c_def)
qed

lemma clip_duration_nonneg: "clip_duration_ms s = Some d \<Longrightarrow> 0 \<le> d"
  by (auto simp: clip_duration_ms_def py_trunc_def split: option.splits if_splits)

lemma propose_clip_Some:
  assumes "propose_clip inc d e = Some p"
  shows "clip_eligible inc e" and "clip_window d e = Some (cp_start_time_ms p, cp_end_time_ms p)"
    and "cp_source_event_id p = ce_id e" and "cp_review_status p = ce_review_status e" and "cp_rank_score p = clip_rank_score e"
  using assms by (auto simp: propose_clip_def Let_def split: if_splits option.splits)

lemma sorted_take_best:
  assumes "x \<in> set (take n (sort_key f xs))" and "y \<in> set xs" and "y \<notin> set (take n (sort_key f xs))"
  shows "f x \<le> f y"
proof -
  let ?ys = "sort_key f xs"
  have "y \<in> set (drop n ?ys)" using assms(2,3) by (metis append_take_drop_id Un_iff set_append set_sort)
  moreover have "sorted (map f (take n ?ys) @ map f (drop n ?ys))"
    using sorted_sort_key[of f xs] by (metis append_take_drop_id map_append)
  ultimately show ?thesis using assms(1) by (auto simp: sorted_append)
qed

text \<open>
  C28: The review queue is well formed and holds the best candidates. Every proposal stems from an event that
  awaits review, its window is non-empty, at most 30 seconds long, inside the recording, and holds the
  event; there are at most \<open>limit\<close> proposals, in descending order of score, and no eligible event that
  was left out ranks before one that was kept.
\<close>

theorem clip_proposals_sound:
  assumes "ps = build_clip_proposals evs duration limit False"
  shows "(\<forall>p \<in> set ps. \<exists>e \<in> set evs. cp_source_event_id p = ce_id e \<and> ce_review_status e \<in> {''needs_review'', ''machine_only''} \<and>
      0 \<le> cp_start_time_ms p \<and> cp_start_time_ms p < cp_end_time_ms p \<and> cp_end_time_ms p - cp_start_time_ms p \<le> 30000 \<and>
      (\<forall>d. clip_duration_ms duration = Some d \<longrightarrow> cp_end_time_ms p \<le> d) \<and>
      cp_start_time_ms p \<le> clip_center_ms (ce_event_time_ms e) (clip_duration_ms duration) \<and>
      clip_center_ms (ce_event_time_ms e) (clip_duration_ms duration) \<le> cp_end_time_ms p) \<and>
    length ps \<le> nat limit \<and> sorted (map clip_order ps) \<and>
    (\<forall>p \<in> set ps. \<forall>e \<in> set evs. \<forall>q. propose_clip False (clip_duration_ms duration) e = Some q \<longrightarrow> q \<notin> set ps \<longrightarrow>
      clip_order p \<le> clip_order q)"
proof (cases "limit \<le> 0")
  case True
  then show ?thesis using assms by (simp add: build_clip_proposals_def)
next
  case False
  let ?d = "clip_duration_ms duration"
  let ?qs = "List.map_filter (propose_clip False ?d) evs"
  have ps: "ps = take (nat limit) (sort_key clip_order ?qs)" using assms False by (simp add: build_clip_proposals_def)
  have mem: "p \<in> set ?qs \<longleftrightarrow> (\<exists>e \<in> set evs. propose_clip False ?d e = Some p)" for p
    by (force simp: map_filter_def)
  have kept: "set ps \<subseteq> set ?qs" unfolding ps using set_take_subset[of "nat limit" "sort_key clip_order ?qs"] by simp
  have nn: "\<forall>x. ?d = Some x \<longrightarrow> 0 \<le> x" by (auto dest: clip_duration_nonneg)
  have "\<exists>e \<in> set evs. cp_source_event_id p = ce_id e \<and> ce_review_status e \<in> {''needs_review'', ''machine_only''} \<and>
      0 \<le> cp_start_time_ms p \<and> cp_start_time_ms p < cp_end_time_ms p \<and> cp_end_time_ms p - cp_start_time_ms p \<le> 30000 \<and>
      (\<forall>d. ?d = Some d \<longrightarrow> cp_end_time_ms p \<le> d) \<and>
      cp_start_time_ms p \<le> clip_center_ms (ce_event_time_ms e) ?d \<and> clip_center_ms (ce_event_time_ms e) ?d \<le> cp_end_time_ms p"
    if "p \<in> set ps" for p
  proof -
    from that kept mem obtain e where e: "e \<in> set evs" "propose_clip False ?d e = Some p" by blast
    note s = propose_clip_Some[OF e(2)]
    show ?thesis
      using clip_window_bounds[OF s(2) nn] s(1,3) e(1)
      by (intro bexI[of _ e]) (simp_all add: clip_eligible_def REVIEW_QUEUE_STATUSES_def)
  qed
  moreover have "sorted (map clip_order ps)"
    unfolding ps using sorted_sort_key[of clip_order ?qs] by (simp add: take_map[symmetric] sorted_wrt_take)
  moreover have "clip_order p \<le> clip_order q"
    if "p \<in> set ps" "e \<in> set evs" "propose_clip False ?d e = Some q" "q \<notin> set ps" for p e q
    using sorted_take_best[of p "nat limit" clip_order ?qs q] that mem[of q] by (auto simp: ps)
  ultimately show ?thesis by (auto simp: ps)
qed

definition toy_clip_event :: clip_event where
  "toy_clip_event = \<lparr>ce_id = 5, ce_event_type = ''rebound'', ce_event_time_ms = 3000, ce_confidence = Some (1 / 2),
     ce_review_status = ''needs_review'', ce_created_at = Some 0, ce_metadata = None\<rparr>"

theorem clip_proposals_sound_witness:
  "length (build_clip_proposals [toy_clip_event, toy_clip_event] (Some 5) 1 False) \<le> 1 \<and>
   sorted (map clip_order (build_clip_proposals [toy_clip_event, toy_clip_event] (Some 5) 1 False))"
  using clip_proposals_sound[OF refl, of "[toy_clip_event, toy_clip_event]" "Some 5" 1] by simp

end
