(* ===== verification/Preview_Worker.thy ===== *)
theory Preview_Worker
  imports Preview_Render Clips Samples
begin

text \<open>
  \<open>runtime/demo_preview.py\<close> of the worker: the preview task and the import of its candidate tags as review
  events. \<open>msg\<close> is the text of an exception, which \<open>exn\<close> leaves out; \<open>loads\<close> is \<open>json.loads\<close> (\<open>None\<close> on a text
  that is no JSON) and \<open>str_of\<close> is \<open>str\<close> on a parsed value; \<open>fresh\<close> gives the ids of the new rows. Setting
  the session variables of row-level security is left out.
\<close>

section \<open>Candidate reports\<close>

definition ALPHA_CANDIDATE_SOURCE :: string where
  "ALPHA_CANDIDATE_SOURCE = ''restricted_bard_lora_alpha_video_windows''"

definition ALPHA_CANDIDATE_EVENT_TYPES :: "video_event_type list" where
  "ALPHA_CANDIDATE_EVENT_TYPES = [ET_SHOT_ATTEMPT, ET_SHOT_MADE, ET_REBOUND, ET_PASS]"

definition FORBIDDEN_CANDIDATE_REPORT_TOKENS :: "string list" where
  "FORBIDDEN_CANDIDATE_REPORT_TOKENS = [''http://'', ''https://'', ''x-amz-'', ''signature='', ''credential='', ''bearer '',
     ''cookie:'', ''s3_secret'', ''secret_key'', ''access_key'']"

fun occurs_in :: "string \<Rightarrow> string \<Rightarrow> bool" where
  "occurs_in t [] = (t = [])"
| "occurs_in t (c # cs) = (prefix t (c # cs) \<or> occurs_in t cs)"

definition assert_candidate_report_safe :: "string \<Rightarrow> string + unit" where
  "assert_candidate_report_safe raw =
     (if \<exists>t \<in> set FORBIDDEN_CANDIDATE_REPORT_TOKENS. occurs_in t (py_lower raw)
      then Inl ''Alpha candidate report contains forbidden sensitive material'' else Inr ())"

record candidate_item =
  ci_candidate_id :: string
  ci_event_type :: video_event_type
  ci_start_time_ms :: int
  ci_end_time_ms :: int
  ci_predicted_actions :: "string list"

text \<open>\<open>isinstance(x, int)\<close> holds of booleans too.\<close>

definition py_int_value :: "jv option \<Rightarrow> int option" where
  "py_int_value v = (case v of Some (JInt n) \<Rightarrow> Some n | Some (JBool b) \<Rightarrow> Some (if b then 1 else 0) | _ \<Rightarrow> None)"

definition event_type_of :: "jv option \<Rightarrow> video_event_type option" where
  "event_type_of v = scalar (\<lambda>t. v = Some (JStr (video_event_type_value t))) ALPHA_CANDIDATE_EVENT_TYPES"

definition candidate_of :: "(jv \<Rightarrow> string) \<Rightarrow> jv \<Rightarrow> candidate_item option" where
  "candidate_of str_of raw =
     (case raw of
        JObj r \<Rightarrow>
          if jget ''review_required'' r \<noteq> Some (JBool True) \<or> jget ''commercial_use_allowed'' r \<noteq> Some (JBool False) then None
          else
            (case (event_type_of (jget ''event_type'' r), py_int_value (jget ''start_time_ms'' r), py_int_value (jget ''end_time_ms'' r)) of
               (Some t, Some start, Some stop) \<Rightarrow>
                 if stop \<le> start then None
                 else
                   (case jget ''candidate_id'' r of
                      Some (JStr cid) \<Rightarrow>
                        if cid = [] then None
                        else Some \<lparr>ci_candidate_id = take 128 cid, ci_event_type = t, ci_start_time_ms = max 0 start,
                          ci_end_time_ms = max 0 stop,
                          ci_predicted_actions =
                            (case jget ''predicted_actions'' r of
                               Some (JList actions) \<Rightarrow>
                                 map (\<lambda>a. take 64 (str_of a)) (filter (\<lambda>a. py_strip (str_of a) \<noteq> []) (take 12 actions))
                             | _ \<Rightarrow> [])\<rparr>
                    | _ \<Rightarrow> None)
             | _ \<Rightarrow> None)
      | _ \<Rightarrow> None)"

definition validated_candidate_items :: "(jv \<Rightarrow> string) \<Rightarrow> jobj \<Rightarrow> string + candidate_item list" where
  "validated_candidate_items str_of report =
     (if jget ''schema_version'' report \<noteq> Some (JStr ''alpha_video_candidate_tags_v1'')
      then Inl ''Alpha candidate report schema is not supported''
      else if jget ''source'' report \<noteq> Some (JStr ALPHA_CANDIDATE_SOURCE)
      then Inl ''Alpha candidate report source is not supported''
      else
        (case jget ''lineage'' report of
           Some (JObj lineage) \<Rightarrow>
             if jget ''restricted_source'' lineage \<noteq> Some (JBool True)
             then Inl ''Alpha candidate report must be marked restricted_source=true''
             else if jget ''demo_only'' lineage \<noteq> Some (JBool True) \<or> jget ''demo_only'' report \<noteq> Some (JBool True)
             then Inl ''Alpha candidate report must be demo_only=true''
             else if jget ''review_required'' lineage \<noteq> Some (JBool True) \<or> jget ''review_required'' report \<noteq> Some (JBool True)
             then Inl ''Alpha candidate report must be review_required=true''
             else if jget ''commercial_use_allowed'' lineage \<noteq> Some (JBool False) \<or>
               jget ''commercial_use_allowed'' report \<noteq> Some (JBool False)
             then Inl ''Alpha candidate report must be commercial_use_allowed=false''
             else if jget ''not_production_analytics'' report \<noteq> Some (JBool True)
             then Inl ''Alpha candidate report must be marked not production analytics''
             else if jget ''blocker'' report \<noteq> None \<and> jget ''blocker'' report \<noteq> Some JNull
             then Inl ''Alpha candidate report has a blocker''
             else
               (case jget ''candidates'' report of
                  Some (JList raw) \<Rightarrow> Inr (concat (map (\<lambda>r. case candidate_of str_of r of None \<Rightarrow> [] | Some c \<Rightarrow> [c]) (take 100 raw)))
                | _ \<Rightarrow> Inl ''Alpha candidate report candidates must be a list'')
         | _ \<Rightarrow> Inl ''Alpha candidate report lineage is missing''))"

section \<open>Candidate events\<close>

definition is_alpha_candidate :: "uuid \<Rightarrow> event_row \<Rightarrow> bool" where
  "is_alpha_candidate video_id r =
     (ve_video_id r = video_id \<and> jget ''source'' (or_empty (ve_event_metadata r)) = Some (JStr ALPHA_CANDIDATE_SOURCE))"

definition delete_alpha_candidate_events :: "uuid \<Rightarrow> db \<Rightarrow> db" where
  "delete_alpha_candidate_events video_id d = d\<lparr>events := filter (\<lambda>r. \<not> is_alpha_candidate video_id r) (events d)\<rparr>"

definition candidate_output_frame :: "video_row \<Rightarrow> int \<Rightarrow> int" where
  "candidate_output_frame v event_time_ms =
     (let fps = (case v_fps v of Some f \<Rightarrow> if f > 0 then f else 30 | None \<Rightarrow> 30)
      in max 0 (py_round (of_int event_time_ms / 1000 * fps)))"

definition candidate_event :: "uuid \<Rightarrow> time \<Rightarrow> video_row \<Rightarrow> bool \<Rightarrow> candidate_item \<Rightarrow> event_row" where
  "candidate_event fresh now v shot_clock_enabled c =
     (let event_time_ms = (ci_start_time_ms c + ci_end_time_ms c) div 2
      in \<lparr>ve_id = fresh, ve_video_id = v_id v, ve_team_id = v_team_id v, ve_model_artifact_id = None,
          ve_event_type = ci_event_type c, ve_event_time_ms = event_time_ms,
          ve_clip_start_time_ms = Some (ci_start_time_ms c), ve_clip_end_time_ms = Some (ci_end_time_ms c),
          ve_output_frame = candidate_output_frame v event_time_ms, ve_period = None, ve_game_clock_ms = None,
          ve_shot_clock_enabled = shot_clock_enabled, ve_shot_clock_ms = None, ve_primary_track_key = None,
          ve_confidence = None, ve_review_status = RS_NEEDS_REVIEW,
          ve_event_metadata = Some [(''source'', JStr ALPHA_CANDIDATE_SOURCE), (''candidate_id'', JStr (ci_candidate_id c)),
            (''not_production_analytics'', JBool True),
            (''review_copy'', JStr ''Review required. Alpha candidate only. Not production analytics.''),
            (''predicted_actions'', JList (map JStr (ci_predicted_actions c))),
            (''clip_pre_ms'', JInt (max 1000 (event_time_ms - ci_start_time_ms c))),
            (''clip_post_ms'', JInt (max 1000 (ci_end_time_ms c - event_time_ms)))],
          ve_created_at = now, ve_updated_at = now\<rparr>)"

definition candidate_events :: "(nat \<Rightarrow> uuid) \<Rightarrow> time \<Rightarrow> video_row \<Rightarrow> bool \<Rightarrow> candidate_item list \<Rightarrow> event_row list" where
  "candidate_events fresh now v clock items = map (\<lambda>(n, c). candidate_event (fresh n) now v clock c) (enumerate 0 items)"

text \<open>
  The old candidates are deleted before the report is checked; an invalid one then leaves none, as the
  caller keeps what the session holds.
\<close>

definition replace_alpha_candidate_events ::
  "(jv \<Rightarrow> string) \<Rightarrow> (nat \<Rightarrow> uuid) \<Rightarrow> time \<Rightarrow> video_row \<Rightarrow> jobj \<Rightarrow> db \<Rightarrow> (string + nat) \<times> db" where
  "replace_alpha_candidate_events str_of fresh now v report d =
     (let d = delete_alpha_candidate_events (v_id v) d;
          clock = (case by_key g_id (v_game_id v) (games d) of None \<Rightarrow> False | Some g \<Rightarrow> g_shot_clock_enabled g)
      in case validated_candidate_items str_of report of
           Inl e \<Rightarrow> (Inl e, d)
         | Inr items \<Rightarrow> (Inr (length items), d\<lparr>events := events d @ candidate_events fresh now v clock items\<rparr>))"

section \<open>The events job of a preview\<close>

definition load_or_create_events_job :: "uuid \<Rightarrow> time \<Rightarrow> video_row \<Rightarrow> string \<Rightarrow> db \<Rightarrow> job_row \<times> db" where
  "load_or_create_events_job fresh now v request_id d =
     (case scalar (\<lambda>j. j_video_id j = v_id v \<and> j_stage j = ST_EVENTS) (jobs d) of
        None \<Rightarrow>
          let j = \<lparr>j_id = fresh, j_video_id = v_id v, j_team_id = v_team_id v, j_stage = ST_EVENTS, j_status = JS_RUNNING,
                j_progress_percent = 0, j_celery_task_id = Some request_id, j_started_at = Some now, j_completed_at = None,
                j_error_message = None, j_result_metadata = Some [(''source'', JStr ''alpha_candidate_tags'')],
                j_heartbeat_at = Some now, j_created_at = now\<rparr>
          in (j, write_worker_audit A_VIDEO_PROCESSING_STARTED (Some (v_team_id v)) ''processing_job'' (Some fresh) (Some request_id)
                [(''video_id'', JUuid (v_id v)), (''stage'', JStr (processing_job_stage_value ST_EVENTS)),
                 (''source'', JStr ''alpha_candidate_tags'')]
                (d\<lparr>jobs := jobs d @ [j]\<rparr>))
      | Some j0 \<Rightarrow>
          let j = j0\<lparr>j_status := JS_RUNNING, j_progress_percent := 0, j_celery_task_id := Some request_id, j_started_at := Some now,
                j_heartbeat_at := Some now, j_completed_at := None, j_error_message := None\<rparr>
          in (j, d\<lparr>jobs := put_row j_id j (jobs d)\<rparr>))"

definition mark_events_job_failed :: "time \<Rightarrow> job_row \<Rightarrow> video_row \<Rightarrow> string \<Rightarrow> string \<Rightarrow> db \<Rightarrow> db" where
  "mark_events_job_failed now j v request_id error_message d =
     (let d = delete_alpha_candidate_events (v_id v) d;
          j = j\<lparr>j_status := JS_FAILED, j_progress_percent := 100, j_completed_at := Some now,
                j_error_message := Some (take 2000 (''['' @ E_DEMO_PREVIEW_FAILED @ ''] '' @ error_message)),
                j_result_metadata := Some [(''source'', JStr ''alpha_candidate_tags''), (''error_code'', JStr E_DEMO_PREVIEW_FAILED),
                  (''error_message'', JStr error_message), (''outputs'', JObj [(''events'', JInt 0)])]\<rparr>
      in write_worker_audit A_VIDEO_PROCESSING_FAILED (Some (v_team_id v)) ''processing_job'' (Some (j_id j)) (Some request_id)
           [(''video_id'', JUuid (v_id v)), (''stage'', JStr (processing_job_stage_value ST_EVENTS)),
            (''source'', JStr ''alpha_candidate_tags''), (''error_code'', JStr E_DEMO_PREVIEW_FAILED),
            (''error_message'', JStr error_message)]
           (d\<lparr>jobs := put_row j_id j (jobs d)\<rparr>))"

definition read_candidate_report :: "(string \<Rightarrow> jv option) \<Rightarrow> string \<Rightarrow> string + jobj" where
  "read_candidate_report loads raw =
     (case assert_candidate_report_safe raw of
        Inl e \<Rightarrow> Inl e
      | Inr _ \<Rightarrow>
          (case loads raw of
             None \<Rightarrow> Inl ''JSONDecodeError''
           | Some (JObj report) \<Rightarrow> Inr report
           | Some _ \<Rightarrow> Inl ''Alpha candidate report must be a JSON object''))"

definition sync_alpha_candidate_tags ::
  "settings \<Rightarrow> (string \<Rightarrow> jv option) \<Rightarrow> (jv \<Rightarrow> string) \<Rightarrow> (nat \<Rightarrow> uuid) \<Rightarrow> (nat \<Rightarrow> time) \<Rightarrow> video_row \<Rightarrow> preview_artifact \<Rightarrow>
   string \<Rightarrow> db \<Rightarrow> nat option \<times> db" where
  "sync_alpha_candidate_tags s loads str_of fresh clk v artifact request_id d =
     (if \<not> alpha_candidate_tags_enabled s then (None, d)
      else if da_candidate_tags artifact = None \<and> da_candidate_tags_error artifact = None then (None, d)
      else
        let (j, d) = load_or_create_events_job (fresh 0) (clk 0) v request_id d
        in case da_candidate_tags_error artifact of
             Some e \<Rightarrow> (None, mark_events_job_failed (clk 1) j v request_id e d)
           | None \<Rightarrow>
               (case read_candidate_report loads (the (da_candidate_tags artifact)) of
                  Inl e \<Rightarrow> (None, mark_events_job_failed (clk 1) j v request_id (take 1000 e) d)
                | Inr report \<Rightarrow>
                    (case replace_alpha_candidate_events str_of (\<lambda>n. fresh (Suc n)) (clk 1) v report d of
                       (Inl e, d) \<Rightarrow> (None, mark_events_job_failed (clk 2) j v request_id (take 1000 e) d)
                     | (Inr inserted, d) \<Rightarrow>
                         let j = j\<lparr>j_status := JS_COMPLETED, j_progress_percent := 100, j_completed_at := Some (clk 2),
                               j_error_message := None,
                               j_result_metadata := Some [(''source'', JStr ''alpha_candidate_tags''), (''contract_only'', JBool True),
                                 (''review_required'', JBool True), (''not_production_analytics'', JBool True),
                                 (''outputs'', JObj [(''events'', JInt (int inserted))])]\<rparr>
                         in (Some inserted,
                             write_worker_audit A_VIDEO_PROCESSING_COMPLETED (Some (v_team_id v)) ''processing_job'' (Some (j_id j))
                               (Some request_id)
                               [(''video_id'', JUuid (v_id v)), (''stage'', JStr (processing_job_stage_value ST_EVENTS)),
                                (''source'', JStr ''alpha_candidate_tags''), (''events'', JInt (int inserted))]
                               (d\<lparr>jobs := put_row j_id j (jobs d)\<rparr>)))))"

section \<open>The task\<close>

record preview_result =
  pvr_video_id :: uuid
  pvr_status :: string
  pvr_retryable :: bool
  pvr_error_code :: "string option"

definition set_video :: "uuid \<Rightarrow> (video_row \<Rightarrow> video_row) \<Rightarrow> db \<Rightarrow> db" where
  "set_video i f d = d\<lparr>videos := update_where (\<lambda>v. v_id v = i) f (videos d)\<rparr>"

definition set_preview_failed :: "string \<Rightarrow> string \<Rightarrow> video_row \<Rightarrow> video_row" where
  "set_preview_failed task error_message v =
     v\<lparr>v_demo_preview_status := ''failed'', v_demo_preview_task_id := Some task,
       v_demo_preview_error_message := Some (take 1000 error_message)\<rparr>"

definition set_preview_completed :: "string \<Rightarrow> string \<Rightarrow> time \<Rightarrow> video_row \<Rightarrow> video_row" where
  "set_preview_completed task storage_key generated_at v =
     v\<lparr>v_demo_preview_status := ''completed'', v_demo_preview_storage_key := Some storage_key,
       v_demo_preview_generated_at := Some generated_at, v_demo_preview_task_id := Some task,
       v_demo_preview_error_message := None\<rparr>"

definition mark_preview_running :: "settings \<Rightarrow> (nat \<Rightarrow> time) \<Rightarrow> uuid \<Rightarrow> string \<Rightarrow> world \<Rightarrow> world" where
  "mark_preview_running s clk i task w =
     (snd (mark_demo_preview_running s clk i task (fst w)),
      set_video i (\<lambda>v. v\<lparr>v_demo_preview_status := ''running'', v_demo_preview_started_at := Some (clk 4),
        v_demo_preview_task_id := Some task, v_demo_preview_error_message := None\<rparr>) (snd w))"

definition upload_demo_preview_artifact :: "preview_tools \<Rightarrow> video_row \<Rightarrow> string \<Rightarrow> exn + string" where
  "upload_demo_preview_artifact pt v content =
     (let key = storage_key_for_demo_preview (uuid_str (v_team_id v)) (uuid_str (v_id v))
      in case pt_upload pt key content of Inl e \<Rightarrow> Inl e | Inr _ \<Rightarrow> Inr key)"

text \<open>The three failure branches of the task and of its finaliser differ in the error code alone.\<close>

definition preview_failed ::
  "settings \<Rightarrow> (nat \<Rightarrow> time) \<Rightarrow> video_row \<Rightarrow> string \<Rightarrow> string \<Rightarrow> string \<Rightarrow> world \<Rightarrow> preview_result \<times> world" where
  "preview_failed s clk v task error_code error_message w =
     (\<lparr>pvr_video_id = v_id v, pvr_status = ''failed'', pvr_retryable = False, pvr_error_code = Some error_code\<rparr>,
      (snd (mark_demo_preview_failed s clk (v_id v) (Some task) error_message (fst w)),
       write_worker_audit A_VIDEO_DEMO_PREVIEW_FAILED (Some (v_team_id v)) ''video'' (Some (v_id v)) (Some task)
         [(''error_code'', JStr error_code), (''error_message'', JStr error_message)]
         (set_video (v_id v) (set_preview_failed task error_message) (snd w))))"

definition preview_abandoned :: "settings \<Rightarrow> (nat \<Rightarrow> time) \<Rightarrow> uuid \<Rightarrow> string \<Rightarrow> string \<Rightarrow> string \<Rightarrow> world \<Rightarrow> preview_result \<times> world" where
  "preview_abandoned s clk i task error_code error_message w =
     (\<lparr>pvr_video_id = i, pvr_status = ''failed'', pvr_retryable = False, pvr_error_code = Some error_code\<rparr>,
      (snd (mark_demo_preview_failed s clk i (Some task) error_message (fst w)), snd w))"

definition preview_raised ::
  "settings \<Rightarrow> (exn \<Rightarrow> string) \<Rightarrow> (nat \<Rightarrow> time) \<Rightarrow> video_row \<Rightarrow> string \<Rightarrow> exn \<Rightarrow> world \<Rightarrow> preview_result \<times> world" where
  "preview_raised s msg clk v task e w =
     (case e of
        AppError st c x \<Rightarrow>
          if st = 409 \<and> c = E_DEMO_PREVIEW_MACHINE_BUSY
          then (\<lparr>pvr_video_id = v_id v, pvr_status = ''failed'', pvr_retryable = True, pvr_error_code = Some c\<rparr>,
                (snd (mark_demo_preview_queued s clk (v_id v) (Some task) None None (fst w)),
                 set_video (v_id v) (\<lambda>v. v\<lparr>v_demo_preview_status := ''queued'', v_demo_preview_task_id := Some task\<rparr>) (snd w)))
          else if st = 409 \<and> c = E_DEMO_PREVIEW_IN_PROGRESS
          then (\<lparr>pvr_video_id = v_id v, pvr_status = ''skipped'', pvr_retryable = False, pvr_error_code = Some c\<rparr>,
                (snd (resolve_demo_preview_state s (clk 0) (v_id v) (fst w)), snd w))
          else preview_failed s clk v task c (msg e) w
      | _ \<Rightarrow> preview_failed s clk v task E_INTERNAL_ERROR
          (let m = take 1000 (msg e) in if m = [] then ''Local demo preview worker failed unexpectedly'' else m) w)"

definition preview_done ::
  "settings \<Rightarrow> demo_settings \<Rightarrow> (string \<Rightarrow> jv option) \<Rightarrow> (jv \<Rightarrow> string) \<Rightarrow> (nat \<Rightarrow> uuid) \<Rightarrow> (nat \<Rightarrow> time) \<Rightarrow> video_row \<Rightarrow> string \<Rightarrow>
   preview_artifact \<Rightarrow> string \<Rightarrow> world \<Rightarrow> preview_result \<times> world" where
  "preview_done s ds loads str_of fresh clk v task artifact key w =
     (let fs = snd (mark_demo_preview_completed s clk (v_id v) (Some task) (da_generated_at artifact) (fst w));
          d = set_video (v_id v) (set_preview_completed task key (da_generated_at artifact)) (snd w);
          (n, d) = sync_alpha_candidate_tags s loads str_of fresh (\<lambda>k. clk (10 + k)) v artifact task d;
          d = write_worker_audit A_VIDEO_DEMO_PREVIEW_GENERATED (Some (v_team_id v)) ''video'' (Some (v_id v)) (Some task)
                [(''generated_at'', JTime (da_generated_at artifact)), (''sample_fps'', JInt (ds_sample_fps ds)),
                 (''alpha_candidate_events'', jopt (\<lambda>k. JInt (int k)) n)] d
      in (\<lparr>pvr_video_id = v_id v, pvr_status = ''completed'', pvr_retryable = False, pvr_error_code = None\<rparr>, (fs, d)))"

definition execute_demo_preview ::
  "settings \<Rightarrow> demo_settings \<Rightarrow> os_view \<Rightarrow> demo_paths \<Rightarrow> (exn \<Rightarrow> string) \<Rightarrow> (string \<Rightarrow> jv option) \<Rightarrow> (jv \<Rightarrow> string) \<Rightarrow>
   preview_tools option \<Rightarrow> (nat \<Rightarrow> uuid) \<Rightarrow> (nat \<Rightarrow> time) \<Rightarrow> (world \<Rightarrow> world) \<Rightarrow> uuid \<Rightarrow> string \<Rightarrow> world \<Rightarrow> preview_result \<times> world" where
  "execute_demo_preview s ds os dp msg loads str_of storage fresh clk others i task w =
     (case storage of
        None \<Rightarrow> preview_abandoned s clk i task E_STORAGE_NOT_CONFIGURED
          ''Object storage is not configured for local demo previews'' w
      | Some pt \<Rightarrow>
          (case by_key v_id i (videos (snd w)) of
             None \<Rightarrow> preview_abandoned s clk i task E_VIDEO_NOT_FOUND ''Video not found for local demo preview generation'' w
           | Some v \<Rightarrow>
               let (r, w) = render_demo_preview_artifact s os dp pt clk (mark_preview_running s (\<lambda>n. clk (10 + n)) i task) others i
                     (v_status v) (v_storage_key_mezzanine v) w
               in case r of
                    Inl e \<Rightarrow> preview_raised s msg (\<lambda>n. clk (20 + n)) v task e w
                  | Inr artifact \<Rightarrow>
                      (case upload_demo_preview_artifact pt v (da_output artifact) of
                         Inl e \<Rightarrow> preview_raised s msg (\<lambda>n. clk (20 + n)) v task e w
                       | Inr key \<Rightarrow> preview_done s ds loads str_of fresh (\<lambda>n. clk (30 + n)) v task artifact key w)))"

definition finalize_demo_preview_failure ::
  "settings \<Rightarrow> (nat \<Rightarrow> time) \<Rightarrow> uuid \<Rightarrow> string \<Rightarrow> string \<Rightarrow> string \<Rightarrow> world \<Rightarrow> preview_result \<times> world" where
  "finalize_demo_preview_failure s clk i task error_code error_message w =
     (case by_key v_id i (videos (snd w)) of
        None \<Rightarrow> preview_abandoned s clk i task E_VIDEO_NOT_FOUND error_message w
      | Some v \<Rightarrow> preview_failed s clk v task error_code error_message w)"

section \<open>Lemmas on candidate events\<close>

definition reviewable_candidate :: "event_row \<Rightarrow> bool" where
  "reviewable_candidate e \<longleftrightarrow> ve_review_status e = RS_NEEDS_REVIEW \<and> ve_event_type e \<in> set ALPHA_CANDIDATE_EVENT_TYPES \<and>
     ve_confidence e = None \<and>
     (\<exists>a b. ve_clip_start_time_ms e = Some a \<and> ve_clip_end_time_ms e = Some b \<and> 0 \<le> a \<and> a \<le> ve_event_time_ms e \<and>
        ve_event_time_ms e \<le> b)"

lemma length_filter_take: "length (filter p (take n xs)) \<le> n"
  by (rule order_trans[OF length_filter_le]) simp

lemma candidate_of_sound:
  assumes "candidate_of str_of raw = Some c"
  shows "ci_event_type c \<in> set ALPHA_CANDIDATE_EVENT_TYPES \<and> 0 \<le> ci_start_time_ms c \<and> ci_start_time_ms c \<le> ci_end_time_ms c \<and>
    ci_candidate_id c \<noteq> [] \<and> length (ci_predicted_actions c) \<le> 12"
proof -
  from assms obtain r where r: "raw = JObj r" by (cases raw) (auto simp: candidate_of_def)
  with assms obtain t a b where tab: "event_type_of (jget ''event_type'' r) = Some t" "py_int_value (jget ''start_time_ms'' r) = Some a"
    "py_int_value (jget ''end_time_ms'' r) = Some b" "a < b"
    by (auto simp: candidate_of_def split: if_splits option.splits)
  with r assms obtain cid where "jget ''candidate_id'' r = Some (JStr cid)" "cid \<noteq> []"
    by (auto simp: candidate_of_def split: if_splits option.splits jv.splits)
  with r assms tab have c: "ci_event_type c = t" "ci_start_time_ms c = max 0 a" "ci_end_time_ms c = max 0 b" "ci_candidate_id c = take 128 cid"
    "length (ci_predicted_actions c) \<le> 12"
    by (auto simp: candidate_of_def length_filter_take split: if_splits option.splits jv.splits)
  with tab(1,4) \<open>cid \<noteq> []\<close> show ?thesis
    by (auto simp: event_type_of_def dest: scalar_Some)
qed

lemma candidate_of_list:
  "concat (map (\<lambda>r. case f r of None \<Rightarrow> [] | Some c \<Rightarrow> [c]) xs) = map (the \<circ> f) (filter (\<lambda>r. f r \<noteq> None) xs)"
  by (induction xs) (auto split: option.splits)

lemma validated_items_sound:
  assumes "validated_candidate_items str_of report = Inr items"
  shows "length items \<le> 100 \<and> (\<forall>c \<in> set items. \<exists>raw. candidate_of str_of raw = Some c)"
proof -
  from assms obtain raw where "items = map (the \<circ> candidate_of str_of) (filter (\<lambda>r. candidate_of str_of r \<noteq> None) (take 100 raw))"
    by (auto simp: validated_candidate_items_def candidate_of_list split: if_splits option.splits jv.splits)
  then show ?thesis by (auto simp: length_filter_take)
qed

lemma candidate_event_sound:
  assumes "candidate_of str_of raw = Some c"
  shows "is_alpha_candidate (v_id v) (candidate_event i now v b c) \<and> reviewable_candidate (candidate_event i now v b c)"
  using candidate_of_sound[OF assms]
  by (auto simp: candidate_event_def Let_def is_alpha_candidate_def reviewable_candidate_def or_empty_def)

lemma set_candidate_events:
  "e \<in> set (candidate_events fresh now v b items) \<Longrightarrow> \<exists>i. \<exists>c \<in> set items. e = candidate_event i now v b c"
  unfolding candidate_events_def by (auto simp: enumerate_eq_zip dest!: set_zip_rightD)

lemma events_load_job [simp]: "events (snd (load_or_create_events_job i now v rq d)) = events d"
  by (simp add: load_or_create_events_job_def Let_def split: option.splits)

lemma events_mark_failed [simp]:
  "events (mark_events_job_failed now j v rq e d) = filter (\<lambda>r. \<not> is_alpha_candidate (v_id v) r) (events d)"
  by (simp add: mark_events_job_failed_def Let_def delete_alpha_candidate_events_def)

lemma replace_events:
  assumes "replace_alpha_candidate_events str_of fresh now v report d = (r, d')"
  shows "\<exists>new. events d' = filter (\<lambda>e. \<not> is_alpha_candidate (v_id v) e) (events d) @ new \<and> length new \<le> 100 \<and>
    (\<forall>e \<in> set new. is_alpha_candidate (v_id v) e \<and> reviewable_candidate e)"
proof (cases "validated_candidate_items str_of report")
  case (Inl e)
  with assms show ?thesis by (auto simp: replace_alpha_candidate_events_def delete_alpha_candidate_events_def Let_def)
next
  case (Inr items)
  let ?new = "candidate_events fresh now v
     (case by_key g_id (v_game_id v) (games d) of None \<Rightarrow> False | Some g \<Rightarrow> g_shot_clock_enabled g) items"
  have "events d' = filter (\<lambda>e. \<not> is_alpha_candidate (v_id v) e) (events d) @ ?new"
    using assms Inr by (auto simp: replace_alpha_candidate_events_def delete_alpha_candidate_events_def Let_def)
  moreover have "length ?new \<le> 100" using validated_items_sound[OF Inr] by (simp add: candidate_events_def)
  moreover have "is_alpha_candidate (v_id v) e \<and> reviewable_candidate e" if "e \<in> set ?new" for e
    using set_candidate_events[OF that] validated_items_sound[OF Inr] candidate_event_sound by metis
  ultimately show ?thesis by blast
qed

lemma sync_events:
  assumes "sync_alpha_candidate_tags s loads str_of fresh clk v a rq d = (n, d')" and "alpha_candidate_tags_enabled s"
    and "da_candidate_tags a \<noteq> None \<or> da_candidate_tags_error a \<noteq> None"
  shows "\<exists>new. events d' = filter (\<lambda>e. \<not> is_alpha_candidate (v_id v) e) (events d) @ new \<and> length new \<le> 100 \<and>
    (\<forall>e \<in> set new. is_alpha_candidate (v_id v) e \<and> reviewable_candidate e)"
proof -
  obtain j d1 where j: "load_or_create_events_job (fresh 0) (clk 0) v rq d = (j, d1)" by (rule prod.exhaust)
  have d1: "events d1 = events d" using events_load_job[of "fresh 0" "clk 0" v rq d] j by simp
  show ?thesis
  proof (cases "da_candidate_tags_error a")
    case (Some e)
    with assms j have "d' = mark_events_job_failed (clk 1) j v rq e d1" by (simp add: sync_alpha_candidate_tags_def)
    then show ?thesis using d1 by simp
  next
    case None
    with assms(3) obtain tags where t: "da_candidate_tags a = Some tags" by auto
    show ?thesis
    proof (cases "read_candidate_report loads tags")
      case (Inl e)
      with None t assms j have "d' = mark_events_job_failed (clk 1) j v rq (take 1000 e) d1"
        by (simp add: sync_alpha_candidate_tags_def)
      then show ?thesis using d1 by simp
    next
      case (Inr report)
      obtain r d2 where r: "replace_alpha_candidate_events str_of (\<lambda>n. fresh (Suc n)) (clk 1) v report d1 = (r, d2)"
        by (rule prod.exhaust)
      from replace_events[OF r] d1 obtain new where new:
        "events d2 = filter (\<lambda>e. \<not> is_alpha_candidate (v_id v) e) (events d) @ new" "length new \<le> 100"
        "\<forall>e \<in> set new. is_alpha_candidate (v_id v) e \<and> reviewable_candidate e" by auto
      show ?thesis
      proof (cases r)
        case (Inl e)
        with None t assms j Inr r have "d' = mark_events_job_failed (clk 2) j v rq (take 1000 e) d2"
          by (simp add: sync_alpha_candidate_tags_def)
        then show ?thesis using new(1) by (intro exI[of _ "[]"]) (simp add: new(3) filter_empty_conv)
      next
        case i: (Inr k)
        with None t assms j Inr r have "events d' = events d2"
          by (auto simp: sync_alpha_candidate_tags_def Let_def)
        then show ?thesis using new by auto
      qed
    qed
  qed
qed

section \<open>Properties of candidate tags\<close>


section \<open>Lemmas on rendering\<close>

lemma place_outputs_frame:
  assumes "place_outputs s now i out ce tags u fs = (err, fs')"
  shows "pd_output (dir_of fs' i) = Some (out, now)" and "pf_machine_lock fs' = pf_machine_lock fs"
    and "pd_run_lock (dir_of fs' j) = pd_run_lock (dir_of fs j)"
  using assms by (auto simp: place_outputs_def Let_def split: if_splits)

lemma dir_of_set_run_lock [simp]: "dir_of (fst (set_run_lock i lk w)) j =
    (if j = i then (dir_of (fst w) i)\<lparr>pd_run_lock := lk\<rparr> else dir_of (fst w) j)"
  "snd (set_run_lock i lk w) = snd w" "pf_machine_lock (fst (set_run_lock i lk w)) = pf_machine_lock (fst w)"
  by (simp_all add: set_run_lock_def)

lemma set_machine_lock_simps [simp]: "dir_of (fst (set_machine_lock lk w)) j = dir_of (fst w) j"
  "snd (set_machine_lock lk w) = snd w" "pf_machine_lock (fst (set_machine_lock lk w)) = lk"
  by (simp_all add: set_machine_lock_def dir_of_def)

lemma resolve_preview_cong: "dir_of fs i = dir_of fs' i \<Longrightarrow> resolve_demo_preview s i fs = resolve_demo_preview s i fs'"
  by (simp add: resolve_demo_preview_def)

text \<open>What a successful pair of subprocesses and transfers is.\<close>

definition tools_succeed :: "settings \<Rightarrow> os_view \<Rightarrow> demo_paths \<Rightarrow> preview_tools \<Rightarrow> string \<Rightarrow> string \<Rightarrow> bool" where
  "tools_succeed s os dp pt key out \<longleftrightarrow>
     validate_demo_preview_runtime s os dp False True = Inr () \<and> (\<exists>p. resolved_demo_temp_parent os dp = Inr p) \<and>
     pt_download pt key = Inr () \<and> pt_infer pt = ProcExit 0 \<and> pt_output pt = Some out \<and> out \<noteq> []"

lemma tools_inference:
  assumes "local_demo_preview_enabled s" and "tools_succeed s os dp pt key out"
  shows "run_demo_preview_inference s os dp (pt_infer pt) = Inr ()"
  using assms by (auto simp: tools_succeed_def validate_demo_preview_runtime_def run_demo_preview_inference_def split: if_splits sum.splits)

text \<open>The paths of the candidate tagging have been checked by then.\<close>

lemma candidate_inference_Inr:
  assumes "local_demo_preview_enabled s" and "tools_succeed s os dp pt key out"
  shows "\<exists>ce. run_alpha_candidate_tags_inference s os dp r tags = Inr ce"
proof (cases "alpha_candidate_tags_enabled s")
  case True
  from assms have "validate_alpha_candidate_tags_inputs s os dp False = Inr ()"
    by (auto simp: tools_succeed_def validate_demo_preview_runtime_def validate_demo_preview_inputs_def Let_def
        split: if_splits sum.splits)
  with True obtain p where "candidate_paths os dp False = Inr p"
    by (auto simp: validate_alpha_candidate_tags_inputs_def split: sum.splits)
  with True show ?thesis by (simp add: run_alpha_candidate_tags_inference_def)
qed (simp add: run_alpha_candidate_tags_inference_def)

lemma render_body_succeeds:
  assumes "local_demo_preview_enabled s" and "tools_succeed s os dp pt key out"
  shows "\<exists>ce w'. render_body s os dp pt clk on_started others i key w = (Inr ce, w') \<and>
    pd_output (dir_of (fst w') i) = Some (out, clk 2) \<and> snd w' = snd (others (on_started w))"
proof -
  obtain ce where ce: "run_alpha_candidate_tags_inference s os dp (pt_candidates pt) (pt_tags pt) = Inr ce"
    using candidate_inference_Inr[OF assms] by blast
  let ?tags = "if alpha_candidate_tags_enabled s then pt_tags pt else None"
  obtain err fs where po: "place_outputs s (clk 2) i out ce ?tags (pt_unlink pt) (fst (others (on_started w))) = (err, fs)"
    by (rule prod.exhaust)
  have "render_body s os dp pt clk on_started others i key w = (Inr err, (fs, snd (others (on_started w))))"
    using assms(2) tools_inference[OF assms] ce po
    by (auto simp: render_body_def tools_succeed_def Let_def)
  with place_outputs_frame(1)[OF po] show ?thesis by simp
qed

lemma render_succeeds:
  assumes en: "local_demo_preview_enabled s" and tools: "tools_succeed s os dp pt key out" and "key \<noteq> []"
    and "pf_machine_lock (fst w) = None" and "pd_run_lock (dir_of (fst w) i) = None"
  shows "\<exists>a w' w0. render_demo_preview_artifact s os dp pt clk on_started others i VS_PROCESSED (Some key) w = (Inr a, w') \<and>
    da_output a = out \<and> da_generated_at a = clk 2 \<and> pd_output (dir_of (fst w') i) = Some (out, clk 2) \<and>
    pf_machine_lock (fst w') = None \<and> pd_run_lock (dir_of (fst w') i) = None \<and> snd w0 = snd w \<and>
    snd w' = snd (others (on_started w0))"
proof -
  define w0 where "w0 = set_run_lock i (Some (clk 1)) (set_machine_lock (Some (clk 0)) (in_dir i id (fst w), snd w))"
  from render_body_succeeds[OF en tools, of clk on_started others i w0] obtain ce w1 where
    b: "render_body s os dp pt clk on_started others i key w0 = (Inr ce, w1)"
    "pd_output (dir_of (fst w1) i) = Some (out, clk 2)" "snd w1 = snd (others (on_started w0))" by blast
  define w2 where "w2 = set_machine_lock None (set_run_lock i None w1)"
  have l: "render_locked s os dp pt clk on_started others i key (set_machine_lock (Some (clk 0)) (in_dir i id (fst w), snd w)) = (Inr ce, w2)"
    using assms(5) b(1) by (simp add: render_locked_def acquire_lock_eq release_demo_preview_lock_def w0_def w2_def)
  have r: "resolve_demo_preview s i (fst w2) = Some \<lparr>da_output = out, da_url_path = demo_preview_url_path i, da_generated_at = clk 2,
      da_candidate_tags = map_option fst (pd_candidates (dir_of (fst w2) i)), da_candidate_tags_error = None\<rparr>"
    using en b(2) by (simp add: resolve_demo_preview_def w2_def)
  have run: "validate_demo_preview_runtime s os dp False True = Inr ()" using tools by (simp add: tools_succeed_def)
  have e: "render_demo_preview_artifact s os dp pt clk on_started others i VS_PROCESSED (Some key) w =
    (Inr (if ce \<noteq> None then (the (resolve_demo_preview s i (fst w2)))\<lparr>da_candidate_tags_error := ce\<rparr> else the (resolve_demo_preview s i (fst w2))), w2)"
    using en run assms(3,4) l r
    by (simp add: render_demo_preview_artifact_def require_demo_preview_enabled_def acquire_lock_eq)
  have "snd w0 = snd w" by (simp add: w0_def)
  with e r b(2,3) show ?thesis by (intro exI[of _ "if ce \<noteq> None then (the (resolve_demo_preview s i (fst w2)))\<lparr>da_candidate_tags_error := ce\<rparr> else the (resolve_demo_preview s i (fst w2))"]
      exI[of _ w2] exI[of _ w0]) (simp add: w2_def)
qed

lemma videos_load_job [simp]: "videos (snd (load_or_create_events_job i now v rq d)) = videos d"
  by (simp add: load_or_create_events_job_def Let_def split: option.splits)

lemma videos_mark_failed [simp]: "videos (mark_events_job_failed now j v rq e d) = videos d"
  by (simp add: mark_events_job_failed_def Let_def delete_alpha_candidate_events_def)

lemma videos_replace [simp]: "videos (snd (replace_alpha_candidate_events str_of fresh now v report d)) = videos d"
  by (simp add: replace_alpha_candidate_events_def delete_alpha_candidate_events_def Let_def split: sum.splits)

lemma videos_sync [simp]: "videos (snd (sync_alpha_candidate_tags s loads str_of fresh clk v a rq d)) = videos d"
proof -
  obtain j d1 where j: "load_or_create_events_job (fresh 0) (clk 0) v rq d = (j, d1)" by (rule prod.exhaust)
  then have d1: "videos d1 = videos d" using videos_load_job[of "fresh 0" "clk 0" v rq d] by simp
  show ?thesis
  proof (cases "da_candidate_tags_error a")
    case (Some e)
    with j d1 show ?thesis by (simp add: sync_alpha_candidate_tags_def)
  next
    case None
    show ?thesis
    proof (cases "read_candidate_report loads (the (da_candidate_tags a))")
      case (Inl e)
      with None j d1 show ?thesis by (simp add: sync_alpha_candidate_tags_def)
    next
      case (Inr report)
      obtain r d2 where r: "replace_alpha_candidate_events str_of (\<lambda>n. fresh (Suc n)) (clk 1) v report d1 = (r, d2)"
        by (rule prod.exhaust)
      then have "videos d2 = videos d"
        using videos_replace[of str_of "\<lambda>n. fresh (Suc n)" "clk 1" v report d1, unfolded r] d1 by simp
      with None j d1 Inr r show ?thesis by (cases r) (simp_all add: sync_alpha_candidate_tags_def Let_def)
    qed
  qed
qed

lemma by_key_set_video [simp]:
  assumes "\<And>v. v_id (f v) = v_id v"
  shows "by_key v_id i (videos (set_video i f d)) = map_option f (by_key v_id i (videos d))"
  unfolding set_video_def using by_key_Some[of v_id i "videos d"]
  by (cases "by_key v_id i (videos d)") (simp_all add: by_key_update_where assms)

lemma mark_completed_reads:
  assumes "mark_demo_preview_completed s clk i task g fs = (st, fs')"
  shows "read_demo_preview_state i fs' = Some st" and "ps_status st = PV_COMPLETED" and "ps_generated_at st = Some g"
    and "pd_output (dir_of fs' i) = pd_output (dir_of fs i)" and "pd_run_lock (dir_of fs' i) = pd_run_lock (dir_of fs i)"
    and "pf_machine_lock fs' = pf_machine_lock fs"
proof -
  obtain c fs1 where r: "resolve_demo_preview_state s (clk 0) i fs = (c, fs1)" by (rule prod.exhaust)
  note f = resolve_state_frame[OF r]
  from assms r show "read_demo_preview_state i fs' = Some st" "ps_status st = PV_COMPLETED" "ps_generated_at st = Some g"
    "pd_output (dir_of fs' i) = pd_output (dir_of fs i)" "pd_run_lock (dir_of fs' i) = pd_run_lock (dir_of fs i)"
    "pf_machine_lock fs' = pf_machine_lock fs"
    by (auto simp: mark_demo_preview_completed_def write_demo_preview_state_def read_in_dir_state f)
qed

lemma preview_done_effect:
  assumes "preview_done s ds loads str_of fresh clk v task a key w = (r, w')" and "local_demo_preview_enabled s"
    and "by_key v_id (v_id v) (videos (snd w)) = Some v0" and "pd_output (dir_of (fst w) (v_id v)) = Some (out, da_generated_at a)"
  shows "pvr_status r = ''completed'' \<and>
    by_key v_id (v_id v) (videos (snd w')) = Some (set_preview_completed task key (da_generated_at a) v0) \<and>
    pd_output (dir_of (fst w') (v_id v)) = Some (out, da_generated_at a) \<and>
    pd_run_lock (dir_of (fst w') (v_id v)) = pd_run_lock (dir_of (fst w) (v_id v)) \<and>
    pf_machine_lock (fst w') = pf_machine_lock (fst w) \<and>
    (\<forall>now. ps_status (fst (resolve_demo_preview_state s now (v_id v) (fst w'))) = PV_COMPLETED)"
proof -
  obtain st fs where m: "mark_demo_preview_completed s clk (v_id v) (Some task) (da_generated_at a) (fst w) = (st, fs)"
    by (rule prod.exhaust)
  obtain n d where sy: "sync_alpha_candidate_tags s loads str_of fresh (\<lambda>k. clk (10 + k)) v a task
      (set_video (v_id v) (set_preview_completed task key (da_generated_at a)) (snd w)) = (n, d)"
    by (rule prod.exhaust)
  have dv: "videos d = videos (set_video (v_id v) (set_preview_completed task key (da_generated_at a)) (snd w))"
    using videos_sync[of s loads str_of fresh "\<lambda>k. clk (10 + k)" v a task "set_video (v_id v) (set_preview_completed task key (da_generated_at a)) (snd w)"]
    by (simp add: sy)
  note mk = mark_completed_reads[OF m]
  from assms(1) m sy have w': "fst w' = fs" "videos (snd w') = videos d" "pvr_status r = ''completed''"
    by (auto simp: preview_done_def Let_def)
  have id: "v_id (set_preview_completed task key t x) = v_id x" for t x by (simp add: set_preview_completed_def)
  have art: "resolve_demo_preview s (v_id v) fs \<noteq> None" using assms(2,4) mk(4) by (simp add: resolve_demo_preview_def)
  have "ps_status (fst (resolve_demo_preview_state s now (v_id v) fs)) = PV_COMPLETED" for now
  proof -
    obtain st' fs' where r: "resolve_demo_preview_state s now (v_id v) fs = (st', fs')" by (rule prod.exhaust)
    from resolve_state_status[OF assms(2) r] mk(1,2) art show ?thesis by (simp add: r reported_status_def)
  qed
  with w' dv assms(3,4) mk show ?thesis by (simp add: id)
qed


section \<open>Concrete previews\<close>

definition demo_os :: os_view where
  "demo_os = \<lparr>os_resolve = id, os_is_dir = \<lambda>_. True, os_is_file = \<lambda>_. True, os_mkdir = \<lambda>_. True,
     os_report = \<lambda>_. Some (JObj [(''known_failure_modes'', JList [JStr ''not_commercial_lineage'', JStr ''internal_alpha_poc_only'']),
       (''stage'', JStr ''detect''), (''sport'', JStr ''basketball'')])\<rparr>"

definition demo_dirs :: demo_paths where
  "demo_dirs = \<lparr>dp_training_root = [''t''], dp_preview_root = [''p''], dp_temp_dir = None, dp_config = [''t'', ''c''],
     dp_checkpoint = [''t'', ''k''], dp_alpha_config = [''t'', ''ac''], dp_alpha_checkpoint = [''t'', ''ak''],
     dp_alpha_report = [''t'', ''r''], dp_candidate_script = [''t'', ''s''], dp_candidate_sidecar = [''t'', ''j''],
     dp_candidate_adapter = [''t'', ''a'']\<rparr>"

definition demo_config :: settings where
  "demo_config = preview_settings\<lparr>celery_broker_url := Some ''redis://x'', celery_demo_preview_queue := ''q''\<rparr>"

definition demo_tools :: preview_tools where
  "demo_tools = \<lparr>pt_download = \<lambda>_. Inr (), pt_infer = ProcExit 0, pt_output = Some ''mp4'', pt_candidates = ProcMissing,
     pt_tags = None, pt_unlink = True, pt_upload = \<lambda>_ _. Inr ()\<rparr>"

definition demo_video :: video_row where
  "demo_video = sample_video\<lparr>v_status := VS_PROCESSED, v_storage_key_mezzanine := Some ''m''\<rparr>"

definition demo_world :: world where
  "demo_world = (empty_fs, sample_db\<lparr>videos := [demo_video]\<rparr>)"

definition demo_sizes :: demo_settings where
  "demo_sizes = \<lparr>ds_retention_seconds = 259200, ds_subprocess_sandbox = True, ds_max_cpu_seconds = 0,
     ds_max_output_bytes = 0, ds_max_open_files = 256, ds_sample_fps = 2\<rparr>"

lemma demo_enabled: "local_demo_preview_enabled demo_config"
  by (simp add: local_demo_preview_enabled_def demo_config_def preview_settings_def)

lemma demo_not_alpha: "alpha_detector_preview_enabled demo_config = False"
  by (simp add: alpha_detector_preview_enabled_def demo_config_def preview_settings_def default_settings_def)

lemma demo_tools_succeed: "tools_succeed demo_config demo_os demo_dirs demo_tools ''m'' ''mp4''"
proof -
  have "validate_demo_preview_inputs demo_config demo_os demo_dirs False =
      Inr ([''t'', ''scripts'', ''local_demo_infer.py''], [''t'', ''c''], [''t'', ''k''])"
    using demo_not_alpha
    by (simp add: validate_demo_preview_inputs_def demo_os_def demo_dirs_def ensure_path_within_root_def preview_config_path_def
        preview_checkpoint_path_def validate_alpha_detector_preview_report_def validate_alpha_candidate_tags_inputs_def
        alpha_candidate_tags_enabled_def)
  moreover have "celery_broker_url demo_config = Some ''redis://x''" "celery_demo_preview_queue demo_config = ''q''"
    by (simp_all add: demo_config_def)
  moreover have "py_strip ''q'' = ''q''" by (simp add: py_strip_def strip_by_def py_isspace_def)
  ultimately show ?thesis
    by (simp add: tools_succeed_def validate_demo_preview_runtime_def demo_tools_def resolved_demo_temp_parent_def demo_dirs_def)
qed


definition sample_candidate :: jv where
  "sample_candidate = JObj [(''candidate_id'', JStr ''c1''), (''event_type'', JStr ''rebound''), (''start_time_ms'', JInt 1000),
     (''end_time_ms'', JInt 5000), (''review_required'', JBool True), (''commercial_use_allowed'', JBool False)]"

definition sample_report :: jobj where
  "sample_report = [(''schema_version'', JStr ''alpha_video_candidate_tags_v1''), (''source'', JStr ALPHA_CANDIDATE_SOURCE),
     (''lineage'', JObj [(''restricted_source'', JBool True), (''demo_only'', JBool True), (''review_required'', JBool True),
        (''commercial_use_allowed'', JBool False)]),
     (''demo_only'', JBool True), (''review_required'', JBool True), (''commercial_use_allowed'', JBool False),
     (''not_production_analytics'', JBool True), (''candidates'', JList [sample_candidate, JNull])]"

lemma validated_sample_report:
  "validated_candidate_items (\<lambda>_. []) sample_report =
     Inr [\<lparr>ci_candidate_id = ''c1'', ci_event_type = ET_REBOUND, ci_start_time_ms = 1000, ci_end_time_ms = 5000, ci_predicted_actions = []\<rparr>]"
  by (simp add: validated_candidate_items_def sample_report_def sample_candidate_def candidate_of_def event_type_of_def py_int_value_def
      ALPHA_CANDIDATE_EVENT_TYPES_def)

definition tag_config :: settings where
  "tag_config = demo_config\<lparr>cv_alpha_detector_preview_enabled := True, cv_alpha_candidate_tags_enabled := True\<rparr>"


section \<open>Divergences\<close>

text \<open>
  The emptiness of a window is checked before negative times are raised to zero: a candidate that lies
  before the start of the video is accepted with an empty window.
\<close>

theorem negative_candidate_empty_window:
  "\<exists>c. candidate_of str_of (JObj [(''candidate_id'', JStr ''c''), (''event_type'', JStr ''pass''), (''start_time_ms'', JInt (-5)),
      (''end_time_ms'', JInt (-1)), (''review_required'', JBool True), (''commercial_use_allowed'', JBool False)]) = Some c \<and>
    ci_start_time_ms c = 0 \<and> ci_end_time_ms c = 0"
  by (simp add: candidate_of_def event_type_of_def py_int_value_def ALPHA_CANDIDATE_EVENT_TYPES_def)

end
