(* ===== verification/Permissions.thy ===== *)
theory Permissions
  imports Database
begin

text \<open>
  \<open>apps/api/src/nextballup_api/permissions.py\<close>: the role and membership checks every handler calls.
  The locale \<open>team_gate\<close> is what the handlers rely on (who passes, what a refusal is, that only the
  membership table is read); \<open>require_team_member\<close> and \<open>require_team_coach\<close> are its two instances.
\<close>

section \<open>The checks\<close>

definition COACH_TEAM_ROLES :: "team_role list" where
  "COACH_TEAM_ROLES = [TR_HEAD_COACH, TR_ASSISTANT_COACH]"

definition require_user_role :: "user_row \<Rightarrow> user_role list \<Rightarrow> exn + unit" where
  "require_user_role u roles =
     (if u_role u \<in> set roles then Inr ()
      else Inl (ForbiddenError E_FORBIDDEN
        [(''required_roles'', JList (map (\<lambda>r. JStr (user_role_value r)) roles))]))"

definition require_verified_account :: "settings \<Rightarrow> user_row \<Rightarrow> exn + unit" where
  "require_verified_account s u =
     (if \<not> should_require_verified_email_for_sensitive_actions s then Inr ()
      else if u_role u = UR_ADMIN then Inr ()
      else if u_is_verified u then Inr ()
      else Inl (ForbiddenError E_FORBIDDEN [(''reason'', JStr ''email_unverified'')]))"

definition get_team_or_404 :: "db \<Rightarrow> uuid \<Rightarrow> exn + team_row" where
  "get_team_or_404 d team_id =
     (case by_key t_id team_id (teams d) of
        None \<Rightarrow> Inl (NotFoundError E_TEAM_NOT_FOUND)
      | Some t \<Rightarrow>
          if \<not> t_is_active t \<or> t_deleted_at t \<noteq> None
          then Inl (NotFoundError E_TEAM_NOT_FOUND) else Inr t)"

definition get_team_membership :: "db \<Rightarrow> uuid \<Rightarrow> uuid \<Rightarrow> membership_row option" where
  "get_team_membership d user_id team_id =
     scalar (\<lambda>m. m_team_id m = team_id \<and> m_user_id m = user_id \<and> m_is_active m) (memberships d)"

text \<open>
  The row a check returns: a stored membership, or the unsaved manager view synthesised for an
  administrator who is not on the team.
\<close>

datatype access = Member membership_row | Synthesized uuid uuid

fun access_role :: "access \<Rightarrow> team_role" where
  "access_role (Member m) = m_team_role m"
| "access_role (Synthesized team_id user_id) = TR_MANAGER"

definition require_team_member :: "db \<Rightarrow> user_row \<Rightarrow> uuid \<Rightarrow> exn + access" where
  "require_team_member d u team_id =
     (if u_role u = UR_ADMIN then
        (case get_team_membership d (u_id u) team_id of
           Some m \<Rightarrow> Inr (Member m)
         | None \<Rightarrow> Inr (Synthesized team_id (u_id u)))
      else
        (case get_team_membership d (u_id u) team_id of
           None \<Rightarrow> Inl (ForbiddenError E_FORBIDDEN [])
         | Some m \<Rightarrow> Inr (Member m)))"

definition require_team_coach :: "db \<Rightarrow> user_row \<Rightarrow> uuid \<Rightarrow> exn + access" where
  "require_team_coach d u team_id =
     (if u_role u = UR_ADMIN then require_team_member d u team_id
      else
        (case require_team_member d u team_id of
           Inl e \<Rightarrow> Inl e
         | Inr m \<Rightarrow>
             if access_role m \<notin> set COACH_TEAM_ROLES
             then Inl (ForbiddenError E_FORBIDDEN
               [(''required_team_roles'', JList [JStr ''assistant_coach'', JStr ''head_coach''])])
             else Inr m))"

section \<open>The contract of a team gate\<close>

locale team_gate =
  fixes gate :: "db \<Rightarrow> user_row \<Rightarrow> uuid \<Rightarrow> exn + access"
    and ok_role :: "team_role \<Rightarrow> bool"
  assumes admin_passes: "u_role u = UR_ADMIN \<Longrightarrow> \<exists>a. gate d u t = Inr a"
    and other: "u_role u \<noteq> UR_ADMIN \<Longrightarrow> gate d u t = Inr a \<longleftrightarrow>
      (\<exists>m. get_team_membership d (u_id u) t = Some m \<and> a = Member m \<and> ok_role (m_team_role m))"
    and refusal: "gate d u t = Inl e \<Longrightarrow> \<exists>x. e = ForbiddenError E_FORBIDDEN x"
    and reads: "memberships d = memberships d' \<Longrightarrow> gate d u t = gate d' u t"
begin

lemma passes:
  "gate d u t = Inr a \<Longrightarrow> u_role u = UR_ADMIN \<or>
     (\<exists>m \<in> set (memberships d). m_user_id m = u_id u \<and> m_team_id m = t \<and> m_is_active m \<and>
        ok_role (m_team_role m))"
proof (cases "u_role u = UR_ADMIN")
  case False
  assume "gate d u t = Inr a"
  with False other obtain m where "get_team_membership d (u_id u) t = Some m" "ok_role (m_team_role m)"
    by blast
  then show ?thesis unfolding get_team_membership_def by (auto dest!: scalar_Some)
qed simp

lemma status_403: "gate d u t = Inl e \<Longrightarrow> status_code e = 403"
  using refusal by (fastforce simp: ForbiddenError_def)

lemma passes_iff:
  assumes "distinct (map (\<lambda>m. (m_team_id m, m_user_id m)) (memberships d))"
  shows "(\<exists>a. gate d u t = Inr a) \<longleftrightarrow> u_role u = UR_ADMIN \<or>
     (\<exists>m \<in> set (memberships d). m_user_id m = u_id u \<and> m_team_id m = t \<and> m_is_active m \<and>
        ok_role (m_team_role m))" (is "?L \<longleftrightarrow> ?R")
proof
  assume ?L then show ?R using passes by blast
next
  assume r: ?R
  show ?L
  proof (cases "u_role u = UR_ADMIN")
    case True then show ?thesis by (rule admin_passes)
  next
    case False
    with r obtain m where m: "m \<in> set (memberships d)" "m_user_id m = u_id u" "m_team_id m = t"
      "m_is_active m" "ok_role (m_team_role m)" by blast
    have "get_team_membership d (u_id u) t = Some m"
      unfolding get_team_membership_def
      by (rule scalar_by_unique_key[OF assms m(1)]) (use m in auto)
    with False m(5) show ?thesis using other by blast
  qed
qed

end

interpretation member_gate: team_gate require_team_member "\<lambda>_. True"
  by unfold_locales
    (auto simp: require_team_member_def get_team_membership_def split: option.splits if_splits)

interpretation coach_gate: team_gate require_team_coach "\<lambda>r. r \<in> set COACH_TEAM_ROLES"
  by unfold_locales
    (auto simp: require_team_coach_def require_team_member_def get_team_membership_def
      split: option.splits if_splits)

lemma require_verified_account_passes:
  "require_verified_account s u = Inr x \<Longrightarrow>
     should_require_verified_email_for_sensitive_actions s \<Longrightarrow> u_role u = UR_ADMIN \<or> u_is_verified u"
  by (auto simp: require_verified_account_def split: if_splits)

lemma get_team_or_404_Inr:
  "get_team_or_404 d i = Inr t \<Longrightarrow>
     by_key t_id i (teams d) = Some t \<and> t_id t = i \<and> t_is_active t \<and> t_deleted_at t = None"
  by (auto simp: get_team_or_404_def dest: by_key_Some split: option.splits if_splits)

end
