(* ===== verification/Jobs.thy ===== *)
theory Jobs
  imports Database
begin

text \<open>
  The processing-job lifecycle: \<open>apps/worker/.../runtime/jobs.py\<close> (claim, heartbeat, completion,
  failure, release for retry, video status), the two API transitions on a job row (cancel, requeue)
  and the insertion of a new job. Every operation is one guarded UPDATE and is an instance of
  \<open>row_transition\<close> or \<open>exclusive_transition\<close>. The abstract specification of the lifecycle is the step
  relation \<open>job_step\<close>; \<open>jobs_inv\<close> is its invariant. Handlers and worker stages are later shown to
  change the job table only by such steps.
\<close>

section \<open>Operations\<close>

text \<open>\<open>func.now()\<close>, the start time of the transaction, is the argument \<open>now\<close>.\<close>

definition task_matches :: "string option \<Rightarrow> job_row \<Rightarrow> bool" where
  "task_matches tid j = (case tid of None \<Rightarrow> True | Some t \<Rightarrow> j_celery_task_id j = Some t)"

definition claim_values :: "string option \<Rightarrow> time \<Rightarrow> job_row \<Rightarrow> job_row" where
  "claim_values tid now j = j\<lparr>j_status := JS_RUNNING, j_celery_task_id := tid,
     j_started_at := (case j_started_at j of None \<Rightarrow> Some now | Some t \<Rightarrow> Some t),
     j_heartbeat_at := Some now\<rparr>"

definition claim_job ::
  "string option \<Rightarrow> time \<Rightarrow> uuid \<Rightarrow> job_row list \<Rightarrow> job_row list \<times> job_row option" where
  "claim_job tid now job_id t =
     update_returning (\<lambda>j. j_id j = job_id \<and> j_status j = JS_PENDING) (claim_values tid now) t"

definition heartbeat_values :: "int option \<Rightarrow> time \<Rightarrow> job_row \<Rightarrow> job_row" where
  "heartbeat_values progress now j = j\<lparr>j_heartbeat_at := Some now,
     j_progress_percent := (case progress of None \<Rightarrow> j_progress_percent j | Some p \<Rightarrow> p)\<rparr>"

definition touch_heartbeat ::
  "int option \<Rightarrow> string option \<Rightarrow> time \<Rightarrow> uuid \<Rightarrow> job_row list \<Rightarrow> job_row list \<times> job_row option" where
  "touch_heartbeat progress tid now job_id t =
     update_returning (\<lambda>j. j_id j = job_id \<and> (j_status j = JS_RUNNING \<and> task_matches tid j))
       (heartbeat_values progress now) t"

definition complete_values :: "jobj option \<Rightarrow> time \<Rightarrow> job_row \<Rightarrow> job_row" where
  "complete_values meta now j = j\<lparr>j_status := JS_COMPLETED, j_progress_percent := 100,
     j_completed_at := Some now, j_error_message := None, j_result_metadata := meta\<rparr>"

definition complete_job ::
  "jobj option \<Rightarrow> string option \<Rightarrow> time \<Rightarrow> uuid \<Rightarrow> job_row list \<Rightarrow> job_row list \<times> job_row option" where
  "complete_job meta tid now job_id t =
     update_returning (\<lambda>j. j_id j = job_id \<and> (j_status j = JS_RUNNING \<and> task_matches tid j))
       (complete_values meta now) t"

definition fail_values ::
  "error_code \<Rightarrow> string \<Rightarrow> jobj option \<Rightarrow> time \<Rightarrow> job_row \<Rightarrow> job_row" where
  "fail_values error_code error_message meta now j = j\<lparr>j_status := JS_FAILED,
     j_completed_at := Some now,
     j_error_message := Some (take 2000 (''['' @ error_code @ ''] '' @ error_message)),
     j_result_metadata := Some (jput ''error_code'' (JStr error_code) (or_empty meta))\<rparr>"

definition fail_job ::
  "error_code \<Rightarrow> string \<Rightarrow> jobj option \<Rightarrow> time \<Rightarrow> uuid \<Rightarrow> job_row list \<Rightarrow>
     job_row list \<times> job_row option" where
  "fail_job error_code error_message meta now job_id t =
     update_returning (\<lambda>j. j_id j = job_id \<and> j_status j \<in> {JS_PENDING, JS_RUNNING})
       (fail_values error_code error_message meta now) t"

definition release_values :: "jobj option \<Rightarrow> time \<Rightarrow> job_row \<Rightarrow> job_row" where
  "release_values meta now j = j\<lparr>j_status := JS_PENDING, j_progress_percent := 0,
     j_error_message := None, j_result_metadata := meta, j_heartbeat_at := Some now\<rparr>"

definition release_job_for_retry ::
  "jobj option \<Rightarrow> time \<Rightarrow> uuid \<Rightarrow> job_row list \<Rightarrow> job_row list \<times> job_row option" where
  "release_job_for_retry meta now job_id t =
     update_returning (\<lambda>j. j_id j = job_id \<and> j_status j = JS_RUNNING) (release_values meta now) t"

text \<open>An empty \<open>allowed_from\<close> (or \<open>None\<close>) leaves the UPDATE unconditional.\<close>

definition set_video_status ::
  "video_status \<Rightarrow> video_status list \<Rightarrow> uuid \<Rightarrow> video_row list \<Rightarrow> video_row list \<times> video_row option" where
  "set_video_status new_status allowed_from video_id t =
     update_returning
       (\<lambda>v. v_id v = video_id \<and> (allowed_from = [] \<or> v_status v \<in> set allowed_from))
       (\<lambda>v. v\<lparr>v_status := new_status\<rparr>) t"

definition get_job :: "db \<Rightarrow> uuid \<Rightarrow> job_row option" where
  "get_job d job_id = by_key j_id job_id (jobs d)"

text \<open>The dispatcher's stamp: a pending job without a task id records the published one.\<close>

definition stamp_job :: "string \<Rightarrow> uuid \<Rightarrow> job_row list \<Rightarrow> job_row list \<times> job_row option" where
  "stamp_job task_id job_id t =
     update_returning
       (\<lambda>j. j_id j = job_id \<and> (j_status j = JS_PENDING \<and> j_celery_task_id j = None))
       (\<lambda>j. j\<lparr>j_celery_task_id := Some task_id\<rparr>) t"

text \<open>
  The two writes of \<open>routers/videos.py\<close> on a locked job row: \<open>cancel_processing\<close> and
  \<open>requeue_processing\<close>.
\<close>

definition cancel_values :: "jobj \<Rightarrow> time \<Rightarrow> job_row \<Rightarrow> job_row" where
  "cancel_values meta cancelled_at j = j\<lparr>j_status := JS_FAILED, j_completed_at := Some cancelled_at,
     j_error_message := Some (''['' @ E_PROCESSING_CANCELLED @ ''] Processing cancelled by coach/admin''),
     j_result_metadata := Some meta\<rparr>"

definition cancel_row :: "jobj \<Rightarrow> time \<Rightarrow> uuid \<Rightarrow> job_row list \<Rightarrow> job_row list \<times> job_row option" where
  "cancel_row meta cancelled_at job_id t =
     update_returning (\<lambda>j. j_id j = job_id \<and> j_status j = JS_RUNNING)
       (cancel_values meta cancelled_at) t"

definition requeue_values :: "job_row \<Rightarrow> job_row" where
  "requeue_values j = j\<lparr>j_status := JS_PENDING, j_progress_percent := 0, j_error_message := None,
     j_result_metadata := None, j_celery_task_id := None, j_started_at := None,
     j_completed_at := None, j_heartbeat_at := None\<rparr>"

definition requeue_row :: "uuid \<Rightarrow> job_row list \<Rightarrow> job_row list \<times> job_row option" where
  "requeue_row job_id t =
     update_returning (\<lambda>j. j_id j = job_id \<and> j_status j = JS_FAILED) requeue_values t"

definition new_job :: "uuid \<Rightarrow> uuid \<Rightarrow> uuid \<Rightarrow> processing_job_stage \<Rightarrow> time \<Rightarrow> job_row" where
  "new_job i video_id team_id stage now = \<lparr>j_id = i, j_video_id = video_id, j_team_id = team_id,
     j_stage = stage, j_status = JS_PENDING, j_progress_percent = 0, j_celery_task_id = None,
     j_started_at = None, j_completed_at = None, j_error_message = None, j_result_metadata = None,
     j_heartbeat_at = None, j_created_at = now\<rparr>"

lemmas job_op_defs =
  claim_job_def touch_heartbeat_def complete_job_def fail_job_def release_job_for_retry_def
  stamp_job_def cancel_row_def requeue_row_def

lemmas job_value_defs =
  claim_values_def heartbeat_values_def complete_values_def fail_values_def release_values_def
  cancel_values_def requeue_values_def

section \<open>The row invariant and the transitions\<close>

definition job_ok :: "job_row \<Rightarrow> bool" where
  "job_ok j =
     (case j_status j of
        JS_PENDING \<Rightarrow> j_completed_at j = None \<and> j_error_message j = None
      | JS_RUNNING \<Rightarrow> j_started_at j \<noteq> None \<and> j_heartbeat_at j \<noteq> None \<and> j_completed_at j = None \<and>
          j_error_message j = None
      | JS_COMPLETED \<Rightarrow> j_progress_percent j = 100 \<and> j_started_at j \<noteq> None \<and>
          j_completed_at j \<noteq> None \<and> j_error_message j = None
      | JS_FAILED \<Rightarrow> j_completed_at j \<noteq> None \<and> j_error_message j \<noteq> None)"

definition video_stage :: "job_row \<Rightarrow> uuid \<times> processing_job_stage" where
  "video_stage j = (j_video_id j, j_stage j)"

definition jobs_inv :: "job_row list \<Rightarrow> bool" where
  "jobs_inv t \<longleftrightarrow> distinct (map j_id t) \<and> distinct (map video_stage t) \<and> (\<forall>j \<in> set t. job_ok j)"

fun status_edge :: "processing_job_status \<Rightarrow> processing_job_status \<Rightarrow> bool" where
  "status_edge JS_PENDING JS_RUNNING = True"
| "status_edge JS_PENDING JS_FAILED = True"
| "status_edge JS_RUNNING JS_COMPLETED = True"
| "status_edge JS_RUNNING JS_FAILED = True"
| "status_edge JS_RUNNING JS_PENDING = True"
| "status_edge JS_FAILED JS_PENDING = True"
| "status_edge a b = (a = b \<and> a \<noteq> JS_COMPLETED)"

lemma status_edge_completed [simp]: "\<not> status_edge JS_COMPLETED b"
  by (cases b) auto

text \<open>What every single-row operation on the job table promises.\<close>

locale job_transition = row_transition j_id guard upd step
  for guard :: "job_row \<Rightarrow> bool" and upd step +
  assumes stage_upd: "video_stage (upd j) = video_stage j"
    and ok_upd: "guard j \<Longrightarrow> job_ok j \<Longrightarrow> job_ok (upd j)"
    and edge_upd: "guard j \<Longrightarrow> status_edge (j_status j) (j_status (upd j))"
begin

lemma inv_step: "jobs_inv t \<Longrightarrow> jobs_inv (fst (step i t))"
  unfolding jobs_inv_def
  using keys[of i t] ok_upd
  by (auto simp: step_eq update_returning_def map_update_where[of _ video_stage] stage_upd
      set_update_where)

lemma edge_step:
  "by_key j_id k t = Some j \<Longrightarrow>
   \<exists>j'. by_key j_id k (fst (step i t)) = Some j' \<and>
     (j' = j \<or> k = i \<and> guard j \<and> j' = upd j \<and> status_edge (j_status j) (j_status j'))"
  using frame[of k i t] row[of i t] edge_upd by (cases "k = i") auto

end

interpretation claim: exclusive_transition j_id "\<lambda>j. j_status j = JS_PENDING"
  "claim_values tid now" "claim_job tid now" for tid now
  by unfold_locales (auto simp: job_op_defs job_value_defs)

interpretation complete: exclusive_transition j_id
  "\<lambda>j. j_status j = JS_RUNNING \<and> task_matches tid j"
  "complete_values meta now" "complete_job meta tid now" for meta tid now
  by unfold_locales (auto simp: job_op_defs job_value_defs)

interpretation fail: exclusive_transition j_id "\<lambda>j. j_status j \<in> {JS_PENDING, JS_RUNNING}"
  "fail_values c m meta now" "fail_job c m meta now" for c m meta now
  by unfold_locales (auto simp: job_op_defs job_value_defs)

interpretation release: exclusive_transition j_id "\<lambda>j. j_status j = JS_RUNNING"
  "release_values meta now" "release_job_for_retry meta now" for meta now
  by unfold_locales (auto simp: job_op_defs job_value_defs)

interpretation stamp: exclusive_transition j_id
  "\<lambda>j. j_status j = JS_PENDING \<and> j_celery_task_id j = None"
  "\<lambda>j. j\<lparr>j_celery_task_id := Some task_id\<rparr>" "stamp_job task_id" for task_id
  by unfold_locales (auto simp: job_op_defs)

interpretation cancel: exclusive_transition j_id "\<lambda>j. j_status j = JS_RUNNING"
  "cancel_values meta now" "cancel_row meta now" for meta now
  by unfold_locales (auto simp: job_op_defs job_value_defs)

interpretation requeue: exclusive_transition j_id "\<lambda>j. j_status j = JS_FAILED"
  requeue_values requeue_row
  by unfold_locales (auto simp: job_op_defs job_value_defs)

interpretation video_status: row_transition v_id
  "\<lambda>v. allowed = [] \<or> v_status v \<in> set allowed" "\<lambda>v. v\<lparr>v_status := new\<rparr>"
  "set_video_status new allowed" for new allowed
  by unfold_locales (auto simp: set_video_status_def)

interpretation claim_jt: job_transition "\<lambda>j. j_status j = JS_PENDING"
  "claim_values tid now" "claim_job tid now" for tid now
  by unfold_locales (auto simp: job_value_defs video_stage_def job_ok_def split: option.splits)

interpretation heartbeat_jt: job_transition "\<lambda>j. j_status j = JS_RUNNING \<and> task_matches tid j"
  "heartbeat_values progress now" "touch_heartbeat progress tid now" for progress tid now
  by unfold_locales (auto simp: job_op_defs job_value_defs video_stage_def job_ok_def)

interpretation complete_jt: job_transition "\<lambda>j. j_status j = JS_RUNNING \<and> task_matches tid j"
  "complete_values meta now" "complete_job meta tid now" for meta tid now
  by unfold_locales (auto simp: job_value_defs video_stage_def job_ok_def)

interpretation fail_jt: job_transition "\<lambda>j. j_status j \<in> {JS_PENDING, JS_RUNNING}"
  "fail_values c m meta now" "fail_job c m meta now" for c m meta now
  by unfold_locales (auto simp: job_value_defs video_stage_def job_ok_def)

interpretation release_jt: job_transition "\<lambda>j. j_status j = JS_RUNNING"
  "release_values meta now" "release_job_for_retry meta now" for meta now
  by unfold_locales (auto simp: job_value_defs video_stage_def job_ok_def)

interpretation stamp_jt: job_transition "\<lambda>j. j_status j = JS_PENDING \<and> j_celery_task_id j = None"
  "\<lambda>j. j\<lparr>j_celery_task_id := Some task_id\<rparr>" "stamp_job task_id" for task_id
  by unfold_locales (auto simp: video_stage_def job_ok_def)

interpretation cancel_jt: job_transition "\<lambda>j. j_status j = JS_RUNNING"
  "cancel_values meta now" "cancel_row meta now" for meta now
  by unfold_locales (auto simp: job_value_defs video_stage_def job_ok_def)

interpretation requeue_jt: job_transition "\<lambda>j. j_status j = JS_FAILED"
  requeue_values requeue_row
  by unfold_locales (auto simp: job_value_defs video_stage_def job_ok_def)

section \<open>The lifecycle as a step relation\<close>

text \<open>
  \<open>job_edge\<close> lists the transitions one row can make; \<open>job_step\<close> is a step of the table: a new job
  is queued, or one row makes a transition. \<open>table_step\<close> adds the removal of rows (a deleted video
  takes its jobs with it). This is the abstract specification of the processing lifecycle.
\<close>

inductive job_edge :: "job_row \<Rightarrow> job_row \<Rightarrow> bool" where
  claimed: "j_status j = JS_PENDING \<Longrightarrow> job_edge j (claim_values tid now j)"
| beat: "j_status j = JS_RUNNING \<Longrightarrow> job_edge j (heartbeat_values progress now j)"
| completed: "j_status j = JS_RUNNING \<Longrightarrow> job_edge j (complete_values meta now j)"
| failed: "j_status j \<in> {JS_PENDING, JS_RUNNING} \<Longrightarrow> job_edge j (fail_values c m meta now j)"
| released: "j_status j = JS_RUNNING \<Longrightarrow> job_edge j (release_values meta now j)"
| stamped: "j_status j = JS_PENDING \<Longrightarrow> j_celery_task_id j = None \<Longrightarrow>
    job_edge j (j\<lparr>j_celery_task_id := Some task_id\<rparr>)"
| cancelled: "j_status j = JS_RUNNING \<Longrightarrow> job_edge j (cancel_values obj now j)"
| requeued: "j_status j = JS_FAILED \<Longrightarrow> job_edge j (requeue_values j)"

inductive_cases job_edge_cases: "job_edge j j'"

inductive job_step :: "job_row list \<Rightarrow> job_row list \<Rightarrow> bool" where
  queued: "i \<notin> j_id ` set t \<Longrightarrow> (vid, stage) \<notin> video_stage ` set t \<Longrightarrow>
    job_step t (t @ [new_job i vid team stage now])"
| edge: "by_key j_id i t = Some j \<Longrightarrow> job_edge j j' \<Longrightarrow> job_step t (put_row j_id j' t)"

inductive table_step :: "job_row list \<Rightarrow> job_row list \<Rightarrow> bool" where
  job: "job_step t t' \<Longrightarrow> table_step t t'"
| purged: "table_step t (filter p t)"

lemma job_edge_key [simp]: "job_edge j j' \<Longrightarrow> j_id j' = j_id j"
  by (erule job_edge_cases) (simp_all add: job_value_defs)

lemma job_edge_stage [simp]: "job_edge j j' \<Longrightarrow> video_stage j' = video_stage j"
  by (erule job_edge_cases) (simp_all add: job_value_defs video_stage_def)

lemma job_edge_ok: "job_edge j j' \<Longrightarrow> job_ok j \<Longrightarrow> job_ok j'"
  by (erule job_edge_cases) (auto simp: job_value_defs job_ok_def split: option.splits)

lemma job_edge_status: "job_edge j j' \<Longrightarrow> status_edge (j_status j) (j_status j')"
  by (erule job_edge_cases) (auto simp: job_value_defs)

lemma jobs_inv_Nil [simp]: "jobs_inv []"
  by (simp add: jobs_inv_def)

lemma jobs_inv_keys: "jobs_inv t \<Longrightarrow> distinct (map j_id t)"
  by (simp add: jobs_inv_def)

lemma job_step_inv: "job_step t t' \<Longrightarrow> jobs_inv t \<Longrightarrow> jobs_inv t'"
proof (induction rule: job_step.induct)
  case (queued i t vid stage team now)
  then show ?case by (auto simp: jobs_inv_def new_job_def video_stage_def job_ok_def)
next
  case (edge i t j j')
  then have j: "j \<in> set t" "j_id j = i" by (auto dest: by_key_Some)
  have "by_key j_id (j_id j') t = Some j" using edge j by simp
  then have "map video_stage (put_row j_id j' t) = map video_stage t"
    using edge by (intro map_put_row) (auto simp: jobs_inv_def)
  moreover have "job_ok x" if "x \<in> set (put_row j_id j' t)" for x
    using set_put_row[OF that] edge j by (auto simp: jobs_inv_def intro: job_edge_ok)
  ultimately show ?case using edge by (simp add: jobs_inv_def keys_put_row)
qed

lemma table_step_inv: "table_step t t' \<Longrightarrow> jobs_inv t \<Longrightarrow> jobs_inv t'"
  by (induction rule: table_step.induct)
    (auto simp: jobs_inv_def job_step_inv[unfolded jobs_inv_def] distinct_map_filter)

lemma job_steps_inv: "job_step\<^sup>*\<^sup>* t t' \<Longrightarrow> jobs_inv t \<Longrightarrow> jobs_inv t'"
  by (induction rule: rtranclp_induct) (auto intro: job_step_inv)

lemma table_steps_inv: "table_step\<^sup>*\<^sup>* t t' \<Longrightarrow> jobs_inv t \<Longrightarrow> jobs_inv t'"
  by (induction rule: rtranclp_induct) (auto intro: table_step_inv)

lemma job_steps_table: "job_step\<^sup>*\<^sup>* t t' \<Longrightarrow> table_step\<^sup>*\<^sup>* t t'"
  by (induction rule: rtranclp_induct) (auto intro: rtranclp.rtrancl_into_rtrancl table_step.job)

lemma job_step_row:
  "job_step t t' \<Longrightarrow> by_key j_id k t = Some j \<Longrightarrow>
     \<exists>j'. by_key j_id k t' = Some j' \<and> (j' = j \<or> job_edge j j')"
proof (induction rule: job_step.induct)
  case (edge i t x x')
  then show ?case using by_key_Some[OF edge.hyps(1)] by (auto simp: by_key_put_row)
qed (simp add: by_key_append)

lemma job_steps_row:
  assumes "job_step\<^sup>*\<^sup>* t t'" and "by_key j_id k t = Some j"
  shows "\<exists>j'. by_key j_id k t' = Some j' \<and> video_stage j' = video_stage j"
  using assms(1)
proof (induction rule: rtranclp_induct)
  case (step y z)
  then obtain j1 where j1: "by_key j_id k y = Some j1" "video_stage j1 = video_stage j" by blast
  from job_step_row[OF step.hyps(2) j1(1)] j1(2) show ?case by (metis job_edge_stage)
qed (use assms(2) in simp)

lemma completed_no_edge: "j_status j = JS_COMPLETED \<Longrightarrow> \<not> job_edge j j'"
  using job_edge_status by fastforce

lemma completed_stays:
  assumes "job_step\<^sup>*\<^sup>* t t'" "by_key j_id k t = Some j" "j_status j = JS_COMPLETED"
  shows "by_key j_id k t' = Some j"
  using assms(1)
proof (induction rule: rtranclp_induct)
  case (step y z)
  then show ?case using job_step_row[OF step.hyps(2) step.IH] completed_no_edge[OF assms(3)] by auto
qed (use assms in simp)

text \<open>Each guarded UPDATE refines the specification: it changes nothing or makes one step.\<close>

context job_transition
begin

lemma refines:
  assumes "\<And>j. guard j \<Longrightarrow> job_edge j (upd j)" and "jobs_inv t"
  shows "job_step\<^sup>*\<^sup>* t (fst (step i t))"
proof -
  have "job_step t (put_row j_id (upd j) t)" if "by_key j_id i t = Some j" "guard j" for j
    using that assms(1) by (blast intro: job_step.edge)
  then show ?thesis using as_put[OF jobs_inv_keys[OF assms(2)], of i]
    by (auto split: option.splits if_splits)
qed

end

lemma claim_refines: "jobs_inv t \<Longrightarrow> job_step\<^sup>*\<^sup>* t (fst (claim_job tid now i t))"
  by (rule claim_jt.refines) (auto intro: job_edge.intros)

lemma heartbeat_refines: "jobs_inv t \<Longrightarrow> job_step\<^sup>*\<^sup>* t (fst (touch_heartbeat p tid now i t))"
  by (rule heartbeat_jt.refines) (auto intro: job_edge.intros)

lemma complete_refines: "jobs_inv t \<Longrightarrow> job_step\<^sup>*\<^sup>* t (fst (complete_job meta tid now i t))"
  by (rule complete_jt.refines) (auto intro: job_edge.intros)

lemma fail_refines: "jobs_inv t \<Longrightarrow> job_step\<^sup>*\<^sup>* t (fst (fail_job c m meta now i t))"
  by (rule fail_jt.refines) (auto intro: job_edge.intros)

lemma release_refines: "jobs_inv t \<Longrightarrow> job_step\<^sup>*\<^sup>* t (fst (release_job_for_retry meta now i t))"
  by (rule release_jt.refines) (auto intro: job_edge.intros)

lemma stamp_refines: "jobs_inv t \<Longrightarrow> job_step\<^sup>*\<^sup>* t (fst (stamp_job task i t))"
  by (rule stamp_jt.refines) (auto intro: job_edge.intros)

lemma cancel_refines: "jobs_inv t \<Longrightarrow> job_step\<^sup>*\<^sup>* t (fst (cancel_row obj now i t))"
  by (rule cancel_jt.refines) (auto intro: job_edge.intros)

lemma requeue_refines: "jobs_inv t \<Longrightarrow> job_step\<^sup>*\<^sup>* t (fst (requeue_row i t))"
  by (rule requeue_jt.refines) (auto intro: job_edge.intros)

lemmas job_refines =
  claim_refines heartbeat_refines complete_refines fail_refines release_refines
  stamp_refines cancel_refines requeue_refines

section \<open>Functions that only issue job statements\<close>

text \<open>
  \<open>safe d d'\<close>: the job table of \<open>d'\<close> is reached from that of \<open>d\<close> by job steps. \<open>job_env itf\<close>: every
  interference the environment causes is of that kind.
\<close>

definition safe :: "db \<Rightarrow> db \<Rightarrow> bool" where
  "safe d d' \<longleftrightarrow> (jobs_inv (jobs d) \<longrightarrow> jobs_inv (jobs d') \<and> job_step\<^sup>*\<^sup>* (jobs d) (jobs d'))"

definition job_env :: "(nat \<Rightarrow> db \<Rightarrow> db) \<Rightarrow> bool" where
  "job_env itf \<longleftrightarrow> (\<forall>k d. jobs_inv (jobs d) \<longrightarrow> job_step\<^sup>*\<^sup>* (jobs d) (jobs (itf k d)))"

named_theorems safe_intros \<open>rules that extend a chain of safe steps\<close>

lemma job_env_id [simp]: "job_env (\<lambda>k d. d)"
  by (simp add: job_env_def)

lemma safe_refl [simp]: "safe d d"
  by (simp add: safe_def)

lemma safe_trans [trans]: "safe a b \<Longrightarrow> safe b c \<Longrightarrow> safe a c"
  unfolding safe_def by (meson rtranclp_trans)

lemma safeI: "(jobs_inv (jobs d) \<Longrightarrow> job_step\<^sup>*\<^sup>* (jobs d) (jobs d')) \<Longrightarrow> safe d d'"
  unfolding safe_def using job_steps_inv by blast

lemma safe_itf: "safe a d \<Longrightarrow> job_env itf \<Longrightarrow> safe a (itf k d)"
  by (erule safe_trans) (auto intro: safeI simp: job_env_def)

lemma safe_jobs_eq: "safe a d \<Longrightarrow> jobs d' = jobs d \<Longrightarrow> safe a d'"
  by (simp add: safe_def)

lemma safe_worker_audit [safe_intros]: "safe a d \<Longrightarrow> safe a (write_worker_audit ac t rt ri rq x d)"
  by (erule safe_jobs_eq) simp

lemma safe_jobs:
  "safe a d \<Longrightarrow> (jobs_inv (jobs d) \<Longrightarrow> job_step\<^sup>*\<^sup>* (jobs d) t) \<Longrightarrow> safe a (d\<lparr>jobs := t\<rparr>)"
  by (erule safe_trans) (auto intro: safeI)

lemma safe_ops [safe_intros]:
  "safe a d \<Longrightarrow> safe a (d\<lparr>jobs := fst (claim_job tid now i (jobs d))\<rparr>)"
  "safe a d \<Longrightarrow> safe a (d\<lparr>jobs := fst (touch_heartbeat p tid now i (jobs d))\<rparr>)"
  "safe a d \<Longrightarrow> safe a (d\<lparr>jobs := fst (complete_job meta tid now i (jobs d))\<rparr>)"
  "safe a d \<Longrightarrow> safe a (d\<lparr>jobs := fst (fail_job c m meta now i (jobs d))\<rparr>)"
  "safe a d \<Longrightarrow> safe a (d\<lparr>jobs := fst (release_job_for_retry meta now i (jobs d))\<rparr>)"
  "safe a d \<Longrightarrow> safe a (d\<lparr>jobs := fst (cancel_row obj now i (jobs d))\<rparr>)"
  "safe a d \<Longrightarrow> safe a (d\<lparr>jobs := fst (requeue_row i (jobs d))\<rparr>)"
  by (erule safe_jobs, erule job_refines)+

section \<open>Interleavings\<close>

text \<open>
  The API, the dispatcher and any number of workers act on the table one statement at a time; a
  schedule is the list of their statements. \<open>Op_queue\<close> is the INSERT of a new job, refused by the
  primary key and by the unique constraint on \<open>(video_id, stage)\<close>.
\<close>

datatype job_op =
    Op_queue uuid uuid uuid processing_job_stage time
  | Op_claim "string option" time uuid
  | Op_heartbeat "int option" "string option" time uuid
  | Op_complete "jobj option" "string option" time uuid
  | Op_fail error_code string "jobj option" time uuid
  | Op_release "jobj option" time uuid
  | Op_stamp string uuid
  | Op_cancel jobj time uuid
  | Op_requeue uuid

definition queue_job ::
  "uuid \<Rightarrow> uuid \<Rightarrow> uuid \<Rightarrow> processing_job_stage \<Rightarrow> time \<Rightarrow> job_row list \<Rightarrow> job_row list" where
  "queue_job i vid team stage now t =
     (if i \<in> set (map j_id t) \<or> (vid, stage) \<in> set (map video_stage t) then t
      else t @ [new_job i vid team stage now])"

fun exec_op :: "job_op \<Rightarrow> job_row list \<Rightarrow> job_row list" where
  "exec_op (Op_queue i vid team stage now) t = queue_job i vid team stage now t"
| "exec_op (Op_claim tid now i) t = fst (claim_job tid now i t)"
| "exec_op (Op_heartbeat p tid now i) t = fst (touch_heartbeat p tid now i t)"
| "exec_op (Op_complete meta tid now i) t = fst (complete_job meta tid now i t)"
| "exec_op (Op_fail c m meta now i) t = fst (fail_job c m meta now i t)"
| "exec_op (Op_release meta now i) t = fst (release_job_for_retry meta now i t)"
| "exec_op (Op_stamp task i) t = fst (stamp_job task i t)"
| "exec_op (Op_cancel obj now i) t = fst (cancel_row obj now i t)"
| "exec_op (Op_requeue i) t = fst (requeue_row i t)"

definition run_ops :: "job_op list \<Rightarrow> job_row list \<Rightarrow> job_row list" where
  "run_ops ops t = fold exec_op ops t"

text \<open>The two statements that make a row claimable again.\<close>

fun frees :: "uuid \<Rightarrow> job_op \<Rightarrow> bool" where
  "frees i (Op_release meta now k) = (k = i)"
| "frees i (Op_requeue k) = (k = i)"
| "frees i op = False"

fun claims_as :: "string \<Rightarrow> uuid \<Rightarrow> job_op \<Rightarrow> bool" where
  "claims_as task i (Op_claim tid now k) = (k = i \<and> tid = Some task)"
| "claims_as task i op = False"

lemma queue_job_steps: "job_step\<^sup>*\<^sup>* t (queue_job i vid team stage now t)"
  unfolding queue_job_def by (auto intro: job_step.queued)

lemma safe_queue_job [safe_intros]:
  "safe a d \<Longrightarrow> safe a (d\<lparr>jobs := queue_job i vid team stage now (jobs d)\<rparr>)"
  by (erule safe_jobs) (rule queue_job_steps)

lemma exec_op_steps: "jobs_inv t \<Longrightarrow> job_step\<^sup>*\<^sup>* t (exec_op op t)"
  by (cases op) (auto simp only: exec_op.simps intro: queue_job_steps job_refines)

lemma run_ops_steps: "jobs_inv t \<Longrightarrow> job_step\<^sup>*\<^sup>* t (run_ops ops t)"
  unfolding run_ops_def
proof (induction ops arbitrary: t)
  case (Cons op ops)
  from exec_op_steps[OF Cons.prems, of op] have s: "job_step\<^sup>*\<^sup>* t (exec_op op t)" .
  then have "jobs_inv (exec_op op t)" by (rule job_steps_inv) (rule Cons.prems)
  with Cons.IH s show ?case by (auto intro: rtranclp_trans)
qed simp

lemma run_ops_row:
  assumes "\<And>op t j. op \<in> set ops \<Longrightarrow> by_key j_id i t = Some j \<Longrightarrow> P j \<Longrightarrow>
      \<exists>j'. by_key j_id i (exec_op op t) = Some j' \<and> P j'"
    and "by_key j_id i t = Some j" and "P j"
  shows "\<exists>j'. by_key j_id i (run_ops ops t) = Some j' \<and> P j'"
  using assms unfolding run_ops_def
proof (induction ops arbitrary: t j)
  case (Cons op ops)
  from Cons.prems(1)[OF _ Cons.prems(2,3)] obtain j' where
    "by_key j_id i (exec_op op t) = Some j'" "P j'" by auto
  with Cons.IH[of "exec_op op t" j'] Cons.prems(1) show ?case by auto
qed simp

lemma by_key_queue_job:
  "by_key j_id i t = Some j \<Longrightarrow> by_key j_id i (queue_job k vid team stage now t) = Some j"
  by (simp add: queue_job_def by_key_append)

text \<open>What a statement does to the row of one job.\<close>

lemma exec_op_row:
  assumes "by_key j_id i t = Some j"
  shows "\<exists>j'. by_key j_id i (exec_op op t) = Some j' \<and> (j' = j \<or>
     (case op of
        Op_claim tid now k \<Rightarrow> k = i \<and> j_status j = JS_PENDING \<and> j' = claim_values tid now j
      | Op_heartbeat p tid now k \<Rightarrow> k = i \<and> j_status j = JS_RUNNING \<and> task_matches tid j \<and>
          j' = heartbeat_values p now j
      | Op_complete meta tid now k \<Rightarrow> k = i \<and> j_status j = JS_RUNNING \<and> task_matches tid j \<and>
          j' = complete_values meta now j
      | Op_fail c m meta now k \<Rightarrow> k = i \<and> j_status j \<in> {JS_PENDING, JS_RUNNING} \<and>
          j' = fail_values c m meta now j
      | Op_release meta now k \<Rightarrow> k = i \<and> j_status j = JS_RUNNING \<and> j' = release_values meta now j
      | Op_stamp task k \<Rightarrow> k = i \<and> j_status j = JS_PENDING \<and> j_celery_task_id j = None \<and>
          j' = j\<lparr>j_celery_task_id := Some task\<rparr>
      | Op_cancel obj now k \<Rightarrow> k = i \<and> j_status j = JS_RUNNING \<and> j' = cancel_values obj now j
      | Op_requeue k \<Rightarrow> k = i \<and> j_status j = JS_FAILED \<and> j' = requeue_values j
      | _ \<Rightarrow> False))"
proof (cases op)
  case (Op_queue k vid team stage now)
  then show ?thesis using by_key_queue_job[OF assms] by simp
next
  case (Op_claim tid now k)
  then show ?thesis using claim_jt.edge_step[OF assms] by fastforce
next
  case (Op_heartbeat p tid now k)
  then show ?thesis using heartbeat_jt.edge_step[OF assms] by fastforce
next
  case (Op_complete meta tid now k)
  then show ?thesis using complete_jt.edge_step[OF assms] by fastforce
next
  case (Op_fail c m meta now k)
  then show ?thesis using fail_jt.edge_step[OF assms] by fastforce
next
  case (Op_release meta now k)
  then show ?thesis using release_jt.edge_step[OF assms] by fastforce
next
  case (Op_stamp task k)
  then show ?thesis using stamp_jt.edge_step[OF assms] by fastforce
next
  case (Op_cancel obj now k)
  then show ?thesis using cancel_jt.edge_step[OF assms] by fastforce
next
  case (Op_requeue k)
  then show ?thesis using requeue_jt.edge_step[OF assms] by fastforce
qed

lemma claimed_row:
  assumes "jobs_inv t" and "claim_job tid now i t = (t', Some r)"
  shows "\<exists>j. by_key j_id i t' = Some j \<and> j_status j = JS_RUNNING \<and> j_celery_task_id j = tid"
proof -
  from assms claim.result[OF jobs_inv_keys, of t tid now i] obtain j where
    "by_key j_id i t = Some j" "j_status j = JS_PENDING"
    by (auto split: option.splits if_splits)
  moreover have "t' = fst (claim_job tid now i t)" using assms by simp
  ultimately show ?thesis by (simp add: claim.row claim_values_def)
qed

lemma not_pending_refused:
  assumes "jobs_inv t" and "by_key j_id i t = Some j" and "j_status j \<noteq> JS_PENDING"
  shows "snd (claim_job tid now i t) = None"
  using assms by (simp add: claim.result jobs_inv_keys)

text \<open>
  C2: a claim is exclusive. Once a delivery has claimed a job, then whatever statements the other
  workers, the dispatcher and the API issue, as long as none of them releases or requeues this job,
  every later delivery of it is refused, and the row stays owned by the delivery that claimed it.
\<close>

theorem claim_exclusive:
  assumes "jobs_inv t" and "claim_job tid now i t = (t', Some r)"
    and "\<forall>op \<in> set ops. \<not> frees i op"
  shows "snd (claim_job tid' now' i (run_ops ops t')) = None \<and>
    (\<exists>j. by_key j_id i (run_ops ops t') = Some j \<and> j_status j \<noteq> JS_PENDING \<and>
       j_celery_task_id j = tid)"
proof -
  from claimed_row[OF assms(1,2)] obtain j0 where j0: "by_key j_id i t' = Some j0"
    "j_status j0 = JS_RUNNING" "j_celery_task_id j0 = tid" by blast
  have t': "t' = exec_op (Op_claim tid now i) t" using assms(2) by simp
  have inv: "jobs_inv (run_ops ops t')"
    using assms(1) t' exec_op_steps run_ops_steps job_steps_inv by metis
  have "\<exists>j. by_key j_id i (run_ops ops t') = Some j \<and> (j_status j \<noteq> JS_PENDING \<and> j_celery_task_id j = tid)"
  proof (rule run_ops_row)
    fix op and u :: "job_row list" and j
    assume "op \<in> set ops" and j: "by_key j_id i u = Some j"
      and P: "j_status j \<noteq> JS_PENDING \<and> j_celery_task_id j = tid"
    with assms(3) have "\<not> frees i op" by simp
    with exec_op_row[OF j, of op] P
    show "\<exists>j'. by_key j_id i (exec_op op u) = Some j' \<and>
        (j_status j' \<noteq> JS_PENDING \<and> j_celery_task_id j' = tid)"
      by (cases op) (auto simp: job_value_defs)
  qed (use j0 in auto)
  with not_pending_refused[OF inv] show ?thesis by blast
qed

definition sample_job :: job_row where
  "sample_job = new_job 7 1 2 ST_TRANSCODE 0"

theorem claim_exclusive_witness:
  "snd (claim_job (Some ''t2'') 9 7 (run_ops [Op_heartbeat (Some 40) (Some ''t1'') 6 7,
      Op_fail ''X'' ''m'' None 8 7] (fst (claim_job (Some ''t1'') 5 7 [sample_job])))) = None"
  using claim_exclusive[of "[sample_job]" "Some ''t1''" 5 7
      "fst (claim_job (Some ''t1'') 5 7 [sample_job])" "claim_values (Some ''t1'') 5 sample_job"
      "[Op_heartbeat (Some 40) (Some ''t1'') 6 7, Op_fail ''X'' ''m'' None 8 7]" "Some ''t2''" 9]
  by (simp add: jobs_inv_def sample_job_def new_job_def job_ok_def claim_job_def
      update_returning_def)

text \<open>
  C3: after \<open>cancel_processing\<close> has marked a running job failed, the worker whose delivery had
  claimed it is locked out: in every schedule in which that delivery does not claim the job anew, its
  heartbeat and its completion are refused and change nothing, even when another delivery runs
  the job meanwhile.
\<close>

theorem cancelled_worker_locked_out:
  assumes "jobs_inv t" and "cancel_row obj now i t = (t', Some r)"
    and "\<forall>op \<in> set ops. \<not> claims_as task i op"
  shows "complete_job meta (Some task) n1 i (run_ops ops t') = (run_ops ops t', None) \<and>
    touch_heartbeat p (Some task) n2 i (run_ops ops t') = (run_ops ops t', None)"
proof -
  from assms cancel.result[OF jobs_inv_keys, of t obj now i] obtain j where
    "by_key j_id i t = Some j" "j_status j = JS_RUNNING"
    by (auto split: option.splits if_splits)
  moreover have t': "t' = exec_op (Op_cancel obj now i) t" using assms by simp
  ultimately have j0: "by_key j_id i t' = Some (cancel_values obj now j)"
    by (simp add: cancel.row)
  let ?P = "\<lambda>j. \<not> (j_status j = JS_RUNNING \<and> task_matches (Some task) j)"
  have inv: "jobs_inv (run_ops ops t')"
    using assms(1) t' exec_op_steps run_ops_steps job_steps_inv by metis
  have "\<exists>j. by_key j_id i (run_ops ops t') = Some j \<and> ?P j"
  proof (rule run_ops_row)
    fix op and u :: "job_row list" and j
    assume "op \<in> set ops" and j: "by_key j_id i u = Some j" and P: "?P j"
    with assms(3) have "\<not> claims_as task i op" by simp
    with exec_op_row[OF j, of op] P show "\<exists>j'. by_key j_id i (exec_op op u) = Some j' \<and> ?P j'"
      by (cases op) (auto simp: job_value_defs task_matches_def)
  qed (use j0 in \<open>auto simp: cancel_values_def\<close>)
  then have "snd (complete_job meta (Some task) n1 i (run_ops ops t')) = None"
    "snd (touch_heartbeat p (Some task) n2 i (run_ops ops t')) = None"
    using jobs_inv_keys[OF inv] by (auto simp: complete.result heartbeat_jt.result)
  then show ?thesis
    using complete.unchanged heartbeat_jt.unchanged by (metis prod.collapse)
qed

theorem cancelled_worker_locked_out_witness:
  "complete_job None (Some ''t1'') 9 7
     (run_ops [Op_requeue 7, Op_claim (Some ''t2'') 8 7]
        (fst (cancel_row [] 6 7 [claim_values (Some ''t1'') 5 sample_job]))) =
   (run_ops [Op_requeue 7, Op_claim (Some ''t2'') 8 7]
        (fst (cancel_row [] 6 7 [claim_values (Some ''t1'') 5 sample_job])), None)"
  using cancelled_worker_locked_out[of "[claim_values (Some ''t1'') 5 sample_job]" "[]" 6 7
      "fst (cancel_row [] 6 7 [claim_values (Some ''t1'') 5 sample_job])"
      "cancel_values [] 6 (claim_values (Some ''t1'') 5 sample_job)"
      "[Op_requeue 7, Op_claim (Some ''t2'') 8 7]" "''t1''" None 9 None 9]
  by (simp add: jobs_inv_def sample_job_def new_job_def job_ok_def cancel_row_def
      update_returning_def claim_values_def)

text \<open>
  every schedule from an empty table, with rows removed at any point, keeps the job table
  well formed (unique ids, one job per video and stage, the timestamps and messages each status
  demands).
\<close>

theorem reachable_jobs_inv: "table_step\<^sup>*\<^sup>* [] t \<Longrightarrow> jobs_inv (run_ops ops t)"
  using table_steps_inv[of "[]" t] job_steps_inv[OF run_ops_steps] by simp

theorem reachable_jobs_inv_witness:
  "jobs_inv (run_ops [Op_queue 7 1 2 ST_TRANSCODE 0, Op_claim None 3 7, Op_queue 8 1 2 ST_TRANSCODE 4] [])"
  by (rule reachable_jobs_inv) simp

text \<open>
  completion is final. Whatever statements follow, the row of a completed job, its result
  metadata included, is never changed again.
\<close>

theorem completed_final:
  assumes "jobs_inv t" and "by_key j_id i t = Some j" and "j_status j = JS_COMPLETED"
  shows "by_key j_id i (run_ops ops t) = Some j"
  using completed_stays[OF run_ops_steps[OF assms(1)] assms(2,3)] .

theorem completed_final_witness:
  "by_key j_id 7 (run_ops [Op_fail ''X'' ''late'' None 9 7, Op_requeue 7]
     [complete_values None 6 (claim_values None 5 sample_job)]) =
   Some (complete_values None 6 (claim_values None 5 sample_job))"
  by (rule completed_final)
    (simp_all add: jobs_inv_def sample_job_def new_job_def job_ok_def by_key_def claim_values_def
      complete_values_def)

end
