(* ===== verification/Uploads.thy ===== *)
theory Uploads
  imports Billing Storage Permissions Jobs
begin

text \<open>
  The upload and recovery endpoints of \<open>apps/api/src/nextballup_api/routers/videos.py\<close>: validation of
  an upload, privacy consent, initiation (quota, presigned URL, ledger), completion (verification of
  the stored object, the transcode job), cancellation, deletion of failed videos, and the cancel and
  requeue of a transcode. The object store is a \<open>presigner\<close> (\<open>None\<close> when it is not configured); a
  handler returns its result and the committed database, and after initiation also the calls it made
  that change the store, in order.
  \<open>clk k\<close> is the \<open>k\<close>-th clock reading of the request, \<open>rl\<close> the outcome of the rate limiter. The
  handlers that change a video hold its row lock throughout. Request bodies are taken as validated by
  their schema.
\<close>

datatype storage_op =
    OpComplete string string "(int \<times> string) list"
  | OpAbort string string
  | OpDelete string

section \<open>Validation\<close>

record create_upload_request =
  cu_game_id :: uuid
  cu_filename :: string
  cu_file_size_bytes :: int
  cu_content_type :: string
  cu_checksum_sha256 :: "string option"
  cu_camera_position :: "camera_position option"
  cu_camera_height :: "camera_height option"
  cu_privacy_consent_id :: "uuid option"

definition filename_is_safe :: "string \<Rightarrow> bool" where
  "filename_is_safe filename =
     (if filename = [] \<or> py_strip filename \<noteq> filename then False
      else if \<exists>c \<in> set filename. of_char c < (32::nat) \<or> of_char c = (127::nat) then False
      else \<not> (CHR ''/'' \<in> set filename \<or> CHR 0x5C \<in> set filename \<or> \<not> no_dotdot filename))"

text \<open>\<open>lowered[lowered.rfind("."):]\<close>, when there is a dot.\<close>

definition file_extension :: "string \<Rightarrow> string option" where
  "file_extension lowered =
     (if CHR ''.'' \<notin> set lowered then None
      else Some (CHR ''.'' # rev (takeWhile (\<lambda>c. c \<noteq> CHR ''.'') (rev lowered))))"

definition allowed_extensions :: "settings \<Rightarrow> string \<Rightarrow> string list" where
  "allowed_extensions s content_type =
     (case map_of (upload_content_type_extensions s) content_type of None \<Rightarrow> [] | Some l \<Rightarrow> l)"

definition filename_extension_allowed :: "string \<Rightarrow> string \<Rightarrow> settings \<Rightarrow> bool" where
  "filename_extension_allowed filename content_type s =
     (case file_extension (py_lower filename) of
        None \<Rightarrow> False
      | Some ext \<Rightarrow> ext \<in> set (allowed_extensions s content_type))"

definition validate_upload :: "create_upload_request \<Rightarrow> settings \<Rightarrow> exn + unit" where
  "validate_upload p s =
     (let allowed = map py_lower (allowed_video_content_types s) in
      if cu_content_type p \<notin> set allowed
      then Inl (ValidationFailedError E_INVALID_CONTENT_TYPE
        [(''allowed'', JList (map JStr (sort (remdups allowed))))])
      else if \<not> filename_is_safe (cu_filename p) then Inl (ValidationFailedError E_INVALID_FILENAME [])
      else if \<not> filename_extension_allowed (cu_filename p) (cu_content_type p) s
      then Inl (ValidationFailedError E_CONTENT_TYPE_EXTENSION_MISMATCH
        [(''content_type'', JStr (cu_content_type p)),
         (''allowed_extensions'', JList (map JStr (sort (allowed_extensions s (cu_content_type p)))))])
      else if cu_file_size_bytes p \<le> 0 then Inl (ValidationFailedError E_INVALID_FILE_SIZE [])
      else if cu_file_size_bytes p < min_upload_size_bytes s
      then Inl (ValidationFailedError E_FILE_TOO_SMALL
        [(''min_bytes'', JInt (min_upload_size_bytes s)), (''requested_bytes'', JInt (cu_file_size_bytes p))])
      else if cu_file_size_bytes p > max_upload_size_bytes s
      then Inl (ValidationFailedError E_FILE_TOO_LARGE
        [(''max_bytes'', JInt (max_upload_size_bytes s)), (''requested_bytes'', JInt (cu_file_size_bytes p))])
      else Inr ())"

section \<open>Consent\<close>

definition SENSITIVE_TEAM_LEVELS :: "team_level list" where
  "SENSITIVE_TEAM_LEVELS = [TL_YOUTH, TL_AAU_CLUB, TL_MIDDLE_SCHOOL, TL_HIGH_SCHOOL]"

definition team_requires_privacy_consent :: "team_row \<Rightarrow> settings \<Rightarrow> bool" where
  "team_requires_privacy_consent team s =
     (if \<not> should_require_sensitive_upload_consent s then False
      else t_level team \<in> set SENSITIVE_TEAM_LEVELS \<or> t_institution_type team = IT_K12_SCHOOL)"

definition require_uploader_youth_consent :: "team_row \<Rightarrow> user_row \<Rightarrow> settings \<Rightarrow> exn + unit" where
  "require_uploader_youth_consent team u s =
     (if \<not> team_requires_privacy_consent team s then Inr ()
      else if u_role u \<in> {UR_ADMIN, UR_COACH} then Inr ()
      else if u_date_of_birth_verified u \<and> u_parental_consent_on_file u then Inr ()
      else
        (let missing = (if u_date_of_birth_verified u then [] else [''date_of_birth_verified'']) @
               (if u_parental_consent_on_file u then [] else [''parental_consent_on_file''])
         in Inl (ForbiddenError E_PRIVACY_CONSENT_REQUIRED
              [(''reason'', JStr ''uploader_minor_consent_required''), (''missing'', JList (map JStr missing))])))"

definition consent_is_current :: "consent_row \<Rightarrow> time \<Rightarrow> bool" where
  "consent_is_current c now =
     (c_revoked_at c = None \<and> c_effective_at c \<le> now \<and>
      (case c_expires_at c of None \<Rightarrow> True | Some e \<Rightarrow> e > now))"

definition resolve_upload_privacy_consent ::
  "db \<Rightarrow> team_row \<Rightarrow> uuid option \<Rightarrow> settings \<Rightarrow> time \<Rightarrow> exn + consent_row option" where
  "resolve_upload_privacy_consent d team consent_id s now =
     (let required = team_requires_privacy_consent team s in
      case consent_id of
        None \<Rightarrow> if required then Inl (ForbiddenError E_PRIVACY_CONSENT_REQUIRED []) else Inr None
      | Some cid \<Rightarrow>
          (case scalar (\<lambda>c. c_id c = cid \<and> c_team_id c = t_id team) (consents d) of
             None \<Rightarrow> Inl (ForbiddenError E_PRIVACY_CONSENT_INVALID [])
           | Some c \<Rightarrow>
               if \<not> consent_is_current c now then Inl (ForbiddenError E_PRIVACY_CONSENT_INVALID [])
               else if \<not> (c_covers_video_uploads c \<and> c_covers_cv_processing c \<and> c_athlete_pii_authorized c)
               then Inl (ForbiddenError E_PRIVACY_CONSENT_INVALID [])
               else if required \<and> \<not> c_minors_authorized c
               then Inl (ForbiddenError E_PRIVACY_CONSENT_INVALID [])
               else Inr (Some c)))"

definition raw_retention_expires_at :: "settings \<Rightarrow> int option \<Rightarrow> time \<Rightarrow> time" where
  "raw_retention_expires_at s plan_days now =
     (let retention_days = (case plan_days of
            None \<Rightarrow> raw_video_retention_days s
          | Some n \<Rightarrow> if n = 0 then raw_video_retention_days s else n)
      in now + days retention_days)"

section \<open>Shared pieces\<close>

definition require_storage :: "presigner option \<Rightarrow> exn + presigner" where
  "require_storage storage =
     (case storage of None \<Rightarrow> Inl (ServiceUnavailableError E_STORAGE_NOT_CONFIGURED) | Some p \<Rightarrow> Inr p)"

definition load_video :: "db \<Rightarrow> uuid \<Rightarrow> video_row option" where
  "load_video d video_id = by_key v_id video_id (videos d)"

definition record_upload_failure ::
  "request \<Rightarrow> user_row \<Rightarrow> uuid option \<Rightarrow> uuid option \<Rightarrow> jobj \<Rightarrow> db \<Rightarrow> db" where
  "record_upload_failure rq u video_id team_id extra d =
     write_audit rq A_VIDEO_UPLOAD_FAILED u ''video'' video_id team_id extra d"

definition uploaded_object_size :: "jobj \<Rightarrow> int option" where
  "uploaded_object_size metadata = as_int (jget ''ContentLength'' metadata)"

text \<open>A call whose failure is ignored.\<close>

definition delete_raw_object_best_effort :: "string option \<Rightarrow> storage_op list" where
  "delete_raw_object_best_effort storage_key =
     (if truthy storage_key then [OpDelete (the storage_key)] else [])"

definition put_video :: "video_row \<Rightarrow> db \<Rightarrow> db" where
  "put_video v d = d\<lparr>videos := put_row v_id v (videos d)\<rparr>"

section \<open>Initiation\<close>

record create_upload_response =
  cur_id :: uuid
  cur_upload_method :: upload_method
  cur_upload_url :: "string option"
  cur_upload_headers :: "(string \<times> string) list option"
  cur_upload_id :: "string option"
  cur_part_size_bytes :: "int option"
  cur_part_urls :: "presigned_part list option"
  cur_expires_at :: time

definition build_presigned_response :: "uuid \<Rightarrow> presigned_upload \<Rightarrow> time \<Rightarrow> create_upload_response" where
  "build_presigned_response video_id presigned expires_at =
     \<lparr>cur_id = video_id, cur_upload_method = pu_method presigned, cur_upload_url = pu_url presigned,
      cur_upload_headers = pu_headers presigned, cur_upload_id = pu_upload_id presigned,
      cur_part_size_bytes = pu_part_size_bytes presigned, cur_part_urls = pu_parts presigned,
      cur_expires_at = expires_at\<rparr>"

definition new_video :: "uuid \<Rightarrow> game_row \<Rightarrow> user_row \<Rightarrow> consent_row option \<Rightarrow> create_upload_request \<Rightarrow> video_row" where
  "new_video video_id game u consent p =
     \<lparr>v_id = video_id, v_game_id = g_id game, v_team_id = g_team_id game, v_uploaded_by = Some (u_id u),
      v_privacy_consent_id = map_option c_id consent, v_filename = cu_filename p,
      v_storage_key_raw = None, v_storage_key_mezzanine = None, v_storage_key_hls = None,
      v_status = VS_PENDING_UPLOAD, v_file_size_bytes = Some (cu_file_size_bytes p),
      v_content_type = Some (cu_content_type p), v_duration_seconds = None, v_width = None,
      v_height = None, v_fps = None, v_codec = None, v_checksum_sha256 = cu_checksum_sha256 p,
      v_storage_etag = None, v_storage_output_sha256 = None,
      v_camera_position = cu_camera_position p, v_camera_height = cu_camera_height p,
      v_upload_id = None, v_upload_expires_at = None, v_raw_retention_expires_at = None,
      v_raw_delete_requested_at = None, v_raw_delete_failed_at = None,
      v_raw_storage_deleted_at = None, v_raw_deleted_at = None, v_raw_delete_reason = None,
      v_demo_preview_status = ''idle'', v_demo_preview_storage_key = None,
      v_demo_preview_requested_at = None, v_demo_preview_started_at = None, v_demo_preview_generated_at = None,
      v_demo_preview_task_id = None, v_demo_preview_error_message = None, v_thumbnail_url = None\<rparr>"

text \<open>The checks before the quota, in order; the result is the game and the consent.\<close>

definition check_upload_access ::
  "settings \<Rightarrow> user_row \<Rightarrow> exn + unit \<Rightarrow> create_upload_request \<Rightarrow> time \<Rightarrow> db \<Rightarrow>
   exn + game_row \<times> consent_row option" where
  "check_upload_access s u rl p now d =
     (case validate_upload p s of
        Inl e \<Rightarrow> Inl e
      | Inr _ \<Rightarrow>
          (case require_verified_account s u of
             Inl e \<Rightarrow> Inl e
           | Inr _ \<Rightarrow>
               (case by_key g_id (cu_game_id p) (games d) of
                  None \<Rightarrow> Inl (NotFoundError E_GAME_NOT_FOUND)
                | Some game \<Rightarrow>
                    (case require_team_coach d u (g_team_id game) of
                       Inl e \<Rightarrow> Inl e
                     | Inr _ \<Rightarrow>
                         (case get_team_or_404 d (g_team_id game) of
                            Inl e \<Rightarrow> Inl e
                          | Inr team \<Rightarrow>
                              (case resolve_upload_privacy_consent d team (cu_privacy_consent_id p) s now of
                                 Inl e \<Rightarrow> Inl e
                               | Inr consent \<Rightarrow>
                                   (case require_uploader_youth_consent team u s of
                                      Inl e \<Rightarrow> Inl e
                                    | Inr _ \<Rightarrow>
                                        (case rl of Inl e \<Rightarrow> Inl e | Inr _ \<Rightarrow> Inr (game, consent)))))))))"

definition quota_denied ::
  "request \<Rightarrow> user_row \<Rightarrow> uuid \<Rightarrow> quota_check \<Rightarrow> int option \<Rightarrow> db \<Rightarrow> db" where
  "quota_denied rq u team_id check requested d =
     write_audit rq A_BILLING_QUOTA_DENIED u ''video'' None (Some team_id)
       ([(''quota_key'', JStr (qc_quota_key check)), (''limit'', jopt JInt (qc_limit check)),
         (''used'', JInt (qc_used check))] @
        (case requested of None \<Rightarrow> [] | Some n \<Rightarrow> [(''requested'', JInt n)]) @
        [(''plan_code'', jopt JStr (qc_plan_code check))]) d"

text \<open>Both quota checks: refused with the committed denial, or passed with the provisioned database.\<close>

definition check_upload_quotas ::
  "settings \<Rightarrow> request \<Rightarrow> user_row \<Rightarrow> create_upload_request \<Rightarrow> game_row \<Rightarrow> uuid \<Rightarrow> (nat \<Rightarrow> time) \<Rightarrow> db \<Rightarrow>
   (exn + quota_check \<times> quota_check) \<times> db" where
  "check_upload_quotas s rq u p game fresh clk d =
     (case check_video_upload_quota s (g_team_id game) (u_id u) fresh (clk 1) d of
        (Inl e, _) \<Rightarrow> (Inl e, d)
      | (Inr check, d1) \<Rightarrow>
          if \<not> qc_allowed check
          then (Inl (quota_exceeded_error check), quota_denied rq u (g_team_id game) check None d1)
          else
            (case check_video_storage_quota s (g_team_id game) (u_id u) (cu_file_size_bytes p) fresh (clk 2) d1 of
               (Inl e, _) \<Rightarrow> (Inl e, d)
             | (Inr storage_check, d2) \<Rightarrow>
                 if \<not> qc_allowed storage_check
                 then (Inl (quota_exceeded_error storage_check),
                   quota_denied rq u (g_team_id game) storage_check (Some (cu_file_size_bytes p)) d2)
                 else (Inr (check, storage_check), d2)))"

definition record_upload_usage :: "uuid \<Rightarrow> uuid \<Rightarrow> int \<Rightarrow> time \<Rightarrow> time \<Rightarrow> db \<Rightarrow> db" where
  "record_upload_usage team_id video_id n t1 t2 d =
     (case resolve_team_plan d team_id of
        None \<Rightarrow> d
      | Some ctx \<Rightarrow>
          record_usage (tp_account_id ctx) ''video.storage.bytes_reserved'' n (Some team_id)
            (Some [(''video_id'', JUuid video_id)]) t2
            (record_usage (tp_account_id ctx) ''video.upload.initiated'' 1 (Some team_id)
               (Some [(''video_id'', JUuid video_id), (''size_bytes'', JInt n)]) t1 d))"

text \<open>The presigned URL, the video row, the audit record and the ledger.\<close>

definition reserve_upload ::
  "settings \<Rightarrow> request \<Rightarrow> user_row \<Rightarrow> presigner \<Rightarrow> create_upload_request \<Rightarrow> game_row \<Rightarrow> consent_row option \<Rightarrow>
   quota_check \<times> quota_check \<Rightarrow> uuid \<Rightarrow> (nat \<Rightarrow> time) \<Rightarrow> db \<Rightarrow> db \<Rightarrow> (exn + create_upload_response) \<times> db" where
  "reserve_upload s rq u ps p game consent checks video_id clk d0 d =
     (let storage_key = storage_key_for_video (uuid_str (g_team_id game)) (uuid_str video_id) (cu_filename p);
          n = cu_file_size_bytes p
      in case ps_presign_upload ps storage_key (cu_content_type p) n (cu_checksum_sha256 p) of
           Inl e \<Rightarrow>
             (Inl e,
              if is_storage_failure e
              then record_upload_failure rq u (Some video_id) (Some (g_team_id game))
                [(''reason'', JStr ''storage_presign_failed''), (''game_id'', JUuid (g_id game)),
                 (''filename'', JStr (cu_filename p)), (''file_size_bytes'', JInt n),
                 (''content_type'', JStr (cu_content_type p))] d0
              else d0)
         | Inr presigned \<Rightarrow>
             (let expires_at = clk 3 + seconds (upload_url_expires_seconds s);
                  video = (new_video video_id game u consent p)\<lparr>v_storage_key_raw := Some storage_key,
                    v_upload_id := pu_upload_id presigned, v_upload_expires_at := Some expires_at\<rparr>;
                  d = d\<lparr>videos := videos d @ [video]\<rparr>;
                  d = write_audit rq A_VIDEO_UPLOAD_INITIATED u ''video'' (Some video_id) (Some (g_team_id game))
                    [(''game_id'', JUuid (g_id game)), (''filename'', JStr (cu_filename p)),
                     (''file_size_bytes'', JInt n), (''content_type'', JStr (cu_content_type p)),
                     (''checksum_sha256'', jopt JStr (cu_checksum_sha256 p)),
                     (''privacy_consent_id'', jopt JUuid (map_option c_id consent)),
                     (''upload_method'', JStr (upload_method_value (pu_method presigned))),
                     (''quota_plan_code'', jopt JStr (qc_plan_code (fst checks))),
                     (''quota_used_after'', JInt (qc_used (fst checks) + 1)),
                     (''storage_quota_used_after'', JInt (qc_used (snd checks) + n))] d;
                  d = record_upload_usage (g_team_id game) video_id n (clk 4) (clk 5) d
              in (Inr (build_presigned_response video_id presigned expires_at), d)))"

definition initiate_upload ::
  "settings \<Rightarrow> request \<Rightarrow> user_row \<Rightarrow> exn + unit \<Rightarrow> presigner option \<Rightarrow> create_upload_request \<Rightarrow> uuid \<Rightarrow> uuid \<Rightarrow>
   (nat \<Rightarrow> time) \<Rightarrow> db \<Rightarrow> (exn + create_upload_response) \<times> db" where
  "initiate_upload s rq u rl storage p video_id fresh clk d =
     (case check_upload_access s u rl p (clk 0) d of
        Inl e \<Rightarrow> (Inl e, d)
      | Inr (game, consent) \<Rightarrow>
          (case check_upload_quotas s rq u p game fresh clk d of
             (Inl e, d') \<Rightarrow> (Inl e, d')
           | (Inr checks, d') \<Rightarrow>
               (case require_storage storage of
                  Inl e \<Rightarrow> (Inl e, d)
                | Inr ps \<Rightarrow> reserve_upload s rq u ps p game consent checks video_id clk d d')))"

section \<open>Verification of the stored object\<close>

definition checksum_differs :: "string option \<Rightarrow> string option \<Rightarrow> bool" where
  "checksum_differs expected actual = (expected \<noteq> None \<and> actual \<noteq> None \<and> actual \<noteq> expected)"

definition size_differs :: "int option \<Rightarrow> int option \<Rightarrow> bool" where
  "size_differs actual declared = (actual \<noteq> None \<and> declared \<noteq> None \<and> actual \<noteq> declared)"

text \<open>\<open>Some (error, audit)\<close> when the object is refused.\<close>

definition verify_uploaded_object ::
  "request \<Rightarrow> user_row \<Rightarrow> video_row \<Rightarrow> presigner \<Rightarrow> string option \<Rightarrow> db \<Rightarrow>
   (exn + unit) \<times> db \<times> storage_op list" where
  "verify_uploaded_object rq u video ps expected_checksum d =
     (let fail = record_upload_failure rq u (Some (v_id video)) (Some (v_team_id video)) in
      if \<not> truthy (v_storage_key_raw video)
      then (Inl (ConflictError E_INVALID_VIDEO_STATE []), fail [(''reason'', JStr ''missing_storage_key'')] d, [])
      else
        (let storage_key = the (v_storage_key_raw video) in
         case ps_head_object ps storage_key of
           Inl e \<Rightarrow> (Inl e, d, [])
         | Inr None \<Rightarrow>
             (Inl (ConflictError E_INVALID_VIDEO_STATE [(''reason'', JStr ''upload_not_found'')]),
              fail [(''reason'', JStr ''upload_not_found''), (''storage_key'', JStr storage_key)] d, [])
         | Inr (Some metadata) \<Rightarrow>
             (let actual_size = uploaded_object_size metadata;
                  actual_checksum = object_checksum_sha256 metadata
              in if size_differs actual_size (v_file_size_bytes video)
                 then (Inl (ConflictError E_INVALID_VIDEO_STATE
                         [(''reason'', JStr ''upload_size_mismatch''),
                          (''expected_bytes'', jopt JInt (v_file_size_bytes video)),
                          (''actual_bytes'', jopt JInt actual_size)]),
                       fail [(''reason'', JStr ''upload_size_mismatch''),
                          (''expected_bytes'', jopt JInt (v_file_size_bytes video)),
                          (''actual_bytes'', jopt JInt actual_size)] d,
                       delete_raw_object_best_effort (Some storage_key))
                 else if checksum_differs expected_checksum actual_checksum
                 then (Inl (ConflictError E_INVALID_VIDEO_STATE [(''reason'', JStr ''upload_checksum_mismatch'')]),
                       fail [(''reason'', JStr ''upload_checksum_mismatch''),
                          (''expected_sha256'', jopt JStr expected_checksum),
                          (''actual_sha256'', jopt JStr actual_checksum)] d,
                       delete_raw_object_best_effort (Some storage_key))
                 else (Inr (), d, []))))"

section \<open>Completion\<close>

record complete_upload_request =
  cp_checksum_sha256 :: "string option"
  cp_parts :: "(int \<times> string) list option"

record complete_upload_response =
  cpr_id :: uuid
  cpr_status :: video_status
  cpr_estimated_processing_minutes :: int
  cpr_job_id :: uuid

definition ESTIMATED_PROCESSING_MINUTES :: int where
  "ESTIMATED_PROCESSING_MINUTES = 45"

definition complete_response :: "video_row \<Rightarrow> job_row \<Rightarrow> complete_upload_response" where
  "complete_response v j =
     \<lparr>cpr_id = v_id v, cpr_status = v_status v,
      cpr_estimated_processing_minutes = ESTIMATED_PROCESSING_MINUTES, cpr_job_id = j_id j\<rparr>"

definition transcode_job_of :: "db \<Rightarrow> uuid \<Rightarrow> job_row option" where
  "transcode_job_of d video_id =
     scalar (\<lambda>j. j_video_id j = video_id \<and> j_stage j = ST_TRANSCODE) (jobs d)"

text \<open>\<open>payload.checksum_sha256 or video.checksum_sha256\<close>\<close>

definition str_or :: "string option \<Rightarrow> string option \<Rightarrow> string option" where
  "str_or a b = (if truthy a then a else b)"

text \<open>The multipart part of the request: its completion at the store, and the audit reason of a failure.\<close>

definition finish_multipart ::
  "video_row \<Rightarrow> complete_upload_request \<Rightarrow> presigner option \<Rightarrow> (exn + presigner) \<times> storage_op list" where
  "finish_multipart video p storage =
     (case v_upload_id video of
        None \<Rightarrow> (require_storage storage, [])
      | Some upload_id \<Rightarrow>
          (case cp_parts p of
             None \<Rightarrow> (Inl (ValidationFailedError E_MULTIPART_PARTS_REQUIRED []), [])
           | Some parts \<Rightarrow>
               if parts = [] then (Inl (ValidationFailedError E_MULTIPART_PARTS_REQUIRED []), [])
               else if \<not> distinct (map fst parts)
               then (Inl (ValidationFailedError E_INVALID_MULTIPART_PARTS []), [])
               else
                 (case require_storage storage of
                    Inl e \<Rightarrow> (Inl e, [])
                  | Inr ps \<Rightarrow>
                      (let key = (case v_storage_key_raw video of None \<Rightarrow> [] | Some k \<Rightarrow> k) in
                       case ps_complete_multipart ps key upload_id parts of
                         Inl e \<Rightarrow> (Inl e, [])
                       | Inr _ \<Rightarrow> (Inr ps, [OpComplete key upload_id parts])))))"

definition complete_failure_extra :: "video_row \<Rightarrow> jobj" where
  "complete_failure_extra video =
     (case v_upload_id video of
        Some upload_id \<Rightarrow> [(''reason'', JStr ''storage_complete_failed''), (''upload_id'', JStr upload_id)]
      | None \<Rightarrow> [(''reason'', JStr ''storage_head_failed'')])"

definition queue_upload ::
  "settings \<Rightarrow> request \<Rightarrow> user_row \<Rightarrow> video_row \<Rightarrow> string option \<Rightarrow> uuid \<Rightarrow> (nat \<Rightarrow> time) \<Rightarrow> db \<Rightarrow>
   (exn + complete_upload_response) \<times> db" where
  "queue_upload s rq u video expected_checksum job_id clk d =
     (let retention = (case resolve_team_plan d (v_team_id video) of
            None \<Rightarrow> None | Some ctx \<Rightarrow> tp_raw_video_retention_days ctx);
          video = video\<lparr>v_status := VS_QUEUED, v_checksum_sha256 := expected_checksum, v_upload_id := None,
            v_upload_expires_at := None,
            v_raw_retention_expires_at := (case v_raw_retention_expires_at video of
                Some t \<Rightarrow> Some t
              | None \<Rightarrow> Some (raw_retention_expires_at s retention (clk 0)))\<rparr>;
          job = new_job job_id (v_id video) (v_team_id video) ST_TRANSCODE (clk 1)
      in if job_id \<in> j_id ` set (jobs d) \<or> video_stage job \<in> video_stage ` set (jobs d)
         then (Inl integrity_error, d)
         else
           (let d = (put_video video d)\<lparr>jobs := jobs d @ [job]\<rparr>;
                d = write_audit rq A_VIDEO_UPLOAD_COMPLETED u ''video'' (Some (v_id video)) (Some (v_team_id video))
                      [(''checksum_sha256'', jopt JStr expected_checksum)] d;
                d = write_audit rq A_VIDEO_PROCESSING_QUEUED u ''processing_job'' (Some job_id)
                      (Some (v_team_id video))
                      [(''stage'', JStr (processing_job_stage_value (j_stage job))),
                       (''video_id'', JUuid (v_id video))] d
            in (Inr (complete_response video job), d)))"

definition complete_upload ::
  "settings \<Rightarrow> request \<Rightarrow> user_row \<Rightarrow> presigner option \<Rightarrow> uuid \<Rightarrow> complete_upload_request \<Rightarrow> uuid \<Rightarrow>
   (nat \<Rightarrow> time) \<Rightarrow> db \<Rightarrow> (exn + complete_upload_response) \<times> db \<times> storage_op list" where
  "complete_upload s rq u storage video_id p job_id clk d =
     (case require_verified_account s u of
        Inl e \<Rightarrow> (Inl e, d, [])
      | Inr _ \<Rightarrow>
          (case load_video d video_id of
             None \<Rightarrow> (Inl (NotFoundError E_VIDEO_NOT_FOUND), d, [])
           | Some video \<Rightarrow>
               (case require_team_coach d u (v_team_id video) of
                  Inl e \<Rightarrow> (Inl e, d, [])
                | Inr _ \<Rightarrow>
                    if v_status video \<in> {VS_QUEUED, VS_PROCESSING, VS_PROCESSED} then
                      (case transcode_job_of d (v_id video) of
                         None \<Rightarrow> (Inl (AppError 409 E_INVALID_VIDEO_STATE []), d, [])
                       | Some existing_job \<Rightarrow> (Inr (complete_response video existing_job), d, []))
                    else if v_status video \<noteq> VS_PENDING_UPLOAD
                    then (Inl (ConflictError E_INVALID_VIDEO_STATE
                           [(''current_status'', JStr (video_status_value (v_status video)))]), d, [])
                    else
                      (let expected_checksum = str_or (cp_checksum_sha256 p) (v_checksum_sha256 video) in
                       if truthy (cp_checksum_sha256 p) \<and> truthy (v_checksum_sha256 video) \<and>
                          cp_checksum_sha256 p \<noteq> v_checksum_sha256 video
                       then (Inl (ValidationFailedError E_VALIDATION_FAILED []), d, [])
                       else
                         (let storage_failed = (\<lambda>e. if is_storage_failure e
                                then record_upload_failure rq u (Some (v_id video)) (Some (v_team_id video))
                                       (complete_failure_extra video) d
                                else d)
                          in case finish_multipart video p storage of
                               (Inl e, ops) \<Rightarrow> (Inl e, storage_failed e, ops)
                             | (Inr ps, ops) \<Rightarrow>
                                 (case verify_uploaded_object rq u video ps expected_checksum d of
                                    (Inl e, d', ops') \<Rightarrow>
                                      (Inl e, if is_storage_failure e then storage_failed e else d', ops @ ops')
                                  | (Inr _, d', ops') \<Rightarrow>
                                      (case queue_upload s rq u video expected_checksum job_id clk d' of
                                         (r, d'') \<Rightarrow> (r, d'', ops @ ops'))))))))"

section \<open>Cancelling an upload\<close>

definition cancel_upload ::
  "settings \<Rightarrow> request \<Rightarrow> user_row \<Rightarrow> presigner option \<Rightarrow> uuid \<Rightarrow> time \<Rightarrow> db \<Rightarrow>
   (exn + unit) \<times> db \<times> storage_op list" where
  "cancel_upload s rq u storage video_id now d =
     (case require_verified_account s u of
        Inl e \<Rightarrow> (Inl e, d, [])
      | Inr _ \<Rightarrow>
          (case load_video d video_id of
             None \<Rightarrow> (Inl (NotFoundError E_VIDEO_NOT_FOUND), d, [])
           | Some video \<Rightarrow>
               (case require_team_coach d u (v_team_id video) of
                  Inl e \<Rightarrow> (Inl e, d, [])
                | Inr _ \<Rightarrow>
                    if v_status video = VS_FAILED then (Inr (), d, [])
                    else if v_status video \<noteq> VS_PENDING_UPLOAD
                    then (Inl (ConflictError E_INVALID_VIDEO_STATE
                           [(''current_status'', JStr (video_status_value (v_status video)))]), d, [])
                    else
                      (case require_storage storage of
                         Inl e \<Rightarrow> (Inl e, d, [])
                       | Inr ps \<Rightarrow>
                           (let upload_id = v_upload_id video; storage_key = v_storage_key_raw video in
                            case (if upload_id \<noteq> None \<and> truthy storage_key
                                  then (case ps_abort_multipart ps (the storage_key) (the upload_id) of
                                          Inl e \<Rightarrow> Inl e
                                        | Inr _ \<Rightarrow> Inr [OpAbort (the storage_key) (the upload_id)])
                                  else Inr (delete_raw_object_best_effort storage_key)) of
                              Inl e \<Rightarrow> (Inl e, d, [])
                            | Inr ops \<Rightarrow>
                                (let d = put_video (video\<lparr>v_status := VS_FAILED, v_upload_id := None,
                                       v_upload_expires_at := None\<rparr>) d;
                                     d = release_video_upload_quota_reservation (v_team_id video) (v_id video)
                                       ''user_cancelled'' now d;
                                     d = write_audit rq A_VIDEO_UPLOAD_ABANDONED u ''video'' (Some (v_id video))
                                       (Some (v_team_id video))
                                       [(''reason'', JStr ''user_cancelled''), (''storage_key'', jopt JStr storage_key),
                                        (''multipart'', JBool (upload_id \<noteq> None))] d
                                 in (Inr (), d, ops)))))))"

section \<open>Deleting a failed video\<close>

record storage_cleanup =
  sc_aborted_multipart :: bool
  sc_deleted :: "string list"
  sc_failures :: "string list"

definition video_has_storage_cleanup_work :: "video_row \<Rightarrow> bool" where
  "video_has_storage_cleanup_work v =
     (truthy (v_upload_id v) \<or> truthy (v_storage_key_raw v) \<or> truthy (v_storage_key_mezzanine v) \<or>
      truthy (v_storage_key_hls v) \<or> truthy (v_demo_preview_storage_key v))"

definition storage_objects :: "video_row \<Rightarrow> (string \<times> string option) list" where
  "storage_objects v =
     [(''raw'', v_storage_key_raw v), (''mezzanine'', v_storage_key_mezzanine v),
      (''hls'', v_storage_key_hls v), (''demo_preview'', v_demo_preview_storage_key v)]"

text \<open>The loop over the objects: labels deleted, labels failed, calls made.\<close>

fun delete_objects ::
  "presigner \<Rightarrow> string list \<Rightarrow> (string \<times> string option) list \<Rightarrow> string list \<times> string list \<times> storage_op list" where
  "delete_objects ps attempted [] = ([], [], [])"
| "delete_objects ps attempted ((label, key) # objs) =
     (case key of
        None \<Rightarrow> delete_objects ps attempted objs
      | Some k \<Rightarrow>
          if k = [] \<or> k \<in> set attempted then delete_objects ps attempted objs
          else
            (case delete_objects ps (k # attempted) objs of
               (deleted, failures, ops) \<Rightarrow>
                 (case ps_delete_object ps k of
                    Inl e \<Rightarrow> (deleted, label # failures, ops)
                  | Inr _ \<Rightarrow> (label # deleted, failures, OpDelete k # ops))))"

definition delete_video_storage :: "presigner \<Rightarrow> video_row \<Rightarrow> storage_cleanup \<times> storage_op list" where
  "delete_video_storage ps v =
     (let (aborted, failed, ops) =
        (if v_upload_id v \<noteq> None \<and> truthy (v_storage_key_raw v)
         then (case ps_abort_multipart ps (the (v_storage_key_raw v)) (the (v_upload_id v)) of
                 Inl e \<Rightarrow> (False, [''multipart_upload''], [])
               | Inr _ \<Rightarrow> (True, [], [OpAbort (the (v_storage_key_raw v)) (the (v_upload_id v))]))
         else (False, [], []));
        (deleted, failures, ops') = delete_objects ps [] (storage_objects v)
      in (\<lparr>sc_aborted_multipart = aborted, sc_deleted = deleted, sc_failures = failed @ failures\<rparr>, ops @ ops'))"

definition no_cleanup :: storage_cleanup where
  "no_cleanup = \<lparr>sc_aborted_multipart = False, sc_deleted = [], sc_failures = []\<rparr>"

definition mark_video_cleanup_failed ::
  "request \<Rightarrow> user_row \<Rightarrow> video_row \<Rightarrow> string \<Rightarrow> string list \<Rightarrow> time \<Rightarrow> db \<Rightarrow> db" where
  "mark_video_cleanup_failed rq u video reason failures now d =
     (let d = put_video (video\<lparr>
            v_raw_delete_requested_at := (case v_raw_delete_requested_at video of
                Some t \<Rightarrow> Some t | None \<Rightarrow> Some now),
            v_raw_delete_failed_at := Some now, v_raw_delete_reason := Some ''user_cleanup''\<rparr>) d
      in write_audit rq A_VIDEO_DELETE_FAILED u ''video'' (Some (v_id video)) (Some (v_team_id video))
           [(''reason'', JStr reason), (''failed_cleanup'', JList (map JStr failures)),
            (''had_raw_object'', JBool (v_storage_key_raw video \<noteq> None)),
            (''had_mezzanine_object'', JBool (v_storage_key_mezzanine video \<noteq> None)),
            (''had_hls_object'', JBool (v_storage_key_hls video \<noteq> None)),
            (''had_demo_preview_object'', JBool (v_demo_preview_storage_key video \<noteq> None)),
            (''had_multipart_upload'', JBool (v_upload_id video \<noteq> None))] d)"

text \<open>\<open>session.delete(video)\<close>; the jobs and events of the video go with it (\<open>ON DELETE CASCADE\<close>).\<close>

definition delete_video_row :: "uuid \<Rightarrow> db \<Rightarrow> db" where
  "delete_video_row video_id d =
     d\<lparr>videos := filter (\<lambda>v. v_id v \<noteq> video_id) (videos d),
       jobs := filter (\<lambda>j. j_video_id j \<noteq> video_id) (jobs d),
       events := filter (\<lambda>e. ve_video_id e \<noteq> video_id) (events d)\<rparr>"

definition finish_delete ::
  "request \<Rightarrow> user_row \<Rightarrow> video_row \<Rightarrow> storage_cleanup \<Rightarrow> time \<Rightarrow> db \<Rightarrow> db" where
  "finish_delete rq u video cleanup now d =
     (let d1 = release_video_upload_quota_reservation (v_team_id video) (v_id video)
            ''user_deleted_failed_video'' now d;
          d2 = write_audit rq A_VIDEO_DELETED u ''video'' (Some (v_id video)) (Some (v_team_id video))
            [(''reason'', JStr ''user_deleted_failed_video''),
             (''previous_status'', JStr (video_status_value (v_status video))),
             (''quota_released'', JBool (usage d1 \<noteq> usage d)),
             (''storage_cleanup'', JObj
               [(''aborted_multipart'', JBool (sc_aborted_multipart cleanup)),
                (''deleted_raw'', JBool (''raw'' \<in> set (sc_deleted cleanup))),
                (''deleted_mezzanine'', JBool (''mezzanine'' \<in> set (sc_deleted cleanup))),
                (''deleted_hls'', JBool (''hls'' \<in> set (sc_deleted cleanup))),
                (''deleted_demo_preview'', JBool (''demo_preview'' \<in> set (sc_deleted cleanup)))])] d1
      in delete_video_row (v_id video) d2)"

definition delete_failed_video ::
  "settings \<Rightarrow> request \<Rightarrow> user_row \<Rightarrow> presigner option \<Rightarrow> uuid \<Rightarrow> (nat \<Rightarrow> time) \<Rightarrow> db \<Rightarrow>
   (exn + unit) \<times> db \<times> storage_op list" where
  "delete_failed_video s rq u storage video_id clk d =
     (case require_verified_account s u of
        Inl e \<Rightarrow> (Inl e, d, [])
      | Inr _ \<Rightarrow>
          (case load_video d video_id of
             None \<Rightarrow> (Inl (NotFoundError E_VIDEO_NOT_FOUND), d, [])
           | Some video \<Rightarrow>
               (case require_team_coach d u (v_team_id video) of
                  Inl e \<Rightarrow> (Inl e, d, [])
                | Inr _ \<Rightarrow>
                    if v_status video \<notin> {VS_FAILED, VS_PENDING_UPLOAD}
                    then (Inl (ConflictError E_INVALID_VIDEO_STATE
                           [(''current_status'', JStr (video_status_value (v_status video)))]), d, [])
                    else if \<not> video_has_storage_cleanup_work video
                    then (Inr (), finish_delete rq u video no_cleanup (clk 1) d, [])
                    else
                      (case storage of
                         None \<Rightarrow>
                           (Inl (ServiceUnavailableError E_STORAGE_NOT_CONFIGURED),
                            mark_video_cleanup_failed rq u video ''storage_not_configured'' [''storage''] (clk 0) d, [])
                       | Some ps \<Rightarrow>
                           (case delete_video_storage ps video of
                              (cleanup, ops) \<Rightarrow>
                                if sc_failures cleanup \<noteq> []
                                then (Inl (StorageFailureError
                                        [(''failed_cleanup'', JList (map JStr (sc_failures cleanup)))]),
                                      mark_video_cleanup_failed rq u video ''storage_cleanup_failed''
                                        (sc_failures cleanup) (clk 0) d, ops)
                                else (Inr (), finish_delete rq u video cleanup (clk 1) d, ops))))))"

section \<open>Cancelling and requeueing a transcode\<close>

record processing_response =
  pr_job_id :: uuid
  pr_stage :: string
  pr_status :: string
  pr_at :: time

definition stage_of_value :: "string \<Rightarrow> processing_job_stage option" where
  "stage_of_value v =
     scalar (\<lambda>st. processing_job_stage_value st = v)
       [ST_TRANSCODE, ST_DETECTION, ST_TRACKING, ST_COURT_MAPPING, ST_EVENTS, ST_METRICS]"

definition cancel_metadata :: "job_row \<Rightarrow> user_row \<Rightarrow> time \<Rightarrow> jobj" where
  "cancel_metadata job u cancelled_at =
     jupdate (or_empty (j_result_metadata job))
       (Some [(''cancelled_at'', JTime cancelled_at), (''cancelled_by_user_id'', JUuid (u_id u)),
         (''cancel_reason'', JStr ''user_cancelled_processing''),
         (''previous_progress_percent'', JInt (j_progress_percent job)),
         (''previous_celery_task_present'', JBool (j_celery_task_id job \<noteq> None))])"

text \<open>
  The part both recovery endpoints share: the stage, the locked video and its locked transcode job in
  the states they ask for.
\<close>

definition recovery_target ::
  "settings \<Rightarrow> user_row \<Rightarrow> uuid \<Rightarrow> string \<Rightarrow> video_status list \<Rightarrow> processing_job_status \<Rightarrow> db \<Rightarrow>
   exn + video_row \<times> job_row" where
  "recovery_target s u video_id stage_name video_states job_state d =
     (case require_verified_account s u of
        Inl e \<Rightarrow> Inl e
      | Inr _ \<Rightarrow>
          (case stage_of_value stage_name of
             None \<Rightarrow> Inl (ValidationFailedError E_PROCESSING_STAGE_UNKNOWN [(''stage'', JStr stage_name)])
           | Some stage \<Rightarrow>
               (case load_video d video_id of
                  None \<Rightarrow> Inl (NotFoundError E_VIDEO_NOT_FOUND)
                | Some video \<Rightarrow>
                    (case require_team_coach d u (v_team_id video) of
                       Inl e \<Rightarrow> Inl e
                     | Inr _ \<Rightarrow>
                         if stage \<noteq> ST_TRANSCODE
                         then Inl (ConflictError E_INVALID_VIDEO_STATE
                           [(''stage'', JStr (processing_job_stage_value stage))])
                         else if v_status video \<notin> set video_states
                         then Inl (ConflictError E_INVALID_VIDEO_STATE
                           [(''current_status'', JStr (video_status_value (v_status video)))])
                         else
                           (case transcode_job_of d (v_id video) of
                              None \<Rightarrow> Inl (NotFoundError E_PROCESSING_JOB_NOT_FOUND)
                            | Some job \<Rightarrow>
                                if j_status job \<noteq> job_state
                                then Inl (ConflictError E_PROCESSING_JOB_NOT_REQUEUABLE
                                  [(''current_status'', JStr (processing_job_status_value (j_status job)))])
                                else Inr (video, job))))))"

definition cancel_processing ::
  "settings \<Rightarrow> request \<Rightarrow> user_row \<Rightarrow> uuid \<Rightarrow> string \<Rightarrow> time \<Rightarrow> db \<Rightarrow> (exn + processing_response) \<times> db" where
  "cancel_processing s rq u video_id stage_name cancelled_at d =
     (case recovery_target s u video_id stage_name [VS_PROCESSING, VS_QUEUED] JS_RUNNING d of
        Inl e \<Rightarrow> (Inl e, d)
      | Inr (video, job) \<Rightarrow>
          (let d = d\<lparr>jobs := fst (cancel_row (cancel_metadata job u cancelled_at) cancelled_at (j_id job) (jobs d))\<rparr>;
               d = put_video (video\<lparr>v_status := VS_FAILED\<rparr>) d;
               d = write_audit rq A_VIDEO_PROCESSING_CANCELLED u ''processing_job'' (Some (j_id job))
                     (Some (v_team_id video))
                     [(''video_id'', JUuid (v_id video)), (''stage'', JStr stage_name),
                      (''previous_progress_percent'', JInt (j_progress_percent job)),
                      (''had_celery_task_id'', JBool (j_celery_task_id job \<noteq> None))] d
           in (Inr \<lparr>pr_job_id = j_id job, pr_stage = stage_name,
                 pr_status = processing_job_status_value JS_FAILED, pr_at = cancelled_at\<rparr>, d)))"

definition assert_raw_object_requeueable :: "video_row \<Rightarrow> presigner \<Rightarrow> exn + unit" where
  "assert_raw_object_requeueable video ps =
     (let refuse = (\<lambda>reason. Inl (ConflictError E_INVALID_VIDEO_STATE [(''reason'', JStr reason)])) in
      if \<not> truthy (v_storage_key_raw video) \<or> v_raw_deleted_at video \<noteq> None \<or>
         v_raw_storage_deleted_at video \<noteq> None
      then refuse ''raw_object_unavailable''
      else
        (case ps_head_object ps (the (v_storage_key_raw video)) of
           Inl e \<Rightarrow> Inl e
         | Inr None \<Rightarrow> refuse ''raw_object_missing''
         | Inr (Some metadata) \<Rightarrow>
             if size_differs (uploaded_object_size metadata) (v_file_size_bytes video)
             then refuse ''raw_object_size_mismatch''
             else
               (let actual_checksum = object_checksum_sha256 metadata in
                if truthy (v_checksum_sha256 video) \<and> truthy actual_checksum \<and>
                   actual_checksum \<noteq> v_checksum_sha256 video
                then refuse ''raw_object_checksum_mismatch''
                else Inr ())))"

definition requeue_processing ::
  "settings \<Rightarrow> request \<Rightarrow> user_row \<Rightarrow> presigner option \<Rightarrow> uuid \<Rightarrow> string \<Rightarrow> time \<Rightarrow> db \<Rightarrow>
   (exn + processing_response) \<times> db" where
  "requeue_processing s rq u storage video_id stage_name requeued_at d =
     (case recovery_target s u video_id stage_name [VS_FAILED] JS_FAILED d of
        Inl e \<Rightarrow> (Inl e, d)
      | Inr (video, job) \<Rightarrow>
          (case require_storage storage of
             Inl e \<Rightarrow> (Inl e, d)
           | Inr ps \<Rightarrow>
               (case assert_raw_object_requeueable video ps of
                  Inl e \<Rightarrow> (Inl e, d)
                | Inr _ \<Rightarrow>
                    (let d = put_video (video\<lparr>v_status := VS_QUEUED\<rparr>) d;
                         d = d\<lparr>jobs := fst (requeue_row (j_id job) (jobs d))\<rparr>;
                         d = write_audit rq A_VIDEO_PROCESSING_REQUEUED u ''processing_job'' (Some (j_id job))
                               (Some (v_team_id video))
                               [(''video_id'', JUuid (v_id video)), (''stage'', JStr stage_name)] d
                     in (Inr \<lparr>pr_job_id = j_id job, pr_stage = stage_name,
                           pr_status = processing_job_status_value JS_PENDING, pr_at = requeued_at\<rparr>, d)))))"

section \<open>What a passed check means\<close>

lemma validate_upload_Inr:
  "validate_upload p s = Inr x \<Longrightarrow>
     cu_content_type p \<in> set (map py_lower (allowed_video_content_types s)) \<and>
     filename_is_safe (cu_filename p) \<and> filename_extension_allowed (cu_filename p) (cu_content_type p) s \<and>
     0 < cu_file_size_bytes p \<and> min_upload_size_bytes s \<le> cu_file_size_bytes p \<and>
     cu_file_size_bytes p \<le> max_upload_size_bytes s"
  by (auto simp: validate_upload_def Let_def split: if_splits)

lemma resolve_consent_Inr:
  assumes "resolve_upload_privacy_consent d team cid s now = Inr c"
  shows "map_option c_id c = cid \<and>
    (case c of
       None \<Rightarrow> \<not> team_requires_privacy_consent team s
     | Some x \<Rightarrow> x \<in> set (consents d) \<and> c_team_id x = t_id team \<and> consent_is_current x now \<and>
         c_covers_video_uploads x \<and> c_covers_cv_processing x \<and> c_athlete_pii_authorized x \<and>
         (team_requires_privacy_consent team s \<longrightarrow> c_minors_authorized x))"
proof (cases cid)
  case None
  with assms show ?thesis by (auto simp: resolve_upload_privacy_consent_def Let_def split: if_splits)
next
  case (Some i)
  with assms obtain x where "scalar (\<lambda>c. c_id c = i \<and> c_team_id c = t_id team) (consents d) = Some x"
    "c = Some x" "consent_is_current x now" "c_covers_video_uploads x" "c_covers_cv_processing x"
    "c_athlete_pii_authorized x" "team_requires_privacy_consent team s \<longrightarrow> c_minors_authorized x"
    by (auto simp: resolve_upload_privacy_consent_def Let_def split: option.splits if_splits)
  with Some show ?thesis by (auto dest!: scalar_Some)
qed

lemma check_upload_access_Inr:
  assumes "check_upload_access s u rl p now d = Inr (game, consent)"
  obtains team a where "validate_upload p s = Inr ()" "require_verified_account s u = Inr ()"
    "by_key g_id (cu_game_id p) (games d) = Some game" "require_team_coach d u (g_team_id game) = Inr a"
    "get_team_or_404 d (g_team_id game) = Inr team"
    "resolve_upload_privacy_consent d team (cu_privacy_consent_id p) s now = Inr consent"
    "require_uploader_youth_consent team u s = Inr ()" "rl = Inr ()"
  using assms unfolding check_upload_access_def by (auto split: sum.splits option.splits)

lemma check_upload_quotas_Inr:
  assumes "check_upload_quotas s rq u p game fresh clk d = (Inr (q, sq), d2)"
  obtains d1 where "check_video_upload_quota s (g_team_id game) (u_id u) fresh (clk 1) d = (Inr q, d1)"
    "qc_allowed q"
    "check_video_storage_quota s (g_team_id game) (u_id u) (cu_file_size_bytes p) fresh (clk 2) d1 = (Inr sq, d2)"
    "qc_allowed sq"
  using assms unfolding check_upload_quotas_def
  by (auto split: sum.splits prod.splits if_splits)

definition reserved_video ::
  "settings \<Rightarrow> user_row \<Rightarrow> create_upload_request \<Rightarrow> game_row \<Rightarrow> consent_row option \<Rightarrow> presigned_upload \<Rightarrow>
   uuid \<Rightarrow> (nat \<Rightarrow> time) \<Rightarrow> video_row" where
  "reserved_video s u p game consent presigned video_id clk =
     (new_video video_id game u consent p)\<lparr>
       v_storage_key_raw := Some (storage_key_for_video (uuid_str (g_team_id game)) (uuid_str video_id) (cu_filename p)),
       v_upload_id := pu_upload_id presigned,
       v_upload_expires_at := Some (clk 3 + seconds (upload_url_expires_seconds s))\<rparr>"

lemma reserve_upload_Inr:
  assumes "reserve_upload s rq u ps p game consent checks video_id clk d0 d = (Inr r, d')"
  obtains presigned a x where
    "ps_presign_upload ps (storage_key_for_video (uuid_str (g_team_id game)) (uuid_str video_id) (cu_filename p))
       (cu_content_type p) (cu_file_size_bytes p) (cu_checksum_sha256 p) = Inr presigned"
    "d' = record_upload_usage (g_team_id game) video_id (cu_file_size_bytes p) (clk 4) (clk 5)
       (write_audit rq A_VIDEO_UPLOAD_INITIATED u ''video'' (Some video_id) (Some (g_team_id game)) x
         (d\<lparr>videos := videos d @ [reserved_video s u p game consent presigned video_id clk]\<rparr>))"
  using assms unfolding reserve_upload_def reserved_video_def
  by (auto simp: Let_def split: sum.splits)

lemma initiate_upload_Inr:
  assumes "initiate_upload s rq u rl storage p video_id fresh clk d = (Inr r, d')"
  obtains game consent checks d2 ps where
    "check_upload_access s u rl p (clk 0) d = Inr (game, consent)"
    "check_upload_quotas s rq u p game fresh clk d = (Inr checks, d2)"
    "reserve_upload s rq u ps p game consent checks video_id clk d d2 = (Inr r, d')"
  using assms unfolding initiate_upload_def by (auto split: sum.splits prod.splits)

lemma record_upload_usage_frame [simp]:
  "videos (record_upload_usage t v n t1 t2 d) = videos d"
  "links (record_upload_usage t v n t1 t2 d) = links d"
  "accounts (record_upload_usage t v n t1 t2 d) = accounts d"
  "subscriptions (record_upload_usage t v n t1 t2 d) = subscriptions d"
  "plans (record_upload_usage t v n t1 t2 d) = plans d"
  by (auto simp: record_upload_usage_def split: option.splits)

text \<open>The tables a quota check or a refused initiation may have touched are the billing accounts and the audit log.\<close>

definition provisioned :: "db \<Rightarrow> db \<Rightarrow> bool" where
  "provisioned d d' \<longleftrightarrow> users d' = users d \<and> teams d' = teams d \<and> memberships d' = memberships d \<and>
     invites d' = invites d \<and> consents d' = consents d \<and> games d' = games d \<and> videos d' = videos d \<and>
     jobs d' = jobs d \<and> artifacts d' = artifacts d \<and> plans d' = plans d \<and> usage d' = usage d"

lemma provisioned_refl [simp]: "provisioned d d"
  by (simp add: provisioned_def)

lemma provisioned_trans: "provisioned a b \<Longrightarrow> provisioned b c \<Longrightarrow> provisioned a c"
  by (simp add: provisioned_def)

lemma provisioned_audit [simp]: "provisioned d (write_audit rq ac u rt ri t x e) = provisioned d e"
  by (simp add: provisioned_def)

lemma get_or_create_provisioned:
  "get_or_create_account_for_team s t ow fresh now d = (x, d') \<Longrightarrow> provisioned d d'"
  by (auto simp: get_or_create_account_for_team_def Let_def provisioned_def split: option.splits if_splits)

lemma quota_check_provisioned:
  "check_video_upload_quota s t ow fresh now d = (x, d') \<Longrightarrow> provisioned d d'"
  "check_video_storage_quota s t ow n fresh now d = (x, d') \<Longrightarrow> provisioned d d'"
  using get_or_create_provisioned
  by (auto simp: check_video_upload_quota_def check_video_storage_quota_def
      split: prod.splits sum.splits)

lemma check_upload_quotas_provisioned:
  assumes "check_upload_quotas s rq u p game fresh clk d = (x, d2)"
  shows "provisioned d d2"
proof -
  obtain y d1 where 1: "check_video_upload_quota s (g_team_id game) (u_id u) fresh (clk 1) d = (y, d1)"
    by force
  obtain z d3 where 2: "check_video_storage_quota s (g_team_id game) (u_id u) (cu_file_size_bytes p) fresh (clk 2) d1
      = (z, d3)" by force
  note quota_check_provisioned(1)[OF 1] quota_check_provisioned(2)[OF 2]
  then show ?thesis using assms 1 2 unfolding check_upload_quotas_def quota_denied_def
    by (auto intro: provisioned_trans split: sum.splits if_splits)
qed

section \<open>The quotas of an account\<close>

definition account_limit :: "string \<Rightarrow> db \<Rightarrow> uuid \<Rightarrow> int option" where
  "account_limit key d acct =
     (case latest_subscription d acct of
        None \<Rightarrow> Some 0
      | Some sub \<Rightarrow> numeric_entitlement (by_key pl_id (s_plan_id sub) (plans d)) key (Some sub))"

definition period_start :: "db \<Rightarrow> uuid \<Rightarrow> time" where
  "period_start d acct =
     (case latest_subscription d acct of None \<Rightarrow> 0 | Some sub \<Rightarrow> s_current_period_start sub)"

definition video_limit :: "db \<Rightarrow> uuid \<Rightarrow> int option" where
  "video_limit d acct = account_limit ''max_videos_per_month'' d acct"

definition byte_limit :: "db \<Rightarrow> uuid \<Rightarrow> int option" where
  "byte_limit d acct = map_option (\<lambda>g. g * 1024 * 1024 * 1024) (account_limit ''max_storage_gb'' d acct)"

lemmas limit_defs = account_limit_def period_start_def video_limit_def byte_limit_def latest_subscription_def

lemma upload_check_limit:
  assumes "check_video_upload_quota s t ow fresh now d = (Inr qc, d')" and "qc_allowed qc"
  obtains a where "get_or_create_account_for_team s t (Some ow) fresh now d = (Inr a, d')"
    "within_limit (video_limit d' (ba_id a)) (videos_used_this_period (ba_id a) (period_start d' (ba_id a)) d' + 1)"
    "get_active_subscription d' (ba_id a) \<noteq> None" "latest_subscription d' (ba_id a) \<noteq> None"
  using assms unfolding check_video_upload_quota_def
  by (auto simp: denied_check_def Let_def within_limit_def get_active_subscription_def video_limit_def
      account_limit_def period_start_def
      split: sum.splits prod.splits option.splits if_splits)

lemma storage_check_limit:
  assumes "check_video_storage_quota s t ow n fresh now d = (Inr qc, d')" and "qc_allowed qc"
  obtains a where "get_or_create_account_for_team s t (Some ow) fresh now d = (Inr a, d')"
    "within_limit (byte_limit d' (ba_id a)) (storage_bytes_reserved (ba_id a) d' + n)"
  using assms unfolding check_video_storage_quota_def
  by (auto simp: denied_check_def Let_def within_limit_def get_active_subscription_def byte_limit_def
      account_limit_def
      split: sum.splits prod.splits option.splits if_splits)

lemma video_limit_cong:
  assumes "plans d' = plans d" and "subscriptions d' = subscriptions d"
  shows "video_limit d' a = video_limit d a" "byte_limit d' a = byte_limit d a"
    "period_start d' a = period_start d a"
  using assms by (simp_all add: limit_defs cong: option.case_cong)

lemma resolve_linked:
  assumes "scalar (\<lambda>l. l_team_id l = t) (links d) = Some l"
    and "get_active_subscription d (l_billing_account_id l) \<noteq> None"
    and "latest_subscription d (l_billing_account_id l) \<noteq> None"
  shows "\<exists>ctx. resolve_team_plan d t = Some ctx \<and> tp_account_id ctx = l_billing_account_id l"
  using assms by (auto simp: resolve_team_plan_def get_active_subscription_def Let_def split: option.splits if_splits)

lemma used_after_recording:
  assumes "resolve_team_plan d t = Some ctx" and "tp_account_id ctx = acct"
  shows "videos_used_this_period acct start (record_upload_usage t v n t1 t2 d) \<le>
    videos_used_this_period acct start d + 1"
  using assms
  by (simp add: record_upload_usage_def videos_used_this_period_def ledger_sum_record UPLOAD_INITIATED_def max_def)

lemma reserved_bytes_cong:
  "links d' = links d \<Longrightarrow> videos d' = videos d \<Longrightarrow> storage_bytes_reserved a d' = storage_bytes_reserved a d"
  by (simp add: storage_bytes_reserved_def)

lemma video_bytes_reserved_video:
  "0 \<le> cu_file_size_bytes p \<Longrightarrow>
   video_bytes (reserved_video s u p game c pre vid clk) = cu_file_size_bytes p"
  by (simp add: video_bytes_def reserved_video_def new_video_def)

text \<open>The two checks of one request see the same account, the one the team is linked to.\<close>

lemma check_upload_quotas_limits:
  assumes inv: "billing_inv d"
    and q: "check_upload_quotas s rq u p game fresh clk d = (Inr checks, d2)"
  obtains l where "scalar (\<lambda>l. l_team_id l = g_team_id game) (links d2) = Some l"
    "distinct (map l_team_id (links d2))"
    "get_active_subscription d2 (l_billing_account_id l) \<noteq> None"
    "latest_subscription d2 (l_billing_account_id l) \<noteq> None"
    "within_limit (video_limit d2 (l_billing_account_id l))
       (videos_used_this_period (l_billing_account_id l) (period_start d2 (l_billing_account_id l)) d2 + 1)"
    "within_limit (byte_limit d2 (l_billing_account_id l))
       (storage_bytes_reserved (l_billing_account_id l) d2 + cu_file_size_bytes p)"
proof -
  obtain q1 q2 where checks: "checks = (q1, q2)" by force
  from q[unfolded checks] obtain d1 where
    c1: "check_video_upload_quota s (g_team_id game) (u_id u) fresh (clk 1) d = (Inr q1, d1)" "qc_allowed q1"
    and c2: "check_video_storage_quota s (g_team_id game) (u_id u) (cu_file_size_bytes p) fresh (clk 2) d1
      = (Inr q2, d2)" "qc_allowed q2"
    by (rule check_upload_quotas_Inr)
  from c1 obtain a where a: "get_or_create_account_for_team s (g_team_id game) (Some (u_id u)) fresh (clk 1) d = (Inr a, d1)"
    "within_limit (video_limit d1 (ba_id a)) (videos_used_this_period (ba_id a) (period_start d1 (ba_id a)) d1 + 1)"
    "get_active_subscription d1 (ba_id a) \<noteq> None" "latest_subscription d1 (ba_id a) \<noteq> None"
    by (rule upload_check_limit)
  from c2 obtain b where b: "get_or_create_account_for_team s (g_team_id game) (Some (u_id u)) fresh (clk 2) d1 = (Inr b, d2)"
    "within_limit (byte_limit d2 (ba_id b)) (storage_bytes_reserved (ba_id b) d2 + cu_file_size_bytes p)"
    by (rule storage_check_limit)
  from get_or_create_again[OF a(1) inv] b(1) have "b = a" "d2 = d1" by simp_all
  moreover from get_or_create_link[OF a(1) inv] obtain l where
    "scalar (\<lambda>l. l_team_id l = g_team_id game) (links d1) = Some l" "l_billing_account_id l = ba_id a"
    by blast
  moreover have "distinct (map l_team_id (links d1))"
    using get_or_create_inv[OF a(1) inv] by (simp add: billing_inv_def)
  ultimately show thesis using a(2-4) b(2) that[of l] by simp
qed

lemma quotas_hold:
  assumes inv: "billing_inv d"
    and q: "check_upload_quotas s rq u p game fresh clk d = (Inr checks, d2)"
    and n: "0 \<le> cu_file_size_bytes p"
    and v: "v_file_size_bytes v = Some (cu_file_size_bytes p)"
    and d': "d' = record_upload_usage (g_team_id game) vid m t1 t2
      (write_audit rq ac u rt ri tm x (d2\<lparr>videos := videos d2 @ [v]\<rparr>))"
  shows "\<exists>l \<in> set (links d'). l_team_id l = g_team_id game \<and>
    within_limit (video_limit d' (l_billing_account_id l))
      (videos_used_this_period (l_billing_account_id l) (period_start d' (l_billing_account_id l)) d') \<and>
    within_limit (byte_limit d' (l_billing_account_id l)) (storage_bytes_reserved (l_billing_account_id l) d')"
proof -
  from inv q obtain l where l: "scalar (\<lambda>l. l_team_id l = g_team_id game) (links d2) = Some l"
    and dist: "distinct (map l_team_id (links d2))"
    and act: "get_active_subscription d2 (l_billing_account_id l) \<noteq> None"
      "latest_subscription d2 (l_billing_account_id l) \<noteq> None"
    and w1: "within_limit (video_limit d2 (l_billing_account_id l))
       (videos_used_this_period (l_billing_account_id l) (period_start d2 (l_billing_account_id l)) d2 + 1)"
    and w2: "within_limit (byte_limit d2 (l_billing_account_id l))
       (storage_bytes_reserved (l_billing_account_id l) d2 + cu_file_size_bytes p)"
    by (rule check_upload_quotas_limits)
  let ?a = "l_billing_account_id l"
  let ?e = "write_audit rq ac u rt ri tm x (d2\<lparr>videos := videos d2 @ [v]\<rparr>)"
  have lk: "links d' = links d2" "plans d' = plans d2" "subscriptions d' = subscriptions d2"
    "videos d' = videos d2 @ [v]"
    by (simp_all add: d')
  have "resolve_team_plan ?e (g_team_id game) = resolve_team_plan d2 (g_team_id game)"
    by (rule resolve_team_plan_reads) simp_all
  then obtain ctx where ctx: "resolve_team_plan ?e (g_team_id game) = Some ctx" "tp_account_id ctx = ?a"
    using resolve_linked[OF l act] by auto
  have "videos_used_this_period ?a st ?e = videos_used_this_period ?a st d2" for st
    by (simp add: videos_used_this_period_def ledger_sum_def)
  with used_after_recording[OF ctx, of "period_start d2 ?a" vid m t1 t2] w1
  have 1: "within_limit (video_limit d' ?a) (videos_used_this_period ?a (period_start d' ?a) d')"
    unfolding video_limit_cong[OF lk(2,3)] by (auto simp: d' within_limit_def split: option.splits)
  have "storage_bytes_reserved ?a d' = storage_bytes_reserved ?a (d2\<lparr>videos := videos d2 @ [v]\<rparr>)"
    using lk by (intro reserved_bytes_cong) simp_all
  moreover have "video_bytes v = cu_file_size_bytes p" using v n by (simp add: video_bytes_def)
  ultimately have "storage_bytes_reserved ?a d' \<le> storage_bytes_reserved ?a d2 + cu_file_size_bytes p"
    using storage_bytes_add_video[OF dist, of ?a v] by simp
  with w2 have 2: "within_limit (byte_limit d' ?a) (storage_bytes_reserved ?a d')"
    unfolding video_limit_cong[OF lk(2,3)] by (auto simp: within_limit_def split: option.splits)
  have "l \<in> set (links d')" "l_team_id l = g_team_id game" using scalar_Some[OF l] lk by simp_all
  with 1 2 show ?thesis by blast
qed

section \<open>What a completion has verified\<close>

lemma verify_Inr:
  assumes "verify_uploaded_object rq u v ps expected d = (Inr x, d', ops)"
  obtains key meta where "d' = d" "ops = []" "v_storage_key_raw v = Some key" "key \<noteq> []"
    "ps_head_object ps key = Inr (Some meta)"
    "\<not> size_differs (uploaded_object_size meta) (v_file_size_bytes v)"
    "\<not> checksum_differs expected (object_checksum_sha256 meta)"
  using assms unfolding verify_uploaded_object_def
  by (cases "v_storage_key_raw v") (auto simp: Let_def split: sum.splits option.splits if_splits)

lemma verify_Inl:
  "verify_uploaded_object rq u v ps expected d = (Inl e, d', ops) \<Longrightarrow> same_but_audit d d'"
  by (auto simp: verify_uploaded_object_def record_upload_failure_def Let_def
      split: sum.splits option.splits if_splits)

lemma finish_multipart_Inr:
  assumes "finish_multipart v p storage = (Inr ps, ops)"
  shows "storage = Some ps \<and>
    (case v_upload_id v of
       None \<Rightarrow> ops = []
     | Some uid \<Rightarrow> \<exists>parts key. cp_parts p = Some parts \<and> parts \<noteq> [] \<and> distinct (map fst parts) \<and>
         ps_complete_multipart ps key uid parts = Inr () \<and> ops = [OpComplete key uid parts] \<and>
         (v_storage_key_raw v = None \<or> v_storage_key_raw v = Some key))"
  using assms unfolding finish_multipart_def
  by (auto simp: require_storage_def Let_def split: option.splits sum.splits if_splits)

definition completed_video :: "settings \<Rightarrow> db \<Rightarrow> video_row \<Rightarrow> string option \<Rightarrow> time \<Rightarrow> video_row" where
  "completed_video s d v expected now =
     v\<lparr>v_status := VS_QUEUED, v_checksum_sha256 := expected, v_upload_id := None,
       v_upload_expires_at := None,
       v_raw_retention_expires_at := (case v_raw_retention_expires_at v of
           Some t \<Rightarrow> Some t
         | None \<Rightarrow> Some (raw_retention_expires_at s (case resolve_team_plan d (v_team_id v) of
               None \<Rightarrow> None | Some ctx \<Rightarrow> tp_raw_video_retention_days ctx) now))\<rparr>"

lemma completed_video_simps [simp]:
  "v_id (completed_video s d v expected now) = v_id v" "v_status (completed_video s d v expected now) = VS_QUEUED"
  "v_team_id (completed_video s d v expected now) = v_team_id v"
  by (simp_all add: completed_video_def)

lemma queue_upload_Inr:
  assumes "queue_upload s rq u v expected job_id clk d = (Inr r, d')"
  defines "j \<equiv> new_job job_id (v_id v) (v_team_id v) ST_TRANSCODE (clk 1)"
  shows "job_id \<notin> j_id ` set (jobs d) \<and> (v_id v, ST_TRANSCODE) \<notin> video_stage ` set (jobs d) \<and>
    jobs d' = jobs d @ [j] \<and> videos d' = put_row v_id (completed_video s d v expected (clk 0)) (videos d) \<and>
    memberships d' = memberships d \<and> r = complete_response (completed_video s d v expected (clk 0)) j"
  using assms
  by (auto simp: queue_upload_def completed_video_def Let_def put_video_def new_job_def video_stage_def
      split: if_splits)

lemma queue_upload_Inl: "queue_upload s rq u v expected job_id clk d = (Inl e, d') \<Longrightarrow> d' = d"
  by (auto simp: queue_upload_def Let_def split: if_splits)

lemma complete_upload_Inr:
  assumes "complete_upload s rq u storage video_id p job_id clk d = (Inr r, d', ops)"
  obtains (old) v a j where "require_verified_account s u = Inr ()" "load_video d video_id = Some v"
      "require_team_coach d u (v_team_id v) = Inr a" "v_status v \<in> {VS_QUEUED, VS_PROCESSING, VS_PROCESSED}"
      "transcode_job_of d (v_id v) = Some j" "r = complete_response v j" "d' = d"
  | (new) v a ps where "require_verified_account s u = Inr ()" "load_video d video_id = Some v"
      "require_team_coach d u (v_team_id v) = Inr a" "v_status v = VS_PENDING_UPLOAD"
      "finish_multipart v p storage = (Inr ps, ops)"
      "verify_uploaded_object rq u v ps (str_or (cp_checksum_sha256 p) (v_checksum_sha256 v)) d = (Inr (), d, [])"
      "queue_upload s rq u v (str_or (cp_checksum_sha256 p) (v_checksum_sha256 v)) job_id clk d = (Inr r, d')"
proof -
  from assms obtain v a where 1: "require_verified_account s u = Inr ()" "load_video d video_id = Some v"
      "require_team_coach d u (v_team_id v) = Inr a"
    unfolding complete_upload_def by (auto split: sum.splits option.splits)
  show thesis
  proof (cases "v_status v \<in> {VS_QUEUED, VS_PROCESSING, VS_PROCESSED}")
    case True
    with assms 1 obtain j where "transcode_job_of d (v_id v) = Some j" "r = complete_response v j" "d' = d"
      by (auto simp: complete_upload_def split: option.splits)
    with 1 True show thesis by (intro old[of v a j])
  next
    case False
    let ?c = "str_or (cp_checksum_sha256 p) (v_checksum_sha256 v)"
    from assms 1 False obtain ps ops1 d1 ops2 where
      st: "v_status v = VS_PENDING_UPLOAD" and f: "finish_multipart v p storage = (Inr ps, ops1)"
      and ver: "verify_uploaded_object rq u v ps ?c d = (Inr (), d1, ops2)"
      and q: "queue_upload s rq u v ?c job_id clk d1 = (Inr r, d')" and ops: "ops = ops1 @ ops2"
      unfolding complete_upload_def Let_def
      by (auto split: sum.splits prod.splits if_splits)
    from verify_Inr[OF ver] have "d1 = d" "ops2 = []" by auto
    with 1 st f ver q ops show thesis by (intro new[of v a ps]) simp_all
  qed
qed

section \<open>Storage cleanup\<close>

lemma delete_objects_none_failed:
  "delete_objects ps attempted objs = (deleted, [], ops) \<Longrightarrow> (label, Some k) \<in> set objs \<Longrightarrow> k \<noteq> [] \<Longrightarrow>
     k \<in> set attempted \<or> OpDelete k \<in> set ops"
proof (induction objs arbitrary: attempted deleted ops)
  case (Cons o1 objs)
  obtain l key where o1: "o1 = (l, key)" by force
  show ?case
  proof (cases "key = None \<or> key = Some [] \<or> (\<exists>k1 \<in> set attempted. key = Some k1)")
    case True
    then have "delete_objects ps attempted objs = (deleted, [], ops)"
      using Cons.prems(1) o1 by (auto split: option.splits)
    from Cons.IH[OF this _ Cons.prems(3)] Cons.prems(2,3) True o1 show ?thesis by auto
  next
    case False
    then obtain k1 where k1: "key = Some k1" "k1 \<noteq> []" "k1 \<notin> set attempted" by auto
    obtain dl fl os where r: "delete_objects ps (k1 # attempted) objs = (dl, fl, os)" by (metis prod_cases3)
    with Cons.prems(1) o1 k1 have "fl = []" "ops = OpDelete k1 # os" by (auto split: sum.splits)
    with Cons.IH[OF r[unfolded \<open>fl = []\<close>] _ Cons.prems(3)] Cons.prems(2) o1 k1 show ?thesis by auto
  qed
qed simp

text \<open>Every handle the row has on the store.\<close>

definition storage_keys :: "video_row \<Rightarrow> string set" where
  "storage_keys v = {k. k \<noteq> [] \<and> Some k \<in> {v_storage_key_raw v, v_storage_key_mezzanine v, v_storage_key_hls v,
     v_demo_preview_storage_key v}}"

lemma delete_video_storage_clean:
  assumes "delete_video_storage ps v = (c, ops)" and "sc_failures c = []"
  shows "(\<forall>k \<in> storage_keys v. OpDelete k \<in> set ops) \<and>
    (\<forall>uid key. v_upload_id v = Some uid \<and> v_storage_key_raw v = Some key \<and> key \<noteq> [] \<longrightarrow> OpAbort key uid \<in> set ops)"
proof -
  obtain dl fl os where o: "delete_objects ps [] (storage_objects v) = (dl, fl, os)" by (metis prod_cases3)
  with assms have "fl = []" and os: "set os \<subseteq> set ops"
    by (auto simp: delete_video_storage_def Let_def split: prod.splits)
  have "OpDelete k \<in> set os" if "k \<in> storage_keys v" for k
    using delete_objects_none_failed[OF o[unfolded \<open>fl = []\<close>]] that
    by (fastforce simp: storage_keys_def storage_objects_def)
  moreover have "OpAbort key uid \<in> set ops" if "v_upload_id v = Some uid" "v_storage_key_raw v = Some key" "key \<noteq> []"
    for uid key
    using assms that o by (auto simp: delete_video_storage_def Let_def split: sum.splits)
  ultimately show ?thesis using os by blast
qed

lemma load_video_put:
  "load_video d i = Some v0 \<Longrightarrow> v_id v = i \<Longrightarrow> load_video (put_video v d) i = Some v"
  by (simp add: load_video_def put_video_def by_key_put_row)

lemma load_video_key: "load_video d i = Some v \<Longrightarrow> v_id v = i"
  unfolding load_video_def by (auto dest: by_key_Some)

lemma load_video_audit [simp]: "load_video (write_audit rq ac u rt ri t x d) i = load_video d i"
  by (simp add: load_video_def)

lemma load_video_release [simp]:
  "load_video (release_video_upload_quota_reservation t v r now d) i = load_video d i"
  by (auto simp: load_video_def release_video_upload_quota_reservation_def split: option.splits)

lemma finish_delete_tables:
  "videos (finish_delete rq u v c now d) = filter (\<lambda>x. v_id x \<noteq> v_id v) (videos d)"
  "jobs (finish_delete rq u v c now d) = filter (\<lambda>j. j_video_id j \<noteq> v_id v) (jobs d)"
  by (auto simp: finish_delete_def delete_video_row_def release_video_upload_quota_reservation_def Let_def
      split: option.splits)

lemma delete_failed_Inr:
  assumes "delete_failed_video s rq u storage video_id clk d = (Inr y, d', ops)"
    and "load_video d video_id = Some v"
  shows "v_status v \<in> {VS_FAILED, VS_PENDING_UPLOAD} \<and>
    (\<exists>c. d' = finish_delete rq u v c (clk 1) d \<and>
      (\<not> video_has_storage_cleanup_work v \<or>
       (\<exists>ps. delete_video_storage ps v = (c, ops) \<and> sc_failures c = [])))"
  using assms unfolding delete_failed_video_def
  by (auto split: sum.splits option.splits prod.splits if_splits)

lemma delete_failed_Inl:
  assumes "delete_failed_video s rq u storage video_id clk d = (Inl e, d', ops)"
    and "load_video d video_id = Some v"
  shows "d' = d \<or> (\<exists>w fs. d' = mark_video_cleanup_failed rq u v w fs (clk 0) d)"
  using assms unfolding delete_failed_video_def
  by (auto split: sum.splits option.splits prod.splits if_splits)

lemma mark_failed_keeps:
  assumes "load_video d video_id = Some v"
  shows "\<exists>v'. load_video (mark_video_cleanup_failed rq u v w fs now d) video_id = Some v' \<and>
      storage_keys v' = storage_keys v \<and> v_upload_id v' = v_upload_id v \<and> v_status v' = v_status v"
    and "jobs (mark_video_cleanup_failed rq u v w fs now d) = jobs d"
  using load_video_put[OF assms] load_video_key[OF assms]
  by (simp_all add: mark_video_cleanup_failed_def Let_def storage_keys_def put_video_def)

lemma no_cleanup_work:
  "\<not> video_has_storage_cleanup_work v \<Longrightarrow>
     storage_keys v = {} \<and> (v_storage_key_raw v = None \<or> v_storage_key_raw v = Some [])"
  by (auto simp: video_has_storage_cleanup_work_def storage_keys_def truthy_def split: option.splits)

section \<open>The job table\<close>

lemma jobs_put_video [simp]: "jobs (put_video v d) = jobs d" "memberships (put_video v d) = memberships d"
  by (simp_all add: put_video_def)

lemma recovery_target_Inr:
  assumes "recovery_target s u video_id stage_name vs js d = Inr (v, j)"
  shows "require_verified_account s u = Inr () \<and> stage_name = ''transcode'' \<and> load_video d video_id = Some v \<and>
    (\<exists>a. require_team_coach d u (v_team_id v) = Inr a) \<and> v_status v \<in> set vs \<and>
    transcode_job_of d (v_id v) = Some j \<and> j_status j = js"
proof -
  have "stage_of_value stage_name = Some ST_TRANSCODE \<Longrightarrow> stage_name = ''transcode''"
    by (auto simp: stage_of_value_def split: if_splits)
  with assms show ?thesis
    unfolding recovery_target_def by (auto split: sum.splits option.splits if_splits)
qed

lemma recovery_target_transcode:
  assumes "require_verified_account s u = Inr ()" and "load_video d video_id = Some v"
    and "require_team_coach d u (v_team_id v) = Inr a" and "v_status v \<in> set vs"
    and "transcode_job_of d (v_id v) = Some j" and "j_status j = js"
  shows "recovery_target s u video_id ''transcode'' vs js d = Inr (v, j)"
proof -
  have "stage_of_value ''transcode'' = Some ST_TRANSCODE" by (simp add: stage_of_value_def)
  with assms show ?thesis by (simp add: recovery_target_def)
qed

lemma transcode_job_mem: "transcode_job_of d i = Some j \<Longrightarrow> j \<in> set (jobs d) \<and> video_stage j = (i, ST_TRANSCODE)"
  unfolding transcode_job_of_def by (auto dest!: scalar_Some simp: video_stage_def)

lemma transcode_job_of_put:
  assumes "jobs_inv t" and "transcode_job_of (d\<lparr>jobs := t\<rparr>) i = Some j" and "job_edge j j'"
  shows "transcode_job_of (d\<lparr>jobs := put_row j_id j' t\<rparr>) i = Some j'"
proof -
  have j: "j \<in> set t" "video_stage j = (i, ST_TRANSCODE)" using transcode_job_mem[OF assms(2)] by simp_all
  have b: "by_key j_id (j_id j) t = Some j" using by_key_mem[OF jobs_inv_keys[OF assms(1)] j(1)] .
  have inv: "jobs_inv (put_row j_id j' t)"
    by (rule job_step_inv[OF job_step.edge[OF b assms(3)] assms(1)])
  have "by_key j_id (j_id j') (put_row j_id j' t) = Some j'"
    using b job_edge_key[OF assms(3)] by (simp add: by_key_put_row)
  then have "j' \<in> set (put_row j_id j' t)" by (auto dest: by_key_Some)
  moreover have "video_stage j' = (i, ST_TRANSCODE)" using j(2) job_edge_stage[OF assms(3)] by simp
  ultimately show ?thesis using inv unfolding jobs_inv_def transcode_job_of_def
    by (auto simp: video_stage_def intro!: scalar_by_unique_key[of video_stage])
qed

lemma verify_Inr_db: "verify_uploaded_object rq u v ps expected d = (Inr x, d', ops) \<Longrightarrow> d' = d"
  by (erule verify_Inr)

lemma complete_upload_Inl:
  assumes "complete_upload s rq u storage video_id p job_id clk d = (Inl e, d', ops)"
  shows "same_but_audit d d'"
  using assms unfolding complete_upload_def Let_def record_upload_failure_def
  by (auto dest!: queue_upload_Inl verify_Inr_db dest: verify_Inl
      split: sum.splits option.splits prod.splits if_splits)

lemma complete_upload_safe: "safe d (fst (snd (complete_upload s rq u storage video_id p job_id clk d)))"
proof -
  obtain x d' ops where c: "complete_upload s rq u storage video_id p job_id clk d = (x, d', ops)"
    by (metis prod_cases3)
  show ?thesis
  proof (cases x)
    case (Inl e)
    then have "jobs d' = jobs d"
      using complete_upload_Inl[of s rq u storage video_id p job_id clk d e d' ops] c
      unfolding same_but_audit_def by (metis db.select_convs(8) db.surjective db.update_convs(15))
    with c show ?thesis by (auto intro: safe_jobs_eq[OF safe_refl])
  next
    case (Inr r)
    from c[unfolded Inr] show ?thesis
    proof (cases rule: complete_upload_Inr)
      case (new v a ps)
      from queue_upload_Inr[OF new(7)] have "job_step (jobs d) (jobs d')"
        using job_step.queued[of job_id "jobs d" "v_id v" ST_TRANSCODE] by simp
      then show ?thesis using c by (auto intro: safeI)
    qed (use c in simp)
  qed
qed

lemma recovery_safe:
  "safe d (snd (cancel_processing s rq u video_id stage now d))"
  "safe d (snd (requeue_processing s rq u storage video_id stage now d))"
  by (auto simp: cancel_processing_def requeue_processing_def Let_def
      intro: safe_jobs_eq[OF safe_ops(6)[OF safe_refl]] safe_jobs_eq[OF safe_ops(7)[OF safe_refl]]
      split: sum.splits)

section \<open>Cancelling and requeueing\<close>

lemma cancel_upload_Inr:
  assumes "cancel_upload s rq u storage video_id now d = (Inr y, d', ops)"
    and "load_video d video_id = Some v" and "v_status v = VS_PENDING_UPLOAD"
  obtains a x where "require_verified_account s u = Inr ()" "require_team_coach d u (v_team_id v) = Inr a"
    "d' = write_audit rq A_VIDEO_UPLOAD_ABANDONED u ''video'' (Some (v_id v)) (Some (v_team_id v)) x
      (release_video_upload_quota_reservation (v_team_id v) (v_id v) ''user_cancelled'' now
        (put_video (v\<lparr>v_status := VS_FAILED, v_upload_id := None, v_upload_expires_at := None\<rparr>) d))"
    "\<And>key. v_storage_key_raw v = Some key \<Longrightarrow> key \<noteq> [] \<Longrightarrow>
       ops = (case v_upload_id v of Some uid \<Rightarrow> [OpAbort key uid] | None \<Rightarrow> [OpDelete key])"
proof -
  from assms obtain a where a: "require_verified_account s u = Inr ()" "require_team_coach d u (v_team_id v) = Inr a"
    unfolding cancel_upload_def by (auto split: sum.splits)
  from assms a obtain ps where "storage = Some ps"
    unfolding cancel_upload_def by (auto simp: require_storage_def split: option.splits)
  with assms a show thesis
    by (intro that[OF a, of "[(''reason'', JStr ''user_cancelled''), (''storage_key'', jopt JStr (v_storage_key_raw v)),
        (''multipart'', JBool (v_upload_id v \<noteq> None))]"])
      (auto simp: cancel_upload_def require_storage_def Let_def delete_raw_object_best_effort_def
        split: sum.splits option.splits if_splits)
qed

lemma transcode_edge:
  assumes "jobs_inv (jobs d)" and "transcode_job_of d i = Some j" and "job_edge j j'"
    and "jobs d' = put_row j_id j' (jobs d)"
  shows "transcode_job_of d' i = Some j'" and "jobs_inv (jobs d')"
    and "by_key j_id (j_id j) (jobs d') = Some j'"
proof -
  have b: "by_key j_id (j_id j) (jobs d) = Some j"
    using by_key_mem[OF jobs_inv_keys[OF assms(1)]] transcode_job_mem[OF assms(2)] by blast
  show "jobs_inv (jobs d')" unfolding assms(4) by (rule job_step_inv[OF job_step.edge[OF b assms(3)] assms(1)])
  show "by_key j_id (j_id j) (jobs d') = Some j'"
    using b job_edge_key[OF assms(3)] by (simp add: assms(4) by_key_put_row)
  show "transcode_job_of d' i = Some j'"
    using transcode_job_of_put[OF assms(1) _ assms(3), of d i] assms(2,4) by (simp add: transcode_job_of_def)
qed

lemma cancel_processing_Inr:
  assumes "cancel_processing s rq u video_id stage now d = (Inr r, d1)" and "jobs_inv (jobs d)"
  obtains v j where "recovery_target s u video_id stage [VS_PROCESSING, VS_QUEUED] JS_RUNNING d = Inr (v, j)"
    "jobs d1 = put_row j_id (cancel_values (cancel_metadata j u now) now j) (jobs d)"
    "videos d1 = put_row v_id (v\<lparr>v_status := VS_FAILED\<rparr>) (videos d)" "memberships d1 = memberships d"
    "pr_job_id r = j_id j"
proof -
  from assms(1) obtain v j where t: "recovery_target s u video_id stage [VS_PROCESSING, VS_QUEUED] JS_RUNNING d = Inr (v, j)"
    by (auto simp: cancel_processing_def split: sum.splits)
  have j: "j_status j = JS_RUNNING" "j \<in> set (jobs d)"
    using recovery_target_Inr[OF t] transcode_job_mem by blast+
  with by_key_mem[OF jobs_inv_keys[OF assms(2)]] have "by_key j_id (j_id j) (jobs d) = Some j" by blast
  with j cancel.as_put[OF jobs_inv_keys[OF assms(2)], of "cancel_metadata j u now" now "j_id j"] t assms(1)
  show thesis by (intro that[of v j]) (auto simp: cancel_processing_def Let_def put_video_def)
qed

lemma raw_requeueable_status [simp]:
  "assert_raw_object_requeueable (v\<lparr>v_status := st\<rparr>) ps = assert_raw_object_requeueable v ps"
  unfolding assert_raw_object_requeueable_def
  by (cases "ps_head_object ps (the (v_storage_key_raw v))") (auto simp: Let_def split: option.splits)

lemma requeue_succeeds:
  assumes "recovery_target s u video_id stage [VS_FAILED] JS_FAILED d = Inr (v, j)" and "jobs_inv (jobs d)"
    and "assert_raw_object_requeueable v ps = Inr ()"
  shows "\<exists>r2 d2. requeue_processing s rq u (Some ps) video_id stage now d = (Inr r2, d2) \<and>
    jobs d2 = put_row j_id (requeue_values j) (jobs d) \<and>
    videos d2 = put_row v_id (v\<lparr>v_status := VS_QUEUED\<rparr>) (videos d)"
proof -
  have j: "j_status j = JS_FAILED" "j \<in> set (jobs d)"
    using recovery_target_Inr[OF assms(1)] transcode_job_mem by blast+
  with by_key_mem[OF jobs_inv_keys[OF assms(2)]] have "by_key j_id (j_id j) (jobs d) = Some j" by blast
  with j requeue.as_put[OF jobs_inv_keys[OF assms(2)], of "j_id j"] assms show ?thesis
    by (simp add: requeue_processing_def require_storage_def Let_def put_video_def)
qed

section \<open>Properties of uploads\<close>

text \<open>
  C15: An upload is only initiated when the request is valid, by an administrator or a coach of the
  game's team, for a live team, and for a youth or school team only under a consent of that team that
  is current, covers the upload and its processing and authorises minors. It adds exactly one video,
  awaiting its upload under an object key of its own, tied to that consent.
\<close>
theorem upload_authorized:
  assumes "initiate_upload s rq u rl storage p video_id fresh clk d = (Inr r, d')"
  shows "\<exists>game team v. by_key g_id (cu_game_id p) (games d) = Some game \<and>
    by_key t_id (g_team_id game) (teams d) = Some team \<and> t_is_active team \<and> t_deleted_at team = None \<and>
    filename_is_safe (cu_filename p) \<and> cu_file_size_bytes p \<in> {min_upload_size_bytes s .. max_upload_size_bytes s} \<and>
    (u_role u = UR_ADMIN \<or> (\<exists>m \<in> set (memberships d). m_user_id m = u_id u \<and> m_team_id m = g_team_id game \<and>
       m_is_active m \<and> m_team_role m \<in> {TR_HEAD_COACH, TR_ASSISTANT_COACH})) \<and>
    (team_requires_privacy_consent team s \<longrightarrow> (\<exists>c \<in> set (consents d). c_team_id c = t_id team \<and>
       consent_is_current c (clk 0) \<and> c_covers_video_uploads c \<and> c_covers_cv_processing c \<and>
       c_athlete_pii_authorized c \<and> c_minors_authorized c \<and> v_privacy_consent_id v = Some (c_id c))) \<and>
    videos d' = videos d @ [v] \<and> v_id v = video_id \<and> v_team_id v = g_team_id game \<and>
    v_status v = VS_PENDING_UPLOAD \<and> v_file_size_bytes v = Some (cu_file_size_bytes p) \<and>
    v_storage_key_raw v = Some (storage_key_for_video (uuid_str (g_team_id game)) (uuid_str video_id) (cu_filename p))"
proof -
  from assms obtain game consent checks d2 ps where
    acc: "check_upload_access s u rl p (clk 0) d = Inr (game, consent)"
    and quo: "check_upload_quotas s rq u p game fresh clk d = (Inr checks, d2)"
    and res: "reserve_upload s rq u ps p game consent checks video_id clk d d2 = (Inr r, d')"
    by (rule initiate_upload_Inr)
  from acc obtain team a where ok: "validate_upload p s = Inr ()"
    "by_key g_id (cu_game_id p) (games d) = Some game"
    and gate: "require_team_coach d u (g_team_id game) = Inr a"
    and team: "get_team_or_404 d (g_team_id game) = Inr team"
    and con: "resolve_upload_privacy_consent d team (cu_privacy_consent_id p) s (clk 0) = Inr consent"
    by (rule check_upload_access_Inr)
  from res obtain pre x where d': "d' = record_upload_usage (g_team_id game) video_id (cu_file_size_bytes p) (clk 4) (clk 5)
       (write_audit rq A_VIDEO_UPLOAD_INITIATED u ''video'' (Some video_id) (Some (g_team_id game)) x
         (d2\<lparr>videos := videos d2 @ [reserved_video s u p game consent pre video_id clk]\<rparr>))"
    by (rule reserve_upload_Inr)
  let ?v = "reserved_video s u p game consent pre video_id clk"
  have v: "v_privacy_consent_id ?v = map_option c_id consent" "v_id ?v = video_id"
    "v_team_id ?v = g_team_id game" "v_status ?v = VS_PENDING_UPLOAD"
    "v_file_size_bytes ?v = Some (cu_file_size_bytes p)"
    "v_storage_key_raw ?v = Some (storage_key_for_video (uuid_str (g_team_id game)) (uuid_str video_id) (cu_filename p))"
    by (simp_all add: reserved_video_def new_video_def)
  have "videos d' = videos d @ [?v]"
    using check_upload_quotas_provisioned[OF quo] by (simp add: d' provisioned_def)
  moreover have "u_role u = UR_ADMIN \<or> (\<exists>m \<in> set (memberships d). m_user_id m = u_id u \<and>
      m_team_id m = g_team_id game \<and> m_is_active m \<and> m_team_role m \<in> {TR_HEAD_COACH, TR_ASSISTANT_COACH})"
    using coach_gate.passes[OF gate] by (simp add: COACH_TEAM_ROLES_def)
  moreover have "team_requires_privacy_consent team s \<longrightarrow> (\<exists>c \<in> set (consents d). c_team_id c = t_id team \<and>
       consent_is_current c (clk 0) \<and> c_covers_video_uploads c \<and> c_covers_cv_processing c \<and>
       c_athlete_pii_authorized c \<and> c_minors_authorized c \<and> v_privacy_consent_id ?v = Some (c_id c))"
    using resolve_consent_Inr[OF con] v(1) by (auto split: option.splits)
  ultimately show ?thesis
    using validate_upload_Inr[OF ok(1)] get_team_or_404_Inr[OF team] ok(2) v
    by (intro exI[of _ game] exI[of _ team] exI[of _ ?v]) simp
qed

text \<open>
  C16: Both quotas of the team's billing account hold after every accepted upload: the videos initiated in
  the current subscription period and the bytes reserved by its videos are within the plan's limits.
\<close>
theorem upload_within_quotas:
  assumes "billing_inv d" and "initiate_upload s rq u rl storage p video_id fresh clk d = (Inr r, d')"
  shows "\<exists>l \<in> set (links d'). (\<exists>g. by_key g_id (cu_game_id p) (games d) = Some g \<and> l_team_id l = g_team_id g) \<and>
    within_limit (video_limit d' (l_billing_account_id l))
      (videos_used_this_period (l_billing_account_id l) (period_start d' (l_billing_account_id l)) d') \<and>
    within_limit (byte_limit d' (l_billing_account_id l)) (storage_bytes_reserved (l_billing_account_id l) d')"
proof -
  from assms(2) obtain game consent checks d2 ps where
    acc: "check_upload_access s u rl p (clk 0) d = Inr (game, consent)"
    and quo: "check_upload_quotas s rq u p game fresh clk d = (Inr checks, d2)"
    and res: "reserve_upload s rq u ps p game consent checks video_id clk d d2 = (Inr r, d')"
    by (rule initiate_upload_Inr)
  from acc have ok: "validate_upload p s = Inr ()" and g: "by_key g_id (cu_game_id p) (games d) = Some game"
    by (auto elim: check_upload_access_Inr)
  have n: "0 \<le> cu_file_size_bytes p" using validate_upload_Inr[OF ok] by simp
  from res obtain pre x where d': "d' = record_upload_usage (g_team_id game) video_id (cu_file_size_bytes p) (clk 4) (clk 5)
       (write_audit rq A_VIDEO_UPLOAD_INITIATED u ''video'' (Some video_id) (Some (g_team_id game)) x
         (d2\<lparr>videos := videos d2 @ [reserved_video s u p game consent pre video_id clk]\<rparr>))"
    by (rule reserve_upload_Inr)
  have "v_file_size_bytes (reserved_video s u p game consent pre video_id clk) = Some (cu_file_size_bytes p)"
    by (simp add: reserved_video_def new_video_def)
  from quotas_hold[OF assms(1) quo n this d'] g show ?thesis by blast
qed

text \<open>
  A refused initiation leaves no trace but the audit log and, at most, the billing account it
  provisioned for the team: no video, no ledger entry and no job.
\<close>
theorem upload_refused:
  assumes "initiate_upload s rq u rl storage p video_id fresh clk d = (Inl e, d')"
  shows "provisioned d d'"
proof (cases "check_upload_access s u rl p (clk 0) d")
  case (Inl x)
  with assms show ?thesis by (simp add: initiate_upload_def)
next
  case (Inr gc)
  obtain game consent where gc: "gc = (game, consent)" by force
  obtain y d2 where q: "check_upload_quotas s rq u p game fresh clk d = (y, d2)" by force
  have "provisioned d d'" if "reserve_upload s rq u ps p game consent checks video_id clk d d2 = (Inl e, d')"
    for ps checks
    using that by (auto simp: reserve_upload_def record_upload_failure_def Let_def split: sum.splits if_splits)
  with assms Inr gc q check_upload_quotas_provisioned[OF q] show ?thesis
    by (auto simp: initiate_upload_def split: sum.splits)
qed

text \<open>
  C17: Completing a pending upload succeeds only for an object that is in the store under the video's key
  and that agrees with the declared size and the expected digest wherever the store reports them; a
  multipart upload was completed with distinct parts. The video is then queued with exactly one new job,
  a pending transcode that no task owns.
\<close>
theorem completed_upload_verified:
  assumes "complete_upload s rq u storage video_id p job_id clk d = (Inr r, d', ops)"
    and "load_video d video_id = Some v" and "v_status v = VS_PENDING_UPLOAD"
  shows "\<exists>ps key meta. storage = Some ps \<and> v_storage_key_raw v = Some key \<and>
      ps_head_object ps key = Inr (Some meta) \<and>
      (\<forall>n m. uploaded_object_size meta = Some n \<and> v_file_size_bytes v = Some m \<longrightarrow> n = m) \<and>
      (\<forall>x y. object_checksum_sha256 meta = Some x \<and> str_or (cp_checksum_sha256 p) (v_checksum_sha256 v) = Some y
         \<longrightarrow> x = y) \<and>
      (\<forall>uid. v_upload_id v = Some uid \<longrightarrow> (\<exists>parts. cp_parts p = Some parts \<and> parts \<noteq> [] \<and>
         distinct (map fst parts) \<and> ops = [OpComplete key uid parts])) \<and>
      jobs d' = jobs d @ [new_job job_id video_id (v_team_id v) ST_TRANSCODE (clk 1)] \<and>
      (\<exists>v'. load_video d' video_id = Some v' \<and> v_status v' = VS_QUEUED \<and> v_upload_id v' = None)"
  using assms(1)
proof (cases rule: complete_upload_Inr)
  case (old v1 a j)
  with assms(2,3) show ?thesis by simp
next
  case (new v1 a ps)
  with assms(2) have [simp]: "v1 = v" by simp
  from new(6) obtain key meta where o: "v_storage_key_raw v = Some key" "ps_head_object ps key = Inr (Some meta)"
    "\<not> size_differs (uploaded_object_size meta) (v_file_size_bytes v)"
    "\<not> checksum_differs (str_or (cp_checksum_sha256 p) (v_checksum_sha256 v)) (object_checksum_sha256 meta)"
    by (auto elim: verify_Inr)
  note q = queue_upload_Inr[OF new(7)]
  have "load_video d' video_id = Some (completed_video s d v (str_or (cp_checksum_sha256 p) (v_checksum_sha256 v)) (clk 0))"
    using q load_video_key[OF assms(2)] assms(2) by (simp add: load_video_def by_key_put_row)
  then have v': "\<exists>v'. load_video d' video_id = Some v' \<and> v_status v' = VS_QUEUED \<and> v_upload_id v' = None"
    by (simp add: completed_video_def)
  have "v_id v = video_id" by (rule load_video_key[OF assms(2)])
  with o q v' finish_multipart_Inr[OF new(5)] show ?thesis
    by (intro exI[of _ ps] exI[of _ key] exI[of _ meta])
      (auto simp: size_differs_def checksum_differs_def split: option.splits)
qed

text \<open>
  Completing is idempotent: after a successful completion every further call for that video, with
  whatever body, store and time, answers the same job and changes neither the database nor the store.
\<close>
theorem completion_idempotent:
  assumes "complete_upload s rq u storage video_id p job_id clk d = (Inr r, d', ops)"
  shows "complete_upload s rq2 u storage2 video_id p2 job_id2 clk2 d' = (Inr r, d', [])"
  using assms
proof (cases rule: complete_upload_Inr)
  case (old v a j)
  then show ?thesis by (auto simp: complete_upload_def)
next
  case (new v a ps)
  let ?v = "completed_video s d v (str_or (cp_checksum_sha256 p) (v_checksum_sha256 v)) (clk 0)"
  note q = queue_upload_Inr[OF new(7)]
  have l: "load_video d' video_id = Some ?v"
    using q load_video_key[OF new(2)] new(2) by (simp add: load_video_def by_key_put_row)
  have "require_team_coach d' u (v_team_id v) = Inr a"
    using coach_gate.reads[of d' d] q new(3) by simp
  moreover have "scalar (\<lambda>j. j_video_id j = v_id v \<and> j_stage j = ST_TRANSCODE) (jobs d) = None"
    using q by (force simp: scalar_None video_stage_def)
  then have "transcode_job_of d' (v_id v) = Some (new_job job_id (v_id v) (v_team_id v) ST_TRANSCODE (clk 1))"
    using q by (simp add: transcode_job_of_def scalar_append new_job_def)
  ultimately show ?thesis using l new(1) q by (simp add: complete_upload_def)
qed

text \<open>
  Deleting a failed video. It succeeds only for a failed video or a pending upload, after every object
  the row names was deleted from the store and a running multipart upload aborted; then the row and its
  jobs are gone and every other video stays. When it fails, the row is still there with all its handles, so
  that the deletion can be tried again.
\<close>
theorem deletion_complete:
  assumes "delete_failed_video s rq u storage video_id clk d = (x, d', ops)"
    and "load_video d video_id = Some v"
  shows "case x of
      Inr _ \<Rightarrow> v_status v \<in> {VS_FAILED, VS_PENDING_UPLOAD} \<and>
        (\<forall>k \<in> storage_keys v. OpDelete k \<in> set ops) \<and>
        (\<forall>uid key. v_upload_id v = Some uid \<and> v_storage_key_raw v = Some key \<and> key \<noteq> [] \<longrightarrow>
           OpAbort key uid \<in> set ops) \<and>
        videos d' = filter (\<lambda>y. v_id y \<noteq> video_id) (videos d) \<and>
        jobs d' = filter (\<lambda>j. j_video_id j \<noteq> video_id) (jobs d)
    | Inl e \<Rightarrow> (\<exists>v'. load_video d' video_id = Some v' \<and> storage_keys v' = storage_keys v \<and>
        v_upload_id v' = v_upload_id v \<and> v_status v' = v_status v) \<and> jobs d' = jobs d"
proof (cases x)
  case (Inl e)
  with assms show ?thesis
    using delete_failed_Inl[of s rq u storage video_id clk d e d' ops v] mark_failed_keeps[OF assms(2)] by auto
next
  case (Inr y)
  have id: "v_id v = video_id" by (rule load_video_key[OF assms(2)])
  from delete_failed_Inr[OF assms(1)[unfolded Inr] assms(2)] obtain c where
    st: "v_status v \<in> {VS_FAILED, VS_PENDING_UPLOAD}" and d': "d' = finish_delete rq u v c (clk 1) d"
    and c: "\<not> video_has_storage_cleanup_work v \<or> (\<exists>ps. delete_video_storage ps v = (c, ops) \<and> sc_failures c = [])"
    by blast
  from c have "(\<forall>k \<in> storage_keys v. OpDelete k \<in> set ops) \<and>
      (\<forall>uid key. v_upload_id v = Some uid \<and> v_storage_key_raw v = Some key \<and> key \<noteq> [] \<longrightarrow> OpAbort key uid \<in> set ops)"
    using no_cleanup_work[of v] delete_video_storage_clean by fastforce
  with st d' finish_delete_tables id Inr show ?thesis by simp
qed

text \<open>
  Cancelling a pending upload gives back what it took: the video is failed and no longer expects an
  upload, a multipart upload is aborted at the store (a single object deleted), one unit of the video's
  reservation is returned to the ledger when one is open, and cancelling again changes nothing.
\<close>
theorem upload_cancelled:
  assumes "cancel_upload s rq u storage video_id now d = (Inr y, d', ops)"
    and "load_video d video_id = Some v" and "v_status v = VS_PENDING_UPLOAD"
    and "resolve_team_plan d (v_team_id v) = Some ctx"
  shows "(\<exists>v'. load_video d' video_id = Some v' \<and> v_status v' = VS_FAILED \<and> v_upload_id v' = None) \<and>
    (\<forall>key. v_storage_key_raw v = Some key \<and> key \<noteq> [] \<longrightarrow>
       ops = (case v_upload_id v of Some uid \<Rightarrow> [OpAbort key uid] | None \<Rightarrow> [OpDelete key])) \<and>
    (let net = ledger_sum (reserved_for (tp_account_id ctx) (v_team_id v) video_id)
     in net d' = (if net d \<le> 0 then net d else net d - 1)) \<and>
    cancel_upload s rq2 u storage2 video_id now2 d' = (Inr (), d', [])"
proof -
  let ?v = "v\<lparr>v_status := VS_FAILED, v_upload_id := None, v_upload_expires_at := None\<rparr>"
  have id: "v_id v = video_id" by (rule load_video_key[OF assms(2)])
  from assms(1-3) obtain a x where a: "require_verified_account s u = Inr ()"
    "require_team_coach d u (v_team_id v) = Inr a"
    and d': "d' = write_audit rq A_VIDEO_UPLOAD_ABANDONED u ''video'' (Some (v_id v)) (Some (v_team_id v)) x
      (release_video_upload_quota_reservation (v_team_id v) (v_id v) ''user_cancelled'' now (put_video ?v d))"
    and ops: "\<And>key. v_storage_key_raw v = Some key \<Longrightarrow> key \<noteq> [] \<Longrightarrow>
       ops = (case v_upload_id v of Some uid \<Rightarrow> [OpAbort key uid] | None \<Rightarrow> [OpDelete key])"
    by (rule cancel_upload_Inr) blast
  have l: "load_video d' video_id = Some ?v"
    using load_video_put[OF assms(2)] id by (simp add: d')
  have "memberships d' = memberships d"
    by (auto simp: d' release_video_upload_quota_reservation_def split: option.splits)
  then have "require_team_coach d' u (v_team_id v) = Inr a" using coach_gate.reads a(2) by metis
  with a l have again: "cancel_upload s rq2 u storage2 video_id now2 d' = (Inr (), d', [])"
    by (simp add: cancel_upload_def)
  have "resolve_team_plan (put_video ?v d) (v_team_id v) = Some ctx"
    unfolding assms(4)[symmetric] by (rule resolve_team_plan_reads) (simp_all add: put_video_def)
  from release_net[OF this, of video_id "''user_cancelled''" now]
  have "let net = ledger_sum (reserved_for (tp_account_id ctx) (v_team_id v) video_id)
     in net d' = (if net d \<le> 0 then net d else net d - 1)"
    by (simp add: d' id Let_def ledger_sum_def put_video_def)
  with l ops again show ?thesis by simp
qed

text \<open>
  Recovery works. After a coach has cancelled a running transcode, and as long as the original object
  passes the check, requeueing it succeeds: the job is pending again, owned by no task, the video queued;
  a delivery can claim it, and the worker of the cancelled delivery can neither report progress nor
  complete it.
\<close>
theorem cancel_then_requeue:
  assumes "cancel_processing s rq u video_id stage now d = (Inr r, d1)" and "jobs_inv (jobs d)"
    and "load_video d video_id = Some v" and "assert_raw_object_requeueable v ps = Inr ()"
  shows "\<exists>r2 d2 j v2. requeue_processing s rq u (Some ps) video_id stage now2 d1 = (Inr r2, d2) \<and>
    transcode_job_of d2 video_id = Some j \<and> j_id j = pr_job_id r \<and> j_status j = JS_PENDING \<and>
    j_celery_task_id j = None \<and> load_video d2 video_id = Some v2 \<and> v_status v2 = VS_QUEUED \<and>
    snd (claim_job tid t (j_id j) (jobs d2)) = Some (claim_values tid t j) \<and>
    complete_job meta (Some task) t (j_id j) (jobs d2) = (jobs d2, None)"
proof -
  from assms(1,2) obtain v0 j0 where
    rt0: "recovery_target s u video_id stage [VS_PROCESSING, VS_QUEUED] JS_RUNNING d = Inr (v0, j0)"
    and d1: "jobs d1 = put_row j_id (cancel_values (cancel_metadata j0 u now) now j0) (jobs d)"
      "videos d1 = put_row v_id (v0\<lparr>v_status := VS_FAILED\<rparr>) (videos d)" "memberships d1 = memberships d"
    and r: "pr_job_id r = j_id j0"
    by (rule cancel_processing_Inr)
  let ?c = "cancel_values (cancel_metadata j0 u now) now j0"
  let ?v1 = "v\<lparr>v_status := VS_FAILED\<rparr>"
  note t = recovery_target_Inr[OF rt0]
  have vid: "v_id v = video_id" by (rule load_video_key[OF assms(3)])
  have v0: "v0 = v" "stage = ''transcode''" using t assms(3) by auto
  obtain a where a: "require_team_coach d u (v_team_id v) = Inr a" using t v0 by blast
  have j0: "transcode_job_of d video_id = Some j0" "j_status j0 = JS_RUNNING" using t v0 vid by auto
  note c = transcode_edge[OF assms(2) j0(1) job_edge.cancelled[OF j0(2)] d1(1)]
  have l1: "load_video d1 video_id = Some ?v1"
    using assms(3) vid v0 by (simp add: d1 load_video_def by_key_put_row)
  have "require_team_coach d1 u (v_team_id v) = Inr a" using coach_gate.reads[OF d1(3)] a by simp
  then have "recovery_target s u video_id stage [VS_FAILED] JS_FAILED d1 = Inr (?v1, ?c)"
    using t l1 c(1) vid v0 by (auto intro!: recovery_target_transcode[where a = a] simp: cancel_values_def)
  from requeue_succeeds[OF this c(2), of ps rq now2] assms(4) obtain r2 d2 where
    d2: "requeue_processing s rq u (Some ps) video_id stage now2 d1 = (Inr r2, d2)"
      "jobs d2 = put_row j_id (requeue_values ?c) (jobs d1)"
      "videos d2 = put_row v_id (?v1\<lparr>v_status := VS_QUEUED\<rparr>) (videos d1)"
    by auto
  have "job_edge ?c (requeue_values ?c)" by (rule job_edge.requeued) (simp add: cancel_values_def)
  note q = transcode_edge[OF c(2,1) this d2(2)]
  let ?j = "requeue_values ?c"
  have st: "j_id ?j = j_id j0" "j_id ?c = j_id j0" "j_status ?j = JS_PENDING" "j_celery_task_id ?j = None"
    by (simp_all add: requeue_values_def cancel_values_def)
  have "snd (claim_job tid t (j_id j0) (jobs d2)) = Some (claim_values tid t ?j)"
    "snd (complete_job meta (Some task) t (j_id j0) (jobs d2)) = None"
    using q(3) st jobs_inv_keys[OF q(2)] by (simp_all add: claim.result complete.result)
  moreover from this(2) have "complete_job meta (Some task) t (j_id j0) (jobs d2) = (jobs d2, None)"
    using complete.unchanged by (metis prod.collapse)
  moreover have "load_video d2 video_id = Some (v\<lparr>v_status := VS_QUEUED\<rparr>)"
    using l1 vid by (simp add: d2(3) load_video_def by_key_put_row)
  ultimately show ?thesis using d2(1) q(1) st r
    by (intro exI[of _ r2] exI[of _ d2] exI[of _ ?j] exI[of _ "v\<lparr>v_status := VS_QUEUED\<rparr>"]) simp
qed

section \<open>Witnesses\<close>

definition upload_store :: presigner where
  "upload_store = \<lparr>
     ps_presign_upload = (\<lambda>k t n c. Inr \<lparr>pu_method = UM_PUT, pu_url = Some ''https://store/put'', pu_headers = None,
       pu_upload_id = None, pu_parts = None, pu_part_size_bytes = None\<rparr>),
     ps_complete_multipart = (\<lambda>k i p. Inr ()), ps_abort_multipart = (\<lambda>k i. Inr ()),
     ps_head_object = (\<lambda>k. Inr (Some [(''ContentLength'', JInt 2000000)])),
     ps_presign_get = (\<lambda>k n t. Inr ''https://store/get''), ps_delete_object = (\<lambda>k. Inr ())\<rparr>"

definition sample_upload :: create_upload_request where
  "sample_upload = \<lparr>cu_game_id = 6, cu_filename = ''game.mp4'', cu_file_size_bytes = 2000000,
     cu_content_type = ''video/mp4'', cu_checksum_sha256 = None, cu_camera_position = None,
     cu_camera_height = None, cu_privacy_consent_id = None\<rparr>"

definition sample_initiate :: "user_row \<Rightarrow> (exn + create_upload_response) \<times> db" where
  "sample_initiate u = initiate_upload default_settings sample_request u (Inr ()) (Some upload_store)
     sample_upload 1 90 int sample_db"

definition uploaded_db :: db where
  "uploaded_db = snd (sample_initiate sample_coach)"

definition succeeded :: "('e + 'a) \<times> 'b \<Rightarrow> bool" where
  "succeeded r = (case fst r of Inl _ \<Rightarrow> False | Inr _ \<Rightarrow> True)"

lemma succeededE: "succeeded r \<Longrightarrow> (\<And>a. r = (Inr a, snd r) \<Longrightarrow> P) \<Longrightarrow> P"
  by (cases r) (auto simp: succeeded_def split: sum.splits)

lemma sample_initiate_ok: "succeeded (sample_initiate sample_coach)"
  by code_simp

lemma sample_initiated:
  "\<exists>r. initiate_upload default_settings sample_request sample_coach (Inr ()) (Some upload_store)
     sample_upload 1 90 int sample_db = (Inr r, uploaded_db)"
  using sample_initiate_ok unfolding sample_initiate_def uploaded_db_def by (blast elim: succeededE)

theorem upload_authorized_witness:
  "\<exists>v. videos uploaded_db = videos sample_db @ [v] \<and> v_status v = VS_PENDING_UPLOAD"
proof -
  obtain r where "initiate_upload default_settings sample_request sample_coach (Inr ()) (Some upload_store)
     sample_upload 1 90 int sample_db = (Inr r, uploaded_db)" using sample_initiated by blast
  from upload_authorized[OF this] show ?thesis by blast
qed

theorem upload_within_quotas_witness:
  "\<exists>l \<in> set (links uploaded_db). within_limit (byte_limit uploaded_db (l_billing_account_id l))
     (storage_bytes_reserved (l_billing_account_id l) uploaded_db)"
proof -
  have inv: "billing_inv sample_db" by (simp add: sample_defs billing_inv_def)
  obtain r where "initiate_upload default_settings sample_request sample_coach (Inr ()) (Some upload_store)
     sample_upload 1 90 int sample_db = (Inr r, uploaded_db)" using sample_initiated by blast
  from upload_within_quotas[OF inv this] show ?thesis by blast
qed

theorem upload_refused_witness:
  "\<exists>e d'. sample_initiate sample_player = (Inl e, d') \<and> provisioned sample_db d'"
proof -
  have "\<not> succeeded (sample_initiate sample_player)" by code_simp
  then obtain e where e: "sample_initiate sample_player = (Inl e, snd (sample_initiate sample_player))"
    by (cases "sample_initiate sample_player") (auto simp: succeeded_def split: sum.splits)
  from upload_refused[OF e[unfolded sample_initiate_def]] e show ?thesis unfolding sample_initiate_def by blast
qed

definition sample_complete :: "uuid \<Rightarrow> db \<Rightarrow> (exn + complete_upload_response) \<times> db \<times> storage_op list" where
  "sample_complete job_id d = complete_upload default_settings sample_request sample_coach (Some upload_store) 1
     \<lparr>cp_checksum_sha256 = None, cp_parts = None\<rparr> job_id int d"

lemma sample_complete_ok: "succeeded (sample_complete 7 uploaded_db)"
  by code_simp

lemma uploaded_video:
  "\<exists>v. load_video uploaded_db 1 = Some v \<and> v_status v = VS_PENDING_UPLOAD \<and> v_team_id v = 2"
proof -
  have "case load_video uploaded_db 1 of None \<Rightarrow> False
      | Some v \<Rightarrow> v_status v = VS_PENDING_UPLOAD \<and> v_team_id v = 2" by code_simp
  then show ?thesis by (auto split: option.splits)
qed

theorem completed_upload_verified_witness:
  "\<exists>team. jobs (fst (snd (sample_complete 7 uploaded_db))) = jobs uploaded_db @ [new_job 7 1 team ST_TRANSCODE 1]"
proof -
  obtain v where v: "load_video uploaded_db 1 = Some v" "v_status v = VS_PENDING_UPLOAD"
    using uploaded_video by blast
  obtain r where "sample_complete 7 uploaded_db =
      (Inr r, fst (snd (sample_complete 7 uploaded_db)), snd (snd (sample_complete 7 uploaded_db)))"
    by (rule succeededE[OF sample_complete_ok]) simp
  from completed_upload_verified[OF this[unfolded sample_complete_def] v] show ?thesis
    unfolding sample_complete_def by force
qed

theorem completion_idempotent_witness:
  "\<exists>r d' ops. sample_complete 7 uploaded_db = (Inr r, d', ops) \<and> sample_complete 8 d' = (Inr r, d', [])"
proof -
  obtain r where r: "sample_complete 7 uploaded_db =
      (Inr r, fst (snd (sample_complete 7 uploaded_db)), snd (snd (sample_complete 7 uploaded_db)))"
    by (rule succeededE[OF sample_complete_ok]) simp
  from completion_idempotent[OF r[unfolded sample_complete_def], of sample_request "Some upload_store"
      "\<lparr>cp_checksum_sha256 = None, cp_parts = None\<rparr>" 8 int]
  have "sample_complete 8 (fst (snd (sample_complete 7 uploaded_db))) =
      (Inr r, fst (snd (sample_complete 7 uploaded_db)), [])"
    unfolding sample_complete_def .
  with r show ?thesis by metis
qed

definition sample_delete :: "db \<Rightarrow> (exn + unit) \<times> db \<times> storage_op list" where
  "sample_delete d = delete_failed_video default_settings sample_request sample_coach (Some upload_store) 1 int d"

theorem deletion_complete_witness:
  "videos (fst (snd (sample_delete uploaded_db))) = filter (\<lambda>v. v_id v \<noteq> 1) (videos uploaded_db)"
proof -
  obtain v where v: "load_video uploaded_db 1 = Some v" using uploaded_video by blast
  have "succeeded (sample_delete uploaded_db)" by code_simp
  then obtain r where "sample_delete uploaded_db =
      (Inr r, fst (snd (sample_delete uploaded_db)), snd (snd (sample_delete uploaded_db)))"
    by (rule succeededE) simp
  from deletion_complete[OF this[unfolded sample_delete_def] v] show ?thesis unfolding sample_delete_def by simp
qed

definition sample_cancel :: "db \<Rightarrow> (exn + unit) \<times> db \<times> storage_op list" where
  "sample_cancel d = cancel_upload default_settings sample_request sample_coach (Some upload_store) 1 9 d"

theorem upload_cancelled_witness:
  "\<exists>v. load_video (fst (snd (sample_cancel uploaded_db))) 1 = Some v \<and> v_status v = VS_FAILED"
proof -
  obtain v where v: "load_video uploaded_db 1 = Some v" "v_status v = VS_PENDING_UPLOAD" "v_team_id v = 2"
    using uploaded_video by blast
  have "resolve_team_plan uploaded_db 2 \<noteq> None" by code_simp
  then obtain ctx where ctx: "resolve_team_plan uploaded_db (v_team_id v) = Some ctx" using v(3) by auto
  have "succeeded (sample_cancel uploaded_db)" by code_simp
  then obtain r where "sample_cancel uploaded_db =
      (Inr r, fst (snd (sample_cancel uploaded_db)), snd (snd (sample_cancel uploaded_db)))"
    by (rule succeededE) simp
  from upload_cancelled[OF this[unfolded sample_cancel_def] v(1,2) ctx] show ?thesis
    unfolding sample_cancel_def by blast
qed

definition running_db :: db where
  "running_db = sample_db\<lparr>videos := [sample_video\<lparr>v_status := VS_PROCESSING\<rparr>],
     jobs := [claim_values (Some ''t1'') 5 sample_job]\<rparr>"

definition sample_cancel_processing :: "(exn + processing_response) \<times> db" where
  "sample_cancel_processing = cancel_processing default_settings sample_request sample_coach 1 ''transcode'' 9 running_db"

theorem cancel_then_requeue_witness:
  "\<exists>r2 d2. requeue_processing default_settings sample_request sample_coach (Some upload_store) 1 ''transcode'' 11
     (snd sample_cancel_processing) = (Inr r2, d2)"
proof -
  have inv: "jobs_inv (jobs running_db)"
    by (simp add: running_db_def jobs_inv_def sample_job_def new_job_def job_ok_def claim_values_def)
  have v: "load_video running_db 1 = Some (sample_video\<lparr>v_status := VS_PROCESSING\<rparr>)"
    by (simp add: running_db_def load_video_def by_key_def sample_video_def)
  have raw: "assert_raw_object_requeueable (sample_video\<lparr>v_status := VS_PROCESSING\<rparr>) upload_store = Inr ()"
    by code_simp
  have "succeeded sample_cancel_processing" by code_simp
  then obtain r where "sample_cancel_processing = (Inr r, snd sample_cancel_processing)" by (rule succeededE)
  from cancel_then_requeue[OF this[unfolded sample_cancel_processing_def] inv v raw, of 11 None 0 None "''t1''"]
  show ?thesis unfolding sample_cancel_processing_def by blast
qed

end
