(* ===== verification/Url_Encoding.thy ===== *)
theory Url_Encoding
  imports Encoding
begin

text \<open>
  The text formats of cursors, tokens and cookies: unpadded URL-safe base 64 as the sources build it
  from \<open>base64.urlsafe_b64encode\<close> (\<open>security/jwt.py\<close>, \<open>security/csrf.py\<close>, the event cursor of
  \<open>routers/videos.py\<close>), and the parts of Python they parse with: \<open>int(s)\<close> and \<open>int(s, 16)\<close>,
  \<open>str.split\<close>, \<open>str.replace\<close> and the constructor \<open>uuid.UUID(text)\<close>. Each printer comes with the lemma
  that its parser inverts it.
\<close>

section \<open>Strings\<close>

text \<open>\<open>s.split(sep)\<close> and \<open>s.split(sep, 1)\<close> for a separator of one character.\<close>

fun py_split :: "char \<Rightarrow> string \<Rightarrow> string list" where
  "py_split sep [] = [[]]"
| "py_split sep (c # s) =
     (if c = sep then [] # py_split sep s
      else case py_split sep s of [] \<Rightarrow> [[c]] | p # ps \<Rightarrow> (c # p) # ps)"

fun py_split1 :: "char \<Rightarrow> string \<Rightarrow> string \<times> string option" where
  "py_split1 sep [] = ([], None)"
| "py_split1 sep (c # s) =
     (if c = sep then ([], Some s) else case py_split1 sep s of (p, r) \<Rightarrow> (c # p, r))"

function py_replace :: "string \<Rightarrow> string \<Rightarrow> string \<Rightarrow> string" where
  "py_replace old new s =
     (if old = [] \<or> s = [] then s
      else if take (length old) s = old then new @ py_replace old new (drop (length old) s)
      else hd s # py_replace old new (tl s))"
  by pat_completeness auto
termination
  by (relation "measure (\<lambda>(old, new, s). length s)") auto

declare py_replace.simps [simp del]

definition ascii_encode :: "string \<Rightarrow> bytes" where
  "ascii_encode s = map of_char s"

definition ascii_decode :: "bytes \<Rightarrow> string option" where
  "ascii_decode bs = (if \<forall>b \<in> set bs. b < 128 then Some (map char_of bs) else None)"

lemma py_split_nonempty [simp]: "py_split sep s \<noteq> []"
  by (induction s) (auto split: list.split)

lemma py_split_none: "sep \<notin> set s \<Longrightarrow> py_split sep s = [s]"
  by (induction s) auto

lemma py_split_append: "sep \<notin> set p \<Longrightarrow> py_split sep (p @ sep # s) = p # py_split sep s"
  by (induction p) auto

lemma py_split1_append: "sep \<notin> set p \<Longrightarrow> py_split1 sep (p @ sep # s) = (p, Some s)"
  by (induction p) auto

lemma py_replace_absent:
  assumes "old \<noteq> []" and "c \<in> set old" and "c \<notin> set s"
  shows "py_replace old new s = s"
  using assms(3)
proof (induction s)
  case (Cons a s)
  have "take (length old) (a # s) \<noteq> old"
    using Cons.prems assms(2) by (metis in_set_takeD)
  with Cons assms(1) show ?case by (subst py_replace.simps) auto
qed (simp add: py_replace.simps)

lemma ascii_decode_encode: "\<forall>c \<in> set s. of_char c < (128::nat) \<Longrightarrow> ascii_decode (ascii_encode s) = Some s"
  by (simp add: ascii_decode_def ascii_encode_def comp_def)

section \<open>Integers\<close>

definition digit_val :: "char \<Rightarrow> nat option" where
  "digit_val c =
     (let n = of_char c in
      if 48 \<le> n \<and> n \<le> 57 then Some (n - 48)
      else if 97 \<le> n \<and> n \<le> 122 then Some (n - 87)
      else if 65 \<le> n \<and> n \<le> 90 then Some (n - 55) else None)"

text \<open>Digits with single underscores between them; \<open>prev\<close> is whether a digit came last.\<close>

fun py_digits :: "nat \<Rightarrow> nat \<Rightarrow> bool \<Rightarrow> string \<Rightarrow> nat option" where
  "py_digits b acc prev [] = (if prev then Some acc else None)"
| "py_digits b acc prev (c # s) =
     (if c = CHR ''_'' then (if prev then py_digits b acc False s else None)
      else case digit_val c of
        None \<Rightarrow> None
      | Some v \<Rightarrow> if v < b then py_digits b (acc * b + v) True s else None)"

definition INT_MAX_STR_DIGITS :: nat where
  "INT_MAX_STR_DIGITS = 4300"

definition py_int :: "nat \<Rightarrow> string \<Rightarrow> int option" where
  "py_int b s =
     (let s = py_strip s;
          (neg, s) = (case s of [] \<Rightarrow> (False, s) | c # r \<Rightarrow>
             if c = CHR ''-'' then (True, r) else if c = CHR ''+'' then (False, r) else (False, s));
          s = (if b = 16 \<and> py_lower (take 2 s) = ''0x'' then
                 (let r = drop 2 s in if r \<noteq> [] \<and> hd r = CHR ''_'' then tl r else r) else s)
      in if b = 10 \<and> length (filter (\<lambda>c. c \<noteq> CHR ''_'') s) > INT_MAX_STR_DIGITS then None
         else map_option (\<lambda>n. if neg then - int n else int n) (py_digits b 0 False s))"

lemma digit_val_decimal: "n < 10 \<Longrightarrow> digit_val (char_of (48 + n)) = Some n"
  by (simp add: digit_val_def Let_def)

lemma digit_val_hex: "n < 16 \<Longrightarrow> digit_val (hex_digit n) = Some n"
  by (auto simp: digit_val_def Let_def hex_digit_def)

lemma digit_not_underscore: "digit_val c = Some n \<Longrightarrow> c \<noteq> CHR ''_''"
  by (auto simp: digit_val_def)

lemma decimal_char [simp]: "n < 10 \<Longrightarrow> char_of (48 + n :: nat) \<noteq> CHR ''_''"
  by (rule digit_not_underscore[OF digit_val_decimal])

lemma hex_not_underscore [simp]: "n < 16 \<Longrightarrow> hex_digit n \<noteq> CHR ''_''"
  by (rule digit_not_underscore[OF digit_val_hex])

lemma py_digits_nat_str:
  "py_digits 10 acc prev (nat_str n @ s) = py_digits 10 (acc * 10 ^ length (nat_str n) + n) True s"
proof (induction n arbitrary: acc prev s rule: nat_str.induct)
  case (1 n)
  show ?case
  proof (cases "n < 10")
    case True
    then show ?thesis by (subst (1 2) nat_str.simps) (simp add: digit_val_decimal)
  next
    case False
    have "nat_str n = nat_str (n div 10) @ [char_of (48 + n mod 10)]"
      using False by (subst nat_str.simps) simp
    with "1.IH"[OF False, of acc prev "char_of (48 + n mod 10) # s"] show ?thesis
      by (simp add: digit_val_decimal algebra_simps)
  qed
qed

lemma length_nat_str: "n < 10 ^ k \<Longrightarrow> length (nat_str n) \<le> max 1 k"
proof (induction n arbitrary: k rule: nat_str.induct)
  case (1 n)
  show ?case
  proof (cases "n < 10")
    case True
    then show ?thesis by (subst nat_str.simps) simp
  next
    case False
    then obtain j where j: "k = Suc j" using "1.prems" by (cases k) auto
    then have "n div 10 < 10 ^ j" using "1.prems" by (simp add: less_mult_imp_div_less mult.commute)
    moreover from this False have "j \<noteq> 0" by (cases j) auto
    ultimately have "length (nat_str (n div 10)) \<le> j" using "1.IH"[OF False, of j] by simp
    then show ?thesis using False j by (subst nat_str.simps) simp
  qed
qed

lemma set_nat_str: "c \<in> set (nat_str n) \<Longrightarrow> of_char c \<in> {48..57::nat}"
proof (induction n rule: nat_str.induct)
  case (1 n)
  then show ?case by (subst (asm) (2) nat_str.simps) (auto split: if_splits)
qed

lemma nat_str_nonempty [simp]: "nat_str n \<noteq> []"
  by (subst nat_str.simps) simp

lemma set_int_str: "c \<in> set (int_str n) \<Longrightarrow> of_char c \<in> {45} \<union> {48..57::nat}"
  by (auto simp: int_str_def dest: set_nat_str split: if_splits)

lemma py_strip_id:
  "\<forall>c \<in> set s. \<not> py_isspace c \<Longrightarrow> py_strip s = s"
  unfolding py_strip_def strip_by_def by (metis dropWhile_eq_self_iff last_in_set list.set_sel(1) rev_rev_ident set_rev)

text \<open>\<open>int(str(n)) == n\<close>, for the integers the standard library converts.\<close>

lemma py_int_str:
  assumes "\<bar>n\<bar> < 10 ^ INT_MAX_STR_DIGITS"
  shows "py_int 10 (int_str n) = Some n"
proof -
  have sp: "py_strip (int_str n) = int_str n"
    by (rule py_strip_id) (auto simp: py_isspace_def dest!: set_int_str)
  have len: "length (nat_str (nat \<bar>n\<bar>)) \<le> INT_MAX_STR_DIGITS"
  proof -
    have "nat \<bar>n\<bar> < 10 ^ INT_MAX_STR_DIGITS" using assms by (simp add: nat_less_iff)
    moreover have "1 \<le> INT_MAX_STR_DIGITS" by (simp add: INT_MAX_STR_DIGITS_def)
    ultimately show ?thesis using length_nat_str by (metis max.absorb2)
  qed
  have sub: "filter (\<lambda>c. c \<noteq> CHR ''_'') (nat_str m) = nat_str m" for m
    by (rule filter_True) (auto dest: set_nat_str)
  have hd: "hd (nat_str m) \<noteq> CHR ''-''" "hd (nat_str m) \<noteq> CHR ''+''" for m
    using set_nat_str[OF list.set_sel(1)[OF nat_str_nonempty[of m]]] by auto
  have p: "py_digits 10 0 False (nat_str m) = Some m" for m
    using py_digits_nat_str[of 0 False m "[]"] by simp
  show ?thesis
  proof (cases "n < 0")
    case True
    then show ?thesis using sp len sub p by (simp add: py_int_def int_str_def)
  next
    case False
    obtain c r where c: "nat_str (nat n) = c # r" using nat_str_nonempty[of "nat n"] by (cases "nat_str (nat n)") auto
    with hd[of "nat n"] False sp len sub[of "nat n"] p[of "nat n"] show ?thesis
      by (auto simp: py_int_def int_str_def)
  qed
qed

lemma py_digits_hex_string:
  "py_digits 16 acc prev (hex_string k n @ s) =
     py_digits 16 (acc * 16 ^ k + n mod 16 ^ k) (prev \<or> 0 < k) s"
proof (induction k arbitrary: n acc prev s)
  case (Suc k)
  have "(acc * 16 ^ k + n div 16 mod 16 ^ k) * 16 + n mod 16 = acc * 16 ^ Suc k + n mod 16 ^ Suc k"
    using mod_mult2_eq[of n 16 "16 ^ k"] by (simp add: algebra_simps)
  with Suc[of acc prev "n div 16" "hex_digit (n mod 16) # s"] show ?case
    by (simp add: digit_val_hex del: power_Suc)
qed simp

section \<open>UUIDs\<close>

text \<open>\<open>uuid.UUID(text)\<close>; \<open>None\<close> is \<open>ValueError\<close>.\<close>

definition parse_uuid :: "string \<Rightarrow> uuid option" where
  "parse_uuid s =
     (let h = py_replace ''uuid:'' [] (py_replace ''urn:'' [] s);
          h = py_replace ''-'' [] (strip_by (\<lambda>c. c = CHR ''{'' \<or> c = CHR ''}'') h)
      in if length h \<noteq> 32 then None
         else case py_int 16 h of
           None \<Rightarrow> None
         | Some n \<Rightarrow> if 0 \<le> n \<and> n < 2 ^ 128 then Some (nat n) else None)"

text \<open>\<open>u.hex\<close>\<close>

definition uuid_hex :: "uuid \<Rightarrow> string" where
  "uuid_hex n = hex_string 32 n"

lemma hex_string_hd:
  "c \<in> set (hex_string k n) \<Longrightarrow> c \<noteq> CHR ''-'' \<and> c \<noteq> CHR ''+'' \<and> c \<noteq> CHR ''x'' \<and> c \<noteq> CHR ''X'' \<and>
     c \<noteq> CHR '':'' \<and> c \<noteq> CHR ''{'' \<and> c \<noteq> CHR ''}'' \<and> \<not> py_isspace c"
  by (drule set_hex_string) (auto simp: py_isspace_def)

lemma py_int_hex_string:
  assumes "n < 16 ^ k" and "2 \<le> k"
  shows "py_int 16 (hex_string k n) = Some (int n)"
proof -
  let ?h = "hex_string k n"
  have sp: "py_strip ?h = ?h" by (rule py_strip_id) (auto dest: hex_string_hd)
  obtain a b r where h: "?h = a # b # r"
    using length_hex_string[of k n] assms(2) by (metis Suc_le_length_iff numeral_2_eq_2)
  then have ab: "a \<in> set ?h" "b \<in> set ?h" by simp_all
  have "to_lower b \<noteq> CHR ''x''"
    using set_hex_string[OF ab(2)] by (auto simp: to_lower_def less_eq_char_def)
  then have "py_lower (take 2 ?h) \<noteq> ''0x''" by (simp add: h py_lower_def)
  moreover have "py_digits 16 0 False ?h = Some n"
    using py_digits_hex_string[of 0 False k n "[]"] assms by simp
  ultimately show ?thesis using sp hex_string_hd[OF ab(1)] by (simp add: py_int_def h)
qed

lemma strip_by_id: "\<forall>c \<in> set s. \<not> p c \<Longrightarrow> strip_by p s = s"
  unfolding strip_by_def by (metis dropWhile_eq_self_iff last_in_set list.set_sel(1) rev_rev_ident set_rev)

lemma parse_uuid_hex: "n < 2 ^ 128 \<Longrightarrow> parse_uuid (uuid_hex n) = Some n"
proof -
  assume n: "n < 2 ^ 128"
  let ?h = "hex_string 32 n"
  have no: "CHR '':'' \<notin> set ?h" "CHR ''-'' \<notin> set ?h" using hex_string_hd by blast+
  have "py_replace ''urn:'' [] ?h = ?h" "py_replace ''uuid:'' [] ?h = ?h" "py_replace ''-'' [] ?h = ?h"
    by (rule py_replace_absent; use no in force)+
  moreover have "strip_by (\<lambda>c. c = CHR ''{'' \<or> c = CHR ''}'') ?h = ?h"
    by (rule strip_by_id) (auto dest: hex_string_hd)
  moreover have "py_int 16 ?h = Some (int n)" by (rule py_int_hex_string) (use n in simp_all)
  ultimately show ?thesis using n by (simp add: parse_uuid_def uuid_hex_def nat_less_iff)
qed

lemma py_replace_char: "py_replace [ch] [] s = filter (\<lambda>x. x \<noteq> ch) s"
proof (induction s)
  case (Cons a s)
  then show ?case by (subst py_replace.simps) simp
qed (simp add: py_replace.simps)

lemma parse_uuid_str: "n < 2 ^ 128 \<Longrightarrow> parse_uuid (uuid_str n) = Some n"
proof -
  assume n: "n < 2 ^ 128"
  let ?h = "hex_string 32 n" and ?u = "uuid_str n"
  have no: "CHR '':'' \<notin> set ?u" using set_uuid_str[of "CHR '':''" n] by auto
  have r: "py_replace ''urn:'' [] ?u = ?u" "py_replace ''uuid:'' [] ?u = ?u"
    by (rule py_replace_absent; use no in force)+
  have s: "strip_by (\<lambda>c. c = CHR ''{'' \<or> c = CHR ''}'') ?u = ?u"
    by (rule strip_by_id) (auto dest!: set_uuid_str)
  have f: "filter (\<lambda>x. x \<noteq> CHR ''-'') t = t" if "set t \<subseteq> set ?h" for t
    using that hex_string_hd by (intro filter_True) blast
  have "py_replace ''-'' [] ?u = take 8 ?h @ take 4 (drop 8 ?h) @ take 4 (drop 12 ?h) @ take 4 (drop 16 ?h) @ drop 20 ?h"
    unfolding py_replace_char uuid_str_def Let_def
    by (simp add: f set_take_subset set_drop_subset order_trans[OF set_take_subset set_drop_subset])
  also have "\<dots> = ?h"
    using append_take_drop_id[of 8 ?h] append_take_drop_id[of 4 "drop 8 ?h"] append_take_drop_id[of 4 "drop 12 ?h"]
      append_take_drop_id[of 4 "drop 16 ?h"] by simp
  finally have "py_replace ''-'' [] ?u = ?h" .
  moreover have "py_int 16 ?h = Some (int n)" by (rule py_int_hex_string) (use n in simp_all)
  ultimately show ?thesis using n by (simp add: parse_uuid_def r s nat_less_iff)
qed

section \<open>URL-safe base 64\<close>

definition to_urlsafe :: "char \<Rightarrow> char" where
  "to_urlsafe c = (if c = CHR ''+'' then CHR ''-'' else if c = CHR ''/'' then CHR ''_'' else c)"

definition of_urlsafe :: "char \<Rightarrow> char" where
  "of_urlsafe c = (if c = CHR ''-'' then CHR ''+'' else if c = CHR ''_'' then CHR ''/'' else c)"

definition urlsafe_b64encode :: "bytes \<Rightarrow> string" where
  "urlsafe_b64encode bs = map to_urlsafe (b64encode bs)"

definition urlsafe_b64decode :: "string \<Rightarrow> bytes option" where
  "urlsafe_b64decode s = b64decode (map of_urlsafe s)"

text \<open>\<open>"=" * (-len(s) % 4)\<close>\<close>

definition b64_padding :: "string \<Rightarrow> string" where
  "b64_padding s = replicate (nat (- int (length s) mod 4)) CHR ''=''"

definition b64url_encode :: "bytes \<Rightarrow> string" where
  "b64url_encode bs = rstrip_by (\<lambda>c. c = CHR ''='') (urlsafe_b64encode bs)"

definition b64url_decode :: "string \<Rightarrow> bytes option" where
  "b64url_decode s = urlsafe_b64decode (s @ b64_padding s)"

definition b64_alphabet :: "char \<Rightarrow> bool" where
  "b64_alphabet c \<longleftrightarrow> b64_val c \<noteq> None"

definition b64url_char :: "char \<Rightarrow> bool" where
  "b64url_char c \<longleftrightarrow> (b64_val c \<noteq> None \<and> c \<noteq> CHR ''+'' \<and> c \<noteq> CHR ''/'') \<or> c = CHR ''-'' \<or> c = CHR ''_''"

lemma b64_alphabet_char [simp]: "n < 64 \<Longrightarrow> b64_alphabet (b64_char n)"
  by (simp add: b64_alphabet_def)

lemma b64encode_shape:
  "is_bytes bs \<Longrightarrow> \<exists>body k. b64encode bs = body @ replicate k CHR ''='' \<and> (\<forall>c \<in> set body. b64_alphabet c) \<and>
     k < 4 \<and> length (b64encode bs) mod 4 = 0"
proof (induction bs rule: b64encode.induct)
  case 1
  show ?case by (intro exI[of _ "[]"] exI[of _ 0]) simp
next
  case (2 a)
  then show ?case
    by (intro exI[of _ "[b64_char (a div 4), b64_char (a mod 4 * 16)]"] exI[of _ "Suc (Suc 0)"])
      (simp add: b64_groups)
next
  case (3 a b)
  then show ?case
    by (intro exI[of _ "[b64_char (a div 4), b64_char (a mod 4 * 16 + b div 16), b64_char (b mod 16 * 4)]"] exI[of _ 1])
      (simp add: b64_groups)
next
  case (4 a b c s)
  then have "is_bytes s" by simp
  from "4.IH"[OF this] obtain body k where "b64encode s = body @ replicate k CHR ''=''"
    "\<forall>c \<in> set body. b64_alphabet c" "k < 4" "length (b64encode s) mod 4 = 0" by auto
  with "4.prems" show ?case
    by (intro exI[of _ "b64_char (a div 4) # b64_char (a mod 4 * 16 + b div 16) #
        b64_char (b mod 16 * 4 + c div 64) # b64_char (c mod 64) # body"] exI[of _ k])
      (auto simp: b64_groups)
qed

lemma of_to_urlsafe: "b64_alphabet c \<or> c = CHR ''='' \<Longrightarrow> of_urlsafe (to_urlsafe c) = c"
  by (auto simp: of_urlsafe_def to_urlsafe_def b64_alphabet_def b64_val_def Let_def split: if_splits)

lemma to_urlsafe_char: "b64_alphabet c \<Longrightarrow> b64url_char (to_urlsafe c)"
  by (auto simp: to_urlsafe_def b64_alphabet_def b64url_char_def)

lemma b64url_char_not_pad: "b64url_char c \<Longrightarrow> c \<noteq> CHR ''=''"
  by (auto simp: b64url_char_def b64_val_def)

lemma rstrip_append:
  "\<forall>c \<in> set body. \<not> p c \<Longrightarrow> \<forall>c \<in> set t. p c \<Longrightarrow> rstrip_by p (body @ t) = body"
  using dropWhile_eq_self_iff[of p "rev body"] unfolding rstrip_by_def rev_append
  by (subst dropWhile_append2) (auto simp: hd_rev)

lemma b64url_encode_shape:
  assumes "is_bytes bs"
  obtains k where "urlsafe_b64encode bs = b64url_encode bs @ replicate k CHR ''=''"
    "\<forall>c \<in> set (b64url_encode bs). b64url_char c" "b64_padding (b64url_encode bs) = replicate k CHR ''=''"
proof -
  from b64encode_shape[OF assms] obtain body k where b: "b64encode bs = body @ replicate k CHR ''=''"
    "\<forall>c \<in> set body. b64_alphabet c" "k < 4" "length (b64encode bs) mod 4 = 0" by auto
  have enc: "urlsafe_b64encode bs = map to_urlsafe body @ replicate k CHR ''=''"
    by (simp add: urlsafe_b64encode_def b(1) map_replicate_const to_urlsafe_def)
  have body: "\<forall>c \<in> set (map to_urlsafe body). b64url_char c" using b(2) by (auto intro: to_urlsafe_char)
  have e: "b64url_encode bs = map to_urlsafe body"
    unfolding b64url_encode_def enc by (rule rstrip_append) (use body b64url_char_not_pad in auto)
  have "- int (length body) mod 4 = int k"
  proof -
    obtain m where "length body + k = 4 * m" using b(1,4) by (auto simp: mod_eq_0_iff_dvd elim: dvdE)
    then have "- int (length body) = int k + 4 * (- int m)" by simp
    then show ?thesis using b(3) by (simp only: mod_mult_self2) simp
  qed
  then have "b64_padding (b64url_encode bs) = replicate k CHR ''=''" by (simp add: e b64_padding_def)
  then show thesis using that[of k] enc e body by simp
qed

text \<open>Decoding inverts encoding.\<close>

lemma urlsafe_roundtrip: "is_bytes bs \<Longrightarrow> urlsafe_b64decode (urlsafe_b64encode bs) = Some bs"
proof -
  assume bs: "is_bytes bs"
  from b64encode_shape[OF bs] have "\<forall>c \<in> set (b64encode bs). b64_alphabet c \<or> c = CHR ''=''" by fastforce
  then have "map of_urlsafe (urlsafe_b64encode bs) = b64encode bs"
    by (simp add: urlsafe_b64encode_def map_idI of_to_urlsafe)
  then show ?thesis by (simp add: urlsafe_b64decode_def b64decode_b64encode[OF bs])
qed

lemma b64url_roundtrip: "is_bytes bs \<Longrightarrow> b64url_decode (b64url_encode bs) = Some bs"
proof -
  assume bs: "is_bytes bs"
  then obtain k where "urlsafe_b64encode bs = b64url_encode bs @ replicate k CHR ''=''"
    "b64_padding (b64url_encode bs) = replicate k CHR ''=''" by (rule b64url_encode_shape)
  then have "b64url_decode (b64url_encode bs) = urlsafe_b64decode (urlsafe_b64encode bs)"
    by (simp add: b64url_decode_def)
  also have "\<dots> = Some bs" by (rule urlsafe_roundtrip[OF bs])
  finally show ?thesis .
qed

lemma b64url_encode_chars: "is_bytes bs \<Longrightarrow> c \<in> set (b64url_encode bs) \<Longrightarrow> b64url_char c"
  by (metis b64url_encode_shape)

lemma b64url_encode_ascii: "is_bytes bs \<Longrightarrow> c \<in> set (b64url_encode bs) \<Longrightarrow> of_char c < (128::nat) \<and> c \<noteq> CHR ''.''"
  by (drule (1) b64url_encode_chars) (auto simp: b64url_char_def b64_val_def Let_def split: if_splits)

lemma is_bytes_ascii_encode [simp]: "is_bytes (ascii_encode s)"
  by (auto simp: ascii_encode_def)

lemma length_b64encode: "length (b64encode bs) \<le> 2 * length bs + 2"
  by (induction bs rule: b64encode.induct) auto

lemma length_b64url_encode: "length (b64url_encode bs) \<le> 2 * length bs + 2"
proof -
  have "length (rstrip_by p t) \<le> length t" for p and t :: string
    by (simp add: rstrip_by_def) (metis length_dropWhile_le length_rev)
  then show ?thesis using length_b64encode[of bs]
    by (metis b64url_encode_def dual_order.trans length_map urlsafe_b64encode_def)
qed

end
