(* ===== verification/Json.thy ===== *)
theory Json
  imports Url_Encoding "HOL-Library.Multiset"
begin

text \<open>
  The standard library's \<open>json\<close> module as the token code uses it: \<open>json.dumps(value, separators=(",",
  ":"), sort_keys=True)\<close> and \<open>json.loads\<close>. Texts are ASCII on output; on input characters and escapes up
  to U+00FF are read. Numbers are integers: the model rejects texts with a fraction, an exponent, NaN or
  an infinity, and escapes beyond U+00FF, which the tokens never contain. The reader takes fuel; twice the
  length of the text is enough, since every second call consumes a character, and \<open>json_roundtrip\<close> shows
  that it suffices for everything the writer produces.
\<close>

datatype json =
    JsNull
  | JsBool bool
  | JsInt int
  | JsStr string
  | JsList "json list"
  | JsObj "(string \<times> json) list"

section \<open>Writer\<close>

definition json_escape :: "char \<Rightarrow> string" where
  "json_escape c =
     (if c = CHR ''\"'' then [CHR 92, CHR ''\"'']
      else if c = CHR 92 then [CHR 92, CHR 92]
      else if c = CHR 8 then [CHR 92, CHR ''b'']
      else if c = CHR 12 then [CHR 92, CHR ''f'']
      else if c = CHR 10 then [CHR 92, CHR ''n'']
      else if c = CHR 13 then [CHR 92, CHR ''r'']
      else if c = CHR 9 then [CHR 92, CHR ''t'']
      else if 32 \<le> (of_char c :: nat) \<and> of_char c \<le> (126::nat) then [c]
      else [CHR 92, CHR ''u''] @ hex_string 4 (of_char c))"

definition json_string :: "string \<Rightarrow> string" where
  "json_string s = [CHR ''\"''] @ concat (map json_escape s) @ [CHR ''\"'']"

fun join :: "string list \<Rightarrow> string" where
  "join [] = []"
| "join [x] = x"
| "join (x # xs) = x @ '','' @ join xs"

primrec json_print :: "json \<Rightarrow> string" where
  "json_print JsNull = ''null''"
| "json_print (JsBool b) = (if b then ''true'' else ''false'')"
| "json_print (JsInt n) = int_str n"
| "json_print (JsStr s) = json_string s"
| "json_print (JsList xs) = ''['' @ join (map json_print xs) @ '']''"
| "json_print (JsObj kvs) =
     ''{'' @ join (map (\<lambda>(k, t). json_string k @ '':'' @ t) (map (map_prod id json_print) kvs)) @ ''}''"

text \<open>\<open>sort_keys=True\<close>\<close>

primrec json_sort :: "json \<Rightarrow> json" where
  "json_sort JsNull = JsNull"
| "json_sort (JsBool b) = JsBool b"
| "json_sort (JsInt n) = JsInt n"
| "json_sort (JsStr s) = JsStr s"
| "json_sort (JsList xs) = JsList (map json_sort xs)"
| "json_sort (JsObj kvs) = JsObj (sort_key fst (map (map_prod id json_sort) kvs))"

definition json_dumps :: "json \<Rightarrow> string" where
  "json_dumps v = json_print (json_sort v)"

section \<open>Reader\<close>

definition json_ws :: "char \<Rightarrow> bool" where
  "json_ws c \<longleftrightarrow> of_char c \<in> {32, 9, 10, 13::nat}"

definition skip_ws :: "string \<Rightarrow> string" where
  "skip_ws s = dropWhile json_ws s"

definition simple_escape :: "char \<Rightarrow> char option" where
  "simple_escape e =
     (if e = CHR ''\"'' then Some (CHR ''\"'') else if e = CHR 92 then Some (CHR 92)
      else if e = CHR ''/'' then Some (CHR ''/'') else if e = CHR ''b'' then Some (CHR 8)
      else if e = CHR ''f'' then Some (CHR 12) else if e = CHR ''n'' then Some (CHR 10)
      else if e = CHR ''r'' then Some (CHR 13) else if e = CHR ''t'' then Some (CHR 9) else None)"

fun hex4 :: "string \<Rightarrow> nat option" where
  "hex4 [a, b, c, d] =
     (case (hex_val a, hex_val b, hex_val c, hex_val d) of
        (Some w, Some x, Some y, Some z) \<Rightarrow> Some (((w * 16 + x) * 16 + y) * 16 + z)
      | _ \<Rightarrow> None)"
| "hex4 _ = None"

text \<open>The rest of a string literal, after its opening quote.\<close>

function read_string :: "string \<Rightarrow> (string \<times> string) option" where
  "read_string [] = None"
| "read_string (c # s) =
     (if c = CHR ''\"'' then Some ([], s)
      else if c = CHR 92 then
        (case s of
           [] \<Rightarrow> None
         | e # t \<Rightarrow>
             if e = CHR ''u'' then
               (case hex4 (take 4 t) of
                  None \<Rightarrow> None
                | Some n \<Rightarrow> if n < 256 then map_option (map_prod (Cons (char_of n)) id) (read_string (drop 4 t)) else None)
             else
               (case simple_escape e of
                  None \<Rightarrow> None
                | Some x \<Rightarrow> map_option (map_prod (Cons x) id) (read_string t)))
      else if of_char c < (32::nat) then None
      else map_option (map_prod (Cons c) id) (read_string s))"
  by pat_completeness auto
termination
  by (relation "measure length") auto

definition is_digit :: "char \<Rightarrow> bool" where
  "is_digit c \<longleftrightarrow> of_char c \<in> {48..57::nat}"

definition read_int :: "string \<Rightarrow> (int \<times> string) option" where
  "read_int s =
     (let (neg, s) = (case s of [] \<Rightarrow> (False, s) | c # t \<Rightarrow> if c = CHR ''-'' then (True, t) else (False, s));
          ds = (case s of [] \<Rightarrow> [] | c # t \<Rightarrow> if c = CHR ''0'' then [c] else takeWhile is_digit s);
          rest = drop (length ds) s
      in if ds = [] \<or> (rest \<noteq> [] \<and> hd rest \<in> {CHR ''.'', CHR ''e'', CHR ''E''}) then None
         else map_option (\<lambda>n. (if neg then - int n else int n, rest)) (py_digits 10 0 False ds))"

definition js_put :: "string \<times> json \<Rightarrow> (string \<times> json) list \<Rightarrow> (string \<times> json) list" where
  "js_put kv d = (if fst kv \<in> fst ` set d then map (\<lambda>x. if fst x = fst kv then kv else x) d else d @ [kv])"

definition js_dict :: "(string \<times> json) list \<Rightarrow> (string \<times> json) list" where
  "js_dict kvs = fold js_put kvs []"

definition starts :: "string \<Rightarrow> string \<Rightarrow> bool" where
  "starts p s \<longleftrightarrow> take (length p) s = p"

fun read_value :: "nat \<Rightarrow> string \<Rightarrow> (json \<times> string) option"
  and read_elems :: "nat \<Rightarrow> string \<Rightarrow> (json list \<times> string) option"
  and read_members :: "nat \<Rightarrow> string \<Rightarrow> ((string \<times> json) list \<times> string) option" where
  "read_value 0 s = None"
| "read_value (Suc n) s =
     (case s of
        [] \<Rightarrow> None
      | c # t \<Rightarrow>
          if c = CHR ''\"'' then map_option (map_prod JsStr id) (read_string t)
          else if c = CHR ''{'' then
            (let t = skip_ws t in
             if starts ''}'' t then Some (JsObj [], drop 1 t)
             else map_option (map_prod (\<lambda>m. JsObj (js_dict m)) id) (read_members n t))
          else if c = CHR ''['' then
            (let t = skip_ws t in
             if starts '']'' t then Some (JsList [], drop 1 t)
             else map_option (map_prod JsList id) (read_elems n t))
          else if starts ''null'' s then Some (JsNull, drop 4 s)
          else if starts ''true'' s then Some (JsBool True, drop 4 s)
          else if starts ''false'' s then Some (JsBool False, drop 5 s)
          else map_option (map_prod JsInt id) (read_int s))"
| "read_elems 0 s = None"
| "read_elems (Suc n) s =
     (case read_value n s of
        None \<Rightarrow> None
      | Some (v, s) \<Rightarrow>
          (let s = skip_ws s in
           if starts '']'' s then Some ([v], drop 1 s)
           else if starts '','' s then map_option (map_prod (Cons v) id) (read_elems n (skip_ws (drop 1 s)))
           else None))"
| "read_members 0 s = None"
| "read_members (Suc n) s =
     (if \<not> starts [CHR ''\"''] s then None
      else
        (case read_string (drop 1 s) of
           None \<Rightarrow> None
         | Some (k, s) \<Rightarrow>
             (let s = skip_ws s in
              if \<not> starts '':'' s then None
              else
                (case read_value n (skip_ws (drop 1 s)) of
                   None \<Rightarrow> None
                 | Some (v, s) \<Rightarrow>
                     (let s = skip_ws s in
                      if starts ''}'' s then Some ([(k, v)], drop 1 s)
                      else if starts '','' s then
                        map_option (map_prod (Cons (k, v)) id) (read_members n (skip_ws (drop 1 s)))
                      else None)))))"

definition json_loads :: "string \<Rightarrow> json option" where
  "json_loads s =
     (case read_value (2 * length s + 2) (skip_ws s) of
        None \<Rightarrow> None
      | Some (v, rest) \<Rightarrow> if skip_ws rest = [] then Some v else None)"

section \<open>Reading inverts writing\<close>

lemma hex_string_4:
  "hex_string 4 n = [hex_digit (n div 16 div 16 div 16 mod 16), hex_digit (n div 16 div 16 mod 16),
     hex_digit (n div 16 mod 16), hex_digit (n mod 16)]"
proof -
  have "(4::nat) = Suc (Suc (Suc (Suc 0)))" by simp
  then show ?thesis by (simp only: hex_string.simps append.simps)
qed

lemma hex4_hex_string: "n < 256 \<Longrightarrow> hex4 (hex_string 4 n) = Some n"
proof -
  assume n: "n < 256"
  then have "n div 16 < 16" by simp
  then have "n div 16 div 16 = 0" "n div 16 mod 16 = n div 16" by simp_all
  moreover have "n div 16 * 16 + n mod 16 = n" by simp
  ultimately show ?thesis unfolding hex_string_4 by (simp del: div_mult_mod_eq)
qed

lemma read_escape:
  "read_string (json_escape c @ s) = map_option (map_prod (Cons c) id) (read_string s)"
proof -
  have n: "of_char c < (256::nat)" by simp
  have "hex4 (take 4 (hex_string 4 (of_char c) @ s)) = Some (of_char c)"
    "drop 4 (hex_string 4 (of_char c) @ s) = s"
    using hex4_hex_string[OF n] by simp_all
  then show ?thesis unfolding json_escape_def by (simp add: simple_escape_def)
qed

lemma read_json_string: "read_string (concat (map json_escape t) @ CHR ''\"'' # s) = Some (t, s)"
  by (induction t) (simp_all add: read_escape)

lemma skip_ws_id: "s = [] \<or> \<not> json_ws (hd s) \<Longrightarrow> skip_ws s = s"
  by (cases s) (simp_all add: skip_ws_def)

text \<open>The first character of a printed value, and what may follow a number.\<close>

lemma json_print_hd:
  obtains c r where "json_print v = c # r" "\<not> json_ws c" "c \<noteq> CHR '']''" "c \<noteq> CHR ''}''"
proof (cases v)
  case (JsInt n)
  obtain c r where c: "int_str n = c # r" by (cases "int_str n") (auto simp: int_str_def split: if_splits)
  then have "of_char c \<in> {45} \<union> {48..57::nat}" using set_int_str[of c n] by simp
  then have "c \<noteq> CHR '']''" "c \<noteq> CHR ''}''" "\<not> json_ws c" by (auto simp: json_ws_def)
  then show ?thesis using that[of c r] c JsInt by simp
next
  case (JsBool b)
  then show ?thesis using that by (cases b) (auto simp: json_ws_def)
qed (use that in \<open>auto simp: json_string_def json_ws_def\<close>)

lemma takeWhile_digits:
  "s = [] \<or> \<not> is_digit (hd s) \<Longrightarrow> takeWhile is_digit (nat_str n @ s) = nat_str n"
proof -
  have "\<forall>c \<in> set (nat_str n). is_digit c" using set_nat_str by (auto simp: is_digit_def)
  moreover assume "s = [] \<or> \<not> is_digit (hd s)"
  ultimately show ?thesis by (cases s) (simp_all add: takeWhile_append2 takeWhile_tail)
qed

lemma nat_str_zero_hd: "hd (nat_str n) = CHR ''0'' \<Longrightarrow> n = 0"
proof (induction n rule: nat_str.induct)
  case (1 n)
  show ?case
  proof (cases "n < 10")
    case True
    with "1.prems" have "char_of (48 + n) = CHR ''0''" by (subst (asm) nat_str.simps) simp
    then have "of_char (char_of (48 + n)) = (48::nat)" by simp
    with True show ?thesis by simp
  next
    case False
    then have "hd (nat_str n) = hd (nat_str (n div 10))" by (subst nat_str.simps) simp
    with "1.IH"[OF False] "1.prems" False show ?thesis by simp
  qed
qed

text \<open>A value is followed by the end of the text, a comma or a closing bracket.\<close>

definition ends_value :: "string \<Rightarrow> bool" where
  "ends_value s \<longleftrightarrow> s = [] \<or> hd s \<in> {CHR '','', CHR '']'', CHR ''}''}"

lemma ends_value_simps [simp]:
  "ends_value []" "ends_value (CHR '','' # s)" "ends_value (CHR '']'' # s)" "ends_value (CHR ''}'' # s)"
  by (simp_all add: ends_value_def)

lemma read_int_str:
  assumes "ends_value s"
  shows "read_int (int_str n @ s) = Some (n, s)"
proof -
  have d: "s = [] \<or> \<not> is_digit (hd s)" and e: "s = [] \<or> hd s \<notin> {CHR ''.'', CHR ''e'', CHR ''E''}"
    using assms by (auto simp: ends_value_def is_digit_def)
  have p: "py_digits 10 0 False (nat_str m) = Some m" for m
    using py_digits_nat_str[of 0 False m "[]"] by simp
  have h: "hd (nat_str m) \<noteq> CHR ''-''" for m
    using set_nat_str[OF list.set_sel(1)[OF nat_str_nonempty[of m]]] by auto
  have nat: "(case nat_str m @ s of [] \<Rightarrow> [] | c # t \<Rightarrow> if c = CHR ''0'' then [c] else takeWhile is_digit (nat_str m @ s)) = nat_str m"
    for m
  proof (cases "nat_str m")
    case (Cons c t)
    show ?thesis
    proof (cases "c = CHR ''0''")
      case True
      then have "m = 0" using nat_str_zero_hd[of m] Cons by simp
      moreover have "nat_str 0 = ''0''" by code_simp
      ultimately have "nat_str m = ''0''" by simp
      then show ?thesis by simp
    next
      case False
      then show ?thesis using takeWhile_digits[OF d, of m] Cons by simp
    qed
  qed simp
  have sign: "(case nat_str m @ s of [] \<Rightarrow> (False, nat_str m @ s)
      | c # t \<Rightarrow> if c = CHR ''-'' then (True, t) else (False, nat_str m @ s)) = (False, nat_str m @ s)" for m
    using h[of m] nat_str_nonempty[of m] by (cases "nat_str m") auto
  show ?thesis
  proof (cases "n < 0")
    case True
    then show ?thesis using nat[of "nat (- n)"] p e by (simp add: read_int_def int_str_def)
  next
    case False
    then show ?thesis using nat[of "nat n"] sign[of "nat n"] p[of "nat n"] e
      by (simp add: read_int_def int_str_def)
  qed
qed

text \<open>Objects without repeated keys, which is what a dictionary is.\<close>

primrec json_dict :: "json \<Rightarrow> bool" where
  "json_dict JsNull = True"
| "json_dict (JsBool b) = True"
| "json_dict (JsInt n) = True"
| "json_dict (JsStr s) = True"
| "json_dict (JsList xs) = list_all id (map json_dict xs)"
| "json_dict (JsObj kvs) = (distinct (map fst kvs) \<and> list_all snd (map (map_prod id json_dict) kvs))"

definition reads :: "json \<Rightarrow> bool" where
  "reads v \<longleftrightarrow> (\<forall>n s. ends_value s \<longrightarrow> 2 * length (json_print v) \<le> n \<longrightarrow> read_value n (json_print v @ s) = Some (v, s))"

lemma starts_Cons [simp]: "starts [c] (d # s) \<longleftrightarrow> c = d"
  by (auto simp: starts_def)

lemma skip_ws_Cons: "\<not> json_ws c \<Longrightarrow> skip_ws (c # s) = c # s"
  by (rule skip_ws_id) simp

lemma not_ws [simp]:
  "\<not> json_ws CHR '',''" "\<not> json_ws CHR '']''" "\<not> json_ws CHR ''}''" "\<not> json_ws CHR '':''" "\<not> json_ws CHR ''\"''"
  by (simp_all add: json_ws_def)

lemma join_hd: "xs \<noteq> [] \<Longrightarrow> \<exists>t. join (x # xs) = x @ CHR '','' # join xs"
  by (cases xs) auto

lemma read_elems_join:
  assumes "xs \<noteq> []" and "\<forall>x \<in> set xs. reads x" and "2 * length (join (map json_print xs)) + 1 \<le> n"
  shows "read_elems n (join (map json_print xs) @ CHR '']'' # s) = Some (xs, s)"
  using assms
proof (induction xs arbitrary: n)
  case (Cons x xs)
  then obtain m where n: "n = Suc m" by (cases n) auto
  show ?case
  proof (cases "xs = []")
    case True
    have "read_value m (json_print x @ CHR '']'' # s) = Some (x, CHR '']'' # s)"
      using Cons.prems n True by (simp add: reads_def)
    then show ?thesis using True n by (simp add: skip_ws_Cons)
  next
    case False
    let ?t = "join (map json_print xs) @ CHR '']'' # s"
    have j: "join (map json_print (x # xs)) @ CHR '']'' # s = json_print x @ CHR '','' # ?t"
      using False by (cases xs) auto
    have l: "length (join (map json_print (x # xs))) = Suc (length (json_print x) + length (join (map json_print xs)))"
      using False by (cases xs) auto
    have v: "read_value m (json_print x @ CHR '','' # ?t) = Some (x, CHR '','' # ?t)"
      using Cons.prems(2,3) n l by (simp add: reads_def)
    have "read_elems m ?t = Some (xs, s)" using Cons.IH[OF False, of m] Cons.prems(2,3) n l by simp
    moreover have "skip_ws ?t = ?t"
    proof -
      obtain y ys where y: "xs = y # ys" using False by (cases xs) auto
      obtain c r where "json_print y = c # r" "\<not> json_ws c" by (rule json_print_hd)
      then have "\<exists>r. join (map json_print xs) = c # r" using y by (cases ys) auto
      with \<open>\<not> json_ws c\<close> show ?thesis by (auto simp: skip_ws_Cons)
    qed
    ultimately show ?thesis unfolding j using v n by (simp add: skip_ws_Cons)
  qed
qed simp

abbreviation print_member :: "string \<times> json \<Rightarrow> string" where
  "print_member \<equiv> \<lambda>(k, v). json_string k @ '':'' @ json_print v"

lemma read_members_join:
  assumes "kvs \<noteq> []" and "\<forall>(k, v) \<in> set kvs. reads v" and "2 * length (join (map print_member kvs)) + 1 \<le> n"
  shows "read_members n (join (map print_member kvs) @ CHR ''}'' # s) = Some (kvs, s)"
  using assms
proof (induction kvs arbitrary: n)
  case (Cons x kvs)
  obtain k v where x: "x = (k, v)" by fastforce
  from Cons.prems(3) obtain m where n: "n = Suc m" by (cases n) auto
  have sk: "skip_ws (json_print v @ t) = json_print v @ t" for t
    using json_print_hd[of v] by (metis append_Cons skip_ws_Cons)
  have key: "read_string (concat (map json_escape k) @ CHR ''\"'' # CHR '':'' # t) = Some (k, CHR '':'' # t)" for t
    by (rule read_json_string)
  show ?case
  proof (cases "kvs = []")
    case True
    have "read_value m (json_print v @ CHR ''}'' # s) = Some (v, CHR ''}'' # s)"
      using Cons.prems n True x by (simp add: reads_def json_string_def)
    then show ?thesis using True n x key[of "json_print v @ CHR ''}'' # s"]
      by (simp add: json_string_def skip_ws_Cons sk)
  next
    case False
    define t where "t = join (map print_member kvs) @ CHR ''}'' # s"
    have j: "join (map print_member (x # kvs)) @ CHR ''}'' # s =
        CHR ''\"'' # concat (map json_escape k) @ CHR ''\"'' # CHR '':'' # json_print v @ CHR '','' # t"
      using False unfolding t_def x by (cases kvs) (auto simp: json_string_def)
    have l: "length (join (map print_member (x # kvs))) = Suc (length (print_member x) + length (join (map print_member kvs)))"
      using False by (cases kvs) auto
    have v: "read_value m (json_print v @ CHR '','' # t) = Some (v, CHR '','' # t)"
      using Cons.prems(2,3) n l x by (simp add: reads_def)
    have r: "read_members m t = Some (kvs, s)"
      unfolding t_def using Cons.IH[OF False, of m] Cons.prems(2,3) n l by simp
    have "\<exists>r. join (map print_member kvs) = CHR ''\"'' # r"
      using False by (cases kvs; cases "tl kvs") (auto simp: json_string_def)
    then have "skip_ws t = t" by (auto simp: skip_ws_Cons t_def)
    then show ?thesis unfolding j using v r n key by (simp add: x skip_ws_Cons sk)
  qed
qed simp

lemma js_dict_distinct: "distinct (map fst kvs) \<Longrightarrow> js_dict kvs = kvs"
proof -
  have "distinct (map fst (d @ kvs)) \<Longrightarrow> fold js_put kvs d = d @ kvs" for d
    by (induction kvs arbitrary: d) (auto simp: js_put_def)
  then show "distinct (map fst kvs) \<Longrightarrow> js_dict kvs = kvs" by (simp add: js_dict_def)
qed

lemma json_print_obj: "json_print (JsObj kvs) = ''{'' @ join (map print_member kvs) @ ''}''"
  by (simp add: comp_def split_def)

lemma reads_json: "json_dict v \<Longrightarrow> reads v"
proof (induction v)
  case (JsStr t)
  show ?case unfolding reads_def
  proof (intro allI impI)
    fix n s assume "2 * length (json_print (JsStr t)) \<le> n"
    then obtain m where "n = Suc m" by (cases n) (auto simp: json_string_def)
    then show "read_value n (json_print (JsStr t) @ s) = Some (JsStr t, s)"
      using read_json_string[of t s] by (simp add: json_string_def)
  qed
next
  case (JsInt i)
  show ?case unfolding reads_def
  proof (intro allI impI)
    fix n s assume a: "ends_value s" "2 * length (json_print (JsInt i)) \<le> n"
    obtain c r where c: "int_str i = c # r" by (cases "int_str i") (auto simp: int_str_def split: if_splits)
    then have "of_char c \<in> {45} \<union> {48..57::nat}" using set_int_str[of c i] by simp
    then have "c \<notin> {CHR ''\"'', CHR ''{'', CHR ''['', CHR ''n'', CHR ''t'', CHR ''f''}" by auto
    moreover obtain m where "n = Suc m" using a c by (cases n) auto
    ultimately show "read_value n (json_print (JsInt i) @ s) = Some (JsInt i, s)"
      using read_int_str[OF a(1), of i] c by (simp add: starts_def)
  qed
next
  case (JsList xs)
  show ?case unfolding reads_def
  proof (intro allI impI)
    fix n s assume a: "2 * length (json_print (JsList xs)) \<le> n"
    then obtain m where n: "n = Suc m" by (cases n) auto
    show "read_value n (json_print (JsList xs) @ s) = Some (JsList xs, s)"
    proof (cases "xs = []")
      case True
      then show ?thesis using n by (simp add: skip_ws_Cons)
    next
      case False
      then obtain y ys where y: "xs = y # ys" by (cases xs) auto
      obtain c r where c: "json_print y = c # r" "\<not> json_ws c" "c \<noteq> CHR '']''" by (rule json_print_hd)
      have "\<exists>r. join (map json_print xs) @ CHR '']'' # s = c # r" using y c by (cases ys) auto
      then obtain t where t: "join (map json_print xs) @ CHR '']'' # s = c # t" by blast
      have "\<forall>x \<in> set xs. reads x" using JsList by (simp add: list_all_iff)
      from read_elems_join[OF False this, of m s] a n have "read_elems m (c # t) = Some (xs, s)" by (simp add: t)
      then show ?thesis using n c t by (simp add: skip_ws_Cons)
    qed
  qed
next
  case (JsObj kvs)
  show ?case unfolding reads_def
  proof (intro allI impI)
    fix n s assume a: "2 * length (json_print (JsObj kvs)) \<le> n"
    then obtain m where n: "n = Suc m" by (cases n) auto
    show "read_value n (json_print (JsObj kvs) @ s) = Some (JsObj kvs, s)"
    proof (cases "kvs = []")
      case True
      then show ?thesis using n by (simp add: skip_ws_Cons)
    next
      case False
      have "\<exists>r. join (map print_member kvs) @ CHR ''}'' # s = CHR ''\"'' # r"
        using False by (cases kvs; cases "tl kvs") (auto simp: json_string_def)
      then obtain t where t: "join (map print_member kvs) @ CHR ''}'' # s = CHR ''\"'' # t" by blast
      have "\<forall>(k, v) \<in> set kvs. reads v" using JsObj by (fastforce simp: list_all_iff)
      moreover have "2 * length (join (map print_member kvs)) + 1 \<le> m"
        using a n unfolding json_print_obj by simp
      ultimately have r: "read_members m (CHR ''\"'' # t) = Some (kvs, s)"
        using read_members_join[OF False, of m s] unfolding t by blast
      have "js_dict kvs = kvs" using JsObj.prems by (simp add: js_dict_distinct)
      then show ?thesis unfolding json_print_obj using n t r by (simp add: skip_ws_Cons)
    qed
  qed
next
  case JsNull
  show ?case unfolding reads_def
  proof (intro allI impI)
    fix n s assume "2 * length (json_print JsNull) \<le> n"
    then obtain m where "n = Suc m" by (cases n) auto
    then show "read_value n (json_print JsNull @ s) = Some (JsNull, s)" by (simp add: starts_def)
  qed
next
  case (JsBool b)
  show ?case unfolding reads_def
  proof (intro allI impI)
    fix n s assume "2 * length (json_print (JsBool b)) \<le> n"
    then obtain m where "n = Suc m" by (cases n; cases b) auto
    then show "read_value n (json_print (JsBool b) @ s) = Some (JsBool b, s)"
      by (cases b) (simp_all add: starts_def)
  qed
qed

theorem json_roundtrip: "json_dict v \<Longrightarrow> json_loads (json_print v) = Some v"
proof -
  assume "json_dict v"
  then have r: "read_value (2 * length (json_print v) + 2) (json_print v) = Some (v, [])"
    using reads_json[of v] unfolding reads_def by (metis append_Nil2 ends_value_simps(1) le_add1)
  obtain c t where "json_print v = c # t" "\<not> json_ws c" by (rule json_print_hd)
  then have "skip_ws (json_print v) = json_print v" by (simp add: skip_ws_Cons)
  with r show ?thesis by (simp add: json_loads_def) (simp add: skip_ws_def)
qed

lemma json_escape_ascii: "c \<in> set (json_escape d) \<Longrightarrow> of_char c < (128::nat)"
proof (cases "d \<in> {CHR ''\"'', CHR 92, CHR 8, CHR 12, CHR 10, CHR 13, CHR 9}")
  case False
  assume "c \<in> set (json_escape d)"
  with False show ?thesis
    by (auto simp: json_escape_def split: if_splits dest: set_hex_string)
qed (auto simp: json_escape_def)

lemma json_string_ascii: "c \<in> set (json_string t) \<Longrightarrow> of_char c < (128::nat)"
  by (auto simp: json_string_def dest: json_escape_ascii)

lemma set_join: "c \<in> set (join xs) \<Longrightarrow> c = CHR '','' \<or> (\<exists>x \<in> set xs. c \<in> set x)"
  by (induction xs rule: join.induct) auto

lemma json_print_ascii: "c \<in> set (json_print v) \<Longrightarrow> of_char c < (128::nat)"
proof (induction v)
  case (JsInt n)
  then show ?case using set_int_str[of c n] by auto
next
  case (JsList xs)
  then show ?case by (auto dest!: set_join)
next
  case (JsObj kvs)
  from JsObj.prems show ?case unfolding json_print_obj
    by (auto dest!: set_join json_string_ascii) (metis JsObj.IH snds.intros snd_conv)
qed (auto dest: json_string_ascii split: if_splits)

lemma distinct_keys_sort: "distinct (map fst xs) \<Longrightarrow> distinct (map fst (sort_key fst xs))"
  by (simp add: distinct_map)

lemma map_of_sort_key:
  assumes "distinct (map fst xs)"
  shows "map_of (sort_key fst xs) k = map_of xs k"
proof -
  have "map_of (sort_key fst xs) k = Some v \<longleftrightarrow> map_of xs k = Some v" for v
    using map_of_eq_Some_iff[OF distinct_keys_sort[OF assms]] map_of_eq_Some_iff[OF assms] by simp
  then show ?thesis by (metis option.exhaust)
qed

lemma json_sort_dict: "json_dict v \<Longrightarrow> json_dict (json_sort v)"
proof (induction v)
  case (JsList xs)
  then show ?case by (auto simp: list_all_iff)
next
  case (JsObj kvs)
  have "distinct (map fst (sort_key fst (map (map_prod id json_sort) kvs)))"
    using JsObj.prems by (intro distinct_keys_sort) (simp add: comp_def)
  then show ?case using JsObj by (auto simp: list_all_iff snds.simps)
qed auto

section \<open>Sizes\<close>

text \<open>An upper bound on the length of the text of a value, which sorting does not change.\<close>

primrec json_size :: "json \<Rightarrow> nat" where
  "json_size JsNull = 4"
| "json_size (JsBool b) = 5"
| "json_size (JsInt n) = length (int_str n)"
| "json_size (JsStr s) = 6 * length s + 2"
| "json_size (JsList xs) = 2 + sum_list (map Suc (map json_size xs))"
| "json_size (JsObj kvs) = 2 + sum_list (map (\<lambda>(k, n). 6 * length k + 4 + n) (map (map_prod id json_size) kvs))"

lemma length_json_string: "length (json_string s) \<le> 6 * length s + 2"
proof -
  have "length (json_escape c) \<le> 6" for c by (simp add: json_escape_def)
  then have "length (concat (map json_escape s)) \<le> 6 * length s"
    by (induction s) (simp_all, metis add_le_mono)
  then show ?thesis by (simp add: json_string_def)
qed

lemma length_join: "length (join xs) \<le> sum_list (map (\<lambda>x. Suc (length x)) xs)"
  by (induction xs rule: join.induct) auto

lemma sum_list_sort_key: "sum_list (map f (sort_key g xs)) = sum_list (map f xs)"
  for f :: "'a \<Rightarrow> nat"
  by (metis mset_map mset_sort sum_mset_sum_list)

lemma length_json_print: "length (json_print v) \<le> json_size v"
proof (induction v)
  case (JsStr s)
  then show ?case using length_json_string by simp
next
  case (JsList xs)
  then have "sum_list (map (\<lambda>x. Suc (length (json_print x))) xs) \<le> sum_list (map (\<lambda>x. Suc (json_size x)) xs)"
    by (intro sum_list_mono) simp
  then show ?case using length_join[of "map json_print xs"] by (simp add: comp_def)
next
  case (JsObj kvs)
  have "Suc (length (print_member x)) \<le> 6 * length (fst x) + 4 + json_size (snd x)" if "x \<in> set kvs" for x
    using JsObj[OF that] length_json_string[of "fst x"] by (auto simp: split_def snds.simps)
  then have "sum_list (map (\<lambda>x. Suc (length (print_member x))) kvs) \<le>
      sum_list (map (\<lambda>x. 6 * length (fst x) + 4 + json_size (snd x)) kvs)"
    by (intro sum_list_mono) simp
  then show ?case unfolding json_print_obj using length_join[of "map print_member kvs"]
    by (simp add: comp_def split_def)
qed auto

lemma json_size_sort: "json_size (json_sort v) = json_size v"
proof (induction v)
  case (JsList xs)
  then show ?case by (simp add: comp_def cong: map_cong)
next
  case (JsObj kvs)
  have "map (\<lambda>x. 6 * length (fst x) + 4 + json_size (json_sort (snd x))) kvs =
      map (\<lambda>x. 6 * length (fst x) + 4 + json_size (snd x)) kvs"
    using JsObj by (auto simp: snds.simps)
  from arg_cong[OF this, of sum_list] show ?case by (simp only: json_sort.simps json_size.simps map_map sum_list_sort_key)
      (simp add: comp_def split_def)
qed auto

lemma length_json_dumps: "length (json_dumps v) \<le> json_size v"
  using length_json_print[of "json_sort v"] by (simp add: json_dumps_def json_size_sort)

end
