(* ===== verification/Jwt.thy ===== *)
theory Jwt
  imports Samples Json
begin

text \<open>
  \<open>security/jwt.py\<close>: the tokens of the API, minted and checked. RSA (the package \<open>cryptography\<close>, with the
  keys the settings load) is the argument \<open>rsa\<close>; the locale \<open>rsa_laws\<close> states what is documented of it: a
  signature is a non-empty byte string that verifies. A token is rejected with \<open>None\<close> where the code
  raises \<open>_JwtDecodeError\<close>; payload texts are ASCII. \<open>now\<close> is the clock.
\<close>

section \<open>Encoding\<close>

type_synonym claims = "(string \<times> json) list"

record rsa =
  rsa_sign :: "string \<Rightarrow> bytes"
  rsa_verify :: "bytes \<Rightarrow> string \<Rightarrow> bool"

definition MAX_JWT_BYTES :: nat where
  "MAX_JWT_BYTES = 8192"

definition epoch_seconds :: "time \<Rightarrow> int" where
  "epoch_seconds t = t div 1000000"

definition jwt_b64url_decode :: "string \<Rightarrow> bytes option" where
  "jwt_b64url_decode v = (if v = [] \<or> (\<exists>c \<in> set v. \<not> b64url_char c) then None else b64url_decode v)"

definition json_b64url_encode :: "claims \<Rightarrow> string" where
  "json_b64url_encode v = b64url_encode (ascii_encode (json_dumps (JsObj v)))"

definition json_b64url_decode :: "string \<Rightarrow> claims option" where
  "json_b64url_decode v =
     (case jwt_b64url_decode v of
        None \<Rightarrow> None
      | Some raw \<Rightarrow>
          (case ascii_decode raw of
             None \<Rightarrow> None
           | Some t \<Rightarrow> (case json_loads t of Some (JsObj o1) \<Rightarrow> Some o1 | _ \<Rightarrow> None)))"

definition encode_rs256 :: "rsa \<Rightarrow> settings \<Rightarrow> claims \<Rightarrow> string" where
  "encode_rs256 rsa s claims =
     (let header = [(''alg'', JsStr (jwt_algorithm s)), (''typ'', JsStr ''JWT'')];
          signing_input = json_b64url_encode header @ ''.'' @ json_b64url_encode claims
      in signing_input @ ''.'' @ b64url_encode (rsa_sign rsa signing_input))"

section \<open>Decoding\<close>

text \<open>\<open>isinstance(v, int)\<close> and the number; a boolean is an integer.\<close>

fun js_int :: "json option \<Rightarrow> int option" where
  "js_int (Some (JsInt n)) = Some n"
| "js_int (Some (JsBool b)) = Some (if b then 1 else 0)"
| "js_int _ = None"

fun js_str :: "json option \<Rightarrow> string option" where
  "js_str (Some (JsStr t)) = Some t"
| "js_str _ = None"

definition audience_matches :: "string \<Rightarrow> json option \<Rightarrow> bool" where
  "audience_matches audience aud =
     (case aud of
        Some (JsStr a) \<Rightarrow> a = audience
      | Some (JsList xs) \<Rightarrow> (\<forall>x \<in> set xs. js_str (Some x) \<noteq> None) \<and> JsStr audience \<in> set xs
      | _ \<Rightarrow> False)"

definition validate_registered_claims :: "settings \<Rightarrow> string option \<Rightarrow> time \<Rightarrow> claims \<Rightarrow> bool" where
  "validate_registered_claims s audience now claims =
     (map_of claims ''iss'' = Some (JsStr (jwt_issuer s)) \<and>
      (case js_int (map_of claims ''exp'') of None \<Rightarrow> False | Some e \<Rightarrow> \<not> e \<le> epoch_seconds now) \<and>
      (case audience of None \<Rightarrow> True | Some a \<Rightarrow> audience_matches a (map_of claims ''aud'')))"

definition decode_rs256 :: "rsa \<Rightarrow> settings \<Rightarrow> string option \<Rightarrow> time \<Rightarrow> string \<Rightarrow> claims option" where
  "decode_rs256 rsa s audience now token =
     (if length token > MAX_JWT_BYTES then None
      else
        (case py_split CHR ''.'' token of
           [header_segment, payload_segment, signature_segment] \<Rightarrow>
             (case (json_b64url_decode header_segment, json_b64url_decode payload_segment) of
                (Some header, Some claims) \<Rightarrow>
                  if map_of header ''alg'' \<noteq> Some (JsStr (jwt_algorithm s)) then None
                  else if (case map_of header ''typ'' of None \<Rightarrow> False | Some v \<Rightarrow> v \<noteq> JsStr ''JWT'') then None
                  else
                    (case jwt_b64url_decode signature_segment of
                       None \<Rightarrow> None
                     | Some signature \<Rightarrow>
                         if \<not> rsa_verify rsa signature (header_segment @ ''.'' @ payload_segment) then None
                         else if validate_registered_claims s audience now claims then Some claims else None)
              | _ \<Rightarrow> None)
         | _ \<Rightarrow> None))"

definition decode_token ::
  "rsa \<Rightarrow> settings \<Rightarrow> string \<Rightarrow> string option \<Rightarrow> time \<Rightarrow> string \<Rightarrow> exn + claims" where
  "decode_token rsa s expected_type audience now token =
     (case decode_rs256 rsa s audience now token of
        None \<Rightarrow> Inl AuthenticationError
      | Some decoded \<Rightarrow>
          if map_of decoded ''type'' \<noteq> Some (JsStr expected_type) \<or> js_str (map_of decoded ''sub'') = None \<or>
             js_str (map_of decoded ''jti'') = None \<or> js_int (map_of decoded ''iat'') = None \<or>
             js_int (map_of decoded ''sv'') = None \<or>
             (expected_type = ''playback'' \<and>
              (js_str (map_of decoded ''vid'') = None \<or> js_str (map_of decoded ''tid'') = None \<or>
               js_str (map_of decoded ''role'') = None))
          then Inl AuthenticationError else Inr decoded)"

section \<open>Minting\<close>

text \<open>\<open>jti\<close> is the given id, or the fresh UUID the code draws.\<close>

definition build_claims ::
  "settings \<Rightarrow> uuid \<Rightarrow> user_role \<Rightarrow> uuid list \<Rightarrow> int \<Rightarrow> string \<Rightarrow> time \<Rightarrow> string \<Rightarrow> time \<Rightarrow> claims" where
  "build_claims s subject role team_ids session_version token_type expires_in jti now =
     [(''sub'', JsStr (uuid_str subject)), (''role'', JsStr (user_role_value role)),
      (''team_ids'', JsList (map (\<lambda>t. JsStr (uuid_str t)) team_ids)), (''sv'', JsInt session_version),
      (''type'', JsStr token_type), (''iss'', JsStr (jwt_issuer s)),
      (''iat'', JsInt (epoch_seconds now)), (''exp'', JsInt (epoch_seconds (now + expires_in))),
      (''jti'', JsStr jti)]"

definition create_access_token ::
  "rsa \<Rightarrow> settings \<Rightarrow> uuid \<Rightarrow> user_role \<Rightarrow> int \<Rightarrow> uuid list \<Rightarrow> uuid \<Rightarrow> time \<Rightarrow> string" where
  "create_access_token rsa s subject role session_version team_ids fresh now =
     encode_rs256 rsa s (build_claims s subject role team_ids session_version ''access''
       (seconds (60 * access_token_expire_minutes s)) (uuid_str fresh) now)"

definition create_refresh_token ::
  "rsa \<Rightarrow> settings \<Rightarrow> uuid \<Rightarrow> user_role \<Rightarrow> int \<Rightarrow> uuid list \<Rightarrow> string \<Rightarrow> time \<Rightarrow> string" where
  "create_refresh_token rsa s subject role session_version team_ids jti now =
     encode_rs256 rsa s (build_claims s subject role team_ids session_version ''refresh''
       (days (refresh_token_expire_days s)) jti now)"

definition create_playback_token ::
  "rsa \<Rightarrow> settings \<Rightarrow> uuid \<Rightarrow> user_role \<Rightarrow> int \<Rightarrow> uuid \<Rightarrow> uuid \<Rightarrow> time option \<Rightarrow> uuid \<Rightarrow> time \<Rightarrow> string \<times> time" where
  "create_playback_token rsa s subject role session_version video_id team_id expires_in fresh now =
     (let ttl = (case expires_in of Some t \<Rightarrow> if t = 0 then seconds (playback_token_expire_seconds s) else t
            | None \<Rightarrow> seconds (playback_token_expire_seconds s));
          expires_at = now + ttl
      in (encode_rs256 rsa s
            [(''sub'', JsStr (uuid_str subject)), (''role'', JsStr (user_role_value role)),
             (''sv'', JsInt session_version), (''type'', JsStr ''playback''),
             (''aud'', JsStr (playback_token_audience s)), (''vid'', JsStr (uuid_str video_id)),
             (''tid'', JsStr (uuid_str team_id)), (''iss'', JsStr (jwt_issuer s)),
             (''iat'', JsInt (epoch_seconds now)), (''exp'', JsInt (epoch_seconds expires_at)),
             (''jti'', JsStr (uuid_str fresh))], expires_at))"

section \<open>What RSA promises\<close>

locale rsa_laws =
  fixes rsa :: rsa
  assumes sign_bytes: "is_bytes (rsa_sign rsa m)"
    and sign_nonempty: "rsa_sign rsa m \<noteq> []"
    and verify_sign: "rsa_verify rsa (rsa_sign rsa m) m"

lemma segment_decode: "is_bytes bs \<Longrightarrow> bs \<noteq> [] \<Longrightarrow> jwt_b64url_decode (b64url_encode bs) = Some bs"
  using b64url_roundtrip[of bs] b64url_encode_chars[of bs]
  by (auto simp: jwt_b64url_decode_def b64url_decode_def urlsafe_b64decode_def b64decode_def b64_padding_def)

lemma segment_no_dot: "is_bytes bs \<Longrightarrow> CHR ''.'' \<notin> set (b64url_encode bs)"
  using b64url_encode_ascii by blast

definition sorted_claims :: "claims \<Rightarrow> claims" where
  "sorted_claims o1 = sort_key fst (map (map_prod id json_sort) o1)"

lemma json_segment_roundtrip:
  assumes "json_dict (JsObj o1)"
  shows "json_b64url_decode (json_b64url_encode o1) = Some (sorted_claims o1)"
proof -
  let ?t = "json_dumps (JsObj o1)"
  have "ascii_encode ?t \<noteq> []" by (simp add: ascii_encode_def json_dumps_def)
  moreover have "ascii_decode (ascii_encode ?t) = Some ?t"
    by (rule ascii_decode_encode) (auto simp: json_dumps_def intro: json_print_ascii simp del: json_print.simps)
  moreover have "json_loads ?t = Some (JsObj (sorted_claims o1))"
    unfolding json_dumps_def using json_roundtrip[OF json_sort_dict[OF assms]] by (simp add: sorted_claims_def)
  ultimately show ?thesis
    by (simp add: json_b64url_decode_def json_b64url_encode_def segment_decode)
qed

lemma map_of_sorted_claims:
  assumes "distinct (map fst o1)" and "\<forall>(k, v) \<in> set o1. json_sort v = v"
  shows "map_of (sorted_claims o1) k = map_of o1 k"
proof -
  have "map (map_prod id json_sort) o1 = o1" using assms(2) by (intro map_idI) auto
  then show ?thesis using map_of_sort_key[OF assms(1)] by (simp add: sorted_claims_def)
qed

context rsa_laws
begin

text \<open>A minted token decodes to the claims it was minted with or not at all.\<close>

lemma decode_encode_iff:
  assumes "json_dict (JsObj claims)" and "length (encode_rs256 rsa s claims) \<le> MAX_JWT_BYTES"
  shows "decode_rs256 rsa s audience now (encode_rs256 rsa s claims) =
    (if validate_registered_claims s audience now (sorted_claims claims) then Some (sorted_claims claims) else None)"
proof -
  define header where "header = [(''alg'', JsStr (jwt_algorithm s)), (''typ'', JsStr ''JWT'')]"
  define h where "h = json_b64url_encode header"
  define p where "p = json_b64url_encode claims"
  define g where "g = b64url_encode (rsa_sign rsa (h @ ''.'' @ p))"
  have tok: "encode_rs256 rsa s claims = h @ CHR ''.'' # p @ CHR ''.'' # g"
    by (simp add: encode_rs256_def Let_def header_def h_def p_def g_def)
  have nd: "CHR ''.'' \<notin> set h" "CHR ''.'' \<notin> set p" "CHR ''.'' \<notin> set g"
    unfolding h_def p_def g_def json_b64url_encode_def
    by (rule segment_no_dot[OF is_bytes_ascii_encode] segment_no_dot[OF sign_bytes])+
  have sp: "py_split CHR ''.'' (encode_rs256 rsa s claims) = [h, p, g]"
    unfolding tok by (simp add: py_split_append py_split_none nd)
  have dh: "json_dict (JsObj header)" "distinct (map fst header)" "\<forall>(k, v) \<in> set header. json_sort v = v"
    by (simp_all add: header_def)
  have "json_b64url_decode h = Some (sorted_claims header)" "json_b64url_decode p = Some (sorted_claims claims)"
    unfolding h_def p_def by (rule json_segment_roundtrip[OF dh(1)] json_segment_roundtrip[OF assms(1)])+
  moreover have "map_of (sorted_claims header) ''alg'' = Some (JsStr (jwt_algorithm s))"
    "map_of (sorted_claims header) ''typ'' = Some (JsStr ''JWT'')"
    by (simp_all add: map_of_sorted_claims[OF dh(2,3)]) (simp_all add: header_def)
  moreover have "jwt_b64url_decode g = Some (rsa_sign rsa (h @ ''.'' @ p))"
    unfolding g_def by (rule segment_decode[OF sign_bytes sign_nonempty])
  ultimately show ?thesis using assms(2) verify_sign[of "h @ ''.'' @ p"]
    by (simp add: decode_rs256_def sp)
qed

lemma decode_encode:
  assumes "json_dict (JsObj claims)" and "length (encode_rs256 rsa s claims) \<le> MAX_JWT_BYTES"
    and "validate_registered_claims s audience now (sorted_claims claims)"
  shows "decode_rs256 rsa s audience now (encode_rs256 rsa s claims) = Some (sorted_claims claims)"
  using decode_encode_iff[OF assms(1,2)] assms(3) by simp

end

text \<open>The parts of a split string, joined again.\<close>

fun join_with :: "char \<Rightarrow> string list \<Rightarrow> string" where
  "join_with sep [] = []"
| "join_with sep [p] = p"
| "join_with sep (p # ps) = p @ sep # join_with sep ps"

lemma py_split_join: "join_with sep (py_split sep s) = s"
proof (induction s)
  case (Cons c s)
  show ?case
  proof (cases "py_split sep s")
    case (Cons p ps)
    with Cons.IH show ?thesis using py_split_nonempty[of sep s] by (cases ps) auto
  qed (use py_split_nonempty in blast)
qed simp

lemma decode_minted:
  assumes "rsa_laws rsa" and "token_type \<noteq> ''playback''"
    and "claims = build_claims s subject role team_ids sv token_type expires_in jti issued"
    and "length (encode_rs256 rsa s claims) \<le> MAX_JWT_BYTES" and "epoch_seconds now < epoch_seconds (issued + expires_in)"
  shows "\<exists>decoded. decode_token rsa s token_type None now (encode_rs256 rsa s claims) = Inr decoded \<and>
    (\<forall>k. map_of decoded k = map_of claims k)"
proof -
  have d: "json_dict (JsObj claims)" by (simp add: assms(3) build_claims_def list_all_iff)
  have g: "map_of (sorted_claims claims) k = map_of claims k" for k
    by (rule map_of_sorted_claims) (use d in \<open>simp_all add: assms(3) build_claims_def\<close>)
  have "validate_registered_claims s None now (sorted_claims claims)"
    using assms(5) by (simp add: validate_registered_claims_def g) (simp add: assms(3) build_claims_def)
  from rsa_laws.decode_encode[OF assms(1) d assms(4) this]
  have "decode_token rsa s token_type None now (encode_rs256 rsa s claims) = Inr (sorted_claims claims)"
    using assms(2) by (simp add: decode_token_def g) (simp add: assms(3) build_claims_def)
  then show ?thesis using g by blast
qed

section \<open>Properties\<close>

text \<open>
  C19: A minted token is read back. Until it expires, and while it fits the size limit, an access or
  refresh token decodes as a token of its type, and the claims read are the claims minted: the user, the
  role, the teams, the session version and the token id.
\<close>

theorem token_roundtrip:
  assumes "rsa_laws rsa" and "token_type \<noteq> ''playback''"
    and "claims = build_claims s subject role team_ids sv token_type expires_in jti issued"
    and "length (encode_rs256 rsa s claims) \<le> MAX_JWT_BYTES" and "epoch_seconds now < epoch_seconds (issued + expires_in)"
  shows "\<exists>decoded. decode_token rsa s token_type None now (encode_rs256 rsa s claims) = Inr decoded \<and>
    (\<forall>k. map_of decoded k = map_of claims k)"
  using assms by (rule decode_minted)

text \<open>
  Only signed, live tokens of the right kind are accepted. When \<open>decode_token\<close> accepts a token, its
  third segment is a signature that verifies over the first two, and the claims are those of the signed
  payload: issued by this deployment, of the expected type, for the expected audience when one is asked
  for, and not expired.
\<close>

theorem accepted_token_verified:
  assumes "decode_token rsa s expected_type audience now token = Inr claims"
  shows "\<exists>h p g signature raw t e. token = h @ ''.'' @ p @ ''.'' @ g \<and>
    b64url_decode g = Some signature \<and> rsa_verify rsa signature (h @ ''.'' @ p) \<and>
    b64url_decode p = Some raw \<and> ascii_decode raw = Some t \<and> json_loads t = Some (JsObj claims) \<and>
    map_of claims ''type'' = Some (JsStr expected_type) \<and> map_of claims ''iss'' = Some (JsStr (jwt_issuer s)) \<and>
    js_int (map_of claims ''exp'') = Some e \<and> epoch_seconds now < e \<and>
    (\<forall>a. audience = Some a \<longrightarrow> audience_matches a (map_of claims ''aud'')) \<and> length token \<le> MAX_JWT_BYTES"
proof -
  from assms have r: "decode_rs256 rsa s audience now token = Some claims"
    and t: "map_of claims ''type'' = Some (JsStr expected_type)"
    by (auto simp: decode_token_def split: option.splits if_splits)
  from r obtain h p g where sp: "py_split CHR ''.'' token = [h, p, g]"
    by (auto simp: decode_rs256_def split: if_splits list.splits)
  obtain signature where d: "json_b64url_decode p = Some claims" "jwt_b64url_decode g = Some signature"
    "rsa_verify rsa signature (h @ ''.'' @ p)" "validate_registered_claims s audience now claims"
    "length token \<le> MAX_JWT_BYTES"
    using r by (auto simp: decode_rs256_def sp split: if_splits option.splits)
  from d(1) obtain raw u where p: "b64url_decode p = Some raw" "ascii_decode raw = Some u" "json_loads u = Some (JsObj claims)"
    by (auto simp: json_b64url_decode_def jwt_b64url_decode_def split: option.splits if_splits json.splits)
  have g: "b64url_decode g = Some signature" using d(2) by (auto simp: jwt_b64url_decode_def split: if_splits)
  from d(4) obtain e where e: "map_of claims ''iss'' = Some (JsStr (jwt_issuer s))"
    "js_int (map_of claims ''exp'') = Some e" "epoch_seconds now < e"
    "\<forall>a. audience = Some a \<longrightarrow> audience_matches a (map_of claims ''aud'')"
    by (auto simp: validate_registered_claims_def split: option.splits)
  have tok: "token = h @ ''.'' @ p @ ''.'' @ g" using py_split_join[of "CHR ''.''" token] sp by simp
  show ?thesis
    by (intro exI[of _ h] exI[of _ p] exI[of _ g] exI[of _ signature] exI[of _ raw] exI[of _ u] exI[of _ e] conjI)
      (fact tok g d(3) p e t d(5))+
qed

text \<open>A signature scheme for the witnesses: the checksum of the text.\<close>

definition toy_rsa :: rsa where
  "toy_rsa = \<lparr>rsa_sign = (\<lambda>m. [sum_list (map of_char m) mod 256]),
     rsa_verify = (\<lambda>g m. g = [sum_list (map of_char m) mod 256])\<rparr>"

interpretation toy_rsa: rsa_laws toy_rsa
  by unfold_locales (simp_all add: toy_rsa_def)

definition sample_token :: string where
  "sample_token = create_access_token toy_rsa default_settings 4 UR_COACH 1 [2] 77 (seconds 1000)"

lemma sample_token_eq:
  "sample_token = encode_rs256 toy_rsa default_settings (build_claims default_settings 4 UR_COACH [2] 1 ''access'' (seconds 900) (uuid_str 77) (seconds 1000))"
  by (simp add: sample_token_def create_access_token_def default_settings_def)

lemma length_segment: "length (json_b64url_encode o1) \<le> 2 * json_size (JsObj o1) + 2"
proof -
  have "length (ascii_encode (json_dumps (JsObj o1))) \<le> json_size (JsObj o1)"
    using length_json_dumps by (simp add: ascii_encode_def del: json_size.simps)
  then show ?thesis using length_b64url_encode[of "ascii_encode (json_dumps (JsObj o1))"]
    unfolding json_b64url_encode_def by linarith
qed

lemma length_uuid_str [simp]: "length (uuid_str n) = 36"
  by (simp add: uuid_str_def Let_def)

lemma toy_token_short:
  assumes "json_size (JsObj c) \<le> 1500"
  shows "length (encode_rs256 toy_rsa default_settings c) \<le> MAX_JWT_BYTES"
proof -
  let ?h = "[(''alg'', JsStr (jwt_algorithm default_settings)), (''typ'', JsStr ''JWT'')]"
  have c: "length (json_b64url_encode c) \<le> 3002" using length_segment[of c] assms by linarith
  have "json_size (JsObj ?h) \<le> 200" by (simp add: default_settings_def)
  then have h: "length (json_b64url_encode ?h) \<le> 402" using length_segment[of ?h] by linarith
  have g: "length (b64url_encode (rsa_sign toy_rsa m)) \<le> 4" for m
    using length_b64url_encode[of "rsa_sign toy_rsa m"] by (simp add: toy_rsa_def)
  have "length (encode_rs256 toy_rsa default_settings c) = length (json_b64url_encode ?h) + 1 + length (json_b64url_encode c) + 1 +
      length (b64url_encode (rsa_sign toy_rsa (json_b64url_encode ?h @ ''.'' @ json_b64url_encode c)))"
    by (simp add: encode_rs256_def Let_def)
  also have "\<dots> \<le> 402 + 1 + 3002 + 1 + 4" by (intro add_mono h c g order_refl)
  finally show ?thesis by (simp add: MAX_JWT_BYTES_def)
qed

lemma sample_token_short: "length sample_token \<le> MAX_JWT_BYTES"
proof -
  have "length (int_str 1) \<le> 4" "length (int_str 1000) \<le> 4" "length (int_str 1900) \<le> 4"
    using length_nat_str[of 1 4] length_nat_str[of 1000 4] length_nat_str[of 1900 4] by (simp_all add: int_str_def)
  then show ?thesis unfolding sample_token_eq
    by (intro toy_token_short) (simp add: build_claims_def epoch_seconds_def default_settings_def)
qed

lemma sample_token_decodes:
  "\<exists>claims. decode_token toy_rsa default_settings ''access'' None (seconds 1899) sample_token = Inr claims \<and>
     (\<forall>k. map_of claims k = map_of (build_claims default_settings 4 UR_COACH [2] 1 ''access'' (seconds 900) (uuid_str 77) (seconds 1000)) k)"
  unfolding sample_token_eq
  by (rule decode_minted[OF toy_rsa.rsa_laws_axioms _ refl sample_token_short[unfolded sample_token_eq]])
    (simp_all add: epoch_seconds_def)

theorem token_roundtrip_witness:
  "\<exists>claims. decode_token toy_rsa default_settings ''access'' None (seconds 1899) sample_token = Inr claims \<and>
     map_of claims ''sub'' = Some (JsStr (uuid_str 4))"
proof -
  have "''access'' \<noteq> ''playback''" "epoch_seconds (seconds 1899) < epoch_seconds (seconds 1000 + seconds 900)"
    by (simp_all add: epoch_seconds_def)
  from token_roundtrip[OF toy_rsa.rsa_laws_axioms this(1) refl sample_token_short[unfolded sample_token_eq] this(2)]
  show ?thesis unfolding sample_token_eq by (auto simp: build_claims_def)
qed

theorem accepted_token_verified_witness:
  "\<exists>h p g signature. sample_token = h @ ''.'' @ p @ ''.'' @ g \<and> b64url_decode g = Some signature \<and>
     rsa_verify toy_rsa signature (h @ ''.'' @ p)"
proof -
  obtain claims where "decode_token toy_rsa default_settings ''access'' None (seconds 1899) sample_token = Inr claims"
    using sample_token_decodes by blast
  from accepted_token_verified[OF this] show ?thesis by blast
qed

end
