(* ===== verification/Playback.thy ===== *)
theory Playback
  imports Preview_Worker Uploads Jwt "HOL-Library.AList"
begin

text \<open>
  Watching a video, \<open>routers/videos.py\<close> with \<open>video_playback_status.py\<close> and \<open>demo_preview.py\<close> of the API: the
  detail and status of a video, the signed URL and the token of a playback, the verification of a playback
  token, and the requests for a detector preview. Handlers that look at the preview directory work on a
  \<open>world\<close>. \<open>send\<close> is the broker's answer to a task: its id or an exception. \<open>configured\<close> is
  \<open>storage.is_configured()\<close>. The creation times of videos are left out.
\<close>

section \<open>The playback status\<close>

definition PIPELINE_STAGES :: "processing_job_stage list" where
  "PIPELINE_STAGES = [ST_TRANSCODE, ST_DETECTION, ST_TRACKING, ST_COURT_MAPPING, ST_EVENTS, ST_METRICS]"

definition PLAYBACK_CV_STAGES :: "processing_job_stage list" where
  "PLAYBACK_CV_STAGES = [ST_DETECTION, ST_TRACKING, ST_COURT_MAPPING, ST_EVENTS, ST_METRICS]"

datatype playback_status =
  PB_UPLOADING | PB_QUEUED | PB_TRANSCODING | PB_READY_FOR_PLAYBACK | PB_ANALYSIS_PENDING | PB_ANALYSIS_RUNNING | PB_FAILED

definition derive_playback_status :: "video_row \<Rightarrow> job_row list \<Rightarrow> bool \<Rightarrow> playback_status" where
  "derive_playback_status v js cv_enabled =
     (if v_status v = VS_FAILED then PB_FAILED
      else if v_status v \<in> {VS_PENDING_UPLOAD, VS_UPLOADING} then PB_UPLOADING
      else if v_status v \<in> {VS_UPLOADED, VS_QUEUED} then PB_QUEUED
      else if v_status v \<in> {VS_TRANSCODING, VS_PROCESSING} then PB_TRANSCODING
      else if v_status v \<noteq> VS_PROCESSED then PB_QUEUED
      else if \<not> cv_enabled then PB_READY_FOR_PLAYBACK
      else
        let cv_jobs = filter (\<lambda>j. j_stage j \<in> set PLAYBACK_CV_STAGES) js
        in if \<exists>j \<in> set cv_jobs. j_status j = JS_RUNNING then PB_ANALYSIS_RUNNING
           else if \<not> (\<exists>j \<in> set cv_jobs. j_status j = JS_COMPLETED) then PB_ANALYSIS_PENDING
           else PB_READY_FOR_PLAYBACK)"

section \<open>Issuing playback\<close>

record playback_artifact =
  pa_url :: string
  pa_token :: string
  pa_fmt :: string
  pa_expires_at :: time

definition playback_content_type :: "string \<Rightarrow> string option" where
  "playback_content_type fmt =
     (if fmt = ''hls'' then Some ''application/vnd.apple.mpegurl'' else if fmt = ''mp4'' then Some ''video/mp4'' else None)"

definition playback_candidates :: "video_row \<Rightarrow> (string \<times> string) list" where
  "playback_candidates v =
     (if truthy (v_storage_key_hls v) then [(the (v_storage_key_hls v), ''hls'')] else []) @
     (if truthy (v_storage_key_mezzanine v) then [(the (v_storage_key_mezzanine v), ''mp4'')] else [])"

definition object_metadata_value :: "jobj \<Rightarrow> string \<Rightarrow> string option" where
  "object_metadata_value metadata k =
     (case jget ''Metadata'' metadata of
        Some (JObj m) \<Rightarrow> (case jget k m of Some (JStr x) \<Rightarrow> Some (py_lower x) | _ \<Rightarrow> None)
      | _ \<Rightarrow> None)"

definition playable :: "video_row \<Rightarrow> string \<Rightarrow> jobj \<Rightarrow> bool" where
  "playable v fmt metadata \<longleftrightarrow> uploaded_object_size metadata \<noteq> Some 0 \<and>
     \<not> (fmt = ''mp4'' \<and> truthy (v_storage_output_sha256 v) \<and>
        object_metadata_value metadata ''nbu-output-sha256'' \<noteq> Some (py_lower (the (v_storage_output_sha256 v))))"

definition playback_url_ttl :: "settings \<Rightarrow> int" where
  "playback_url_ttl s = min (playback_url_expires_seconds s) (playback_token_expire_seconds s)"

text \<open>The loop over the candidates: the first playable one with its signed URL.\<close>

fun pick_candidate :: "settings \<Rightarrow> presigner \<Rightarrow> video_row \<Rightarrow> (string \<times> string) list \<Rightarrow> exn + (string \<times> string) option" where
  "pick_candidate s ps v [] = Inr None"
| "pick_candidate s ps v ((storage_key, fmt) # rest) =
     (case ps_head_object ps storage_key of
        Inl e \<Rightarrow> Inl e
      | Inr None \<Rightarrow> pick_candidate s ps v rest
      | Inr (Some metadata) \<Rightarrow>
          if \<not> playable v fmt metadata then pick_candidate s ps v rest
          else
            (case ps_presign_get ps storage_key (playback_url_ttl s) (playback_content_type fmt) of
               Inl e \<Rightarrow> Inl e
             | Inr url \<Rightarrow> Inr (Some (url, fmt))))"

definition try_issue_playback ::
  "rsa \<Rightarrow> settings \<Rightarrow> presigner option \<Rightarrow> uuid \<Rightarrow> time \<Rightarrow> user_row \<Rightarrow> video_row \<Rightarrow> exn + playback_artifact option" where
  "try_issue_playback rsa s storage jti now u v =
     (if v_status v \<noteq> VS_PROCESSED then Inr None
      else if playback_candidates v = [] then Inr None
      else
        (case storage of
           None \<Rightarrow> Inr None
         | Some ps \<Rightarrow>
             (case pick_candidate s ps v (playback_candidates v) of
                Inl e \<Rightarrow> Inl e
              | Inr None \<Rightarrow> Inr None
              | Inr (Some (url, fmt)) \<Rightarrow>
                  let (token, expires_at) = create_playback_token rsa s (u_id u) (u_role u) (u_session_version u) (v_id v) (v_team_id v) None jti now
                  in Inr (Some \<lparr>pa_url = url, pa_token = token, pa_fmt = fmt, pa_expires_at = expires_at\<rparr>))))"

section \<open>Detail and status\<close>

record preview_view =
  vw_status :: string
  vw_url :: "string option"
  vw_generated_at :: "time option"
  vw_error_message :: "string option"

definition demo_preview_view :: "settings \<Rightarrow> time \<Rightarrow> video_row \<Rightarrow> preview_fs \<Rightarrow> preview_view \<times> preview_fs" where
  "demo_preview_view s now v fs =
     (if v_demo_preview_status v \<noteq> ''idle'' \<or> truthy (v_demo_preview_storage_key v)
      then (\<lparr>vw_status = v_demo_preview_status v,
             vw_url = (if truthy (v_demo_preview_storage_key v) then Some (demo_preview_url_path (v_id v)) else None),
             vw_generated_at = (if truthy (v_demo_preview_storage_key v) then v_demo_preview_generated_at v else None),
             vw_error_message = v_demo_preview_error_message v\<rparr>, fs)
      else
        let artifact = resolve_demo_preview s (v_id v) fs;
            (st, fs) = resolve_demo_preview_state s now (v_id v) fs
        in (\<lparr>vw_status = preview_status_value (ps_status st), vw_url = map_option da_url_path artifact,
             vw_generated_at = map_option da_generated_at artifact, vw_error_message = ps_error_message st\<rparr>, fs))"

record video_detail =
  vd_id :: uuid
  vd_game_id :: uuid
  vd_status :: video_status
  vd_playback_status :: playback_status
  vd_filename :: string
  vd_file_size_bytes :: "int option"
  vd_duration_seconds :: "rat option"
  vd_width :: "int option"
  vd_height :: "int option"
  vd_fps :: "rat option"
  vd_codec :: "string option"
  vd_camera_position :: "camera_position option"
  vd_camera_height :: "camera_height option"
  vd_checksum_sha256 :: "string option"
  vd_storage_etag :: "string option"
  vd_storage_output_sha256 :: "string option"
  vd_privacy_consent_id :: "uuid option"
  vd_raw_retention_expires_at :: "time option"
  vd_raw_deleted_at :: "time option"
  vd_thumbnail_url :: "string option"
  vd_playback_url :: "string option"
  vd_playback_token :: "string option"
  vd_playback_format :: "string option"
  vd_token_expires_at :: "time option"
  vd_demo_preview_enabled :: bool
  vd_demo_preview :: preview_view
  vd_processing :: "(string \<times> string) list"

definition processing_summary :: "job_row list \<Rightarrow> (string \<times> string) list" where
  "processing_summary js =
     fold (\<lambda>j m. AList.update (processing_job_stage_value (j_stage j)) (processing_job_status_value (j_status j)) m) js
       (map (\<lambda>x. (processing_job_stage_value x, ''pending'')) PIPELINE_STAGES)"

definition video_detail_response ::
  "settings \<Rightarrow> video_row \<Rightarrow> job_row list \<Rightarrow> playback_artifact option \<Rightarrow> preview_view \<Rightarrow> video_detail" where
  "video_detail_response s v js playback view =
     \<lparr>vd_id = v_id v, vd_game_id = v_game_id v, vd_status = v_status v,
      vd_playback_status = derive_playback_status v js (cv_pipeline_enabled s), vd_filename = v_filename v,
      vd_file_size_bytes = v_file_size_bytes v, vd_duration_seconds = v_duration_seconds v, vd_width = v_width v,
      vd_height = v_height v, vd_fps = v_fps v, vd_codec = v_codec v, vd_camera_position = v_camera_position v,
      vd_camera_height = v_camera_height v, vd_checksum_sha256 = v_checksum_sha256 v, vd_storage_etag = v_storage_etag v,
      vd_storage_output_sha256 = v_storage_output_sha256 v, vd_privacy_consent_id = v_privacy_consent_id v,
      vd_raw_retention_expires_at = v_raw_retention_expires_at v, vd_raw_deleted_at = v_raw_deleted_at v,
      vd_thumbnail_url = v_thumbnail_url v, vd_playback_url = map_option pa_url playback,
      vd_playback_token = map_option pa_token playback, vd_playback_format = map_option pa_fmt playback,
      vd_token_expires_at = map_option pa_expires_at playback,
      vd_demo_preview_enabled = local_demo_preview_enabled s, vd_demo_preview = view,
      vd_processing = processing_summary js\<rparr>"

record stage_status =
  sg_status :: string
  sg_progress_percent :: "int option"
  sg_started_at :: "time option"
  sg_heartbeat_at :: "time option"
  sg_completed_at :: "time option"
  sg_error_message :: "string option"

record video_status_response =
  vs_status :: video_status
  vs_playback_status :: playback_status
  vs_stage :: "string option"
  vs_progress_percent :: int
  vs_stages :: "(string \<times> stage_status) list"

definition stage_status_of :: "job_row \<Rightarrow> stage_status" where
  "stage_status_of j = \<lparr>sg_status = processing_job_status_value (j_status j), sg_progress_percent = Some (j_progress_percent j),
     sg_started_at = j_started_at j, sg_heartbeat_at = j_heartbeat_at j, sg_completed_at = j_completed_at j,
     sg_error_message = j_error_message j\<rparr>"

definition pending_stage :: stage_status where
  "pending_stage = \<lparr>sg_status = ''pending'', sg_progress_percent = None, sg_started_at = None, sg_heartbeat_at = None,
     sg_completed_at = None, sg_error_message = None\<rparr>"

definition video_status_of :: "settings \<Rightarrow> video_row \<Rightarrow> job_row list \<Rightarrow> video_status_response" where
  "video_status_of s v js =
     (let stages = fold (\<lambda>j m. AList.update (processing_job_stage_value (j_stage j)) (stage_status_of j) m) js
            (map (\<lambda>x. (processing_job_stage_value x, pending_stage)) PIPELINE_STAGES);
          (active, progress) = fold (\<lambda>j r. if j_status j = JS_RUNNING
              then (Some (processing_job_stage_value (j_stage j)), j_progress_percent j) else r) js (None, 0)
      in \<lparr>vs_status = v_status v, vs_playback_status = derive_playback_status v js (cv_pipeline_enabled s),
          vs_stage = active, vs_progress_percent = progress, vs_stages = stages\<rparr>)"

text \<open>The first steps of every endpoint on a video: load it, then check the membership.\<close>

definition open_video :: "(db \<Rightarrow> user_row \<Rightarrow> uuid \<Rightarrow> exn + access) \<Rightarrow> user_row \<Rightarrow> uuid \<Rightarrow> db \<Rightarrow> exn + video_row" where
  "open_video gate u video_id d =
     (case load_video d video_id of
        None \<Rightarrow> Inl (NotFoundError E_VIDEO_NOT_FOUND)
      | Some v \<Rightarrow> (case gate d u (v_team_id v) of Inl e \<Rightarrow> Inl e | Inr _ \<Rightarrow> Inr v))"

definition get_video ::
  "rsa \<Rightarrow> settings \<Rightarrow> presigner option \<Rightarrow> uuid \<Rightarrow> (nat \<Rightarrow> time) \<Rightarrow> user_row \<Rightarrow> uuid \<Rightarrow> request \<Rightarrow> world \<Rightarrow> (exn + video_detail) \<times> world" where
  "get_video rsa s storage jti clk u video_id rq w =
     (case open_video require_team_member u video_id (snd w) of
        Inl e \<Rightarrow> (Inl e, w)
      | Inr v \<Rightarrow>
          let js = filter (\<lambda>j. j_video_id j = v_id v) (jobs (snd w))
          in (case try_issue_playback rsa s storage jti (clk 0) u v of
                Inl e \<Rightarrow> (Inl e, w)
              | Inr playback \<Rightarrow>
                  let (view, fs) = demo_preview_view s (clk 1) v (fst w);
                      d = (case playback of
                             None \<Rightarrow> snd w
                           | Some p \<Rightarrow> write_audit rq A_VIDEO_PLAYBACK_ISSUED u ''video'' (Some (v_id v)) (Some (v_team_id v))
                               [(''format'', JStr (pa_fmt p)), (''expires_at'', JTime (pa_expires_at p))] (snd w))
                  in (Inr (video_detail_response s v js playback view), (fs, d))))"

definition get_video_status :: "settings \<Rightarrow> user_row \<Rightarrow> uuid \<Rightarrow> db \<Rightarrow> exn + video_status_response" where
  "get_video_status s u video_id d =
     (case open_video require_team_member u video_id d of
        Inl e \<Rightarrow> Inl e
      | Inr v \<Rightarrow> Inr (video_status_of s v (filter (\<lambda>j. j_video_id j = v_id v) (jobs d))))"

section \<open>Verifying a playback token\<close>

record playback_verified =
  pv_video_id :: uuid
  pv_expires_at :: time

definition verify_playback_token ::
  "rsa \<Rightarrow> settings \<Rightarrow> time \<Rightarrow> user_row \<Rightarrow> uuid \<Rightarrow> string \<Rightarrow> db \<Rightarrow> exn + playback_verified" where
  "verify_playback_token rsa s now u video_id token d =
     (case decode_token rsa s ''playback'' (Some (playback_token_audience s)) now token of
        Inl e \<Rightarrow> Inl e
      | Inr claims \<Rightarrow>
          (case (Option.bind (js_str (map_of claims ''sub'')) parse_uuid, Option.bind (js_str (map_of claims ''vid'')) parse_uuid,
                 Option.bind (js_str (map_of claims ''tid'')) parse_uuid) of
             (Some token_user, Some token_video, Some token_team) \<Rightarrow>
               if token_video \<noteq> video_id then Inl AuthenticationError
               else if token_user \<noteq> u_id u then Inl AuthenticationError
               else if js_int (map_of claims ''sv'') \<noteq> Some (u_session_version u) then Inl AuthenticationError
               else
                 (case load_video d video_id of
                    None \<Rightarrow> Inl (NotFoundError E_VIDEO_NOT_FOUND)
                  | Some v \<Rightarrow>
                      if v_team_id v \<noteq> token_team then Inl AuthenticationError
                      else
                        (case require_team_member d u (v_team_id v) of
                           Inl e \<Rightarrow> Inl e
                         | Inr _ \<Rightarrow>
                             (case js_int (map_of claims ''exp'') of
                                None \<Rightarrow> Inl (PyError ''TypeError'')
                              | Some e \<Rightarrow> Inr \<lparr>pv_video_id = video_id, pv_expires_at = seconds e\<rparr>)))
           | _ \<Rightarrow> Inl AuthenticationError))"

section \<open>Requests for a preview\<close>

record preview_response =
  gr_status :: string
  gr_preview_url :: "string option"
  gr_generated_at :: "time option"

record queued_preview =
  qp_response :: preview_response
  qp_enqueued :: bool
  qp_task_id :: "string option"

definition demo_preview_status :: "string \<Rightarrow> string" where
  "demo_preview_status x = (if x \<in> {''idle'', ''queued'', ''running'', ''completed'', ''failed''} then x else ''idle'')"

definition preview_in_progress :: "string \<Rightarrow> bool" where
  "preview_in_progress x \<longleftrightarrow> x \<in> {''queued'', ''running''}"

definition stored_preview_response :: "string \<Rightarrow> video_row \<Rightarrow> preview_response" where
  "stored_preview_response status v =
     \<lparr>gr_status = status,
      gr_preview_url = (if truthy (v_demo_preview_storage_key v) then Some (demo_preview_url_path (v_id v)) else None),
      gr_generated_at = (if truthy (v_demo_preview_storage_key v) then v_demo_preview_generated_at v else None)\<rparr>"

definition response_for_video_preview_state :: "video_row \<Rightarrow> preview_response" where
  "response_for_video_preview_state v = stored_preview_response (demo_preview_status (v_demo_preview_status v)) v"

definition file_preview_response :: "preview_status \<Rightarrow> preview_artifact option \<Rightarrow> preview_response" where
  "file_preview_response status artifact =
     \<lparr>gr_status = preview_status_value status, gr_preview_url = map_option da_url_path artifact,
      gr_generated_at = map_option da_generated_at artifact\<rparr>"

definition response_for_current_state :: "settings \<Rightarrow> time \<Rightarrow> uuid \<Rightarrow> preview_fs \<Rightarrow> preview_response \<times> preview_fs" where
  "response_for_current_state s now i fs =
     (let (st, fs) = resolve_demo_preview_state s now i fs
      in (file_preview_response (ps_status st) (resolve_demo_preview s i fs), fs))"

definition queue_storage_backed_alpha_preview_request :: "exn + string \<Rightarrow> video_row \<Rightarrow> exn + queued_preview" where
  "queue_storage_backed_alpha_preview_request send v =
     (if preview_in_progress (v_demo_preview_status v)
      then Inr \<lparr>qp_response = response_for_video_preview_state v, qp_enqueued = False, qp_task_id = v_demo_preview_task_id v\<rparr>
      else
        (case send of
           Inl e \<Rightarrow> Inl (ServiceUnavailableError E_DEMO_PREVIEW_FAILED)
         | Inr task \<Rightarrow> Inr \<lparr>qp_response = stored_preview_response ''queued'' v, qp_enqueued = True, qp_task_id = Some task\<rparr>))"

text \<open>The \<open>try\<close> block under the queue lock.\<close>

definition queue_under_lock ::
  "settings \<Rightarrow> exn + string \<Rightarrow> (nat \<Rightarrow> time) \<Rightarrow> uuid \<Rightarrow> preview_fs \<Rightarrow> (exn + queued_preview) \<times> preview_fs" where
  "queue_under_lock s send clk i fs =
     (let (current, fs) = resolve_demo_preview_state s (clk 0) i fs;
          artifact = resolve_demo_preview s i fs
      in if ps_status current \<in> {PV_QUEUED, PV_RUNNING}
         then (Inr \<lparr>qp_response = file_preview_response (ps_status current) artifact, qp_enqueued = False, qp_task_id = None\<rparr>, fs)
         else
           let (queued, fs) = mark_demo_preview_queued s (\<lambda>n. clk (2 + n)) i None (map_option da_generated_at artifact) (Some (clk 1)) fs
           in (case send of
                 Inl e \<Rightarrow>
                   (Inl (ServiceUnavailableError E_DEMO_PREVIEW_FAILED),
                    case artifact of
                      Some a \<Rightarrow> snd (mark_demo_preview_completed s (\<lambda>n. clk (6 + n)) i (ps_task_id queued) (da_generated_at a) fs)
                    | None \<Rightarrow> snd (mark_demo_preview_failed s (\<lambda>n. clk (6 + n)) i (ps_task_id queued)
                        ''Unable to enqueue the local demo preview worker task'' fs))
               | Inr task \<Rightarrow>
                   (Inr \<lparr>qp_response = file_preview_response PV_QUEUED artifact, qp_enqueued = True, qp_task_id = Some task\<rparr>,
                    snd (mark_demo_preview_queued s (\<lambda>n. clk (6 + n)) i (Some task) (map_option da_generated_at artifact)
                      (ps_requested_at queued) fs))))"

definition release_queue_lock :: "uuid \<Rightarrow> preview_fs \<Rightarrow> preview_fs" where
  "release_queue_lock i fs = in_dir i (\<lambda>d. d\<lparr>pd_queue_lock := release_demo_preview_lock (pd_queue_lock d)\<rparr>) fs"

text \<open>The waiting of the queue lock makes the result an option: \<open>None\<close> is a request that never returns.\<close>

definition queue_demo_preview_request ::
  "settings \<Rightarrow> os_view \<Rightarrow> demo_paths \<Rightarrow> bool \<Rightarrow> exn + string \<Rightarrow> time \<Rightarrow> (nat \<Rightarrow> time) \<Rightarrow> (nat \<Rightarrow> time) \<Rightarrow> (nat \<Rightarrow> preview_fs \<Rightarrow> preview_fs) \<Rightarrow>
   (nat \<Rightarrow> time) \<Rightarrow> video_row \<Rightarrow> preview_fs \<Rightarrow> ((exn + queued_preview) \<times> preview_fs) option" where
  "queue_demo_preview_request s os dp configured send start mclk wall others clk v fs =
     (case require_demo_preview_enabled s of
        Inl e \<Rightarrow> Some (Inl e, fs)
      | Inr _ \<Rightarrow>
          (case validate_demo_preview_runtime s os dp False (cv_demo_preview_enabled s) of
             Inl e \<Rightarrow> Some (Inl e, fs)
           | Inr _ \<Rightarrow>
               if v_status v \<noteq> VS_PROCESSED
               then Some (Inl (ConflictError E_INVALID_VIDEO_STATE [(''current_status'', JStr (video_status_value (v_status v)))]), fs)
               else if \<not> truthy (v_storage_key_mezzanine v) then Some (Inl (ConflictError E_INVALID_VIDEO_STATE []), fs)
               else if \<not> configured then Some (Inl (ServiceUnavailableError E_STORAGE_NOT_CONFIGURED), fs)
               else if alpha_detector_preview_enabled s \<and> \<not> cv_demo_preview_enabled s
               then Some (queue_storage_backed_alpha_preview_request send v, fs)
               else if preview_in_progress (v_demo_preview_status v)
               then Some (Inr \<lparr>qp_response = response_for_video_preview_state v, qp_enqueued = False,
                 qp_task_id = v_demo_preview_task_id v\<rparr>, fs)
               else
                 (case acquire_demo_preview_queue_lock s start mclk wall others 1000000 (v_id v) fs of
                    None \<Rightarrow> None
                  | Some (Inl e, fs) \<Rightarrow>
                      let (r, fs) = response_for_current_state s (clk 20) (v_id v) fs
                      in Some (if preview_in_progress (gr_status r)
                               then Inr \<lparr>qp_response = r, qp_enqueued = False, qp_task_id = None\<rparr>
                               else Inl (ServiceUnavailableError E_DEMO_PREVIEW_IN_PROGRESS), fs)
                  | Some (Inr _, fs) \<Rightarrow>
                      let (r, fs) = queue_under_lock s send clk (v_id v) fs in Some (r, release_queue_lock (v_id v) fs))))"

definition preview_requested :: "time \<Rightarrow> queued_preview \<Rightarrow> video_row \<Rightarrow> video_row" where
  "preview_requested now r v = v\<lparr>v_demo_preview_status := gr_status (qp_response r), v_demo_preview_requested_at := Some now,
     v_demo_preview_started_at := None, v_demo_preview_task_id := qp_task_id r, v_demo_preview_error_message := None\<rparr>"

definition reject_preview_request :: "demo_settings \<Rightarrow> user_row \<Rightarrow> video_row \<Rightarrow> request \<Rightarrow> exn \<Rightarrow> db \<Rightarrow> db" where
  "reject_preview_request ds u v rq e d =
     (case e of
        AppError st c x \<Rightarrow> write_audit rq A_VIDEO_DEMO_PREVIEW_REJECTED u ''video'' (Some (v_id v)) (Some (v_team_id v))
          [(''error_code'', JStr c), (''sample_fps'', JInt (ds_sample_fps ds))] d
      | _ \<Rightarrow> d)"

definition create_demo_preview ::
  "settings \<Rightarrow> demo_settings \<Rightarrow> os_view \<Rightarrow> demo_paths \<Rightarrow> presigner option \<Rightarrow> bool \<Rightarrow> exn + unit \<Rightarrow> exn + string \<Rightarrow> time \<Rightarrow>
   (nat \<Rightarrow> time) \<Rightarrow> (nat \<Rightarrow> time) \<Rightarrow> (nat \<Rightarrow> preview_fs \<Rightarrow> preview_fs) \<Rightarrow> (nat \<Rightarrow> time) \<Rightarrow> user_row \<Rightarrow> uuid \<Rightarrow> request \<Rightarrow> world \<Rightarrow>
   ((exn + preview_response) \<times> world) option" where
  "create_demo_preview s ds os dp storage configured rl send start mclk wall others clk u video_id rq w =
     (case require_verified_account s u of
        Inl e \<Rightarrow> Some (Inl e, w)
      | Inr _ \<Rightarrow>
          (case open_video require_team_coach u video_id (snd w) of
             Inl e \<Rightarrow> Some (Inl e, w)
           | Inr v \<Rightarrow>
               (case rl of
                  Inl e \<Rightarrow> Some (Inl e, (fst w, reject_preview_request ds u v rq e (snd w)))
                | Inr _ \<Rightarrow>
                    (case require_storage storage of
                       Inl e \<Rightarrow> Some (Inl e, (fst w, reject_preview_request ds u v rq e (snd w)))
                     | Inr _ \<Rightarrow>
                         (case queue_demo_preview_request s os dp configured send start mclk wall others clk v (fst w) of
                            None \<Rightarrow> None
                          | Some (Inl e, fs) \<Rightarrow> Some (Inl e, (fs, reject_preview_request ds u v rq e (snd w)))
                          | Some (Inr r, fs) \<Rightarrow>
                              if \<not> qp_enqueued r then Some (Inr (qp_response r), (fs, snd w))
                              else Some (Inr (qp_response r),
                                (fs, write_audit rq A_VIDEO_DEMO_PREVIEW_REQUESTED u ''video'' (Some (v_id v)) (Some (v_team_id v))
                                   [(''status'', JStr (gr_status (qp_response r))), (''sample_fps'', JInt (ds_sample_fps ds))]
                                   (put_video (preview_requested (clk 30) r v) (snd w)))))))))"

definition cancel_demo_preview ::
  "settings \<Rightarrow> (nat \<Rightarrow> time) \<Rightarrow> user_row \<Rightarrow> uuid \<Rightarrow> request \<Rightarrow> db \<Rightarrow> (exn + preview_response) \<times> db" where
  "cancel_demo_preview s clk u video_id rq d =
     (case require_verified_account s u of
        Inl e \<Rightarrow> (Inl e, d)
      | Inr _ \<Rightarrow>
          (case open_video require_team_coach u video_id d of
             Inl e \<Rightarrow> (Inl e, d)
           | Inr v \<Rightarrow>
               if \<not> preview_in_progress (v_demo_preview_status v)
               then (Inl (ConflictError E_INVALID_VIDEO_STATE [(''current_status'', JStr (v_demo_preview_status v))]), d)
               else
                 (Inr (stored_preview_response ''failed'' v),
                  write_audit rq A_VIDEO_DEMO_PREVIEW_CANCELLED u ''video'' (Some (v_id v)) (Some (v_team_id v))
                    [(''previous_status'', JStr (v_demo_preview_status v)), (''previous_task_id'', jopt JStr (v_demo_preview_task_id v))]
                    (put_video (v\<lparr>v_demo_preview_status := ''failed'',
                       v_demo_preview_error_message := Some ''Alpha detector preview was cancelled. Fix the local worker setup, then generate again.'',
                       v_demo_preview_task_id := None, v_demo_preview_started_at := None,
                       v_demo_preview_requested_at := Some (clk 0)\<rparr>) d))))"

datatype preview_file = Redirect string | Content string

definition get_demo_preview_artifact ::
  "settings \<Rightarrow> presigner option \<Rightarrow> user_row \<Rightarrow> uuid \<Rightarrow> world \<Rightarrow> exn + preview_file" where
  "get_demo_preview_artifact s storage u video_id w =
     (case open_video require_team_member u video_id (snd w) of
        Inl e \<Rightarrow> Inl e
      | Inr v \<Rightarrow>
          if truthy (v_demo_preview_storage_key v)
          then
            (case require_storage storage of
               Inl e \<Rightarrow> Inl e
             | Inr ps \<Rightarrow>
                 (case ps_head_object ps (the (v_demo_preview_storage_key v)) of
                    Inl e \<Rightarrow> Inl e
                  | Inr metadata \<Rightarrow>
                      if metadata = None \<or> uploaded_object_size (the metadata) = Some 0 then Inl (NotFoundError E_NOT_FOUND)
                      else
                        (case ps_presign_get ps (the (v_demo_preview_storage_key v)) (demo_preview_url_expires_seconds s) (Some ''video/mp4'') of
                           Inl e \<Rightarrow> Inl e
                         | Inr url \<Rightarrow> Inr (Redirect url))))
          else
            (case resolve_demo_preview s (v_id v) (fst w) of
               None \<Rightarrow> Inl (NotFoundError E_NOT_FOUND)
             | Some a \<Rightarrow> Inr (Content (da_output a))))"

section \<open>Lemmas on playback tokens\<close>

lemma create_playback_claims:
  assumes "create_playback_token rsa s sub role sv vid tid None jti now = (tok, expires)" and "rsa_laws rsa"
    and "length tok \<le> MAX_JWT_BYTES"
  obtains claims where "decode_token rsa s ''playback'' (Some (playback_token_audience s)) t tok =
      (if epoch_seconds t < epoch_seconds expires then Inr claims else Inl AuthenticationError)"
    and "map_of claims ''sub'' = Some (JsStr (uuid_str sub))" and "map_of claims ''vid'' = Some (JsStr (uuid_str vid))"
    and "map_of claims ''tid'' = Some (JsStr (uuid_str tid))" and "map_of claims ''sv'' = Some (JsInt sv)"
    and "map_of claims ''exp'' = Some (JsInt (epoch_seconds expires))"
proof -
  define claims where "claims = [(''sub'', JsStr (uuid_str sub)), (''role'', JsStr (user_role_value role)),
     (''sv'', JsInt sv), (''type'', JsStr ''playback''), (''aud'', JsStr (playback_token_audience s)), (''vid'', JsStr (uuid_str vid)),
     (''tid'', JsStr (uuid_str tid)), (''iss'', JsStr (jwt_issuer s)), (''iat'', JsInt (epoch_seconds now)),
     (''exp'', JsInt (epoch_seconds expires)), (''jti'', JsStr (uuid_str jti))]"
  have tok: "tok = encode_rs256 rsa s claims" and ex: "expires = now + seconds (playback_token_expire_seconds s)"
    using assms(1) by (auto simp: create_playback_token_def claims_def Let_def)
  have d: "json_dict (JsObj claims)" by (simp add: claims_def list_all_iff)
  have g: "map_of (sorted_claims claims) k = map_of claims k" for k
    by (rule map_of_sorted_claims) (use d in \<open>simp_all add: claims_def\<close>)
  have val: "validate_registered_claims s (Some (playback_token_audience s)) t (sorted_claims claims) \<longleftrightarrow>
    epoch_seconds t < epoch_seconds expires"
    by (simp add: validate_registered_claims_def g audience_matches_def) (auto simp: claims_def)
  have "decode_token rsa s ''playback'' (Some (playback_token_audience s)) t tok =
      (if epoch_seconds t < epoch_seconds expires then Inr (sorted_claims claims) else Inl AuthenticationError)"
    using rsa_laws.decode_encode_iff[OF assms(2) d assms(3)[unfolded tok], of "Some (playback_token_audience s)" t]
    by (simp add: decode_token_def tok val g) (simp add: claims_def)
  then show thesis by (rule that) (simp_all add: g, simp_all add: claims_def)
qed

lemma try_issue_token:
  assumes "try_issue_playback rsa s storage jti now u v = Inr (Some p)"
  shows "create_playback_token rsa s (u_id u) (u_role u) (u_session_version u) (v_id v) (v_team_id v) None jti now = (pa_token p, pa_expires_at p)"
  using assms by (auto simp: try_issue_playback_def Let_def split: if_splits option.splits sum.splits prod.splits)

lemma get_video_Inr:
  assumes "get_video rsa s storage jti clk u i rq w = (Inr det, w')"
  obtains v p a where "load_video (snd w) i = Some v" and "require_team_member (snd w) u (v_team_id v) = Inr a"
    and "try_issue_playback rsa s storage jti (clk 0) u v = Inr p"
    and "vd_playback_url det = map_option pa_url p" and "vd_playback_token det = map_option pa_token p"
    and "vd_playback_format det = map_option pa_fmt p" and "vd_token_expires_at det = map_option pa_expires_at p"
  using assms
  by (auto simp: get_video_def open_video_def Let_def video_detail_response_def split: option.splits sum.splits prod.splits)

lemma pick_candidate_Some:
  assumes "pick_candidate s ps v cs = Inr (Some (url, fmt))"
  shows "\<exists>before storage_key after md. cs = before @ (storage_key, fmt) # after \<and> ps_head_object ps storage_key = Inr (Some md) \<and>
    playable v fmt md \<and> ps_presign_get ps storage_key (playback_url_ttl s) (playback_content_type fmt) = Inr url \<and>
    (\<forall>(k, f) \<in> set before. \<forall>md. ps_head_object ps k = Inr (Some md) \<longrightarrow> \<not> playable v f md)"
  using assms
proof (induction cs)
  case (Cons c cs)
  obtain k f where c: "c = (k, f)" by (cases c)
  from Cons.prems c obtain m where m: "ps_head_object ps k = Inr m" by (cases "ps_head_object ps k") auto
  show ?case
  proof (cases "\<exists>md. m = Some md \<and> playable v f md")
    case True
    then obtain md where md: "m = Some md" "playable v f md" by blast
    with Cons.prems c m have "f = fmt" "ps_presign_get ps k (playback_url_ttl s) (playback_content_type fmt) = Inr url"
      by (auto split: sum.splits)
    with c m md show ?thesis by (intro exI[of _ "[]"] exI[of _ k] exI[of _ cs] exI[of _ md]) simp
  next
    case False
    with Cons.prems c m have "pick_candidate s ps v cs = Inr (Some (url, fmt))" by (cases m) auto
    from Cons.IH[OF this] obtain b key a md where b: "cs = b @ (key, fmt) # a" "ps_head_object ps key = Inr (Some md)"
      "playable v fmt md" "ps_presign_get ps key (playback_url_ttl s) (playback_content_type fmt) = Inr url"
      "\<forall>(k, f) \<in> set b. \<forall>md. ps_head_object ps k = Inr (Some md) \<longrightarrow> \<not> playable v f md" by blast
    then show ?thesis using c m False
      by (intro exI[of _ "c # b"] exI[of _ key] exI[of _ a] exI[of _ md]) auto
  qed
qed simp

lemma try_issue_Some:
  assumes "try_issue_playback rsa s storage jti now u v = Inr (Some p)"
  shows "v_status v = VS_PROCESSED \<and> (\<exists>ps. storage = Some ps \<and> pick_candidate s ps v (playback_candidates v) = Inr (Some (pa_url p, pa_fmt p)))"
  using assms by (auto simp: try_issue_playback_def Let_def split: if_splits option.splits sum.splits prod.splits)

section \<open>Properties\<close>


text \<open>
  C37: A playback token is good for one viewer, one video and one session. The token of a detail response
  verifies exactly while it has not expired, for the user it was issued to, in the session version it was
  issued in, for its video, while that video is in the same team and the user may still see the team:
  logging out, a password reset or leaving the team end it. User, video and team ids are UUIDs and the token
  fits the size limit.
\<close>

theorem playback_token_valid_exactly:
  assumes "rsa_laws rsa" and "get_video rsa s storage jti clk u i rq w = (Inr det, w')" and "vd_playback_token det = Some tok"
    and "load_video (snd w) i = Some v" and "length tok \<le> MAX_JWT_BYTES" and "u_id u < 2 ^ 128" and "i < 2 ^ 128" and "v_team_id v < 2 ^ 128"
  shows "(\<exists>r. verify_playback_token rsa s now u' j tok d' = Inr r) \<longleftrightarrow>
    j = i \<and> u_id u' = u_id u \<and> u_session_version u' = u_session_version u \<and>
    epoch_seconds now < epoch_seconds (the (vd_token_expires_at det)) \<and>
    (\<exists>v'. load_video d' i = Some v' \<and> v_team_id v' = v_team_id v \<and> (\<exists>a. require_team_member d' u' (v_team_id v) = Inr a))"
proof -
  from assms(2) obtain v0 p a where v: "load_video (snd w) i = Some v0"
    "try_issue_playback rsa s storage jti (clk 0) u v0 = Inr p" "vd_playback_token det = map_option pa_token p"
    "vd_token_expires_at det = map_option pa_expires_at p"
    by (rule get_video_Inr)
  with assms(3,4) obtain q where q: "p = Some q" "pa_token q = tok" "v0 = v" by (cases p) auto
  have id: "v_id v = i" using assms(4) by (auto simp: load_video_def dest: by_key_Some)
  have mint: "create_playback_token rsa s (u_id u) (u_role u) (u_session_version u) i (v_team_id v) None jti (clk 0) = (tok, pa_expires_at q)"
    using try_issue_token[OF v(2)[unfolded q(1)]] q id by simp
  obtain claims where c: "decode_token rsa s ''playback'' (Some (playback_token_audience s)) now tok =
      (if epoch_seconds now < epoch_seconds (pa_expires_at q) then Inr claims else Inl AuthenticationError)"
    "map_of claims ''sub'' = Some (JsStr (uuid_str (u_id u)))" "map_of claims ''vid'' = Some (JsStr (uuid_str i))"
    "map_of claims ''tid'' = Some (JsStr (uuid_str (v_team_id v)))" "map_of claims ''sv'' = Some (JsInt (u_session_version u))"
    "map_of claims ''exp'' = Some (JsInt (epoch_seconds (pa_expires_at q)))"
    by (rule create_playback_claims[OF mint assms(1,5)])
  have ex: "the (vd_token_expires_at det) = pa_expires_at q" using v(4) q(1) by simp
  show ?thesis unfolding ex
    using c(2-6) parse_uuid_str[OF assms(6)] parse_uuid_str[OF assms(7)] parse_uuid_str[OF assms(8)]
    by (auto simp: verify_playback_token_def c(1) split: option.splits sum.splits if_splits)
qed

section \<open>Lemmas on preview requests\<close>

lemma queue_under_lock_enqueued:
  assumes "queue_under_lock s send clk i fs = (Inr q, fs')" and "qp_enqueued q"
  shows "\<exists>task. send = Inr task \<and> gr_status (qp_response q) = ''queued'' \<and> qp_task_id q = Some task"
  using assms
  by (auto simp: queue_under_lock_def Let_def file_preview_response_def split: prod.splits if_splits sum.splits)

lemma queue_request_enqueued:
  assumes "queue_demo_preview_request s os dp configured send start mclk wall others clk v fs = Some (Inr q, fs')" and "qp_enqueued q"
  shows "\<exists>task. send = Inr task \<and> gr_status (qp_response q) = ''queued'' \<and> qp_task_id q = Some task"
  using assms
  by (auto simp: queue_demo_preview_request_def Let_def queue_storage_backed_alpha_preview_request_def stored_preview_response_def
      split: prod.splits if_splits sum.splits option.splits dest: queue_under_lock_enqueued)

lemma queue_request_busy:
  assumes "preview_in_progress (v_demo_preview_status v)"
    and "queue_demo_preview_request s os dp configured send start mclk wall others clk v fs = Some (Inr q, fs')"
  shows "fs' = fs \<and> q = \<lparr>qp_response = response_for_video_preview_state v, qp_enqueued = False, qp_task_id = v_demo_preview_task_id v\<rparr> \<and>
    queue_demo_preview_request s os dp configured send2 start mclk wall others clk v fs = Some (Inr q, fs')"
  using assms
  by (auto simp: queue_demo_preview_request_def queue_storage_backed_alpha_preview_request_def split: if_splits sum.splits)

text \<open>
  A preview is queued once. A request that enqueues a task leaves the video "queued" with that task's
  id and otherwise the videos as they were; and while the video is queued or running, further requests that
  succeed send no task (the answer of the broker makes no difference), change neither the videos nor the
  preview files and report the state as it is stored.
\<close>

theorem preview_queued_once:
  assumes "create_demo_preview s ds os dp storage configured rl send start mclk wall others clk u i rq w = Some (Inr r, w')"
    and "load_video (snd w) i = Some v"
  shows "(videos (snd w') = videos (snd w) \<or>
      (\<exists>task v'. send = Inr task \<and> load_video (snd w') i = Some v' \<and> v_demo_preview_status v' = ''queued'' \<and>
        v_demo_preview_task_id v' = Some task)) \<and>
    (preview_in_progress (v_demo_preview_status v) \<longrightarrow>
      fst w' = fst w \<and> videos (snd w') = videos (snd w) \<and> r = response_for_video_preview_state v \<and>
      (\<forall>send2. create_demo_preview s ds os dp storage configured rl send2 start mclk wall others clk u i rq w = Some (Inr r, w')))"
proof -
  from assms obtain a fs q ps where g: "require_verified_account s u = Inr a" "open_video require_team_coach u i (snd w) = Inr v"
    "queue_demo_preview_request s os dp configured send start mclk wall others clk v (fst w) = Some (Inr q, fs)"
    "rl = Inr ()" "storage = Some ps" "r = qp_response q"
    by (auto simp: create_demo_preview_def open_video_def require_storage_def split: sum.splits option.splits if_splits)
  have id: "v_id v = i" using assms(2) by (auto simp: load_video_def dest: by_key_Some)
  have w': "w' = (if qp_enqueued q
      then (fs, write_audit rq A_VIDEO_DEMO_PREVIEW_REQUESTED u ''video'' (Some (v_id v)) (Some (v_team_id v))
          [(''status'', JStr (gr_status (qp_response q))), (''sample_fps'', JInt (ds_sample_fps ds))]
          (put_video (preview_requested (clk 30) q v) (snd w)))
      else (fs, snd w))"
    using assms(1) g by (simp add: create_demo_preview_def require_storage_def split: if_splits)
  show ?thesis
  proof (intro conjI impI)
    show "videos (snd w') = videos (snd w) \<or> (\<exists>task v'. send = Inr task \<and> load_video (snd w') i = Some v' \<and>
        v_demo_preview_status v' = ''queued'' \<and> v_demo_preview_task_id v' = Some task)"
    proof (cases "qp_enqueued q")
      case True
      then obtain task where t: "send = Inr task" "gr_status (qp_response q) = ''queued''" "qp_task_id q = Some task"
        using queue_request_enqueued[OF g(3)] by blast
      have "load_video (snd w') i = Some (preview_requested (clk 30) q v)"
        using assms(2) True id by (simp add: w' load_video_def put_video_def by_key_put_row preview_requested_def)
      with t show ?thesis by (simp add: preview_requested_def)
    qed (simp add: w')
    assume "preview_in_progress (v_demo_preview_status v)"
    note b = queue_request_busy[OF this g(3)]
    then show "fst w' = fst w" "videos (snd w') = videos (snd w)" "r = response_for_video_preview_state v"
      using g(6) by (auto simp: w')
    show "\<forall>send2. create_demo_preview s ds os dp storage configured rl send2 start mclk wall others clk u i rq w = Some (Inr r, w')"
      using b g by (simp add: create_demo_preview_def require_storage_def w')
  qed
qed

section \<open>Concrete requests\<close>

definition watch_world :: world where
  "watch_world = (empty_fs, sample_db\<lparr>videos := [demo_video\<lparr>v_demo_preview_status := ''queued'', v_demo_preview_task_id := Some ''t''\<rparr>]\<rparr>)"

definition watched :: "(exn + video_detail) \<times> world" where
  "watched = get_video toy_rsa default_settings (Some upload_store) 77 (\<lambda>_. seconds 1000) sample_coach 1 sample_request watch_world"

lemma watched_Inr:
  "\<exists>det w'. watched = (Inr det, w') \<and> vd_playback_url det = Some ''https://store/get'' \<and>
     vd_playback_token det = Some (fst (create_playback_token toy_rsa default_settings 4 UR_COACH 1 1 2 None 77 (seconds 1000))) \<and>
     vd_token_expires_at det = Some (seconds (1000 + playback_token_expire_seconds default_settings))"
proof -
  have p: "try_issue_playback toy_rsa default_settings (Some upload_store) 77 (seconds 1000) sample_coach
      (demo_video\<lparr>v_demo_preview_status := ''queued'', v_demo_preview_task_id := Some ''t''\<rparr>) =
    Inr (Some \<lparr>pa_url = ''https://store/get'', pa_token = fst (create_playback_token toy_rsa default_settings 4 UR_COACH 1 1 2 None 77 (seconds 1000)),
      pa_fmt = ''mp4'', pa_expires_at = seconds (1000 + playback_token_expire_seconds default_settings)\<rparr>)"
    by (simp add: try_issue_playback_def playback_candidates_def demo_video_def sample_defs upload_store_def playable_def
        uploaded_object_size_def create_playback_token_def Let_def)
  have o: "open_video require_team_member sample_coach 1 (snd watch_world) =
      Inr (demo_video\<lparr>v_demo_preview_status := ''queued'', v_demo_preview_task_id := Some ''t''\<rparr>)"
    by (simp add: open_video_def load_video_def watch_world_def demo_video_def sample_defs by_key_def require_team_member_def get_team_membership_def)
  show ?thesis unfolding watched_def get_video_def o sum.case p
    by (simp add: Let_def video_detail_response_def demo_preview_view_def demo_video_def)
qed


lemma playback_token_valid_exactly_witness:
  "\<exists>r. verify_playback_token toy_rsa default_settings (seconds 1001) sample_coach 1 (the (vd_playback_token (projr (fst watched)))) (snd watch_world) = Inr r"
proof -
  let ?v = "demo_video\<lparr>v_demo_preview_status := ''queued'', v_demo_preview_task_id := Some ''t''\<rparr>"
  obtain det w' where d: "watched = (Inr det, w')"
    "vd_playback_token det = Some (fst (create_playback_token toy_rsa default_settings 4 UR_COACH 1 1 2 None 77 (seconds 1000)))"
    "vd_token_expires_at det = Some (seconds (1000 + playback_token_expire_seconds default_settings))" using watched_Inr by blast
  have v: "load_video (snd watch_world) 1 = Some ?v"
    by (simp add: load_video_def watch_world_def demo_video_def sample_defs by_key_def)
  have "length (int_str 1) \<le> 4" "length (int_str 1000) \<le> 4" "length (int_str 1120) \<le> 4"
    using length_nat_str[of 1 4] length_nat_str[of 1000 4] length_nat_str[of 1120 4] by (simp_all add: int_str_def)
  then have sh: "length (fst (create_playback_token toy_rsa default_settings 4 UR_COACH 1 1 2 None 77 (seconds 1000))) \<le> MAX_JWT_BYTES"
    unfolding create_playback_token_def Let_def fst_conv
    by (intro toy_token_short) (simp add: epoch_seconds_def default_settings_def)
  have m: "\<exists>a. require_team_member (snd watch_world) sample_coach (v_team_id ?v) = Inr a"
    by (simp add: watch_world_def demo_video_def sample_defs require_team_member_def get_team_membership_def)
  have "0 < playback_token_expire_seconds default_settings" by (simp add: default_settings_def)
  then have t: "epoch_seconds (seconds 1001) < epoch_seconds (seconds (1000 + playback_token_expire_seconds default_settings))"
    by (simp add: epoch_seconds_def default_settings_def)
  have "u_id sample_coach < 2 ^ 128" "v_team_id ?v < 2 ^ 128" "(1::nat) < 2 ^ 128" by (simp_all add: sample_defs demo_video_def)
  note iff = playback_token_valid_exactly[OF toy_rsa.rsa_laws_axioms d(1)[unfolded watched_def] d(2) v sh this(1) this(3) this(2),
      of "seconds 1001" sample_coach 1 "snd watch_world"]
  show ?thesis unfolding d(1) fst_conv sum.sel d(2) option.sel
    by (rule iff[THEN iffD2]) (use v m t in \<open>simp only: d(3) option.sel\<close>, blast)
qed

lemma preview_queued_once_witness:
  "\<exists>w'. create_demo_preview demo_config demo_sizes demo_os demo_dirs (Some upload_store) True (Inr ()) (Inl StorageException) 0 int int (\<lambda>_. id) int
     sample_coach 1 sample_request watch_world = Some (Inr \<lparr>gr_status = ''queued'', gr_preview_url = None, gr_generated_at = None\<rparr>, w') \<and>
   fst w' = fst watch_world"
proof -
  let ?v = "demo_video\<lparr>v_demo_preview_status := ''queued'', v_demo_preview_task_id := Some ''t''\<rparr>"
  have v: "load_video (snd watch_world) 1 = Some ?v"
    by (simp add: load_video_def watch_world_def demo_video_def sample_defs by_key_def)
  have o: "open_video require_team_coach sample_coach 1 (snd watch_world) = Inr ?v"
    unfolding open_video_def v
    by (simp add: watch_world_def demo_video_def sample_defs require_team_coach_def require_team_member_def get_team_membership_def
        COACH_TEAM_ROLES_def)
  have run: "validate_demo_preview_runtime demo_config demo_os demo_dirs False (cv_demo_preview_enabled demo_config) = Inr ()"
    using demo_tools_succeed by (simp add: tools_succeed_def demo_config_def preview_settings_def)
  have q: "queue_demo_preview_request demo_config demo_os demo_dirs True (Inl StorageException) 0 int int (\<lambda>_. id) int ?v (fst watch_world) =
    Some (Inr \<lparr>qp_response = response_for_video_preview_state ?v, qp_enqueued = False, qp_task_id = v_demo_preview_task_id ?v\<rparr>, fst watch_world)"
    using run demo_enabled demo_not_alpha
    by (simp add: queue_demo_preview_request_def require_demo_preview_enabled_def demo_video_def preview_in_progress_def)
  have "require_verified_account demo_config sample_coach = Inr ()" by (simp add: require_verified_account_def sample_coach_def)
  then have "create_demo_preview demo_config demo_sizes demo_os demo_dirs (Some upload_store) True (Inr ()) (Inl StorageException) 0 int int (\<lambda>_. id) int
     sample_coach 1 sample_request watch_world = Some (Inr (response_for_video_preview_state ?v), watch_world)"
    using o q by (simp add: create_demo_preview_def require_storage_def)
  from preview_queued_once[OF this v] this show ?thesis
    by (simp add: response_for_video_preview_state_def stored_preview_response_def demo_preview_status_def demo_video_def sample_video_def)
qed

end
