(* ===== verification/Events.thy ===== *)
theory Events
  imports Clips Billing Permissions Url_Encoding Json
begin

text \<open>
  The coach review of \<open>routers/videos.py\<close>: the event listing with its cursor, manual tags, the review of an
  event, the clip proposals and the export files. \<open>None\<close> as the event metadata and the SQL operator \<open>->>\<close> on it behave as
  an empty dictionary. Query parameters are taken as FastAPI parsed them, the bounds it checks are
  written out. Text is ASCII; floats are exact rationals.
\<close>

section \<open>Constants\<close>

definition COACH_REVIEW_STATUSES :: "review_status list" where
  "COACH_REVIEW_STATUSES = [RS_NEEDS_REVIEW, RS_APPROVED, RS_REJECTED]"

definition MANUAL_EVENT_SOURCE :: string where
  "MANUAL_EVENT_SOURCE = ''coach_manual_alpha_tag''"

definition VIDEO_EVENTS_MAX_LIMIT :: nat where
  "VIDEO_EVENTS_MAX_LIMIT = 100"

definition DEFAULT_CLIP_PRE_MS :: int where
  "DEFAULT_CLIP_PRE_MS = 4000"

definition DEFAULT_CLIP_POST_MS :: int where
  "DEFAULT_CLIP_POST_MS = 6000"

definition MAX_REVIEW_WINDOW_MS :: int where
  "MAX_REVIEW_WINDOW_MS = 60000"

section \<open>Windows\<close>

datatype event_source = Manual | AlphaModel

fun event_source_value :: "event_source \<Rightarrow> string" where
  "event_source_value Manual = ''manual''"
| "event_source_value AlphaModel = ''alpha_model''"

definition event_meta :: "event_row \<Rightarrow> jobj" where
  "event_meta r = (case ve_event_metadata r of None \<Rightarrow> [] | Some m \<Rightarrow> m)"

definition derive_event_source :: "event_row \<Rightarrow> event_source" where
  "derive_event_source r =
     (if jget ''source'' (event_meta r) = Some (JStr MANUAL_EVENT_SOURCE) then Manual else AlphaModel)"

definition video_duration_ms :: "video_row \<Rightarrow> int option" where
  "video_duration_ms v =
     (case v_duration_seconds v of None \<Rightarrow> None | Some s \<Rightarrow> if s = 0 then None else Some (py_trunc (s * 1000)))"

definition clamp_clip_time :: "int \<Rightarrow> int option \<Rightarrow> int" where
  "clamp_clip_time value duration_ms =
     (let clamped = max 0 value in case duration_ms of None \<Rightarrow> clamped | Some d \<Rightarrow> min clamped d)"

definition json_int :: "jv option \<Rightarrow> int option" where
  "json_int v = (case v of Some (JInt n) \<Rightarrow> Some n | _ \<Rightarrow> None)"

definition window_from_event :: "event_row \<Rightarrow> video_row \<Rightarrow> int \<times> int" where
  "window_from_event r v =
     (let d = video_duration_ms v; m = event_meta r
      in case (ve_clip_start_time_ms r, ve_clip_end_time_ms r) of
           (Some a, Some b) \<Rightarrow> (clamp_clip_time a d, clamp_clip_time b d)
         | _ \<Rightarrow>
             (case (json_int (jget ''clip_start_time_ms'' m), json_int (jget ''clip_end_time_ms'' m)) of
                (Some a, Some b) \<Rightarrow> (clamp_clip_time a d, clamp_clip_time b d)
              | _ \<Rightarrow>
                  let pre = (case json_int (jget ''clip_pre_ms'' m) of Some n \<Rightarrow> n | None \<Rightarrow> DEFAULT_CLIP_PRE_MS);
                      post = (case json_int (jget ''clip_post_ms'' m) of Some n \<Rightarrow> n | None \<Rightarrow> DEFAULT_CLIP_POST_MS);
                      start = clamp_clip_time (ve_event_time_ms r - pre) d;
                      stop = clamp_clip_time (ve_event_time_ms r + post) d
                  in (start, if stop \<le> start then clamp_clip_time (start + 1000) d else stop)))"

definition resolve_clip_window :: "int \<Rightarrow> int option \<Rightarrow> int option \<Rightarrow> int option \<Rightarrow> exn + int \<times> int" where
  "resolve_clip_window event_time_ms duration_ms clip_start clip_end =
     (if (clip_start = None) \<noteq> (clip_end = None)
      then Inl (ValidationFailedError E_VALIDATION_FAILED
        [(''clip_start_time_ms'', jopt JInt clip_start), (''clip_end_time_ms'', jopt JInt clip_end)])
      else
        let start = clamp_clip_time (case clip_start of None \<Rightarrow> max 0 (event_time_ms - DEFAULT_CLIP_PRE_MS) | Some n \<Rightarrow> n) duration_ms;
            stop = clamp_clip_time (case clip_end of None \<Rightarrow> event_time_ms + DEFAULT_CLIP_POST_MS | Some n \<Rightarrow> n) duration_ms
        in if start \<ge> stop
           then Inl (ValidationFailedError E_VALIDATION_FAILED
             [(''clip_start_time_ms'', JInt start), (''clip_end_time_ms'', JInt stop)])
           else if \<not> (start \<le> event_time_ms \<and> event_time_ms \<le> stop)
           then Inl (ValidationFailedError E_VALIDATION_FAILED
             [(''event_time_ms'', JInt event_time_ms), (''clip_start_time_ms'', JInt start), (''clip_end_time_ms'', JInt stop)])
           else if stop - start > MAX_REVIEW_WINDOW_MS
           then Inl (ValidationFailedError E_VALIDATION_FAILED
             [(''clip_start_time_ms'', JInt start), (''clip_end_time_ms'', JInt stop), (''max_window_ms'', JInt MAX_REVIEW_WINDOW_MS)])
           else Inr (start, stop))"

record event_summary =
  es_id :: uuid
  es_event_type :: video_event_type
  es_event_time_ms :: int
  es_clip_start_time_ms :: int
  es_clip_end_time_ms :: int
  es_output_frame :: int
  es_period :: "int option"
  es_game_clock_ms :: "int option"
  es_shot_clock_enabled :: bool
  es_shot_clock_ms :: "int option"
  es_primary_track_key :: "string option"
  es_confidence :: "rat option"
  es_review_status :: review_status
  es_source :: event_source
  es_created_at :: time

definition video_event_summary :: "event_row \<Rightarrow> video_row \<Rightarrow> event_summary" where
  "video_event_summary r v =
     (let (start, stop) = window_from_event r v
      in \<lparr>es_id = ve_id r, es_event_type = ve_event_type r, es_event_time_ms = ve_event_time_ms r,
          es_clip_start_time_ms = start, es_clip_end_time_ms = stop, es_output_frame = ve_output_frame r,
          es_period = ve_period r, es_game_clock_ms = ve_game_clock_ms r, es_shot_clock_enabled = ve_shot_clock_enabled r,
          es_shot_clock_ms = ve_shot_clock_ms r, es_primary_track_key = ve_primary_track_key r,
          es_confidence = ve_confidence r, es_review_status = ve_review_status r,
          es_source = derive_event_source r, es_created_at = ve_created_at r\<rparr>)"

section \<open>The gate of the review surface\<close>

definition open_review :: "user_row \<Rightarrow> uuid \<Rightarrow> db \<Rightarrow> exn + video_row" where
  "open_review u video_id d =
     (case by_key v_id video_id (videos d) of
        None \<Rightarrow> Inl (NotFoundError E_VIDEO_NOT_FOUND)
      | Some v \<Rightarrow> (case require_team_coach d u (v_team_id v) of Inl e \<Rightarrow> Inl e | Inr _ \<Rightarrow> Inr v))"

section \<open>The listing\<close>

text \<open>The cursor: the text \<open>time:id\<close> in URL-safe base 64 without padding.\<close>

definition encode_event_cursor :: "int \<times> uuid \<Rightarrow> string" where
  "encode_event_cursor k = b64url_encode (ascii_encode (int_str (fst k) @ '':'' @ uuid_hex (snd k)))"

definition decode_event_cursor :: "string \<Rightarrow> (int \<times> uuid) option" where
  "decode_event_cursor cursor =
     Option.bind (b64url_decode cursor) (\<lambda>raw. Option.bind (ascii_decode raw) (\<lambda>t.
       (case py_split1 CHR '':'' t of
          (time_part, Some id_part) \<Rightarrow>
            Option.bind (py_int 10 time_part) (\<lambda>n. map_option (Pair n) (parse_uuid id_part))
        | (_, None) \<Rightarrow> None)))"

text \<open>The filters; an empty list of statuses or types filters nothing, as \<open>if review_status:\<close> has it.\<close>

record event_query =
  eq_review_status :: "review_status list"
  eq_event_type :: "video_event_type list"
  eq_source :: "event_source option"

definition event_matches :: "event_query \<Rightarrow> uuid \<Rightarrow> event_row \<Rightarrow> bool" where
  "event_matches q video_id r =
     (ve_video_id r = video_id \<and>
      (eq_review_status q = [] \<or> ve_review_status r \<in> set (eq_review_status q)) \<and>
      (eq_event_type q = [] \<or> ve_event_type r \<in> set (eq_event_type q)) \<and>
      (case eq_source q of None \<Rightarrow> True | Some x \<Rightarrow> derive_event_source r = x))"

definition event_key :: "event_row \<Rightarrow> int \<times> uuid" where
  "event_key r = (ve_event_time_ms r, ve_id r)"

record summary_counts =
  sc_total :: nat
  sc_needs_review :: nat
  sc_approved :: nat
  sc_rejected :: nat
  sc_machine_only :: nat
  sc_alpha_model_source :: nat
  sc_manual_source :: nat

definition compute_event_summary_counts :: "uuid \<Rightarrow> db \<Rightarrow> summary_counts" where
  "compute_event_summary_counts video_id d =
     (let rows = filter (\<lambda>r. ve_video_id r = video_id) (events d);
          count_of = (\<lambda>p. length (filter p rows));
          manual = count_of (\<lambda>r. derive_event_source r = Manual)
      in \<lparr>sc_total = length rows, sc_needs_review = count_of (\<lambda>r. ve_review_status r = RS_NEEDS_REVIEW),
          sc_approved = count_of (\<lambda>r. ve_review_status r = RS_APPROVED),
          sc_rejected = count_of (\<lambda>r. ve_review_status r = RS_REJECTED),
          sc_machine_only = count_of (\<lambda>r. ve_review_status r = RS_MACHINE_ONLY),
          sc_alpha_model_source = length rows - manual, sc_manual_source = manual\<rparr>)"

record events_response =
  er_video_id :: uuid
  er_shot_clock_enabled :: bool
  er_shot_clock_seconds :: "int option"
  er_events :: "event_summary list"
  er_total :: nat
  er_next_cursor :: "string option"
  er_summary :: summary_counts

definition list_video_events ::
  "user_row \<Rightarrow> uuid \<Rightarrow> nat \<Rightarrow> event_query \<Rightarrow> string option \<Rightarrow> db \<Rightarrow> exn + events_response" where
  "list_video_events u video_id limit q cursor d =
     (if limit = 0 \<or> limit > VIDEO_EVENTS_MAX_LIMIT \<or> (case cursor of None \<Rightarrow> False | Some c \<Rightarrow> c = [] \<or> length c > 128)
      then Inl (ValidationFailedError E_VALIDATION_FAILED [])
      else
        (case open_review u video_id d of
           Inl e \<Rightarrow> Inl e
         | Inr v \<Rightarrow>
             let game = by_key g_id (v_game_id v) (games d);
                 filtered = filter (event_matches q (v_id v)) (events d);
                 paginated = sort_key event_key filtered
             in (case (case cursor of None \<Rightarrow> Some paginated
                        | Some c \<Rightarrow> map_option (\<lambda>k. filter (\<lambda>r. fst k < ve_event_time_ms r \<or>
                            ve_event_time_ms r = fst k \<and> snd k < ve_id r) paginated) (decode_event_cursor c)) of
                   None \<Rightarrow> Inl (ValidationFailedError E_VALIDATION_FAILED [(''cursor'', JStr (the cursor))])
                 | Some xs \<Rightarrow>
                     let rows = take (limit + 1) xs; has_more = length rows > limit; page = take limit rows
                     in Inr \<lparr>er_video_id = v_id v,
                          er_shot_clock_enabled = (case game of None \<Rightarrow> False | Some g \<Rightarrow> g_shot_clock_enabled g),
                          er_shot_clock_seconds = Option.bind game g_shot_clock_seconds,
                          er_events = map (\<lambda>r. video_event_summary r v) page, er_total = length filtered,
                          er_next_cursor = (if has_more \<and> page \<noteq> [] then Some (encode_event_cursor (event_key (last page))) else None),
                          er_summary = compute_event_summary_counts (v_id v) d\<rparr>)))"

section \<open>Manual tags and review\<close>

definition estimated_output_frame :: "video_row \<Rightarrow> int \<Rightarrow> int" where
  "estimated_output_frame v event_time_ms =
     (let fps = (case v_fps v of Some f \<Rightarrow> if f > 0 then f else 30 | None \<Rightarrow> 30)
      in max 0 (py_round (of_int event_time_ms / 1000 * fps)))"

record create_event =
  ne_event_type :: video_event_type
  ne_event_time_ms :: int
  ne_clip_start_time_ms :: "int option"
  ne_clip_end_time_ms :: "int option"

definition manual_event :: "uuid \<Rightarrow> time \<Rightarrow> video_row \<Rightarrow> game_row option \<Rightarrow> create_event \<Rightarrow> int \<Rightarrow> int \<Rightarrow> event_row" where
  "manual_event fresh now v game p start stop =
     \<lparr>ve_id = fresh, ve_video_id = v_id v, ve_team_id = v_team_id v, ve_model_artifact_id = None,
      ve_event_type = ne_event_type p, ve_event_time_ms = ne_event_time_ms p,
      ve_clip_start_time_ms = Some start, ve_clip_end_time_ms = Some stop,
      ve_output_frame = estimated_output_frame v (ne_event_time_ms p), ve_period = None, ve_game_clock_ms = None,
      ve_shot_clock_enabled = (case game of None \<Rightarrow> False | Some g \<Rightarrow> g_shot_clock_enabled g), ve_shot_clock_ms = None,
      ve_primary_track_key = None, ve_confidence = None, ve_review_status = RS_NEEDS_REVIEW,
      ve_event_metadata = Some [(''source'', JStr MANUAL_EVENT_SOURCE), (''not_production_analytics'', JBool True),
        (''review_copy'', JStr ''Coach-created alpha tag. Review before export.''),
        (''clip_pre_ms'', JInt (ne_event_time_ms p - start)), (''clip_post_ms'', JInt (stop - ne_event_time_ms p))],
      ve_created_at = now, ve_updated_at = now\<rparr>"

definition create_manual_video_event ::
  "settings \<Rightarrow> uuid \<Rightarrow> time \<Rightarrow> user_row \<Rightarrow> uuid \<Rightarrow> create_event \<Rightarrow> request \<Rightarrow> db \<Rightarrow> (exn + event_summary) \<times> db" where
  "create_manual_video_event s fresh now u video_id p rq d =
     (case require_verified_account s u of
        Inl e \<Rightarrow> (Inl e, d)
      | Inr _ \<Rightarrow>
          (case open_review u video_id d of
             Inl e \<Rightarrow> (Inl e, d)
           | Inr v \<Rightarrow>
               if v_status v \<noteq> VS_PROCESSED
               then (Inl (ConflictError E_INVALID_VIDEO_STATE [(''current_status'', JStr (video_status_value (v_status v)))]), d)
               else if (case video_duration_ms v of None \<Rightarrow> False | Some n \<Rightarrow> ne_event_time_ms p > n)
               then (Inl (ValidationFailedError E_VALIDATION_FAILED [(''duration_ms'', jopt JInt (video_duration_ms v))]), d)
               else
                 (case resolve_clip_window (ne_event_time_ms p) (video_duration_ms v) (ne_clip_start_time_ms p) (ne_clip_end_time_ms p) of
                    Inl e \<Rightarrow> (Inl e, d)
                  | Inr (start, stop) \<Rightarrow>
                      let r = manual_event fresh now v (by_key g_id (v_game_id v) (games d)) p start stop
                      in if fresh \<in> ve_id ` set (events d) then (Inl integrity_error, d)
                         else
                           (Inr (video_event_summary r v),
                            write_audit rq A_VIDEO_EVENT_MANUAL_CREATED u ''video_event'' (Some fresh) (Some (v_team_id v))
                              [(''video_id'', JUuid (v_id v)), (''event_type'', JStr (video_event_type_value (ve_event_type r))),
                               (''event_time_ms'', JInt (ve_event_time_ms r)), (''clip_start_time_ms'', JInt start),
                               (''clip_end_time_ms'', JInt stop), (''not_production_analytics'', JBool True)]
                              (d\<lparr>events := events d @ [r]\<rparr>)))))"

record review_event =
  rv_review_status :: review_status
  rv_clip_start_time_ms :: "int option"
  rv_clip_end_time_ms :: "int option"

definition reviewed_metadata :: "time \<Rightarrow> event_row \<Rightarrow> jobj" where
  "reviewed_metadata now r =
     (let m = jput ''review_source'' (JStr ''coach_review'') (jput ''reviewed_at'' (JTime now) (event_meta r))
      in case (ve_clip_start_time_ms r, ve_clip_end_time_ms r) of
           (Some a, Some b) \<Rightarrow>
             jput ''clip_post_ms'' (JInt (b - ve_event_time_ms r)) (jput ''clip_pre_ms'' (JInt (ve_event_time_ms r - a)) m)
         | _ \<Rightarrow> m)"

definition reviewed_event :: "time \<Rightarrow> review_status \<Rightarrow> event_row \<Rightarrow> event_row" where
  "reviewed_event now status r =
     r\<lparr>ve_review_status := status, ve_event_metadata := Some (reviewed_metadata now r), ve_updated_at := now\<rparr>"

definition review_window :: "review_event \<Rightarrow> video_row \<Rightarrow> event_row \<Rightarrow> exn + event_row" where
  "review_window p v r =
     (if rv_clip_start_time_ms p = None \<and> rv_clip_end_time_ms p = None then Inr r
      else
        (case resolve_clip_window (ve_event_time_ms r) (video_duration_ms v) (rv_clip_start_time_ms p) (rv_clip_end_time_ms p) of
           Inl e \<Rightarrow> Inl e
         | Inr (start, stop) \<Rightarrow> Inr (r\<lparr>ve_clip_start_time_ms := Some start, ve_clip_end_time_ms := Some stop\<rparr>)))"

definition update_video_event_review ::
  "settings \<Rightarrow> time \<Rightarrow> user_row \<Rightarrow> uuid \<Rightarrow> uuid \<Rightarrow> review_event \<Rightarrow> request \<Rightarrow> db \<Rightarrow> (exn + event_summary) \<times> db" where
  "update_video_event_review s now u video_id event_id p rq d =
     (case require_verified_account s u of
        Inl e \<Rightarrow> (Inl e, d)
      | Inr _ \<Rightarrow>
          (case open_review u video_id d of
             Inl e \<Rightarrow> (Inl e, d)
           | Inr v \<Rightarrow>
               if rv_review_status p \<notin> set COACH_REVIEW_STATUSES
               then (Inl (ValidationFailedError E_VALIDATION_FAILED
                      [(''review_status'', JStr (review_status_value (rv_review_status p)))]), d)
               else
                 (case scalar (\<lambda>r. ve_id r = event_id \<and> ve_video_id r = v_id v) (events d) of
                    None \<Rightarrow> (Inl (NotFoundError E_NOT_FOUND), d)
                  | Some r \<Rightarrow>
                      (case review_window p v r of
                         Inl e \<Rightarrow> (Inl e, d)
                       | Inr r1 \<Rightarrow>
                           let r2 = reviewed_event now (rv_review_status p) r1; before = window_from_event r v
                           in (Inr (video_event_summary r2 v),
                               write_audit rq A_VIDEO_EVENT_REVIEWED u ''video_event'' (Some (ve_id r)) (Some (v_team_id v))
                                 [(''video_id'', JUuid (v_id v)),
                                  (''previous_review_status'', JStr (review_status_value (ve_review_status r))),
                                  (''review_status'', JStr (review_status_value (ve_review_status r2))),
                                  (''event_type'', JStr (video_event_type_value (ve_event_type r2))),
                                  (''previous_clip_start_time_ms'', JInt (fst before)), (''previous_clip_end_time_ms'', JInt (snd before)),
                                  (''clip_start_time_ms'', jopt JInt (ve_clip_start_time_ms r2)),
                                  (''clip_end_time_ms'', jopt JInt (ve_clip_end_time_ms r2))]
                                 (d\<lparr>events := put_row ve_id r2 (events d)\<rparr>))))))"

section \<open>Clip proposals\<close>

definition clip_event_from_row :: "event_row \<Rightarrow> video_row \<Rightarrow> clip_event" where
  "clip_event_from_row r v =
     (let (start, stop) = window_from_event r v;
          m = (if ve_clip_start_time_ms r \<noteq> None \<and> ve_clip_end_time_ms r \<noteq> None
               then jput ''clip_post_ms'' (JInt (stop - ve_event_time_ms r))
                      (jput ''clip_pre_ms'' (JInt (ve_event_time_ms r - start)) (event_meta r))
               else event_meta r)
      in \<lparr>ce_id = ve_id r, ce_event_type = video_event_type_value (ve_event_type r), ce_event_time_ms = ve_event_time_ms r,
          ce_confidence = ve_confidence r, ce_review_status = review_status_value (ve_review_status r),
          ce_created_at = Some (ve_created_at r), ce_metadata = Some m\<rparr>)"

text \<open>Rows with the same time and frame come in any order from the database; here in the order of creation.\<close>

definition list_video_clip_proposals :: "user_row \<Rightarrow> uuid \<Rightarrow> nat \<Rightarrow> db \<Rightarrow> exn + clip_proposal list" where
  "list_video_clip_proposals u video_id limit d =
     (case open_review u video_id d of
        Inl e \<Rightarrow> Inl e
      | Inr v \<Rightarrow>
          let rows = take (min (limit * 4) 400) (sort_key (\<lambda>r. (ve_event_time_ms r, ve_output_frame r))
                (filter (\<lambda>r. ve_video_id r = v_id v \<and> ve_review_status r \<in> {RS_NEEDS_REVIEW, RS_MACHINE_ONLY}) (events d)))
          in Inr (filter (\<lambda>p. cp_created_at p \<noteq> None)
               (build_clip_proposals (map (\<lambda>r. clip_event_from_row r v) rows) (v_duration_seconds v) (int limit) False)))"

section \<open>The cursor\<close>

lemma uuid_hex_colon: "c \<in> set (uuid_hex n) \<Longrightarrow> of_char c < (128::nat)"
  by (auto simp: uuid_hex_def dest!: set_hex_string)

lemma int_str_ascii: "c \<in> set (int_str n) \<Longrightarrow> of_char c < (128::nat) \<and> c \<noteq> CHR '':''"
  by (auto dest!: set_int_str)

text \<open>A cursor is read back, for every time the standard library converts and every UUID.\<close>

lemma event_cursor_roundtrip:
  assumes "\<bar>t\<bar> < 10 ^ INT_MAX_STR_DIGITS" and "i < 2 ^ 128"
  shows "decode_event_cursor (encode_event_cursor (t, i)) = Some (t, i)"
proof -
  let ?raw = "int_str t @ CHR '':'' # uuid_hex i"
  have "\<forall>c \<in> set ?raw. of_char c < (128::nat)" using uuid_hex_colon int_str_ascii by auto
  then have a: "ascii_decode (ascii_encode ?raw) = Some ?raw" by (rule ascii_decode_encode)
  have s: "py_split1 CHR '':'' ?raw = (int_str t, Some (uuid_hex i))"
    using py_split1_append[of "CHR '':''" "int_str t" "uuid_hex i"] int_str_ascii by auto
  show ?thesis
    using s by (simp add: decode_event_cursor_def encode_event_cursor_def b64url_roundtrip a py_int_str[OF assms(1)] parse_uuid_hex[OF assms(2)])
qed

lemma length_event_cursor:
  assumes "\<bar>t\<bar> < 10 ^ 12"
  shows "encode_event_cursor (t, i) \<noteq> [] \<and> length (encode_event_cursor (t, i)) \<le> 128"
proof -
  let ?raw = "int_str t @ '':'' @ uuid_hex i"
  have "length (nat_str (nat \<bar>t\<bar>)) \<le> 12" using length_nat_str[of "nat \<bar>t\<bar>" 12] assms by simp
  then have "length (int_str t) \<le> 13" by (cases "t < 0") (simp_all add: int_str_def abs_if)
  then have "length (ascii_encode ?raw) \<le> 46" by (simp add: ascii_encode_def uuid_hex_def)
  then have "length (encode_event_cursor (t, i)) \<le> 128"
    using length_b64url_encode[of "ascii_encode ?raw"] by (simp add: encode_event_cursor_def)
  moreover have "encode_event_cursor (t, i) \<noteq> []"
  proof
    assume "encode_event_cursor (t, i) = []"
    then have "b64url_decode (encode_event_cursor (t, i)) = Some []" by (simp add: b64url_decode_def urlsafe_b64decode_def b64decode_def b64_padding_def)
    then have "ascii_encode ?raw = []" by (simp add: encode_event_cursor_def b64url_roundtrip)
    then show False by (simp add: ascii_encode_def)
  qed
  ultimately show ?thesis by blast
qed

section \<open>Reading every page\<close>

text \<open>What a client does: follow \<open>next_cursor\<close> until there is none. \<open>None\<close> is an error or no fuel.\<close>

fun read_pages :: "nat \<Rightarrow> (string option \<Rightarrow> exn + events_response) \<Rightarrow> string option \<Rightarrow> event_summary list option" where
  "read_pages 0 fetch cursor = None"
| "read_pages (Suc n) fetch cursor =
     (case fetch cursor of
        Inl e \<Rightarrow> None
      | Inr resp \<Rightarrow>
          (case er_next_cursor resp of
             None \<Rightarrow> Some (er_events resp)
           | Some c \<Rightarrow> map_option (\<lambda>rest. er_events resp @ rest) (read_pages n fetch (Some c))))"

lemma after_key_drop:
  assumes "sorted (map f xs)" and "distinct (map f xs)" and "i < length xs"
  shows "filter (\<lambda>x. f (xs ! i) < f x) xs = drop (Suc i) xs"
proof -
  have "filter (\<lambda>x. f (xs ! i) < f x) (take (Suc i) xs) = []"
  proof (unfold filter_empty_conv, intro ballI)
    fix x
    assume "x \<in> set (take (Suc i) xs)"
    then obtain j where j: "j \<le> i" "x = xs ! j" using assms(3) by (auto simp: in_set_conv_nth less_Suc_eq_le)
    then have "f (xs ! j) \<le> f (xs ! i)" using assms(1,3) sorted_nth_mono[of "map f xs" j i] by simp
    then show "\<not> f (xs ! i) < f x" using j(2) by simp
  qed
  moreover have "filter (\<lambda>x. f (xs ! i) < f x) (drop (Suc i) xs) = drop (Suc i) xs"
  proof (rule filter_True, intro ballI)
    fix x
    assume "x \<in> set (drop (Suc i) xs)"
    then obtain k where k: "k < length (drop (Suc i) xs)" "x = drop (Suc i) xs ! k" by (metis in_set_conv_nth)
    define j where "j = Suc i + k"
    have j: "Suc i \<le> j" "j < length xs" "x = xs ! j" using k assms(3) by (simp_all add: j_def)
    have "f (xs ! i) \<le> f (xs ! j)" using assms(1) j sorted_nth_mono[of "map f xs" i j] by simp
    moreover have "f (xs ! i) \<noteq> f (xs ! j)" using assms(2,3) j(1,2) nth_eq_iff_index_eq[of "map f xs" i j] by simp
    ultimately show "f (xs ! i) < f x" using j(3) by simp
  qed
  ultimately show ?thesis using filter_append[of "\<lambda>x. f (xs ! i) < f x" "take (Suc i) xs" "drop (Suc i) xs"] by simp
qed

text \<open>The complete listing: every matching event, by time and id.\<close>

definition all_events :: "event_query \<Rightarrow> video_row \<Rightarrow> db \<Rightarrow> event_row list" where
  "all_events q v d = sort_key event_key (filter (event_matches q (v_id v)) (events d))"

lemma page_response:
  assumes "0 < limit" and "limit \<le> VIDEO_EVENTS_MAX_LIMIT" and "open_review u i d = Inr v"
    and "sorted (map event_key (all_events q v d))" and "distinct (map event_key (all_events q v d))"
    and "n \<le> length (all_events q v d)"
    and "case cursor of None \<Rightarrow> n = 0 | Some c \<Rightarrow> 0 < n \<and> c \<noteq> [] \<and> length c \<le> 128 \<and>
      decode_event_cursor c = Some (event_key (all_events q v d ! (n - 1)))"
  shows "\<exists>resp. list_video_events u i limit q cursor d = Inr resp \<and>
    er_events resp = map (\<lambda>r. video_event_summary r v) (take limit (drop n (all_events q v d))) \<and>
    er_next_cursor resp = (if length (all_events q v d) > n + limit
      then Some (encode_event_cursor (event_key (all_events q v d ! (n + limit - 1)))) else None)"
proof -
  let ?xs = "all_events q v d"
  have rest: "(case cursor of None \<Rightarrow> Some ?xs
      | Some c \<Rightarrow> map_option (\<lambda>k. filter (\<lambda>r. fst k < ve_event_time_ms r \<or> ve_event_time_ms r = fst k \<and> snd k < ve_id r) ?xs)
          (decode_event_cursor c)) = Some (drop n ?xs)"
  proof (cases cursor)
    case None
    then show ?thesis using assms(7) by simp
  next
    case (Some c)
    let ?k = "event_key (?xs ! (n - 1))"
    have n: "n - 1 < length ?xs" "Suc (n - 1) = n" using assms(6,7) Some by auto
    have "filter (\<lambda>r. ?k < event_key r) ?xs = drop n ?xs"
      using after_key_drop[OF assms(4,5) n(1)] unfolding n(2) .
    moreover have "(\<lambda>r. ?k < event_key r) = (\<lambda>r. fst ?k < ve_event_time_ms r \<or> ve_event_time_ms r = fst ?k \<and> snd ?k < ve_id r)"
      by (auto simp: event_key_def less_prod_def')
    ultimately show ?thesis using assms(7) Some by simp
  qed
  have valid: "\<not> (limit = 0 \<or> limit > VIDEO_EVENTS_MAX_LIMIT \<or>
      (case cursor of None \<Rightarrow> False | Some c \<Rightarrow> c = [] \<or> length c > 128))"
    using assms(1,2,7) by (auto split: option.splits)
  have page: "take limit (take (limit + 1) (drop n ?xs)) = take limit (drop n ?xs)" by (simp add: min_def)
  have more: "length (take (limit + 1) (drop n ?xs)) > limit \<longleftrightarrow> length ?xs > n + limit" by auto
  have final: "last (take limit (drop n ?xs)) = ?xs ! (n + limit - 1)" if "length ?xs > n + limit"
    using that assms(1) by (simp add: last_conv_nth)
  have nonempty: "take limit (drop n ?xs) \<noteq> []" if "length ?xs > n + limit" using that assms(1) by simp
  show ?thesis
    unfolding list_video_events_def if_not_P[OF valid] assms(3) sum.case Let_def all_events_def[symmetric] rest option.case
    using page more final nonempty by auto
qed

lemma read_pages_from:
  assumes "0 < limit" and "limit \<le> VIDEO_EVENTS_MAX_LIMIT" and "open_review u i d = Inr v"
    and "sorted (map event_key (all_events q v d))" and "distinct (map event_key (all_events q v d))"
    and keys: "\<forall>r \<in> set (all_events q v d). \<bar>ve_event_time_ms r\<bar> < 10 ^ 12 \<and> ve_id r < 2 ^ 128"
    and "n \<le> length (all_events q v d)" and "length (all_events q v d) < n + fuel"
    and "case cursor of None \<Rightarrow> n = 0 | Some c \<Rightarrow> 0 < n \<and> c \<noteq> [] \<and> length c \<le> 128 \<and>
      decode_event_cursor c = Some (event_key (all_events q v d ! (n - 1)))"
  shows "read_pages fuel (\<lambda>c. list_video_events u i limit q c d) cursor =
    Some (map (\<lambda>r. video_event_summary r v) (drop n (all_events q v d)))"
  using assms(7-9)
proof (induction fuel arbitrary: n cursor)
  case (Suc fuel)
  let ?xs = "all_events q v d"
  obtain resp where r: "list_video_events u i limit q cursor d = Inr resp"
    "er_events resp = map (\<lambda>r. video_event_summary r v) (take limit (drop n ?xs))"
    "er_next_cursor resp = (if length ?xs > n + limit then Some (encode_event_cursor (event_key (?xs ! (n + limit - 1)))) else None)"
    using page_response[OF assms(1-5) Suc.prems(1,3)] by blast
  show ?case
  proof (cases "length ?xs > n + limit")
    case True
    let ?x = "?xs ! (n + limit - 1)"
    have "?x \<in> set ?xs" using True by simp
    then have k: "\<bar>ve_event_time_ms ?x\<bar> < 10 ^ 12" "ve_id ?x < 2 ^ 128" using keys by auto
    have "(10::int) ^ 12 \<le> 10 ^ INT_MAX_STR_DIGITS" by (rule power_increasing) (simp_all add: INT_MAX_STR_DIGITS_def)
    then have dec: "decode_event_cursor (encode_event_cursor (event_key ?x)) = Some (event_key ?x)"
      using event_cursor_roundtrip[of "ve_event_time_ms ?x" "ve_id ?x"] k by (simp add: event_key_def)
    have "read_pages fuel (\<lambda>c. list_video_events u i limit q c d) (Some (encode_event_cursor (event_key ?x))) =
        Some (map (\<lambda>r. video_event_summary r v) (drop (n + limit) ?xs))"
      by (rule Suc.IH) (use True Suc.prems(2) assms(1) dec length_event_cursor[OF k(1)] in \<open>auto simp: event_key_def\<close>)
    moreover have "take limit (drop n ?xs) @ drop (n + limit) ?xs = drop n ?xs"
      by (metis add.commute append_take_drop_id drop_drop)
    ultimately show ?thesis using r True by (simp add: map_append[symmetric] del: map_append)
  next
    case False
    then show ?thesis using r by simp
  qed
qed simp

text \<open>
  C29: Paging loses and repeats nothing. Whatever the filters and the page size (1 to 100), a client that
  follows the cursors of the listing comes to an end, after at most one more request than there are
  matching events, and has then read exactly the matching events of the video once each, in the order of
  time and id. Times within the integer column and ids that are UUIDs are assumed.
\<close>

theorem event_pages_complete:
  assumes "0 < limit" and "limit \<le> VIDEO_EVENTS_MAX_LIMIT" and "open_review u i d = Inr v"
    and "distinct (map ve_id (events d))"
    and "\<forall>r \<in> set (events d). \<bar>ve_event_time_ms r\<bar> < 10 ^ 12 \<and> ve_id r < 2 ^ 128"
  shows "read_pages (Suc (length (all_events q v d))) (\<lambda>c. list_video_events u i limit q c d) None =
    Some (map (\<lambda>r. video_event_summary r v) (all_events q v d))"
proof -
  have "distinct (map ve_id (all_events q v d))"
    using assms(4) by (simp add: all_events_def distinct_map inj_on_def)
  then have "distinct (map event_key (all_events q v d))"
    by (auto simp: distinct_map event_key_def inj_on_def)
  then have "read_pages (Suc (length (all_events q v d))) (\<lambda>c. list_video_events u i limit q c d) None =
    Some (map (\<lambda>r. video_event_summary r v) (drop 0 (all_events q v d)))"
    by (intro read_pages_from[OF assms(1-3)]) (use assms(5) in \<open>auto simp: all_events_def\<close>)
  then show ?thesis by simp
qed

section \<open>Review windows\<close>

lemma clamp_bounds:
  assumes "\<forall>n. d = Some n \<longrightarrow> 0 \<le> n"
  shows "0 \<le> clamp_clip_time x d" and "\<forall>n. d = Some n \<longrightarrow> clamp_clip_time x d \<le> n"
  using assms by (auto simp: clamp_clip_time_def Let_def split: option.splits)

lemma resolved_window:
  assumes "resolve_clip_window t d a b = Inr (start, stop)" and "\<forall>n. d = Some n \<longrightarrow> 0 \<le> n"
  shows "0 \<le> start \<and> start < stop \<and> start \<le> t \<and> t \<le> stop \<and> stop - start \<le> 60000 \<and> (\<forall>n. d = Some n \<longrightarrow> stop \<le> n)"
  using assms clamp_bounds[OF assms(2)]
  by (auto simp: resolve_clip_window_def Let_def MAX_REVIEW_WINDOW_MS_def split: if_splits)

definition valid_window :: "event_row \<Rightarrow> bool" where
  "valid_window r =
     (case (ve_clip_start_time_ms r, ve_clip_end_time_ms r) of
        (Some a, Some b) \<Rightarrow> 0 \<le> a \<and> a < b \<and> a \<le> ve_event_time_ms r \<and> ve_event_time_ms r \<le> b \<and> b - a \<le> 60000
      | (None, None) \<Rightarrow> True
      | _ \<Rightarrow> False)"

definition reviews_inv :: "db \<Rightarrow> bool" where
  "reviews_inv d \<longleftrightarrow> (\<forall>r \<in> set (events d). valid_window r) \<and> distinct (map ve_id (events d)) \<and>
     (\<forall>v \<in> set (videos d). \<forall>s. v_duration_seconds v = Some s \<longrightarrow> 0 \<le> s)"

datatype review_op =
    OpTag settings uuid time user_row uuid create_event request
  | OpReview settings time user_row uuid uuid review_event request

fun exec_review :: "review_op \<Rightarrow> db \<Rightarrow> (exn + event_summary) \<times> db" where
  "exec_review (OpTag s fresh now u video_id p rq) d = create_manual_video_event s fresh now u video_id p rq d"
| "exec_review (OpReview s now u video_id event_id p rq) d = update_video_event_review s now u video_id event_id p rq d"

definition run_reviews :: "review_op list \<Rightarrow> db \<Rightarrow> db" where
  "run_reviews ops d = fold (\<lambda>op d. snd (exec_review op d)) ops d"

lemma open_review_Inr:
  assumes "open_review u i d = Inr v"
  shows "by_key v_id i (videos d) = Some v" and "v \<in> set (videos d)" and "v_id v = i"
    and "\<exists>a. require_team_coach d u (v_team_id v) = Inr a"
  using assms by (auto simp: open_review_def dest: by_key_Some split: option.splits sum.splits)

lemma video_duration_nonneg: "\<forall>s. v_duration_seconds v = Some s \<longrightarrow> 0 \<le> s \<Longrightarrow> video_duration_ms v = Some n \<Longrightarrow> 0 \<le> n"
  by (auto simp: video_duration_ms_def py_trunc_def split: option.splits if_splits)

lemma create_event_Inr:
  assumes "create_manual_video_event s fresh now u i p rq d = (Inr x, d')"
  obtains v start stop where "require_verified_account s u = Inr ()" "open_review u i d = Inr v" "v_status v = VS_PROCESSED"
    "resolve_clip_window (ne_event_time_ms p) (video_duration_ms v) (ne_clip_start_time_ms p) (ne_clip_end_time_ms p) = Inr (start, stop)"
    "fresh \<notin> ve_id ` set (events d)" "videos d' = videos d"
    "events d' = events d @ [manual_event fresh now v (by_key g_id (v_game_id v) (games d)) p start stop]"
    "x = video_event_summary (manual_event fresh now v (by_key g_id (v_game_id v) (games d)) p start stop) v"
  using assms by (auto simp: create_manual_video_event_def Let_def split: sum.splits if_splits)

lemma create_event_Inl: "create_manual_video_event s fresh now u i p rq d = (Inl e, d') \<Longrightarrow> d' = d"
  by (auto simp: create_manual_video_event_def Let_def split: sum.splits if_splits)

lemma review_event_Inr:
  assumes "update_video_event_review s now u i event_id p rq d = (Inr x, d')"
  obtains v r r1 where "require_verified_account s u = Inr ()" "open_review u i d = Inr v"
    "rv_review_status p \<in> set COACH_REVIEW_STATUSES" "scalar (\<lambda>r. ve_id r = event_id \<and> ve_video_id r = v_id v) (events d) = Some r"
    "review_window p v r = Inr r1" "videos d' = videos d"
    "events d' = put_row ve_id (reviewed_event now (rv_review_status p) r1) (events d)"
    "x = video_event_summary (reviewed_event now (rv_review_status p) r1) v"
  using assms by (auto simp: update_video_event_review_def Let_def split: sum.splits if_splits option.splits)

lemma review_event_Inl: "update_video_event_review s now u i event_id p rq d = (Inl e, d') \<Longrightarrow> d' = d"
  by (auto simp: update_video_event_review_def Let_def split: sum.splits if_splits option.splits)

lemma valid_manual_event:
  assumes "resolve_clip_window (ne_event_time_ms p) (video_duration_ms v) a b = Inr (start, stop)"
    and "\<forall>s. v_duration_seconds v = Some s \<longrightarrow> 0 \<le> s"
  shows "valid_window (manual_event fresh now v g p start stop)"
  using resolved_window[OF assms(1)] video_duration_nonneg[OF assms(2)] by (simp add: valid_window_def manual_event_def)

lemma valid_reviewed_event:
  assumes "review_window p v r = Inr r1" and "valid_window r" and "\<forall>s. v_duration_seconds v = Some s \<longrightarrow> 0 \<le> s"
  shows "valid_window (reviewed_event now st r1)" and "ve_id r1 = ve_id r"
proof -
  show "ve_id r1 = ve_id r" using assms(1) by (auto simp: review_window_def split: if_splits sum.splits)
  show "valid_window (reviewed_event now st r1)"
  proof (cases "rv_clip_start_time_ms p = None \<and> rv_clip_end_time_ms p = None")
    case True
    then show ?thesis using assms(1,2) by (simp add: review_window_def valid_window_def reviewed_event_def split: option.splits)
  next
    case False
    then obtain start stop where w: "resolve_clip_window (ve_event_time_ms r) (video_duration_ms v)
        (rv_clip_start_time_ms p) (rv_clip_end_time_ms p) = Inr (start, stop)"
      "r1 = r\<lparr>ve_clip_start_time_ms := Some start, ve_clip_end_time_ms := Some stop\<rparr>"
      using assms(1) by (auto simp: review_window_def split: sum.splits)
    then show ?thesis
      using resolved_window[OF w(1)] video_duration_nonneg[OF assms(3)] by (simp add: valid_window_def reviewed_event_def)
  qed
qed

lemma exec_review_inv:
  assumes "reviews_inv d"
  shows "reviews_inv (snd (exec_review op d))"
proof (cases op)
  case (OpTag s fresh now u i p rq)
  obtain res d' where e: "create_manual_video_event s fresh now u i p rq d = (res, d')" by fastforce
  show ?thesis
  proof (cases res)
    case (Inl x)
    then show ?thesis using e create_event_Inl[OF e[unfolded Inl]] assms OpTag by simp
  next
    case (Inr x)
    from create_event_Inr[OF e[unfolded Inr]] obtain v start stop where
      v: "open_review u i d = Inr v"
      "resolve_clip_window (ne_event_time_ms p) (video_duration_ms v) (ne_clip_start_time_ms p) (ne_clip_end_time_ms p) = Inr (start, stop)"
      "fresh \<notin> ve_id ` set (events d)" "videos d' = videos d"
      "events d' = events d @ [manual_event fresh now v (by_key g_id (v_game_id v) (games d)) p start stop]" by metis
    have "valid_window (manual_event fresh now v g p start stop)" for g
      using valid_manual_event[OF v(2)] open_review_Inr(2)[OF v(1)] assms by (simp add: reviews_inv_def)
    moreover have "ve_id (manual_event fresh now v g p start stop) = fresh" for g by (simp add: manual_event_def)
    ultimately show ?thesis using assms v(3-5) e OpTag by (simp add: reviews_inv_def)
  qed
next
  case (OpReview s now u i event_id p rq)
  obtain res d' where e: "update_video_event_review s now u i event_id p rq d = (res, d')" by fastforce
  show ?thesis
  proof (cases res)
    case (Inl x)
    then show ?thesis using e review_event_Inl[OF e[unfolded Inl]] assms OpReview by simp
  next
    case (Inr x)
    obtain v r r1 where
      v: "require_verified_account s u = Inr ()" "open_review u i d = Inr v" "rv_review_status p \<in> set COACH_REVIEW_STATUSES"
      "scalar (\<lambda>r. ve_id r = event_id \<and> ve_video_id r = v_id v) (events d) = Some r"
      "review_window p v r = Inr r1" "videos d' = videos d"
      "events d' = put_row ve_id (reviewed_event now (rv_review_status p) r1) (events d)"
      "x = video_event_summary (reviewed_event now (rv_review_status p) r1) v"
      by (rule review_event_Inr[OF e[unfolded Inr]])
    have r: "r \<in> set (events d)" using scalar_Some[OF v(4)] by simp
    then have "valid_window (reviewed_event now (rv_review_status p) r1)"
      using valid_reviewed_event(1)[OF v(5)] open_review_Inr(2)[OF v(2)] assms by (simp add: reviews_inv_def)
    then show ?thesis using assms v(6,7) e OpReview
      by (auto simp: reviews_inv_def keys_put_row dest!: set_put_row)
  qed
qed


section \<open>Export files\<close>

text \<open>\<open>datetime.isoformat()\<close> of a UTC time; the date is the proleptic Gregorian one of its day number.\<close>

definition civil_date :: "int \<Rightarrow> int \<times> int \<times> int" where
  "civil_date day =
     (let z = day + 719468; era = z div 146097; doe = z mod 146097;
          yoe = (doe - doe div 1460 + doe div 36524 - doe div 146096) div 365;
          doy = doe - (365 * yoe + yoe div 4 - yoe div 100); mp = (5 * doy + 2) div 153;
          m = (if mp < 10 then mp + 3 else mp - 9)
      in (yoe + era * 400 + (if m \<le> 2 then 1 else 0), m, doy - (153 * mp + 2) div 5 + 1))"

definition pad_int :: "nat \<Rightarrow> int \<Rightarrow> string" where
  "pad_int n x = pad_zeros n (nat_str (nat x))"

definition iso_utc :: "time \<Rightarrow> string" where
  "iso_utc t =
     (let (y, m, day) = civil_date (t div days 1); us = t mod days 1; s = us div 1000000
      in pad_int 4 y @ ''-'' @ pad_int 2 m @ ''-'' @ pad_int 2 day @ ''T'' @ pad_int 2 (s div 3600) @ '':'' @
         pad_int 2 (s div 60 mod 60) @ '':'' @ pad_int 2 (s mod 60) @
         (if us mod 1000000 = 0 then [] else ''.'' @ pad_int 6 (us mod 1000000)) @ ''+00:00'')"

text \<open>
  Milliseconds as seconds: \<open>round(ms / 1000, 3)\<close> prints with up to three decimals and at least one
  (below the magnitudes where a float turns to exponents), \<open>:.3f\<close> with exactly three.
\<close>

definition seconds_fixed :: "int \<Rightarrow> string" where
  "seconds_fixed ms =
     (let n = nat \<bar>ms\<bar> in (if ms < 0 then ''-'' else []) @ nat_str (n div 1000) @ ''.'' @ pad_zeros 3 (nat_str (n mod 1000)))"

definition seconds_repr :: "int \<Rightarrow> string" where
  "seconds_repr ms =
     (let t = rstrip_by (\<lambda>c. c = CHR ''0'') (seconds_fixed ms) in if last t = CHR ''.'' then t @ ''0'' else t)"

definition EVENT_EXPORT_NOTES :: string where
  "EVENT_EXPORT_NOTES = ''Review only. Not production analytics. Direct Hudl cloud export is not implemented.''"

fun export_label :: "video_event_type \<Rightarrow> string" where
  "export_label ET_SHOT_ATTEMPT = ''Shot attempt''"
| "export_label ET_SHOT_MADE = ''Made shot''"
| "export_label ET_REBOUND = ''Rebound''"
| "export_label ET_PASS = ''Pass''"

datatype export_value = XStr string | XInt int | XSeconds int

type_synonym export_row = "(string \<times> export_value) list"

definition safe_event_export_row :: "event_row \<Rightarrow> video_row \<Rightarrow> export_row" where
  "safe_event_export_row r v =
     (let s = video_event_summary r v
      in [(''video_id'', XStr (uuid_str (v_id v))), (''event_id'', XStr (uuid_str (es_id s))),
          (''label'', XStr (export_label (es_event_type s))), (''event_type'', XStr (video_event_type_value (es_event_type s))),
          (''review_status'', XStr (review_status_value (es_review_status s))),
          (''source'', XStr (event_source_value (es_source s))),
          (''clip_start_seconds'', XSeconds (es_clip_start_time_ms s)), (''clip_end_seconds'', XSeconds (es_clip_end_time_ms s)),
          (''event_seconds'', XSeconds (es_event_time_ms s)), (''clip_start_time_ms'', XInt (es_clip_start_time_ms s)),
          (''clip_end_time_ms'', XInt (es_clip_end_time_ms s)), (''event_time_ms'', XInt (es_event_time_ms s)),
          (''created_at'', XStr (iso_utc (es_created_at s))), (''notes'', XStr EVENT_EXPORT_NOTES)])"

definition EVENT_EXPORT_FIELDS :: "string list" where
  "EVENT_EXPORT_FIELDS = [''video_id'', ''event_id'', ''label'', ''event_type'', ''review_status'', ''source'',
     ''clip_start_seconds'', ''clip_end_seconds'', ''event_seconds'', ''clip_start_time_ms'', ''clip_end_time_ms'',
     ''event_time_ms'', ''created_at'', ''notes'']"

definition export_field :: "string \<Rightarrow> export_row \<Rightarrow> export_value" where
  "export_field k r = (case map_of r k of Some x \<Rightarrow> x | None \<Rightarrow> XStr [])"

fun export_text :: "export_value \<Rightarrow> string" where
  "export_text (XStr s) = s"
| "export_text (XInt n) = int_str n"
| "export_text (XSeconds n) = seconds_repr n"

text \<open>The csv module: a field with a comma, a quote or a line end is quoted; lines end in CR LF.\<close>

definition csv_field :: "string \<Rightarrow> string" where
  "csv_field t =
     (if \<exists>c \<in> set t. c = CHR '','' \<or> c = CHR ''\"'' \<or> c = CHR 13 \<or> c = CHR 10
      then ''\"'' @ concat (map (\<lambda>c. if c = CHR ''\"'' then [c, c] else [c]) t) @ ''\"'' else t)"

definition csv_line :: "string list \<Rightarrow> string" where
  "csv_line cells = join (map csv_field cells) @ [CHR 13, CHR 10]"

definition render_event_csv :: "export_row list \<Rightarrow> string" where
  "render_event_csv rows =
     csv_line EVENT_EXPORT_FIELDS @
     concat (map (\<lambda>r. csv_line (map (\<lambda>k. export_text (export_field k r)) EVENT_EXPORT_FIELDS)) rows)"

fun export_json :: "export_value \<Rightarrow> string" where
  "export_json (XStr s) = json_string s"
| "export_json (XInt n) = int_str n"
| "export_json (XSeconds n) = seconds_repr n"

definition json_members :: "(string \<times> string) list \<Rightarrow> string" where
  "json_members kvs = ''{'' @ join (map (\<lambda>(k, t). json_string k @ '':'' @ t) kvs) @ ''}''"

definition json_array :: "string list \<Rightarrow> string" where
  "json_array xs = ''['' @ join xs @ '']''"

definition render_event_manifest :: "video_row \<Rightarrow> review_status \<Rightarrow> time \<Rightarrow> export_row list \<Rightarrow> string" where
  "render_event_manifest v review_status generated_at rows =
     json_members
       [(''schema_version'', json_string ''nextballup_alpha_event_export_v1''), (''video_id'', json_string (uuid_str (v_id v))),
        (''review_status'', json_string (review_status_value review_status)), (''generated_at'', json_string (iso_utc generated_at)),
        (''not_production_analytics'', ''true''), (''direct_hudl_cloud_export_implemented'', ''false''),
        (''includes_video_bytes'', ''false''),
        (''events'', json_array (map (\<lambda>r. json_members (map (\<lambda>(k, x). (k, export_json x)) r)) rows))]"

definition commercial_training_allowed :: "consent_row option \<Rightarrow> bool" where
  "commercial_training_allowed consent =
     (case consent of None \<Rightarrow> False | Some c \<Rightarrow> c_covers_cv_processing c \<and> c_commercial_ml_training_allowed c)"

definition feedback_example :: "export_row \<Rightarrow> string" where
  "feedback_example r =
     (let f = (\<lambda>k. export_json (export_field k r))
      in json_members [(''event_id'', f ''event_id''), (''video_id'', f ''video_id''), (''label'', f ''event_type''),
           (''review_status'', f ''review_status''),
           (''accepted'', if export_field ''review_status'' r = XStr ''approved'' then ''true'' else ''false''),
           (''source'', f ''source''), (''clip_start_time_ms'', f ''clip_start_time_ms''),
           (''clip_end_time_ms'', f ''clip_end_time_ms''), (''event_time_ms'', f ''event_time_ms'')])"

definition render_review_feedback_manifest ::
  "video_row \<Rightarrow> review_status \<Rightarrow> time \<Rightarrow> export_row list \<Rightarrow> consent_row option \<Rightarrow> string" where
  "render_review_feedback_manifest v review_status generated_at rows consent =
     json_members
       [(''schema_version'', json_string ''nextballup_alpha_review_feedback_v1''), (''video_id'', json_string (uuid_str (v_id v))),
        (''team_id'', json_string (uuid_str (v_team_id v))), (''review_status'', json_string (review_status_value review_status)),
        (''generated_at'', json_string (iso_utc generated_at)),
        (''governance'', json_members
          [(''review_only'', ''true''), (''not_production_analytics'', ''true''), (''includes_video_bytes'', ''false''),
           (''includes_signed_urls'', ''false''),
           (''commercial_training_allowed'', if commercial_training_allowed consent then ''true'' else ''false''),
           (''commercial_training_consent_id'', case consent of
              Some c \<Rightarrow> if commercial_training_allowed consent then json_string (uuid_str (c_id c)) else ''null'' | None \<Rightarrow> ''null''),
           (''global_model_training_requires_operator_rights_review'', ''true'')]),
        (''examples'', json_array (map feedback_example rows))]"

text \<open>\<open>xml.etree\<close> with \<open>ET.indent\<close>: text is escaped, every element has an end tag.\<close>

definition xml_escape :: "string \<Rightarrow> string" where
  "xml_escape t = concat (map (\<lambda>c. if c = CHR ''&'' then ''&amp;'' else if c = CHR ''<'' then ''&lt;''
     else if c = CHR ''>'' then ''&gt;'' else [c]) t)"

definition xml_leaf :: "nat \<Rightarrow> string \<Rightarrow> string \<Rightarrow> string" where
  "xml_leaf depth tag t =
     replicate (2 * depth) CHR '' '' @ ''<'' @ tag @ ''>'' @ xml_escape t @ ''</'' @ tag @ ''>'' @ [CHR 10]"

definition xml_block :: "nat \<Rightarrow> string \<Rightarrow> string list \<Rightarrow> string" where
  "xml_block depth tag inner =
     replicate (2 * depth) CHR '' '' @ ''<'' @ tag @ ''>'' @ (if inner = [] then [] else [CHR 10] @ concat inner @
       replicate (2 * depth) CHR '' '') @ ''</'' @ tag @ ''>'' @ [CHR 10]"

definition xml_instance :: "nat \<times> export_row \<Rightarrow> string" where
  "xml_instance ir =
     (let (index, r) = ir; fixed = (\<lambda>k. case export_field k r of XSeconds n \<Rightarrow> seconds_fixed n | x \<Rightarrow> export_text x);
          txt = (\<lambda>k. export_text (export_field k r))
      in xml_block 2 ''instance''
           [xml_leaf 3 ''ID'' (nat_str index), xml_leaf 3 ''start'' (fixed ''clip_start_seconds''),
            xml_leaf 3 ''end'' (fixed ''clip_end_seconds''), xml_leaf 3 ''code'' (txt ''label''),
            xml_block 3 ''label'' [xml_leaf 4 ''group'' ''NextBallUp review'', xml_leaf 4 ''text'' (txt ''review_status'')],
            xml_block 3 ''label'' [xml_leaf 4 ''group'' ''NextBallUp source'', xml_leaf 4 ''text'' (txt ''source'')]])"

definition render_sportscode_xml :: "export_row list \<Rightarrow> string" where
  "render_sportscode_xml rows =
     ''<?xml version=\"1.0\" encoding=\"UTF-8\"?>'' @ [CHR 10] @
     xml_block 0 ''file'' [xml_block 1 ''ALL_INSTANCES'' (map xml_instance (zip [1..<Suc (length rows)] rows))]"

definition latest_active_training_consent :: "time \<Rightarrow> uuid \<Rightarrow> db \<Rightarrow> consent_row option" where
  "latest_active_training_consent now team_id d =
     (case sort_key (\<lambda>c. (- c_effective_at c, - c_created_at c))
         (filter (\<lambda>c. c_team_id c = team_id \<and> c_revoked_at c = None \<and>
            (case c_expires_at c of None \<Rightarrow> True | Some e \<Rightarrow> e > now)) (consents d)) of
        [] \<Rightarrow> None | c # _ \<Rightarrow> Some c)"

datatype export_format = Csv | Json | SportscodeXml | PackageZip

fun export_format_value :: "export_format \<Rightarrow> string" where
  "export_format_value Csv = ''csv''"
| "export_format_value Json = ''json''"
| "export_format_value SportscodeXml = ''sportscode_xml''"
| "export_format_value PackageZip = ''package_zip''"

text \<open>An export: one text, or the members of the zip archive (its compression is the library's).\<close>

datatype export_file = TextFile string | Archive "(string \<times> string) list"

record export_answer =
  xp_filename :: string
  xp_media_type :: string
  xp_content :: export_file

fun export_extension :: "export_format \<Rightarrow> string" where
  "export_extension Csv = ''csv''"
| "export_extension Json = ''json''"
| "export_extension SportscodeXml = ''xml''"
| "export_extension PackageZip = ''zip''"

fun export_media_type :: "export_format \<Rightarrow> string" where
  "export_media_type Csv = ''text/csv''"
| "export_media_type Json = ''application/json''"
| "export_media_type SportscodeXml = ''application/xml''"
| "export_media_type PackageZip = ''application/zip''"

text \<open>\<open>readme\<close> is the text of \<open>_EXPORT_README\<close>.\<close>

definition render_event_package ::
  "string \<Rightarrow> video_row \<Rightarrow> review_status \<Rightarrow> time \<Rightarrow> export_row list \<Rightarrow> consent_row option \<Rightarrow> (string \<times> string) list" where
  "render_event_package readme v review_status generated_at rows consent =
     [(''README.txt'', readme), (''reviewed_windows.csv'', render_event_csv rows),
      (''manifest.json'', render_event_manifest v review_status generated_at rows),
      (''sportscode.xml'', render_sportscode_xml rows),
      (''review_feedback.json'', render_review_feedback_manifest v review_status generated_at rows consent)]"

text \<open>\<open>ORDER BY clip_start_time_ms, event_time_ms\<close>: a missing start comes last.\<close>

definition export_order :: "event_row \<Rightarrow> nat \<times> int \<times> int" where
  "export_order r = (case ve_clip_start_time_ms r of None \<Rightarrow> (1, 0, ve_event_time_ms r) | Some a \<Rightarrow> (0, a, ve_event_time_ms r))"

definition export_rows :: "review_status \<Rightarrow> video_row \<Rightarrow> db \<Rightarrow> export_row list" where
  "export_rows review_status v d =
     map (\<lambda>r. safe_event_export_row r v) (sort_key export_order
       (filter (\<lambda>r. ve_video_id r = v_id v \<and> ve_review_status r = review_status) (events d)))"

definition export_content ::
  "string \<Rightarrow> export_format \<Rightarrow> review_status \<Rightarrow> time \<Rightarrow> video_row \<Rightarrow> export_row list \<Rightarrow> consent_row option \<Rightarrow> export_file" where
  "export_content readme fmt review_status generated_at v rows consent =
     (case fmt of
        Csv \<Rightarrow> TextFile (render_event_csv rows)
      | Json \<Rightarrow> TextFile (render_event_manifest v review_status generated_at rows)
      | SportscodeXml \<Rightarrow> TextFile (render_sportscode_xml rows)
      | PackageZip \<Rightarrow> Archive (render_event_package readme v review_status generated_at rows consent))"

definition export_video_events ::
  "settings \<Rightarrow> string \<Rightarrow> (nat \<Rightarrow> time) \<Rightarrow> user_row \<Rightarrow> uuid \<Rightarrow> export_format \<Rightarrow> review_status \<Rightarrow> request \<Rightarrow> db \<Rightarrow>
   (exn + export_answer) \<times> db" where
  "export_video_events s readme clk u video_id fmt review_status rq d =
     (case require_verified_account s u of
        Inl e \<Rightarrow> (Inl e, d)
      | Inr _ \<Rightarrow>
          (case open_review u video_id d of
             Inl e \<Rightarrow> (Inl e, d)
           | Inr v \<Rightarrow>
               let rows = export_rows review_status v d;
                   consent = (if fmt = PackageZip then latest_active_training_consent (clk 1) (v_team_id v) d else None)
               in (Inr \<lparr>xp_filename = ''nextballup-'' @ uuid_str (v_id v) @ ''-events.'' @ export_extension fmt,
                     xp_media_type = export_media_type fmt,
                     xp_content = export_content readme fmt review_status (clk 0) v rows consent\<rparr>,
                   write_audit rq A_VIDEO_EVENT_EXPORT_CREATED u ''video'' (Some (v_id v)) (Some (v_team_id v))
                     [(''format'', JStr (export_format_value fmt)), (''review_status'', JStr (review_status_value review_status)),
                      (''event_count'', JInt (int (length rows))), (''includes_video_bytes'', JBool False),
                      (''not_production_analytics'', JBool True)] d)))"

section \<open>What an export reveals\<close>

text \<open>Two rows the timeline cannot tell apart: metadata, artifact, confidence, track, frame and clocks may differ.\<close>

definition same_timeline :: "video_row \<Rightarrow> event_row \<Rightarrow> event_row \<Rightarrow> bool" where
  "same_timeline v r r' \<longleftrightarrow>
     ve_id r = ve_id r' \<and> ve_video_id r = ve_video_id r' \<and> ve_event_type r = ve_event_type r' \<and>
     ve_event_time_ms r = ve_event_time_ms r' \<and> ve_clip_start_time_ms r = ve_clip_start_time_ms r' \<and>
     ve_review_status r = ve_review_status r' \<and> ve_created_at r = ve_created_at r' \<and>
     derive_event_source r = derive_event_source r' \<and> window_from_event r v = window_from_event r' v"

definition same_recording :: "video_row \<Rightarrow> video_row \<Rightarrow> bool" where
  "same_recording v v' \<longleftrightarrow> v_id v = v_id v' \<and> v_team_id v = v_team_id v' \<and> v_duration_seconds v = v_duration_seconds v'"

lemma list_all2_insort_key:
  assumes "R x y" and "list_all2 R xs ys" and key: "\<And>a b. R a b \<Longrightarrow> f a = f b"
  shows "list_all2 R (insort_key f x xs) (insort_key f y ys)"
  using assms(2,1) by (induction rule: list_all2_induct) (auto dest!: key)

lemma list_all2_sort_key:
  assumes "list_all2 R xs ys" and "\<And>a b. R a b \<Longrightarrow> f a = f b"
  shows "list_all2 R (sort_key f xs) (sort_key f ys)"
  using assms(1) by (induction rule: list_all2_induct) (auto intro: list_all2_insort_key assms(2))

lemma list_all2_filter:
  assumes "list_all2 R xs ys" and "\<And>a b. R a b \<Longrightarrow> p a = p b"
  shows "list_all2 R (filter p xs) (filter p ys)"
  using assms(1) by (induction rule: list_all2_induct) (auto dest: assms(2))

lemma list_all2_map_same: "list_all2 R xs ys \<Longrightarrow> (\<And>a b. R a b \<Longrightarrow> f a = g b) \<Longrightarrow> map f xs = map g ys"
  by (induction rule: list_all2_induct) auto

lemma same_export_row:
  assumes "same_timeline v r r'" and "same_recording v v'"
  shows "safe_event_export_row r v = safe_event_export_row r' v'"
proof -
  have "window_from_event r' v' = window_from_event r' v"
    using assms(2) by (simp add: window_from_event_def video_duration_ms_def same_recording_def)
  then show ?thesis
    using assms by (simp add: safe_event_export_row_def video_event_summary_def same_timeline_def same_recording_def split: prod.split)
qed

lemma same_export_rows:
  assumes "list_all2 (same_timeline v) (events d) (events d')" and "same_recording v v'"
  shows "export_rows st v d = export_rows st v' d'"
proof -
  have "list_all2 (same_timeline v) (filter (\<lambda>r. ve_video_id r = v_id v \<and> ve_review_status r = st) (events d))
      (filter (\<lambda>r. ve_video_id r = v_id v \<and> ve_review_status r = st) (events d'))"
    by (rule list_all2_filter[OF assms(1)]) (simp add: same_timeline_def)
  then have "list_all2 (same_timeline v)
      (sort_key export_order (filter (\<lambda>r. ve_video_id r = v_id v \<and> ve_review_status r = st) (events d)))
      (sort_key export_order (filter (\<lambda>r. ve_video_id r = v_id v \<and> ve_review_status r = st) (events d')))"
    by (rule list_all2_sort_key) (simp add: same_timeline_def export_order_def split: option.split)
  then have "export_rows st v d = map (\<lambda>r. safe_event_export_row r v')
      (sort_key export_order (filter (\<lambda>r. ve_video_id r = v_id v \<and> ve_review_status r = st) (events d')))"
    unfolding export_rows_def by (rule list_all2_map_same) (rule same_export_row[OF _ assms(2)])
  then show ?thesis using assms(2) by (simp add: export_rows_def same_recording_def)
qed

lemma same_export_content:
  assumes "same_recording v v'"
  shows "export_content readme fmt st now v rows consent = export_content readme fmt st now v' rows consent"
  using assms by (cases fmt) (simp_all add: export_content_def render_event_manifest_def render_event_package_def
      render_review_feedback_manifest_def same_recording_def)

text \<open>
  An export reveals the timeline and nothing else. In every format the answer is the same whenever the
  events differ only in what the timeline does not show (model metadata and its source lineage, artifact,
  confidence, track, frame, game clocks) and the recordings only in what is not their id, team or length
  (storage keys, checksums, status, retention): none of that can be read from an exported file.
\<close>

theorem export_reveals_timeline_only:
  assumes "by_key v_id i (videos d) = Some v" and "by_key v_id i (videos d') = Some v'" and "same_recording v v'"
    and "list_all2 (same_timeline v) (events d) (events d')"
    and "memberships d' = memberships d" and "consents d' = consents d"
  shows "fst (export_video_events s readme clk u i fmt st rq d) = fst (export_video_events s readme clk u i fmt st rq d')"
proof -
  have gate: "require_team_coach d' u t = require_team_coach d u t" for t using coach_gate.reads[OF assms(5)] .
  have open1: "open_review u i d = (case require_team_coach d u (v_team_id v) of Inl e \<Rightarrow> Inl e | Inr _ \<Rightarrow> Inr v)"
    using assms(1) by (simp add: open_review_def)
  have open2: "open_review u i d' = (case require_team_coach d u (v_team_id v) of Inl e \<Rightarrow> Inl e | Inr _ \<Rightarrow> Inr v')"
    using assms(2,3) gate by (simp add: open_review_def same_recording_def)
  have rows: "export_rows st v d = export_rows st v' d'" by (rule same_export_rows[OF assms(4,3)])
  have consent: "latest_active_training_consent now (v_team_id v) d = latest_active_training_consent now (v_team_id v') d'" for now
    using assms(3,6) by (simp add: latest_active_training_consent_def same_recording_def)
  show ?thesis
    using assms(3) same_export_content[OF assms(3)] rows consent
    by (cases "require_verified_account s u"; cases "require_team_coach d u (v_team_id v)")
      (simp_all add: export_video_events_def open1 open2 Let_def same_recording_def)
qed

section \<open>Witnesses\<close>

definition toy_event :: "uuid \<Rightarrow> int \<Rightarrow> jobj option \<Rightarrow> event_row" where
  "toy_event i t m = \<lparr>ve_id = i, ve_video_id = 1, ve_team_id = 2, ve_model_artifact_id = None, ve_event_type = ET_REBOUND,
     ve_event_time_ms = t, ve_clip_start_time_ms = None, ve_clip_end_time_ms = None, ve_output_frame = 0,
     ve_period = None, ve_game_clock_ms = None, ve_shot_clock_enabled = False, ve_shot_clock_ms = None,
     ve_primary_track_key = None, ve_confidence = None, ve_review_status = RS_APPROVED, ve_event_metadata = m,
     ve_created_at = 0, ve_updated_at = 0\<rparr>"

definition review_db :: "event_row list \<Rightarrow> db" where
  "review_db rows = sample_db\<lparr>videos := [sample_video], events := rows\<rparr>"

definition no_filter :: event_query where
  "no_filter = \<lparr>eq_review_status = [], eq_event_type = [], eq_source = None\<rparr>"

lemma toy_review: "open_review sample_coach 1 (review_db rows) = Inr sample_video"
  by (simp add: open_review_def review_db_def by_key_def require_team_coach_def require_team_member_def
      get_team_membership_def COACH_TEAM_ROLES_def sample_defs)

theorem event_pages_complete_witness:
  "read_pages 3 (\<lambda>c. list_video_events sample_coach 1 1 no_filter c (review_db [toy_event 8 5000 None, toy_event 7 900 None])) None =
     Some (map (\<lambda>r. video_event_summary r sample_video) (all_events no_filter sample_video
       (review_db [toy_event 8 5000 None, toy_event 7 900 None])))"
proof -
  let ?d = "review_db [toy_event 8 5000 None, toy_event 7 900 None]"
  have "distinct (map ve_id (events ?d))" "\<forall>r \<in> set (events ?d). \<bar>ve_event_time_ms r\<bar> < 10 ^ 12 \<and> ve_id r < 2 ^ 128"
    by (simp_all add: review_db_def toy_event_def)
  moreover have "Suc (length (all_events no_filter sample_video ?d)) = 3"
    by (simp add: all_events_def event_matches_def no_filter_def review_db_def toy_event_def sample_video_def)
  ultimately show ?thesis
    using event_pages_complete[OF _ _ toy_review, of 1 "[toy_event 8 5000 None, toy_event 7 900 None]" no_filter]
    by (simp add: VIDEO_EVENTS_MAX_LIMIT_def)
qed


theorem export_reveals_timeline_only_witness:
  "fst (export_video_events default_settings [] (\<lambda>_. 0) sample_coach 1 Json RS_APPROVED sample_request
      (review_db [toy_event 8 5000 (Some [(''source'', JStr ''restricted''), (''prompt'', JStr ''secret'')])])) =
   fst (export_video_events default_settings [] (\<lambda>_. 0) sample_coach 1 Json RS_APPROVED sample_request
      (review_db [toy_event 8 5000 None]))"
proof (rule export_reveals_timeline_only)
  show "by_key v_id 1 (videos (review_db [toy_event 8 5000 (Some [(''source'', JStr ''restricted''), (''prompt'', JStr ''secret'')])])) = Some sample_video"
    "by_key v_id 1 (videos (review_db [toy_event 8 5000 None])) = Some sample_video"
    by (simp_all add: by_key_def review_db_def sample_video_def)
  show "list_all2 (same_timeline sample_video)
      (events (review_db [toy_event 8 5000 (Some [(''source'', JStr ''restricted''), (''prompt'', JStr ''secret'')])]))
      (events (review_db [toy_event 8 5000 None]))"
    by (simp add: review_db_def same_timeline_def toy_event_def derive_event_source_def event_meta_def
        MANUAL_EVENT_SOURCE_def window_from_event_def json_int_def Let_def)
qed (simp_all add: review_db_def same_recording_def)

end
