(* ===== verification/Games.thy ===== *)
theory Games
  imports Playback Events
begin

text \<open>
  The games of a team, \<open>routers/games.py\<close> with the requests of \<open>schemas/game.py\<close>: creating, listing, reading and
  patching a game and listing its videos. A field of a patch is absent (\<open>None\<close>), null (\<open>Some None\<close>) or a value.
  \<open>GameSummary\<close> carries exactly the modelled columns of a game, so a summary is the row. The insertion order of
  the videos stands for their creation times. The tenant context of the connection is left out.
\<close>

section \<open>The requests\<close>

record create_game_request =
  cg_team_id :: uuid
  cg_opponent_name :: "string option"
  cg_game_type :: game_type
  cg_date :: int
  cg_time :: "int option"
  cg_location :: "string option"
  cg_is_home :: bool
  cg_periods :: int
  cg_period_length_minutes :: int
  cg_shot_clock_enabled :: bool
  cg_shot_clock_seconds :: "int option"
  cg_notes :: "string option"

definition max_length :: "nat \<Rightarrow> string option \<Rightarrow> bool" where
  "max_length n x = (case x of None \<Rightarrow> True | Some t \<Rightarrow> length t \<le> n)"

definition bounded_by :: "int \<Rightarrow> int \<Rightarrow> int option \<Rightarrow> bool" where
  "bounded_by lo hi x = (case x of None \<Rightarrow> True | Some i \<Rightarrow> lo \<le> i \<and> i \<le> hi)"

definition create_shot_clock_ok :: "bool \<Rightarrow> int option \<Rightarrow> bool" where
  "create_shot_clock_ok enabled secs \<longleftrightarrow>
     \<not> (enabled \<and> secs = None) \<and> \<not> (\<not> enabled \<and> secs \<noteq> None)"

definition create_game_request_ok :: "create_game_request \<Rightarrow> bool" where
  "create_game_request_ok p \<longleftrightarrow>
     max_length 255 (cg_opponent_name p) \<and> max_length 255 (cg_location p) \<and>
     bounded_by 1 10 (Some (cg_periods p)) \<and> bounded_by 1 60 (Some (cg_period_length_minutes p)) \<and>
     bounded_by 1 35 (cg_shot_clock_seconds p) \<and> max_length 2000 (cg_notes p) \<and>
     create_shot_clock_ok (cg_shot_clock_enabled p) (cg_shot_clock_seconds p)"

type_synonym 'a patch = "'a option option"

record update_game_request =
  ug_opponent_name :: "string patch"
  ug_location :: "string patch"
  ug_time :: "int patch"
  ug_is_home :: "bool patch"
  ug_periods :: "int patch"
  ug_period_length_minutes :: "int patch"
  ug_shot_clock_enabled :: "bool patch"
  ug_shot_clock_seconds :: "int patch"
  ug_notes :: "string patch"
  ug_score_team :: "int patch"
  ug_score_opponent :: "int patch"
  ug_status :: "game_status patch"

definition given :: "'a patch \<Rightarrow> 'a option" where
  "given f = (case f of Some (Some x) \<Rightarrow> Some x | _ \<Rightarrow> None)"

definition patch_shot_clock_ok :: "bool patch \<Rightarrow> int patch \<Rightarrow> bool" where
  "patch_shot_clock_ok enabled secs \<longleftrightarrow>
     \<not> (given enabled = Some True \<and> given secs = None) \<and>
     \<not> (given enabled = Some False \<and> given secs \<noteq> None)"

definition update_game_request_ok :: "update_game_request \<Rightarrow> bool" where
  "update_game_request_ok p \<longleftrightarrow>
     max_length 255 (given (ug_opponent_name p)) \<and> max_length 255 (given (ug_location p)) \<and>
     bounded_by 1 10 (given (ug_periods p)) \<and> bounded_by 1 60 (given (ug_period_length_minutes p)) \<and>
     bounded_by 1 35 (given (ug_shot_clock_seconds p)) \<and> max_length 2000 (given (ug_notes p)) \<and>
     bounded_by 0 999 (given (ug_score_team p)) \<and> bounded_by 0 999 (given (ug_score_opponent p)) \<and>
     patch_shot_clock_ok (ug_shot_clock_enabled p) (ug_shot_clock_seconds p)"

text \<open>The names of the fields a patch sets, in the order \<open>sorted\<close> gives them.\<close>

definition updated_fields :: "update_game_request \<Rightarrow> string list" where
  "updated_fields p = map fst (filter snd
     [(''is_home'', ug_is_home p \<noteq> None), (''location'', ug_location p \<noteq> None), (''notes'', ug_notes p \<noteq> None),
      (''opponent_name'', ug_opponent_name p \<noteq> None),
      (''period_length_minutes'', ug_period_length_minutes p \<noteq> None), (''periods'', ug_periods p \<noteq> None),
      (''score_opponent'', ug_score_opponent p \<noteq> None), (''score_team'', ug_score_team p \<noteq> None),
      (''shot_clock_enabled'', ug_shot_clock_enabled p \<noteq> None),
      (''shot_clock_seconds'', ug_shot_clock_seconds p \<noteq> None), (''status'', ug_status p \<noteq> None),
      (''time'', ug_time p \<noteq> None)])"

section \<open>The operations\<close>

definition TERMINAL_GAME_STATUSES :: "game_status list" where
  "TERMINAL_GAME_STATUSES = [GS_COMPLETED, GS_FAILED]"

definition date_iso :: "int \<Rightarrow> string" where
  "date_iso day = (case civil_date day of (y, m, dd) \<Rightarrow> pad_int 4 y @ ''-'' @ pad_int 2 m @ ''-'' @ pad_int 2 dd)"

definition new_game :: "uuid \<Rightarrow> time \<Rightarrow> uuid \<Rightarrow> create_game_request \<Rightarrow> game_row" where
  "new_game gid now team_id p =
     \<lparr>g_id = gid, g_team_id = team_id, g_status = GS_SCHEDULED, g_shot_clock_enabled = cg_shot_clock_enabled p,
      g_shot_clock_seconds = cg_shot_clock_seconds p, g_opponent_name = cg_opponent_name p,
      g_game_type = cg_game_type p, g_date = cg_date p, g_time = cg_time p, g_location = cg_location p,
      g_is_home = cg_is_home p, g_periods = cg_periods p,
      g_period_length_minutes = cg_period_length_minutes p, g_score_team = None, g_score_opponent = None,
      g_notes = cg_notes p, g_created_at = now\<rparr>"

definition create_game ::
  "settings \<Rightarrow> request \<Rightarrow> user_row \<Rightarrow> create_game_request \<Rightarrow> uuid \<Rightarrow> time \<Rightarrow> db \<Rightarrow> (exn + game_row) \<times> db" where
  "create_game s rq u p gid now d =
     (case require_user_role u [UR_COACH, UR_ADMIN] of
        Inl e \<Rightarrow> (Inl e, d)
      | Inr _ \<Rightarrow>
     (case require_verified_account s u of
        Inl e \<Rightarrow> (Inl e, d)
      | Inr _ \<Rightarrow>
     (case get_team_or_404 d (cg_team_id p) of
        Inl e \<Rightarrow> (Inl e, d)
      | Inr team \<Rightarrow>
     (case require_team_coach d u (t_id team) of
        Inl e \<Rightarrow> (Inl e, d)
      | Inr _ \<Rightarrow>
          let game = new_game gid now (t_id team) p
          in (Inr game, write_audit rq A_GAME_CREATED u ''game'' (Some gid) (Some (t_id team))
                [(''game_type'', JStr (game_type_value (g_game_type game))), (''date'', JStr (date_iso (g_date game)))]
                (d\<lparr>games := games d @ [game]\<rparr>))))))"

text \<open>The lookup and the gates a game's readers share, and those of its coach.\<close>

definition readable_game :: "user_row \<Rightarrow> uuid \<Rightarrow> db \<Rightarrow> exn + game_row" where
  "readable_game u gid d =
     (case by_key g_id gid (games d) of
        None \<Rightarrow> Inl (NotFoundError E_GAME_NOT_FOUND)
      | Some game \<Rightarrow>
     (case get_team_or_404 d (g_team_id game) of
        Inl e \<Rightarrow> Inl e
      | Inr _ \<Rightarrow>
     (case require_team_member d u (g_team_id game) of
        Inl e \<Rightarrow> Inl e
      | Inr _ \<Rightarrow> Inr game)))"

definition get_game :: "user_row \<Rightarrow> uuid \<Rightarrow> db \<Rightarrow> exn + game_row" where
  "get_game u gid d = readable_game u gid d"

record video_list_item =
  vli_id :: uuid
  vli_filename :: string
  vli_status :: video_status
  vli_playback_status :: playback_status
  vli_file_size_bytes :: "int option"
  vli_duration_seconds :: "rat option"
  vli_camera_position :: "camera_position option"
  vli_camera_height :: "camera_height option"

definition list_game_videos :: "settings \<Rightarrow> user_row \<Rightarrow> uuid \<Rightarrow> db \<Rightarrow> exn + (video_list_item list \<times> nat)" where
  "list_game_videos s u gid d =
     (case readable_game u gid d of
        Inl e \<Rightarrow> Inl e
      | Inr game \<Rightarrow>
          let vs = rev (filter (\<lambda>v. v_game_id v = g_id game) (videos d));
              items = map (\<lambda>v. \<lparr>vli_id = v_id v, vli_filename = v_filename v, vli_status = v_status v,
                vli_playback_status = derive_playback_status v (filter (\<lambda>j. j_video_id j = v_id v) (jobs d))
                  (cv_pipeline_enabled s),
                vli_file_size_bytes = v_file_size_bytes v, vli_duration_seconds = v_duration_seconds v,
                vli_camera_position = v_camera_position v, vli_camera_height = v_camera_height v\<rparr>) vs
          in Inr (items, length items))"

text \<open>\<open>setattr\<close> for every field of the patch; a null in a column that may not be null fails at the flush.\<close>

definition patched :: "'a patch \<Rightarrow> 'a option \<Rightarrow> 'a option" where
  "patched f old = (case f of None \<Rightarrow> old | Some x \<Rightarrow> x)"

definition kept :: "'a patch \<Rightarrow> 'a \<Rightarrow> 'a" where
  "kept f old = (case given f of None \<Rightarrow> old | Some x \<Rightarrow> x)"

definition nulls_required_column :: "update_game_request \<Rightarrow> bool" where
  "nulls_required_column p \<longleftrightarrow>
     ug_is_home p = Some None \<or> ug_periods p = Some None \<or> ug_period_length_minutes p = Some None \<or>
     ug_shot_clock_enabled p = Some None \<or> ug_status p = Some None"

definition apply_patch :: "update_game_request \<Rightarrow> game_row \<Rightarrow> game_row" where
  "apply_patch p g = g\<lparr>
     g_opponent_name := patched (ug_opponent_name p) (g_opponent_name g),
     g_location := patched (ug_location p) (g_location g),
     g_time := patched (ug_time p) (g_time g),
     g_is_home := kept (ug_is_home p) (g_is_home g),
     g_periods := kept (ug_periods p) (g_periods g),
     g_period_length_minutes := kept (ug_period_length_minutes p) (g_period_length_minutes g),
     g_shot_clock_enabled := kept (ug_shot_clock_enabled p) (g_shot_clock_enabled g),
     g_shot_clock_seconds := patched (ug_shot_clock_seconds p) (g_shot_clock_seconds g),
     g_notes := patched (ug_notes p) (g_notes g),
     g_score_team := patched (ug_score_team p) (g_score_team g),
     g_score_opponent := patched (ug_score_opponent p) (g_score_opponent g),
     g_status := kept (ug_status p) (g_status g)\<rparr>"

definition reopens_terminal_game :: "user_row \<Rightarrow> update_game_request \<Rightarrow> game_row \<Rightarrow> bool" where
  "reopens_terminal_game u p g \<longleftrightarrow>
     given (ug_status p) \<noteq> None \<and> g_status g \<in> set TERMINAL_GAME_STATUSES \<and>
     given (ug_status p) \<noteq> Some (g_status g) \<and> u_role u \<noteq> UR_ADMIN"

text \<open>The shot clock after the patch: seconds only while it is enabled, and then some.\<close>

definition settle_shot_clock :: "update_game_request \<Rightarrow> game_row \<Rightarrow> exn + game_row" where
  "settle_shot_clock p g =
     (if \<not> g_shot_clock_enabled g \<or> ug_shot_clock_enabled p = Some None
      then Inr (g\<lparr>g_shot_clock_seconds := None\<rparr>)
      else if g_shot_clock_seconds g = None then Inl (ValidationFailedError E_VALIDATION_FAILED [])
      else Inr g)"

text \<open>The gates of a patch, and the row it would store.\<close>

definition patchable_game :: "settings \<Rightarrow> user_row \<Rightarrow> uuid \<Rightarrow> db \<Rightarrow> exn + game_row" where
  "patchable_game s u gid d =
     (case require_verified_account s u of
        Inl e \<Rightarrow> Inl e
      | Inr _ \<Rightarrow>
     (case by_key g_id gid (games d) of
        None \<Rightarrow> Inl (NotFoundError E_GAME_NOT_FOUND)
      | Some game \<Rightarrow>
     (case get_team_or_404 d (g_team_id game) of
        Inl e \<Rightarrow> Inl e
      | Inr _ \<Rightarrow>
     (case require_team_coach d u (g_team_id game) of
        Inl e \<Rightarrow> Inl e
      | Inr _ \<Rightarrow> Inr game))))"

definition patched_row :: "user_row \<Rightarrow> update_game_request \<Rightarrow> game_row \<Rightarrow> exn + game_row" where
  "patched_row u p game =
     (if reopens_terminal_game u p game then Inl (ForbiddenError E_GAME_TERMINAL_STATUS [])
      else
        (case settle_shot_clock p (apply_patch p game) of
           Inl e \<Rightarrow> Inl e
         | Inr game' \<Rightarrow> if nulls_required_column p then Inl integrity_error else Inr game'))"

definition update_game ::
  "settings \<Rightarrow> request \<Rightarrow> user_row \<Rightarrow> uuid \<Rightarrow> update_game_request \<Rightarrow> db \<Rightarrow> (exn + game_row) \<times> db" where
  "update_game s rq u gid p d =
     (case patchable_game s u gid d of
        Inl e \<Rightarrow> (Inl e, d)
      | Inr game \<Rightarrow>
          if updated_fields p = [] then (Inr game, d)
          else
            (case patched_row u p game of
               Inl e \<Rightarrow> (Inl e, d)
             | Inr game' \<Rightarrow>
                 (Inr game', write_audit rq A_GAME_UPDATED u ''game'' (Some (g_id game)) (Some (g_team_id game))
                    [(''fields'', JList (map JStr (updated_fields p)))]
                    (d\<lparr>games := put_row g_id game' (games d)\<rparr>))))"

section \<open>The listing\<close>

record game_query =
  gq_team_id :: "uuid option"
  gq_status :: "game_status option"
  gq_game_type :: "game_type option"
  gq_date_from :: "int option"
  gq_date_to :: "int option"
  gq_page :: int
  gq_per_page :: int

definition game_query_ok :: "game_query \<Rightarrow> bool" where
  "game_query_ok q \<longleftrightarrow> 1 \<le> gq_page q \<and> 1 \<le> gq_per_page q \<and> gq_per_page q \<le> 100"

definition undeleted_team :: "db \<Rightarrow> uuid \<Rightarrow> bool" where
  "undeleted_team d team_id \<longleftrightarrow> (\<exists>t \<in> set (teams d). t_id t = team_id \<and> t_deleted_at t = None)"

definition own_team :: "db \<Rightarrow> user_row \<Rightarrow> uuid \<Rightarrow> bool" where
  "own_team d u team_id \<longleftrightarrow>
     (\<exists>m \<in> set (memberships d). m_user_id m = u_id u \<and> m_is_active m \<and> m_team_id m = team_id \<and>
        undeleted_team d (m_team_id m))"

definition team_filter :: "user_row \<Rightarrow> game_query \<Rightarrow> db \<Rightarrow> exn + (game_row \<Rightarrow> bool)" where
  "team_filter u q d =
     (case gq_team_id q of
        Some team_id \<Rightarrow>
          (case get_team_or_404 d team_id of
             Inl e \<Rightarrow> Inl e
           | Inr team \<Rightarrow>
               (case require_team_member d u (t_id team) of
                  Inl e \<Rightarrow> Inl e
                | Inr _ \<Rightarrow> Inr (\<lambda>g. g_team_id g = t_id team)))
      | None \<Rightarrow>
          if u_role u = UR_ADMIN then Inr (\<lambda>g. undeleted_team d (g_team_id g))
          else Inr (\<lambda>g. own_team d u (g_team_id g)))"

definition game_matches :: "game_query \<Rightarrow> game_row \<Rightarrow> bool" where
  "game_matches q g \<longleftrightarrow>
     (case gq_status q of None \<Rightarrow> True | Some x \<Rightarrow> g_status g = x) \<and>
     (case gq_game_type q of None \<Rightarrow> True | Some x \<Rightarrow> g_game_type g = x) \<and>
     (case gq_date_from q of None \<Rightarrow> True | Some x \<Rightarrow> x \<le> g_date g) \<and>
     (case gq_date_to q of None \<Rightarrow> True | Some x \<Rightarrow> g_date g \<le> x)"

record game_list_response =
  gl_games :: "game_row list"
  gl_total :: nat
  gl_page :: int
  gl_per_page :: int
  gl_has_next :: bool

definition list_games :: "user_row \<Rightarrow> game_query \<Rightarrow> db \<Rightarrow> exn + game_list_response" where
  "list_games u q d =
     (case team_filter u q d of
        Inl e \<Rightarrow> Inl e
      | Inr visible \<Rightarrow>
          let rows = filter (\<lambda>g. visible g \<and> game_matches q g) (games d);
              total = length rows;
              ordered = sort_key (\<lambda>g. (- g_date g, - g_created_at g)) rows
          in Inr \<lparr>gl_games = take (nat (gq_per_page q)) (drop (nat ((gq_page q - 1) * gq_per_page q)) ordered),
                  gl_total = total, gl_page = gq_page q, gl_per_page = gq_per_page q,
                  gl_has_next = gq_page q * gq_per_page q < int total\<rparr>)"

section \<open>Histories\<close>

datatype game_op =
  CreateGame create_game_request uuid time
| UpdateGame uuid update_game_request

definition exec_game_op :: "settings \<Rightarrow> request \<times> user_row \<times> game_op \<Rightarrow> db \<Rightarrow> db" where
  "exec_game_op s call d =
     (case call of
        (rq, u, CreateGame p gid now) \<Rightarrow>
          if create_game_request_ok p then snd (create_game s rq u p gid now d) else d
      | (rq, u, UpdateGame gid p) \<Rightarrow>
          if update_game_request_ok p then snd (update_game s rq u gid p d) else d)"

definition run_game_ops :: "settings \<Rightarrow> (request \<times> user_row \<times> game_op) list \<Rightarrow> db \<Rightarrow> db" where
  "run_game_ops s calls d = fold (exec_game_op s) calls d"

definition created_games :: "(request \<times> user_row \<times> game_op) list \<Rightarrow> uuid list" where
  "created_games calls = concat (map (\<lambda>c. case snd (snd c) of CreateGame _ gid _ \<Rightarrow> [gid] | _ \<Rightarrow> []) calls)"

section \<open>What a game row satisfies\<close>

definition game_ok :: "game_row \<Rightarrow> bool" where
  "game_ok g \<longleftrightarrow>
     max_length 255 (g_opponent_name g) \<and> max_length 255 (g_location g) \<and>
     1 \<le> g_periods g \<and> g_periods g \<le> 10 \<and> 1 \<le> g_period_length_minutes g \<and> g_period_length_minutes g \<le> 60 \<and>
     (g_shot_clock_enabled g \<longleftrightarrow> g_shot_clock_seconds g \<noteq> None) \<and> bounded_by 1 35 (g_shot_clock_seconds g) \<and>
     max_length 2000 (g_notes g) \<and> bounded_by 0 999 (g_score_team g) \<and> bounded_by 0 999 (g_score_opponent g)"

definition games_inv :: "db \<Rightarrow> bool" where
  "games_inv d \<longleftrightarrow> distinct (map g_id (games d)) \<and>
     (\<forall>g \<in> set (games d). game_ok g \<and> g_team_id g \<in> t_id ` set (teams d))"

lemma patched_simps [simp]: "patched None x = x" "patched (Some y) x = y"
  by (simp_all add: patched_def)

lemma given_simps [simp]: "given None = None" "given (Some None) = None" "given (Some (Some x)) = Some x"
  by (simp_all add: given_def)

lemma kept_simps [simp]: "kept None x = x" "kept (Some None) x = x" "kept (Some (Some y)) x = y"
  by (simp_all add: kept_def)

lemma patched_keeps:
  "Q (given f) \<Longrightarrow> Q old \<Longrightarrow> Q None \<Longrightarrow> Q (patched f old)"
  by (cases f; cases "the f") auto

lemma kept_keeps: "Q (given f) \<Longrightarrow> Q (Some old) \<Longrightarrow> Q (Some (kept f old))"
  by (cases f; cases "the f") auto

lemma absent_bounds [simp]: "max_length n None" "bounded_by lo hi None"
  by (simp_all add: max_length_def bounded_by_def)

lemma new_game_ok: "create_game_request_ok p \<Longrightarrow> game_ok (new_game gid now t p)"
  by (auto simp: game_ok_def new_game_def create_game_request_ok_def create_shot_clock_ok_def bounded_by_def)

lemma bounded_kept:
  "bounded_by lo hi (given f) \<Longrightarrow> lo \<le> x \<Longrightarrow> x \<le> hi \<Longrightarrow> lo \<le> kept f x \<and> kept f x \<le> hi"
  using kept_keeps[where Q = "bounded_by lo hi" and f = f and old = x] by (simp add: bounded_by_def)

lemma patched_game_ok:
  assumes "game_ok g" and "update_game_request_ok p" and "settle_shot_clock p (apply_patch p g) = Inr g'"
    and "\<not> nulls_required_column p"
  shows "game_ok g'"
proof -
  let ?h = "apply_patch p g"
  note ok = assms(1)[unfolded game_ok_def] and req = assms(2)[unfolded update_game_request_ok_def]
  have lens: "max_length 255 (g_opponent_name ?h)" "max_length 255 (g_location ?h)" "max_length 2000 (g_notes ?h)"
    using ok req by (simp_all add: apply_patch_def patched_keeps[where Q = "max_length _"])
  have nums: "bounded_by 1 35 (g_shot_clock_seconds ?h)" "bounded_by 0 999 (g_score_team ?h)"
    "bounded_by 0 999 (g_score_opponent ?h)"
    using ok req by (simp_all add: apply_patch_def patched_keeps[where Q = "bounded_by _ _"])
  have per: "1 \<le> g_periods ?h \<and> g_periods ?h \<le> 10" "1 \<le> g_period_length_minutes ?h \<and> g_period_length_minutes ?h \<le> 60"
    using ok req bounded_kept[of 1 10 "ug_periods p" "g_periods g"]
      bounded_kept[of 1 60 "ug_period_length_minutes p" "g_period_length_minutes g"]
    by (simp_all add: apply_patch_def)
  from assms(3,4) have "g' = (if g_shot_clock_enabled ?h then ?h else ?h\<lparr>g_shot_clock_seconds := None\<rparr>)"
    "g_shot_clock_enabled ?h \<longrightarrow> g_shot_clock_seconds ?h \<noteq> None"
    by (auto simp: settle_shot_clock_def nulls_required_column_def split: if_splits)
  with lens nums per show ?thesis by (simp add: game_ok_def)
qed

lemma settled_keeps:
  assumes "settle_shot_clock p (apply_patch p g) = Inr g'"
  shows "g_id g' = g_id g" "g_team_id g' = g_team_id g" "g_status g' = kept (ug_status p) (g_status g)"
    "g_game_type g' = g_game_type g" "g_date g' = g_date g" "g_created_at g' = g_created_at g"
  using assms by (auto simp: settle_shot_clock_def apply_patch_def split: if_splits)

lemma create_game_Inr:
  assumes "create_game s rq u p gid now d = (Inr g, d')"
  shows "g = new_game gid now (cg_team_id p) p \<and> games d' = games d @ [g] \<and> teams d' = teams d \<and>
    cg_team_id p \<in> t_id ` set (teams d)"
proof -
  from assms obtain team where t: "get_team_or_404 d (cg_team_id p) = Inr team"
    by (cases "get_team_or_404 d (cg_team_id p)") (simp_all add: create_game_def split: sum.splits)
  with assms have g: "g = new_game gid now (t_id team) p \<and> games d' = games d @ [g] \<and> teams d' = teams d"
    by (auto simp: create_game_def Let_def split: sum.splits)
  from get_team_or_404_Inr[OF t(1)] have "team \<in> set (teams d)" "t_id team = cg_team_id p"
    by (auto dest: by_key_Some)
  with g show ?thesis by (metis image_eqI)
qed

lemma create_game_Inl: "create_game s rq u p gid now d = (Inl e, d') \<Longrightarrow> d' = d"
  by (auto simp: create_game_def Let_def split: sum.splits)

lemma patchable_game_Inr: "patchable_game s u gid d = Inr g \<Longrightarrow> by_key g_id gid (games d) = Some g"
  by (simp add: patchable_game_def split: sum.splits option.splits)

lemma patched_row_Inr:
  assumes "patched_row u p g = Inr g'"
  shows "settle_shot_clock p (apply_patch p g) = Inr g' \<and> \<not> nulls_required_column p \<and> \<not> reopens_terminal_game u p g"
  using assms by (simp add: patched_row_def split: sum.splits if_splits)

lemma update_game_effect:
  assumes "update_game s rq u gid p d = (r, d')"
  shows "d' = d \<or> (\<exists>g g'. patchable_game s u gid d = Inr g \<and> patched_row u p g = Inr g' \<and>
    games d' = put_row g_id g' (games d) \<and> teams d' = teams d)"
proof (cases "patchable_game s u gid d")
  case (Inr g)
  show ?thesis
  proof (cases "patched_row u p g")
    case (Inl e)
    with Inr assms show ?thesis by (simp add: update_game_def split: if_splits)
  next
    case row: (Inr g')
    with Inr assms have "d' = d \<or> games d' = put_row g_id g' (games d) \<and> teams d' = teams d"
      by (auto simp: update_game_def split: if_splits)
    with Inr row show ?thesis by blast
  qed
qed (use assms in \<open>simp add: update_game_def\<close>)

lemma update_game_cases:
  assumes "update_game s rq u gid p d = (r, d')"
  obtains "d' = d"
  | game game' where "by_key g_id gid (games d) = Some game" "settle_shot_clock p (apply_patch p game) = Inr game'"
      "\<not> nulls_required_column p" "\<not> reopens_terminal_game u p game"
      "games d' = put_row g_id game' (games d)" "teams d' = teams d"
  using update_game_effect[OF assms] patchable_game_Inr patched_row_Inr by metis

lemma games_inv_step:
  assumes inv: "games_inv d" and fresh: "distinct (map g_id (games d) @ created_games [call])"
  shows "games_inv (exec_game_op s call d) \<and> teams (exec_game_op s call d) = teams d \<and>
    set (map g_id (games (exec_game_op s call d))) \<subseteq> set (map g_id (games d) @ created_games [call])"
proof -
  obtain rq u a where c: "call = (rq, u, a)" by (cases call)
  show ?thesis
  proof (cases a)
    case (CreateGame p gid now)
    obtain r d' where r: "create_game s rq u p gid now d = (r, d')" by fastforce
    show ?thesis
    proof (cases "create_game_request_ok p \<and> (\<exists>g. r = Inr g)")
      case True
      then obtain g where g: "r = Inr g" "create_game_request_ok p" by blast
      from create_game_Inr[OF r[unfolded g(1)]] new_game_ok[OF g(2)] inv fresh r g show ?thesis
        by (auto simp: c CreateGame exec_game_op_def games_inv_def created_games_def new_game_def)
    next
      case False
      with r have "exec_game_op s call d = d"
        by (cases r) (auto simp: c CreateGame exec_game_op_def dest: create_game_Inl)
      with inv show ?thesis by simp
    qed
  next
    case (UpdateGame gid p)
    obtain r d' where r: "update_game s rq u gid p d = (r, d')" by fastforce
    have same: "exec_game_op s call d = (if update_game_request_ok p then d' else d)"
      using r by (simp add: c UpdateGame exec_game_op_def)
    from r show ?thesis
    proof (cases rule: update_game_cases)
      case 1
      with same inv show ?thesis by simp
    next
      case (2 game game')
      note keep = settled_keeps[OF 2(2)]
      from 2(1) inv have g: "game_ok game" "g_team_id game \<in> t_id ` set (teams d)" "game \<in> set (games d)"
        by (auto simp: games_inv_def dest: by_key_Some)
      have "games_inv d'" if "update_game_request_ok p"
        using inv g keep 2(5,6) patched_game_ok[OF g(1) that 2(2,3)]
        by (auto simp: games_inv_def keys_put_row dest!: set_put_row)
      with same inv 2(5,6) show ?thesis by (simp add: keys_put_row del: set_map)
    qed
  qed
qed

text \<open>
  C38: In every history of validated requests, by whatever users and in whatever order, the games keep their
  type: distinct ids, a team that exists, periods between 1 and 10 of 1 to 60 minutes, scores between 0 and 999,
  texts within their columns, and shot-clock seconds between 1 and 35 exactly when the shot clock is enabled.
\<close>

theorem game_rows_typed:
  assumes "games_inv d" and "distinct (map g_id (games d) @ created_games calls)"
  shows "games_inv (run_game_ops s calls d)"
proof -
  have "games_inv d \<longrightarrow> distinct (map g_id (games d) @ created_games calls) \<longrightarrow> games_inv (run_game_ops s calls d)"
    for d
  proof (induction calls arbitrary: d)
    case (Cons c calls)
    have split: "created_games (c # calls) = created_games [c] @ created_games calls" by (simp add: created_games_def)
    let ?e = "exec_game_op s c d"
    show ?case
    proof (intro impI)
      assume inv: "games_inv d" and dis: "distinct (map g_id (games d) @ created_games (c # calls))"
      from dis have "distinct (map g_id (games d) @ created_games [c])" by (auto simp: split)
      from games_inv_step[OF inv this, of s]
      have e: "games_inv ?e" "set (map g_id (games ?e)) \<subseteq> set (map g_id (games d) @ created_games [c])" by simp_all
      from e(1) have "distinct (map g_id (games ?e))" by (simp add: games_inv_def)
      with e(2) dis have "distinct (map g_id (games ?e) @ created_games calls)"
        unfolding split distinct_append set_append by blast
      with Cons.IH e(1) show "games_inv (run_game_ops s (c # calls) d)" by (simp add: run_game_ops_def)
    qed
  qed (simp add: run_game_ops_def)
  with assms show ?thesis by blast
qed

lemma terminal_step:
  assumes g: "by_key g_id i (games d) = Some g" "g_status g \<in> set TERMINAL_GAME_STATUSES"
    and "u_role (fst (snd call)) \<noteq> UR_ADMIN"
  shows "\<exists>g'. by_key g_id i (games (exec_game_op s call d)) = Some g' \<and> g_status g' = g_status g \<and>
    g_team_id g' = g_team_id g \<and> g_game_type g' = g_game_type g \<and> g_date g' = g_date g"
proof -
  obtain rq u a where c: "call = (rq, u, a)" by (cases call)
  show ?thesis
  proof (cases a)
    case (CreateGame p gid now)
    obtain r d' where r: "create_game s rq u p gid now d = (r, d')" by fastforce
    have "games d' = games d \<or> (\<exists>x. games d' = games d @ [x])"
      using r by (cases r) (auto dest: create_game_Inl create_game_Inr)
    with g r show ?thesis by (auto simp: c CreateGame exec_game_op_def by_key_append)
  next
    case (UpdateGame gid p)
    obtain r d' where r: "update_game s rq u gid p d = (r, d')" by fastforce
    have same: "exec_game_op s call d = (if update_game_request_ok p then d' else d)"
      using r by (simp add: c UpdateGame exec_game_op_def)
    from r show ?thesis
    proof (cases rule: update_game_cases)
      case 1
      with same g show ?thesis by simp
    next
      case (2 game game')
      note keep = settled_keeps[OF 2(2)]
      from by_key_Some[OF 2(1)] have id: "g_id game = gid" by blast
      have eq: "i = gid \<Longrightarrow> game = g" using g(1) 2(1) by simp
      have "given (ug_status p) = None \<or> given (ug_status p) = Some (g_status game)" if "game = g"
        using 2(4) g(2) assms(3) that by (simp add: reopens_terminal_game_def c)
      then have "g_status game' = g_status game" if "game = g"
        using that keep(3) by (auto simp: kept_def)
      then have "by_key g_id i (games d') = Some (if i = gid then game' else g) \<and> (i = gid \<longrightarrow> g_status game' = g_status g)"
        using eq g(1) 2(1,5) keep(1) id by (auto simp: by_key_put_row)
      with same g(1) eq keep show ?thesis by (cases "i = gid") simp_all
    qed
  qed
qed

text \<open>
  A game that is completed or failed stays so for every user but an administrator: after any history of
  requests by other users it is still there with the same status, team, type and date.
\<close>

theorem terminal_game_settled:
  assumes "by_key g_id i (games d) = Some g" and "g_status g = GS_COMPLETED \<or> g_status g = GS_FAILED"
    and "\<forall>call \<in> set calls. u_role (fst (snd call)) \<noteq> UR_ADMIN"
  shows "\<exists>g'. by_key g_id i (games (run_game_ops s calls d)) = Some g' \<and> g_status g' = g_status g \<and>
    g_team_id g' = g_team_id g \<and> g_game_type g' = g_game_type g \<and> g_date g' = g_date g"
proof -
  have "g_status g \<in> set TERMINAL_GAME_STATUSES" using assms(2) by (auto simp: TERMINAL_GAME_STATUSES_def)
  with assms(1,3) show ?thesis
  proof (induction calls arbitrary: d g)
    case (Cons c calls)
    then obtain g' where g': "by_key g_id i (games (exec_game_op s c d)) = Some g'" "g_status g' = g_status g"
      "g_team_id g' = g_team_id g" "g_game_type g' = g_game_type g" "g_date g' = g_date g"
      using terminal_step[OF Cons.prems(1,3), of c s] by auto
    have "run_game_ops s (c # calls) d = run_game_ops s calls (exec_game_op s c d)" by (simp add: run_game_ops_def)
    with Cons.IH[OF g'(1)] Cons.prems(2,3) g' show ?case by simp
  qed (simp add: run_game_ops_def)
qed

section \<open>Paging through the listing\<close>

text \<open>A client that follows \<open>has_next\<close>; \<open>None\<close> when the fuel runs out.\<close>

fun fetch_games :: "nat \<Rightarrow> user_row \<Rightarrow> game_query \<Rightarrow> db \<Rightarrow> (exn + game_row list) option" where
  "fetch_games 0 u q d = None"
| "fetch_games (Suc n) u q d =
     (case list_games u q d of
        Inl e \<Rightarrow> Some (Inl e)
      | Inr r \<Rightarrow>
          if gl_has_next r then
            (case fetch_games n u (q\<lparr>gq_page := gq_page q + 1\<rparr>) d of
               Some (Inr gs) \<Rightarrow> Some (Inr (gl_games r @ gs))
             | x \<Rightarrow> x)
          else Some (Inr (gl_games r)))"

text \<open>Who may see a game in a listing, without the handler's case distinction.\<close>

definition may_list :: "db \<Rightarrow> user_row \<Rightarrow> game_query \<Rightarrow> game_row \<Rightarrow> bool" where
  "may_list d u q g \<longleftrightarrow>
     (\<exists>t \<in> set (teams d). t_id t = g_team_id g \<and> t_deleted_at t = None) \<and>
     (u_role u = UR_ADMIN \<or>
      (\<exists>m \<in> set (memberships d). m_user_id m = u_id u \<and> m_team_id m = g_team_id g \<and> m_is_active m)) \<and>
     (gq_team_id q = None \<or> gq_team_id q = Some (g_team_id g))"

definition newest_game :: "game_row \<Rightarrow> int \<times> time" where
  "newest_game g = (- g_date g, - g_created_at g)"

lemma member_of_team:
  assumes "require_team_member d u i = Inr a"
  shows "u_role u = UR_ADMIN \<or> (\<exists>m \<in> set (memberships d). m_user_id m = u_id u \<and> m_team_id m = i \<and> m_is_active m)"
proof (cases "u_role u = UR_ADMIN")
  case False
  with assms obtain m where "get_team_membership d (u_id u) i = Some m"
    by (cases "get_team_membership d (u_id u) i") (simp_all add: require_team_member_def)
  from scalar_Some[OF this[unfolded get_team_membership_def]] show ?thesis by blast
qed simp

lemma team_filter_exact:
  assumes "team_filter u q d = Inr visible"
  shows "visible g \<longleftrightarrow> may_list d u q g"
proof (cases "gq_team_id q")
  case None
  with assms have "visible = (if u_role u = UR_ADMIN then (\<lambda>g. undeleted_team d (g_team_id g)) else (\<lambda>g. own_team d u (g_team_id g)))"
    by (simp add: team_filter_def split: if_splits)
  moreover have "own_team d u i \<longleftrightarrow> undeleted_team d i \<and>
      (\<exists>m \<in> set (memberships d). m_user_id m = u_id u \<and> m_team_id m = i \<and> m_is_active m)" for i
    unfolding own_team_def by (metis (no_types, lifting))
  ultimately show ?thesis using None by (simp add: may_list_def undeleted_team_def[symmetric]) 
next
  case (Some i)
  with assms obtain team where t: "get_team_or_404 d i = Inr team"
    by (cases "get_team_or_404 d i") (simp_all add: team_filter_def)
  from get_team_or_404_Inr[OF t] by_key_Some[of t_id i "teams d" team]
  have team: "t_id team = i" "team \<in> set (teams d)" "t_deleted_at team = None" by simp_all
  from assms Some t team(1) obtain a where a: "require_team_member d u i = Inr a" and v: "visible = (\<lambda>g. g_team_id g = i)"
    by (auto simp: team_filter_def split: sum.splits)
  with member_of_team[OF a] team Some show ?thesis by (auto simp: may_list_def)
qed

definition listed_games :: "user_row \<Rightarrow> game_query \<Rightarrow> db \<Rightarrow> game_row list" where
  "listed_games u q d = sort_key newest_game (filter (\<lambda>g. may_list d u q g \<and> game_matches q g) (games d))"

lemma list_games_page:
  assumes "team_filter u q d = Inr visible"
  shows "list_games u q d = Inr \<lparr>
    gl_games = take (nat (gq_per_page q)) (drop (nat ((gq_page q - 1) * gq_per_page q)) (listed_games u q d)),
    gl_total = length (listed_games u q d), gl_page = gq_page q, gl_per_page = gq_per_page q,
    gl_has_next = gq_page q * gq_per_page q < int (length (listed_games u q d))\<rparr>"
  using team_filter_exact[OF assms]
  by (simp add: list_games_def assms listed_games_def Let_def newest_game_def[abs_def] cong: filter_cong)

lemma listed_any_page [simp]: "listed_games u (q\<lparr>gq_page := k\<rparr>) d = listed_games u q d"
  by (simp add: listed_games_def may_list_def game_matches_def)

lemma team_filter_any_page [simp]: "team_filter u (q\<lparr>gq_page := k\<rparr>) d = team_filter u q d"
  by (simp add: team_filter_def)

lemma fetch_games_rest:
  assumes "team_filter u q d = Inr visible" and "1 \<le> gq_per_page q" and "1 \<le> gq_page q"
    and "length (drop (nat ((gq_page q - 1) * gq_per_page q)) (listed_games u q d)) < n"
  shows "fetch_games n u q d = Some (Inr (drop (nat ((gq_page q - 1) * gq_per_page q)) (listed_games u q d)))"
  using assms
proof (induction n arbitrary: q)
  case (Suc n)
  let ?L = "listed_games u q d" and ?k = "nat ((gq_page q - 1) * gq_per_page q)"
  let ?q = "q\<lparr>gq_page := gq_page q + 1\<rparr>"
  have k: "int ?k = (gq_page q - 1) * gq_per_page q" using Suc.prems(2,3) by simp
  have p: "int (nat (gq_per_page q)) = gq_per_page q" using Suc.prems(2) by simp
  have "int (?k + nat (gq_per_page q)) = gq_page q * gq_per_page q" using k p by (simp add: algebra_simps)
  then have e: "nat (gq_page q * gq_per_page q) = ?k + nat (gq_per_page q)" by linarith
  then have next_iff: "gq_page q * gq_per_page q < int (length ?L) \<longleftrightarrow> ?k + nat (gq_per_page q) < length ?L"
    using \<open>int (?k + nat (gq_per_page q)) = _\<close> by linarith
  show ?case
  proof (cases "?k + nat (gq_per_page q) < length ?L")
    case True
    have "fetch_games n u ?q d = Some (Inr (drop (?k + nat (gq_per_page q)) ?L))"
    proof -
      have "length ?L - (?k + nat (gq_per_page q)) < n"
        using Suc.prems(2,4) True by simp
      then show ?thesis using Suc.IH[of ?q] Suc.prems(1-3) e by simp
    qed
    moreover have "take (nat (gq_per_page q)) (drop ?k ?L) @ drop (?k + nat (gq_per_page q)) ?L = drop ?k ?L"
      by (metis append_take_drop_id drop_drop add.commute)
    ultimately show ?thesis using True next_iff by (simp add: list_games_page[OF Suc.prems(1)])
  next
    case False
    then have "take (nat (gq_per_page q)) (drop ?k ?L) = drop ?k ?L" by simp
    with False next_iff show ?thesis by (simp add: list_games_page[OF Suc.prems(1)])
  qed
qed simp

text \<open>
  A client that reads the game list page by page until \<open>has_next\<close> is false gets, newest date first, exactly
  the games that match its filters and that it may see: those of the requested team, or of any, that is not
  deleted and of which it is an active member, unless it is an administrator. One page more than there are games
  is enough requests.
\<close>

theorem game_listing_exact:
  assumes "team_filter u q d = Inr visible" and "game_query_ok q" and "gq_page q = 1"
  shows "\<exists>gs. fetch_games (Suc (length (games d))) u q d = Some (Inr gs) \<and>
    mset gs = filter_mset (\<lambda>g. may_list d u q g \<and> game_matches q g) (mset (games d)) \<and>
    sorted (map (\<lambda>g. (- g_date g, - g_created_at g)) gs)"
proof (intro exI conjI)
  have "length (listed_games u q d) < Suc (length (games d))" by (simp add: listed_games_def le_imp_less_Suc)
  then show "fetch_games (Suc (length (games d))) u q d = Some (Inr (listed_games u q d))"
    using fetch_games_rest[OF assms(1), of "Suc (length (games d))"] assms(2,3)
    by (simp add: game_query_ok_def del: fetch_games.simps)
  show "mset (listed_games u q d) = filter_mset (\<lambda>g. may_list d u q g \<and> game_matches q g) (mset (games d))"
    by (simp add: listed_games_def)
  have "(\<lambda>g. (- g_date g, - g_created_at g)) = newest_game" by (simp add: newest_game_def[abs_def])
  then show "sorted (map (\<lambda>g. (- g_date g, - g_created_at g)) (listed_games u q d))"
    by (simp add: listed_games_def)
qed

text \<open>
  A game of a team that is neither deleted nor active is in its members' lists, and cannot be opened.
\<close>

definition any_games :: game_query where
  "any_games = \<lparr>gq_team_id = None, gq_status = None, gq_game_type = None, gq_date_from = None, gq_date_to = None,
     gq_page = 1, gq_per_page = 20\<rparr>"

definition idle_team_db :: db where
  "idle_team_db = sample_db\<lparr>teams := [sample_team\<lparr>t_is_active := False\<rparr>]\<rparr>"

lemma inactive_team_listed:
  "map_sum id gl_games (list_games sample_coach any_games idle_team_db) = Inr [sample_game] \<and>
   get_game sample_coach 6 idle_team_db = Inl (NotFoundError E_TEAM_NOT_FOUND)"
  by (simp add: list_games_def team_filter_def any_games_def idle_team_db_def sample_defs own_team_def undeleted_team_def
      game_matches_def get_game_def readable_game_def by_key_def get_team_or_404_def Let_def)

definition patch_nothing :: update_game_request where
  "patch_nothing = \<lparr>ug_opponent_name = None, ug_location = None, ug_time = None, ug_is_home = None, ug_periods = None,
     ug_period_length_minutes = None, ug_shot_clock_enabled = None, ug_shot_clock_seconds = None, ug_notes = None,
     ug_score_team = None, ug_score_opponent = None, ug_status = None\<rparr>"

definition final_score :: update_game_request where
  "final_score = patch_nothing\<lparr>ug_score_team := Some (Some 71), ug_status := Some (Some GS_COMPLETED)\<rparr>"

definition reopen :: update_game_request where
  "reopen = patch_nothing\<lparr>ug_status := Some (Some GS_SCHEDULED)\<rparr>"


text \<open>A patch that sends null for a required column passes validation and fails in the database.\<close>

lemma null_status_crashes:
  "update_game_request_ok (patch_nothing\<lparr>ug_status := Some None\<rparr>) \<and>
   fst (update_game default_settings sample_request sample_coach 6 (patch_nothing\<lparr>ug_status := Some None\<rparr>) sample_db)
     = Inl integrity_error"
  by (simp add: update_game_request_ok_def patch_nothing_def patch_shot_clock_ok_def update_game_def patchable_game_def
      patched_row_def reopens_terminal_game_def settle_shot_clock_def apply_patch_def nulls_required_column_def
      updated_fields_def sample_defs by_key_def get_team_or_404_def require_verified_account_def require_team_coach_def
      require_team_member_def get_team_membership_def COACH_TEAM_ROLES_def)

lemma sample_games_inv: "games_inv sample_db"
  by (simp add: games_inv_def sample_defs game_ok_def)

lemma game_rows_typed_witness:
  "games_inv (run_game_ops default_settings [(sample_request, sample_coach, UpdateGame 6 final_score),
     (sample_request, sample_coach, UpdateGame 6 reopen)] sample_db)"
  using game_rows_typed[OF sample_games_inv, of "[(sample_request, sample_coach, UpdateGame 6 final_score),
     (sample_request, sample_coach, UpdateGame 6 reopen)]" default_settings]
  by (simp add: created_games_def sample_defs)

lemma terminal_game_settled_witness:
  "\<exists>g'. by_key g_id 6 (games (run_game_ops default_settings [(sample_request, sample_coach, UpdateGame 6 reopen)]
      (sample_db\<lparr>games := [sample_game\<lparr>g_status := GS_COMPLETED\<rparr>]\<rparr>))) = Some g' \<and> g_status g' = GS_COMPLETED"
  using terminal_game_settled[of 6 "sample_db\<lparr>games := [sample_game\<lparr>g_status := GS_COMPLETED\<rparr>]\<rparr>"
      "sample_game\<lparr>g_status := GS_COMPLETED\<rparr>" "[(sample_request, sample_coach, UpdateGame 6 reopen)]" default_settings]
  by (simp add: by_key_def sample_defs) blast

lemma game_listing_exact_witness:
  "\<exists>gs. fetch_games 2 sample_coach any_games sample_db = Some (Inr gs) \<and> mset gs = {#sample_game#}"
proof -
  have t: "team_filter sample_coach any_games sample_db = Inr (\<lambda>g. own_team sample_db sample_coach (g_team_id g))"
    by (simp add: team_filter_def any_games_def sample_defs)
  have m: "filter_mset (\<lambda>g. may_list sample_db sample_coach any_games g \<and> game_matches any_games g) (mset (games sample_db))
      = {#sample_game#}"
    by (simp add: may_list_def game_matches_def any_games_def sample_defs)
  have "Suc (length (games sample_db)) = 2" by (simp add: sample_defs)
  with game_listing_exact[OF t] m show ?thesis by (auto simp: any_games_def game_query_ok_def)
qed

end
