(* ===== verification/Teams.thy ===== *)
theory Teams
  imports Permissions Samples
begin

text \<open>
  \<open>apps/api/src/nextballup_api/routers/teams.py\<close> and \<open>security/invite_code.py\<close>: creation and deletion of
  teams, invites, privacy consents, joining, and the read endpoints. A handler is a function of the
  request, the user, the database and the values it draws (ids, clock, random codes); it returns the
  response or the error, and the committed database: on an error whatever was not committed is
  rolled back. Request bodies are taken as validated by their schema. The outcome of the rate
  limiter is the argument \<open>rl\<close>. Creating a team or an invite is taken as one transaction that
  nothing interrupts; joining is interleaved with what others commit between its checks and its flush.
\<close>

section \<open>Invite codes\<close>

definition INVITE_ALPHABET :: string where
  "INVITE_ALPHABET = ''ABCDEFGHJKLMNPQRSTUVWXYZ23456789''"

definition INVITE_DEFAULT_LENGTH :: nat where
  "INVITE_DEFAULT_LENGTH = 10"

text \<open>\<open>choices i\<close> is the number drawn by \<open>secrets.choice\<close> for the \<open>i\<close>-th character.\<close>

definition generate_invite_code :: "nat \<Rightarrow> (nat \<Rightarrow> nat) \<Rightarrow> string" where
  "generate_invite_code len choices =
     map (\<lambda>i. INVITE_ALPHABET ! (choices i mod length INVITE_ALPHABET)) [0..<len]"

definition INVITE_LOOKUP_RETRIES :: nat where
  "INVITE_LOOKUP_RETRIES = 5"

definition code_taken :: "db \<Rightarrow> string \<Rightarrow> bool" where
  "code_taken d c \<longleftrightarrow>
     scalar (\<lambda>t. t_invite_code t = c) (teams d) \<noteq> None \<or>
     scalar (\<lambda>i. i_invite_code i = c) (invites d) \<noteq> None"

text \<open>\<open>draws k\<close> are the random choices of the \<open>k\<close>-th attempt.\<close>

fun try_invite_codes :: "nat \<Rightarrow> (nat \<Rightarrow> nat \<Rightarrow> nat) \<Rightarrow> nat \<Rightarrow> db \<Rightarrow> exn + string" where
  "try_invite_codes 0 draws k d = Inl (AppError 503 E_INTERNAL_ERROR [])"
| "try_invite_codes (Suc n) draws k d =
     (let code = generate_invite_code INVITE_DEFAULT_LENGTH (draws k) in
      if code_taken d code then try_invite_codes n draws (Suc k) d else Inr code)"

definition generate_unique_invite_code :: "(nat \<Rightarrow> nat \<Rightarrow> nat) \<Rightarrow> db \<Rightarrow> exn + string" where
  "generate_unique_invite_code draws d = try_invite_codes INVITE_LOOKUP_RETRIES draws 0 d"

definition normalize_invite_code :: "string \<Rightarrow> string" where
  "normalize_invite_code v = py_upper (py_strip v)"

definition invite_url :: "settings \<Rightarrow> string \<Rightarrow> string" where
  "invite_url s invite_code =
     rstrip_by (\<lambda>c. c = CHR ''/'') (frontend_app_url s) @ ''/join/'' @ invite_code"

section \<open>Seats and summaries\<close>

definition PLAYER_SEAT_ROLES :: "team_role list" where
  "PLAYER_SEAT_ROLES = [TR_PLAYER, TR_CAPTAIN]"

definition COACH_SEAT_ROLES :: "team_role list" where
  "COACH_SEAT_ROLES = [TR_HEAD_COACH, TR_ASSISTANT_COACH]"

definition can_view_invite_code :: "user_row \<Rightarrow> team_role option \<Rightarrow> bool" where
  "can_view_invite_code u team_role =
     (u_role u = UR_ADMIN \<or> (case team_role of None \<Rightarrow> False | Some r \<Rightarrow> r \<in> set COACH_SEAT_ROLES))"

definition team_role_allowed_for_user :: "user_role \<Rightarrow> team_role \<Rightarrow> bool" where
  "team_role_allowed_for_user user_role team_role =
     (if user_role = UR_ADMIN then True
      else if team_role \<in> set PLAYER_SEAT_ROLES then user_role = UR_PLAYER
      else user_role = UR_COACH)"

record team_summary =
  ts_id :: uuid
  ts_name :: string
  ts_sport :: sport
  ts_level :: team_level
  ts_institution :: "string option"
  ts_institution_type :: institution_type
  ts_season :: string
  ts_invite_code :: "string option"

definition team_summary_fields :: "team_row \<Rightarrow> string option \<Rightarrow> team_summary" where
  "team_summary_fields t invite_code =
     \<lparr>ts_id = t_id t, ts_name = t_name t, ts_sport = t_sport t, ts_level = t_level t,
      ts_institution = t_institution t, ts_institution_type = t_institution_type t,
      ts_season = t_season t, ts_invite_code = invite_code\<rparr>"

definition visible_code :: "user_row \<Rightarrow> team_role \<Rightarrow> team_row \<Rightarrow> string option" where
  "visible_code u role t = (if can_view_invite_code u (Some role) then Some (t_invite_code t) else None)"

record member_summary =
  ms_user_id :: uuid
  ms_full_name :: string
  ms_role :: user_role
  ms_team_role :: team_role
  ms_jersey_number :: "int option"
  ms_joined_at :: time

definition member_summary_of :: "membership_row \<Rightarrow> user_row \<Rightarrow> member_summary" where
  "member_summary_of m u =
     \<lparr>ms_user_id = u_id u, ms_full_name = u_full_name u, ms_role = u_role u,
      ms_team_role = m_team_role m, ms_jersey_number = m_jersey_number m, ms_joined_at = m_joined_at m\<rparr>"

definition consent_is_active :: "time \<Rightarrow> consent_row \<Rightarrow> bool" where
  "consent_is_active now c =
     (c_revoked_at c = None \<and> c_effective_at c \<le> now \<and>
      (case c_expires_at c of None \<Rightarrow> True | Some e \<Rightarrow> e > now))"

record consent_response =
  cs_id :: uuid
  cs_team_id :: uuid
  cs_recorded_by :: "uuid option"
  cs_label :: string
  cs_consent_source :: string
  cs_covers_video_uploads :: bool
  cs_covers_cv_processing :: bool
  cs_commercial_ml_training_allowed :: bool
  cs_minors_authorized :: bool
  cs_athlete_pii_authorized :: bool
  cs_evidence_uri :: "string option"
  cs_evidence_sha256 :: "string option"
  cs_effective_at :: time
  cs_expires_at :: "time option"
  cs_revoked_at :: "time option"
  cs_is_active :: bool
  cs_created_at :: time

definition privacy_consent_response :: "time \<Rightarrow> consent_row \<Rightarrow> consent_response" where
  "privacy_consent_response now c =
     \<lparr>cs_id = c_id c, cs_team_id = c_team_id c, cs_recorded_by = c_recorded_by c, cs_label = c_label c,
      cs_consent_source = c_consent_source c, cs_covers_video_uploads = c_covers_video_uploads c,
      cs_covers_cv_processing = c_covers_cv_processing c,
      cs_commercial_ml_training_allowed = c_commercial_ml_training_allowed c,
      cs_minors_authorized = c_minors_authorized c,
      cs_athlete_pii_authorized = c_athlete_pii_authorized c, cs_evidence_uri = c_evidence_uri c,
      cs_evidence_sha256 = c_evidence_sha256 c, cs_effective_at = c_effective_at c,
      cs_expires_at = c_expires_at c, cs_revoked_at = c_revoked_at c,
      cs_is_active = consent_is_active now c, cs_created_at = c_created_at c\<rparr>"

section \<open>Teams and invites\<close>

record create_team_request =
  ct_name :: string
  ct_sport :: sport
  ct_level :: team_level
  ct_institution :: "string option"
  ct_institution_type :: institution_type
  ct_season :: string
  ct_city :: "string option"
  ct_state :: "string option"
  ct_conference :: "string option"

definition team_of_request :: "create_team_request \<Rightarrow> uuid \<Rightarrow> string \<Rightarrow> time \<Rightarrow> team_row" where
  "team_of_request p team_id invite_code now =
     \<lparr>t_id = team_id, t_name = ct_name p, t_sport = ct_sport p, t_level = ct_level p,
      t_institution = ct_institution p, t_institution_type = ct_institution_type p,
      t_season = ct_season p, t_city = ct_city p, t_state = ct_state p, t_conference = ct_conference p,
      t_invite_code = invite_code, t_is_active = True, t_deleted_at = None, t_created_at = now\<rparr>"

definition new_membership ::
  "uuid \<Rightarrow> uuid \<Rightarrow> uuid \<Rightarrow> team_role \<Rightarrow> int option \<Rightarrow> time \<Rightarrow> membership_row" where
  "new_membership i team_id user_id role jersey now =
     \<lparr>m_id = i, m_team_id = team_id, m_user_id = user_id, m_team_role = role, m_jersey_number = jersey,
      m_is_active = True, m_joined_at = now\<rparr>"

definition create_team ::
  "settings \<Rightarrow> request \<Rightarrow> user_row \<Rightarrow> create_team_request \<Rightarrow> (nat \<Rightarrow> nat \<Rightarrow> nat) \<Rightarrow> uuid \<Rightarrow> uuid \<Rightarrow> time \<Rightarrow>
   db \<Rightarrow> (exn + team_summary \<times> time \<times> nat) \<times> db" where
  "create_team s rq u p draws team_id membership_id now d =
     (case require_user_role u [UR_COACH, UR_ADMIN] of
        Inl e \<Rightarrow> (Inl e, d)
      | Inr _ \<Rightarrow>
          (case require_verified_account s u of
             Inl e \<Rightarrow> (Inl e, d)
           | Inr _ \<Rightarrow>
               (case generate_unique_invite_code draws d of
                  Inl e \<Rightarrow> (Inl e, d)
                | Inr invite_code \<Rightarrow>
                    (let team = team_of_request p team_id invite_code now;
                         d = d\<lparr>teams := teams d @ [team]\<rparr>;
                         d = d\<lparr>memberships := memberships d @
                               [new_membership membership_id team_id (u_id u) TR_HEAD_COACH None now]\<rparr>;
                         d = write_audit rq A_TEAM_CREATED u ''team'' (Some team_id) (Some team_id)
                               [(''sport'', JStr (sport_value (t_sport team))),
                                (''level'', JStr (team_level_value (t_level team)))] d
                     in (Inr (team_summary_fields team (Some invite_code), t_created_at team, 1), d)))))"

record create_invite_request =
  ci_role :: team_role
  ci_max_uses :: int
  ci_expires_in_days :: int

record invite_response =
  ir_invite_code :: string
  ir_invite_url :: string
  ir_expires_at :: time
  ir_remaining_uses :: int
  ir_role :: team_role

definition create_invite ::
  "settings \<Rightarrow> request \<Rightarrow> user_row \<Rightarrow> uuid \<Rightarrow> create_invite_request \<Rightarrow> (nat \<Rightarrow> nat \<Rightarrow> nat) \<Rightarrow> uuid \<Rightarrow> time \<Rightarrow>
   db \<Rightarrow> (exn + invite_response) \<times> db" where
  "create_invite s rq u team_id p draws invite_id now d =
     (case require_verified_account s u of
        Inl e \<Rightarrow> (Inl e, d)
      | Inr _ \<Rightarrow>
          (case get_team_or_404 d team_id of
             Inl e \<Rightarrow> (Inl e, d)
           | Inr team \<Rightarrow>
               (case require_team_coach d u (t_id team) of
                  Inl e \<Rightarrow> (Inl e, d)
                | Inr membership \<Rightarrow>
                    if ci_role p = TR_HEAD_COACH \<and> u_role u \<noteq> UR_ADMIN \<and>
                       access_role membership \<noteq> TR_HEAD_COACH
                    then (Inl (ForbiddenError E_FORBIDDEN []), d)
                    else
                      (case generate_unique_invite_code draws d of
                         Inl e \<Rightarrow> (Inl e, d)
                       | Inr invite_code \<Rightarrow>
                           (let invite = \<lparr>i_id = invite_id, i_team_id = t_id team, i_invite_code = invite_code,
                                  i_role = ci_role p, i_max_uses = ci_max_uses p, i_uses = 0,
                                  i_expires_at = now + days (ci_expires_in_days p),
                                  i_created_by = Some (u_id u), i_is_active = True\<rparr>;
                                d = d\<lparr>invites := invites d @ [invite]\<rparr>;
                                d = write_audit rq A_TEAM_INVITE_CREATED u ''team_invite'' (Some invite_id)
                                      (Some (t_id team))
                                      [(''role'', JStr (team_role_value (ci_role p))),
                                       (''max_uses'', JInt (ci_max_uses p))] d
                            in (Inr \<lparr>ir_invite_code = invite_code, ir_invite_url = invite_url s invite_code,
                                  ir_expires_at = i_expires_at invite,
                                  ir_remaining_uses = i_max_uses invite - i_uses invite,
                                  ir_role = i_role invite\<rparr>, d))))))"

definition delete_team ::
  "settings \<Rightarrow> request \<Rightarrow> user_row \<Rightarrow> uuid \<Rightarrow> time \<Rightarrow> db \<Rightarrow> (exn + unit) \<times> db" where
  "delete_team s rq u team_id now d =
     (case require_verified_account s u of
        Inl e \<Rightarrow> (Inl e, d)
      | Inr _ \<Rightarrow>
          (case by_key t_id team_id (teams d) of
             None \<Rightarrow> (Inr (), d)
           | Some team \<Rightarrow>
               if \<not> t_is_active team then (Inr (), d)
               else
                 (case require_team_coach d u (t_id team) of
                    Inl e \<Rightarrow> (Inl e, d)
                  | Inr _ \<Rightarrow>
                      if t_deleted_at team \<noteq> None then (Inr (), d)
                      else
                        (let d = d\<lparr>teams := put_row t_id (team\<lparr>t_deleted_at := Some now\<rparr>) (teams d)\<rparr>
                         in (Inr (), write_audit rq A_TEAM_DELETED u ''team'' (Some (t_id team)) (Some (t_id team))
                               [(''deleted_at'', JTime now)] d)))))"

section \<open>Privacy consents\<close>

record consent_request =
  cr_label :: string
  cr_consent_source :: string
  cr_covers_video_uploads :: bool
  cr_covers_cv_processing :: bool
  cr_commercial_ml_training_allowed :: bool
  cr_minors_authorized :: bool
  cr_athlete_pii_authorized :: bool
  cr_evidence_uri :: "string option"
  cr_evidence_sha256 :: "string option"
  cr_expires_at :: "time option"
  cr_notes :: "string option"

definition record_privacy_consent ::
  "settings \<Rightarrow> request \<Rightarrow> user_row \<Rightarrow> uuid \<Rightarrow> consent_request \<Rightarrow> uuid \<Rightarrow> time \<Rightarrow> time \<Rightarrow> db \<Rightarrow>
   (exn + consent_response) \<times> db" where
  "record_privacy_consent s rq u team_id p consent_id db_now now d =
     (case require_verified_account s u of
        Inl e \<Rightarrow> (Inl e, d)
      | Inr _ \<Rightarrow>
          (case get_team_or_404 d team_id of
             Inl e \<Rightarrow> (Inl e, d)
           | Inr team \<Rightarrow>
               (case require_team_coach d u (t_id team) of
                  Inl e \<Rightarrow> (Inl e, d)
                | Inr _ \<Rightarrow>
                    (let consent = \<lparr>c_id = consent_id, c_team_id = t_id team, c_recorded_by = Some (u_id u),
                           c_label = cr_label p, c_consent_source = cr_consent_source p,
                           c_covers_video_uploads = cr_covers_video_uploads p,
                           c_covers_cv_processing = cr_covers_cv_processing p,
                           c_commercial_ml_training_allowed = cr_commercial_ml_training_allowed p,
                           c_minors_authorized = cr_minors_authorized p,
                           c_athlete_pii_authorized = cr_athlete_pii_authorized p,
                           c_evidence_uri = cr_evidence_uri p, c_evidence_sha256 = cr_evidence_sha256 p,
                           c_effective_at = db_now, c_expires_at = cr_expires_at p, c_revoked_at = None,
                           c_notes = cr_notes p, c_created_at = db_now\<rparr>;
                         d = d\<lparr>consents := consents d @ [consent]\<rparr>;
                         d = write_audit rq A_TEAM_PRIVACY_CONSENT_RECORDED u ''team_privacy_consent''
                               (Some consent_id) (Some (t_id team))
                               [(''covers_video_uploads'', JBool (c_covers_video_uploads consent)),
                                (''covers_cv_processing'', JBool (c_covers_cv_processing consent)),
                                (''commercial_ml_training_allowed'', JBool (c_commercial_ml_training_allowed consent)),
                                (''minors_authorized'', JBool (c_minors_authorized consent)),
                                (''has_evidence_uri'', JBool (c_evidence_uri consent \<noteq> None)),
                                (''has_evidence_sha256'', JBool (c_evidence_sha256 consent \<noteq> None))] d
                     in (Inr (privacy_consent_response now consent), d)))))"

definition list_privacy_consents ::
  "user_row \<Rightarrow> uuid \<Rightarrow> time \<Rightarrow> db \<Rightarrow> exn + consent_response list \<times> nat" where
  "list_privacy_consents u team_id now d =
     (case get_team_or_404 d team_id of
        Inl e \<Rightarrow> Inl e
      | Inr team \<Rightarrow>
          (case require_team_member d u (t_id team) of
             Inl e \<Rightarrow> Inl e
           | Inr _ \<Rightarrow>
               (let consents = map (privacy_consent_response now)
                      (sort_key (\<lambda>c. - c_created_at c)
                        (filter (\<lambda>c. c_team_id c = t_id team) (consents d)))
                in Inr (consents, length consents))))"

section \<open>Joining\<close>

definition audit_join_failure :: "string \<Rightarrow> exn" where
  "audit_join_failure reason =
     (if reason = E_INVITE_NOT_FOUND then NotFoundError E_INVITE_NOT_FOUND
      else if reason \<in> {E_INVITE_EXPIRED, E_INVITE_EXHAUSTED, E_INVITE_INACTIVE, E_JERSEY_NUMBER_TAKEN,
        E_ALREADY_MEMBER} then ConflictError reason []
      else if reason = E_INVITE_ROLE_MISMATCH then ForbiddenError E_INVITE_ROLE_MISMATCH []
      else if reason = E_JERSEY_NUMBER_REQUIRED then ValidationFailedError E_JERSEY_NUMBER_REQUIRED []
      else AppError 400 reason [])"

definition record_join_failure :: "request \<Rightarrow> user_row \<Rightarrow> string \<Rightarrow> uuid option \<Rightarrow> string \<Rightarrow> db \<Rightarrow> db" where
  "record_join_failure rq u invite_code team_id reason d =
     write_audit rq A_TEAM_JOIN_FAILED u ''team'' team_id team_id
       [(''reason'', JStr reason), (''invite_code'', JStr invite_code)] d"

text \<open>The checks of \<open>join_team\<close>, in order: \<open>Some (reason, team)\<close> for the first that fails.\<close>

definition invite_refusal :: "invite_row \<Rightarrow> time \<Rightarrow> string option" where
  "invite_refusal invite now =
     (if \<not> i_is_active invite then Some E_INVITE_INACTIVE
      else if i_expires_at invite \<le> now then Some E_INVITE_EXPIRED
      else if i_uses invite \<ge> i_max_uses invite then Some E_INVITE_EXHAUSTED
      else None)"

definition seat_refusal ::
  "user_row \<Rightarrow> team_row \<Rightarrow> team_role \<Rightarrow> int option \<Rightarrow> db \<Rightarrow> string option" where
  "seat_refusal u team target_team_role jersey_number d =
     (let is_player_seat = target_team_role \<in> set PLAYER_SEAT_ROLES in
      if \<not> team_role_allowed_for_user (u_role u) target_team_role then Some E_INVITE_ROLE_MISMATCH
      else if scalar (\<lambda>m. m_team_id m = t_id team \<and> m_user_id m = u_id u) (memberships d) \<noteq> None
        then Some E_ALREADY_MEMBER
      else if is_player_seat \<and> u_role u = UR_PLAYER \<and> jersey_number = None
        then Some E_JERSEY_NUMBER_REQUIRED
      else if is_player_seat \<and> jersey_number \<noteq> None \<and>
          scalar (\<lambda>m. m_team_id m = t_id team \<and> m_jersey_number m = jersey_number) (memberships d) \<noteq> None
        then Some E_JERSEY_NUMBER_TAKEN
      else None)"

definition find_join_target :: "string \<Rightarrow> db \<Rightarrow> team_row option \<times> invite_row option" where
  "find_join_target c d =
     (case scalar (\<lambda>t. t_invite_code t = c) (teams d) of
        Some team \<Rightarrow> (Some team, None)
      | None \<Rightarrow>
          (case scalar (\<lambda>i. i_invite_code i = c) (invites d) of
             None \<Rightarrow> (None, None)
           | Some invite \<Rightarrow> (by_key t_id (i_team_id invite) (teams d), Some invite)))"

text \<open>The unique constraints of \<open>team_memberships\<close> on \<open>(team_id, user_id)\<close> and \<open>(team_id, jersey_number)\<close>.\<close>

definition membership_clash :: "membership_row \<Rightarrow> db \<Rightarrow> bool" where
  "membership_clash m d \<longleftrightarrow>
     (\<exists>x \<in> set (memberships d). m_team_id x = m_team_id m \<and>
        (m_user_id x = m_user_id m \<or> m_jersey_number m \<noteq> None \<and> m_jersey_number x = m_jersey_number m))"

text \<open>
  \<open>itf\<close> is what other transactions committed between the checks and the flush; the invite row is
  locked meanwhile.
\<close>

definition admit ::
  "request \<Rightarrow> user_row \<Rightarrow> team_row \<Rightarrow> invite_row option \<Rightarrow> team_role \<Rightarrow> int option \<Rightarrow> uuid \<Rightarrow> time \<Rightarrow> db \<Rightarrow>
   (exn + team_summary \<times> member_summary) \<times> db" where
  "admit rq u team invite target_team_role jersey_number membership_id now d =
     (let is_player_seat = target_team_role \<in> set PLAYER_SEAT_ROLES;
          m = new_membership membership_id (t_id team) (u_id u) target_team_role
                (if is_player_seat then jersey_number else None) now
      in if membership_clash m d then (Inl (audit_join_failure E_JERSEY_NUMBER_TAKEN), d)
         else
           (let d = d\<lparr>memberships := memberships d @ [m]\<rparr>;
                d = (case invite of
                       None \<Rightarrow> d
                     | Some i \<Rightarrow> d\<lparr>invites := update_where (\<lambda>x. i_id x = i_id i)
                         (\<lambda>x. x\<lparr>i_uses := i_uses i + 1\<rparr>) (invites d)\<rparr>);
                d = write_audit rq A_TEAM_JOIN_SUCCEEDED u ''team_membership'' (Some membership_id)
                      (Some (t_id team))
                      [(''team_role'', JStr (team_role_value target_team_role)),
                       (''via_invite'', JBool (invite \<noteq> None))] d
            in (Inr (team_summary_fields team (visible_code u target_team_role team), member_summary_of m u), d)))"

definition join_team ::
  "settings \<Rightarrow> request \<Rightarrow> user_row \<Rightarrow> exn + unit \<Rightarrow> string \<Rightarrow> int option \<Rightarrow> uuid \<Rightarrow> time \<Rightarrow> (db \<Rightarrow> db) \<Rightarrow> db \<Rightarrow>
   (exn + team_summary \<times> member_summary) \<times> db" where
  "join_team s rq u rl invite_code jersey_number membership_id now itf d =
     (let code = normalize_invite_code invite_code;
          refuse = (\<lambda>team_id reason. (Inl (audit_join_failure reason), record_join_failure rq u code team_id reason d))
      in case rl of
           Inl e \<Rightarrow> (Inl e, d)
         | Inr _ \<Rightarrow>
             (case require_verified_account s u of
                Inl e \<Rightarrow> (Inl e, d)
              | Inr _ \<Rightarrow>
                  (case find_join_target code d of
                     (None, invite) \<Rightarrow> refuse None E_INVITE_NOT_FOUND
                   | (Some team, invite) \<Rightarrow>
                       if \<not> t_is_active team \<or> t_deleted_at team \<noteq> None then refuse None E_INVITE_NOT_FOUND
                       else
                         (case (case invite of None \<Rightarrow> None | Some i \<Rightarrow> invite_refusal i now) of
                            Some reason \<Rightarrow> refuse (Some (t_id team)) reason
                          | None \<Rightarrow>
                              (let target_team_role = (case invite of None \<Rightarrow> TR_PLAYER | Some i \<Rightarrow> i_role i)
                               in case seat_refusal u team target_team_role jersey_number d of
                                    Some reason \<Rightarrow> refuse (Some (t_id team)) reason
                                  | None \<Rightarrow>
                                      admit rq u team invite target_team_role jersey_number membership_id now
                                        (itf d))))))"

section \<open>Reading\<close>

record team_entry =
  te_summary :: team_summary
  te_my_team_role :: team_role
  te_member_count :: nat
  te_game_count :: nat

definition list_my_teams :: "user_row \<Rightarrow> db \<Rightarrow> team_entry list" where
  "list_my_teams u d =
     (let rows = concat (map (\<lambda>m. map (\<lambda>t. (m, t))
            (filter (\<lambda>t. t_id t = m_team_id m \<and> t_is_active t \<and> t_deleted_at t = None) (teams d)))
            (filter (\<lambda>m. m_user_id m = u_id u \<and> m_is_active m) (memberships d)))
      in map (\<lambda>(m, t). \<lparr>te_summary = team_summary_fields t (visible_code u (m_team_role m) t),
           te_my_team_role = m_team_role m,
           te_member_count = length (filter (\<lambda>x. m_team_id x = t_id t \<and> m_is_active x) (memberships d)),
           te_game_count = length (filter (\<lambda>g. g_team_id g = t_id t) (games d))\<rparr>)
         (sort_key (\<lambda>(m, t). t_name t) rows))"

record team_detail =
  td_summary :: team_summary
  td_my_team_role :: team_role
  td_members :: "member_summary list"
  td_member_count :: nat

definition active_members :: "uuid \<Rightarrow> db \<Rightarrow> (membership_row \<times> user_row) list" where
  "active_members team_id d =
     concat (map (\<lambda>m. case by_key u_id (m_user_id m) (users d) of None \<Rightarrow> [] | Some x \<Rightarrow> [(m, x)])
       (filter (\<lambda>m. m_team_id m = team_id \<and> m_is_active m) (memberships d)))"

definition get_team :: "user_row \<Rightarrow> uuid \<Rightarrow> db \<Rightarrow> exn + team_detail" where
  "get_team u team_id d =
     (case get_team_or_404 d team_id of
        Inl e \<Rightarrow> Inl e
      | Inr team \<Rightarrow>
          (case require_team_member d u (t_id team) of
             Inl e \<Rightarrow> Inl e
           | Inr _ \<Rightarrow>
               (case scalar (\<lambda>m. m_team_id m = t_id team \<and> m_user_id m = u_id u \<and> m_is_active m) (memberships d) of
                  None \<Rightarrow> Inl (ForbiddenError E_FORBIDDEN [])
                | Some mine \<Rightarrow>
                    (let members = map (\<lambda>(m, x). member_summary_of m x) (active_members (t_id team) d)
                     in Inr \<lparr>td_summary = team_summary_fields team (visible_code u (m_team_role mine) team),
                          td_my_team_role = m_team_role mine, td_members = members,
                          td_member_count = length members\<rparr>))))"

definition list_team_members :: "user_row \<Rightarrow> uuid \<Rightarrow> db \<Rightarrow> exn + member_summary list \<times> nat" where
  "list_team_members u team_id d =
     (case get_team_or_404 d team_id of
        Inl e \<Rightarrow> Inl e
      | Inr team \<Rightarrow>
          (case require_team_member d u (t_id team) of
             Inl e \<Rightarrow> Inl e
           | Inr _ \<Rightarrow>
               (let members = map (\<lambda>(m, x). member_summary_of m x)
                      (sort_key (\<lambda>(m, x). m_joined_at m) (active_members (t_id team) d))
                in Inr (members, length members))))"

section \<open>Invite codes are fresh\<close>

lemma code_taken_iff:
  "code_taken d c \<longleftrightarrow> c \<in> t_invite_code ` set (teams d) \<or> c \<in> i_invite_code ` set (invites d)"
  unfolding code_taken_def by (auto simp: scalar_None)

lemma length_generate_invite_code [simp]: "length (generate_invite_code n r) = n"
  by (simp add: generate_invite_code_def)

lemma set_generate_invite_code: "set (generate_invite_code n r) \<subseteq> set INVITE_ALPHABET"
proof -
  have "0 < length INVITE_ALPHABET" by (simp add: INVITE_ALPHABET_def)
  then show ?thesis unfolding generate_invite_code_def by (auto intro!: nth_mem)
qed

lemma try_invite_codes_Inr:
  "try_invite_codes n draws k d = Inr c \<Longrightarrow>
     \<exists>j < n. c = generate_invite_code INVITE_DEFAULT_LENGTH (draws (k + j)) \<and> \<not> code_taken d c"
proof (induction n draws k d rule: try_invite_codes.induct)
  case (2 n draws k d)
  show ?case
  proof (cases "code_taken d (generate_invite_code INVITE_DEFAULT_LENGTH (draws k))")
    case True
    with 2 obtain j where "j < n" "c = generate_invite_code INVITE_DEFAULT_LENGTH (draws (Suc k + j))"
      "\<not> code_taken d c"
      by (auto simp: Let_def)
    then show ?thesis by (intro exI[of _ "Suc j"]) simp
  next
    case False
    with 2(2) show ?thesis by (intro exI[of _ 0]) (simp add: Let_def)
  qed
qed simp

lemma try_invite_codes_Inl:
  "try_invite_codes n draws k d = Inl e \<longleftrightarrow>
     e = AppError 503 E_INTERNAL_ERROR [] \<and>
     (\<forall>j < n. code_taken d (generate_invite_code INVITE_DEFAULT_LENGTH (draws (k + j))))"
proof (induction n draws k d rule: try_invite_codes.induct)
  case (2 n draws k d)
  have "(\<forall>j < Suc n. P j) \<longleftrightarrow> P 0 \<and> (\<forall>j < n. P (Suc j))" for P
    by (metis less_Suc_eq_0_disj)
  with 2 show ?case by (auto simp: Let_def)
qed auto

lemma generated_code_free:
  "generate_unique_invite_code draws d = Inr c \<Longrightarrow> \<not> code_taken d c"
  unfolding generate_unique_invite_code_def by (auto dest: try_invite_codes_Inr)

section \<open>What a successful join has checked\<close>

lemma invite_refusal_None:
  "invite_refusal i now = None \<longleftrightarrow> i_is_active i \<and> now < i_expires_at i \<and> i_uses i < i_max_uses i"
  by (auto simp: invite_refusal_def)

lemma seat_refusal_None:
  "seat_refusal u team role jersey d = None \<Longrightarrow>
     team_role_allowed_for_user (u_role u) role \<and>
     (role \<in> set PLAYER_SEAT_ROLES \<and> u_role u = UR_PLAYER \<longrightarrow> jersey \<noteq> None)"
  by (auto simp: seat_refusal_def Let_def split: if_splits)

lemma find_join_target_team:
  assumes "find_join_target c d = (Some team, iv)"
  shows "team \<in> set (teams d) \<and>
     (case iv of None \<Rightarrow> t_invite_code team = c
      | Some i \<Rightarrow> i \<in> set (invites d) \<and> i_invite_code i = c \<and> i_team_id i = t_id team \<and>
          c \<notin> t_invite_code ` set (teams d))"
proof (cases "scalar (\<lambda>t. t_invite_code t = c) (teams d)")
  case None
  then have n: "c \<notin> t_invite_code ` set (teams d)" by (auto simp: scalar_None)
  from None assms obtain i where "scalar (\<lambda>i. i_invite_code i = c) (invites d) = Some i"
    "iv = Some i" "by_key t_id (i_team_id i) (teams d) = Some team"
    by (auto simp: find_join_target_def split: option.splits)
  with n show ?thesis by (auto dest!: scalar_Some by_key_Some)
next
  case (Some t)
  with assms show ?thesis by (auto simp: find_join_target_def dest!: scalar_Some)
qed

definition seat_of :: "invite_row option \<Rightarrow> team_role" where
  "seat_of iv = (case iv of None \<Rightarrow> TR_PLAYER | Some i \<Rightarrow> i_role i)"

definition joined_row :: "user_row \<Rightarrow> team_row \<Rightarrow> invite_row option \<Rightarrow> int option \<Rightarrow> uuid \<Rightarrow> time \<Rightarrow> membership_row" where
  "joined_row u team iv jersey mid now =
     new_membership mid (t_id team) (u_id u) (seat_of iv)
       (if seat_of iv \<in> set PLAYER_SEAT_ROLES then jersey else None) now"

definition use_invite :: "invite_row option \<Rightarrow> invite_row list \<Rightarrow> invite_row list" where
  "use_invite iv t =
     (case iv of None \<Rightarrow> t
      | Some i \<Rightarrow> update_where (\<lambda>x. i_id x = i_id i) (\<lambda>x. x\<lparr>i_uses := i_uses i + 1\<rparr>) t)"

lemma admit_Inr:
  assumes "admit rq u team iv (seat_of iv) jersey mid now d = (Inr r, d')"
  shows "\<not> membership_clash (joined_row u team iv jersey mid now) d \<and>
    memberships d' = memberships d @ [joined_row u team iv jersey mid now] \<and>
    invites d' = use_invite iv (invites d) \<and> teams d' = teams d \<and> consents d' = consents d"
  using assms
  by (auto simp: admit_def Let_def joined_row_def use_invite_def split: if_splits option.splits)

lemma admit_Inl: "admit rq u team iv role jersey mid now d = (Inl e, d') \<Longrightarrow> d' = d"
  by (auto simp: admit_def Let_def split: if_splits)

lemma join_team_Inr:
  assumes "join_team s rq u rl c jersey mid now itf d = (Inr r, d')"
  obtains team iv where
    "find_join_target (normalize_invite_code c) d = (Some team, iv)"
    "t_is_active team" "t_deleted_at team = None"
    "\<forall>i. iv = Some i \<longrightarrow> invite_refusal i now = None"
    "seat_refusal u team (seat_of iv) jersey d = None"
    "admit rq u team iv (seat_of iv) jersey mid now (itf d) = (Inr r, d')"
  using assms unfolding join_team_def
  by (auto simp: Let_def seat_of_def split: sum.splits prod.splits option.splits if_splits)

lemma join_team_Inl:
  assumes "join_team s rq u rl c jersey mid now itf d = (Inl e, d')"
  shows "same_but_audit d d' \<or> d' = itf d"
  using assms unfolding join_team_def
  by (auto simp: Let_def record_join_failure_def dest: admit_Inl
      split: sum.splits prod.splits option.splits if_splits)

definition join_reasons :: "string set" where
  "join_reasons = {E_INVITE_NOT_FOUND, E_INVITE_INACTIVE, E_INVITE_EXPIRED, E_INVITE_EXHAUSTED,
     E_INVITE_ROLE_MISMATCH, E_ALREADY_MEMBER, E_JERSEY_NUMBER_REQUIRED, E_JERSEY_NUMBER_TAKEN}"

lemma join_reason_status: "r \<in> join_reasons \<Longrightarrow> status_code (audit_join_failure r) \<in> {403, 404, 409, 422}"
  by (auto simp: join_reasons_def audit_join_failure_def error_defs)

lemma invite_refusal_reason: "invite_refusal i now = Some r \<Longrightarrow> r \<in> join_reasons"
  by (auto simp: invite_refusal_def join_reasons_def split: if_splits)

lemma seat_refusal_reason: "seat_refusal u team role jersey d = Some r \<Longrightarrow> r \<in> join_reasons"
  by (auto simp: seat_refusal_def join_reasons_def Let_def split: if_splits)

lemma admit_reason:
  "admit rq u team iv role jersey mid now x = (Inl e, y) \<Longrightarrow> e = audit_join_failure E_JERSEY_NUMBER_TAKEN"
  by (auto simp: admit_def Let_def split: if_splits)

lemma verified_refusal: "require_verified_account s u = Inl e \<Longrightarrow> status_code e = 403"
  by (auto simp: require_verified_account_def error_defs split: if_splits)

lemma join_team_error:
  assumes "join_team s rq u rl c jersey mid now itf d = (Inl e, d')"
  shows "rl = Inl e \<or> require_verified_account s u = Inl e \<or> status_code e \<in> {403, 404, 409, 422}"
proof -
  have m: "E_INVITE_NOT_FOUND \<in> join_reasons" "E_JERSEY_NUMBER_TAKEN \<in> join_reasons"
    by (simp_all add: join_reasons_def)
  have "rl = Inl e \<or> require_verified_account s u = Inl e \<or> (\<exists>r \<in> join_reasons. e = audit_join_failure r)"
    using assms m unfolding join_team_def Let_def
    by (auto dest: invite_refusal_reason seat_refusal_reason admit_reason
        split: sum.splits prod.splits option.splits if_splits)
  with join_reason_status show ?thesis by blast
qed

section \<open>The invariant of the team tables\<close>

text \<open>
  \<open>team_inv\<close> collects the unique constraints of the tables and what the handlers add to them: codes
  are unique across teams and invites together, an invite is never used more than \<open>max_uses\<close> times,
  and no user and no jersey appears twice on a team.
\<close>

definition seats_ok :: "membership_row list \<Rightarrow> bool" where
  "seats_ok ms \<longleftrightarrow>
     distinct (map (\<lambda>m. (m_team_id m, m_user_id m)) ms) \<and>
     distinct (map (\<lambda>m. (m_team_id m, m_jersey_number m)) (filter (\<lambda>m. m_jersey_number m \<noteq> None) ms))"

definition team_inv :: "db \<Rightarrow> bool" where
  "team_inv d \<longleftrightarrow>
     distinct (map t_id (teams d)) \<and> distinct (map i_id (invites d)) \<and>
     distinct (map t_invite_code (teams d) @ map i_invite_code (invites d)) \<and>
     (\<forall>i \<in> set (invites d). 0 \<le> i_uses i \<and> i_uses i \<le> i_max_uses i) \<and>
     seats_ok (memberships d) \<and> m_team_id ` set (memberships d) \<subseteq> t_id ` set (teams d)"

lemma team_inv_cong:
  assumes "map t_id (teams d') = map t_id (teams d)"
    and "map t_invite_code (teams d') = map t_invite_code (teams d)"
    and "invites d' = invites d" and "memberships d' = memberships d"
  shows "team_inv d' = team_inv d"
proof -
  from assms(1) have "t_id ` set (teams d') = t_id ` set (teams d)" by (metis list.set_map)
  with assms show ?thesis unfolding team_inv_def by metis
qed

lemma same_but_audit_tables:
  "same_but_audit d d' \<Longrightarrow> teams d' = teams d \<and> invites d' = invites d \<and> memberships d' = memberships d"
  unfolding same_but_audit_def by (metis db.select_convs(2,3,4) db.surjective db.update_convs(15))

lemma team_inv_same_but_audit: "same_but_audit d d' \<Longrightarrow> team_inv d' = team_inv d"
  by (intro team_inv_cong) (simp_all add: same_but_audit_tables)

lemma seats_ok_snoc:
  assumes "seats_ok (memberships d)" and "\<not> membership_clash m d"
  shows "seats_ok (memberships d @ [m])"
  using assms unfolding seats_ok_def membership_clash_def by auto

lemma use_invite_keys [simp]:
  "map i_id (use_invite iv t) = map i_id t" "map i_invite_code (use_invite iv t) = map i_invite_code t"
  by (auto simp: use_invite_def map_update_where split: option.splits)

lemma use_invite_bound:
  assumes "\<forall>i \<in> set t. 0 \<le> i_uses i \<and> i_uses i \<le> i_max_uses i"
    and "distinct (map i_id t)"
    and "\<And>i. iv = Some i \<Longrightarrow> by_key i_id (i_id i) t = Some i \<and> i_uses i < i_max_uses i"
  shows "\<forall>i \<in> set (use_invite iv t). 0 \<le> i_uses i \<and> i_uses i \<le> i_max_uses i"
proof (cases iv)
  case (Some i)
  with assms(3) have i: "by_key i_id (i_id i) t = Some i" "i_uses i < i_max_uses i" by auto
  then have "x = i" if "x \<in> set t" "i_id x = i_id i" for x
    using by_key_unique[OF assms(2) i(1)] that by blast
  then have "set (use_invite iv t) \<subseteq> insert (i\<lparr>i_uses := i_uses i + 1\<rparr>) (set t)"
    by (auto simp: use_invite_def Some set_update_where)
  with i assms(1) by_key_Some[OF i(1)] show ?thesis by fastforce
qed (use assms(1) in \<open>simp add: use_invite_def\<close>)

lemma team_inv_create_team:
  assumes "team_inv d" and "team_id \<notin> t_id ` set (teams d)"
  shows "team_inv (snd (create_team s rq u p draws team_id mid now d))"
  using assms generated_code_free[of draws d]
  unfolding create_team_def team_inv_def code_taken_iff seats_ok_def
  by (auto simp: Let_def team_of_request_def new_membership_def split: sum.splits)

lemma team_inv_create_invite:
  assumes "team_inv d" and "invite_id \<notin> i_id ` set (invites d)" and "1 \<le> ci_max_uses p"
  shows "team_inv (snd (create_invite s rq u team_id p draws invite_id now d))"
  using assms generated_code_free[of draws d]
  unfolding create_invite_def team_inv_def code_taken_iff
  by (auto simp: Let_def split: sum.splits)

lemma team_inv_delete_team:
  assumes "team_inv d"
  shows "team_inv (snd (delete_team s rq u team_id now d))"
proof (cases "by_key t_id team_id (teams d)")
  case (Some t)
  let ?t = "t\<lparr>t_deleted_at := Some now\<rparr>"
  let ?d = "d\<lparr>teams := put_row t_id ?t (teams d)\<rparr>"
  have "map t_invite_code (put_row t_id ?t (teams d)) = map t_invite_code (teams d)"
    by (rule map_put_row[of t_id _ _ t])
      (use assms Some in \<open>auto simp: team_inv_def dest: by_key_Some\<close>)
  moreover have "map t_id (put_row t_id ?t (teams d)) = map t_id (teams d)" by (rule keys_put_row)
  ultimately have "team_inv (write_audit rq a v rt ri tt x ?d) = team_inv d" for a v rt ri tt x
    by (intro team_inv_cong) simp_all
  with assms Some show ?thesis
    unfolding delete_team_def by (auto simp: Let_def split: sum.splits)
qed (use assms in \<open>auto simp: delete_team_def split: sum.splits\<close>)

lemma team_inv_record_privacy_consent:
  "team_inv d \<Longrightarrow> team_inv (snd (record_privacy_consent s rq u team_id p cid t0 now d))"
  by (auto simp: record_privacy_consent_def Let_def team_inv_def split: sum.splits)

lemma team_inv_join_team:
  assumes d: "team_inv d" and d1: "team_inv d1" and ids: "t_id ` set (teams d) \<subseteq> t_id ` set (teams d1)"
    and lock: "\<forall>i. snd (find_join_target (normalize_invite_code c) d) = Some i \<longrightarrow>
      by_key i_id (i_id i) (invites d1) = Some i"
  shows "team_inv (snd (join_team s rq u rl c jersey mid now (\<lambda>_. d1) d))"
proof (cases "join_team s rq u rl c jersey mid now (\<lambda>_. d1) d")
  case (Pair x d')
  show ?thesis
  proof (cases x)
    case (Inl e)
    with Pair join_team_Inl[of s rq u rl c jersey mid now "\<lambda>_. d1" d e d'] d d1 show ?thesis
      by (auto simp: team_inv_same_but_audit)
  next
    case (Inr r)
    with Pair have "join_team s rq u rl c jersey mid now (\<lambda>_. d1) d = (Inr r, d')" by simp
    then obtain team iv where
      f: "find_join_target (normalize_invite_code c) d = (Some team, iv)"
      and ref: "\<forall>i. iv = Some i \<longrightarrow> invite_refusal i now = None"
      and ad: "admit rq u team iv (seat_of iv) jersey mid now d1 = (Inr r, d')"
      by (rule join_team_Inr)
    note eqs = admit_Inr[OF ad]
    have "\<forall>i \<in> set (invites d'). 0 \<le> i_uses i \<and> i_uses i \<le> i_max_uses i"
      unfolding eqs[THEN conjunct2, THEN conjunct2, THEN conjunct1]
      by (rule use_invite_bound) (use d1 lock f ref in \<open>auto simp: team_inv_def invite_refusal_None\<close>)
    moreover have "seats_ok (memberships d')"
      using eqs seats_ok_snoc d1 unfolding team_inv_def by metis
    moreover have "m_team_id ` set (memberships d') \<subseteq> t_id ` set (teams d')"
      using eqs d1 ids find_join_target_team[OF f]
      by (auto simp: team_inv_def joined_row_def new_membership_def)
    ultimately have "team_inv d'" using d1 eqs unfolding team_inv_def by simp
    with Pair show ?thesis by simp
  qed
qed

text \<open>
  \<open>team_reach s a d\<close>: the handlers of this module can take the database from \<open>a\<close> to \<open>d\<close>. While a join
  runs, other requests may commit; the row lock it holds keeps the invite it read as it was. Fresh
  identifiers come from \<open>uuid4\<close>; \<open>max_uses\<close> is at least 1 by the request schema.
\<close>

inductive team_reach :: "settings \<Rightarrow> db \<Rightarrow> db \<Rightarrow> bool" for s where
  stay: "team_reach s a a"
| create: "team_reach s a d \<Longrightarrow> team_id \<notin> t_id ` set (teams d) \<Longrightarrow>
     team_reach s a (snd (create_team s rq u p draws team_id mid now d))"
| invite: "team_reach s a d \<Longrightarrow> invite_id \<notin> i_id ` set (invites d) \<Longrightarrow> 1 \<le> ci_max_uses q \<Longrightarrow>
     team_reach s a (snd (create_invite s rq u team_id q draws invite_id now d))"
| delete: "team_reach s a d \<Longrightarrow> team_reach s a (snd (delete_team s rq u team_id now d))"
| consent: "team_reach s a d \<Longrightarrow>
     team_reach s a (snd (record_privacy_consent s rq u team_id cp cid t0 now d))"
| join: "team_reach s a d \<Longrightarrow> team_reach s d d1 \<Longrightarrow>
     \<forall>i. snd (find_join_target (normalize_invite_code c) d) = Some i \<longrightarrow>
       by_key i_id (i_id i) (invites d1) = Some i \<Longrightarrow>
     team_reach s a (snd (join_team s rq u rl c jersey mid now (\<lambda>_. d1) d))"

lemma join_team_teams:
  assumes "t_id ` set (teams d) \<subseteq> t_id ` set (teams d1)"
  shows "t_id ` set (teams d) \<subseteq> t_id ` set (teams (snd (join_team s rq u rl c jersey mid now (\<lambda>_. d1) d)))"
proof (cases "join_team s rq u rl c jersey mid now (\<lambda>_. d1) d")
  case (Pair x d')
  then have "teams d' = teams d \<or> teams d' = teams d1"
    by (cases x) (auto dest!: join_team_Inl same_but_audit_tables elim!: join_team_Inr dest: admit_Inr)
  with assms Pair show ?thesis by auto
qed

lemma handler_teams:
  "t_id ` set (teams d) \<subseteq> t_id ` set (teams (snd (create_team s rq u p draws team_id mid now d)))"
  "teams (snd (create_invite s rq u team_id q draws invite_id now d)) = teams d"
  "t_id ` set (teams (snd (delete_team s rq u team_id now d))) = t_id ` set (teams d)"
  "teams (snd (record_privacy_consent s rq u team_id cp cid t0 now d)) = teams d"
proof -
  have "t_id ` set (put_row t_id r (teams d)) = t_id ` set (teams d)" for r
    by (metis keys_put_row list.set_map)
  then show "t_id ` set (teams (snd (delete_team s rq u team_id now d))) = t_id ` set (teams d)"
    by (auto simp: delete_team_def Let_def split: sum.splits option.splits)
qed (auto simp: create_team_def create_invite_def record_privacy_consent_def Let_def split: sum.splits)

lemma team_reach_teams: "team_reach s a d \<Longrightarrow> t_id ` set (teams a) \<subseteq> t_id ` set (teams d)"
proof (induction rule: team_reach.induct)
  case (create a d team_id rq u p draws mid now)
  from create.IH handler_teams(1) show ?case by (rule subset_trans)
next
  case (join a d d1 c rq u rl jersey mid now)
  from join.IH(1) join_team_teams[OF join.IH(2)] show ?case by (rule subset_trans)
qed (simp_all add: handler_teams)

lemma team_reach_inv: "team_reach s a d \<Longrightarrow> team_inv a \<Longrightarrow> team_inv d"
proof (induction rule: team_reach.induct)
  case (join a d d1 c rq u rl jersey mid now)
  then have "team_inv d" by simp
  with join show ?case by (intro team_inv_join_team team_reach_teams[of s]) simp_all
qed (simp_all add: team_inv_create_team team_inv_create_invite team_inv_delete_team
  team_inv_record_privacy_consent)

section \<open>The capacity of an invite\<close>

record join_call =
  jc_user :: user_row
  jc_limiter :: "exn + unit"
  jc_code :: string
  jc_jersey :: "int option"
  jc_id :: uuid
  jc_now :: time
  jc_itf :: "db \<Rightarrow> db"

definition call_join :: "settings \<Rightarrow> request \<Rightarrow> join_call \<Rightarrow> db \<Rightarrow> (exn + team_summary \<times> member_summary) \<times> db" where
  "call_join s rq j d =
     join_team s rq (jc_user j) (jc_limiter j) (jc_code j) (jc_jersey j) (jc_id j) (jc_now j) (jc_itf j) d"

text \<open>A sequence of joins; the result counts those that succeeded.\<close>

fun run_joins :: "settings \<Rightarrow> request \<Rightarrow> join_call list \<Rightarrow> db \<Rightarrow> nat \<times> db" where
  "run_joins s rq [] d = (0, d)"
| "run_joins s rq (j # js) d =
     (case call_join s rq j d of
        (Inl _, d') \<Rightarrow> run_joins s rq js d'
      | (Inr _, d') \<Rightarrow> (case run_joins s rq js d' of (n, d'') \<Rightarrow> (Suc n, d'')))"

text \<open>The invite \<open>i\<close> is the target of the code \<open>c\<close>.\<close>

definition invite_for :: "string \<Rightarrow> db \<Rightarrow> invite_row \<Rightarrow> bool" where
  "invite_for c d i \<longleftrightarrow> distinct (map i_id (invites d)) \<and> distinct (map i_invite_code (invites d)) \<and>
     c \<notin> t_invite_code ` set (teams d) \<and> i \<in> set (invites d) \<and> i_invite_code i = c"

lemma find_join_target_invite:
  assumes "invite_for c d i"
  shows "snd (find_join_target c d) = Some i"
proof -
  from assms have n: "scalar (\<lambda>t. t_invite_code t = c) (teams d) = None"
    unfolding invite_for_def scalar_None by (metis image_eqI)
  from assms have "by_key i_invite_code c (invites d) = Some i"
    unfolding invite_for_def by (metis by_key_mem)
  with n show ?thesis by (simp add: find_join_target_def by_key_def)
qed

lemma call_join_invite:
  assumes i: "invite_for c d i" and c: "normalize_invite_code (jc_code j) = c"
    and itf: "\<forall>x. teams (jc_itf j x) = teams x \<and> invites (jc_itf j x) = invites x"
    and j: "call_join s rq j d = (x, d')"
  shows "case x of
      Inl _ \<Rightarrow> invite_for c d' i
    | Inr _ \<Rightarrow> i_uses i < i_max_uses i \<and> invite_for c d' (i\<lparr>i_uses := i_uses i + 1\<rparr>)"
proof (cases x)
  case (Inl e)
  with j have "same_but_audit d d' \<or> d' = jc_itf j d"
    unfolding call_join_def by (auto dest: join_team_Inl)
  then have "teams d' = teams d \<and> invites d' = invites d"
    using itf same_but_audit_tables by auto
  with i Inl show ?thesis by (simp add: invite_for_def)
next
  case (Inr r)
  with j obtain team iv where f: "find_join_target c d = (Some team, iv)"
      and ok: "\<forall>i. iv = Some i \<longrightarrow> invite_refusal i (jc_now j) = None"
      and ad: "admit rq (jc_user j) team iv (seat_of iv) (jc_jersey j) (jc_id j) (jc_now j) (jc_itf j d)
        = (Inr r, d')"
    unfolding call_join_def c[symmetric] by (auto elim: join_team_Inr)
  have iv: "iv = Some i" using find_join_target_invite[OF i] f by simp
  note eqs = admit_Inr[OF ad]
  have inv': "invites d' = use_invite iv (invites d)" and t': "teams d' = teams d"
    using eqs itf by simp_all
  have "i\<lparr>i_uses := i_uses i + 1\<rparr> \<in> set (invites d')"
    using i unfolding inv' iv use_invite_def invite_for_def
    by (auto simp: set_update_where intro!: rev_image_eqI[of i])
  moreover have "distinct (map i_id (invites d')) \<and> distinct (map i_invite_code (invites d'))"
    unfolding inv' using i by (simp add: invite_for_def)
  ultimately show ?thesis using i ok iv Inr t' by (simp add: invite_for_def invite_refusal_None)
qed

lemma run_joins_bound:
  assumes "invite_for c d i" and "i_uses i \<le> i_max_uses i"
    and "\<forall>j \<in> set js. normalize_invite_code (jc_code j) = c \<and>
      (\<forall>x. teams (jc_itf j x) = teams x \<and> invites (jc_itf j x) = invites x)"
  shows "int (fst (run_joins s rq js d)) \<le> i_max_uses i - i_uses i"
  using assms
proof (induction js arbitrary: d i)
  case (Cons j js)
  obtain x d' where j: "call_join s rq j d = (x, d')" by force
  note step = call_join_invite[OF Cons.prems(1) _ _ j]
  show ?case
  proof (cases x)
    case (Inl e)
    with step Cons.prems(3) have "invite_for c d' i" by simp
    from Cons.IH[OF this Cons.prems(2)] Cons.prems(3) j Inl show ?thesis by simp
  next
    case (Inr r)
    let ?i = "i\<lparr>i_uses := i_uses i + 1\<rparr>"
    from step Inr Cons.prems(3) have "i_uses i < i_max_uses i" and i': "invite_for c d' ?i" by auto
    then have "int (fst (run_joins s rq js d')) \<le> i_max_uses ?i - i_uses ?i"
      by (intro Cons.IH) (use Cons.prems(3) in auto)
    with j Inr show ?thesis by (auto split: prod.splits)
  qed
qed simp

section \<open>What the read endpoints show\<close>

lemma get_team_Inr:
  assumes "get_team u team_id d = Inr r"
  shows "\<exists>t. \<exists>m \<in> set (memberships d). m_user_id m = u_id u \<and> m_team_id m = t_id t \<and> m_is_active m \<and>
    td_summary r = team_summary_fields t (visible_code u (m_team_role m) t)"
proof -
  from assms obtain t m where
    "scalar (\<lambda>m. m_team_id m = t_id t \<and> m_user_id m = u_id u \<and> m_is_active m) (memberships d) = Some m"
    "td_summary r = team_summary_fields t (visible_code u (m_team_role m) t)"
    unfolding get_team_def by (auto simp: Let_def split: sum.splits option.splits)
  then show ?thesis by (auto dest!: scalar_Some)
qed

lemma list_my_teams_mem:
  assumes "e \<in> set (list_my_teams u d)"
  shows "\<exists>t. \<exists>m \<in> set (memberships d). m_user_id m = u_id u \<and> m_team_id m = t_id t \<and> m_is_active m \<and>
    te_summary e = team_summary_fields t (visible_code u (m_team_role m) t)"
proof -
  from assms obtain m t where "m \<in> set (memberships d)" "m_user_id m = u_id u" "m_is_active m"
    "t_id t = m_team_id m" "te_summary e = team_summary_fields t (visible_code u (m_team_role m) t)"
    unfolding list_my_teams_def Let_def set_map set_sort set_concat by (elim imageE UN_E) auto
  then show ?thesis by (intro exI[of _ t] bexI[of _ m]) simp_all
qed

lemma create_invite_Inr:
  assumes "create_invite s rq u team_id p draws iid now d = (Inr r, d')"
  obtains t a where "get_team_or_404 d team_id = Inr t" "require_team_coach d u (t_id t) = Inr a"
    "ci_role p = TR_HEAD_COACH \<longrightarrow> u_role u = UR_ADMIN \<or> access_role a = TR_HEAD_COACH"
    "generate_unique_invite_code draws d = Inr (ir_invite_code r)"
    "invites d' = invites d @ [\<lparr>i_id = iid, i_team_id = t_id t, i_invite_code = ir_invite_code r,
        i_role = ci_role p, i_max_uses = ci_max_uses p, i_uses = 0,
        i_expires_at = now + days (ci_expires_in_days p), i_created_by = Some (u_id u), i_is_active = True\<rparr>]"
  using assms unfolding create_invite_def by (auto simp: Let_def split: sum.splits if_splits)

section \<open>Properties\<close>


definition sample_join :: "db" where
  "sample_join = snd (join_team default_settings sample_request sample_player (Inr ()) '' abcdefgh ''
     (Some 7) 31 5 (\<lambda>_. sample_db) sample_db)"


text \<open>
  C14: A join that succeeds was let in by a live target: an active, undeleted team, and when the code is
  an invite's, one that is active, not expired and not used up. It adds exactly one membership, of that
  user on that team with the seat of the target; the seat is one the account type may take, so a player
  account never gets a staff seat nor a coach account a player's; a player has a jersey number that
  nobody else on the team wears; and the use of the invite is counted.
\<close>
theorem join_admits:
  assumes "join_team s rq u rl c jersey mid now itf d = (Inr r, d')"
  shows "\<exists>team iv. find_join_target (normalize_invite_code c) d = (Some team, iv) \<and>
    t_is_active team \<and> t_deleted_at team = None \<and>
    (\<forall>i. iv = Some i \<longrightarrow> i_team_id i = t_id team \<and> i_is_active i \<and> now < i_expires_at i \<and>
       i_uses i < i_max_uses i) \<and>
    memberships d' = memberships (itf d) @ [joined_row u team iv jersey mid now] \<and>
    (u_role u = UR_PLAYER \<longrightarrow> seat_of iv \<in> {TR_PLAYER, TR_CAPTAIN} \<and> jersey \<noteq> None \<and>
       (\<forall>m \<in> set (memberships (itf d)). m_team_id m = t_id team \<longrightarrow> m_jersey_number m \<noteq> jersey)) \<and>
    (u_role u = UR_COACH \<longrightarrow> seat_of iv \<in> {TR_HEAD_COACH, TR_ASSISTANT_COACH, TR_MANAGER}) \<and>
    (\<forall>m \<in> set (memberships (itf d)). m_team_id m = t_id team \<longrightarrow> m_user_id m \<noteq> u_id u) \<and>
    invites d' = use_invite iv (invites (itf d))"
proof -
  from assms obtain team iv where
    f: "find_join_target (normalize_invite_code c) d = (Some team, iv)"
    and t: "t_is_active team" "t_deleted_at team = None"
    and i: "\<forall>i. iv = Some i \<longrightarrow> invite_refusal i now = None"
    and s: "seat_refusal u team (seat_of iv) jersey d = None"
    and a: "admit rq u team iv (seat_of iv) jersey mid now (itf d) = (Inr r, d')"
    by (rule join_team_Inr)
  have "team_role_allowed_for_user (u_role u) (seat_of iv)" using seat_refusal_None[OF s] by simp
  then have seat: "(u_role u = UR_PLAYER \<longrightarrow> seat_of iv \<in> {TR_PLAYER, TR_CAPTAIN}) \<and>
      (u_role u = UR_COACH \<longrightarrow> seat_of iv \<in> {TR_HEAD_COACH, TR_ASSISTANT_COACH, TR_MANAGER})"
    by (cases "seat_of iv") (auto simp: team_role_allowed_for_user_def PLAYER_SEAT_ROLES_def split: if_splits)
  have jersey: "u_role u = UR_PLAYER \<longrightarrow> jersey \<noteq> None"
    using seat_refusal_None[OF s] seat by (auto simp: PLAYER_SEAT_ROLES_def)
  have m: "\<forall>m \<in> set (memberships (itf d)). m_team_id m = t_id team \<longrightarrow> m_user_id m \<noteq> u_id u \<and>
      (u_role u = UR_PLAYER \<longrightarrow> m_jersey_number m \<noteq> jersey)"
    using admit_Inr[OF a] seat jersey
    by (auto simp: membership_clash_def joined_row_def new_membership_def PLAYER_SEAT_ROLES_def)
  have "\<forall>i. iv = Some i \<longrightarrow> i_team_id i = t_id team" using find_join_target_team[OF f] by auto
  with f t i m seat jersey admit_Inr[OF a] show ?thesis
    by (intro exI[of _ team] exI[of _ iv]) (auto simp: invite_refusal_None)
qed

theorem join_admits_witness:
  "\<exists>r d' team iv. join_team default_settings sample_request sample_player (Inr ()) ''abcdefgh'' (Some 7)
     31 5 (\<lambda>x. x) sample_db = (Inr r, d') \<and>
   memberships d' = memberships sample_db @ [joined_row sample_player team iv (Some 7) 31 5]"
proof -
  have "case join_team default_settings sample_request sample_player (Inr ()) ''abcdefgh'' (Some 7)
     31 5 (\<lambda>x. x) sample_db of (Inl _, _) \<Rightarrow> False | (Inr _, _) \<Rightarrow> True"
    by code_simp
  then obtain r d' where j: "join_team default_settings sample_request sample_player (Inr ()) ''abcdefgh''
      (Some 7) 31 5 (\<lambda>x. x) sample_db = (Inr r, d')"
    by (auto split: prod.splits sum.splits)
  from join_admits[OF this] j show ?thesis by blast
qed

text \<open>
  However many requests present the code of an invite, in whatever order, no more of them get onto
  the team than the invite has uses left.
\<close>
theorem invite_capacity:
  assumes "invite_for c d i" and "i_uses i \<le> i_max_uses i"
    and "\<forall>j \<in> set js. normalize_invite_code (jc_code j) = c \<and>
      (\<forall>x. teams (jc_itf j x) = teams x \<and> invites (jc_itf j x) = invites x)"
  shows "int (fst (run_joins s rq js d)) \<le> i_max_uses i - i_uses i"
  by (rule run_joins_bound[OF assms])

definition sample_invite :: invite_row where
  "sample_invite = \<lparr>i_id = 40, i_team_id = 2, i_invite_code = ''ZZZZ'', i_role = TR_PLAYER,
     i_max_uses = 1, i_uses = 0, i_expires_at = 100, i_created_by = None, i_is_active = True\<rparr>"

definition sample_call :: "user_row \<Rightarrow> int \<Rightarrow> join_call" where
  "sample_call u n = \<lparr>jc_user = u, jc_limiter = Inr (), jc_code = ''zzzz'', jc_jersey = Some n,
     jc_id = 31, jc_now = 5, jc_itf = (\<lambda>x. x)\<rparr>"

definition sample_calls :: "join_call list" where
  "sample_calls = [sample_call sample_player 7, sample_call (sample_player\<lparr>u_id := 9\<rparr>) 8]"

theorem invite_capacity_witness:
  "let d = sample_db\<lparr>invites := [sample_invite]\<rparr> in
   fst (run_joins default_settings sample_request sample_calls d) = 1"
proof -
  let ?d = "sample_db\<lparr>invites := [sample_invite]\<rparr>"
  have "normalize_invite_code ''zzzz'' = ''ZZZZ''" by code_simp
  then have c: "\<forall>j \<in> set sample_calls. normalize_invite_code (jc_code j) = ''ZZZZ'' \<and>
      (\<forall>x. teams (jc_itf j x) = teams x \<and> invites (jc_itf j x) = invites x)"
    by (simp add: sample_calls_def sample_call_def)
  have "int (fst (run_joins default_settings sample_request sample_calls ?d)) \<le>
      i_max_uses sample_invite - i_uses sample_invite"
    by (rule invite_capacity[OF _ _ c]) (simp_all add: invite_for_def sample_invite_def sample_defs)
  moreover have "1 \<le> fst (run_joins default_settings sample_request sample_calls ?d)"
    by code_simp
  ultimately show ?thesis by (simp add: sample_invite_def)
qed

text \<open>
  A refused join changes nothing but the audit log: what it leaves is the database as it was, up to
  its audit record, or exactly what others committed meanwhile. Past the rate limiter the refusal is one of
  the statuses 403, 404, 409 and 422.
\<close>
theorem join_refused:
  assumes "join_team s rq u rl c jersey mid now itf d = (Inl e, d')"
  shows "(same_but_audit d d' \<or> d' = itf d) \<and> (rl = Inr () \<longrightarrow> status_code e \<in> {403, 404, 409, 422})"
  using join_team_Inl[OF assms] join_team_error[OF assms] verified_refusal by force

theorem join_refused_witness:
  "\<exists>d'. join_team default_settings sample_request sample_coach (Inr ()) ''abcdefgh'' None 31 5 (\<lambda>x. x)
      sample_db = (Inl (ForbiddenError E_INVITE_ROLE_MISMATCH []), d') \<and> same_but_audit sample_db d'"
proof -
  have "fst (join_team default_settings sample_request sample_coach (Inr ()) ''abcdefgh'' None 31 5 (\<lambda>x. x)
      sample_db) = Inl (ForbiddenError E_INVITE_ROLE_MISMATCH [])" by code_simp
  then obtain d' where j: "join_team default_settings sample_request sample_coach (Inr ()) ''abcdefgh'' None
      31 5 (\<lambda>x. x) sample_db = (Inl (ForbiddenError E_INVITE_ROLE_MISMATCH []), d')"
    by (metis prod.collapse)
  have "d' = sample_db \<Longrightarrow> same_but_audit sample_db d'" by simp
  with j join_refused[OF j] show ?thesis by blast
qed

text \<open>
  Allocating an invite code fails, with status 503, exactly when all five random codes are taken;
  otherwise the code has ten characters of the alphabet and belongs to no team and no invite.
\<close>
theorem invite_code_allocation:
  "(generate_unique_invite_code draws d = Inl e \<longleftrightarrow>
      e = AppError 503 E_INTERNAL_ERROR [] \<and> (\<forall>k < 5. code_taken d (generate_invite_code 10 (draws k)))) \<and>
   (generate_unique_invite_code draws d = Inr c \<longrightarrow>
      length c = 10 \<and> set c \<subseteq> set INVITE_ALPHABET \<and>
      c \<notin> t_invite_code ` set (teams d) \<and> c \<notin> i_invite_code ` set (invites d))"
proof -
  have "length c = 10 \<and> set c \<subseteq> set INVITE_ALPHABET \<and> \<not> code_taken d c"
    if "generate_unique_invite_code draws d = Inr c"
    using try_invite_codes_Inr[OF that[unfolded generate_unique_invite_code_def]] set_generate_invite_code
    by (auto simp: INVITE_DEFAULT_LENGTH_def)
  then show ?thesis
    using try_invite_codes_Inl[of INVITE_LOOKUP_RETRIES draws 0 d e]
    unfolding generate_unique_invite_code_def INVITE_LOOKUP_RETRIES_def INVITE_DEFAULT_LENGTH_def code_taken_iff
    by simp
qed

theorem invite_code_allocation_witness:
  "generate_unique_invite_code (\<lambda>k i. k + i) sample_db = Inr ''ABCDEFGHJK'' \<and>
   ''ABCDEFGHJK'' \<notin> t_invite_code ` set (teams sample_db)"
proof -
  have e: "generate_unique_invite_code (\<lambda>k i. k + i) sample_db = Inr ''ABCDEFGHJK''" by code_simp
  with invite_code_allocation[of "\<lambda>k i. k + i" sample_db undefined "''ABCDEFGHJK''"] show ?thesis by blast
qed

text \<open>
  An invite is only ever issued for a live team, by an administrator or a coach of that team; one for
  a head coach's seat only by an administrator or a head coach of that team. The new row starts unused,
  active, under a code nobody has, and expires after the requested days.
\<close>
theorem invite_issued:
  assumes "create_invite s rq u team_id p draws iid now d = (Inr r, d')"
  shows "(\<exists>t \<in> set (teams d). t_id t = team_id \<and> t_is_active t \<and> t_deleted_at t = None) \<and>
    (u_role u = UR_ADMIN \<or> (\<exists>m \<in> set (memberships d). m_user_id m = u_id u \<and> m_team_id m = team_id \<and>
      m_is_active m \<and> m_team_role m \<in> {TR_HEAD_COACH, TR_ASSISTANT_COACH} \<and>
      (ci_role p = TR_HEAD_COACH \<longrightarrow> m_team_role m = TR_HEAD_COACH))) \<and>
    \<not> code_taken d (ir_invite_code r) \<and> invites d' = invites d @
      [\<lparr>i_id = iid, i_team_id = team_id, i_invite_code = ir_invite_code r, i_role = ci_role p,
        i_max_uses = ci_max_uses p, i_uses = 0, i_expires_at = now + days (ci_expires_in_days p),
        i_created_by = Some (u_id u), i_is_active = True\<rparr>]"
proof -
  from assms obtain t a where t: "get_team_or_404 d team_id = Inr t"
    and a: "require_team_coach d u (t_id t) = Inr a"
    and h: "ci_role p = TR_HEAD_COACH \<longrightarrow> u_role u = UR_ADMIN \<or> access_role a = TR_HEAD_COACH"
    and c: "generate_unique_invite_code draws d = Inr (ir_invite_code r)"
    and d': "invites d' = invites d @ [\<lparr>i_id = iid, i_team_id = t_id t, i_invite_code = ir_invite_code r,
        i_role = ci_role p, i_max_uses = ci_max_uses p, i_uses = 0,
        i_expires_at = now + days (ci_expires_in_days p), i_created_by = Some (u_id u), i_is_active = True\<rparr>]"
    by (rule create_invite_Inr)
  note t = get_team_or_404_Inr[OF t]
  have "\<exists>m \<in> set (memberships d). m_user_id m = u_id u \<and> m_team_id m = team_id \<and>
      m_is_active m \<and> m_team_role m \<in> {TR_HEAD_COACH, TR_ASSISTANT_COACH} \<and>
      (ci_role p = TR_HEAD_COACH \<longrightarrow> m_team_role m = TR_HEAD_COACH)" if "u_role u \<noteq> UR_ADMIN"
  proof -
    from a that coach_gate.other obtain m where "get_team_membership d (u_id u) (t_id t) = Some m"
      "a = Member m" "m_team_role m \<in> set COACH_TEAM_ROLES" by blast
    with h t that show ?thesis
      by (auto simp: get_team_membership_def COACH_TEAM_ROLES_def dest!: scalar_Some)
  qed
  with t d' generated_code_free[OF c] show ?thesis by (auto dest: by_key_Some)
qed

theorem invite_issued_witness:
  "\<exists>r d'. create_invite default_settings sample_request sample_coach 2
     \<lparr>ci_role = TR_HEAD_COACH, ci_max_uses = 1, ci_expires_in_days = 7\<rparr> (\<lambda>k i. k + i) 40 5 sample_db = (Inr r, d') \<and>
   \<not> code_taken sample_db (ir_invite_code r)"
proof -
  have "case create_invite default_settings sample_request sample_coach 2
     \<lparr>ci_role = TR_HEAD_COACH, ci_max_uses = 1, ci_expires_in_days = 7\<rparr> (\<lambda>k i. k + i) 40 5 sample_db of
     (Inl _, _) \<Rightarrow> False | (Inr _, _) \<Rightarrow> True" by code_simp
  then obtain r d' where j: "create_invite default_settings sample_request sample_coach 2
     \<lparr>ci_role = TR_HEAD_COACH, ci_max_uses = 1, ci_expires_in_days = 7\<rparr> (\<lambda>k i. k + i) 40 5 sample_db = (Inr r, d')"
    by (auto split: prod.splits sum.splits)
  from invite_issued[OF this] j show ?thesis by blast
qed

text \<open>
  The standing invite code of a team is shown only to administrators and to coaches of that team,
  by the team page and by the list of the user's teams.
\<close>
theorem invite_code_disclosure:
  assumes "u_role u \<noteq> UR_ADMIN" and "ts_invite_code ts \<noteq> None"
    and "(\<exists>r. get_team u team_id d = Inr r \<and> ts = td_summary r) \<or>
         (\<exists>e \<in> set (list_my_teams u d). ts = te_summary e)"
  shows "\<exists>m \<in> set (memberships d). m_user_id m = u_id u \<and> m_team_id m = ts_id ts \<and> m_is_active m \<and>
    m_team_role m \<in> {TR_HEAD_COACH, TR_ASSISTANT_COACH}"
proof -
  have "m_team_role m \<in> {TR_HEAD_COACH, TR_ASSISTANT_COACH}"
    if "ts = team_summary_fields t (visible_code u (m_team_role m) t)" for t m
    using that assms(1,2)
    by (auto simp: team_summary_fields_def visible_code_def can_view_invite_code_def COACH_SEAT_ROLES_def
        split: if_splits)
  moreover from assms(3) obtain t m where m: "m \<in> set (memberships d)" "m_user_id m = u_id u"
      "m_team_id m = t_id t" "m_is_active m" "ts = team_summary_fields t (visible_code u (m_team_role m) t)"
    using get_team_Inr list_my_teams_mem by blast
  moreover have "ts_id ts = t_id t" by (simp add: m(5) team_summary_fields_def)
  ultimately show ?thesis by metis
qed

theorem invite_code_disclosure_witness:
  "\<exists>r. get_team sample_coach 2 sample_db = Inr r \<and> ts_invite_code (td_summary r) = Some ''ABCDEFGH'' \<and>
     (\<exists>m \<in> set (memberships sample_db). m_user_id m = 4 \<and> m_is_active m \<and>
        m_team_role m \<in> {TR_HEAD_COACH, TR_ASSISTANT_COACH})"
proof -
  have "case get_team sample_coach 2 sample_db of Inl _ \<Rightarrow> False
      | Inr r \<Rightarrow> ts_invite_code (td_summary r) = Some ''ABCDEFGH''" by code_simp
  then obtain r where r: "get_team sample_coach 2 sample_db = Inr r"
      "ts_invite_code (td_summary r) = Some ''ABCDEFGH''"
    by (auto split: sum.splits)
  have "u_role sample_coach \<noteq> UR_ADMIN" "u_id sample_coach = 4" by (simp_all add: sample_coach_def)
  with r invite_code_disclosure[of sample_coach "td_summary r" 2 sample_db] show ?thesis by fastforce
qed

text \<open>
  The team page refuses an administrator who is not on the team, although the membership check has
  just let them in as a manager: the branch its comment calls unreachable is the one they reach.
\<close>
theorem admin_cannot_open_team:
  assumes "u_role u = UR_ADMIN" and "get_team_membership d (u_id u) team_id = None"
    and "get_team_or_404 d team_id = Inr t"
  shows "require_team_member d u team_id = Inr (Synthesized team_id (u_id u)) \<and>
    get_team u team_id d = Inl (ForbiddenError E_FORBIDDEN [])"
proof -
  have "t_id t = team_id" using get_team_or_404_Inr[OF assms(3)] by simp
  with assms show ?thesis
    by (simp add: require_team_member_def get_team_def get_team_membership_def)
qed

theorem admin_cannot_open_team_witness:
  "get_team (sample_coach\<lparr>u_id := 99, u_role := UR_ADMIN\<rparr>) 2 sample_db = Inl (ForbiddenError E_FORBIDDEN [])"
  using admin_cannot_open_team[of "sample_coach\<lparr>u_id := 99, u_role := UR_ADMIN\<rparr>" sample_db 2 sample_team]
  by (simp add: get_team_membership_def get_team_or_404_def by_key_def sample_defs)

lemma invite_alphabet_has_L: "CHR ''L'' \<in> set INVITE_ALPHABET \<and> length INVITE_ALPHABET = 32"
  by (simp add: INVITE_ALPHABET_def)

end
