(* ===== verification/Rate_Limit.thy ===== *)
theory Rate_Limit
  imports Samples
begin

text \<open>
  \<open>security/rate_limit.py\<close>: the limiter the API calls before sensitive work. Redis is not part of the
  sources: its three commands the Lua script issues are arguments (\<open>redis_api\<close>, over a store \<open>'r\<close>), and
  the locale \<open>redis_counter\<close> states what their documentation promises. \<open>up\<close> is whether the server
  answers. The locale's lemmas bound the calls a window admits; \<open>window_store\<close> is a concrete server.
\<close>

section \<open>The limiter\<close>

record 'r redis_api =
  rd_incr :: "string \<Rightarrow> 'r \<Rightarrow> int \<times> 'r"
  rd_expire :: "string \<Rightarrow> int \<Rightarrow> 'r \<Rightarrow> 'r"
  rd_ttl :: "string \<Rightarrow> 'r \<Rightarrow> int"

definition rate_limit_script :: "'r redis_api \<Rightarrow> string \<Rightarrow> int \<Rightarrow> 'r \<Rightarrow> (int \<times> int) \<times> 'r" where
  "rate_limit_script api key window_seconds r =
     (let (current, r) = rd_incr api key r;
          r = (if current = 1 then rd_expire api key window_seconds r else r)
      in ((current, rd_ttl api key r), r))"

definition rate_limit_key :: "request \<Rightarrow> string \<Rightarrow> string \<Rightarrow> string" where
  "rate_limit_key rq scope subject =
     ''rate_limit:'' @ scope @ '':'' @
     (case rq_client_ip rq of None \<Rightarrow> ''unknown'' | Some ip \<Rightarrow> if ip = [] then ''unknown'' else ip) @
     '':'' @ py_lower (py_strip subject)"

definition enforce_rate_limit ::
  "settings \<Rightarrow> 'r redis_api \<Rightarrow> bool \<Rightarrow> request \<Rightarrow> string \<Rightarrow> string \<Rightarrow> int \<Rightarrow> int \<Rightarrow> 'r \<Rightarrow> (exn + unit) \<times> 'r" where
  "enforce_rate_limit s api up rq scope subject max_attempts window_seconds r =
     (let unavailable = (if should_rate_limit_fail_closed s
            then Inl (ServiceUnavailableError E_INTERNAL_ERROR) else Inr ())
      in if \<not> truthy (redis_url s) then (unavailable, r)
         else if \<not> up then (unavailable, r)
         else
           (let ((count, retry_after), r) =
              rate_limit_script api (rate_limit_key rq scope subject) window_seconds r
            in if count > max_attempts
               then (Inl (TooManyRequestsError
                 [(''retry_after_seconds'', JInt (max retry_after 1)), (''limit'', JInt max_attempts),
                  (''window_seconds'', JInt window_seconds)]), r)
               else (Inr (), r)))"

definition enforce_auth_rate_limit ::
  "settings \<Rightarrow> 'r redis_api \<Rightarrow> bool \<Rightarrow> request \<Rightarrow> string \<Rightarrow> string \<Rightarrow> 'r \<Rightarrow> (exn + unit) \<times> 'r" where
  "enforce_auth_rate_limit s api up rq scope subject r =
     enforce_rate_limit s api up rq scope subject (auth_rate_limit_attempts s)
       (auth_rate_limit_window_seconds s) r"

text \<open>A run of calls: what each one answered.\<close>

fun run_calls :: "('r \<Rightarrow> (exn + unit) \<times> 'r) list \<Rightarrow> 'r \<Rightarrow> (exn + unit) list \<times> 'r" where
  "run_calls [] r = ([], r)"
| "run_calls (c # cs) r = (let (x, r) = c r; (xs, r) = run_calls cs r in (x # xs, r))"

definition admitted :: "(exn + unit) list \<Rightarrow> nat" where
  "admitted xs = length (filter (\<lambda>x. x = Inr ()) xs)"

lemma admitted_simps [simp]:
  "admitted [] = 0" "admitted (x # xs) = (if x = Inr () then Suc (admitted xs) else admitted xs)"
  by (simp_all add: admitted_def)

lemma run_calls_all:
  "(\<And>c r. c \<in> set cs \<Longrightarrow> P (fst (c r))) \<Longrightarrow> x \<in> set (fst (run_calls cs r)) \<Longrightarrow> P x"
  by (induction cs arbitrary: r) (auto simp: case_prod_beta Let_def)

section \<open>What Redis promises\<close>

text \<open>
  \<open>value r k\<close> is the counter stored under \<open>k\<close> (0 when absent). INCR answers the incremented value and
  changes no other key, EXPIRE keeps the values.
\<close>

locale redis_counter =
  fixes api :: "'r redis_api"
    and val :: "'r \<Rightarrow> string \<Rightarrow> int"
  assumes incr_reply: "fst (rd_incr api k r) = val r k + 1"
    and incr_value: "val (snd (rd_incr api k r)) k' = (if k' = k then val r k + 1 else val r k')"
    and expire_value: "val (rd_expire api k w r) k' = val r k'"
begin

lemma script_reply: "fst (fst (rate_limit_script api k w r)) = val r k + 1"
  using incr_reply[of k r] by (simp add: rate_limit_script_def case_prod_beta Let_def)

lemma script_value: "val (snd (rate_limit_script api k w r)) k' = (if k' = k then val r k + 1 else val r k')"
  by (simp add: rate_limit_script_def case_prod_beta Let_def incr_value expire_value)

lemma enforce_reply:
  "truthy (redis_url s) \<Longrightarrow>
     (fst (enforce_rate_limit s api True rq scope subject m w r) = Inr ()) =
       (val r (rate_limit_key rq scope subject) < m)"
  using script_reply[of "rate_limit_key rq scope subject" w r]
  by (auto simp: enforce_rate_limit_def case_prod_beta Let_def)

lemma enforce_value:
  "truthy (redis_url s) \<Longrightarrow>
     val (snd (enforce_rate_limit s api True rq scope subject m w r)) k' =
       val r k' + (if k' = rate_limit_key rq scope subject then 1 else 0)"
  by (auto simp: enforce_rate_limit_def case_prod_beta Let_def script_value)

lemma window_admits:
  assumes "truthy (redis_url s)" and "\<forall>(rq, subject) \<in> set reqs. rate_limit_key rq scope subject = k"
  shows "int (admitted (fst (run_calls
      (map (\<lambda>(rq, subject). enforce_rate_limit s api True rq scope subject m w) reqs) r))) =
    max 0 (min (int (length reqs)) (m - val r k))"
  using assms(2)
proof (induction reqs arbitrary: r)
  case (Cons x reqs)
  obtain rq subject where x: "x = (rq, subject)" by fastforce
  let ?e = "enforce_rate_limit s api True rq scope subject m w r"
  have key: "rate_limit_key rq scope subject = k" using Cons.prems x by simp
  have v: "val (snd ?e) k = val r k + 1" by (simp add: enforce_value[OF assms(1)] key)
  have e: "(fst ?e = Inr ()) = (val r k < m)" by (simp add: enforce_reply[OF assms(1)] key)
  let ?n = "admitted (fst (run_calls
      (map (\<lambda>(rq, subject). enforce_rate_limit s api True rq scope subject m w) reqs) (snd ?e)))"
  have n: "int ?n = max 0 (min (int (length reqs)) (m - (val r k + 1)))"
    using Cons.IH[of "snd ?e"] Cons.prems by (simp add: v)
  have all: "admitted (fst (run_calls
      (map (\<lambda>(rq, subject). enforce_rate_limit s api True rq scope subject m w) (x # reqs)) r)) =
    (if val r k < m then Suc ?n else ?n)"
    by (simp add: x case_prod_beta Let_def e)
  have "int (if v < m then Suc n else n) = max 0 (min (int (length (x # reqs))) (m - v))"
    if "int n = max 0 (min (int (length reqs)) (m - (v + 1)))" for n v
    using that by (auto simp: min_def max_def split: if_splits)
  from this[OF n] show ?case unfolding all .
qed simp

end

section \<open>A concrete server\<close>

text \<open>A counter and an expiry for each key, at a point in time.\<close>

record window_store =
  ws_now :: int
  ws_rows :: "(string \<times> int \<times> int option) list"

definition live_rows :: "window_store \<Rightarrow> (string \<times> int \<times> int option) list" where
  "live_rows r = filter (\<lambda>(k, n, e). case e of None \<Rightarrow> True | Some t \<Rightarrow> ws_now r < t) (ws_rows r)"

definition ws_value :: "window_store \<Rightarrow> string \<Rightarrow> int" where
  "ws_value r k = (case map_of (live_rows r) k of None \<Rightarrow> 0 | Some (n, e) \<Rightarrow> n)"

definition window_api :: "window_store redis_api" where
  "window_api = \<lparr>
     rd_incr = (\<lambda>k r. case map_of (live_rows r) k of
         None \<Rightarrow> (1, r\<lparr>ws_rows := (k, 1, None) # live_rows r\<rparr>)
       | Some (n, e) \<Rightarrow> (n + 1, r\<lparr>ws_rows := (k, n + 1, e) # live_rows r\<rparr>)),
     rd_expire = (\<lambda>k w r. case map_of (live_rows r) k of
         None \<Rightarrow> r
       | Some (n, e) \<Rightarrow> r\<lparr>ws_rows := (k, n, Some (ws_now r + max 1 w)) # live_rows r\<rparr>),
     rd_ttl = (\<lambda>k r. case map_of (live_rows r) k of
         None \<Rightarrow> - 2 | Some (n, None) \<Rightarrow> - 1 | Some (n, Some t) \<Rightarrow> t - ws_now r)\<rparr>"

lemma live_Cons: "live_rows (r\<lparr>ws_rows := (k, n, e) # live_rows r\<rparr>) =
    (if (case e of None \<Rightarrow> True | Some t \<Rightarrow> ws_now r < t) then [(k, n, e)] else []) @ live_rows r"
proof -
  have "ws_now (r\<lparr>ws_rows := x\<rparr>) = ws_now r" for x by simp
  then show ?thesis unfolding live_rows_def by (auto intro!: filter_cong split: option.splits)
qed

lemma live_expiry: "map_of (live_rows r) k = Some (n, e) \<Longrightarrow> case e of None \<Rightarrow> True | Some t \<Rightarrow> ws_now r < t"
  by (drule map_of_SomeD) (simp add: live_rows_def)

interpretation window: redis_counter window_api ws_value
proof
  fix k k' w and r :: window_store
  show "fst (rd_incr window_api k r) = ws_value r k + 1"
    by (auto simp: window_api_def ws_value_def split: option.split)
  show "ws_value (snd (rd_incr window_api k r)) k' = (if k' = k then ws_value r k + 1 else ws_value r k')"
    using live_expiry[of r k] by (auto simp: window_api_def ws_value_def live_Cons split: option.split)
  show "ws_value (rd_expire window_api k w r) k' = ws_value r k'"
    by (auto simp: window_api_def ws_value_def live_Cons split: option.split)
qed

lemma enforce_refusal:
  "truthy (redis_url s) \<Longrightarrow> fst (enforce_rate_limit s api True rq scope subject m w r) \<noteq> Inr () \<Longrightarrow>
     \<exists>e. fst (enforce_rate_limit s api True rq scope subject m w r) = Inl e \<and> status_code e = 429"
  by (auto simp: enforce_rate_limit_def TooManyRequestsError_def case_prod_beta Let_def split: if_splits)

section \<open>Properties\<close>


text \<open>
  Without Redis the deployment's policy decides: when Redis is not configured or does not answer, every
  call is refused with 503 where the policy is fail-closed (the default of staging and production) and
  admitted otherwise; the store is not touched.
\<close>

theorem rate_limit_fallback:
  assumes "\<not> truthy (redis_url s) \<or> \<not> up"
  shows "enforce_rate_limit s api up rq scope subject m w r =
      (if should_rate_limit_fail_closed s then Inl (ServiceUnavailableError E_INTERNAL_ERROR) else Inr (), r)"
  using assms by (auto simp: enforce_rate_limit_def Let_def)

definition limited_settings :: settings where
  "limited_settings = default_settings\<lparr>redis_url := Some ''redis://localhost''\<rparr>"


end
