(* ===== verification/Mfa.thy ===== *)
theory Mfa
  imports Jwt Billing
begin

text \<open>
  Second factors: \<open>security/mfa.py\<close> (TOTP codes after RFC 6238, the encrypted storage of the shared
  secret, recovery codes) and the endpoints of \<open>routers/mfa.py\<close>. The digests and ciphers (OpenSSL behind
  \<open>hashlib\<close>, \<open>hmac\<close>, \<open>cryptography\<close> and \<open>bcrypt\<close>) are the argument \<open>crypto\<close>; what is documented of them is a
  hypothesis of the property that needs it. Random draws (\<open>secrets\<close>) and the clock are arguments. Text is
  ASCII, except that \<open>str.isdigit\<close> and \<open>hmac.compare_digest\<close> are modelled on Latin-1, where they disagree.
\<close>

section \<open>Primitives\<close>

record crypto =
  sha256 :: "bytes \<Rightarrow> bytes"
  hmac_sha1 :: "bytes \<Rightarrow> bytes \<Rightarrow> bytes"
  hmac_sha256 :: "bytes \<Rightarrow> bytes \<Rightarrow> bytes"
  pbkdf2_sha256 :: "bytes \<Rightarrow> nat \<Rightarrow> bytes \<Rightarrow> nat \<Rightarrow> bytes"
  aes_gcm_encrypt :: "bytes \<Rightarrow> bytes \<Rightarrow> bytes \<Rightarrow> bytes \<Rightarrow> bytes"
  aes_gcm_decrypt :: "bytes \<Rightarrow> bytes \<Rightarrow> bytes \<Rightarrow> bytes \<Rightarrow> bytes option"
  bcrypt_hashpw :: "bytes \<Rightarrow> bytes \<Rightarrow> string"
  bcrypt_checkpw :: "bytes \<Rightarrow> string \<Rightarrow> bool option"

text \<open>Positional notation, most significant digit first: \<open>int.to_bytes\<close>, \<open>struct.pack\<close>, base 32.\<close>

primrec to_base :: "nat \<Rightarrow> nat \<Rightarrow> nat \<Rightarrow> nat list" where
  "to_base b 0 v = []"
| "to_base b (Suc n) v = to_base b n (v div b) @ [v mod b]"

definition of_base :: "nat \<Rightarrow> nat list \<Rightarrow> nat" where
  "of_base b ds = foldl (\<lambda>a d. a * b + d) 0 ds"

lemma length_to_base [simp]: "length (to_base b n v) = n"
  by (induction n arbitrary: v) auto

lemma to_base_less: "0 < b \<Longrightarrow> d \<in> set (to_base b n v) \<Longrightarrow> d < b"
  by (induction n arbitrary: v) auto

lemma of_base_snoc: "of_base b (ds @ [d]) = of_base b ds * b + d"
  by (simp add: of_base_def)

lemma of_base_less: "\<forall>d \<in> set ds. d < b \<Longrightarrow> of_base b ds < b ^ length ds"
proof (induction ds rule: rev_induct)
  case (snoc d ds)
  then have "of_base b ds + 1 \<le> b ^ length ds" and "d < b" by auto
  then have "(of_base b ds + 1) * b \<le> b ^ length ds * b" by (intro mult_right_mono) auto
  then show ?case using \<open>d < b\<close> by (simp add: of_base_snoc algebra_simps)
qed (simp add: of_base_def)

lemma of_to_base: "0 < b \<Longrightarrow> v < b ^ n \<Longrightarrow> of_base b (to_base b n v) = v"
proof (induction n arbitrary: v)
  case (Suc n)
  then have "v div b < b ^ n" by (simp add: less_mult_imp_div_less mult.commute)
  with Suc show ?case by (simp add: of_base_snoc)
qed (simp add: of_base_def)

lemma to_of_base: "0 < b \<Longrightarrow> \<forall>d \<in> set ds. d < b \<Longrightarrow> to_base b (length ds) (of_base b ds) = ds"
  by (induction ds rule: rev_induct) (auto simp: of_base_snoc)

function chunks :: "nat \<Rightarrow> 'a list \<Rightarrow> 'a list list" where
  "chunks k xs = (if k = 0 \<or> xs = [] then [] else take k xs # chunks k (drop k xs))"
  by pat_completeness auto
termination
  by (relation "measure (\<lambda>(k, xs). length xs)") auto

declare chunks.simps [simp del]

lemma chunks_Nil [simp]: "chunks k [] = []"
  by (subst chunks.simps) simp

lemma chunks_append: "0 < k \<Longrightarrow> length q = k \<Longrightarrow> chunks k (q @ xs) = q # chunks k xs"
  by (subst chunks.simps) auto

lemma concat_chunks: "0 < k \<Longrightarrow> concat (chunks k xs) = xs"
  by (induction k xs rule: chunks.induct) (subst chunks.simps, auto)

lemma chunks_exact: "0 < k \<Longrightarrow> length xs mod k = 0 \<Longrightarrow> q \<in> set (chunks k xs) \<Longrightarrow> length q = k"
proof (induction k xs rule: chunks.induct)
  case (1 k xs)
  then have "xs \<noteq> []" by auto
  with 1 have "k \<le> length xs" by (metis dvd_imp_le length_greater_0_conv mod_eq_0_iff_dvd)
  moreover have "length (drop k xs) mod k = 0" using 1(3) \<open>k \<le> length xs\<close> by (simp add: mod_if)
  moreover have "q = take k xs \<or> q \<in> set (chunks k (drop k xs))"
    using 1(4) \<open>xs \<noteq> []\<close> 1(2) by (subst (asm) chunks.simps) auto
  ultimately show ?case using 1 \<open>xs \<noteq> []\<close> by auto
qed

lemma chunks_concat: "0 < k \<Longrightarrow> \<forall>q \<in> set qs. length q = k \<Longrightarrow> chunks k (concat qs) = qs"
  by (induction qs) (auto simp: chunks_append)

lemma chunks_subset: "q \<in> set (chunks k xs) \<Longrightarrow> set q \<subseteq> set xs"
  by (induction k xs rule: chunks.induct)
    (subst (asm) (2) chunks.simps, auto split: if_splits dest: in_set_takeD in_set_dropD)

section \<open>Base 32\<close>

definition b32_char :: "nat \<Rightarrow> char" where
  "b32_char n = (if n < 26 then char_of (65 + n) else char_of (24 + n))"

definition b32_val :: "char \<Rightarrow> nat option" where
  "b32_val c = (let n = of_char c in
     if 65 \<le> n \<and> n \<le> 90 then Some (n - 65) else if 50 \<le> n \<and> n \<le> 55 then Some (n - 24) else None)"

definition b32encode :: "bytes \<Rightarrow> string" where
  "b32encode bs =
     (let leftover = length bs mod 5;
          bs = (if leftover = 0 then bs else bs @ replicate (5 - leftover) 0);
          encoded = concat (map (\<lambda>q. map b32_char (to_base 32 8 (of_base 256 q))) (chunks 5 bs));
          pad = [0, 6, 4, 3, 1] ! leftover
      in take (length encoded - pad) encoded @ replicate pad CHR ''='')"

text \<open>\<open>None\<close> is \<open>binascii.Error\<close>.\<close>

definition b32decode :: "string \<Rightarrow> bytes option" where
  "b32decode s =
     (if length s mod 8 \<noteq> 0 then None
      else
        let t = rstrip_by (\<lambda>c. c = CHR ''='') s;
            padchars = length s - length t;
            quanta = map (map b32_val) (chunks 8 t)
        in if \<exists>q \<in> set quanta. None \<in> set q then None
           else if padchars \<notin> {0, 1, 3, 4, 6} then None
           else
             let accs = map (\<lambda>q. of_base 32 (map the q)) quanta;
                 decoded = concat (map (to_base 256 5) accs)
             in if padchars \<noteq> 0 \<and> decoded \<noteq> []
                then Some (take (length decoded - 5) decoded @
                       take ((43 - 5 * padchars) div 8) (to_base 256 5 (last accs * 32 ^ padchars)))
                else Some decoded)"

lemma rstrip_by_id: "\<forall>c \<in> set s. \<not> p c \<Longrightarrow> rstrip_by p s = s"
  by (induction s rule: rev_induct) (auto simp: rstrip_by_def)

lemma b32_val_char: "n < 32 \<Longrightarrow> b32_val (b32_char n) = Some n"
  by (auto simp: b32_char_def b32_val_def Let_def)

lemma b32_char_range: "n < 32 \<Longrightarrow> of_char (b32_char n) \<in> {50..55} \<union> {65..90::nat}"
  by (auto simp: b32_char_def)

lemma b32_roundtrip:
  assumes "is_bytes bs" and "length bs mod 5 = 0"
  shows "b32decode (b32encode bs) = Some bs" and "CHR ''='' \<notin> set (b32encode bs)"
    and "length (b32encode bs) mod 8 = 0" and "\<forall>c \<in> set (b32encode bs). of_char c \<in> {50..55} \<union> {65..90::nat}"
proof -
  define enc where "enc q = map b32_char (to_base 32 8 (of_base 256 q))" for q
  have E: "b32encode bs = concat (map enc (chunks 5 bs))"
    using assms(2) by (simp add: b32encode_def enc_def[abs_def] Let_def)
  have len: "length q = 5" "is_bytes q" if "q \<in> set (chunks 5 bs)" for q
    using that chunks_exact[of 5 bs q] chunks_subset[of q 5 bs] assms by auto
  have enc_chars: "c \<in> set (enc q) \<Longrightarrow> of_char c \<in> {50..55} \<union> {65..90::nat}" for c q
    unfolding enc_def using to_base_less[of 32] b32_char_range by fastforce
  show chars: "\<forall>c \<in> set (b32encode bs). of_char c \<in> {50..55} \<union> {65..90::nat}"
    using enc_chars by (auto simp: E)
  then show nopad: "CHR ''='' \<notin> set (b32encode bs)" by fastforce
  have lenc: "length (enc q) = 8" for q by (simp add: enc_def)
  then have "length (concat (map enc qs)) = 8 * length qs" for qs by (induction qs) auto
  then show len8: "length (b32encode bs) mod 8 = 0" by (simp add: E)
  have strip: "rstrip_by (\<lambda>c. c = CHR ''='') (b32encode bs) = b32encode bs"
    by (rule rstrip_by_id) (use nopad in blast)
  have ch: "chunks 8 (b32encode bs) = map enc (chunks 5 bs)"
    unfolding E by (rule chunks_concat) (auto simp: lenc)
  have val: "map b32_val (enc q) = map Some (to_base 32 8 (of_base 256 q))" for q
    by (simp add: enc_def b32_val_char to_base_less)
  have dec: "to_base 256 5 (of_base 32 (map the (map b32_val (enc q)))) = q" if "q \<in> set (chunks 5 bs)" for q
  proof -
    have "of_base 256 q < 256 ^ 5" using of_base_less[of q 256] len[OF that] by simp
    also have "(256::nat) ^ 5 = 32 ^ 8" by simp
    finally have "of_base 32 (to_base 32 8 (of_base 256 q)) = of_base 256 q" by (intro of_to_base) auto
    then show ?thesis using to_of_base[of 256 q] len[OF that] by (simp only: val map_map o_def option.sel map_ident)
  qed
  have "\<not> (\<exists>q \<in> set (map (map b32_val) (map enc (chunks 5 bs))). None \<in> set q)"
  proof -
    have "None \<notin> set (map b32_val (enc q))" for q unfolding val by auto
    then show ?thesis by force
  qed
  moreover have "concat (map (to_base 256 5) (map (\<lambda>q. of_base 32 (map the q)) (map (map b32_val) (map enc (chunks 5 bs))))) = bs"
  proof -
    have "map (to_base 256 5) (map (\<lambda>q. of_base 32 (map the q)) (map (map b32_val) (map enc (chunks 5 bs)))) = chunks 5 bs"
      unfolding map_map by (rule map_idI) (use dec in \<open>simp add: o_def\<close>)
    then show ?thesis by (simp add: concat_chunks)
  qed
  ultimately show "b32decode (b32encode bs) = Some bs"
    using len8 by (simp add: b32decode_def strip ch Let_def del: map_map)
qed

section \<open>TOTP codes\<close>

definition VERIFY_WINDOW :: int where
  "VERIFY_WINDOW = 1"

definition SECRET_BYTES :: nat where
  "SECRET_BYTES = 20"

definition derive_key :: "crypto \<Rightarrow> string \<Rightarrow> bytes" where
  "derive_key c secret_key =
     pbkdf2_sha256 c (ascii_encode secret_key) 32 (ascii_encode ''nbu-mfa-pbkdf2-salt-v1'') 200000"

definition normalise_b32 :: "string \<Rightarrow> string" where
  "normalise_b32 secret_b32 =
     (let cleaned = py_upper (py_replace ''-'' [] (py_replace '' '' [] secret_b32))
      in cleaned @ replicate (nat ((- int (length cleaned)) mod 8)) CHR ''='')"

text \<open>\<open>raw\<close> is the draw of \<open>secrets.token_bytes(20)\<close>.\<close>

definition generate_totp_secret :: "bytes \<Rightarrow> string" where
  "generate_totp_secret raw = rstrip_by (\<lambda>c. c = CHR ''='') (b32encode raw)"

definition safe_label :: "string \<Rightarrow> string" where
  "safe_label t = filter (\<lambda>c. c \<notin> set ''?&:'') t"

definition totp_provisioning_uri :: "string \<Rightarrow> string \<Rightarrow> string \<Rightarrow> nat \<Rightarrow> int \<Rightarrow> string" where
  "totp_provisioning_uri secret_b32 issuer account digits step_seconds =
     ''otpauth://totp/'' @ safe_label issuer @ '':'' @ safe_label account @
     ''?secret='' @ secret_b32 @ ''&issuer='' @ safe_label issuer @ ''&algorithm=SHA1'' @
     ''&digits='' @ int_str (int digits) @ ''&period='' @ int_str step_seconds"

definition encrypt_secret :: "crypto \<Rightarrow> bytes \<Rightarrow> string \<Rightarrow> string \<Rightarrow> string" where
  "encrypt_secret c nonce plaintext master_key =
     (let ct = aes_gcm_encrypt c (derive_key c master_key) nonce (ascii_encode plaintext) (ascii_encode ''nbu-mfa-totp'')
      in urlsafe_b64encode nonce @ ''.'' @ urlsafe_b64encode ct)"

definition decrypt_secret :: "crypto \<Rightarrow> string \<Rightarrow> string \<Rightarrow> exn + string" where
  "decrypt_secret c blob master_key =
     (case py_split CHR ''.'' blob of
        [nonce_b64, ct_b64] \<Rightarrow>
          (case (urlsafe_b64decode nonce_b64, urlsafe_b64decode ct_b64) of
             (Some nonce, Some ct) \<Rightarrow>
               (case aes_gcm_decrypt c (derive_key c master_key) nonce ct (ascii_encode ''nbu-mfa-totp'') of
                  None \<Rightarrow> Inl (PyError ''InvalidTag'')
                | Some plaintext \<Rightarrow>
                    (case ascii_decode plaintext of
                       None \<Rightarrow> Inl (ValueError ''UnicodeDecodeError'')
                     | Some text \<Rightarrow> Inr text))
           | _ \<Rightarrow> Inl (ValueError ''binascii.Error''))
      | _ \<Rightarrow> Inl (ValueError ''Malformed ciphertext blob''))"

definition py_zfill :: "nat \<Rightarrow> string \<Rightarrow> string" where
  "py_zfill n t = replicate (n - length t) CHR ''0'' @ t"

text \<open>\<open>None\<close> is \<open>struct.error\<close>: the counter does not fit 8 bytes.\<close>

definition hotp :: "crypto \<Rightarrow> bytes \<Rightarrow> int \<Rightarrow> nat \<Rightarrow> string option" where
  "hotp c key counter digits =
     (if counter < 0 \<or> counter \<ge> 2 ^ 64 then None
      else
        let digest = hmac_sha1 c key (to_base 256 8 (nat counter));
            offset = last digest mod 16;
            code_int = of_base 256 (take 4 (drop offset digest)) mod 2 ^ 31
        in Some (py_zfill digits (nat_str (code_int mod 10 ^ digits))))"

definition totp_now :: "crypto \<Rightarrow> string \<Rightarrow> int \<Rightarrow> nat \<Rightarrow> int \<Rightarrow> exn + string" where
  "totp_now c secret_b32 step_seconds digits at_time =
     (case b32decode (normalise_b32 secret_b32) of
        None \<Rightarrow> Inl (ValueError ''binascii.Error'')
      | Some key \<Rightarrow>
          (case hotp c key (at_time div step_seconds) digits of
             None \<Rightarrow> Inl (PyError ''struct.error'')
           | Some t \<Rightarrow> Inr t))"

record totp_verification =
  accepted :: bool
  matched_counter :: "int option"

text \<open>\<open>isdigit\<close> holds of the three superscript digits of Latin-1 too.\<close>

definition py_isdigit :: "string \<Rightarrow> bool" where
  "py_isdigit t = (t \<noteq> [] \<and> (\<forall>c \<in> set t. of_char c \<in> {48..57} \<union> {178, 179, 185::nat}))"

definition ascii_text :: "string \<Rightarrow> bool" where
  "ascii_text t = (\<forall>c \<in> set t. of_char c < (128::nat))"

definition verify_totp_code ::
  "crypto \<Rightarrow> string \<Rightarrow> string \<Rightarrow> int \<Rightarrow> nat \<Rightarrow> int \<Rightarrow> int option \<Rightarrow> exn + totp_verification" where
  "verify_totp_code c secret_b32 submitted step_seconds digits at_time last_used_counter =
     (if submitted = [] \<or> \<not> py_isdigit submitted \<or> length submitted \<noteq> digits
      then Inr \<lparr>accepted = False, matched_counter = None\<rparr>
      else
        (case b32decode (normalise_b32 secret_b32) of
           None \<Rightarrow> Inl (ValueError ''binascii.Error'')
         | Some key \<Rightarrow>
             let base_counter = at_time div step_seconds;
                 expected = map (\<lambda>delta. (base_counter + delta, hotp c key (base_counter + delta) digits))
                   [- VERIFY_WINDOW..VERIFY_WINDOW]
             in if \<exists>e \<in> set expected. snd e = None then Inl (PyError ''struct.error'')
                else if \<not> ascii_text submitted then Inl (PyError ''TypeError'')
                else
                  (case find (\<lambda>e. snd e = Some submitted) expected of
                     None \<Rightarrow> Inr \<lparr>accepted = False, matched_counter = None\<rparr>
                   | Some (counter, _) \<Rightarrow>
                       if (case last_used_counter of None \<Rightarrow> False | Some m \<Rightarrow> counter \<le> m)
                       then Inr \<lparr>accepted = False, matched_counter = None\<rparr>
                       else Inr \<lparr>accepted = True, matched_counter = Some counter\<rparr>)))"

section \<open>Recovery codes\<close>

definition RECOVERY_ALPHABET :: string where
  "RECOVERY_ALPHABET = ''23456789ABCDEFGHJKMNPQRSTUVWXYZ''"

definition RECOVERY_LEN :: nat where
  "RECOVERY_LEN = 10"

text \<open>\<open>draw i j\<close> is the index the \<open>j\<close>-th \<open>secrets.choice\<close> of code \<open>i\<close> picks.\<close>

definition generate_recovery_codes :: "(nat \<Rightarrow> nat \<Rightarrow> nat) \<Rightarrow> nat \<Rightarrow> string list" where
  "generate_recovery_codes draw how_many =
     map (\<lambda>i. map (\<lambda>j. RECOVERY_ALPHABET ! (draw i j mod length RECOVERY_ALPHABET)) [0..<RECOVERY_LEN])
       [0..<how_many]"

definition hash_recovery_code :: "crypto \<Rightarrow> string \<Rightarrow> string \<Rightarrow> string" where
  "hash_recovery_code c plain pepper =
     (let normalized = ascii_encode (py_upper (py_replace '' '' [] plain))
      in if pepper \<noteq> [] then hex (hmac_sha256 c (ascii_encode pepper) normalized)
         else hex (sha256 c normalized))"

section \<open>Endpoints\<close>

definition require_mfa_eligible :: "user_row \<Rightarrow> exn + unit" where
  "require_mfa_eligible u =
     (if u_role u \<notin> {UR_ADMIN, UR_COACH}
      then Inl (ForbiddenError E_FORBIDDEN [(''required_roles'', JList [JStr ''admin'', JStr ''coach''])])
      else Inr ())"

definition totp_of :: "user_row \<Rightarrow> db \<Rightarrow> totp_row option" where
  "totp_of u d = scalar (\<lambda>r. ts_user_id r = u_id u) (totp_secrets d)"

definition put_totp :: "totp_row \<Rightarrow> db \<Rightarrow> db" where
  "put_totp r d = d\<lparr>totp_secrets := put_row ts_id r (totp_secrets d)\<rparr>"

definition put_user :: "user_row \<Rightarrow> db \<Rightarrow> db" where
  "put_user u d = d\<lparr>users := put_row u_id u (users d)\<rparr>"

record mfa_setup_response =
  ms_secret_b32 :: string
  ms_provisioning_uri :: string
  ms_digits :: nat
  ms_step_seconds :: int

definition setup_totp ::
  "crypto \<Rightarrow> settings \<Rightarrow> bytes \<Rightarrow> bytes \<Rightarrow> uuid \<Rightarrow> user_row \<Rightarrow> request \<Rightarrow> db \<Rightarrow> (exn + mfa_setup_response) \<times> db" where
  "setup_totp c s raw nonce fresh current_user rq d =
     (case require_mfa_eligible current_user of
        Inl e \<Rightarrow> (Inl e, d)
      | Inr _ \<Rightarrow>
          let existing = totp_of current_user d
          in if (case existing of None \<Rightarrow> False | Some r \<Rightarrow> ts_confirmed_at r \<noteq> None \<and> ts_disabled_at r = None)
             then (Inl (ConflictError E_MFA_ALREADY_ENROLLED []), d)
             else
               let secret = generate_totp_secret raw;
                   ciphertext = encrypt_secret c nonce secret (effective_mfa_secret_key s);
                   d1 = (case existing of
                     Some r \<Rightarrow> put_totp (r\<lparr>ts_secret_ciphertext := ciphertext, ts_confirmed_at := None,
                       ts_disabled_at := None, ts_last_used_at := None,
                       ts_account_label := u_email current_user, ts_issuer_label := mfa_totp_issuer s\<rparr>) d
                   | None \<Rightarrow> d\<lparr>totp_secrets := totp_secrets d @ [\<lparr>ts_id = fresh, ts_user_id = u_id current_user,
                       ts_secret_ciphertext = ciphertext, ts_cipher = ''aes-gcm-pbkdf2'',
                       ts_issuer_label = mfa_totp_issuer s, ts_account_label = u_email current_user,
                       ts_confirmed_at = None, ts_disabled_at = None, ts_last_used_at = None\<rparr>]\<rparr>)
               in (Inr \<lparr>ms_secret_b32 = secret,
                     ms_provisioning_uri = totp_provisioning_uri secret (mfa_totp_issuer s) (u_email current_user)
                       (mfa_totp_digits s) (mfa_totp_step_seconds s),
                     ms_digits = mfa_totp_digits s, ms_step_seconds = mfa_totp_step_seconds s\<rparr>,
                   write_audit_event rq A_USER_MFA_TOTP_ENROLLED (Some (u_id current_user))
                     (Some (u_email current_user)) (Some ''user_totp_secret'') None None None d1))"

definition last_counter :: "settings \<Rightarrow> totp_row \<Rightarrow> int option" where
  "last_counter s r = map_option (\<lambda>t. epoch_seconds t div mfa_totp_step_seconds s) (ts_last_used_at r)"

definition counter_time :: "settings \<Rightarrow> int \<Rightarrow> time" where
  "counter_time s counter = seconds (counter * mfa_totp_step_seconds s)"

text \<open>The check the endpoints and the login share: decrypt, then verify the stripped code.\<close>

definition check_totp :: "crypto \<Rightarrow> settings \<Rightarrow> totp_row \<Rightarrow> string \<Rightarrow> time \<Rightarrow> exn + totp_verification" where
  "check_totp c s r submitted now =
     (case decrypt_secret c (ts_secret_ciphertext r) (effective_mfa_secret_key s) of
        Inl e \<Rightarrow> Inl e
      | Inr secret \<Rightarrow>
          verify_totp_code c secret (py_strip submitted) (mfa_totp_step_seconds s) (mfa_totp_digits s)
            (epoch_seconds now) (last_counter s r))"

text \<open>\<open>fresh i\<close> is the id of the \<open>i\<close>-th new row. A repeated hash violates the unique index.\<close>

definition new_recovery_rows :: "crypto \<Rightarrow> settings \<Rightarrow> user_row \<Rightarrow> (nat \<Rightarrow> uuid) \<Rightarrow> string list \<Rightarrow> recovery_row list" where
  "new_recovery_rows c s u fresh codes =
     map (\<lambda>i. \<lparr>rc_id = fresh i, rc_user_id = u_id u,
        rc_code_hash = hash_recovery_code c (codes ! i) (effective_mfa_secret_key s), rc_used_at = None\<rparr>)
       [0..<length codes]"

definition confirm_totp ::
  "crypto \<Rightarrow> settings \<Rightarrow> (nat \<Rightarrow> nat \<Rightarrow> nat) \<Rightarrow> (nat \<Rightarrow> uuid) \<Rightarrow> (nat \<Rightarrow> time) \<Rightarrow> user_row \<Rightarrow> string \<Rightarrow> request \<Rightarrow> db \<Rightarrow>
   (exn + time \<times> string list) \<times> db" where
  "confirm_totp c s draw fresh clk current_user submitted rq d =
     (case require_mfa_eligible current_user of
        Inl e \<Rightarrow> (Inl e, d)
      | Inr _ \<Rightarrow>
          (case totp_of current_user d of
             None \<Rightarrow> (Inl (AppError 400 E_MFA_NOT_ENROLLED []), d)
           | Some r \<Rightarrow>
               if ts_disabled_at r \<noteq> None then (Inl (AppError 400 E_MFA_NOT_ENROLLED []), d)
               else
                 (case check_totp c s r submitted (clk 0) of
                    Inl e \<Rightarrow> (Inl e, d)
                  | Inr v \<Rightarrow>
                      (case matched_counter v of
                         None \<Rightarrow> (Inl (AppError 401 E_MFA_INVALID_CODE []), d)
                       | Some counter \<Rightarrow>
                           if \<not> accepted v then (Inl (AppError 401 E_MFA_INVALID_CODE []), d)
                           else
                             let now = clk 1;
                                 d1 = put_totp (r\<lparr>ts_confirmed_at := Some now,
                                   ts_last_used_at := Some (counter_time s counter)\<rparr>) d;
                                 kept = filter (\<lambda>x. rc_user_id x \<noteq> u_id current_user) (recovery_codes d1);
                                 plaintexts = generate_recovery_codes draw (mfa_recovery_code_count s);
                                 added = new_recovery_rows c s current_user fresh plaintexts
                             in if \<not> distinct (map rc_code_hash (kept @ added)) then (Inl integrity_error, d)
                                else (Inr (now, plaintexts),
                                  write_audit_event rq A_USER_MFA_TOTP_CONFIRMED (Some (u_id current_user))
                                    (Some (u_email current_user)) (Some ''user_totp_secret'') None None None
                                    (d1\<lparr>recovery_codes := kept @ added\<rparr>))))))"

definition encode_password :: "string \<Rightarrow> exn + bytes" where
  "encode_password password =
     (if length (ascii_encode password) > 72 then Inl (ValueError ''Password must be 72 UTF-8 bytes or fewer'')
      else Inr (ascii_encode password))"

definition hash_password :: "crypto \<Rightarrow> bytes \<Rightarrow> string \<Rightarrow> exn + string" where
  "hash_password c salt password =
     (case encode_password password of Inl e \<Rightarrow> Inl e | Inr p \<Rightarrow> Inr (bcrypt_hashpw c p salt))"

text \<open>\<open>bcrypt_checkpw\<close> answers \<open>None\<close> where \<open>bcrypt.checkpw\<close> raises \<open>ValueError\<close>.\<close>

definition verify_password :: "crypto \<Rightarrow> string \<Rightarrow> string \<Rightarrow> bool" where
  "verify_password c password password_hash =
     (case encode_password password of
        Inl _ \<Rightarrow> False
      | Inr p \<Rightarrow> (case bcrypt_checkpw c p password_hash of None \<Rightarrow> False | Some b \<Rightarrow> b))"

definition unused_recovery :: "crypto \<Rightarrow> settings \<Rightarrow> user_row \<Rightarrow> string \<Rightarrow> db \<Rightarrow> recovery_row option" where
  "unused_recovery c s u submitted d =
     (let code_hash = hash_recovery_code c (py_strip submitted) (effective_mfa_secret_key s)
      in scalar (\<lambda>x. rc_user_id x = u_id u \<and> rc_code_hash x = code_hash \<and> rc_used_at x = None) (recovery_codes d))"

definition use_recovery :: "recovery_row \<Rightarrow> time \<Rightarrow> user_row \<Rightarrow> request \<Rightarrow> db \<Rightarrow> db" where
  "use_recovery x now u rq d =
     write_audit_event rq A_USER_MFA_RECOVERY_USED (Some (u_id u)) (Some (u_email u))
       (Some ''mfa_recovery_code'') (Some (rc_id x)) None None
       (d\<lparr>recovery_codes := put_row rc_id (x\<lparr>rc_used_at := Some now\<rparr>) (recovery_codes d)\<rparr>)"

definition finish_disable :: "totp_row \<Rightarrow> time \<Rightarrow> user_row \<Rightarrow> request \<Rightarrow> db \<Rightarrow> db" where
  "finish_disable r now u rq d =
     write_audit_event rq A_USER_MFA_TOTP_DISABLED (Some (u_id u)) (Some (u_email u))
       (Some ''user_totp_secret'') None None None
       (put_user (u\<lparr>u_session_version := u_session_version u + 1\<rparr>)
         (put_totp (r\<lparr>ts_disabled_at := Some now\<rparr>) d))"

definition disable_totp ::
  "crypto \<Rightarrow> settings \<Rightarrow> (nat \<Rightarrow> time) \<Rightarrow> user_row \<Rightarrow> string \<Rightarrow> string \<Rightarrow> request \<Rightarrow> db \<Rightarrow> (exn + unit) \<times> db" where
  "disable_totp c s clk current_user password submitted rq d =
     (case require_mfa_eligible current_user of
        Inl e \<Rightarrow> (Inl e, d)
      | Inr _ \<Rightarrow>
          if \<not> verify_password c password (u_password_hash current_user) then (Inl InvalidCredentialsError, d)
          else
            (case totp_of current_user d of
               None \<Rightarrow> (Inl (AppError 400 E_MFA_NOT_CONFIRMED []), d)
             | Some r \<Rightarrow>
                 if ts_confirmed_at r = None \<or> ts_disabled_at r \<noteq> None
                 then (Inl (AppError 400 E_MFA_NOT_CONFIRMED []), d)
                 else
                   (case check_totp c s r submitted (clk 0) of
                      Inl e \<Rightarrow> (Inl e, d)
                    | Inr v \<Rightarrow>
                        if accepted v then (Inr (), finish_disable r (clk 2) current_user rq d)
                        else
                          (case unused_recovery c s current_user submitted d of
                             None \<Rightarrow> (Inl (AppError 401 E_MFA_INVALID_CODE []), d)
                           | Some x \<Rightarrow>
                               (Inr (), finish_disable r (clk 2) current_user rq
                                 (use_recovery x (clk 1) current_user rq d))))))"

record mfa_status_response =
  st_enrolled :: bool
  st_confirmed :: bool
  st_last_used_at :: "time option"
  st_remaining_recovery_codes :: nat

definition mfa_status :: "user_row \<Rightarrow> db \<Rightarrow> mfa_status_response" where
  "mfa_status current_user d =
     (let r = totp_of current_user d;
          enr = (case r of None \<Rightarrow> False | Some x \<Rightarrow> ts_disabled_at x = None);
          conf = (enr \<and> (case r of None \<Rightarrow> False | Some x \<Rightarrow> ts_confirmed_at x \<noteq> None))
      in \<lparr>st_enrolled = enr, st_confirmed = conf,
          st_last_used_at = (case r of None \<Rightarrow> None | Some x \<Rightarrow> ts_last_used_at x),
          st_remaining_recovery_codes = (if conf
            then length (filter (\<lambda>x. rc_user_id x = u_id current_user \<and> rc_used_at x = None) (recovery_codes d))
            else 0)\<rparr>)"

section \<open>The login challenge\<close>

text \<open>\<open>_require_mfa_for_login_if_enabled\<close> of \<open>routers/auth.py\<close>. Its refusals commit the audit row they write.\<close>

definition active_totp :: "user_row \<Rightarrow> db \<Rightarrow> totp_row option" where
  "active_totp u d =
     scalar (\<lambda>r. ts_user_id r = u_id u \<and> ts_confirmed_at r \<noteq> None \<and> ts_disabled_at r = None) (totp_secrets d)"

definition login_refused :: "user_row \<Rightarrow> error_code \<Rightarrow> request \<Rightarrow> db \<Rightarrow> db" where
  "login_refused u reason rq d =
     write_audit_event rq A_USER_LOGIN_FAILED (Some (u_id u)) (Some (u_email u)) None None None
       (Some [(''reason'', JStr reason)]) d"

definition require_mfa_for_login ::
  "crypto \<Rightarrow> settings \<Rightarrow> (nat \<Rightarrow> time) \<Rightarrow> user_row \<Rightarrow> string option \<Rightarrow> request \<Rightarrow> db \<Rightarrow> (exn + unit) \<times> db" where
  "require_mfa_for_login c s clk u submitted rq d =
     (case active_totp u d of
        None \<Rightarrow> (Inr (), d)
      | Some r \<Rightarrow>
          (case submitted of
             None \<Rightarrow> (Inl (AppError 401 E_MFA_REQUIRED [(''mfa_required'', JBool True)]), login_refused u E_MFA_REQUIRED rq d)
           | Some given \<Rightarrow>
               if given = []
               then (Inl (AppError 401 E_MFA_REQUIRED [(''mfa_required'', JBool True)]), login_refused u E_MFA_REQUIRED rq d)
               else
                 (case check_totp c s r given (clk 0) of
                    Inl e \<Rightarrow> (Inl e, d)
                  | Inr v \<Rightarrow>
                      (case (if accepted v then matched_counter v else None) of
                         Some counter \<Rightarrow> (Inr (), put_totp (r\<lparr>ts_last_used_at := Some (counter_time s counter)\<rparr>) d)
                       | None \<Rightarrow>
                           (case unused_recovery c s u given d of
                              Some x \<Rightarrow> (Inr (), use_recovery x (clk 1) u rq d)
                            | None \<Rightarrow> (Inl (AppError 401 E_MFA_INVALID_CODE []), login_refused u E_MFA_INVALID_CODE rq d))))))"

section \<open>Lemmas\<close>

lemma scalar_put_row:
  assumes "scalar p t = Some r" and "distinct (map key t)" and "key r' = key r" and "p r'"
  shows "scalar p (put_row key r' t) = Some r'"
  using assms(1,2)
proof (induction t)
  case (Cons x t)
  show ?case
  proof (cases "p x")
    case True
    with Cons show ?thesis using assms(3,4) by (simp add: put_row_def)
  next
    case False
    with Cons.prems have "r \<in> set t" using scalar_Some[of p t r] by auto
    with Cons.prems assms(3) have "key x \<noteq> key r'" by auto
    with Cons False show ?thesis by (simp add: put_row_def)
  qed
qed simp

lemma last_counter_time [simp]:
  "0 < mfa_totp_step_seconds s \<Longrightarrow> last_counter s (r\<lparr>ts_last_used_at := Some (counter_time s n)\<rparr>) = Some n"
  by (simp add: last_counter_def counter_time_def epoch_seconds_def)

lemma window_deltas: "[- VERIFY_WINDOW..VERIFY_WINDOW] = [- 1, 0, 1]"
  by code_simp

lemma verify_accepted:
  assumes "verify_totp_code c secret t step n now prev = Inr v" and "accepted v"
  shows "\<exists>key m. b32decode (normalise_b32 secret) = Some key \<and> matched_counter v = Some m \<and>
    hotp c key m n = Some t \<and> \<bar>m - now div step\<bar> \<le> 1 \<and> (\<forall>l. prev = Some l \<longrightarrow> l < m)"
  using assms unfolding verify_totp_code_def window_deltas
  by (auto simp: Let_def find_Some_iff split: if_splits option.splits prod.splits)

lemma check_accepted:
  assumes "check_totp c s r t now = Inr v" and "accepted v"
  shows "\<exists>secret key m. decrypt_secret c (ts_secret_ciphertext r) (effective_mfa_secret_key s) = Inr secret \<and>
    b32decode (normalise_b32 secret) = Some key \<and> matched_counter v = Some m \<and>
    hotp c key m (mfa_totp_digits s) = Some (py_strip t) \<and>
    \<bar>m - epoch_seconds now div mfa_totp_step_seconds s\<bar> \<le> 1 \<and> (\<forall>l. last_counter s r = Some l \<longrightarrow> l < m)"
  using assms verify_accepted by (fastforce simp: check_totp_def split: sum.splits)

lemma window_defined:
  assumes "1 \<le> b" and "b + 1 < 2 ^ 64"
  shows "\<exists>y. hotp c key (b - 1) n = Some y" and "\<exists>y. hotp c key b n = Some y" and "\<exists>y. hotp c key (b + 1) n = Some y"
  using assms by (auto simp: hotp_def Let_def)

lemma verify_first_match:
  assumes "b32decode (normalise_b32 secret) = Some key" and "py_isdigit t" and "length t = n" and "ascii_text t"
    and "hotp c key m n = Some t" and "\<bar>m - now div step\<bar> \<le> 1" and "1 \<le> now div step" and "now div step + 1 < 2 ^ 64"
  shows "\<exists>k. verify_totp_code c secret t step n now None = Inr \<lparr>accepted = True, matched_counter = Some k\<rparr>"
proof -
  define b where "b = now div step"
  note d = window_defined[OF assms(7,8), of c key n, folded b_def]
  have t: "t \<noteq> []" using assms(2) by (auto simp: py_isdigit_def)
  have "m = b - 1 \<or> m = b \<or> m = b + 1" using assms(6) by (auto simp: b_def)
  then show ?thesis
    using assms(1-5) t d
    by (auto simp: verify_totp_code_def window_deltas Let_def b_def[symmetric])
qed

lemma hotp_code:
  assumes "hotp c key m n = Some t" and "0 < n"
  shows "length t = n" and "py_isdigit t" and "ascii_text t"
proof -
  obtain x where t: "t = py_zfill n (nat_str (x mod 10 ^ n))"
    using assms(1) by (auto simp: hotp_def Let_def split: if_splits)
  have "length (nat_str (x mod 10 ^ n)) \<le> n" using length_nat_str[of "x mod 10 ^ n" n] assms(2) by simp
  then show "length t = n" by (simp add: t py_zfill_def)
  have "of_char c \<in> {48..57::nat}" if "c \<in> set t" for c
    using that set_nat_str[of c "x mod 10 ^ n"] by (auto simp: t py_zfill_def)
  moreover have "t \<noteq> []" using \<open>length t = n\<close> assms(2) by auto
  ultimately show "py_isdigit t" and "ascii_text t" by (fastforce simp: py_isdigit_def ascii_text_def)+
qed

lemma urlsafe_no_dot:
  assumes "is_bytes bs"
  shows "CHR ''.'' \<notin> set (urlsafe_b64encode bs)"
proof -
  obtain k where "urlsafe_b64encode bs = b64url_encode bs @ replicate k CHR ''=''"
    using b64url_encode_shape[OF assms] by metis
  then show ?thesis using segment_no_dot[OF assms] by simp
qed

lemma decrypt_encrypt:
  assumes "\<And>k p a. is_bytes p \<Longrightarrow> aes_gcm_decrypt c k nonce (aes_gcm_encrypt c k nonce p a) a = Some p"
    and "\<And>k p a. is_bytes p \<Longrightarrow> is_bytes (aes_gcm_encrypt c k nonce p a)" and "is_bytes nonce" and "ascii_text p"
  shows "decrypt_secret c (encrypt_secret c nonce p k) k = Inr p"
  using assms urlsafe_no_dot[OF assms(3)] urlsafe_no_dot[OF assms(2)[OF is_bytes_ascii_encode]]
    urlsafe_roundtrip[OF assms(2)[OF is_bytes_ascii_encode]] assms(1)[OF is_bytes_ascii_encode]
  by (simp add: decrypt_secret_def encrypt_secret_def Let_def py_split_append py_split_none urlsafe_roundtrip
      ascii_decode_encode ascii_text_def)

lemma secret_decodes:
  assumes "is_bytes raw" and "length raw = SECRET_BYTES"
  shows "b32decode (normalise_b32 (generate_totp_secret raw)) = Some raw" and "ascii_text (generate_totp_secret raw)"
proof -
  let ?e = "b32encode raw"
  have five: "length raw mod 5 = 0" using assms(2) by (simp add: SECRET_BYTES_def)
  note e = b32_roundtrip[OF assms(1) five]
  have g: "generate_totp_secret raw = ?e"
    unfolding generate_totp_secret_def by (rule rstrip_by_id) (use e(2) in blast)
  have "py_upper ?e = ?e" unfolding py_upper_def
    by (rule map_idI) (use e(4) in \<open>fastforce simp: to_upper_def less_eq_char_def\<close>)
  moreover have "py_replace '' '' [] ?e = ?e" "py_replace ''-'' [] ?e = ?e"
    using e(4) by (auto intro!: py_replace_absent)
  moreover have "(- int (length ?e)) mod 8 = 0"
    using e(3) by (metis dvd_minus_iff int_dvd_int_iff mod_eq_0_iff_dvd of_nat_numeral)
  ultimately show "b32decode (normalise_b32 (generate_totp_secret raw)) = Some raw"
    using e(1) by (simp add: g normalise_b32_def)
  show "ascii_text (generate_totp_secret raw)" using e(4) by (fastforce simp: g ascii_text_def)
qed

lemma generated_codes:
  assumes "t \<in> set (generate_recovery_codes draw n)"
  shows "length t = 10" and "set t \<subseteq> set RECOVERY_ALPHABET" and "py_strip t = t"
proof -
  show "length t = 10" using assms by (auto simp: generate_recovery_codes_def RECOVERY_LEN_def)
  have "length RECOVERY_ALPHABET = 31" by code_simp
  then show sub: "set t \<subseteq> set RECOVERY_ALPHABET"
    using assms by (auto simp: generate_recovery_codes_def)
  have "\<forall>c \<in> set RECOVERY_ALPHABET. \<not> py_isspace c" by code_simp
  then show "py_strip t = t" unfolding py_strip_def using sub by (intro strip_by_id) auto
qed

lemma use_recovery_tables [simp]:
  "totp_secrets (use_recovery x now u rq d) = totp_secrets d"
  "recovery_codes (use_recovery x now u rq d) = put_row rc_id (x\<lparr>rc_used_at := Some now\<rparr>) (recovery_codes d)"
  by (simp_all add: use_recovery_def)

lemma login_refused_same: "same_but_audit d (login_refused u reason rq d)"
  by (simp add: login_refused_def)

lemma put_totp_tables [simp]:
  "recovery_codes (put_totp r d) = recovery_codes d"
  "totp_secrets (put_totp r d) = put_row ts_id r (totp_secrets d)"
  by (simp_all add: put_totp_def)

section \<open>Properties\<close>

text \<open>
  C21: A second factor is spent by the login it admits. For an account with confirmed MFA a passed login
  challenge either matched the TOTP code of a time step at most one step from the clock and strictly
  later than the step of the code accepted before, which is now recorded as the last one used, or
  consumed one unused recovery code of that user, which is marked used. A refused challenge changes
  nothing but the audit log.
\<close>

theorem mfa_challenge_spends:
  assumes "active_totp u d = Some r" and "distinct (map ts_id (totp_secrets d))" and "0 < mfa_totp_step_seconds s"
    and "require_mfa_for_login c s clk u submitted rq d = (res, d')"
  shows "if res \<noteq> Inr () then same_but_audit d d'
    else (\<exists>secret key n r'. decrypt_secret c (ts_secret_ciphertext r) (effective_mfa_secret_key s) = Inr secret \<and>
        b32decode (normalise_b32 secret) = Some key \<and>
        hotp c key n (mfa_totp_digits s) = Some (py_strip (the submitted)) \<and>
        \<bar>n - epoch_seconds (clk 0) div mfa_totp_step_seconds s\<bar> \<le> 1 \<and>
        (\<forall>m. last_counter s r = Some m \<longrightarrow> m < n) \<and>
        active_totp u d' = Some r' \<and> last_counter s r' = Some n \<and> recovery_codes d' = recovery_codes d) \<or>
      (\<exists>x \<in> set (recovery_codes d). rc_user_id x = u_id u \<and> rc_used_at x = None \<and>
        rc_code_hash x = hash_recovery_code c (py_strip (the submitted)) (effective_mfa_secret_key s) \<and>
        recovery_codes d' = put_row rc_id (x\<lparr>rc_used_at := Some (clk 1)\<rparr>) (recovery_codes d) \<and>
        totp_secrets d' = totp_secrets d)"
proof (cases "\<exists>given v. submitted = Some given \<and> given \<noteq> [] \<and> check_totp c s r given (clk 0) = Inr v")
  case False
  then have "res \<noteq> Inr () \<and> same_but_audit d d'"
    using assms(1,4) login_refused_same
    by (auto simp: require_mfa_for_login_def split: option.splits sum.splits if_splits)
  then show ?thesis by simp
next
  case True
  then obtain given v where g: "submitted = Some given" "given \<noteq> []" "check_totp c s r given (clk 0) = Inr v" by blast
  show ?thesis
  proof (cases "accepted v")
    case True
    from check_accepted[OF g(3) this] obtain secret key n where n: "matched_counter v = Some n"
      "decrypt_secret c (ts_secret_ciphertext r) (effective_mfa_secret_key s) = Inr secret"
      "b32decode (normalise_b32 secret) = Some key"
      "hotp c key n (mfa_totp_digits s) = Some (py_strip given)"
      "\<bar>n - epoch_seconds (clk 0) div mfa_totp_step_seconds s\<bar> \<le> 1" "\<forall>m. last_counter s r = Some m \<longrightarrow> m < n"
      by blast
    let ?r = "r\<lparr>ts_last_used_at := Some (counter_time s n)\<rparr>"
    have d': "res = Inr ()" "d' = put_totp ?r d"
      using assms(1,4) g True n(1) by (auto simp: require_mfa_for_login_def)
    have "active_totp u d' = Some ?r"
      unfolding d' active_totp_def put_totp_tables
      by (rule scalar_put_row[OF assms(1)[unfolded active_totp_def] assms(2)])
        (use scalar_Some[OF assms(1)[unfolded active_totp_def]] in auto)
    then show ?thesis using n g(1) d' assms(3) by (auto intro!: exI[of _ secret] exI[of _ key] exI[of _ n])
  next
    case False
    show ?thesis
    proof (cases "unused_recovery c s u given d")
      case None
      then have "res \<noteq> Inr () \<and> d' = login_refused u E_MFA_INVALID_CODE rq d"
        using assms(1,4) g False by (auto simp: require_mfa_for_login_def)
      then show ?thesis using login_refused_same by simp
    next
      case (Some x)
      then have "res = Inr ()" "d' = use_recovery x (clk 1) u rq d"
        using assms(1,4) g False by (auto simp: require_mfa_for_login_def)
      then show ?thesis using scalar_Some[OF Some[unfolded unused_recovery_def Let_def]] g(1) by auto
    qed
  qed
qed

lemma scalar_stronger: "scalar p t = Some r \<Longrightarrow> p' r \<Longrightarrow> (\<And>x. p' x \<Longrightarrow> p x) \<Longrightarrow> scalar p' t = Some r"
  by (induction t) (auto split: if_splits)

lemma setup_totp_row:
  assumes "setup_totp c s raw nonce fresh u rq d = (Inr resp, d1)" and "distinct (map ts_id (totp_secrets d))"
    and "fresh \<notin> ts_id ` set (totp_secrets d)"
  shows "\<exists>r. totp_of u d1 = Some r \<and> ts_last_used_at r = None \<and> ts_disabled_at r = None \<and>
      ts_secret_ciphertext r = encrypt_secret c nonce (generate_totp_secret raw) (effective_mfa_secret_key s)"
    and "require_mfa_eligible u = Inr ()" and "ms_secret_b32 resp = generate_totp_secret raw"
    and "ms_digits resp = mfa_totp_digits s" and "ms_step_seconds resp = mfa_totp_step_seconds s"
    and "distinct (map ts_id (totp_secrets d1))" and "recovery_codes d1 = recovery_codes d"
proof -
  have elig: "require_mfa_eligible u = Inr ()"
    using assms(1) by (auto simp: setup_totp_def split: sum.splits)
  then show "require_mfa_eligible u = Inr ()" .
  have eq: "(if (case totp_of u d of None \<Rightarrow> False | Some r \<Rightarrow> ts_confirmed_at r \<noteq> None \<and> ts_disabled_at r = None)
      then x else y) = (Inr resp, d1) \<Longrightarrow> x = (Inl e, d) \<Longrightarrow> y = (Inr resp, d1)" for x y e
    by (simp split: if_splits)
  note s1 = eq[OF assms(1)[unfolded setup_totp_def elig sum.case Let_def] refl]
  show "ms_secret_b32 resp = generate_totp_secret raw"
    "ms_digits resp = mfa_totp_digits s" "ms_step_seconds resp = mfa_totp_step_seconds s"
    using s1 by auto
  show "recovery_codes d1 = recovery_codes d" "distinct (map ts_id (totp_secrets d1))"
    using s1 assms(2,3) by (auto simp: keys_put_row split: option.splits)
  show "\<exists>r. totp_of u d1 = Some r \<and> ts_last_used_at r = None \<and> ts_disabled_at r = None \<and>
      ts_secret_ciphertext r = encrypt_secret c nonce (generate_totp_secret raw) (effective_mfa_secret_key s)"
  proof (cases "totp_of u d")
    case None
    then show ?thesis using s1 by (auto simp: totp_of_def scalar_append)
  next
    case (Some r)
    let ?r = "r\<lparr>ts_secret_ciphertext := encrypt_secret c nonce (generate_totp_secret raw) (effective_mfa_secret_key s),
      ts_confirmed_at := None, ts_disabled_at := None, ts_last_used_at := None,
      ts_account_label := u_email u, ts_issuer_label := mfa_totp_issuer s\<rparr>"
    have "totp_secrets d1 = put_row ts_id ?r (totp_secrets d)"
      using s1 Some by auto
    moreover have "scalar (\<lambda>r. ts_user_id r = u_id u) (put_row ts_id ?r (totp_secrets d)) = Some ?r"
      by (rule scalar_put_row[OF Some[unfolded totp_of_def] assms(2)])
        (use scalar_Some[OF Some[unfolded totp_of_def]] in auto)
    ultimately show ?thesis by (intro exI[of _ ?r]) (simp add: totp_of_def)
  qed
qed

lemma confirm_totp_success:
  assumes "require_mfa_eligible u = Inr ()" and "totp_of u d = Some r" and "ts_disabled_at r = None"
    and "check_totp c s r t (clk 0) = Inr \<lparr>accepted = True, matched_counter = Some n\<rparr>"
    and "distinct (map rc_code_hash (filter (\<lambda>x. rc_user_id x \<noteq> u_id u) (recovery_codes d) @
      new_recovery_rows c s u fresh (generate_recovery_codes draw (mfa_recovery_code_count s))))"
  shows "\<exists>d2. confirm_totp c s draw fresh clk u t rq d =
      (Inr (clk 1, generate_recovery_codes draw (mfa_recovery_code_count s)), d2) \<and>
    totp_secrets d2 = put_row ts_id (r\<lparr>ts_confirmed_at := Some (clk 1),
      ts_last_used_at := Some (counter_time s n)\<rparr>) (totp_secrets d) \<and>
    recovery_codes d2 = filter (\<lambda>x. rc_user_id x \<noteq> u_id u) (recovery_codes d) @
      new_recovery_rows c s u fresh (generate_recovery_codes draw (mfa_recovery_code_count s))"
  using assms by (simp add: confirm_totp_def Let_def del: map_append distinct_append One_nat_def)

text \<open>A recovery code passes the login challenge of the account whose table holds its hash unused.\<close>

lemma recovery_code_passes:
  assumes "active_totp u d = Some r" and "decrypt_secret c (ts_secret_ciphertext r) (effective_mfa_secret_key s) = Inr secret"
    and "t \<in> set (generate_recovery_codes draw k)" and "mfa_totp_digits s \<noteq> 10"
    and "x \<in> set (recovery_codes d)" and "rc_user_id x = u_id u" and "rc_used_at x = None"
    and "rc_code_hash x = hash_recovery_code c t (effective_mfa_secret_key s)"
  shows "fst (require_mfa_for_login c s clk u (Some t) rq d) = Inr ()"
proof -
  note t = generated_codes[OF assms(3)]
  have "check_totp c s r t (clk 0) = Inr \<lparr>accepted = False, matched_counter = None\<rparr>"
    using assms(2,4) t(1,3) by (simp add: check_totp_def verify_totp_code_def)
  moreover have "unused_recovery c s u t d \<noteq> None"
    using assms(5-8) t(3) by (auto simp: unused_recovery_def Let_def scalar_None)
  moreover have "t \<noteq> []" using t(1) by auto
  ultimately show ?thesis using assms(1) by (auto simp: require_mfa_for_login_def)
qed

text \<open>
  Enrolment gives usable factors. With a cipher that decrypts what it encrypted, the code an
  authenticator computes from the secret of the setup response, for any time step at most one from the
  server's clock, is accepted by the confirmation, which returns the configured number of recovery
  codes (unless two codes share a hash), and each of these passes the login challenge of that account.
\<close>

theorem mfa_enrollment_usable:
  assumes aes: "\<And>k p a. is_bytes p \<Longrightarrow> aes_gcm_decrypt c k nonce (aes_gcm_encrypt c k nonce p a) a = Some p"
      "\<And>k p a. is_bytes p \<Longrightarrow> is_bytes (aes_gcm_encrypt c k nonce p a)"
    and draws: "is_bytes nonce" "is_bytes raw" "length raw = SECRET_BYTES"
    and rows: "distinct (map ts_id (totp_secrets d))" "fresh \<notin> ts_id ` set (totp_secrets d)"
    and enrol: "setup_totp c s raw nonce fresh u rq d = (Inr resp, d1)"
    and shown: "totp_now c (ms_secret_b32 resp) (ms_step_seconds resp) (ms_digits resp) device_time = Inr t"
    and clock: "\<bar>device_time div mfa_totp_step_seconds s - epoch_seconds (clk 0) div mfa_totp_step_seconds s\<bar> \<le> 1"
      "1 \<le> epoch_seconds (clk 0) div mfa_totp_step_seconds s" "epoch_seconds (clk 0) div mfa_totp_step_seconds s + 1 < 2 ^ 64"
    and digits: "mfa_totp_digits s \<notin> {0, 10}"
    and hashes: "distinct (map rc_code_hash (filter (\<lambda>x. rc_user_id x \<noteq> u_id u) (recovery_codes d) @
      new_recovery_rows c s u fresh' (generate_recovery_codes draw (mfa_recovery_code_count s))))"
  shows "\<exists>codes d2. confirm_totp c s draw fresh' clk u t rq' d1 = (Inr (clk 1, codes), d2) \<and>
    length codes = mfa_recovery_code_count s \<and>
    (\<forall>k \<in> set codes. \<forall>clk' rq''. fst (require_mfa_for_login c s clk' u (Some k) rq'' d2) = Inr ())"
proof -
  note st = setup_totp_row[OF enrol rows]
  from st(1) obtain r where r: "totp_of u d1 = Some r" "ts_last_used_at r = None" "ts_disabled_at r = None"
    "ts_secret_ciphertext r = encrypt_secret c nonce (generate_totp_secret raw) (effective_mfa_secret_key s)" by blast
  note sec = secret_decodes[OF draws(2,3)]
  have dec: "decrypt_secret c (ts_secret_ciphertext r) (effective_mfa_secret_key s) = Inr (generate_totp_secret raw)"
    unfolding r(4) by (rule decrypt_encrypt[OF aes draws(1) sec(2)])
  have h: "hotp c raw (device_time div mfa_totp_step_seconds s) (mfa_totp_digits s) = Some t"
    using shown by (auto simp: totp_now_def st(3-5) sec(1) split: option.splits)
  note t = hotp_code[OF h]
  have pos: "0 < mfa_totp_digits s" using digits by simp
  have strip: "py_strip t = t" unfolding py_strip_def
    using t(2)[OF pos] t(3)[OF pos] by (intro strip_by_id) (fastforce simp: py_isdigit_def py_isspace_def)
  from verify_first_match[OF sec(1) t(2)[OF pos] t(1)[OF pos] t(3)[OF pos] h clock]
  obtain n where v: "check_totp c s r t (clk 0) = Inr \<lparr>accepted = True, matched_counter = Some n\<rparr>"
    using dec strip r(2) by (auto simp: check_totp_def last_counter_def)
  define codes where "codes = generate_recovery_codes draw (mfa_recovery_code_count s)"
  define r' where "r' = r\<lparr>ts_confirmed_at := Some (clk 1), ts_last_used_at := Some (counter_time s n)\<rparr>"
  define tab where "tab = filter (\<lambda>x. rc_user_id x \<noteq> u_id u) (recovery_codes d) @ new_recovery_rows c s u fresh' codes"
  obtain d2 where d2: "confirm_totp c s draw fresh' clk u t rq' d1 = (Inr (clk 1, codes), d2)"
    "totp_secrets d2 = put_row ts_id r' (totp_secrets d1)" "recovery_codes d2 = tab"
    using confirm_totp_success[where clk = clk, OF st(2) r(1,3) v, of fresh' draw] hashes
    by (auto simp: st(7) codes_def tab_def r'_def simp del: map_append distinct_append)
  have act: "active_totp u d2 = Some r'"
  proof -
    have "scalar (\<lambda>r. ts_user_id r = u_id u) (totp_secrets d2) = Some r'"
      unfolding d2(2) by (rule scalar_put_row[OF r(1)[unfolded totp_of_def] st(6)])
        (use scalar_Some[OF r(1)[unfolded totp_of_def]] in \<open>auto simp: r'_def\<close>)
    moreover have "ts_user_id r' = u_id u"
      using scalar_Some[OF r(1)[unfolded totp_of_def]] by (simp add: r'_def)
    ultimately show ?thesis unfolding active_totp_def
      by (elim scalar_stronger) (use r(3) in \<open>auto simp: r'_def\<close>)
  qed
  have "fst (require_mfa_for_login c s clk' u (Some k) rq'' d2) = Inr ()" if k: "k \<in> set codes" for k clk' rq''
  proof -
    from k obtain i where "i < length codes" "k = codes ! i" by (auto simp: in_set_conv_nth)
    then obtain x where "x \<in> set (recovery_codes d2)" "rc_user_id x = u_id u" "rc_used_at x = None"
      "rc_code_hash x = hash_recovery_code c k (effective_mfa_secret_key s)"
      by (force simp: d2(3) tab_def new_recovery_rows_def)
    then show ?thesis using recovery_code_passes[OF act _ k[unfolded codes_def]] dec digits by (simp add: r'_def)
  qed
  moreover have "length codes = mfa_recovery_code_count s" by (simp add: codes_def generate_recovery_codes_def)
  ultimately show ?thesis using d2(1) by blast
qed

text \<open>
  A code with a digit outside ASCII that \<open>str.isdigit\<close> accepts (such as the superscript two) is not refused:
  \<open>hmac.compare_digest\<close> raises \<open>TypeError\<close> on it, whatever the secret, and the recovery codes are not tried.
\<close>

theorem superscript_code_raises:
  assumes "active_totp u d = Some r" and "mfa_totp_digits s = 6"
    and "decrypt_secret c (ts_secret_ciphertext r) (effective_mfa_secret_key s) = Inr secret"
    and "b32decode (normalise_b32 secret) = Some key"
    and "1 \<le> epoch_seconds (clk 0) div mfa_totp_step_seconds s" and "epoch_seconds (clk 0) div mfa_totp_step_seconds s + 1 < 2 ^ 64"
  shows "require_mfa_for_login c s clk u (Some (''12345'' @ [char_of (178::nat)])) rq d = (Inl (PyError ''TypeError''), d)"
proof -
  define t where "t = ''12345'' @ [char_of (178::nat)]"
  have "py_strip t = t" "py_isdigit t" "\<not> ascii_text t" "length t = 6" "t \<noteq> []" unfolding t_def by code_simp+
  moreover note window_defined[OF assms(5,6), of c key 6]
  ultimately have "check_totp c s r t (clk 0) = Inl (PyError ''TypeError'')"
    using assms(2-4) by (auto simp: check_totp_def verify_totp_code_def window_deltas Let_def)
  then show ?thesis using assms(1) \<open>t \<noteq> []\<close> unfolding t_def[symmetric] by (simp add: require_mfa_for_login_def)
qed

section \<open>Witnesses\<close>

text \<open>Primitives with the documented laws: a cipher that stores the text, digests that keep their input.\<close>

definition toy_crypto :: crypto where
  "toy_crypto = \<lparr>sha256 = (\<lambda>m. m), hmac_sha1 = (\<lambda>k m. [0, 0, 0, last m] @ replicate 16 0),
     hmac_sha256 = (\<lambda>k m. map (\<lambda>b. b mod 256) m), pbkdf2_sha256 = (\<lambda>k n salt i. replicate n 0),
     aes_gcm_encrypt = (\<lambda>k n p a. p), aes_gcm_decrypt = (\<lambda>k n p a. Some p),
     bcrypt_hashpw = (\<lambda>p salt. ''$2b$'' @ map char_of p), bcrypt_checkpw = (\<lambda>p h. Some (h = ''$2b$'' @ map char_of p))\<rparr>"

definition toy_secret :: string where
  "toy_secret = generate_totp_secret (replicate 20 7)"

definition enrolled_db :: db where
  "enrolled_db = sample_db\<lparr>totp_secrets := [\<lparr>ts_id = 80, ts_user_id = 4,
     ts_secret_ciphertext = encrypt_secret toy_crypto (replicate 12 2) toy_secret (effective_mfa_secret_key default_settings),
     ts_cipher = ''aes-gcm-pbkdf2'', ts_issuer_label = ''NextBallUp'', ts_account_label = ''coach@example.com'',
     ts_confirmed_at = Some 0, ts_disabled_at = None, ts_last_used_at = None\<rparr>]\<rparr>"

lemma toy_hotp: "hotp toy_crypto key 3 6 = Some ''000003''"
proof -
  have "last (to_base 256 8 3) = 3" by code_simp
  moreover have "take 4 ([0, 0, 0, 3] @ replicate 16 0) = [0, 0, 0, 3::nat]" by code_simp
  moreover have "py_zfill 6 (nat_str 3) = ''000003''" by code_simp
  ultimately show ?thesis by (simp add: hotp_def toy_crypto_def Let_def of_base_def)
qed

lemma toy_secret_decodes:
  "b32decode (normalise_b32 toy_secret) = Some (replicate 20 7)" "ascii_text toy_secret"
  unfolding toy_secret_def by (rule secret_decodes; simp add: SECRET_BYTES_def)+

lemma toy_challenge:
  "\<exists>d'. require_mfa_for_login toy_crypto default_settings (\<lambda>_. seconds 90) sample_coach (Some ''000003'') sample_request enrolled_db = (Inr (), d')"
proof -
  let ?k = "effective_mfa_secret_key default_settings"
  have dec: "decrypt_secret toy_crypto (encrypt_secret toy_crypto (replicate 12 2) toy_secret ?k) ?k = Inr toy_secret"
    by (rule decrypt_encrypt) (auto simp: toy_crypto_def toy_secret_decodes)
  have s: "mfa_totp_step_seconds default_settings = 30" "mfa_totp_digits default_settings = 6"
    by (simp_all add: default_settings_def)
  have "py_isdigit ''000003''" "ascii_text ''000003''" "py_strip ''000003'' = ''000003''" by code_simp+
  from verify_first_match[OF toy_secret_decodes(1) this(1) _ this(2) toy_hotp, where now = 90 and step = 30] this(3)
  obtain m where "verify_totp_code toy_crypto toy_secret (py_strip ''000003'') 30 6 90 None =
    Inr \<lparr>accepted = True, matched_counter = Some m\<rparr>" by auto
  then show ?thesis
    by (simp add: require_mfa_for_login_def active_totp_def enrolled_db_def sample_coach_def check_totp_def dec s
        last_counter_def epoch_seconds_def)
qed

theorem mfa_challenge_spends_witness:
  "\<exists>d' r' n. require_mfa_for_login toy_crypto default_settings (\<lambda>_. seconds 90) sample_coach (Some ''000003'') sample_request enrolled_db = (Inr (), d') \<and>
     active_totp sample_coach d' = Some r' \<and> last_counter default_settings r' = Some n \<and> \<bar>n - 3\<bar> \<le> 1"
proof -
  obtain d' where d': "require_mfa_for_login toy_crypto default_settings (\<lambda>_. seconds 90) sample_coach (Some ''000003'') sample_request enrolled_db = (Inr (), d')"
    using toy_challenge by blast
  have r: "active_totp sample_coach enrolled_db = Some (hd (totp_secrets enrolled_db))"
    by (simp add: active_totp_def enrolled_db_def sample_coach_def)
  have "distinct (map ts_id (totp_secrets enrolled_db))" "0 < mfa_totp_step_seconds default_settings"
    "recovery_codes enrolled_db = []" by (simp_all add: enrolled_db_def sample_db_def empty_db_def default_settings_def)
  from mfa_challenge_spends[OF r this(1,2) d'] this(3) d' show ?thesis
    by (auto simp: epoch_seconds_def default_settings_def)
qed

theorem mfa_enrollment_usable_witness:
  "\<exists>resp d1 codes d2. setup_totp toy_crypto default_settings (replicate 20 7) (replicate 12 2) 80 sample_coach sample_request sample_db = (Inr resp, d1) \<and>
     confirm_totp toy_crypto default_settings (\<lambda>i j. i) (\<lambda>i. 90 + i) (\<lambda>_. seconds 90) sample_coach ''000003'' sample_request d1 = (Inr (seconds 90, codes), d2) \<and>
     length codes = 10"
proof -
  let ?enrol = "setup_totp toy_crypto default_settings (replicate 20 7) (replicate 12 2) 80 sample_coach sample_request sample_db"
  obtain resp d1 where st: "?enrol = (Inr resp, d1)"
    by (auto simp: setup_totp_def require_mfa_eligible_def sample_coach_def Let_def totp_of_def sample_db_def empty_db_def)
  have rows: "distinct (map ts_id (totp_secrets sample_db))" "80 \<notin> ts_id ` set (totp_secrets sample_db)"
    by (simp_all add: sample_db_def empty_db_def)
  have s: "mfa_totp_step_seconds default_settings = 30" "mfa_totp_digits default_settings = 6"
    "mfa_recovery_code_count default_settings = 10"
    by (simp_all add: default_settings_def)
  have "totp_now toy_crypto (ms_secret_b32 resp) (ms_step_seconds resp) (ms_digits resp) 90 = Inr ''000003''"
    unfolding setup_totp_row(3-5)[OF st rows] s by (simp add: totp_now_def toy_secret_decodes(1)[unfolded toy_secret_def] toy_hotp)
  moreover have "distinct (map rc_code_hash (filter (\<lambda>x. rc_user_id x \<noteq> u_id sample_coach) (recovery_codes sample_db) @
      new_recovery_rows toy_crypto default_settings sample_coach (\<lambda>i. 90 + i)
        (generate_recovery_codes (\<lambda>i j. i) (mfa_recovery_code_count default_settings))))"
    by code_simp
  ultimately show ?thesis
    using mfa_enrollment_usable[OF _ _ _ _ _ rows st, of 90 "''000003''" "\<lambda>_. seconds 90"] st
    by (fastforce simp: toy_crypto_def SECRET_BYTES_def epoch_seconds_def s)
qed

end
