(* ===== verification/Http.thy ===== *)
theory Http
  imports Mfa
begin

text \<open>
  Cookies and forgery protection: \<open>security/cookies.py\<close>, \<open>security/csrf.py\<close>, the middleware of
  \<open>middleware/csrf.py\<close>, and the extraction of the access token in \<open>deps.py\<close>. \<open>http\<close> is what these read of a
  request; a response is the list of the cookie operations on it, in order. The HMAC is the argument
  \<open>crypto\<close>, random bytes and the clock are arguments.
\<close>

section \<open>Requests and cookies\<close>

record http =
  hx_method :: string
  hx_path :: string
  hx_cookies :: "(string \<times> string) list"
  hx_authorization :: "string option"
  hx_csrf_header :: "string option"
  hx_request_id :: "string option"

abbreviation cookie :: "http \<Rightarrow> string \<Rightarrow> string option" where
  "cookie h name \<equiv> map_of (hx_cookies h) name"

text \<open>\<open>a or b\<close> on optional strings.\<close>

definition str_or :: "string option \<Rightarrow> string option \<Rightarrow> string option" where
  "str_or a b = (if truthy a then a else b)"

datatype cookie_op =
    SetCookie (op_name: string) (op_value: string) (op_max_age: int) (op_httponly: bool) (op_secure: bool)
      (op_samesite: string) (op_domain: "string option") (op_path: string)
  | DeleteCookie (op_name: string) (op_domain: "string option") (op_path: string)

definition host_prefixed :: "string \<Rightarrow> string" where
  "host_prefixed name = ''__Host-'' @ name"

definition starts_with :: "string \<Rightarrow> string \<Rightarrow> bool" where
  "starts_with p t = (take (length p) t = p)"

definition wire_name :: "settings \<Rightarrow> string \<Rightarrow> string" where
  "wire_name s base_name =
     (if cookie_host_prefix s \<and> cookie_secure s then host_prefixed base_name else base_name)"

definition set_one :: "settings \<Rightarrow> string \<Rightarrow> string \<Rightarrow> int \<Rightarrow> string \<Rightarrow> cookie_op" where
  "set_one s name v max_age path =
     SetCookie name v max_age True (cookie_secure s) (cookie_samesite s)
       (if starts_with ''__Host-'' name then None else cookie_domain s) path"

definition clear_refresh_cookie_legacy_paths :: "settings \<Rightarrow> cookie_op list" where
  "clear_refresh_cookie_legacy_paths s =
     concat (map (\<lambda>path. [DeleteCookie (cookie_refresh_name s) (cookie_domain s) path,
       DeleteCookie (host_prefixed (cookie_refresh_name s)) None path]) [''/'', cookie_refresh_path s])"

definition set_auth_cookies :: "settings \<Rightarrow> string \<Rightarrow> string \<Rightarrow> cookie_op list" where
  "set_auth_cookies s access_token refresh_token =
     [set_one s (wire_name s (cookie_access_name s)) access_token (access_token_expire_minutes s * 60) ''/''] @
     clear_refresh_cookie_legacy_paths s @
     [set_one s (cookie_refresh_name s) refresh_token (refresh_token_expire_days s * 86400) (cookie_refresh_path s)]"

definition clear_auth_cookies :: "settings \<Rightarrow> cookie_op list" where
  "clear_auth_cookies s =
     concat (map (\<lambda>base. [DeleteCookie base (cookie_domain s) ''/'', DeleteCookie (host_prefixed base) None ''/''])
       [cookie_access_name s, cookie_refresh_name s]) @
     clear_refresh_cookie_legacy_paths s"

section \<open>Access tokens\<close>

definition extract_token :: "settings \<Rightarrow> http \<Rightarrow> exn + string" where
  "extract_token s h =
     (let ck = str_or (cookie h (host_prefixed (cookie_access_name s))) (cookie h (cookie_access_name s));
          auth_header = (case hx_authorization h of None \<Rightarrow> [] | Some x \<Rightarrow> x);
          has_bearer = starts_with ''bearer '' (py_lower auth_header)
      in if truthy ck \<and> has_bearer then Inl AuthenticationError
         else if truthy ck then Inr (the ck)
         else if has_bearer then Inr (py_strip (the (snd (py_split1 CHR '' '' auth_header))))
         else Inl AuthenticationError)"

section \<open>CSRF tokens\<close>

definition CSRF_NONCE_BYTES :: nat where
  "CSRF_NONCE_BYTES = 16"

text \<open>\<open>None\<close> is \<open>OverflowError\<close>: the time does not fit 8 bytes.\<close>

definition csrf_sign :: "crypto \<Rightarrow> bytes \<Rightarrow> int \<Rightarrow> string \<Rightarrow> bytes option" where
  "csrf_sign c nonce issued_at secret =
     (if issued_at < 0 \<or> issued_at \<ge> 2 ^ 64 then None
      else Some (hmac_sha256 c (ascii_encode secret) (nonce @ to_base 256 8 (nat issued_at))))"

definition generate_csrf_token :: "crypto \<Rightarrow> settings \<Rightarrow> bytes \<Rightarrow> time \<Rightarrow> exn + string" where
  "generate_csrf_token c s nonce now =
     (let issued_at = epoch_seconds now
      in case csrf_sign c nonce issued_at (effective_csrf_secret s) of
           None \<Rightarrow> Inl (PyError ''OverflowError'')
         | Some sig \<Rightarrow> Inr (b64url_encode nonce @ ''.'' @ b64url_encode sig @ ''.'' @ int_str issued_at))"

definition verify_csrf_token :: "crypto \<Rightarrow> settings \<Rightarrow> time \<Rightarrow> string \<Rightarrow> exn + bool" where
  "verify_csrf_token c s now token =
     (case py_split CHR ''.'' token of
        [nonce_b64, sig_b64, issued_at_raw] \<Rightarrow>
          (case (b64url_decode nonce_b64, b64url_decode sig_b64, py_int 10 issued_at_raw) of
             (Some nonce, Some provided_sig, Some issued_at) \<Rightarrow>
               if length nonce \<noteq> CSRF_NONCE_BYTES then Inr False
               else
                 let age = epoch_seconds now - issued_at
                 in if age < 0 \<or> age > csrf_token_ttl_seconds s then Inr False
                    else
                      (case csrf_sign c nonce issued_at (effective_csrf_secret s) of
                         None \<Rightarrow> Inl (PyError ''OverflowError'')
                       | Some expected \<Rightarrow> Inr (expected = provided_sig))
           | _ \<Rightarrow> Inr False)
      | _ \<Rightarrow> Inr False)"

definition set_csrf_cookie :: "settings \<Rightarrow> string \<Rightarrow> cookie_op" where
  "set_csrf_cookie s token =
     (let name = (if cookie_host_prefix s \<and> cookie_secure s then host_prefixed (cookie_csrf_name s) else cookie_csrf_name s)
      in SetCookie name token (csrf_token_ttl_seconds s) False (cookie_secure s) (cookie_samesite s)
           (if starts_with ''__Host-'' name then None else cookie_domain s) ''/'')"

definition clear_csrf_cookie :: "settings \<Rightarrow> cookie_op" where
  "clear_csrf_cookie s =
     (let name = (if cookie_host_prefix s \<and> cookie_secure s then host_prefixed (cookie_csrf_name s) else cookie_csrf_name s)
      in DeleteCookie name (if starts_with ''__Host-'' name then None else cookie_domain s) ''/'')"

definition extract_csrf_cookie :: "settings \<Rightarrow> http \<Rightarrow> string option" where
  "extract_csrf_cookie s h =
     (let prefixed = host_prefixed (cookie_csrf_name s)
      in if cookie_host_prefix s \<and> cookie_secure s
         then str_or (cookie h prefixed) (cookie h (cookie_csrf_name s))
         else str_or (cookie h (cookie_csrf_name s)) (cookie h prefixed))"

definition request_is_cookie_authenticated :: "settings \<Rightarrow> http \<Rightarrow> bool" where
  "request_is_cookie_authenticated s h =
     (truthy (cookie h (cookie_access_name s)) \<or> truthy (cookie h (host_prefixed (cookie_access_name s))))"

definition path_is_csrf_exempt :: "settings \<Rightarrow> string \<Rightarrow> bool" where
  "path_is_csrf_exempt s path =
     (\<exists>exempt \<in> set (csrf_exempt_paths s). path = exempt \<or> starts_with exempt path)"

section \<open>The middleware\<close>

text \<open>What the middleware does with a request: pass it on, or answer 403 with a reason.\<close>

datatype csrf_outcome = CallNext | Reject (reason: string)

definition csrf_dispatch :: "crypto \<Rightarrow> settings \<Rightarrow> time \<Rightarrow> http \<Rightarrow> exn + csrf_outcome" where
  "csrf_dispatch c s now h =
     (if py_upper (hx_method h) \<notin> set (map py_upper (csrf_protected_methods s)) then Inr CallNext
      else if path_is_csrf_exempt s (hx_path h) then Inr CallNext
      else if \<not> request_is_cookie_authenticated s h then Inr CallNext
      else
        let cookie_token = extract_csrf_cookie s h; header_token = hx_csrf_header h
        in if \<not> truthy cookie_token \<or> \<not> truthy header_token then Inr (Reject ''missing_token'')
           else if cookie_token \<noteq> header_token then Inr (Reject ''token_mismatch'')
           else
             (case verify_csrf_token c s now (the cookie_token) of
                Inl e \<Rightarrow> Inl e
              | Inr False \<Rightarrow> Inr (Reject ''invalid_token'')
              | Inr True \<Rightarrow> Inr CallNext))"

definition csrf_reject :: "http \<Rightarrow> string \<Rightarrow> int \<times> jobj" where
  "csrf_reject h why =
     (403, [(''error'', JObj [(''code'', JStr E_CSRF_FAILED), (''message'', JStr ''CSRF verification failed''),
         (''details'', JObj [(''reason'', JStr why)])])] @
       (case hx_request_id h of None \<Rightarrow> [] | Some i \<Rightarrow> [(''request_id'', JStr i)]))"

section \<open>Lemmas\<close>

lemma str_or_truthy: "truthy (str_or a b) \<longleftrightarrow> truthy a \<or> truthy b"
  by (simp add: str_or_def)

lemma is_bytes_to_base [simp]: "is_bytes (to_base 256 n v)"
  using to_base_less[of 256] by auto

lemma small_int_digits: "n < 2 ^ 64 \<Longrightarrow> n < (10::int) ^ INT_MAX_STR_DIGITS"
proof -
  assume "n < 2 ^ 64"
  also have "(2::int) ^ 64 \<le> 10 ^ 20" by simp
  also have "(10::int) ^ 20 \<le> 10 ^ INT_MAX_STR_DIGITS"
    by (rule power_increasing) (simp_all add: INT_MAX_STR_DIGITS_def)
  finally show ?thesis .
qed

lemma csrf_token_parts:
  assumes "verify_csrf_token c s now token = Inr True"
  shows "\<exists>n g i nonce sig issued_at. token = n @ ''.'' @ g @ ''.'' @ i \<and> b64url_decode n = Some nonce \<and>
    b64url_decode g = Some sig \<and> py_int 10 i = Some issued_at \<and> length nonce = CSRF_NONCE_BYTES \<and>
    0 \<le> epoch_seconds now - issued_at \<and> epoch_seconds now - issued_at \<le> csrf_token_ttl_seconds s \<and>
    csrf_sign c nonce issued_at (effective_csrf_secret s) = Some sig"
proof -
  obtain n g i where p: "py_split CHR ''.'' token = [n, g, i]"
    using assms by (auto simp: verify_csrf_token_def split: list.splits)
  then have "token = n @ ''.'' @ g @ ''.'' @ i" using py_split_join[of "CHR ''.''" token] by simp
  then show ?thesis using assms p
    by (intro exI[of _ n] exI[of _ g] exI[of _ i])
      (auto simp: verify_csrf_token_def Let_def split: option.splits if_splits)
qed

lemma issued_csrf_verifies:
  assumes "\<And>k m. is_bytes (hmac_sha256 c k m)" and "is_bytes nonce" and "length nonce = CSRF_NONCE_BYTES"
    and "generate_csrf_token c s nonce issued = Inr token"
    and "epoch_seconds issued \<le> epoch_seconds now" and "epoch_seconds now \<le> epoch_seconds issued + csrf_token_ttl_seconds s"
  shows "verify_csrf_token c s now token = Inr True"
proof -
  let ?i = "epoch_seconds issued"
  from assms(4) obtain sig where sig: "csrf_sign c nonce ?i (effective_csrf_secret s) = Some sig"
    "token = b64url_encode nonce @ CHR ''.'' # b64url_encode sig @ CHR ''.'' # int_str ?i"
    by (auto simp: generate_csrf_token_def Let_def split: option.splits)
  have i: "0 \<le> ?i" "?i < 2 ^ 64" and sb: "is_bytes sig"
    using sig(1) assms(1) by (auto simp: csrf_sign_def split: if_splits)
  have dots: "CHR ''.'' \<notin> set (b64url_encode nonce)" "CHR ''.'' \<notin> set (b64url_encode sig)"
    using segment_no_dot[OF assms(2)] segment_no_dot[OF sb] by auto
  have "CHR ''.'' \<notin> set (int_str ?i)" using set_int_str[of "CHR ''.''" ?i] by auto
  then have split: "py_split CHR ''.'' token = [b64url_encode nonce, b64url_encode sig, int_str ?i]"
    using dots by (simp add: sig(2) py_split_append py_split_none)
  have "py_int 10 (int_str ?i) = Some ?i"
    by (rule py_int_str) (use i small_int_digits[of ?i] in simp)
  then show ?thesis
    using assms(2,3,5,6) sig(1) sb split by (simp add: verify_csrf_token_def Let_def b64url_roundtrip)
qed

section \<open>Properties\<close>

text \<open>
  C25: Cookie sessions are protected against forged requests. A request with a protected method, on a path
  that is not exempt, that the middleware passes on and from which the API extracts an access token
  either carries no access cookie and presents the token in its Authorization header, or carries in
  the \<open>X-CSRF-Token\<close> header the value of its CSRF cookie, and that value is a 16-byte nonce, its HMAC with
  an issue time under the deployment's secret, and that issue time, not in the future and within the
  lifetime of the token.
\<close>

theorem csrf_protects_cookies:
  assumes "csrf_dispatch c s now h = Inr CallNext" and "py_upper (hx_method h) \<in> set (map py_upper (csrf_protected_methods s))"
    and "\<not> path_is_csrf_exempt s (hx_path h)" and "extract_token s h = Inr access_token"
  shows "(\<not> request_is_cookie_authenticated s h \<and>
      (\<exists>v. hx_authorization h = Some v \<and> starts_with ''bearer '' (py_lower v))) \<or>
    (\<exists>token n g i nonce sig issued_at.
      hx_csrf_header h = Some token \<and> extract_csrf_cookie s h = Some token \<and> token = n @ ''.'' @ g @ ''.'' @ i \<and>
      b64url_decode n = Some nonce \<and> b64url_decode g = Some sig \<and> py_int 10 i = Some issued_at \<and>
      length nonce = CSRF_NONCE_BYTES \<and>
      csrf_sign c nonce issued_at (effective_csrf_secret s) = Some sig \<and>
      issued_at \<le> epoch_seconds now \<and> epoch_seconds now \<le> issued_at + csrf_token_ttl_seconds s)"
proof (cases "request_is_cookie_authenticated s h")
  case False
  then have "\<not> truthy (str_or (cookie h (host_prefixed (cookie_access_name s))) (cookie h (cookie_access_name s)))"
    by (auto simp: request_is_cookie_authenticated_def str_or_truthy)
  then have "\<exists>v. hx_authorization h = Some v \<and> starts_with ''bearer '' (py_lower v)"
    using assms(4) by (auto simp: extract_token_def Let_def starts_with_def py_lower_def split: if_splits option.splits)
  with False show ?thesis by blast
next
  case True
  obtain token where t: "extract_csrf_cookie s h = Some token" "hx_csrf_header h = Some token"
    using assms(1-3) True
    by (auto simp: csrf_dispatch_def Let_def truthy_def split: if_splits option.splits)
  have "verify_csrf_token c s now token = Inr True"
    using assms(1-3) True t
    by (auto simp: csrf_dispatch_def Let_def split: if_splits sum.splits bool.splits)
  from csrf_token_parts[OF this] t show ?thesis by (auto simp: algebra_simps)
qed

text \<open>
  A CSRF token the server issued is accepted until it expires, for every nonce, secret and issue time.
\<close>

theorem csrf_token_roundtrip:
  assumes "\<And>k m. is_bytes (hmac_sha256 c k m)" and "is_bytes nonce" and "length nonce = CSRF_NONCE_BYTES"
    and "generate_csrf_token c s nonce issued = Inr token"
    and "epoch_seconds issued \<le> epoch_seconds now" and "epoch_seconds now \<le> epoch_seconds issued + csrf_token_ttl_seconds s"
  shows "verify_csrf_token c s now token = Inr True"
  using assms by (rule issued_csrf_verifies)

section \<open>Witnesses\<close>

definition csrf_request :: "string \<Rightarrow> http" where
  "csrf_request token = \<lparr>hx_method = ''post'', hx_path = ''/api/v1/teams'',
     hx_cookies = [(''nbu_access_token'', ''t''), (''nbu_csrf_token'', token)],
     hx_authorization = None, hx_csrf_header = Some token, hx_request_id = None\<rparr>"

lemma toy_hmac_bytes: "is_bytes (hmac_sha256 toy_crypto k m)"
  by (simp add: toy_crypto_def)

lemma toy_csrf_token:
  obtains token where "generate_csrf_token toy_crypto default_settings (replicate 16 7) (seconds 10) = Inr token" "token \<noteq> []"
  by (simp add: generate_csrf_token_def csrf_sign_def epoch_seconds_def)

theorem csrf_token_roundtrip_witness:
  "\<exists>token. generate_csrf_token toy_crypto default_settings (replicate 16 7) (seconds 10) = Inr token \<and>
     verify_csrf_token toy_crypto default_settings (seconds 20) token = Inr True"
proof -
  obtain token where t: "generate_csrf_token toy_crypto default_settings (replicate 16 7) (seconds 10) = Inr token"
    by (rule toy_csrf_token)
  have "verify_csrf_token toy_crypto default_settings (seconds 20) token = Inr True"
    by (rule csrf_token_roundtrip[OF toy_hmac_bytes _ _ t])
      (simp_all add: CSRF_NONCE_BYTES_def epoch_seconds_def default_settings_def)
  with t show ?thesis by blast
qed

theorem csrf_protects_cookies_witness:
  "\<exists>token sig. csrf_dispatch toy_crypto default_settings (seconds 20) (csrf_request token) = Inr CallNext \<and>
     (\<exists>n g i nonce issued_at. token = n @ ''.'' @ g @ ''.'' @ i \<and> b64url_decode g = Some sig \<and>
       csrf_sign toy_crypto nonce issued_at (effective_csrf_secret default_settings) = Some sig)"
proof -
  obtain token where t: "generate_csrf_token toy_crypto default_settings (replicate 16 7) (seconds 10) = Inr token" "token \<noteq> []"
    by (rule toy_csrf_token)
  have v: "verify_csrf_token toy_crypto default_settings (seconds 20) token = Inr True"
    by (rule issued_csrf_verifies[OF toy_hmac_bytes _ _ t(1)])
      (simp_all add: CSRF_NONCE_BYTES_def epoch_seconds_def default_settings_def)
  have m: "py_upper ''post'' \<in> set (map py_upper (csrf_protected_methods default_settings))" by code_simp
  have e: "\<not> path_is_csrf_exempt default_settings ''/api/v1/teams''" by code_simp
  have n: "cookie_access_name default_settings = ''nbu_access_token''" "cookie_csrf_name default_settings = ''nbu_csrf_token''"
    "\<not> cookie_secure default_settings" by (simp_all add: default_settings_def)
  have a: "request_is_cookie_authenticated default_settings (csrf_request token)"
    "extract_csrf_cookie default_settings (csrf_request token) = Some token"
    "extract_token default_settings (csrf_request token) = Inr ''t''"
    using t(2) by (simp_all add: request_is_cookie_authenticated_def extract_csrf_cookie_def extract_token_def
        csrf_request_def n str_or_def host_prefixed_def starts_with_def py_lower_def Let_def)
  have d: "csrf_dispatch toy_crypto default_settings (seconds 20) (csrf_request token) = Inr CallNext"
    using m e a v t(2) by (simp add: csrf_dispatch_def csrf_request_def Let_def)
  have "py_upper (hx_method (csrf_request token)) \<in> set (map py_upper (csrf_protected_methods default_settings))"
    "\<not> path_is_csrf_exempt default_settings (hx_path (csrf_request token))" "hx_csrf_header (csrf_request token) = Some token"
    using m e by (simp_all add: csrf_request_def)
  from csrf_protects_cookies[OF d this(1,2) a(3)] a(1) this(3) d show ?thesis by auto blast
qed

end
