(* ===== verification/Sessions.thy ===== *)
theory Sessions
  imports Http
begin

text \<open>
  Accounts and sessions: the authentication dependency of \<open>deps.py\<close> and, of \<open>routers/auth.py\<close>, the
  registration gate, registration, login, the rotation of refresh tokens with replay detection, and
  logout. A handler is a function of the database to its result (the payload with the cookies it sets) and
  the committed database. \<open>rl\<close> is what the rate limiter answered; fresh ids, salts and nonces are the
  record \<open>draws\<close>, \<open>clk i\<close> the clock at the \<open>i\<close>-th reading. \<open>session.scalar\<close> of a deleted row and the RLS variables
  are not modelled.
\<close>

section \<open>Users and their teams\<close>

definition live_memberships :: "user_row \<Rightarrow> db \<Rightarrow> (membership_row \<times> team_row) list" where
  "live_memberships u d =
     concat (map (\<lambda>m. case by_key t_id (m_team_id m) (teams d) of
         None \<Rightarrow> [] | Some t \<Rightarrow> if t_deleted_at t = None then [(m, t)] else [])
       (filter (\<lambda>m. m_user_id m = u_id u \<and> m_is_active m) (memberships d)))"

record user_public =
  up_id :: uuid
  up_email :: string
  up_full_name :: string
  up_role :: user_role
  up_teams :: "(uuid \<times> string \<times> string) list"

definition user_public_of :: "user_row \<Rightarrow> db \<Rightarrow> user_public" where
  "user_public_of u d = \<lparr>up_id = u_id u, up_email = u_email u, up_full_name = u_full_name u, up_role = u_role u,
     up_teams = map (\<lambda>(m, t). (m_team_id m, t_name t, team_role_value (m_team_role m))) (live_memberships u d)\<rparr>"

definition team_ids :: "user_row \<Rightarrow> db \<Rightarrow> uuid list" where
  "team_ids u d = map (\<lambda>(m, t). m_team_id m) (live_memberships u d)"

section \<open>Authentication of a request\<close>

text \<open>\<open>user_of_claims\<close> is the common part: the subject must be a live user at the token's session version.\<close>

definition user_of_claims :: "claims \<Rightarrow> db \<Rightarrow> exn + user_row" where
  "user_of_claims claims d =
     (case parse_uuid (the (js_str (map_of claims ''sub''))) of
        None \<Rightarrow> Inl AuthenticationError
      | Some user_id \<Rightarrow>
          (case by_key u_id user_id (users d) of
             None \<Rightarrow> Inl AuthenticationError
           | Some u \<Rightarrow>
               if \<not> u_is_active u then Inl AuthenticationError
               else if js_int (map_of claims ''sv'') \<noteq> Some (u_session_version u) then Inl AuthenticationError
               else Inr u))"

definition get_current_user :: "rsa \<Rightarrow> settings \<Rightarrow> time \<Rightarrow> http \<Rightarrow> db \<Rightarrow> exn + user_row" where
  "get_current_user rsa s now h d =
     (case extract_token s h of
        Inl e \<Rightarrow> Inl e
      | Inr token \<Rightarrow>
          (case decode_token rsa s ''access'' None now token of
             Inl e \<Rightarrow> Inl e
           | Inr claims \<Rightarrow> user_of_claims claims d))"

definition get_optional_current_user :: "rsa \<Rightarrow> settings \<Rightarrow> time \<Rightarrow> http \<Rightarrow> db \<Rightarrow> user_row option" where
  "get_optional_current_user rsa s now h d =
     (case get_current_user rsa s now h d of Inl _ \<Rightarrow> None | Inr u \<Rightarrow> Some u)"

section \<open>Refresh sessions\<close>

record draws =
  dr_user :: uuid
  dr_access_jti :: uuid
  dr_refresh_jti :: uuid
  dr_session :: uuid
  dr_salt :: bytes
  dr_csrf_nonce :: bytes

record issued =
  is_access_token :: string
  is_refresh_token :: string
  is_refresh_jti :: string
  is_refresh_expires_at :: time

definition issue_tokens :: "rsa \<Rightarrow> settings \<Rightarrow> draws \<Rightarrow> (nat \<Rightarrow> time) \<Rightarrow> user_row \<Rightarrow> uuid list \<Rightarrow> issued" where
  "issue_tokens rsa s dr clk u ids =
     (let jti = uuid_str (dr_refresh_jti dr)
      in \<lparr>is_access_token = create_access_token rsa s (u_id u) (u_role u) (u_session_version u) ids (dr_access_jti dr) (clk 2),
          is_refresh_token = create_refresh_token rsa s (u_id u) (u_role u) (u_session_version u) ids jti (clk 3),
          is_refresh_jti = jti,
          is_refresh_expires_at = clk 4 + days (refresh_token_expire_days s)\<rparr>)"

definition hash_text :: "crypto \<Rightarrow> string \<Rightarrow> string" where
  "hash_text c t = hex (sha256 c (ascii_encode t))"

text \<open>The INSERT violates the primary key or the unique index on \<open>jti_hash\<close> when the id or the hash is taken.\<close>

definition create_refresh_session ::
  "crypto \<Rightarrow> settings \<Rightarrow> uuid \<Rightarrow> user_row \<Rightarrow> string \<Rightarrow> time \<Rightarrow> time \<Rightarrow> request \<Rightarrow> db \<Rightarrow> exn + db" where
  "create_refresh_session c s fresh u jti expires_at created rq d =
     (if fresh \<in> rs_id ` set (refresh_sessions d) \<or> hash_text c jti \<in> rs_jti_hash ` set (refresh_sessions d)
      then Inl integrity_error
      else Inr (d\<lparr>refresh_sessions := refresh_sessions d @
        [\<lparr>rs_id = fresh, rs_user_id = u_id u, rs_jti_hash = hash_text c jti, rs_expires_at = expires_at,
          rs_revoked_at = None, rs_revoked_reason = None, rs_replaced_by_session_id = None,
          rs_ip_address = rq_client_ip rq, rs_user_agent = audit_user_agent rq, rs_created_at = created\<rparr>]\<rparr>))"

definition revoke_refresh_sessions :: "uuid \<Rightarrow> string \<Rightarrow> time \<Rightarrow> db \<Rightarrow> db" where
  "revoke_refresh_sessions user_id why now d =
     d\<lparr>refresh_sessions := update_where (\<lambda>r. rs_user_id r = user_id \<and> rs_revoked_at r = None)
        (\<lambda>r. r\<lparr>rs_revoked_at := Some now, rs_revoked_reason := Some why\<rparr>) (refresh_sessions d)\<rparr>"

definition bump_session_version :: "user_row \<Rightarrow> db \<Rightarrow> db" where
  "bump_session_version u d = put_user (u\<lparr>u_session_version := u_session_version u + 1\<rparr>) d"

text \<open>
  \<open>_user_from_refresh_token\<close>: the changes its failures make (revocation of every session on replay, of the
  expired one) are flushed and committed by the caller.
\<close>

definition user_from_refresh_token ::
  "rsa \<Rightarrow> crypto \<Rightarrow> settings \<Rightarrow> (nat \<Rightarrow> time) \<Rightarrow> string \<Rightarrow> db \<Rightarrow> (exn + user_row \<times> refresh_row) \<times> db" where
  "user_from_refresh_token rsa c s clk token d =
     (case decode_token rsa s ''refresh'' None (clk 0) token of
        Inl e \<Rightarrow> (Inl e, d)
      | Inr claims \<Rightarrow>
          (case user_of_claims claims d of
             Inl e \<Rightarrow> (Inl e, d)
           | Inr u \<Rightarrow>
               let h = hash_text c (the (js_str (map_of claims ''jti'')))
               in (case scalar (\<lambda>r. rs_user_id r = u_id u \<and> rs_jti_hash r = h) (refresh_sessions d) of
                     None \<Rightarrow> (Inl AuthenticationError, d)
                   | Some r \<Rightarrow>
                       if rs_revoked_at r \<noteq> None
                       then (Inl AuthenticationError,
                             bump_session_version u (revoke_refresh_sessions (u_id u) ''replay_detected'' (clk 1) d))
                       else if rs_expires_at r \<le> clk 1
                       then (Inl AuthenticationError,
                             d\<lparr>refresh_sessions := put_row rs_id (r\<lparr>rs_revoked_at := Some (clk 1),
                               rs_revoked_reason := Some ''expired''\<rparr>) (refresh_sessions d)\<rparr>)
                       else (Inr (u, r), d))))"

section \<open>Registration\<close>

record register_request =
  rg_email :: string
  rg_password :: string
  rg_full_name :: string
  rg_role :: user_role
  rg_phone :: "string option"
  rg_institution :: "string option"
  rg_invite_code :: "string option"

definition validate_password :: "string \<Rightarrow> bool" where
  "validate_password v =
     (length v \<ge> 8 \<and> (\<exists>ch \<in> set v. CHR ''0'' \<le> ch \<and> ch \<le> CHR ''9'') \<and>
      (\<exists>ch \<in> set v. CHR ''A'' \<le> ch \<and> ch \<le> CHR ''Z'') \<and> length (ascii_encode v) \<le> 72)"

text \<open>What pydantic checks of the body, the email format apart: \<open>None\<close> is a validation error (422).\<close>

definition validate_register :: "register_request \<Rightarrow> register_request option" where
  "validate_register p =
     (let invite = (case rg_invite_code p of None \<Rightarrow> None | Some v \<Rightarrow> if py_strip v = [] then None else Some (py_strip v))
      in if validate_password (rg_password p) \<and> length (rg_password p) \<le> 128 \<and>
            1 \<le> length (rg_full_name p) \<and> length (rg_full_name p) \<le> 255 \<and> rg_role p \<noteq> UR_ADMIN \<and>
            (case rg_phone p of None \<Rightarrow> True | Some v \<Rightarrow> length v \<le> 20) \<and>
            (case rg_institution p of None \<Rightarrow> True | Some v \<Rightarrow> length v \<le> 255) \<and>
            (case invite of None \<Rightarrow> True | Some v \<Rightarrow> length v \<le> 128)
         then Some (p\<lparr>rg_invite_code := invite\<rparr>) else None)"

definition register_refused :: "string \<Rightarrow> error_code \<Rightarrow> request \<Rightarrow> db \<Rightarrow> db" where
  "register_refused email why rq d =
     write_audit_event rq A_USER_REGISTER_FAILED None (Some email) None None None (Some [(''reason'', JStr why)]) d"

definition enforce_registration_gate :: "settings \<Rightarrow> register_request \<Rightarrow> error_code option" where
  "enforce_registration_gate s p =
     (if is_registration_disabled s then Some E_REGISTRATION_DISABLED
      else if is_registration_invite_required s \<and> \<not> truthy (rg_invite_code p) then Some E_REGISTRATION_INVITE_REQUIRED
      else if is_registration_invite_required s \<and> \<not> is_valid_registration_invite_code s (rg_invite_code p)
      then Some E_REGISTRATION_INVITE_INVALID
      else if \<not> is_registration_email_allowlisted s (py_lower (rg_email p)) then Some E_REGISTRATION_NOT_ALLOWLISTED
      else None)"

definition new_user :: "uuid \<Rightarrow> register_request \<Rightarrow> string \<Rightarrow> time \<Rightarrow> user_row" where
  "new_user fresh p password_hash created =
     \<lparr>u_id = fresh, u_email = py_lower (rg_email p), u_full_name = rg_full_name p, u_role = rg_role p,
      u_is_active = True, u_is_verified = False, u_session_version = 1, u_parental_consent_on_file = False,
      u_date_of_birth_verified = False, u_password_hash = password_hash, u_phone = rg_phone p,
      u_institution = rg_institution p, u_avatar_url = None, u_height_inches = None, u_weight_lbs = None,
      u_position = None, u_graduation_year = None, u_handedness = None, u_biometric_consent = False,
      u_created_at = created\<rparr>"

text \<open>The cookies of a successful response; \<open>Inl\<close> when the clock does not fit the CSRF token.\<close>

definition session_cookies ::
  "crypto \<Rightarrow> settings \<Rightarrow> draws \<Rightarrow> time \<Rightarrow> issued \<Rightarrow> exn + cookie_op list" where
  "session_cookies c s dr now tk =
     (case generate_csrf_token c s (dr_csrf_nonce dr) now of
        Inl e \<Rightarrow> Inl e
      | Inr token \<Rightarrow> Inr (set_auth_cookies s (is_access_token tk) (is_refresh_token tk) @ [set_csrf_cookie s token]))"

text \<open>
  The tail the three handlers share: issue the tokens, INSERT the refresh session (\<open>d0\<close> is the state an
  exception rolls back to), the writes \<open>finish\<close> before the commit, the cookies.
\<close>

definition start_session ::
  "rsa \<Rightarrow> crypto \<Rightarrow> settings \<Rightarrow> draws \<Rightarrow> (nat \<Rightarrow> time) \<Rightarrow> user_row \<Rightarrow> uuid list \<Rightarrow> (db \<Rightarrow> db) \<Rightarrow> request \<Rightarrow> db \<Rightarrow> db \<Rightarrow>
   (exn + cookie_op list) \<times> db" where
  "start_session rsa c s dr clk u ids finish rq d0 d =
     (let tk = issue_tokens rsa s dr clk u ids
      in case create_refresh_session c s (dr_session dr) u (is_refresh_jti tk) (is_refresh_expires_at tk) (clk 0) rq d of
           Inl e \<Rightarrow> (Inl e, d0)
         | Inr d1 \<Rightarrow> (session_cookies c s dr (clk 5) tk, finish d1))"

text \<open>
  \<open>itf\<close> is what other transactions commit between the SELECT that finds the address free and the INSERT:
  if the address (or the id) is taken by then the INSERT fails, and the handler refuses as before.
\<close>

definition insert_user ::
  "rsa \<Rightarrow> crypto \<Rightarrow> settings \<Rightarrow> draws \<Rightarrow> (nat \<Rightarrow> time) \<Rightarrow> user_row \<Rightarrow> request \<Rightarrow> db \<Rightarrow> (exn + user_row \<times> cookie_op list) \<times> db" where
  "insert_user rsa c s dr clk u rq d =
     (if u_email u \<in> u_email ` set (users d) \<or> u_id u \<in> u_id ` set (users d)
      then (Inl (ConflictError E_EMAIL_TAKEN []), register_refused (u_email u) E_EMAIL_TAKEN rq d)
      else
        (case start_session rsa c s dr clk u []
                (write_audit_event rq A_USER_REGISTER_SUCCEEDED (Some (u_id u)) (Some (u_email u)) (Some ''user'')
                  (Some (u_id u)) None (Some [(''role'', JStr (user_role_value (u_role u)))]))
                rq d (d\<lparr>users := users d @ [u]\<rparr>) of
           (Inl e, d1) \<Rightarrow> (Inl e, d1)
         | (Inr cs, d1) \<Rightarrow> (Inr (u, cs), d1)))"

definition register ::
  "rsa \<Rightarrow> crypto \<Rightarrow> settings \<Rightarrow> draws \<Rightarrow> (nat \<Rightarrow> time) \<Rightarrow> exn + unit \<Rightarrow> (db \<Rightarrow> db) \<Rightarrow> register_request \<Rightarrow> request \<Rightarrow> db \<Rightarrow>
   (exn + user_row \<times> cookie_op list) \<times> db" where
  "register rsa c s dr clk rl itf p rq d =
     (let email = py_lower (rg_email p)
      in case rl of
           Inl e \<Rightarrow> (Inl e, d)
         | Inr _ \<Rightarrow>
             (case enforce_registration_gate s p of
                Some why \<Rightarrow> (Inl (ForbiddenError why []), register_refused email why rq d)
              | None \<Rightarrow>
                  if scalar (\<lambda>u. u_email u = email) (users d) \<noteq> None
                  then (Inl (ConflictError E_EMAIL_TAKEN []), register_refused email E_EMAIL_TAKEN rq d)
                  else
                    (case hash_password c (dr_salt dr) (rg_password p) of
                       Inl e \<Rightarrow> (Inl e, d)
                     | Inr ph \<Rightarrow> insert_user rsa c s dr clk (new_user (dr_user dr) p ph (clk 0)) rq (itf d))))"

section \<open>Login\<close>

record login_request =
  lg_email :: string
  lg_password :: string
  lg_mfa_code :: "string option"

definition check_credentials :: "crypto \<Rightarrow> login_request \<Rightarrow> request \<Rightarrow> db \<Rightarrow> (exn + user_row) \<times> db" where
  "check_credentials c p rq d =
     (let email = py_lower (lg_email p);
          failed = (\<lambda>uid why. write_audit_event rq A_USER_LOGIN_FAILED uid (Some email) None None None
            (Some [(''reason'', JStr why)]) d)
      in case scalar (\<lambda>u. u_email u = email) (users d) of
           None \<Rightarrow> (Inl InvalidCredentialsError, failed None E_INVALID_CREDENTIALS)
         | Some u \<Rightarrow>
             if \<not> verify_password c (lg_password p) (u_password_hash u)
             then (Inl InvalidCredentialsError, failed (Some (u_id u)) E_INVALID_CREDENTIALS)
             else if \<not> u_is_active u
             then (Inl (AppError 401 E_USER_INACTIVE []), failed (Some (u_id u)) E_USER_INACTIVE)
             else (Inr u, d))"

definition login ::
  "rsa \<Rightarrow> crypto \<Rightarrow> settings \<Rightarrow> draws \<Rightarrow> (nat \<Rightarrow> time) \<Rightarrow> exn + unit \<Rightarrow> login_request \<Rightarrow> request \<Rightarrow> db \<Rightarrow>
   (exn + user_public \<times> cookie_op list) \<times> db" where
  "login rsa c s dr clk rl p rq d =
     (case rl of
        Inl e \<Rightarrow> (Inl e, d)
      | Inr _ \<Rightarrow>
          (case check_credentials c p rq d of
             (Inl e, d0) \<Rightarrow> (Inl e, d0)
           | (Inr u, d0) \<Rightarrow>
               (case require_mfa_for_login c s clk u (lg_mfa_code p) rq d0 of
                  (Inl e, d1) \<Rightarrow> (Inl e, d1)
                | (Inr _, d1) \<Rightarrow>
                    (case start_session rsa c s dr clk u (team_ids u d1)
                            (write_audit_event rq A_USER_LOGIN_SUCCEEDED (Some (u_id u)) (Some (u_email u)) (Some ''user'')
                              (Some (u_id u)) None None) rq d0 d1 of
                       (Inl e, d2) \<Rightarrow> (Inl e, d2)
                     | (Inr cs, d2) \<Rightarrow> (Inr (user_public_of u d2, cs), d2)))))"

section \<open>Refresh and logout\<close>

definition refresh_failed :: "request \<Rightarrow> db \<Rightarrow> db" where
  "refresh_failed rq d =
     write_audit_event rq A_USER_REFRESH_FAILED None None None None None (Some [(''reason'', JStr E_UNAUTHENTICATED)]) d"

definition refresh_cookie :: "settings \<Rightarrow> http \<Rightarrow> string option" where
  "refresh_cookie s h = str_or (cookie h (host_prefixed (cookie_refresh_name s))) (cookie h (cookie_refresh_name s))"

definition replace_session :: "refresh_row \<Rightarrow> uuid \<Rightarrow> user_row \<Rightarrow> request \<Rightarrow> db \<Rightarrow> db" where
  "replace_session r new_id u rq d =
     write_audit_event rq A_USER_REFRESH_SUCCEEDED (Some (u_id u)) (Some (u_email u)) (Some ''user'') (Some (u_id u)) None None
       (d\<lparr>refresh_sessions := put_row rs_id (r\<lparr>rs_replaced_by_session_id := Some new_id\<rparr>) (refresh_sessions d)\<rparr>)"

definition refresh ::
  "rsa \<Rightarrow> crypto \<Rightarrow> settings \<Rightarrow> draws \<Rightarrow> (nat \<Rightarrow> time) \<Rightarrow> http \<Rightarrow> request \<Rightarrow> db \<Rightarrow> (exn + time \<times> cookie_op list) \<times> db" where
  "refresh rsa c s dr clk h rq d =
     (if \<not> truthy (refresh_cookie s h) then (Inl AuthenticationError, refresh_failed rq d)
      else
        (case user_from_refresh_token rsa c s clk (the (refresh_cookie s h)) d of
           (Inl e, d1) \<Rightarrow> (Inl e, refresh_failed rq d1)
         | (Inr (u, r), d1) \<Rightarrow>
             let r1 = r\<lparr>rs_revoked_at := Some (clk 2), rs_revoked_reason := Some ''rotated''\<rparr>;
                 d2 = d1\<lparr>refresh_sessions := put_row rs_id r1 (refresh_sessions d1)\<rparr>
             in (case start_session rsa c s dr (\<lambda>i. clk (Suc i)) u (team_ids u d2)
                        (replace_session r1 (dr_session dr) u rq) rq d d2 of
                   (Inl e, d3) \<Rightarrow> (Inl e, d3)
                 | (Inr cs, d3) \<Rightarrow> (Inr (clk 7, cs), d3))))"

definition logout :: "settings \<Rightarrow> time \<Rightarrow> user_row \<Rightarrow> request \<Rightarrow> db \<Rightarrow> cookie_op list \<times> db" where
  "logout s now current_user rq d =
     (clear_auth_cookies s @ [clear_csrf_cookie s],
      bump_session_version current_user (revoke_refresh_sessions (u_id current_user) ''logout'' now
        (write_audit_event rq A_USER_LOGOUT (Some (u_id current_user)) (Some (u_email current_user))
          (Some ''user'') (Some (u_id current_user)) None None d)))"

definition registration_status :: "settings \<Rightarrow> string \<times> bool \<times> bool" where
  "registration_status s =
     (registration_mode s, is_registration_invite_required s, registration_mode s = ''open'')"

section \<open>Tables\<close>

lemma put_user_tables [simp]:
  "refresh_sessions (put_user u d) = refresh_sessions d" "users (put_user u d) = put_row u_id u (users d)"
  by (simp_all add: put_user_def)

lemma bump_tables [simp]:
  "refresh_sessions (bump_session_version u d) = refresh_sessions d"
  "users (bump_session_version u d) = put_row u_id (u\<lparr>u_session_version := u_session_version u + 1\<rparr>) (users d)"
  by (simp_all add: bump_session_version_def)

lemma revoke_tables [simp]:
  "users (revoke_refresh_sessions i why now d) = users d"
  "map rs_id (refresh_sessions (revoke_refresh_sessions i why now d)) = map rs_id (refresh_sessions d)"
  "map rs_jti_hash (refresh_sessions (revoke_refresh_sessions i why now d)) = map rs_jti_hash (refresh_sessions d)"
  by (simp_all add: revoke_refresh_sessions_def map_update_where)

lemma login_refused_tables [simp]:
  "refresh_sessions (login_refused u why rq d) = refresh_sessions d" "users (login_refused u why rq d) = users d"
  by (simp_all add: login_refused_def)

lemma refresh_failed_tables [simp]:
  "refresh_sessions (refresh_failed rq d) = refresh_sessions d" "users (refresh_failed rq d) = users d"
  by (simp_all add: refresh_failed_def)

lemma register_refused_tables [simp]:
  "refresh_sessions (register_refused e why rq d) = refresh_sessions d" "users (register_refused e why rq d) = users d"
  by (simp_all add: register_refused_def)

lemma put_totp_sessions [simp]:
  "refresh_sessions (put_totp r d) = refresh_sessions d" "users (put_totp r d) = users d"
  by (simp_all add: put_totp_def)

lemma use_recovery_sessions [simp]:
  "refresh_sessions (use_recovery x now u rq d) = refresh_sessions d" "users (use_recovery x now u rq d) = users d"
  by (simp_all add: use_recovery_def)

lemma mfa_tables:
  assumes "require_mfa_for_login c s clk u submitted rq d = (res, d')"
  shows "refresh_sessions d' = refresh_sessions d" and "users d' = users d"
  using assms by (auto simp: require_mfa_for_login_def split: option.splits sum.splits if_splits)

text \<open>
  \<open>sessions_inv\<close> is what the keys of the table guarantee, \<open>session_step\<close> what the handlers do to it: rows
  are only added, and a revoked session stays revoked.
\<close>

definition sessions_inv :: "db \<Rightarrow> bool" where
  "sessions_inv d \<longleftrightarrow> distinct (map rs_id (refresh_sessions d)) \<and> distinct (map rs_jti_hash (refresh_sessions d))"

definition spent :: "uuid \<Rightarrow> string \<Rightarrow> db \<Rightarrow> bool" where
  "spent user_id h d \<longleftrightarrow>
     (\<exists>r \<in> set (refresh_sessions d). rs_user_id r = user_id \<and> rs_jti_hash r = h \<and> rs_revoked_at r \<noteq> None)"

definition session_step :: "db \<Rightarrow> db \<Rightarrow> bool" where
  "session_step d d' \<longleftrightarrow> (sessions_inv d \<longrightarrow> sessions_inv d' \<and> (\<forall>u h. spent u h d \<longrightarrow> spent u h d'))"

lemma session_step_refl [simp]: "refresh_sessions d' = refresh_sessions d \<Longrightarrow> session_step d d'"
  by (simp add: session_step_def sessions_inv_def spent_def)

lemma session_step_trans [trans]: "session_step a b \<Longrightarrow> session_step b c \<Longrightarrow> session_step a c"
  by (auto simp: session_step_def)

lemma session_step_create:
  "create_refresh_session c s fresh u jti e t rq d = Inr d' \<Longrightarrow> session_step d d'"
  by (auto simp: create_refresh_session_def session_step_def sessions_inv_def spent_def split: if_splits)

lemma session_step_revoke: "session_step d (revoke_refresh_sessions i why now d)"
  unfolding session_step_def sessions_inv_def spent_def
  by (auto simp: revoke_refresh_sessions_def map_update_where set_update_where)

lemma session_step_put:
  assumes "r \<in> set (refresh_sessions d)" and "rs_id r' = rs_id r" and "rs_jti_hash r' = rs_jti_hash r"
    and "rs_user_id r' = rs_user_id r" and "rs_revoked_at r' \<noteq> None"
    and "refresh_sessions d' = put_row rs_id r' (refresh_sessions d)"
  shows "session_step d d'"
  unfolding session_step_def
proof (intro impI conjI allI)
  assume inv: "sessions_inv d"
  have b: "by_key rs_id (rs_id r') (refresh_sessions d) = Some r"
    using by_key_mem[of rs_id "refresh_sessions d" r] inv assms(1,2) by (simp add: sessions_inv_def)
  then show "sessions_inv d'"
    using inv map_put_row[OF _ b, of rs_jti_hash] assms(3) by (simp add: sessions_inv_def assms(6) keys_put_row)
  fix u h
  assume "spent u h d"
  then obtain x where x: "x \<in> set (refresh_sessions d)" "rs_user_id x = u" "rs_jti_hash x = h" "rs_revoked_at x \<noteq> None"
    by (auto simp: spent_def)
  show "spent u h d'"
  proof (cases "rs_id x = rs_id r")
    case True
    then have "x = r" using inv x(1) assms(1) by (auto simp: sessions_inv_def dest: eq_key_imp_eq_value inj_onD simp: distinct_map)
    moreover have "r' \<in> set (refresh_sessions d')"
      using assms(1,2) by (auto simp: assms(6) put_row_def set_update_where intro!: rev_image_eqI)
    ultimately show ?thesis using x assms by (auto simp: spent_def)
  next
    case False
    then have "x \<in> set (refresh_sessions d')" using x(1) assms(2) by (simp add: assms(6) put_row_other)
    then show ?thesis using x by (auto simp: spent_def)
  qed
qed

section \<open>The handlers on the session table\<close>

lemma start_session_cases:
  assumes "start_session rsa c s dr clk u ids finish rq d0 d = (res, d')"
  obtains (refused) e where "res = Inl e" "d' = d0"
  | (created) d1 where "create_refresh_session c s (dr_session dr) u (uuid_str (dr_refresh_jti dr))
      (clk 4 + days (refresh_token_expire_days s)) (clk 0) rq d = Inr d1" "d' = finish d1"
      "res = session_cookies c s dr (clk 5) (issue_tokens rsa s dr clk u ids)"
proof (cases "create_refresh_session c s (dr_session dr) u (uuid_str (dr_refresh_jti dr))
      (clk 4 + days (refresh_token_expire_days s)) (clk 0) rq d")
  case (Inl e)
  then show ?thesis using assms refused[of e] by (simp add: start_session_def issue_tokens_def Let_def)
next
  case (Inr d1)
  then show ?thesis using assms created[of d1] by (simp add: start_session_def issue_tokens_def Let_def)
qed

lemma session_step_start:
  assumes "start_session rsa c s dr clk u ids finish rq d0 d = (res, d')"
    and "\<And>x. session_step x (finish x)" and "session_step d1 d0" and "session_step d1 d"
  shows "session_step d1 d'"
  using assms(1)
proof (cases rule: start_session_cases)
  case (created d2)
  note assms(4)
  also have "session_step d d2" by (rule session_step_create[OF created(1)])
  also have "session_step d2 d'" unfolding created(2) by (rule assms(2))
  finally show ?thesis .
qed (use assms(3) in simp)

lemma session_step_insert_user:
  assumes "insert_user rsa c s dr clk u rq d = (res, d')"
  shows "session_step d d'"
proof (cases "u_email u \<in> u_email ` set (users d) \<or> u_id u \<in> u_id ` set (users d)")
  case False
  obtain r where "start_session rsa c s dr clk u [] (write_audit_event rq A_USER_REGISTER_SUCCEEDED (Some (u_id u))
      (Some (u_email u)) (Some ''user'') (Some (u_id u)) None (Some [(''role'', JStr (user_role_value (u_role u)))]))
      rq d (d\<lparr>users := users d @ [u]\<rparr>) = (r, d')"
    using assms False by (auto simp: insert_user_def split: prod.splits sum.splits)
  then show ?thesis by (rule session_step_start) simp_all
qed (use assms in \<open>auto simp: insert_user_def\<close>)

lemma session_step_register:
  assumes "register rsa c s dr clk rl itf p rq d = (res, d')" and "session_step d (itf d)"
  shows "session_step d d'"
  using assms session_step_trans[OF assms(2) session_step_insert_user]
  by (auto simp: register_def Let_def split: sum.splits option.splits if_splits)

lemma check_credentials_frame:
  assumes "check_credentials c p rq d = (res, d')"
  shows "same_but_audit d d'" and "refresh_sessions d' = refresh_sessions d" and "users d' = users d"
    and "res = Inr u \<Longrightarrow> d' = d \<and> scalar (\<lambda>u. u_email u = py_lower (lg_email p)) (users d) = Some u \<and>
      verify_password c (lg_password p) (u_password_hash u) \<and> u_is_active u"
  using assms by (auto simp: check_credentials_def Let_def split: option.splits if_splits)

lemma session_step_login:
  assumes "login rsa c s dr clk rl p rq d = (res, d')"
  shows "session_step d d'"
proof (cases rl)
  case (Inr x)
  obtain r d0 where cr: "check_credentials c p rq d = (r, d0)" by fastforce
  note f = check_credentials_frame[OF cr]
  show ?thesis
  proof (cases r)
    case (Inl e)
    then show ?thesis using assms Inr cr f by (simp add: login_def)
  next
    case (Inr u)
    obtain m d1 where mf: "require_mfa_for_login c s clk u (lg_mfa_code p) rq d0 = (m, d1)" by fastforce
    note g = mfa_tables[OF mf]
    show ?thesis
    proof (cases m)
      case (Inl e)
      then show ?thesis using assms \<open>rl = Inr x\<close> cr \<open>r = Inr u\<close> mf f g by (simp add: login_def)
    next
      case (Inr y)
      obtain r2 where "start_session rsa c s dr clk u (team_ids u d1)
          (write_audit_event rq A_USER_LOGIN_SUCCEEDED (Some (u_id u)) (Some (u_email u)) (Some ''user'')
            (Some (u_id u)) None None) rq d0 d1 = (r2, d')"
        using assms \<open>rl = Inr x\<close> cr \<open>r = Inr u\<close> mf Inr by (auto simp: login_def split: prod.splits sum.splits)
      then show ?thesis by (rule session_step_start) (use f g in simp_all)
    qed
  qed
qed (use assms in \<open>simp add: login_def\<close>)

text \<open>What a refresh token names: the user and the hash of its id. It does not depend on the clock.\<close>

lemma decode_rs256_claims: "decode_rs256 rsa s a now t = Some x \<Longrightarrow> decode_rs256 rsa s a now' t = Some y \<Longrightarrow> x = y"
  by (auto simp: decode_rs256_def split: if_splits list.splits option.splits)

lemma decode_token_claims: "decode_token rsa s ty a now t = Inr x \<Longrightarrow> decode_token rsa s ty a now' t = Inr y \<Longrightarrow> x = y"
  by (auto simp: decode_token_def split: option.splits if_splits dest: decode_rs256_claims)

lemma decode_token_error: "decode_token rsa s ty a now t = Inl e \<Longrightarrow> e = AuthenticationError"
  by (auto simp: decode_token_def split: option.splits if_splits)

lemma user_of_claims_Inr:
  assumes "user_of_claims claims d = Inr u"
  shows "by_key u_id (u_id u) (users d) = Some u" and "u \<in> set (users d)" and "u_is_active u"
    and "parse_uuid (the (js_str (map_of claims ''sub''))) = Some (u_id u)"
    and "js_int (map_of claims ''sv'') = Some (u_session_version u)"
proof -
  from assms obtain i where i: "parse_uuid (the (js_str (map_of claims ''sub''))) = Some i"
    "by_key u_id i (users d) = Some u" "u_is_active u" "js_int (map_of claims ''sv'') = Some (u_session_version u)"
    by (auto simp: user_of_claims_def split: option.splits if_splits)
  from by_key_Some[OF i(2)] show "by_key u_id (u_id u) (users d) = Some u" "u \<in> set (users d)" "u_is_active u"
    "parse_uuid (the (js_str (map_of claims ''sub''))) = Some (u_id u)"
    "js_int (map_of claims ''sv'') = Some (u_session_version u)"
    using i by auto
qed

lemma user_from_refresh_token_Inr:
  assumes "user_from_refresh_token rsa c s clk t d = (Inr (u, r), d1)"
  shows "d1 = d" and "r \<in> set (refresh_sessions d)" and "rs_revoked_at r = None" and "clk 1 < rs_expires_at r"
    and "\<exists>claims. decode_token rsa s ''refresh'' None (clk 0) t = Inr claims \<and> user_of_claims claims d = Inr u \<and>
      scalar (\<lambda>r. rs_user_id r = u_id u \<and> rs_jti_hash r = hash_text c (the (js_str (map_of claims ''jti'')))) (refresh_sessions d) = Some r"
proof -
  have *: "d1 = d \<and> rs_revoked_at r = None \<and> clk 1 < rs_expires_at r \<and>
    (\<exists>claims. decode_token rsa s ''refresh'' None (clk 0) t = Inr claims \<and> user_of_claims claims d = Inr u \<and>
      scalar (\<lambda>r. rs_user_id r = u_id u \<and> rs_jti_hash r = hash_text c (the (js_str (map_of claims ''jti'')))) (refresh_sessions d) = Some r)"
    using assms by (auto simp: user_from_refresh_token_def Let_def split: sum.splits option.splits if_splits)
  then show "d1 = d" "rs_revoked_at r = None" "clk 1 < rs_expires_at r" by simp_all
  from * show "\<exists>claims. decode_token rsa s ''refresh'' None (clk 0) t = Inr claims \<and> user_of_claims claims d = Inr u \<and>
      scalar (\<lambda>r. rs_user_id r = u_id u \<and> rs_jti_hash r = hash_text c (the (js_str (map_of claims ''jti'')))) (refresh_sessions d) = Some r"
    by simp
  from * show "r \<in> set (refresh_sessions d)" by (auto dest: scalar_Some)
qed

lemma user_of_claims_error: "user_of_claims claims d = Inl e \<Longrightarrow> e = AuthenticationError"
  by (auto simp: user_of_claims_def split: option.splits if_splits)

lemma user_from_refresh_token_Inl:
  assumes "user_from_refresh_token rsa c s clk t d = (Inl e, d1)"
  obtains (early) "e = AuthenticationError" "d1 = d"
  | (replay) u r where "e = AuthenticationError" "r \<in> set (refresh_sessions d)" "rs_revoked_at r \<noteq> None"
      "d1 = bump_session_version u (revoke_refresh_sessions (u_id u) ''replay_detected'' (clk 1) d)"
  | (expired) r where "e = AuthenticationError" "r \<in> set (refresh_sessions d)"
      "d1 = d\<lparr>refresh_sessions := put_row rs_id (r\<lparr>rs_revoked_at := Some (clk 1),
          rs_revoked_reason := Some ''expired''\<rparr>) (refresh_sessions d)\<rparr>"
proof (cases "decode_token rsa s ''refresh'' None (clk 0) t")
  case (Inl x)
  then show ?thesis using assms early decode_token_error[OF Inl] by (simp add: user_from_refresh_token_def)
next
  case claims: (Inr claims)
  show ?thesis
  proof (cases "user_of_claims claims d")
    case (Inl x)
    then show ?thesis using assms claims early user_of_claims_error[OF Inl] by (simp add: user_from_refresh_token_def)
  next
    case u: (Inr u)
    define h where "h = hash_text c (the (js_str (map_of claims ''jti'')))"
    show ?thesis
    proof (cases "scalar (\<lambda>r. rs_user_id r = u_id u \<and> rs_jti_hash r = h) (refresh_sessions d)")
      case None
      then show ?thesis using assms claims u early by (simp add: user_from_refresh_token_def h_def Let_def)
    next
      case (Some r)
      with assms claims u
      have "(if rs_revoked_at r \<noteq> None then (Inl AuthenticationError,
            bump_session_version u (revoke_refresh_sessions (u_id u) ''replay_detected'' (clk 1) d))
          else if rs_expires_at r \<le> clk 1 then (Inl AuthenticationError,
            d\<lparr>refresh_sessions := put_row rs_id (r\<lparr>rs_revoked_at := Some (clk 1),
              rs_revoked_reason := Some ''expired''\<rparr>) (refresh_sessions d)\<rparr>)
          else (Inr (u, r), d)) = (Inl e, d1)"
        by (simp add: user_from_refresh_token_def h_def Let_def)
      then show ?thesis using scalar_Some[OF Some] replay[of r u] expired[of r] by (auto split: if_splits)
    qed
  qed
qed

lemma session_step_from_token:
  assumes "user_from_refresh_token rsa c s clk t d = (Inl e, d1)"
  shows "session_step d d1 \<and> e = AuthenticationError"
  using assms
proof (cases rule: user_from_refresh_token_Inl)
  case (replay u r)
  then show ?thesis using session_step_trans[OF session_step_revoke session_step_refl] by simp
next
  case (expired r)
  have "session_step d d1" by (rule session_step_put[OF expired(2)]) (simp_all add: expired(3))
  then show ?thesis using expired(1) by simp
qed simp_all

lemma refresh_cases:
  assumes "refresh rsa c s dr clk h rq d = (res, d')"
  obtains (no_cookie) "\<not> truthy (refresh_cookie s h)" "res = Inl AuthenticationError" "d' = refresh_failed rq d"
  | (refused) d1 where "truthy (refresh_cookie s h)"
      "user_from_refresh_token rsa c s clk (the (refresh_cookie s h)) d = (Inl AuthenticationError, d1)"
      "res = Inl AuthenticationError" "d' = refresh_failed rq d1"
  | (rotated) u r r1 d2 cs where "truthy (refresh_cookie s h)"
      "user_from_refresh_token rsa c s clk (the (refresh_cookie s h)) d = (Inr (u, r), d)"
      "r1 = r\<lparr>rs_revoked_at := Some (clk 2), rs_revoked_reason := Some ''rotated''\<rparr>"
      "d2 = d\<lparr>refresh_sessions := put_row rs_id r1 (refresh_sessions d)\<rparr>"
      "start_session rsa c s dr (\<lambda>i. clk (Suc i)) u (team_ids u d2) (replace_session r1 (dr_session dr) u rq) rq d d2 = (cs, d')"
      "res = (case cs of Inl e \<Rightarrow> Inl e | Inr x \<Rightarrow> Inr (clk 7, x))"
proof (cases "truthy (refresh_cookie s h)")
  case False
  then show ?thesis using assms no_cookie by (simp add: refresh_def)
next
  case True
  obtain q d1 where q: "user_from_refresh_token rsa c s clk (the (refresh_cookie s h)) d = (q, d1)" by fastforce
  show ?thesis
  proof (cases q)
    case (Inl e)
    then have "e = AuthenticationError" using session_step_from_token q by blast
    then show ?thesis using assms True q Inl refused[of d1] by (simp add: refresh_def)
  next
    case (Inr x)
    obtain u r where x: "x = (u, r)" by fastforce
    have "d1 = d" using user_from_refresh_token_Inr(1) q Inr x by metis
    then show ?thesis using assms True q Inr x
      by (auto simp: refresh_def Let_def split: prod.splits sum.splits intro: rotated[OF True _ refl refl])
  qed
qed

lemma session_step_refresh:
  assumes "refresh rsa c s dr clk h rq d = (res, d')"
  shows "session_step d d'"
  using assms
proof (cases rule: refresh_cases)
  case (refused d1)
  then show ?thesis using session_step_from_token[OF refused(2)] session_step_trans[OF _ session_step_refl] by simp
next
  case (rotated u r r1 d2 cs)
  note r = user_from_refresh_token_Inr[OF rotated(2)]
  have d2: "session_step d d2" by (rule session_step_put[OF r(2)]) (simp_all add: rotated(3,4))
  have mem: "r1 \<in> set (refresh_sessions x)" if "create_refresh_session c s i u j e t rq d2 = Inr x" for x i j e t
    using that r(2) by (auto simp: create_refresh_session_def rotated(3,4) put_row_def set_update_where split: if_splits
        intro!: rev_image_eqI)
  from rotated(5) show ?thesis
  proof (cases rule: start_session_cases)
    case (created d3)
    have "session_step d2 d3" by (rule session_step_create[OF created(1)])
    also have "session_step d3 d'"
      by (rule session_step_put[OF mem[OF created(1)]]) (simp_all add: created(2) replace_session_def rotated(3))
    finally show ?thesis using d2 session_step_trans by blast
  qed simp
qed simp

lemma session_step_logout: "session_step d (snd (logout s now u rq d))"
proof -
  let ?a = "write_audit_event rq A_USER_LOGOUT (Some (u_id u)) (Some (u_email u)) (Some ''user'') (Some (u_id u)) None None d"
  have "session_step d ?a" by simp
  also have "session_step ?a (revoke_refresh_sessions (u_id u) ''logout'' now ?a)" by (rule session_step_revoke)
  also have "session_step \<dots> (snd (logout s now u rq d))" by (simp add: logout_def)
  finally show ?thesis .
qed

text \<open>A successful refresh spends the session of its token, which was not spent before.\<close>

lemma refresh_spends:
  assumes "refresh rsa c s dr clk h rq d = (Inr x, d')" and "sessions_inv d"
  obtains token claims u where "refresh_cookie s h = Some token"
    "decode_token rsa s ''refresh'' None (clk 0) token = Inr claims" "user_of_claims claims d = Inr u"
    "\<not> spent (u_id u) (hash_text c (the (js_str (map_of claims ''jti'')))) d"
    "spent (u_id u) (hash_text c (the (js_str (map_of claims ''jti'')))) d'"
  using assms(1)
proof (cases rule: refresh_cases)
  case (rotated u r r1 d2 cs)
  note r = user_from_refresh_token_Inr[OF rotated(2)]
  from r(5) obtain claims where cl: "decode_token rsa s ''refresh'' None (clk 0) (the (refresh_cookie s h)) = Inr claims"
    "user_of_claims claims d = Inr u"
    "scalar (\<lambda>r. rs_user_id r = u_id u \<and> rs_jti_hash r = hash_text c (the (js_str (map_of claims ''jti'')))) (refresh_sessions d) = Some r"
    by blast
  note row = scalar_Some[OF cl(3)]
  have uniq: "y = r" if "y \<in> set (refresh_sessions d)" "rs_jti_hash y = rs_jti_hash r" for y
    using that row assms(2) unfolding sessions_inv_def distinct_map by (metis inj_on_eq_iff)
  have "\<not> spent (u_id u) (hash_text c (the (js_str (map_of claims ''jti'')))) d"
    using uniq row r(3) by (auto simp: spent_def)
  moreover have "spent (u_id u) (hash_text c (the (js_str (map_of claims ''jti'')))) d'"
    using rotated(5)
  proof (cases rule: start_session_cases)
    case (refused e)
    then show ?thesis using rotated(6) by simp
  next
    case (created d3)
    have r1: "r1 \<in> set (refresh_sessions d2)"
      using row by (auto simp: rotated(3,4) put_row_def set_update_where intro!: rev_image_eqI)
    then have "r1 \<in> set (refresh_sessions d3)"
      using created(1) by (auto simp: create_refresh_session_def split: if_splits)
    then have "r1\<lparr>rs_replaced_by_session_id := Some (dr_session dr)\<rparr> \<in> set (refresh_sessions d')"
      by (auto simp: created(2) replace_session_def put_row_def set_update_where intro!: rev_image_eqI)
    then show ?thesis unfolding spent_def by (rule rev_bexI) (simp add: row rotated(3))
  qed
  moreover obtain token where "refresh_cookie s h = Some token" using rotated(1) by (auto simp: truthy_def split: option.splits)
  ultimately show ?thesis using that cl by simp
qed simp_all

text \<open>A spent token is refused, and using it while its session version is current ends every session of the user.\<close>

lemma spent_refused:
  assumes "refresh rsa c s dr clk h rq d = (res, d')" and "sessions_inv d" and "refresh_cookie s h = Some token" and "token \<noteq> []"
    and "decode_token rsa s ''refresh'' None (clk 0) token = Inr claims" and "user_of_claims claims d = Inr u"
    and "spent (u_id u) (hash_text c (the (js_str (map_of claims ''jti'')))) d"
  shows "res = Inl AuthenticationError"
    and "d' = refresh_failed rq (bump_session_version u (revoke_refresh_sessions (u_id u) ''replay_detected'' (clk 1) d))"
proof -
  define hj where "hj = hash_text c (the (js_str (map_of claims ''jti'')))"
  obtain x where x: "x \<in> set (refresh_sessions d)" "rs_user_id x = u_id u" "rs_jti_hash x = hj" "rs_revoked_at x \<noteq> None"
    using assms(7) by (auto simp: spent_def hj_def)
  obtain r where r: "scalar (\<lambda>r. rs_user_id r = u_id u \<and> rs_jti_hash r = hj) (refresh_sessions d) = Some r"
    using x scalar_None by (metis (mono_tags, lifting) not_None_eq)
  then have "r = x" using scalar_Some[OF r] x assms(2) by (auto simp: sessions_inv_def distinct_map dest: inj_onD)
  then have "user_from_refresh_token rsa c s clk token d =
    (Inl AuthenticationError, bump_session_version u (revoke_refresh_sessions (u_id u) ''replay_detected'' (clk 1) d))"
    using r x(4) assms(5,6) by (simp add: user_from_refresh_token_def hj_def Let_def)
  then show "res = Inl AuthenticationError"
    "d' = refresh_failed rq (bump_session_version u (revoke_refresh_sessions (u_id u) ''replay_detected'' (clk 1) d))"
    using assms(1,3,4) by (auto simp: refresh_def)
qed

section \<open>Sequences of requests\<close>

datatype session_op =
    OpRegister draws "nat \<Rightarrow> time" "exn + unit" register_request request
  | OpLogin draws "nat \<Rightarrow> time" "exn + unit" login_request request
  | OpRefresh draws "nat \<Rightarrow> time" http request
  | OpLogout "nat \<Rightarrow> time" http request

text \<open>The result names the refresh token a successful refresh consumed.\<close>

fun exec_session :: "rsa \<Rightarrow> crypto \<Rightarrow> settings \<Rightarrow> session_op \<Rightarrow> db \<Rightarrow> string option \<times> db" where
  "exec_session rsa c s (OpRegister dr clk rl p rq) d = (None, snd (register rsa c s dr clk rl id p rq d))"
| "exec_session rsa c s (OpLogin dr clk rl p rq) d = (None, snd (login rsa c s dr clk rl p rq d))"
| "exec_session rsa c s (OpRefresh dr clk h rq) d =
     (case refresh rsa c s dr clk h rq d of (Inl _, d') \<Rightarrow> (None, d') | (Inr _, d') \<Rightarrow> (refresh_cookie s h, d'))"
| "exec_session rsa c s (OpLogout clk h rq) d =
     (case get_current_user rsa s (clk 0) h d of Inl _ \<Rightarrow> (None, d) | Inr u \<Rightarrow> (None, snd (logout s (clk 1) u rq d)))"

fun refreshed :: "rsa \<Rightarrow> crypto \<Rightarrow> settings \<Rightarrow> session_op list \<Rightarrow> db \<Rightarrow> string list" where
  "refreshed rsa c s [] d = []"
| "refreshed rsa c s (op # ops) d =
     (case exec_session rsa c s op d of
        (None, d') \<Rightarrow> refreshed rsa c s ops d'
      | (Some token, d') \<Rightarrow> token # refreshed rsa c s ops d')"

lemma exec_session_step: "exec_session rsa c s op d = (t, d') \<Longrightarrow> session_step d d'"
proof (cases op)
  case (OpRegister dr clk rl p rq)
  assume "exec_session rsa c s op d = (t, d')"
  then show ?thesis using session_step_register[of rsa c s dr clk rl id p rq d] OpRegister by (auto simp: prod_eq_iff)
next
  case (OpLogin dr clk rl p rq)
  assume "exec_session rsa c s op d = (t, d')"
  then show ?thesis using session_step_login[of rsa c s dr clk rl p rq d] OpLogin by (auto simp: prod_eq_iff)
next
  case (OpRefresh dr clk h rq)
  assume "exec_session rsa c s op d = (t, d')"
  then show ?thesis using session_step_refresh[of rsa c s dr clk h rq d] OpRefresh by (auto split: prod.splits sum.splits)
next
  case (OpLogout clk h rq)
  assume "exec_session rsa c s op d = (t, d')"
  then show ?thesis using session_step_logout OpLogout by (auto split: sum.splits)
qed

definition token_spent :: "rsa \<Rightarrow> crypto \<Rightarrow> settings \<Rightarrow> string \<Rightarrow> db \<Rightarrow> bool" where
  "token_spent rsa c s token d \<longleftrightarrow>
     (\<exists>now claims i. decode_token rsa s ''refresh'' None now token = Inr claims \<and>
        parse_uuid (the (js_str (map_of claims ''sub''))) = Some i \<and>
        spent i (hash_text c (the (js_str (map_of claims ''jti'')))) d)"

lemma exec_refreshed:
  assumes "exec_session rsa c s op d = (Some token, d')" and "sessions_inv d"
  shows "\<not> token_spent rsa c s token d" and "token_spent rsa c s token d'"
proof -
  obtain dr clk h rq x where r: "refresh rsa c s dr clk h rq d = (Inr x, d')" "refresh_cookie s h = Some token"
    using assms(1) by (cases op) (auto split: prod.splits sum.splits)
  from refresh_spends[OF r(1) assms(2)] r(2) obtain claims u where
    c: "decode_token rsa s ''refresh'' None (clk 0) token = Inr claims" "user_of_claims claims d = Inr u"
    "\<not> spent (u_id u) (hash_text c (the (js_str (map_of claims ''jti'')))) d"
    "spent (u_id u) (hash_text c (the (js_str (map_of claims ''jti'')))) d'" by (metis option.inject)
  note u = user_of_claims_Inr(4)[OF c(2)]
  show "token_spent rsa c s token d'" using c(1,4) u by (auto simp: token_spent_def)
  show "\<not> token_spent rsa c s token d" using c(1,3) u by (auto simp: token_spent_def dest: decode_token_claims)
qed

lemma spent_not_refreshed:
  "sessions_inv d \<Longrightarrow> token_spent rsa c s token d \<Longrightarrow> token \<notin> set (refreshed rsa c s ops d)"
proof (induction ops arbitrary: d)
  case (Cons op ops)
  obtain t d' where e: "exec_session rsa c s op d = (t, d')" by fastforce
  have "sessions_inv d'" using exec_session_step[OF e] Cons.prems by (simp add: session_step_def)
  moreover have "token_spent rsa c s token d'"
    using exec_session_step[OF e] Cons.prems unfolding session_step_def token_spent_def by blast
  ultimately have "token \<notin> set (refreshed rsa c s ops d')" by (rule Cons.IH)
  moreover have "t \<noteq> Some token" using exec_refreshed(1) e Cons.prems by blast
  ultimately show ?case using e by (auto split: option.splits)
qed simp

section \<open>Session versions\<close>

lemma by_key_bumped:
  assumes "by_key u_id (u_id u) (users d) = Some u"
    and "users d' = put_row u_id (u\<lparr>u_session_version := u_session_version u + 1\<rparr>) (users d)"
  shows "by_key u_id (u_id u) (users d') = Some (u\<lparr>u_session_version := u_session_version u + 1\<rparr>)"
  using assms by (simp add: by_key_put_row)

lemma bumped_rejects:
  assumes "user_of_claims claims d = Inr u"
    and "users d' = put_row u_id (u\<lparr>u_session_version := u_session_version u + 1\<rparr>) (users d)"
  shows "user_of_claims claims d' = Inl AuthenticationError"
  using user_of_claims_Inr[OF assms(1)] by_key_bumped[OF user_of_claims_Inr(1)[OF assms(1)] assms(2)]
  by (simp add: user_of_claims_def)

lemma extract_token_error: "extract_token s h = Inl e \<Longrightarrow> e = AuthenticationError"
  by (auto simp: extract_token_def Let_def split: if_splits)

lemma bumped_signed_out:
  assumes "get_current_user rsa s now h d = Inr u"
    and "users d' = put_row u_id (u\<lparr>u_session_version := u_session_version u + 1\<rparr>) (users d)"
  shows "get_current_user rsa s now' h d' = Inl AuthenticationError"
proof -
  from assms(1) obtain token claims where t: "extract_token s h = Inr token"
    "decode_token rsa s ''access'' None now token = Inr claims" "user_of_claims claims d = Inr u"
    by (auto simp: get_current_user_def split: sum.splits)
  show ?thesis
  proof (cases "decode_token rsa s ''access'' None now' token")
    case (Inl e)
    then show ?thesis using t(1) decode_token_error[OF Inl] by (simp add: get_current_user_def)
  next
    case (Inr claims')
    then show ?thesis using t(1) decode_token_claims[OF t(2) Inr] bumped_rejects[OF t(3) assms(2)]
      by (simp add: get_current_user_def)
  qed
qed

lemma revoked_all:
  assumes "r \<in> set (refresh_sessions (revoke_refresh_sessions i why now d))" and "rs_user_id r = i"
  shows "rs_revoked_at r \<noteq> None"
  using assms by (simp add: revoke_refresh_sessions_def set_update_where) (elim disjE imageE; simp)

section \<open>Properties\<close>



text \<open>
  Logging out ends every session of the user: every refresh session is revoked, and every access or
  refresh token that was accepted for this user before the logout is refused after it, at any time.
\<close>

theorem logout_ends_sessions:
  assumes "get_current_user rsa s now h d = Inr u" and "logout s t u rq d = (cookies, d')"
  shows "(\<forall>r \<in> set (refresh_sessions d'). rs_user_id r = u_id u \<longrightarrow> rs_revoked_at r \<noteq> None) \<and>
    (\<forall>now0 now' h'. get_current_user rsa s now0 h' d = Inr u \<longrightarrow> get_current_user rsa s now' h' d' = Inl AuthenticationError) \<and>
    (\<forall>clk clk' token x. user_from_refresh_token rsa c s clk token d = (Inr (u, x), d) \<longrightarrow>
      fst (user_from_refresh_token rsa c s clk' token d') = Inl AuthenticationError)"
proof -
  have d': "d' = bump_session_version u (revoke_refresh_sessions (u_id u) ''logout'' t
      (write_audit_event rq A_USER_LOGOUT (Some (u_id u)) (Some (u_email u)) (Some ''user'') (Some (u_id u)) None None d))"
    using assms(2) by (simp add: logout_def)
  have users: "users d' = put_row u_id (u\<lparr>u_session_version := u_session_version u + 1\<rparr>) (users d)"
    unfolding d' by simp
  have "\<forall>x \<in> set (refresh_sessions d'). rs_user_id x = u_id u \<longrightarrow> rs_revoked_at x \<noteq> None"
    unfolding d' by (auto dest: revoked_all)
  moreover have "fst (user_from_refresh_token rsa c s clk' token d') = Inl AuthenticationError"
    if r: "user_from_refresh_token rsa c s clk token d = (Inr (u, x), d)" for clk clk' token x
  proof -
    from user_from_refresh_token_Inr(5)[OF r] obtain claims where
      cl: "decode_token rsa s ''refresh'' None (clk 0) token = Inr claims" "user_of_claims claims d = Inr u" by blast
    show ?thesis
    proof (cases "decode_token rsa s ''refresh'' None (clk' 0) token")
      case (Inl e)
      then show ?thesis using decode_token_error[OF Inl] by (simp add: user_from_refresh_token_def)
    next
      case (Inr claims')
      then show ?thesis using decode_token_claims[OF cl(1) Inr] bumped_rejects[OF cl(2) users]
        by (simp add: user_from_refresh_token_def)
    qed
  qed
  ultimately show ?thesis using bumped_signed_out[OF _ users] by blast
qed

lemma login_success:
  assumes "login rsa c s dr clk rl p rq d = (Inr (pub, cs), d')"
  obtains u d1 where "scalar (\<lambda>u. u_email u = py_lower (lg_email p)) (users d) = Some u"
    "verify_password c (lg_password p) (u_password_hash u)" "u_is_active u"
    "require_mfa_for_login c s clk u (lg_mfa_code p) rq d = (Inr (), d1)"
    "start_session rsa c s dr clk u (team_ids u d1)
       (write_audit_event rq A_USER_LOGIN_SUCCEEDED (Some (u_id u)) (Some (u_email u)) (Some ''user'')
         (Some (u_id u)) None None) rq d d1 = (Inr cs, d')" "pub = user_public_of u d'"
proof -
  obtain r d0 where cr: "check_credentials c p rq d = (r, d0)" by fastforce
  obtain u where u: "r = Inr u" using assms cr by (cases r) (auto simp: login_def split: sum.splits)
  note f = check_credentials_frame(4)[OF cr u]
  obtain m d1 where mf: "require_mfa_for_login c s clk u (lg_mfa_code p) rq d = (m, d1)" by fastforce
  have m: "m = Inr ()" using assms cr u mf f by (cases m) (auto simp: login_def split: sum.splits)
  show ?thesis using that[of u d1] assms cr u mf m f
    by (auto simp: login_def split: prod.splits sum.splits)
qed

lemma access_token_authenticates:
  assumes "rsa_laws rsa" and "by_key u_id (u_id u) (users d) = Some u" and "u_is_active u" and "u_id u < 2 ^ 128"
    and "token = create_access_token rsa s (u_id u) (u_role u) (u_session_version u) ids fresh issued"
    and "length token \<le> MAX_JWT_BYTES" and "epoch_seconds now < epoch_seconds (issued + seconds (60 * access_token_expire_minutes s))"
    and "extract_token s h = Inr token"
  shows "get_current_user rsa s now h d = Inr u"
proof -
  define claims where "claims = build_claims s (u_id u) (u_role u) ids (u_session_version u) ''access''
    (seconds (60 * access_token_expire_minutes s)) (uuid_str fresh) issued"
  have tok: "token = encode_rs256 rsa s claims" by (simp add: assms(5) create_access_token_def claims_def)
  obtain x where x: "decode_token rsa s ''access'' None now token = Inr x" "\<forall>k. map_of x k = map_of claims k"
    using decode_minted[OF assms(1) _ claims_def _ assms(7)] assms(6) by (auto simp: tok)
  have "user_of_claims x d = Inr u"
    using assms(2-4) x(2) by (simp add: user_of_claims_def claims_def build_claims_def parse_uuid_str)
  then show ?thesis using assms(8) x(1) by (simp add: get_current_user_def)
qed

text \<open>
  C24: Logging in takes the password and the second factor, and signs in. A login succeeds only for an active
  user whose password verifies and who passed the MFA challenge where MFA is on; it adds one refresh
  session, and it sets the access cookie (httpOnly), with which, while the token lives and fits the size
  limit, every request of a browser is authenticated as that user.
\<close>

theorem login_authenticates:
  assumes "login rsa c s dr clk rl p rq d = (Inr (pub, cs), d')" and "rsa_laws rsa" and "distinct (map u_id (users d))"
  shows "\<exists>u token row. scalar (\<lambda>u. u_email u = py_lower (lg_email p)) (users d) = Some u \<and>
    verify_password c (lg_password p) (u_password_hash u) \<and> u_is_active u \<and>
    fst (require_mfa_for_login c s clk u (lg_mfa_code p) rq d) = Inr () \<and>
    refresh_sessions d' = refresh_sessions d @ [row] \<and> rs_user_id row = u_id u \<and> rs_revoked_at row = None \<and>
    set_one s (wire_name s (cookie_access_name s)) token (access_token_expire_minutes s * 60) ''/'' \<in> set cs \<and>
    (\<forall>now h. u_id u < 2 ^ 128 \<and> length token \<le> MAX_JWT_BYTES \<and>
      epoch_seconds now < epoch_seconds (clk 2 + seconds (60 * access_token_expire_minutes s)) \<and>
      cookie h (wire_name s (cookie_access_name s)) = Some token \<and> hx_authorization h = None \<and>
      (\<forall>n \<in> {cookie_access_name s, host_prefixed (cookie_access_name s)}. n \<noteq> wire_name s (cookie_access_name s) \<longrightarrow> cookie h n = None) \<longrightarrow>
      get_current_user rsa s now h d' = Inr u)"
proof -
  from login_success[OF assms(1)] obtain u d1 where l:
    "scalar (\<lambda>u. u_email u = py_lower (lg_email p)) (users d) = Some u"
    "verify_password c (lg_password p) (u_password_hash u)" "u_is_active u"
    "require_mfa_for_login c s clk u (lg_mfa_code p) rq d = (Inr (), d1)"
    "start_session rsa c s dr clk u (team_ids u d1)
       (write_audit_event rq A_USER_LOGIN_SUCCEEDED (Some (u_id u)) (Some (u_email u)) (Some ''user'')
         (Some (u_id u)) None None) rq d d1 = (Inr cs, d')" by blast
  note m = mfa_tables[OF l(4)]
  define token where "token = create_access_token rsa s (u_id u) (u_role u) (u_session_version u) (team_ids u d1) (dr_access_jti dr) (clk 2)"
  from l(5) obtain row where row: "refresh_sessions d' = refresh_sessions d @ [row]" "rs_user_id row = u_id u"
    "rs_revoked_at row = None" "users d' = users d" and cs: "Inr cs = session_cookies c s dr (clk 5) (issue_tokens rsa s dr clk u (team_ids u d1))"
  proof (cases rule: start_session_cases)
    case (created d2)
    then show ?thesis using that m by (auto simp: create_refresh_session_def split: if_splits)
  qed simp
  have ck: "set_one s (wire_name s (cookie_access_name s)) token (access_token_expire_minutes s * 60) ''/'' \<in> set cs"
    using cs by (auto simp: session_cookies_def set_auth_cookies_def issue_tokens_def token_def Let_def split: sum.splits)
  have ne: "token \<noteq> []" by (simp add: token_def create_access_token_def encode_rs256_def Let_def)
  have ex: "extract_token s h = Inr token"
    if "cookie h (wire_name s (cookie_access_name s)) = Some token" "hx_authorization h = None"
      "\<forall>n \<in> {cookie_access_name s, host_prefixed (cookie_access_name s)}. n \<noteq> wire_name s (cookie_access_name s) \<longrightarrow> cookie h n = None" for h
    using that ne by (auto simp: extract_token_def wire_name_def str_or_def Let_def starts_with_def py_lower_def
        host_prefixed_def split: if_splits)
  have "by_key u_id (u_id u) (users d') = Some u"
    unfolding row(4) using by_key_mem[OF assms(3)] scalar_Some[OF l(1)] by blast
  then show ?thesis
    using l(1-4) row(1-3) ck access_token_authenticates[OF assms(2) _ l(3) _ token_def] ex
    by (intro exI[of _ u] exI[of _ token] exI[of _ row]) auto
qed

lemma insert_user_success:
  assumes "insert_user rsa c s dr clk u rq d = (Inr (u', cs), d')"
  shows "u' = u" and "users d' = users d @ [u]" and "u_email u \<notin> u_email ` set (users d)" and "u_id u \<notin> u_id ` set (users d)"
proof -
  have free: "\<not> (u_email u \<in> u_email ` set (users d) \<or> u_id u \<in> u_id ` set (users d))"
    using assms by (auto simp: insert_user_def split: if_splits)
  then show "u_email u \<notin> u_email ` set (users d)" "u_id u \<notin> u_id ` set (users d)" by simp_all
  from assms free obtain r where st: "start_session rsa c s dr clk u [] (write_audit_event rq A_USER_REGISTER_SUCCEEDED (Some (u_id u))
      (Some (u_email u)) (Some ''user'') (Some (u_id u)) None (Some [(''role'', JStr (user_role_value (u_role u)))]))
      rq d (d\<lparr>users := users d @ [u]\<rparr>) = (Inr r, d')" and "u' = u"
    by (auto simp: insert_user_def split: prod.splits sum.splits)
  then show "u' = u" by simp
  from st show "users d' = users d @ [u]"
    by (cases rule: start_session_cases) (auto simp: create_refresh_session_def split: if_splits)
qed

text \<open>
  Registration respects the gate and the unique address. Whatever other transactions commit meanwhile, a
  successful registration passed the deployment's gate, appends exactly one user with the lower-cased
  address, unverified, whose password verifies, and keeps addresses and ids unique.
\<close>

theorem register_admits:
  assumes "register rsa c s dr clk rl itf p rq d = (Inr (u, cs), d')"
    and "distinct (map u_email (users (itf d)))" and "distinct (map u_id (users (itf d)))"
    and "\<And>pw salt. bcrypt_checkpw c pw (bcrypt_hashpw c pw salt) = Some True"
  shows "registration_mode s \<noteq> ''disabled'' \<and>
    (registration_mode s = ''invite_only'' \<longrightarrow> (\<exists>v. rg_invite_code p = Some v \<and> py_strip v \<in> set (registration_invite_codes s))) \<and>
    (registration_mode s = ''allowlist'' \<longrightarrow> py_lower (py_strip (py_lower (rg_email p))) \<in> set (registration_email_allowlist s)) \<and>
    users d' = users (itf d) @ [u] \<and> u_email u = py_lower (rg_email p) \<and> u_role u = rg_role p \<and> \<not> u_is_verified u \<and>
    verify_password c (rg_password p) (u_password_hash u) \<and>
    distinct (map u_email (users d')) \<and> distinct (map u_id (users d'))"
proof -
  from assms(1) obtain ph where ph: "enforce_registration_gate s p = None" "hash_password c (dr_salt dr) (rg_password p) = Inr ph"
    "insert_user rsa c s dr clk (new_user (dr_user dr) p ph (clk 0)) rq (itf d) = (Inr (u, cs), d')"
    by (auto simp: register_def Let_def split: sum.splits option.splits if_splits)
  note i = insert_user_success[OF ph(3)]
  have u: "u = new_user (dr_user dr) p ph (clk 0)" using i(1) by simp
  have "verify_password c (rg_password p) ph"
    using ph(2) assms(4) by (auto simp: hash_password_def verify_password_def split: sum.splits)
  moreover have "registration_mode s \<noteq> ''disabled'' \<and>
    (registration_mode s = ''invite_only'' \<longrightarrow> (\<exists>v. rg_invite_code p = Some v \<and> py_strip v \<in> set (registration_invite_codes s))) \<and>
    (registration_mode s = ''allowlist'' \<longrightarrow> py_lower (py_strip (py_lower (rg_email p))) \<in> set (registration_email_allowlist s))"
    using ph(1) unfolding enforce_registration_gate_def is_registration_disabled_def is_registration_invite_required_def
      is_valid_registration_invite_code_def is_registration_email_allowlisted_def
    by (auto split: if_splits option.splits)
  ultimately show ?thesis using i assms(2,3) by (simp add: u new_user_def)
qed

section \<open>Witnesses\<close>

definition session_coach :: user_row where
  "session_coach = sample_coach\<lparr>u_password_hash := ''$2b$Secret123''\<rparr>"

definition toy_draws :: draws where
  "toy_draws = \<lparr>dr_user = 60, dr_access_jti = 61, dr_refresh_jti = 62, dr_session = 63, dr_salt = [],
     dr_csrf_nonce = replicate 16 7\<rparr>"

definition toy_claims :: "string \<Rightarrow> claims" where
  "toy_claims ty = build_claims default_settings 4 UR_COACH [] 1 ty (days 1) (uuid_str 62) (seconds 1000)"

definition toy_token :: "string \<Rightarrow> string" where
  "toy_token ty = encode_rs256 toy_rsa default_settings (toy_claims ty)"

definition refresh_row_of :: "time option \<Rightarrow> refresh_row" where
  "refresh_row_of revoked = \<lparr>rs_id = 70, rs_user_id = 4, rs_jti_hash = hash_text toy_crypto (uuid_str 62),
     rs_expires_at = days 2, rs_revoked_at = revoked, rs_revoked_reason = None, rs_replaced_by_session_id = None,
     rs_ip_address = None, rs_user_agent = None, rs_created_at = 0\<rparr>"

definition session_db :: "time option \<Rightarrow> db" where
  "session_db revoked = sample_db\<lparr>users := [session_coach], refresh_sessions := [refresh_row_of revoked]\<rparr>"

definition toy_http :: http where
  "toy_http = \<lparr>hx_method = ''POST'', hx_path = ''/api/v1/auth/refresh'',
     hx_cookies = [(''nbu_access_token'', toy_token ''access''), (''nbu_refresh_token'', toy_token ''refresh'')],
     hx_authorization = None, hx_csrf_header = None, hx_request_id = None\<rparr>"

lemma toy_token_length:
  assumes "json_size (JsObj claims) \<le> 3000"
  shows "length (encode_rs256 toy_rsa default_settings claims) \<le> MAX_JWT_BYTES"
proof -
  let ?h = "[(''alg'', JsStr (jwt_algorithm default_settings)), (''typ'', JsStr ''JWT'')]"
  have c: "length (json_b64url_encode claims) \<le> 6002" using length_segment[of claims] assms by linarith
  have "json_size (JsObj ?h) \<le> 200" by (simp add: default_settings_def)
  then have h: "length (json_b64url_encode ?h) \<le> 402" using length_segment[of ?h] by linarith
  have g: "length (b64url_encode (rsa_sign toy_rsa m)) \<le> 4" for m
    using length_b64url_encode[of "rsa_sign toy_rsa m"] by (simp add: toy_rsa_def)
  have "length (encode_rs256 toy_rsa default_settings claims) = length (json_b64url_encode ?h) + 1 + length (json_b64url_encode claims) + 1 +
      length (b64url_encode (rsa_sign toy_rsa (json_b64url_encode ?h @ ''.'' @ json_b64url_encode claims)))"
    by (simp add: encode_rs256_def Let_def)
  also have "\<dots> \<le> 402 + 1 + 6002 + 1 + 4" by (intro add_mono h c g order_refl)
  finally show ?thesis by (simp add: MAX_JWT_BYTES_def)
qed

lemma toy_decodes:
  assumes "ty \<in> {''access'', ''refresh''}"
  obtains claims where "decode_token toy_rsa default_settings ty None (seconds 2000) (toy_token ty) = Inr claims"
    "user_of_claims claims (session_db r) = Inr session_coach" "js_str (map_of claims ''jti'') = Some (uuid_str 62)"
proof -
  have "length (int_str 1) \<le> 4" "length (int_str 1000) \<le> 4" "length (int_str 87400) \<le> 5"
    using length_nat_str[of 1 4] length_nat_str[of 1000 4] length_nat_str[of 87400 5] by (simp_all add: int_str_def)
  then have "json_size (JsObj (toy_claims ty)) \<le> 3000"
    using assms by (auto simp: toy_claims_def build_claims_def epoch_seconds_def default_settings_def)
  from toy_token_length[OF this] assms
  obtain claims where c: "decode_token toy_rsa default_settings ty None (seconds 2000) (toy_token ty) = Inr claims"
    "\<forall>k. map_of claims k = map_of (toy_claims ty) k"
    unfolding toy_token_def using decode_minted[OF toy_rsa.rsa_laws_axioms _ toy_claims_def, of ty "seconds 2000"]
    by (auto simp: epoch_seconds_def)
  have "user_of_claims claims (session_db r) = Inr session_coach"
    using c(2) by (simp add: user_of_claims_def toy_claims_def build_claims_def parse_uuid_str session_db_def
        session_coach_def sample_coach_def by_key_def)
  then show thesis using that c by (simp add: toy_claims_def build_claims_def)
qed

lemma toy_cookies:
  "refresh_cookie default_settings toy_http = Some (toy_token ''refresh'')" "toy_token ty \<noteq> []"
  "extract_token default_settings toy_http = Inr (toy_token ''access'')"
proof -
  have n: "cookie_access_name default_settings = ''nbu_access_token''" "cookie_refresh_name default_settings = ''nbu_refresh_token''"
    by (simp_all add: default_settings_def)
  show ne: "toy_token ty \<noteq> []" for ty by (simp add: toy_token_def encode_rs256_def Let_def)
  show "refresh_cookie default_settings toy_http = Some (toy_token ''refresh'')"
    "extract_token default_settings toy_http = Inr (toy_token ''access'')"
    using ne by (simp_all add: refresh_cookie_def extract_token_def toy_http_def n str_or_def host_prefixed_def
        starts_with_def py_lower_def Let_def)
qed

lemma toy_signed_in: "get_current_user toy_rsa default_settings (seconds 2000) toy_http (session_db r) = Inr session_coach"
  using toy_decodes[of "''access''" r] by (fastforce simp: get_current_user_def toy_cookies)

lemma toy_inv: "sessions_inv (session_db r)"
  by (simp add: sessions_inv_def session_db_def)

lemma distinct_filter_eq: "distinct xs \<Longrightarrow> length (filter (\<lambda>x. x = a) xs) \<le> 1"
  by (induction xs) (auto simp: filter_empty_conv)



theorem logout_ends_sessions_witness:
  "get_current_user toy_rsa default_settings (seconds 3000) toy_http
     (snd (logout default_settings (seconds 2000) session_coach sample_request (session_db None))) = Inl AuthenticationError"
  using logout_ends_sessions[OF toy_signed_in[of None], of "seconds 2000" sample_request] toy_signed_in[of None]
  by (metis surj_pair snd_conv)

definition toy_login :: login_request where
  "toy_login = \<lparr>lg_email = ''Coach@example.com'', lg_password = ''Secret123'', lg_mfa_code = None\<rparr>"

lemma toy_csrf: "\<exists>t. generate_csrf_token toy_crypto default_settings (dr_csrf_nonce toy_draws) (seconds 2000) = Inr t"
  by (simp add: generate_csrf_token_def csrf_sign_def epoch_seconds_def toy_draws_def)

lemma toy_starts:
  "\<exists>cs d'. start_session toy_rsa toy_crypto default_settings toy_draws (\<lambda>_. seconds 2000) u ids f sample_request d0
     (sample_db\<lparr>users := us\<rparr>) = (Inr cs, d')"
  using toy_csrf by (auto simp: start_session_def create_refresh_session_def session_cookies_def sample_db_def empty_db_def Let_def)

lemma toy_logs_in:
  "\<exists>pub cs d'. login toy_rsa toy_crypto default_settings toy_draws (\<lambda>_. seconds 2000) (Inr ()) toy_login sample_request
     (sample_db\<lparr>users := [session_coach]\<rparr>) = (Inr (pub, cs), d')"
proof -
  have e: "py_lower ''Coach@example.com'' = ''coach@example.com''" by code_simp
  have p: "verify_password toy_crypto ''Secret123'' ''$2b$Secret123''" by code_simp
  have "check_credentials toy_crypto toy_login sample_request (sample_db\<lparr>users := [session_coach]\<rparr>) =
      (Inr session_coach, sample_db\<lparr>users := [session_coach]\<rparr>)"
    using e p by (simp add: check_credentials_def toy_login_def session_coach_def sample_coach_def Let_def)
  moreover have "require_mfa_for_login toy_crypto default_settings (\<lambda>_. seconds 2000) session_coach None sample_request
      (sample_db\<lparr>users := [session_coach]\<rparr>) = (Inr (), sample_db\<lparr>users := [session_coach]\<rparr>)"
    by (simp add: require_mfa_for_login_def active_totp_def sample_db_def empty_db_def)
  moreover obtain cs d' where "start_session toy_rsa toy_crypto default_settings toy_draws (\<lambda>_. seconds 2000) session_coach
      (team_ids session_coach (sample_db\<lparr>users := [session_coach]\<rparr>))
      (write_audit_event sample_request A_USER_LOGIN_SUCCEEDED (Some (u_id session_coach)) (Some (u_email session_coach))
        (Some ''user'') (Some (u_id session_coach)) None None) sample_request
      (sample_db\<lparr>users := [session_coach]\<rparr>) (sample_db\<lparr>users := [session_coach]\<rparr>) = (Inr cs, d')"
    using toy_starts[where us = "[session_coach]"] by metis
  ultimately show ?thesis by (simp add: login_def) (simp add: toy_login_def)
qed

theorem login_authenticates_witness:
  "\<exists>(u :: user_row) pub cs d' token. login toy_rsa toy_crypto default_settings toy_draws (\<lambda>_. seconds 2000) (Inr ()) toy_login sample_request
      (sample_db\<lparr>users := [session_coach]\<rparr>) = (Inr (pub, cs), d') \<and>
    verify_password toy_crypto (lg_password toy_login) (u_password_hash u) \<and>
    set_one default_settings (wire_name default_settings (cookie_access_name default_settings)) token
      (access_token_expire_minutes default_settings * 60) ''/'' \<in> set cs"
proof -
  obtain pub cs d' where l: "login toy_rsa toy_crypto default_settings toy_draws (\<lambda>_. seconds 2000) (Inr ()) toy_login sample_request
      (sample_db\<lparr>users := [session_coach]\<rparr>) = (Inr (pub, cs), d')" using toy_logs_in by blast
  have "distinct (map u_id (users (sample_db\<lparr>users := [session_coach]\<rparr>)))" by simp
  from login_authenticates[OF l toy_rsa.rsa_laws_axioms this]
  obtain u :: user_row and token where "verify_password toy_crypto (lg_password toy_login) (u_password_hash u)"
    "set_one default_settings (wire_name default_settings (cookie_access_name default_settings)) token
      (access_token_expire_minutes default_settings * 60) ''/'' \<in> set cs" by (elim exE conjE) (rule that; assumption)
  with l show ?thesis by (intro exI conjI)
qed

definition toy_registration :: register_request where
  "toy_registration = \<lparr>rg_email = ''New@example.com'', rg_password = ''Secret123'', rg_full_name = ''New'', rg_role = UR_PLAYER,
     rg_phone = None, rg_institution = None, rg_invite_code = None\<rparr>"

theorem register_admits_witness:
  "\<exists>u cs d'. register toy_rsa toy_crypto default_settings toy_draws (\<lambda>_. seconds 2000) (Inr ()) id toy_registration sample_request
      sample_db = (Inr (u, cs), d') \<and> users d' = users sample_db @ [u] \<and> verify_password toy_crypto ''Secret123'' (u_password_hash u)"
proof -
  have e: "py_lower ''New@example.com'' = ''new@example.com''" by code_simp
  have "encode_password ''Secret123'' = Inr (ascii_encode ''Secret123'')" by code_simp
  then obtain ph where ph: "hash_password toy_crypto [] ''Secret123'' = Inr ph" by (simp add: hash_password_def)
  define n where "n = new_user 60 toy_registration ph (seconds 2000)"
  have n: "u_email n = ''new@example.com''" "u_id n = 60" using e by (simp_all add: n_def new_user_def toy_registration_def)
  have free: "scalar (\<lambda>u. u_email u = ''new@example.com'') (users sample_db) = None"
    "''new@example.com'' \<notin> u_email ` set (users sample_db)" "60 \<notin> u_id ` set (users sample_db)"
    by (simp_all add: sample_db_def sample_coach_def sample_player_def)
  obtain cs' d1 where "start_session toy_rsa toy_crypto default_settings toy_draws (\<lambda>_. seconds 2000) n []
      (write_audit_event sample_request A_USER_REGISTER_SUCCEEDED (Some (u_id n)) (Some (u_email n)) (Some ''user'')
        (Some (u_id n)) None (Some [(''role'', JStr (user_role_value (u_role n)))])) sample_request sample_db
      (sample_db\<lparr>users := users sample_db @ [n]\<rparr>) = (Inr cs', d1)"
    using toy_starts[where us = "users sample_db @ [n]"] by metis
  then have "insert_user toy_rsa toy_crypto default_settings toy_draws (\<lambda>_. seconds 2000) n sample_request sample_db = (Inr (n, cs'), d1)"
    using free(2,3) by (simp add: insert_user_def n)
  moreover have "enforce_registration_gate default_settings toy_registration = None" by code_simp
  ultimately obtain u cs d' where r: "register toy_rsa toy_crypto default_settings toy_draws (\<lambda>_. seconds 2000) (Inr ()) id
      toy_registration sample_request sample_db = (Inr (u, cs), d')"
    using e ph free(1) unfolding n_def by (auto simp: register_def toy_draws_def toy_registration_def)
  have ids: "distinct (map u_email (users (id sample_db)))" "distinct (map u_id (users (id sample_db)))"
    by (simp_all add: sample_db_def sample_coach_def sample_player_def)
  have "bcrypt_checkpw toy_crypto pw (bcrypt_hashpw toy_crypto pw salt) = Some True" for pw salt
    by (simp add: toy_crypto_def)
  from register_admits[OF r ids this] r show ?thesis by (auto simp: toy_registration_def)
qed

end
