(* ===== verification/Accounts.thy ===== *)
theory Accounts
  imports Sessions
begin

text \<open>
  The rest of \<open>routers/auth.py\<close>: password reset, email verification, export and deletion of the account, with
  \<open>password_reset.py\<close>, \<open>email_verification.py\<close> and the provider choice of \<open>email_delivery.py\<close>. Both kinds of
  emailed token live in tables with the same discipline, stated once in the locale \<open>token_table\<close> and
  interpreted on both. The raw token of a link (\<open>secrets.token_urlsafe(32)\<close>) is an argument, as is \<open>mail\<close>, what the transport
  of a provider answers to a message; \<open>clk i\<close> is the clock at the \<open>i\<close>-th reading. Setting the RLS variables is not modelled.
\<close>

section \<open>Email\<close>

record email_message =
  em_to_address :: string
  em_subject :: string
  em_body_plaintext :: string
  em_link_url :: string
  em_template_id :: string
  em_metadata :: "(string \<times> string) list"

datatype email_provider =
    NoopProvider
  | LoggingProvider
  | PostmarkProvider string string string
  | RegisteredProvider string

definition ends_with :: "string \<Rightarrow> string \<Rightarrow> bool" where
  "ends_with t p = (length p \<le> length t \<and> drop (length t - length p) t = p)"

definition postmark_provider :: "string option \<Rightarrow> string \<Rightarrow> string \<Rightarrow> exn + email_provider" where
  "postmark_provider token sender stream =
     (let token = py_strip (case token of None \<Rightarrow> [] | Some t \<Rightarrow> t);
          sender = py_strip sender; stream = py_strip stream
      in if token = [] then Inl (RuntimeError ''POSTMARK_SERVER_TOKEN must be configured for Postmark delivery'')
         else if sender = [] \<or> ends_with sender ''.invalid''
         then Inl (RuntimeError ''EMAIL_VERIFICATION_FROM_ADDRESS must be a verified sender for Postmark delivery'')
         else if stream = [] then Inl (RuntimeError ''POSTMARK_MESSAGE_STREAM must be configured for Postmark delivery'')
         else Inr (PostmarkProvider token sender stream))"

text \<open>\<open>registered\<close>: the names a deployment added by \<open>register_email_provider\<close>.\<close>

definition get_email_provider :: "string list \<Rightarrow> settings \<Rightarrow> exn + email_provider" where
  "get_email_provider registered s =
     (let name = email_delivery_provider s
      in if name \<in> set registered then Inr (RegisteredProvider name)
         else if name = ''logging'' then Inr LoggingProvider
         else if name = ''noop'' then Inr NoopProvider
         else if name = ''postmark''
         then postmark_provider (postmark_server_token s) (email_verification_from_address s) (postmark_message_stream s)
         else Inl (RuntimeError ''No email delivery provider registered''))"

definition send_email :: "string list \<Rightarrow> (email_provider \<Rightarrow> email_message \<Rightarrow> exn + unit) \<Rightarrow> settings \<Rightarrow> email_message \<Rightarrow> exn + unit" where
  "send_email registered mail s m =
     (case get_email_provider registered s of
        Inl e \<Rightarrow> Inl e
      | Inr NoopProvider \<Rightarrow> Inr ()
      | Inr p \<Rightarrow> mail p m)"

definition verification_message :: "settings \<Rightarrow> user_row \<Rightarrow> string \<Rightarrow> email_message" where
  "verification_message s u raw_token =
     (let link = email_verification_link s raw_token
      in \<lparr>em_to_address = u_email u, em_subject = ''Verify your NextBallUp email'',
          em_body_plaintext = ''Hi '' @ u_full_name u @ '',\<newline>\<newline>'' @
            ''Confirm your NextBallUp email by visiting:\<newline>  '' @ link @ ''\<newline>\<newline>'' @
            ''This link expires in '' @ int_str (email_verification_token_ttl_minutes s) @ '' minutes '' @
            ''and can only be used once.\<newline>\<newline>'' @
            ''If you did not request verification, you can ignore this email.\<newline>'',
          em_link_url = link, em_template_id = ''email.verification.v1'',
          em_metadata = [(''user_id'', uuid_str (u_id u)), (''from'', email_verification_from_address s)]\<rparr>)"

definition password_reset_message :: "settings \<Rightarrow> user_row \<Rightarrow> string \<Rightarrow> email_message" where
  "password_reset_message s u raw_token =
     (let link = password_reset_link s raw_token
      in \<lparr>em_to_address = u_email u, em_subject = ''Reset your NextBallUp password'',
          em_body_plaintext = ''Hi '' @ u_full_name u @ '',\<newline>\<newline>'' @
            ''Reset your NextBallUp password by visiting:\<newline>  '' @ link @ ''\<newline>\<newline>'' @
            ''This link expires in '' @ int_str (password_reset_token_ttl_minutes s) @ '' minutes '' @
            ''and can only be used once.\<newline>\<newline>'' @
            ''If you did not request a password reset, you can ignore this email.\<newline>'',
          em_link_url = link, em_template_id = ''auth.password_reset.v1'',
          em_metadata = [(''user_id'', uuid_str (u_id u))]\<rparr>)"

section \<open>Password reset tokens\<close>

definition supersede_reset_tokens :: "uuid \<Rightarrow> time \<Rightarrow> db \<Rightarrow> db" where
  "supersede_reset_tokens user_id now d =
     d\<lparr>reset_tokens := update_where (\<lambda>t. pr_user_id t = user_id \<and> pr_used_at t = None)
        (\<lambda>t. t\<lparr>pr_used_at := Some now\<rparr>) (reset_tokens d)\<rparr>"

definition issue_password_reset_token ::
  "crypto \<Rightarrow> settings \<Rightarrow> string \<Rightarrow> uuid \<Rightarrow> (nat \<Rightarrow> time) \<Rightarrow> user_row \<Rightarrow> request \<Rightarrow> db \<Rightarrow> exn + reset_token_row \<times> db" where
  "issue_password_reset_token c s raw_token fresh clk u rq d =
     (case by_key u_id (u_id u) (users d) of
        None \<Rightarrow> Inl (ValueError ''Cannot issue a password reset token for an inactive user'')
      | Some locked \<Rightarrow>
          if \<not> u_is_active locked then Inl (ValueError ''Cannot issue a password reset token for an inactive user'')
          else
            let now = clk 1; h = hash_text c raw_token; d1 = supersede_reset_tokens (u_id locked) now d;
                r = \<lparr>pr_id = fresh, pr_user_id = u_id locked, pr_token_hash = h,
                     pr_expires_at = now + seconds (60 * password_reset_token_ttl_minutes s), pr_used_at = None,
                     pr_requested_ip = rq_client_ip rq, pr_requested_user_agent = audit_user_agent rq,
                     pr_reset_ip = None, pr_created_at = clk 0\<rparr>
            in if fresh \<in> pr_id ` set (reset_tokens d1) \<or> h \<in> pr_token_hash ` set (reset_tokens d1) then Inl integrity_error
               else Inr (r, d1\<lparr>reset_tokens := reset_tokens d1 @ [r]\<rparr>))"

text \<open>The result is the user and the stamped token, or the reason of the failure.\<close>

definition consume_password_reset_token ::
  "crypto \<Rightarrow> time \<Rightarrow> string \<Rightarrow> request \<Rightarrow> db \<Rightarrow> (string + user_row \<times> reset_token_row) \<times> db" where
  "consume_password_reset_token c now raw_token rq d =
     (if raw_token = [] \<or> length raw_token > 256 then (Inl ''invalid'', d)
      else
        (case scalar (\<lambda>t. pr_token_hash t = hash_text c raw_token) (reset_tokens d) of
           None \<Rightarrow> (Inl ''invalid'', d)
         | Some t \<Rightarrow>
             let stamped = (\<lambda>t. d\<lparr>reset_tokens := put_row pr_id t (reset_tokens d)\<rparr>)
             in if pr_used_at t \<noteq> None then (Inl ''used'', d)
                else if pr_expires_at t \<le> now then (Inl ''expired'', d)
                else
                  (case by_key u_id (pr_user_id t) (users d) of
                     None \<Rightarrow> (Inl ''invalid'', stamped (t\<lparr>pr_used_at := Some now\<rparr>))
                   | Some u \<Rightarrow>
                       if \<not> u_is_active u then (Inl ''invalid'', stamped (t\<lparr>pr_used_at := Some now\<rparr>))
                       else
                         let t1 = t\<lparr>pr_used_at := Some now, pr_reset_ip := rq_client_ip rq\<rparr>
                         in (Inr (u, t1), stamped t1))))"

text \<open>
  \<open>POST /auth/password/forgot\<close>. Everything after the first commit happens in a second transaction, whose
  outcome does not show in the answer.
\<close>

definition mark_reset_undelivered :: "uuid \<Rightarrow> time \<Rightarrow> db \<Rightarrow> db" where
  "mark_reset_undelivered i now d =
     d\<lparr>reset_tokens := update_where (\<lambda>t. pr_id t = i \<and> pr_used_at t = None) (\<lambda>t. t\<lparr>pr_used_at := Some now\<rparr>) (reset_tokens d)\<rparr>"

definition deliver_reset ::
  "string list \<Rightarrow> (email_provider \<Rightarrow> email_message \<Rightarrow> exn + unit) \<Rightarrow> settings \<Rightarrow> time \<Rightarrow> user_row \<Rightarrow> string \<Rightarrow> uuid \<Rightarrow> request \<Rightarrow> db \<Rightarrow> db" where
  "deliver_reset registered mail s now u raw_token token_id rq d =
     (case send_email registered mail s (password_reset_message s u raw_token) of
        Inr _ \<Rightarrow>
          write_audit rq A_USER_PASSWORD_RESET_SENT u ''password_reset_token'' (Some token_id) None
            [(''provider'', JStr (email_delivery_provider s))] d
      | Inl _ \<Rightarrow>
          write_audit rq A_USER_PASSWORD_RESET_REJECTED u ''password_reset_token'' (Some token_id) None
            [(''reason'', JStr ''delivery_failed''), (''provider'', JStr (email_delivery_provider s))]
            (mark_reset_undelivered token_id now d))"

definition request_password_reset ::
  "crypto \<Rightarrow> string list \<Rightarrow> (email_provider \<Rightarrow> email_message \<Rightarrow> exn + unit) \<Rightarrow> settings \<Rightarrow> string \<Rightarrow> uuid \<Rightarrow> (nat \<Rightarrow> time) \<Rightarrow>
   exn + unit \<Rightarrow> string \<Rightarrow> request \<Rightarrow> db \<Rightarrow> (exn + time \<times> string) \<times> db" where
  "request_password_reset c registered mail s raw_token fresh clk rl email rq d =
     (let email_normalized = py_lower email; answer = Inr (clk 0, email_delivery_provider s)
      in case rl of
           Inl e \<Rightarrow> (Inl e, d)
         | Inr _ \<Rightarrow>
             (case scalar (\<lambda>u. u_email u = email_normalized) (users d) of
                None \<Rightarrow>
                  (answer, write_audit_event rq A_USER_PASSWORD_RESET_REQUESTED None (Some email_normalized) None None None
                     (Some [(''result'', JStr ''accepted'')]) d)
              | Some u \<Rightarrow>
                  if \<not> u_is_active u
                  then (answer, write_audit_event rq A_USER_PASSWORD_RESET_REQUESTED None (Some email_normalized) None None None
                          (Some [(''result'', JStr ''accepted'')]) d)
                  else
                    (case issue_password_reset_token c s raw_token fresh (\<lambda>i. clk (Suc i)) u rq d of
                       Inl e \<Rightarrow> (Inl e, d)
                     | Inr (t, d1) \<Rightarrow>
                         (answer,
                          deliver_reset registered mail s (clk 3) u raw_token (pr_id t) rq
                            (write_audit rq A_USER_PASSWORD_RESET_REQUESTED u ''password_reset_token'' (Some (pr_id t)) None
                              [(''expires_at'', JTime (pr_expires_at t)), (''provider'', JStr (email_delivery_provider s))] d1)))))"

section \<open>Choosing the new password\<close>

definition validate_password_reset :: "string \<Rightarrow> string \<Rightarrow> bool" where
  "validate_password_reset token new_password =
     (16 \<le> length token \<and> length token \<le> 256 \<and> length new_password \<le> 128 \<and> validate_password new_password)"

definition password_reset_error :: "string \<Rightarrow> exn" where
  "password_reset_error why =
     (if why = ''expired'' then AppError 400 E_PASSWORD_RESET_TOKEN_EXPIRED []
      else if why = ''used'' then AppError 409 E_PASSWORD_RESET_TOKEN_USED []
      else AppError 400 E_PASSWORD_RESET_TOKEN_INVALID [])"

definition set_new_password :: "string \<Rightarrow> time \<Rightarrow> time \<Rightarrow> user_row \<Rightarrow> request \<Rightarrow> db \<Rightarrow> db" where
  "set_new_password password_hash reset_at revoked_at u rq d =
     write_audit_event rq A_USER_PASSWORD_RESET_SUCCEEDED (Some (u_id u)) (Some (u_email u)) (Some ''user'') (Some (u_id u)) None None
       (supersede_reset_tokens (u_id u) reset_at
         (revoke_refresh_sessions (u_id u) ''password_reset'' revoked_at
           (put_user (u\<lparr>u_password_hash := password_hash, u_session_version := u_session_version u + 1\<rparr>) d)))"

definition reset_password ::
  "crypto \<Rightarrow> settings \<Rightarrow> bytes \<Rightarrow> (nat \<Rightarrow> time) \<Rightarrow> exn + unit \<Rightarrow> string \<Rightarrow> string \<Rightarrow> request \<Rightarrow> db \<Rightarrow>
   (exn + time \<times> cookie_op list) \<times> db" where
  "reset_password c s salt clk rl token new_password rq d =
     (case rl of
        Inl e \<Rightarrow> (Inl e, d)
      | Inr _ \<Rightarrow>
          (case consume_password_reset_token c (clk 0) token rq d of
             (Inl why, d1) \<Rightarrow>
               (Inl (password_reset_error why),
                write_audit_event rq A_USER_PASSWORD_RESET_REJECTED None None None None None (Some [(''reason'', JStr why)]) d1)
           | (Inr (u, t), d1) \<Rightarrow>
               (case hash_password c salt new_password of
                  Inl e \<Rightarrow> (Inl e, d)
                | Inr ph \<Rightarrow>
                    (Inr (clk 0, clear_auth_cookies s @ [clear_csrf_cookie s]),
                     set_new_password ph (clk 0) (clk 1) u rq d1))))"

definition me :: "user_row \<Rightarrow> db \<Rightarrow> user_public" where
  "me current_user d = user_public_of current_user d"

section \<open>Email verification\<close>

definition supersede_email_tokens :: "uuid \<Rightarrow> time \<Rightarrow> db \<Rightarrow> db" where
  "supersede_email_tokens user_id now d =
     d\<lparr>email_tokens := update_where (\<lambda>t. ev_user_id t = user_id \<and> ev_used_at t = None)
        (\<lambda>t. t\<lparr>ev_used_at := Some now\<rparr>) (email_tokens d)\<rparr>"

definition issue_verification_token ::
  "crypto \<Rightarrow> settings \<Rightarrow> string \<Rightarrow> uuid \<Rightarrow> (nat \<Rightarrow> time) \<Rightarrow> user_row \<Rightarrow> request \<Rightarrow> db \<Rightarrow> exn + email_token_row \<times> db" where
  "issue_verification_token c s raw_token fresh clk u rq d =
     (let now = clk 1; h = hash_text c raw_token; d1 = supersede_email_tokens (u_id u) now d;
          r = \<lparr>ev_id = fresh, ev_user_id = u_id u, ev_token_hash = h,
               ev_expires_at = now + seconds (60 * email_verification_token_ttl_minutes s), ev_used_at = None,
               ev_requested_ip = rq_client_ip rq, ev_requested_user_agent = audit_user_agent rq,
               ev_confirmed_ip = None, ev_created_at = clk 0\<rparr>
      in if fresh \<in> ev_id ` set (email_tokens d1) \<or> h \<in> ev_token_hash ` set (email_tokens d1) then Inl integrity_error
         else Inr (r, d1\<lparr>email_tokens := email_tokens d1 @ [r]\<rparr>))"

definition mark_verification_undelivered :: "uuid \<Rightarrow> time \<Rightarrow> db \<Rightarrow> db" where
  "mark_verification_undelivered i now d =
     d\<lparr>email_tokens := update_where (\<lambda>t. ev_id t = i \<and> ev_used_at t = None) (\<lambda>t. t\<lparr>ev_used_at := Some now\<rparr>) (email_tokens d)\<rparr>"

text \<open>The answer: the times \<open>requested_at\<close> and \<open>expires_at\<close> and the provider's name.\<close>

definition deliver_verification ::
  "string list \<Rightarrow> (email_provider \<Rightarrow> email_message \<Rightarrow> exn + unit) \<Rightarrow> settings \<Rightarrow> time \<Rightarrow> user_row \<Rightarrow> string \<Rightarrow> email_token_row \<Rightarrow>
   request \<Rightarrow> db \<Rightarrow> (exn + time \<times> time \<times> string) \<times> db" where
  "deliver_verification registered mail s now u raw_token t rq d =
     (case send_email registered mail s (verification_message s u raw_token) of
        Inr _ \<Rightarrow>
          (Inr (now, ev_expires_at t, email_delivery_provider s),
           write_audit rq A_USER_EMAIL_VERIFICATION_SENT u ''email_verification_token'' (Some (ev_id t)) None
             [(''provider'', JStr (email_delivery_provider s))] d)
      | Inl _ \<Rightarrow>
          (Inl (AppError 503 E_INTERNAL_ERROR []),
           write_audit rq A_USER_EMAIL_VERIFICATION_REJECTED u ''email_verification_token'' (Some (ev_id t)) None
             [(''reason'', JStr ''delivery_failed''), (''provider'', JStr (email_delivery_provider s))]
             (mark_verification_undelivered (ev_id t) now d)))"

definition request_email_verification ::
  "crypto \<Rightarrow> string list \<Rightarrow> (email_provider \<Rightarrow> email_message \<Rightarrow> exn + unit) \<Rightarrow> settings \<Rightarrow> string \<Rightarrow> uuid \<Rightarrow> (nat \<Rightarrow> time) \<Rightarrow>
   exn + unit \<Rightarrow> user_row \<Rightarrow> request \<Rightarrow> db \<Rightarrow> (exn + time \<times> time \<times> string) \<times> db" where
  "request_email_verification c registered mail s raw_token fresh clk rl current_user rq d =
     (case rl of
        Inl e \<Rightarrow> (Inl e, d)
      | Inr _ \<Rightarrow>
          if u_is_verified current_user
          then (Inr (clk 0, clk 0, email_delivery_provider s),
                write_audit rq A_USER_EMAIL_VERIFICATION_REQUESTED current_user ''user'' (Some (u_id current_user)) None
                  [(''reason'', JStr ''already_verified'')] d)
          else
            (case issue_verification_token c s raw_token fresh clk current_user rq d of
               Inl e \<Rightarrow> (Inl e, d)
             | Inr (t, d1) \<Rightarrow>
                 deliver_verification registered mail s (clk 2) current_user raw_token t rq
                   (write_audit rq A_USER_EMAIL_VERIFICATION_REQUESTED current_user ''email_verification_token'' (Some (ev_id t)) None
                     [(''expires_at'', JTime (ev_expires_at t)), (''provider'', JStr (email_delivery_provider s))] d1)))"

definition confirm_verification_token ::
  "crypto \<Rightarrow> time \<Rightarrow> string \<Rightarrow> request \<Rightarrow> db \<Rightarrow> (string + uuid \<times> time) \<times> db" where
  "confirm_verification_token c now raw_token rq d =
     (if raw_token = [] \<or> length raw_token > 256 then (Inl ''invalid'', d)
      else
        (case scalar (\<lambda>t. ev_token_hash t = hash_text c raw_token) (email_tokens d) of
           None \<Rightarrow> (Inl ''invalid'', d)
         | Some t \<Rightarrow>
             if ev_used_at t \<noteq> None then (Inl ''used'', d)
             else if ev_expires_at t \<le> now then (Inl ''expired'', d)
             else
               (case by_key u_id (ev_user_id t) (users d) of
                  None \<Rightarrow> (Inl ''invalid'', d)
                | Some u \<Rightarrow>
                    if \<not> u_is_active u then (Inl ''invalid'', d)
                    else
                      let d1 = d\<lparr>email_tokens := put_row ev_id
                            (t\<lparr>ev_used_at := Some now, ev_confirmed_ip := rq_client_ip rq\<rparr>) (email_tokens d)\<rparr>
                      in if u_is_verified u then (Inl ''already_verified'', d1)
                         else (Inr (u_id u, now), put_user (u\<lparr>u_is_verified := True\<rparr>) d1))))"

definition email_verification_error :: "string \<Rightarrow> exn" where
  "email_verification_error why =
     (if why = ''expired'' then AppError 400 E_EMAIL_VERIFICATION_TOKEN_EXPIRED []
      else if why = ''used'' then AppError 409 E_EMAIL_VERIFICATION_TOKEN_USED []
      else if why = ''already_verified'' then ConflictError E_EMAIL_ALREADY_VERIFIED []
      else AppError 400 E_EMAIL_VERIFICATION_TOKEN_INVALID [])"

definition confirm_email_verification ::
  "crypto \<Rightarrow> time \<Rightarrow> string \<Rightarrow> request \<Rightarrow> db \<Rightarrow> (exn + time \<times> bool) \<times> db" where
  "confirm_email_verification c now token rq d =
     (case confirm_verification_token c now token rq d of
        (Inl why, d1) \<Rightarrow>
          (Inl (email_verification_error why),
           write_audit_event rq A_USER_EMAIL_VERIFICATION_REJECTED None None None None None (Some [(''reason'', JStr why)]) d1)
      | (Inr (user_id, confirmed_at), d1) \<Rightarrow>
          (Inr (confirmed_at, True),
           write_audit_event rq A_USER_EMAIL_VERIFICATION_CONFIRMED (Some user_id)
             (map_option u_email (by_key u_id user_id (users d1))) (Some ''user'') (Some user_id) None None d1))"

text \<open>
  \<open>newest_by key p t\<close> is the first row of \<open>SELECT ... WHERE p ORDER BY key DESC\<close>; among equal keys the
  database may choose, here the row created first.
\<close>

definition newest_by :: "('r \<Rightarrow> time) \<Rightarrow> ('r \<Rightarrow> bool) \<Rightarrow> 'r list \<Rightarrow> 'r option" where
  "newest_by key p t = fold (\<lambda>r best. case best of None \<Rightarrow> Some r | Some b \<Rightarrow> if key b < key r then Some r else best)
     (filter p t) None"

record verification_status =
  vs_is_verified :: bool
  vs_pending_request :: bool
  vs_last_requested_at :: "time option"
  vs_last_confirmed_at :: "time option"

definition email_verification_status :: "time \<Rightarrow> user_row \<Rightarrow> db \<Rightarrow> verification_status" where
  "email_verification_status now current_user d =
     (let mine = (\<lambda>t. ev_user_id t = u_id current_user)
      in \<lparr>vs_is_verified = u_is_verified current_user,
          vs_pending_request = (newest_by ev_created_at
            (\<lambda>t. mine t \<and> ev_used_at t = None \<and> ev_expires_at t > now) (email_tokens d) \<noteq> None),
          vs_last_requested_at = map_option ev_created_at (newest_by ev_created_at mine (email_tokens d)),
          vs_last_confirmed_at = Option.bind (newest_by (\<lambda>t. the (ev_used_at t))
            (\<lambda>t. mine t \<and> ev_used_at t \<noteq> None \<and> ev_confirmed_ip t \<noteq> None) (email_tokens d)) ev_used_at\<rparr>)"

section \<open>Export of the account's data\<close>

text \<open>
  The entries of the bundle carry every field of \<open>schemas/compliance.py\<close> whose column the rows of the model
  have (the creation times of videos, audit entries and accounts and the ids of usage events are not among
  them). \<open>newest_first\<close> is \<open>ORDER BY key DESC\<close>.
\<close>

definition newest_first :: "('r \<Rightarrow> time) \<Rightarrow> ('r \<Rightarrow> bool) \<Rightarrow> 'r list \<Rightarrow> 'r list" where
  "newest_first key p t = sort_key (\<lambda>r. - key r) (filter p t)"

record user_profile_export =
  xu_id :: uuid
  xu_email :: string
  xu_full_name :: string
  xu_role :: user_role
  xu_phone :: "string option"
  xu_institution :: "string option"
  xu_avatar_url :: "string option"
  xu_height_inches :: "int option"
  xu_weight_lbs :: "int option"
  xu_position :: "string option"
  xu_graduation_year :: "int option"
  xu_handedness :: "string option"
  xu_is_active :: bool
  xu_is_verified :: bool
  xu_biometric_consent :: bool
  xu_parental_consent_on_file :: bool
  xu_date_of_birth_verified :: bool
  xu_created_at :: time

definition user_profile_of :: "user_row \<Rightarrow> user_profile_export" where
  "user_profile_of u = \<lparr>xu_id = u_id u, xu_email = u_email u, xu_full_name = u_full_name u, xu_role = u_role u,
     xu_phone = u_phone u, xu_institution = u_institution u, xu_avatar_url = u_avatar_url u,
     xu_height_inches = u_height_inches u, xu_weight_lbs = u_weight_lbs u, xu_position = u_position u,
     xu_graduation_year = u_graduation_year u, xu_handedness = u_handedness u, xu_is_active = u_is_active u,
     xu_is_verified = u_is_verified u, xu_biometric_consent = u_biometric_consent u,
     xu_parental_consent_on_file = u_parental_consent_on_file u,
     xu_date_of_birth_verified = u_date_of_birth_verified u, xu_created_at = u_created_at u\<rparr>"

record membership_export =
  xm_team_id :: uuid
  xm_team_name :: string
  xm_team_role :: string
  xm_jersey_number :: "int option"
  xm_is_active :: bool
  xm_joined_at :: time

record video_export =
  xv_id :: uuid
  xv_game_id :: uuid
  xv_team_id :: uuid
  xv_filename :: string
  xv_file_size_bytes :: "int option"
  xv_status :: string

record audit_export =
  xa_action :: audit_action
  xa_resource_type :: "string option"
  xa_resource_id :: "uuid option"
  xa_team_id :: "uuid option"
  xa_ip_address :: "string option"
  xa_extra :: "jobj option"

record session_export =
  xs_id :: uuid
  xs_created_at :: time
  xs_expires_at :: time
  xs_revoked_at :: "time option"
  xs_revoked_reason :: "string option"
  xs_replaced_by_session_id :: "uuid option"
  xs_ip_address :: "string option"
  xs_user_agent :: "string option"

text \<open>Both kinds of emailed token; \<open>xt_redeemed_ip\<close> is \<open>confirmed_ip\<close> or \<open>reset_ip\<close>.\<close>

record token_export =
  xt_id :: uuid
  xt_created_at :: time
  xt_expires_at :: time
  xt_used_at :: "time option"
  xt_requested_ip :: "string option"
  xt_requested_user_agent :: "string option"
  xt_redeemed_ip :: "string option"

record mfa_export =
  xf_enrolled :: bool
  xf_confirmed_at :: "time option"
  xf_disabled_at :: "time option"
  xf_last_used_at :: "time option"
  xf_recovery_codes_total :: nat
  xf_recovery_codes_unused :: nat

record account_export =
  xb_id :: uuid
  xb_name :: string
  xb_status :: string
  xb_billing_email :: "string option"
  xb_deleted_at :: "time option"

record usage_export =
  xe_billing_account_id :: uuid
  xe_team_id :: "uuid option"
  xe_event_key :: string
  xe_quantity :: int
  xe_occurred_at :: time
  xe_event_metadata :: "jobj option"

record consent_export =
  xc_id :: uuid
  xc_team_id :: uuid
  xc_label :: string
  xc_consent_source :: string
  xc_covers_video_uploads :: bool
  xc_covers_cv_processing :: bool
  xc_commercial_ml_training_allowed :: bool
  xc_minors_authorized :: bool
  xc_athlete_pii_authorized :: bool
  xc_evidence_uri :: "string option"
  xc_evidence_sha256 :: "string option"
  xc_effective_at :: time
  xc_expires_at :: "time option"
  xc_revoked_at :: "time option"

record csp_export =
  xr_id :: uuid
  xr_received_at :: time
  xr_document_uri :: "string option"
  xr_violated_directive :: "string option"
  xr_blocked_uri :: "string option"
  xr_source_file :: "string option"
  xr_line_number :: "int option"
  xr_column_number :: "int option"
  xr_user_agent :: "string option"
  xr_reporter_ip :: "string option"

record user_data_export =
  xd_exported_at :: time
  xd_user :: user_profile_export
  xd_team_memberships :: "membership_export list"
  xd_videos_uploaded :: "video_export list"
  xd_audit_events :: "audit_export list"
  xd_refresh_sessions :: "session_export list"
  xd_email_verification_tokens :: "token_export list"
  xd_password_reset_tokens :: "token_export list"
  xd_mfa :: mfa_export
  xd_billing_accounts_owned :: "account_export list"
  xd_usage_events_for_member_teams :: "usage_export list"
  xd_team_privacy_consents_recorded :: "consent_export list"
  xd_csp_reports_attributed :: "csp_export list"

definition export_memberships :: "uuid \<Rightarrow> db \<Rightarrow> membership_export list" where
  "export_memberships uid d =
     map (\<lambda>m. \<lparr>xm_team_id = m_team_id m,
            xm_team_name = (case by_key t_id (m_team_id m) (teams d) of None \<Rightarrow> [] | Some t \<Rightarrow> t_name t),
            xm_team_role = team_role_value (m_team_role m), xm_jersey_number = m_jersey_number m,
            xm_is_active = m_is_active m, xm_joined_at = m_joined_at m\<rparr>)
       (filter (\<lambda>m. m_user_id m = uid) (memberships d))"

definition export_videos :: "uuid \<Rightarrow> db \<Rightarrow> video_export list" where
  "export_videos uid d =
     map (\<lambda>v. \<lparr>xv_id = v_id v, xv_game_id = v_game_id v, xv_team_id = v_team_id v, xv_filename = v_filename v,
            xv_file_size_bytes = v_file_size_bytes v, xv_status = video_status_value (v_status v)\<rparr>)
       (filter (\<lambda>v. v_uploaded_by v = Some uid) (videos d))"

definition export_audit :: "uuid \<Rightarrow> db \<Rightarrow> audit_export list" where
  "export_audit uid d =
     map (\<lambda>e. \<lparr>xa_action = au_action e, xa_resource_type = au_resource_type e, xa_resource_id = au_resource_id e,
            xa_team_id = au_team_id e, xa_ip_address = au_ip_address e, xa_extra = au_extra e\<rparr>)
       (rev (filter (\<lambda>e. au_actor_user_id e = Some uid) (audit_logs d)))"

definition export_sessions :: "uuid \<Rightarrow> db \<Rightarrow> session_export list" where
  "export_sessions uid d =
     map (\<lambda>r. \<lparr>xs_id = rs_id r, xs_created_at = rs_created_at r, xs_expires_at = rs_expires_at r,
            xs_revoked_at = rs_revoked_at r, xs_revoked_reason = rs_revoked_reason r,
            xs_replaced_by_session_id = rs_replaced_by_session_id r, xs_ip_address = rs_ip_address r,
            xs_user_agent = rs_user_agent r\<rparr>)
       (newest_first rs_created_at (\<lambda>r. rs_user_id r = uid) (refresh_sessions d))"

definition export_email_tokens :: "uuid \<Rightarrow> db \<Rightarrow> token_export list" where
  "export_email_tokens uid d =
     map (\<lambda>t. \<lparr>xt_id = ev_id t, xt_created_at = ev_created_at t, xt_expires_at = ev_expires_at t,
            xt_used_at = ev_used_at t, xt_requested_ip = ev_requested_ip t,
            xt_requested_user_agent = ev_requested_user_agent t, xt_redeemed_ip = ev_confirmed_ip t\<rparr>)
       (newest_first ev_created_at (\<lambda>t. ev_user_id t = uid) (email_tokens d))"

definition export_reset_tokens :: "uuid \<Rightarrow> db \<Rightarrow> token_export list" where
  "export_reset_tokens uid d =
     map (\<lambda>t. \<lparr>xt_id = pr_id t, xt_created_at = pr_created_at t, xt_expires_at = pr_expires_at t,
            xt_used_at = pr_used_at t, xt_requested_ip = pr_requested_ip t,
            xt_requested_user_agent = pr_requested_user_agent t, xt_redeemed_ip = pr_reset_ip t\<rparr>)
       (newest_first pr_created_at (\<lambda>t. pr_user_id t = uid) (reset_tokens d))"

definition export_mfa :: "uuid \<Rightarrow> db \<Rightarrow> mfa_export" where
  "export_mfa uid d =
     (let totp = scalar (\<lambda>r. ts_user_id r = uid) (totp_secrets d); mine = filter (\<lambda>r. rc_user_id r = uid) (recovery_codes d)
      in \<lparr>xf_enrolled = (case totp of None \<Rightarrow> False | Some r \<Rightarrow> ts_disabled_at r = None),
          xf_confirmed_at = Option.bind totp ts_confirmed_at, xf_disabled_at = Option.bind totp ts_disabled_at,
          xf_last_used_at = Option.bind totp ts_last_used_at, xf_recovery_codes_total = length mine,
          xf_recovery_codes_unused = length (filter (\<lambda>r. rc_used_at r = None) mine)\<rparr>)"

fun billing_account_status_value :: "billing_account_status \<Rightarrow> string" where
  "billing_account_status_value BA_ACTIVE = ''active''"
| "billing_account_status_value BA_SUSPENDED = ''suspended''"
| "billing_account_status_value BA_CLOSED = ''closed''"

definition export_accounts :: "uuid \<Rightarrow> db \<Rightarrow> account_export list" where
  "export_accounts uid d =
     map (\<lambda>a. \<lparr>xb_id = ba_id a, xb_name = ba_name a, xb_status = billing_account_status_value (ba_status a),
            xb_billing_email = ba_billing_email a, xb_deleted_at = ba_deleted_at a\<rparr>)
       (rev (filter (\<lambda>a. ba_owner_user_id a = Some uid) (accounts d)))"

definition export_usage :: "uuid \<Rightarrow> db \<Rightarrow> usage_export list" where
  "export_usage uid d =
     map (\<lambda>e. \<lparr>xe_billing_account_id = ue_billing_account_id e, xe_team_id = ue_team_id e, xe_event_key = ue_event_key e,
            xe_quantity = ue_quantity e, xe_occurred_at = ue_occurred_at e, xe_event_metadata = ue_event_metadata e\<rparr>)
       (newest_first ue_occurred_at
         (\<lambda>e. \<exists>m \<in> set (memberships d). m_user_id m = uid \<and> ue_team_id e = Some (m_team_id m)) (usage d))"

definition export_consents :: "uuid \<Rightarrow> db \<Rightarrow> consent_export list" where
  "export_consents uid d =
     map (\<lambda>c. \<lparr>xc_id = c_id c, xc_team_id = c_team_id c, xc_label = c_label c, xc_consent_source = c_consent_source c,
            xc_covers_video_uploads = c_covers_video_uploads c, xc_covers_cv_processing = c_covers_cv_processing c,
            xc_commercial_ml_training_allowed = c_commercial_ml_training_allowed c,
            xc_minors_authorized = c_minors_authorized c, xc_athlete_pii_authorized = c_athlete_pii_authorized c,
            xc_evidence_uri = c_evidence_uri c, xc_evidence_sha256 = c_evidence_sha256 c,
            xc_effective_at = c_effective_at c, xc_expires_at = c_expires_at c, xc_revoked_at = c_revoked_at c\<rparr>)
       (newest_first c_effective_at (\<lambda>c. c_recorded_by c = Some uid) (consents d))"

definition export_csp :: "uuid \<Rightarrow> db \<Rightarrow> csp_export list" where
  "export_csp uid d =
     map (\<lambda>r. \<lparr>xr_id = cr_id r, xr_received_at = cr_received_at r, xr_document_uri = cr_document_uri r,
            xr_violated_directive = cr_violated_directive r, xr_blocked_uri = cr_blocked_uri r,
            xr_source_file = cr_source_file r, xr_line_number = cr_line_number r,
            xr_column_number = cr_column_number r, xr_user_agent = cr_user_agent r,
            xr_reporter_ip = cr_reporter_ip r\<rparr>)
       (newest_first cr_received_at (\<lambda>r. cr_user_id r = Some uid) (csp_reports d))"

definition export_bundle :: "time \<Rightarrow> user_row \<Rightarrow> db \<Rightarrow> user_data_export" where
  "export_bundle now u d = \<lparr>xd_exported_at = now, xd_user = user_profile_of u,
     xd_team_memberships = export_memberships (u_id u) d, xd_videos_uploaded = export_videos (u_id u) d,
     xd_audit_events = export_audit (u_id u) d, xd_refresh_sessions = export_sessions (u_id u) d,
     xd_email_verification_tokens = export_email_tokens (u_id u) d,
     xd_password_reset_tokens = export_reset_tokens (u_id u) d, xd_mfa = export_mfa (u_id u) d,
     xd_billing_accounts_owned = export_accounts (u_id u) d, xd_usage_events_for_member_teams = export_usage (u_id u) d,
     xd_team_privacy_consents_recorded = export_consents (u_id u) d, xd_csp_reports_attributed = export_csp (u_id u) d\<rparr>"

definition export_my_data :: "time \<Rightarrow> user_row \<Rightarrow> request \<Rightarrow> db \<Rightarrow> user_data_export \<times> db" where
  "export_my_data now u rq d =
     (let b = export_bundle now u d
      in (b, write_audit rq A_USER_DATA_EXPORTED u ''user'' (Some (u_id u)) None
            [(''memberships'', JInt (int (length (xd_team_memberships b)))),
             (''videos'', JInt (int (length (xd_videos_uploaded b)))),
             (''audit_events'', JInt (int (length (xd_audit_events b)))),
             (''refresh_sessions'', JInt (int (length (xd_refresh_sessions b)))),
             (''email_verification_tokens'', JInt (int (length (xd_email_verification_tokens b)))),
             (''password_reset_tokens'', JInt (int (length (xd_password_reset_tokens b)))),
             (''usage_events'', JInt (int (length (xd_usage_events_for_member_teams b)))),
             (''csp_reports'', JInt (int (length (xd_csp_reports_attributed b))))] d))"

section \<open>Deletion of the account\<close>

definition DEACTIVATED_PASSWORD_SENTINEL :: string where
  "DEACTIVATED_PASSWORD_SENTINEL = ''!deactivated!''"

definition anonymized_email :: "uuid \<Rightarrow> string" where
  "anonymized_email user_id = ''deleted+'' @ uuid_str user_id @ ''@nextballup.invalid''"

definition anonymized_user :: "user_row \<Rightarrow> user_row" where
  "anonymized_user u = u\<lparr>u_email := anonymized_email (u_id u), u_full_name := ''[deleted user]'', u_phone := None,
     u_institution := None, u_avatar_url := None, u_password_hash := DEACTIVATED_PASSWORD_SENTINEL,
     u_is_active := False, u_height_inches := None, u_weight_lbs := None, u_position := None,
     u_graduation_year := None, u_handedness := None, u_biometric_consent := False,
     u_parental_consent_on_file := False, u_date_of_birth_verified := False,
     u_session_version := u_session_version u + 1\<rparr>"

definition deactivate_memberships :: "uuid \<Rightarrow> db \<Rightarrow> db" where
  "deactivate_memberships uid d =
     d\<lparr>memberships := update_where (\<lambda>m. m_user_id m = uid)
        (\<lambda>m. m\<lparr>m_is_active := False, m_team_role := TR_PLAYER\<rparr>) (memberships d)\<rparr>"

definition scrub_email_tokens :: "uuid \<Rightarrow> time \<Rightarrow> db \<Rightarrow> db" where
  "scrub_email_tokens uid now d =
     (let scrub = (\<lambda>t. t\<lparr>ev_requested_ip := None, ev_requested_user_agent := None, ev_confirmed_ip := None\<rparr>)
      in d\<lparr>email_tokens := update_where (\<lambda>t. ev_user_id t = uid) scrub
            (update_where (\<lambda>t. ev_user_id t = uid \<and> ev_used_at t = None)
              (\<lambda>t. scrub (t\<lparr>ev_used_at := Some now\<rparr>)) (email_tokens d))\<rparr>)"

definition scrub_reset_tokens :: "uuid \<Rightarrow> time \<Rightarrow> db \<Rightarrow> db" where
  "scrub_reset_tokens uid now d =
     (let scrub = (\<lambda>t. t\<lparr>pr_requested_ip := None, pr_requested_user_agent := None, pr_reset_ip := None\<rparr>)
      in d\<lparr>reset_tokens := update_where (\<lambda>t. pr_user_id t = uid) scrub
            (update_where (\<lambda>t. pr_user_id t = uid \<and> pr_used_at t = None)
              (\<lambda>t. scrub (t\<lparr>pr_used_at := Some now\<rparr>)) (reset_tokens d))\<rparr>)"

definition erase_mfa :: "uuid \<Rightarrow> db \<Rightarrow> db" where
  "erase_mfa uid d =
     d\<lparr>recovery_codes := filter (\<lambda>r. rc_user_id r \<noteq> uid) (recovery_codes d),
       totp_secrets := filter (\<lambda>r. ts_user_id r \<noteq> uid) (totp_secrets d)\<rparr>"

definition unlink_owner :: "uuid \<Rightarrow> db \<Rightarrow> db" where
  "unlink_owner uid d =
     d\<lparr>consents := update_where (\<lambda>c. c_recorded_by c = Some uid) (\<lambda>c. c\<lparr>c_recorded_by := None\<rparr>) (consents d),
       accounts := update_where (\<lambda>a. ba_owner_user_id a = Some uid)
         (\<lambda>a. a\<lparr>ba_owner_user_id := None, ba_billing_email := None\<rparr>) (accounts d)\<rparr>"

text \<open>
  The row trigger of migration 0024: every UPDATE of a row is refused, and a DELETE unless the pruning
  function opened the gate. An UPDATE that matches no row fires no trigger.
\<close>

datatype trigger_op = TG_UPDATE | TG_DELETE

definition prevent_csp_report_mutation :: "trigger_op \<Rightarrow> bool \<Rightarrow> exn + unit" where
  "prevent_csp_report_mutation tg_op allow_prune =
     (if tg_op = TG_DELETE \<and> allow_prune then Inr ()
      else Inl (PyError ''CSP reports cannot be modified or deleted (append-only control)''))"

definition update_csp_reports :: "(csp_row \<Rightarrow> bool) \<Rightarrow> (csp_row \<Rightarrow> csp_row) \<Rightarrow> db \<Rightarrow> exn + db" where
  "update_csp_reports p f d =
     (if filter p (csp_reports d) = [] then Inr d
      else
        (case prevent_csp_report_mutation TG_UPDATE False of
           Inl e \<Rightarrow> Inl e
         | Inr _ \<Rightarrow> Inr (d\<lparr>csp_reports := update_where p f (csp_reports d)\<rparr>)))"

text \<open>The address is unique; \<open>d\<close> is the state an exception rolls back to.\<close>

definition delete_my_account ::
  "settings \<Rightarrow> (nat \<Rightarrow> time) \<Rightarrow> user_row \<Rightarrow> request \<Rightarrow> db \<Rightarrow> (exn + time \<times> uuid \<times> cookie_op list) \<times> db" where
  "delete_my_account s clk current_user rq d =
     (let uid = u_id current_user; u1 = anonymized_user current_user; deleted_at = clk 1
      in if \<exists>x \<in> set (users d). u_id x \<noteq> uid \<and> u_email x = u_email u1 then (Inl integrity_error, d)
         else
           (case update_csp_reports (\<lambda>r. cr_user_id r = Some uid)
                   (\<lambda>r. r\<lparr>cr_user_id := None, cr_reporter_ip := None, cr_user_agent := None\<rparr>)
                   (unlink_owner uid (erase_mfa uid (scrub_reset_tokens uid deleted_at (scrub_email_tokens uid deleted_at
                     (revoke_refresh_sessions uid ''account_deleted'' (clk 0)
                       (put_user u1 (deactivate_memberships uid d))))))) of
              Inl e \<Rightarrow> (Inl e, d)
            | Inr d1 \<Rightarrow>
                (Inr (deleted_at, uid, clear_auth_cookies s @ [clear_csrf_cookie s]),
                 write_audit rq A_USER_ACCOUNT_DELETED u1 ''user'' (Some uid) None
                   [(''role'', JStr (user_role_value (u_role current_user)))] d1)))"

section \<open>Signing out\<close>

text \<open>A request authenticated as \<open>u\<close> is refused once the user's session version has moved on.\<close>

lemma signed_out:
  assumes "get_current_user rsa s now h d = Inr u" and "by_key u_id (u_id u) (users d') = Some v"
    and "u_session_version v = u_session_version u + 1"
  shows "get_current_user rsa s now' h d' = Inl AuthenticationError"
proof -
  from assms(1) obtain token claims where t: "extract_token s h = Inr token"
    "decode_token rsa s ''access'' None now token = Inr claims" "user_of_claims claims d = Inr u"
    by (auto simp: get_current_user_def split: sum.splits)
  have "user_of_claims claims d' = Inl AuthenticationError"
    using user_of_claims_Inr[OF t(3)] assms(2,3) by (simp add: user_of_claims_def)
  then show ?thesis
    using t(1) decode_token_error decode_token_claims[OF t(2)]
    by (cases "decode_token rsa s ''access'' None now' token") (auto simp: get_current_user_def)
qed

section \<open>The discipline of emailed tokens\<close>

definition keys_ok :: "('r \<Rightarrow> uuid) \<Rightarrow> ('r \<Rightarrow> string) \<Rightarrow> 'r list \<Rightarrow> bool" where
  "keys_ok rid rhash t \<longleftrightarrow> distinct (map rid t) \<and> distinct (map rhash t)"

definition spent_hash :: "('r \<Rightarrow> string) \<Rightarrow> ('r \<Rightarrow> time option) \<Rightarrow> string \<Rightarrow> 'r list \<Rightarrow> bool" where
  "spent_hash rhash rused h t \<longleftrightarrow> (\<exists>r \<in> set t. rhash r = h \<and> rused r \<noteq> None)"

definition token_step :: "('r \<Rightarrow> uuid) \<Rightarrow> ('r \<Rightarrow> string) \<Rightarrow> ('r \<Rightarrow> time option) \<Rightarrow> 'r list \<Rightarrow> 'r list \<Rightarrow> bool" where
  "token_step rid rhash rused t t' \<longleftrightarrow>
     (keys_ok rid rhash t \<longrightarrow> keys_ok rid rhash t' \<and> (\<forall>h. spent_hash rhash rused h t \<longrightarrow> spent_hash rhash rused h t'))"

text \<open>A table of single-use tokens: \<open>mark now\<close> stamps a row as used and keeps its identity.\<close>

locale token_table =
  fixes rid ruser :: "'r \<Rightarrow> uuid" and rhash :: "'r \<Rightarrow> string" and rused :: "'r \<Rightarrow> time option"
    and mark :: "time \<Rightarrow> 'r \<Rightarrow> 'r"
  assumes mark_id: "rid (mark now r) = rid r" and mark_hash: "rhash (mark now r) = rhash r"
    and mark_user: "ruser (mark now r) = ruser r" and mark_used: "rused (mark now r) = Some now"
begin

lemma step_refl [simp]: "token_step rid rhash rused t t"
  by (simp add: token_step_def)

lemma step_trans [trans]:
  "token_step rid rhash rused a b \<Longrightarrow> token_step rid rhash rused b c \<Longrightarrow> token_step rid rhash rused a c"
  by (auto simp: token_step_def)

lemma step_update:
  assumes "\<And>r. rid (f r) = rid r" and "\<And>r. rhash (f r) = rhash r" and "\<And>r. rused r \<noteq> None \<Longrightarrow> rused (f r) \<noteq> None"
  shows "token_step rid rhash rused t (update_where p f t)"
proof -
  have "spent_hash rhash rused h (update_where p f t)" if "spent_hash rhash rused h t" for h
  proof -
    from that obtain r where r: "r \<in> set t" "rhash r = h" "rused r \<noteq> None" by (auto simp: spent_hash_def)
    then have "(if p r then f r else r) \<in> set (update_where p f t)" by (auto simp: set_update_where)
    then show ?thesis unfolding spent_hash_def by (rule bexI[rotated]) (use r assms in auto)
  qed
  then show ?thesis by (simp add: token_step_def keys_ok_def map_update_where assms)
qed

lemma step_mark: "token_step rid rhash rused t (update_where p (mark now) t)"
  by (rule step_update) (simp_all add: mark_id mark_hash mark_used)

lemma step_insert:
  assumes "rid r \<notin> rid ` set t" and "rhash r \<notin> rhash ` set t"
  shows "token_step rid rhash rused t (t @ [r])"
  using assms by (auto simp: token_step_def keys_ok_def spent_hash_def)

lemma put_spends: "r \<in> set t \<Longrightarrow> rid r' = rid r \<Longrightarrow> rused r' \<noteq> None \<Longrightarrow> spent_hash rhash rused (rhash r') (put_row rid r' t)"
  by (force simp: spent_hash_def put_row_def set_update_where)

lemma step_put:
  assumes "r \<in> set t" and "rid r' = rid r" and "rhash r' = rhash r" and "rused r' \<noteq> None"
  shows "token_step rid rhash rused t (put_row rid r' t)"
  unfolding token_step_def
proof (intro impI conjI allI)
  assume ok: "keys_ok rid rhash t"
  have b: "by_key rid (rid r') t = Some r" using by_key_mem[of rid t r] ok assms(1,2) by (simp add: keys_ok_def)
  then show "keys_ok rid rhash (put_row rid r' t)"
    using ok map_put_row[OF _ b, of rhash] assms(3) by (simp add: keys_ok_def keys_put_row)
  fix h
  assume "spent_hash rhash rused h t"
  then obtain x where x: "x \<in> set t" "rhash x = h" "rused x \<noteq> None" by (auto simp: spent_hash_def)
  show "spent_hash rhash rused h (put_row rid r' t)"
  proof (cases "rid x = rid r'")
    case True
    then have "x = r" using by_key_unique[of rid t "rid r'" r x] ok b x(1) by (simp add: keys_ok_def)
    then show ?thesis using put_spends[OF assms(1,2,4)] x(2) assms(3) by simp
  next
    case False
    then show ?thesis using put_row_other[OF x(1), of rid r'] x(2,3) by (auto simp: spent_hash_def)
  qed
qed

lemma lookup_spent:
  assumes "keys_ok rid rhash t" and "spent_hash rhash rused h t"
  obtains r where "scalar (\<lambda>r. rhash r = h) t = Some r" "rused r \<noteq> None"
proof -
  from assms(2) obtain r where r: "r \<in> set t" "rhash r = h" "rused r \<noteq> None" by (auto simp: spent_hash_def)
  then have "scalar (\<lambda>x. rhash x = h) t = Some r"
    using by_key_mem[of rhash t r] assms(1) by (simp add: by_key_def keys_ok_def)
  then show thesis using r(3) by (rule that)
qed

lemma superseded:
  assumes "x \<in> set (update_where (\<lambda>r. ruser r = u \<and> rused r = None) (mark now) t)" and "ruser x = u"
  shows "rused x \<noteq> None"
  using assms by (auto simp: set_update_where mark_used split: if_splits)

lemma keys_superseded [simp]:
  "map rid (update_where p (mark now) t) = map rid t" "map rhash (update_where p (mark now) t) = map rhash t"
  "rid ` set (update_where p (mark now) t) = rid ` set t" "rhash ` set (update_where p (mark now) t) = rhash ` set t"
proof -
  show m: "map rid (update_where p (mark now) t) = map rid t" "map rhash (update_where p (mark now) t) = map rhash t"
    by (simp_all add: map_update_where mark_id mark_hash)
  show "rid ` set (update_where p (mark now) t) = rid ` set t" "rhash ` set (update_where p (mark now) t) = rhash ` set t"
    using arg_cong[OF m(1), of set] arg_cong[OF m(2), of set] by simp_all
qed

end

interpretation reset_table: token_table pr_id pr_user_id pr_token_hash pr_used_at "\<lambda>now t. t\<lparr>pr_used_at := Some now\<rparr>"
  by unfold_locales simp_all

interpretation email_table: token_table ev_id ev_user_id ev_token_hash ev_used_at "\<lambda>now t. t\<lparr>ev_used_at := Some now\<rparr>"
  by unfold_locales simp_all

abbreviation reset_step :: "db \<Rightarrow> db \<Rightarrow> bool" where
  "reset_step d d' \<equiv> token_step pr_id pr_token_hash pr_used_at (reset_tokens d) (reset_tokens d')"

abbreviation email_step :: "db \<Rightarrow> db \<Rightarrow> bool" where
  "email_step d d' \<equiv> token_step ev_id ev_token_hash ev_used_at (email_tokens d) (email_tokens d')"

lemma put_user_tokens [simp]:
  "reset_tokens (put_user u d) = reset_tokens d" "email_tokens (put_user u d) = email_tokens d"
  by (simp_all add: put_user_def)

lemma revoke_tokens [simp]:
  "reset_tokens (revoke_refresh_sessions i why now d) = reset_tokens d"
  "email_tokens (revoke_refresh_sessions i why now d) = email_tokens d"
  by (simp_all add: revoke_refresh_sessions_def)

lemma supersede_reset_frame [simp]:
  "email_tokens (supersede_reset_tokens i now d) = email_tokens d" "users (supersede_reset_tokens i now d) = users d"
  "refresh_sessions (supersede_reset_tokens i now d) = refresh_sessions d"
  by (simp_all add: supersede_reset_tokens_def)

lemma supersede_reset_step: "reset_step d (supersede_reset_tokens i now d)"
  by (simp add: supersede_reset_tokens_def reset_table.step_mark)

lemma supersede_email_step: "email_step d (supersede_email_tokens i now d)"
  by (simp add: supersede_email_tokens_def email_table.step_mark)

lemma issue_reset_Inr:
  assumes "issue_password_reset_token c s raw fresh clk u rq d = Inr (t, d')"
  shows "reset_step d d'" and "email_tokens d' = email_tokens d" and "users d' = users d"
    and "reset_tokens d' = reset_tokens (supersede_reset_tokens (u_id u) (clk 1) d) @ [t]"
    and "pr_user_id t = u_id u" and "pr_token_hash t = hash_text c raw" and "pr_used_at t = None"
    and "pr_expires_at t = clk 1 + seconds (60 * password_reset_token_ttl_minutes s)"
    and "pr_id t = fresh" and "fresh \<notin> pr_id ` set (reset_tokens d)"
    and "hash_text c raw \<notin> pr_token_hash ` set (reset_tokens d)"
proof -
  from assms obtain locked where l: "by_key u_id (u_id u) (users d) = Some locked"
    by (auto simp: issue_password_reset_token_def split: option.splits)
  then have id: "u_id locked = u_id u" using by_key_Some[OF l] by simp
  note r = assms[unfolded issue_password_reset_token_def l option.case id Let_def]
  have new: "fresh \<notin> pr_id ` set (reset_tokens (supersede_reset_tokens (u_id u) (clk 1) d))"
    "hash_text c raw \<notin> pr_token_hash ` set (reset_tokens (supersede_reset_tokens (u_id u) (clk 1) d))"
    using r by (auto split: if_splits)
  show t: "reset_tokens d' = reset_tokens (supersede_reset_tokens (u_id u) (clk 1) d) @ [t]"
    "pr_user_id t = u_id u" "pr_token_hash t = hash_text c raw" "pr_used_at t = None" "pr_id t = fresh"
    "email_tokens d' = email_tokens d" "users d' = users d"
    "pr_expires_at t = clk 1 + seconds (60 * password_reset_token_ttl_minutes s)"
    using r by (auto split: if_splits)
  show "reset_step d d'"
    unfolding t(1) by (rule reset_table.step_trans[OF supersede_reset_step reset_table.step_insert]) (use new t in auto)
  show "fresh \<notin> pr_id ` set (reset_tokens d)" "hash_text c raw \<notin> pr_token_hash ` set (reset_tokens d)"
    using new by (simp_all add: supersede_reset_tokens_def)
qed

lemma issue_email_Inr:
  assumes "issue_verification_token c s raw fresh clk u rq d = Inr (t, d')"
  shows "email_step d d'" and "reset_tokens d' = reset_tokens d" and "users d' = users d"
    and "email_tokens d' = email_tokens (supersede_email_tokens (u_id u) (clk 1) d) @ [t]"
    and "ev_user_id t = u_id u" and "ev_token_hash t = hash_text c raw" and "ev_used_at t = None"
proof -
  note r = assms[unfolded issue_verification_token_def Let_def]
  have new: "fresh \<notin> ev_id ` set (email_tokens (supersede_email_tokens (u_id u) (clk 1) d))"
    "hash_text c raw \<notin> ev_token_hash ` set (email_tokens (supersede_email_tokens (u_id u) (clk 1) d))"
    using r by (auto split: if_splits)
  show t: "email_tokens d' = email_tokens (supersede_email_tokens (u_id u) (clk 1) d) @ [t]"
    "ev_user_id t = u_id u" "ev_token_hash t = hash_text c raw" "ev_used_at t = None"
    "reset_tokens d' = reset_tokens d" "users d' = users d"
    using r by (auto split: if_splits simp: supersede_email_tokens_def)
  have "ev_id t = fresh" using r by (auto split: if_splits)
  then show "email_step d d'"
    unfolding t(1) using new t(3) email_table.step_trans[OF supersede_email_step email_table.step_insert] by metis
qed

lemma consume_Inr:
  assumes "consume_password_reset_token c now raw rq d = (Inr (u, t1), d')"
  obtains t where "raw \<noteq> []" "length raw \<le> 256" "scalar (\<lambda>t. pr_token_hash t = hash_text c raw) (reset_tokens d) = Some t"
    "pr_used_at t = None" "now < pr_expires_at t" "by_key u_id (pr_user_id t) (users d) = Some u" "u_is_active u"
    "t1 = t\<lparr>pr_used_at := Some now, pr_reset_ip := rq_client_ip rq\<rparr>"
    "d' = d\<lparr>reset_tokens := put_row pr_id t1 (reset_tokens d)\<rparr>"
proof -
  note df = consume_password_reset_token_def
  have a: "raw \<noteq> []" "length raw \<le> 256"
    using assms by (cases "raw = [] \<or> length raw > 256"; simp add: df)+
  obtain t where t: "scalar (\<lambda>t. pr_token_hash t = hash_text c raw) (reset_tokens d) = Some t"
    using assms a by (cases "scalar (\<lambda>t. pr_token_hash t = hash_text c raw) (reset_tokens d)") (simp_all add: df)
  have b: "pr_used_at t = None" using assms a t by (cases "pr_used_at t = None") (simp_all add: df)
  have e: "now < pr_expires_at t" using assms a t b by (cases "pr_expires_at t \<le> now") (simp_all add: df)
  obtain x where x: "by_key u_id (pr_user_id t) (users d) = Some x"
    using assms a t b e by (cases "by_key u_id (pr_user_id t) (users d)") (simp_all add: df Let_def)
  have v: "u_is_active x" using assms a t b e x by (cases "u_is_active x") (simp_all add: df Let_def)
  let ?t1 = "t\<lparr>pr_used_at := Some now, pr_reset_ip := rq_client_ip rq\<rparr>"
  have "(Inr (x, ?t1), d\<lparr>reset_tokens := put_row pr_id ?t1 (reset_tokens d)\<rparr>) = (Inr (u, t1), d')"
    using assms a t b e x v by (auto simp: df Let_def)
  then show thesis using a t b e x v by (intro that[of t]) auto
qed

lemma consume_Inl:
  assumes "consume_password_reset_token c now raw rq d = (Inl why, d')"
  shows "d' = d \<or> (\<exists>t. scalar (\<lambda>t. pr_token_hash t = hash_text c raw) (reset_tokens d) = Some t \<and>
    d' = d\<lparr>reset_tokens := put_row pr_id (t\<lparr>pr_used_at := Some now\<rparr>) (reset_tokens d)\<rparr>)"
proof -
  note df = consume_password_reset_token_def
  show ?thesis
  proof (cases "raw = [] \<or> length raw > 256")
    case True
    then show ?thesis using assms by (simp add: df)
  next
    case a: False
    show ?thesis
    proof (cases "scalar (\<lambda>t. pr_token_hash t = hash_text c raw) (reset_tokens d)")
      case None
      then show ?thesis using assms a by (simp add: df)
    next
      case (Some t)
      note r = assms[unfolded df if_not_P[OF a] Some option.case Let_def]
      show ?thesis
      proof (cases "pr_used_at t \<noteq> None \<or> pr_expires_at t \<le> now")
        case True
        then have "d' = d" using r by (auto split: if_splits)
        then show ?thesis ..
      next
        case False
        then have "d' = d\<lparr>reset_tokens := put_row pr_id (t\<lparr>pr_used_at := Some now\<rparr>) (reset_tokens d)\<rparr>"
          using r by (cases "by_key u_id (pr_user_id t) (users d)") (auto split: if_splits)
        then show ?thesis using Some by blast
      qed
    qed
  qed
qed

lemma consume_step:
  assumes "consume_password_reset_token c now raw rq d = (res, d')"
  shows "reset_step d d'" and "email_tokens d' = email_tokens d" and "users d' = users d"
proof -
  have "d' = d \<or> (\<exists>t t1. t \<in> set (reset_tokens d) \<and> pr_id t1 = pr_id t \<and> pr_token_hash t1 = pr_token_hash t \<and>
      pr_used_at t1 \<noteq> None \<and> d' = d\<lparr>reset_tokens := put_row pr_id t1 (reset_tokens d)\<rparr>)"
  proof (cases res)
    case (Inl why)
    from consume_Inl[OF assms[unfolded Inl]] show ?thesis
    proof (elim disjE exE conjE)
      fix t
      assume "scalar (\<lambda>t. pr_token_hash t = hash_text c raw) (reset_tokens d) = Some t"
        and "d' = d\<lparr>reset_tokens := put_row pr_id (t\<lparr>pr_used_at := Some now\<rparr>) (reset_tokens d)\<rparr>"
      then show ?thesis by (intro disjI2 exI[of _ t] exI[of _ "t\<lparr>pr_used_at := Some now\<rparr>"]) (simp add: scalar_Some)
    qed simp
  next
    case (Inr x)
    obtain u t1 where x: "x = (u, t1)" by (cases x)
    from consume_Inr[OF assms[unfolded Inr x]] obtain t where
      "scalar (\<lambda>t. pr_token_hash t = hash_text c raw) (reset_tokens d) = Some t"
      "t1 = t\<lparr>pr_used_at := Some now, pr_reset_ip := rq_client_ip rq\<rparr>"
      "d' = d\<lparr>reset_tokens := put_row pr_id t1 (reset_tokens d)\<rparr>" by metis
    then show ?thesis by (intro disjI2 exI[of _ t] exI[of _ t1]) (simp add: scalar_Some)
  qed
  then show "reset_step d d'" and "email_tokens d' = email_tokens d" and "users d' = users d"
    by (elim disjE exE conjE; simp add: reset_table.step_put)+
qed

lemma consume_spent:
  assumes "keys_ok pr_id pr_token_hash (reset_tokens d)" and "spent_hash pr_token_hash pr_used_at (hash_text c raw) (reset_tokens d)"
  shows "consume_password_reset_token c now raw rq d \<noteq> (Inr x, d')"
proof
  assume "consume_password_reset_token c now raw rq d = (Inr x, d')"
  then obtain t where t: "scalar (\<lambda>t. pr_token_hash t = hash_text c raw) (reset_tokens d) = Some t" "pr_used_at t = None"
    by (cases x) (metis consume_Inr)
  from reset_table.lookup_spent[OF assms] show False using t by (metis option.inject)
qed

lemma set_new_password_tables [simp]:
  "email_tokens (set_new_password ph a b u rq d) = email_tokens d"
  "reset_tokens (set_new_password ph a b u rq d) = reset_tokens (supersede_reset_tokens (u_id u) a d)"
  "users (set_new_password ph a b u rq d) =
     put_row u_id (u\<lparr>u_password_hash := ph, u_session_version := u_session_version u + 1\<rparr>) (users d)"
  "refresh_sessions (set_new_password ph a b u rq d) = refresh_sessions (revoke_refresh_sessions (u_id u) ''password_reset'' b d)"
  by (simp_all add: set_new_password_def supersede_reset_tokens_def) (simp add: revoke_refresh_sessions_def)

lemma reset_password_Inr:
  assumes "reset_password c s salt clk rl token pw rq d = (Inr x, d')"
  obtains u t d1 ph where "rl = Inr ()" "consume_password_reset_token c (clk 0) token rq d = (Inr (u, t), d1)"
    "hash_password c salt pw = Inr ph" "d' = set_new_password ph (clk 0) (clk 1) u rq d1"
  using assms by (auto simp: reset_password_def split: sum.splits prod.splits)

lemma reset_password_step:
  assumes "reset_password c s salt clk rl token pw rq d = (res, d')"
  shows "reset_step d d'" and "email_tokens d' = email_tokens d"
proof -
  obtain res1 d1 where c: "consume_password_reset_token c (clk 0) token rq d = (res1, d1)" by fastforce
  note st = consume_step[OF c]
  show "reset_step d d'"
  proof (cases res)
    case (Inr x)
    then obtain u t d2 ph where "consume_password_reset_token c (clk 0) token rq d = (Inr (u, t), d2)"
      "d' = set_new_password ph (clk 0) (clk 1) u rq d2" using reset_password_Inr[OF assms[unfolded Inr]] by metis
    then show ?thesis using st(1) c reset_table.step_trans[OF st(1) supersede_reset_step] by simp
  next
    case (Inl e)
    then have "reset_tokens d' = reset_tokens d \<or> reset_tokens d' = reset_tokens d1"
      using assms c by (cases rl; cases res1; cases "hash_password c salt pw") (auto simp: reset_password_def split: prod.splits)
    then show ?thesis using st(1) by auto
  qed
  show "email_tokens d' = email_tokens d"
    using assms c st(2) by (cases rl; cases res1; cases "hash_password c salt pw") (auto simp: reset_password_def split: prod.splits)
qed

lemma confirm_cases:
  assumes "confirm_verification_token c now raw rq d = (res, d')"
  obtains why where "res = Inl why" "d' = d"
  | t u t1 where "scalar (\<lambda>t. ev_token_hash t = hash_text c raw) (email_tokens d) = Some t" "ev_used_at t = None"
      "now < ev_expires_at t" "by_key u_id (ev_user_id t) (users d) = Some u" "u_is_active u"
      "t1 = t\<lparr>ev_used_at := Some now, ev_confirmed_ip := rq_client_ip rq\<rparr>"
      "email_tokens d' = put_row ev_id t1 (email_tokens d)" "reset_tokens d' = reset_tokens d"
      "res = Inl ''already_verified'' \<and> u_is_verified u \<and> users d' = users d \<or>
       res = Inr (u_id u, now) \<and> \<not> u_is_verified u \<and> users d' = put_row u_id (u\<lparr>u_is_verified := True\<rparr>) (users d)"
proof -
  note df = confirm_verification_token_def
  show thesis
  proof (cases "raw = [] \<or> length raw > 256")
    case True
    then show thesis using assms by (intro that(1)[of "''invalid''"]) (simp_all add: df)
  next
    case a: False
    show thesis
    proof (cases "scalar (\<lambda>t. ev_token_hash t = hash_text c raw) (email_tokens d)")
      case None
      then show thesis using assms a by (intro that(1)[of "''invalid''"]) (simp_all add: df)
    next
      case t: (Some t)
      show thesis
      proof (cases "ev_used_at t \<noteq> None \<or> ev_expires_at t \<le> now")
        case True
        then show thesis using assms a t by (cases "ev_used_at t = None") (auto simp: df intro: that(1))
      next
        case b: False
        show thesis
        proof (cases "\<exists>u. by_key u_id (ev_user_id t) (users d) = Some u \<and> u_is_active u")
          case True
          then obtain u where u: "by_key u_id (ev_user_id t) (users d) = Some u" "u_is_active u" by blast
          let ?t1 = "t\<lparr>ev_used_at := Some now, ev_confirmed_ip := rq_client_ip rq\<rparr>"
          let ?d1 = "d\<lparr>email_tokens := put_row ev_id ?t1 (email_tokens d)\<rparr>"
          have "(if u_is_verified u then (Inl ''already_verified'', ?d1)
              else (Inr (u_id u, now), put_user (u\<lparr>u_is_verified := True\<rparr>) ?d1)) = (res, d')"
            using assms a t b u by (simp add: df Let_def)
          then have "email_tokens d' = put_row ev_id ?t1 (email_tokens d)" "reset_tokens d' = reset_tokens d"
            "res = Inl ''already_verified'' \<and> u_is_verified u \<and> users d' = users d \<or>
             res = Inr (u_id u, now) \<and> \<not> u_is_verified u \<and> users d' = put_row u_id (u\<lparr>u_is_verified := True\<rparr>) (users d)"
            by (auto split: if_splits)
          with t b u show thesis by (intro that(2)[of t u ?t1]) auto
        next
          case False
          then show thesis using assms a t b
            by (cases "by_key u_id (ev_user_id t) (users d)") (auto simp: df intro: that(1))
        qed
      qed
    qed
  qed
qed

lemma confirm_step:
  assumes "confirm_verification_token c now raw rq d = (res, d')"
  shows "email_step d d'" and "reset_tokens d' = reset_tokens d"
  using assms
proof (atomize (full), cases rule: confirm_cases)
  case (2 t u t1)
  have "t \<in> set (email_tokens d)" using scalar_Some[OF 2(1)] by simp
  then show "email_step d d' \<and> reset_tokens d' = reset_tokens d"
    using 2(6,8) by (simp add: 2(7) email_table.step_put)
qed simp

lemma confirm_spent:
  assumes "keys_ok ev_id ev_token_hash (email_tokens d)" and "spent_hash ev_token_hash ev_used_at (hash_text c raw) (email_tokens d)"
  shows "confirm_verification_token c now raw rq d \<noteq> (Inr x, d')"
proof
  assume "confirm_verification_token c now raw rq d = (Inr x, d')"
  then obtain t where "scalar (\<lambda>t. ev_token_hash t = hash_text c raw) (email_tokens d) = Some t" "ev_used_at t = None"
    by (cases rule: confirm_cases) auto
  with email_table.lookup_spent[OF assms] show False by (metis option.inject)
qed

lemma deliver_reset_tables:
  "reset_step d (deliver_reset reg mail s now u raw i rq d)" "email_tokens (deliver_reset reg mail s now u raw i rq d) = email_tokens d"
  "users (deliver_reset reg mail s now u raw i rq d) = users d"
  "refresh_sessions (deliver_reset reg mail s now u raw i rq d) = refresh_sessions d"
  by (auto simp: deliver_reset_def mark_reset_undelivered_def reset_table.step_mark split: sum.splits)

lemma request_reset_cases:
  assumes "request_password_reset c reg mail s raw fresh clk rl email rq d = (res, d')"
  obtains "reset_tokens d' = reset_tokens d" "email_tokens d' = email_tokens d" "users d' = users d"
  | u t d1 d2 where "scalar (\<lambda>u. u_email u = py_lower email) (users d) = Some u" "u_is_active u"
      "issue_password_reset_token c s raw fresh (\<lambda>i. clk (Suc i)) u rq d = Inr (t, d1)"
      "res = Inr (clk 0, email_delivery_provider s)" "reset_tokens d2 = reset_tokens d1" "email_tokens d2 = email_tokens d1"
      "users d2 = users d1" "d' = deliver_reset reg mail s (clk 3) u raw (pr_id t) rq d2"
proof (cases "\<exists>u x. rl = Inr () \<and> scalar (\<lambda>u. u_email u = py_lower email) (users d) = Some u \<and> u_is_active u \<and>
    issue_password_reset_token c s raw fresh (\<lambda>i. clk (Suc i)) u rq d = Inr x")
  case True
  then obtain u t d1 where u: "rl = Inr ()" "scalar (\<lambda>u. u_email u = py_lower email) (users d) = Some u" "u_is_active u"
    "issue_password_reset_token c s raw fresh (\<lambda>i. clk (Suc i)) u rq d = Inr (t, d1)" by auto
  note r = assms[unfolded request_password_reset_def u(1,2,4) Let_def sum.case option.case prod.case]
  let ?d2 = "write_audit rq A_USER_PASSWORD_RESET_REQUESTED u ''password_reset_token'' (Some (pr_id t)) None
    [(''expires_at'', JTime (pr_expires_at t)), (''provider'', JStr (email_delivery_provider s))] d1"
  show thesis by (rule that(2)[of u t d1 ?d2]) (use r u in auto)
next
  case False
  have "reset_tokens d' = reset_tokens d \<and> email_tokens d' = email_tokens d \<and> users d' = users d"
  proof (cases rl)
    case (Inr a)
    then show ?thesis
    proof (cases "scalar (\<lambda>u. u_email u = py_lower email) (users d)")
      case (Some u)
      then show ?thesis using assms False Inr
        by (cases "u_is_active u"; cases "issue_password_reset_token c s raw fresh (\<lambda>i. clk (Suc i)) u rq d")
          (auto simp: request_password_reset_def)
    qed (use assms in \<open>auto simp: request_password_reset_def\<close>)
  qed (use assms in \<open>auto simp: request_password_reset_def\<close>)
  then show thesis using that(1) by blast
qed

lemma request_reset_step:
  assumes "request_password_reset c reg mail s raw fresh clk rl email rq d = (res, d')"
  shows "reset_step d d'" and "email_tokens d' = email_tokens d"
  using assms
proof (atomize (full), cases rule: request_reset_cases)
  case (2 u t d1 d2)
  note i = issue_reset_Inr[OF 2(3)]
  have "token_step pr_id pr_token_hash pr_used_at (reset_tokens d1) (reset_tokens d')"
    unfolding 2(8) using deliver_reset_tables(1)[of d2] 2(5) by simp
  then show "reset_step d d' \<and> email_tokens d' = email_tokens d"
    using i(2) 2(6) reset_table.step_trans[OF i(1)] by (simp add: 2(8) deliver_reset_tables(2))
qed simp

lemma request_verification_step:
  assumes "request_email_verification c reg mail s raw fresh clk rl u rq d = (res, d')"
  shows "email_step d d'" and "reset_tokens d' = reset_tokens d"
proof -
  have dv: "email_step d0 (snd (deliver_verification reg mail s now u raw t rq d0)) \<and>
    reset_tokens (snd (deliver_verification reg mail s now u raw t rq d0)) = reset_tokens d0" for d0 now t
    by (auto simp: deliver_verification_def mark_verification_undelivered_def email_table.step_mark split: sum.splits)
  have "email_step d d' \<and> reset_tokens d' = reset_tokens d"
  proof (cases "rl = Inr () \<and> \<not> u_is_verified u \<and> (\<exists>x. issue_verification_token c s raw fresh clk u rq d = Inr x)")
    case True
    then obtain t d1 where t: "issue_verification_token c s raw fresh clk u rq d = Inr (t, d1)" by auto
    note i = issue_email_Inr[OF t]
    let ?d2 = "write_audit rq A_USER_EMAIL_VERIFICATION_REQUESTED u ''email_verification_token'' (Some (ev_id t)) None
      [(''expires_at'', JTime (ev_expires_at t)), (''provider'', JStr (email_delivery_provider s))] d1"
    have "d' = snd (deliver_verification reg mail s (clk 2) u raw t rq ?d2)"
      using assms True t by (simp add: request_email_verification_def)
    then show ?thesis using dv[of ?d2 "clk 2" t] i(2) email_table.step_trans[OF i(1)] by simp
  next
    case False
    then have "email_tokens d' = email_tokens d \<and> reset_tokens d' = reset_tokens d"
      using assms by (cases rl; cases "u_is_verified u"; cases "issue_verification_token c s raw fresh clk u rq d")
        (auto simp: request_email_verification_def)
    then show ?thesis by simp
  qed
  then show "email_step d d'" and "reset_tokens d' = reset_tokens d" by auto
qed

lemma confirm_email_step:
  assumes "confirm_email_verification c now token rq d = (res, d')"
  shows "email_step d d'" and "reset_tokens d' = reset_tokens d"
proof -
  obtain res1 d1 where c: "confirm_verification_token c now token rq d = (res1, d1)" by fastforce
  then have "email_tokens d' = email_tokens d1 \<and> reset_tokens d' = reset_tokens d1"
    using assms by (cases res1) (auto simp: confirm_email_verification_def split: prod.splits)
  then show "email_step d d'" and "reset_tokens d' = reset_tokens d" using confirm_step[OF c] by simp_all
qed

lemma update_csp_Inr:
  assumes "update_csp_reports p f d = Inr d'"
  shows "d' = d" and "filter p (csp_reports d) = []"
  using assms by (auto simp: update_csp_reports_def prevent_csp_report_mutation_def split: if_splits)

definition erased :: "settings \<Rightarrow> (nat \<Rightarrow> time) \<Rightarrow> user_row \<Rightarrow> db \<Rightarrow> db" where
  "erased s clk u d =
     unlink_owner (u_id u) (erase_mfa (u_id u) (scrub_reset_tokens (u_id u) (clk 1) (scrub_email_tokens (u_id u) (clk 1)
       (revoke_refresh_sessions (u_id u) ''account_deleted'' (clk 0)
         (put_user (anonymized_user u) (deactivate_memberships (u_id u) d))))))"

lemma scrub_email_eq:
  "email_tokens (scrub_email_tokens uid now d) = update_where (\<lambda>t. ev_user_id t = uid)
     (\<lambda>t. t\<lparr>ev_used_at := (case ev_used_at t of None \<Rightarrow> Some now | Some x \<Rightarrow> Some x), ev_requested_ip := None,
       ev_requested_user_agent := None, ev_confirmed_ip := None\<rparr>) (email_tokens d)"
  by (auto simp: scrub_email_tokens_def Let_def update_where_def split: option.splits)

lemma scrub_reset_eq:
  "reset_tokens (scrub_reset_tokens uid now d) = update_where (\<lambda>t. pr_user_id t = uid)
     (\<lambda>t. t\<lparr>pr_used_at := (case pr_used_at t of None \<Rightarrow> Some now | Some x \<Rightarrow> Some x), pr_requested_ip := None,
       pr_requested_user_agent := None, pr_reset_ip := None\<rparr>) (reset_tokens d)"
  by (auto simp: scrub_reset_tokens_def Let_def update_where_def split: option.splits)

lemma erased_tables:
  "users (erased s clk u d) = put_row u_id (anonymized_user u) (users d)"
  "memberships (erased s clk u d) = memberships (deactivate_memberships (u_id u) d)"
  "refresh_sessions (erased s clk u d) = refresh_sessions (revoke_refresh_sessions (u_id u) ''account_deleted'' (clk 0) d)"
  "email_tokens (erased s clk u d) = email_tokens (scrub_email_tokens (u_id u) (clk 1) d)"
  "reset_tokens (erased s clk u d) = reset_tokens (scrub_reset_tokens (u_id u) (clk 1) d)"
  "totp_secrets (erased s clk u d) = filter (\<lambda>r. ts_user_id r \<noteq> u_id u) (totp_secrets d)"
  "recovery_codes (erased s clk u d) = filter (\<lambda>r. rc_user_id r \<noteq> u_id u) (recovery_codes d)"
  "consents (erased s clk u d) = consents (unlink_owner (u_id u) d)"
  "accounts (erased s clk u d) = accounts (unlink_owner (u_id u) d)"
  "csp_reports (erased s clk u d) = csp_reports d" "audit_logs (erased s clk u d) = audit_logs d"
  by (simp_all add: erased_def unlink_owner_def erase_mfa_def scrub_reset_tokens_def scrub_email_tokens_def
      revoke_refresh_sessions_def put_user_def deactivate_memberships_def Let_def)

lemma deletion_cases:
  assumes "delete_my_account s clk u rq d = (res, d')"
  obtains e where "res = Inl e" "d' = d"
  | "res = Inr (clk 1, u_id u, clear_auth_cookies s @ [clear_csrf_cookie s])"
    "filter (\<lambda>r. cr_user_id r = Some (u_id u)) (csp_reports d) = []"
    "d' = write_audit rq A_USER_ACCOUNT_DELETED (anonymized_user u) ''user'' (Some (u_id u)) None
       [(''role'', JStr (user_role_value (u_role u)))] (erased s clk u d)"
proof (cases "\<exists>x \<in> set (users d). u_id x \<noteq> u_id u \<and> u_email x = u_email (anonymized_user u)")
  case True
  then show thesis using assms that(1)[of integrity_error] by (auto simp: delete_my_account_def Let_def)
next
  case False
  note r = assms[unfolded delete_my_account_def Let_def if_not_P[OF False] erased_def[of s clk u d, symmetric]]
  show thesis
  proof (cases "update_csp_reports (\<lambda>r. cr_user_id r = Some (u_id u))
      (\<lambda>r. r\<lparr>cr_user_id := None, cr_reporter_ip := None, cr_user_agent := None\<rparr>) (erased s clk u d)")
    case (Inl e)
    then show thesis using r that(1)[of e] by simp
  next
    case (Inr d1)
    note e = update_csp_Inr[OF Inr]
    show thesis by (rule that(2)) (use r Inr e in \<open>auto simp: erased_tables\<close>)
  qed
qed

lemma deletion_step:
  assumes "delete_my_account s clk u rq d = (res, d')"
  shows "reset_step d d'" and "email_step d d'"
  using assms
  by (atomize (full), cases rule: deletion_cases)
    (auto simp: erased_tables scrub_reset_eq scrub_email_eq intro!: reset_table.step_update email_table.step_update split: option.splits)

section \<open>Every emailed link works once\<close>

datatype account_op =
    OpForgot "string list" "email_provider \<Rightarrow> email_message \<Rightarrow> exn + unit" string uuid "nat \<Rightarrow> time" "exn + unit" string request
  | OpReset bytes "nat \<Rightarrow> time" "exn + unit" string string request
  | OpRequestVerify "string list" "email_provider \<Rightarrow> email_message \<Rightarrow> exn + unit" string uuid "nat \<Rightarrow> time" "exn + unit" user_row request
  | OpConfirm time string request
  | OpDeleteAccount "nat \<Rightarrow> time" user_row request

datatype redeemed = ResetLink string | VerifyLink string

text \<open>The link an operation redeemed, and the database after it.\<close>

fun exec_account :: "crypto \<Rightarrow> settings \<Rightarrow> account_op \<Rightarrow> db \<Rightarrow> redeemed option \<times> db" where
  "exec_account c s (OpForgot reg mail raw fresh clk rl email rq) d =
     (None, snd (request_password_reset c reg mail s raw fresh clk rl email rq d))"
| "exec_account c s (OpReset salt clk rl token pw rq) d =
     (case reset_password c s salt clk rl token pw rq d of
        (Inl _, d') \<Rightarrow> (None, d') | (Inr _, d') \<Rightarrow> (Some (ResetLink token), d'))"
| "exec_account c s (OpRequestVerify reg mail raw fresh clk rl u rq) d =
     (None, snd (request_email_verification c reg mail s raw fresh clk rl u rq d))"
| "exec_account c s (OpConfirm now token rq) d =
     (case confirm_email_verification c now token rq d of
        (Inl _, d') \<Rightarrow> (None, d') | (Inr _, d') \<Rightarrow> (Some (VerifyLink token), d'))"
| "exec_account c s (OpDeleteAccount clk u rq) d = (None, snd (delete_my_account s clk u rq d))"

fun redeemed_links :: "crypto \<Rightarrow> settings \<Rightarrow> account_op list \<Rightarrow> db \<Rightarrow> redeemed list" where
  "redeemed_links c s [] d = []"
| "redeemed_links c s (op # ops) d =
     (case exec_account c s op d of
        (None, d') \<Rightarrow> redeemed_links c s ops d'
      | (Some t, d') \<Rightarrow> t # redeemed_links c s ops d')"

definition tokens_inv :: "db \<Rightarrow> bool" where
  "tokens_inv d \<longleftrightarrow> keys_ok pr_id pr_token_hash (reset_tokens d) \<and> keys_ok ev_id ev_token_hash (email_tokens d)"

fun link_spent :: "crypto \<Rightarrow> redeemed \<Rightarrow> db \<Rightarrow> bool" where
  "link_spent c (ResetLink t) d = spent_hash pr_token_hash pr_used_at (hash_text c t) (reset_tokens d)"
| "link_spent c (VerifyLink t) d = spent_hash ev_token_hash ev_used_at (hash_text c t) (email_tokens d)"

lemma exec_account_steps:
  assumes "exec_account c s op d = (t, d')"
  shows "reset_step d d' \<and> email_step d d'"
proof (cases op)
  case (OpForgot reg mail raw fresh clk rl email rq)
  then show ?thesis using assms request_reset_step[of c reg mail s raw fresh clk rl email rq d] by (cases "request_password_reset c reg mail s raw fresh clk rl email rq d") auto
next
  case (OpReset salt clk rl token pw rq)
  then show ?thesis using assms reset_password_step[of c s salt clk rl token pw rq d]
    by (cases "reset_password c s salt clk rl token pw rq d") (auto split: sum.splits)
next
  case (OpRequestVerify reg mail raw fresh clk rl u rq)
  then show ?thesis using assms request_verification_step[of c reg mail s raw fresh clk rl u rq d]
    by (cases "request_email_verification c reg mail s raw fresh clk rl u rq d") auto
next
  case (OpConfirm now token rq)
  then show ?thesis using assms confirm_email_step[of c now token rq d]
    by (cases "confirm_email_verification c now token rq d") (auto split: sum.splits)
next
  case (OpDeleteAccount clk u rq)
  then show ?thesis using assms deletion_step[of s clk u rq d] by (cases "delete_my_account s clk u rq d") auto
qed

lemma exec_account_inv:
  assumes "exec_account c s op d = (t, d')" and "tokens_inv d"
  shows "tokens_inv d'" and "link_spent c l d \<Longrightarrow> link_spent c l d'"
  using exec_account_steps[OF assms(1)] assms(2) by (auto simp: tokens_inv_def token_step_def) (cases l; auto)

text \<open>A redeemed link was not spent before, and is spent after.\<close>

lemma reset_spends:
  assumes "reset_password c s salt clk rl token pw rq d = (Inr x, d')" and "tokens_inv d"
  shows "\<not> link_spent c (ResetLink token) d" and "link_spent c (ResetLink token) d'"
proof -
  obtain u t1 d1 ph where r: "consume_password_reset_token c (clk 0) token rq d = (Inr (u, t1), d1)"
    "d' = set_new_password ph (clk 0) (clk 1) u rq d1" using reset_password_Inr[OF assms(1)] by metis
  show "\<not> link_spent c (ResetLink token) d"
    using consume_spent[of d c token "clk 0" rq] r(1) assms(2) by (auto simp: tokens_inv_def)
  from consume_Inr[OF r(1)] obtain t where t: "scalar (\<lambda>t. pr_token_hash t = hash_text c token) (reset_tokens d) = Some t"
    "t1 = t\<lparr>pr_used_at := Some (clk 0), pr_reset_ip := rq_client_ip rq\<rparr>"
    "d1 = d\<lparr>reset_tokens := put_row pr_id t1 (reset_tokens d)\<rparr>" by metis
  then have "spent_hash pr_token_hash pr_used_at (pr_token_hash t1) (reset_tokens d1)"
    using reset_table.put_spends[of t "reset_tokens d" t1] scalar_Some[OF t(1)] by simp
  moreover have "keys_ok pr_id pr_token_hash (reset_tokens d1)"
    using consume_step(1)[OF r(1)] assms(2) by (simp add: token_step_def tokens_inv_def)
  ultimately show "link_spent c (ResetLink token) d'"
    using supersede_reset_step[of d1 "u_id u" "clk 0"] scalar_Some[OF t(1)] t(2) by (auto simp: r(2) token_step_def)
qed

lemma confirm_spends:
  assumes "confirm_email_verification c now token rq d = (Inr x, d')" and "tokens_inv d"
  shows "\<not> link_spent c (VerifyLink token) d" and "link_spent c (VerifyLink token) d'"
proof -
  obtain y d1 where r: "confirm_verification_token c now token rq d = (Inr y, d1)" "email_tokens d' = email_tokens d1"
    using assms(1) by (cases "confirm_verification_token c now token rq d"; cases "fst (confirm_verification_token c now token rq d)")
      (auto simp: confirm_email_verification_def split: prod.splits)
  show "\<not> link_spent c (VerifyLink token) d"
    using confirm_spent[of d c token now rq y d1] r(1) assms(2) by (auto simp: tokens_inv_def)
  from r(1) obtain t t1 where t: "scalar (\<lambda>t. ev_token_hash t = hash_text c token) (email_tokens d) = Some t"
    "t1 = t\<lparr>ev_used_at := Some now, ev_confirmed_ip := rq_client_ip rq\<rparr>" "email_tokens d1 = put_row ev_id t1 (email_tokens d)"
    by (cases rule: confirm_cases) auto
  then show "link_spent c (VerifyLink token) d'"
    using email_table.put_spends[of t "email_tokens d" t1] scalar_Some[OF t(1)] by (simp add: r(2))
qed

lemma exec_account_redeemed:
  assumes "exec_account c s op d = (Some l, d')" and "tokens_inv d"
  shows "\<not> link_spent c l d \<and> link_spent c l d'"
  using assms reset_spends confirm_spends by (cases op) (auto split: sum.splits prod.splits)

lemma spent_not_redeemed: "tokens_inv d \<Longrightarrow> link_spent c l d \<Longrightarrow> l \<notin> set (redeemed_links c s ops d)"
proof (induction ops arbitrary: d)
  case (Cons op ops)
  obtain t d' where e: "exec_account c s op d = (t, d')" by fastforce
  have "t \<noteq> Some l" using exec_account_redeemed[of c s op d l d'] e Cons.prems by auto
  then show ?case using Cons.IH[of d'] exec_account_inv[OF e Cons.prems(1)] Cons.prems(2) e by (auto split: option.splits)
qed simp

text \<open>
  C26: Every emailed link works once. In every sequence of password reset requests, password resets,
  verification requests, confirmations and account deletions, from any state in which ids and hashes of
  the token tables are unique, no reset link and no verification link is redeemed twice.
\<close>

theorem emailed_links_single_use:
  assumes "tokens_inv d"
  shows "distinct (redeemed_links c s ops d)"
  using assms
proof (induction ops arbitrary: d)
  case (Cons op ops)
  obtain t d' where e: "exec_account c s op d = (t, d')" by fastforce
  have inv: "tokens_inv d'" using exec_account_inv(1)[OF e Cons.prems] .
  have "l \<notin> set (redeemed_links c s ops d')" if "t = Some l" for l
    using spent_not_redeemed[OF inv] exec_account_redeemed[of c s op d l d'] e that Cons.prems by auto
  then show ?case using Cons.IH[OF inv] e by (auto split: option.splits)
qed simp

section \<open>A password reset from end to end\<close>

lemma issue_succeeds:
  assumes "by_key u_id (u_id u) (users d) = Some u" and "u_is_active u" and "fresh \<notin> pr_id ` set (reset_tokens d)"
    and "hash_text c raw \<notin> pr_token_hash ` set (reset_tokens d)"
  shows "\<exists>t d1. issue_password_reset_token c s raw fresh clk u rq d = Inr (t, d1)"
proof -
  have "fresh \<notin> pr_id ` set (reset_tokens (supersede_reset_tokens (u_id u) (clk 1) d))"
    "hash_text c raw \<notin> pr_token_hash ` set (reset_tokens (supersede_reset_tokens (u_id u) (clk 1) d))"
    using assms(3,4) by (simp_all add: supersede_reset_tokens_def)
  then show ?thesis using assms(1,2) by (simp add: issue_password_reset_token_def Let_def)
qed

lemma hash_password_valid:
  assumes "validate_password pw" and "\<And>p z. bcrypt_checkpw c p (bcrypt_hashpw c p z) = Some True"
  shows "\<exists>ph. hash_password c salt pw = Inr ph \<and> verify_password c pw ph"
  using assms by (auto simp: validate_password_def hash_password_def verify_password_def encode_password_def)

lemma scalar_append_new:
  assumes "k \<notin> f ` set t" and "f r = k"
  shows "scalar (\<lambda>x. f x = k) (t @ [r]) = Some r"
  using assms by (induction t) auto

lemma requested_token:
  assumes "scalar (\<lambda>u. u_email u = py_lower email) (users d) = Some u" and "u_is_active u" and "distinct (map u_id (users d))"
    and "fresh \<notin> pr_id ` set (reset_tokens d)" and "hash_text c raw \<notin> pr_token_hash ` set (reset_tokens d)"
    and "send_email reg mail s (password_reset_message s u raw) = Inr ()"
    and "request_password_reset c reg mail s raw fresh clk (Inr ()) email rq d = (res, d1)"
  obtains t where "reset_tokens d1 = reset_tokens (supersede_reset_tokens (u_id u) (clk 2) d) @ [t]" "pr_user_id t = u_id u"
    "pr_token_hash t = hash_text c raw" "pr_used_at t = None"
    "pr_expires_at t = clk 2 + seconds (60 * password_reset_token_ttl_minutes s)"
    "scalar (\<lambda>t. pr_token_hash t = hash_text c raw) (reset_tokens d1) = Some t"
    "users d1 = users d" "refresh_sessions d1 = refresh_sessions d" "res = Inr (clk 0, email_delivery_provider s)"
proof -
  have u: "by_key u_id (u_id u) (users d) = Some u" using by_key_mem[OF assms(3)] scalar_Some[OF assms(1)] by simp
  obtain t d0 where i: "issue_password_reset_token c s raw fresh (\<lambda>i. clk (Suc i)) u rq d = Inr (t, d0)"
    using issue_succeeds[OF u assms(2,4,5)] by blast
  note n = issue_reset_Inr[OF i]
  have two: "clk (Suc 1) = clk 2" by (simp add: numeral_2_eq_2)
  have r: "res = Inr (clk 0, email_delivery_provider s)" "reset_tokens d1 = reset_tokens d0" "users d1 = users d0"
    "refresh_sessions d1 = refresh_sessions d0"
    using assms(7) i assms(1,2,6) by (auto simp: request_password_reset_def deliver_reset_def Let_def)
  have "refresh_sessions d0 = refresh_sessions d"
    using i u assms(2) by (auto simp: issue_password_reset_token_def Let_def split: if_splits)
  moreover have "scalar (\<lambda>t. pr_token_hash t = hash_text c raw) (reset_tokens d1) = Some t"
  proof -
    have "hash_text c raw \<notin> pr_token_hash ` set (reset_tokens (supersede_reset_tokens (u_id u) (clk (Suc 1)) d))"
      using n(11) by (simp add: supersede_reset_tokens_def)
    then show ?thesis unfolding r(2) n(4) using n(6) by (intro scalar_append_new) simp_all
  qed
  ultimately show thesis using that[of t] n r two by simp
qed

text \<open>
  A password reset works from end to end and takes the account over. When an active user asks for a
  reset and the mail goes out, the only unused reset token of the user is the new one; redeeming it before
  it expires with an acceptable password succeeds, the new password opens the account, every reset token
  of the user is used, every refresh session is revoked, and whoever was signed in before is signed out.
  Password hashing is taken to accept the password it hashed.
\<close>

theorem password_reset_completes:
  assumes "scalar (\<lambda>u. u_email u = py_lower email) (users d) = Some u" and "u_is_active u" and "distinct (map u_id (users d))"
    and "fresh \<notin> pr_id ` set (reset_tokens d)" and "hash_text c raw \<notin> pr_token_hash ` set (reset_tokens d)"
    and "send_email reg mail s (password_reset_message s u raw) = Inr ()"
    and "request_password_reset c reg mail s raw fresh clk (Inr ()) email rq d = (res, d1)"
    and "validate_password_reset raw pw" and "clk' 0 < clk 2 + seconds (60 * password_reset_token_ttl_minutes s)"
    and "\<And>p z. bcrypt_checkpw c p (bcrypt_hashpw c p z) = Some True"
    and "reset_password c s salt clk' (Inr ()) raw pw rq' d1 = (res', d2)"
  shows "(\<exists>cookies. res' = Inr (clk' 0, cookies)) \<and>
    (\<forall>t \<in> set (reset_tokens d1). pr_user_id t = u_id u \<longrightarrow> pr_used_at t = None \<longrightarrow> pr_token_hash t = hash_text c raw) \<and>
    (\<exists>v. u_id v = u_id u \<and> check_credentials c \<lparr>lg_email = email, lg_password = pw, lg_mfa_code = m\<rparr> rq'' d2 = (Inr v, d2)) \<and>
    (\<forall>t \<in> set (reset_tokens d2). pr_user_id t = u_id u \<longrightarrow> pr_used_at t \<noteq> None) \<and>
    (\<forall>r \<in> set (refresh_sessions d2). rs_user_id r = u_id u \<longrightarrow> rs_revoked_at r \<noteq> None) \<and>
    (get_current_user rsa s now h d = Inr u \<longrightarrow> get_current_user rsa s now' h d2 = Inl AuthenticationError)"
proof (intro conjI)
  obtain t where t: "reset_tokens d1 = reset_tokens (supersede_reset_tokens (u_id u) (clk 2) d) @ [t]" "pr_user_id t = u_id u"
    "pr_token_hash t = hash_text c raw" "pr_used_at t = None"
    "pr_expires_at t = clk 2 + seconds (60 * password_reset_token_ttl_minutes s)"
    "scalar (\<lambda>t. pr_token_hash t = hash_text c raw) (reset_tokens d1) = Some t"
    "users d1 = users d" "refresh_sessions d1 = refresh_sessions d" "res = Inr (clk 0, email_delivery_provider s)"
    by (rule requested_token[OF assms(1-7)])
  show "\<forall>t \<in> set (reset_tokens d1). pr_user_id t = u_id u \<longrightarrow> pr_used_at t = None \<longrightarrow> pr_token_hash t = hash_text c raw"
  proof (intro ballI impI)
    fix x
    assume x: "x \<in> set (reset_tokens d1)" "pr_user_id x = u_id u" "pr_used_at x = None"
    show "pr_token_hash x = hash_text c raw"
    proof (cases "x = t")
      case False
      with x(1) have "x \<in> set (reset_tokens (supersede_reset_tokens (u_id u) (clk 2) d))" by (simp add: t(1))
      with x(2,3) show ?thesis using reset_table.superseded by (fastforce simp: supersede_reset_tokens_def)
    qed (simp add: t(3))
  qed
  have u: "by_key u_id (u_id u) (users d) = Some u" using by_key_mem[OF assms(3)] scalar_Some[OF assms(1)] by simp
  let ?t = "t\<lparr>pr_used_at := Some (clk' 0), pr_reset_ip := rq_client_ip rq'\<rparr>"
  let ?d = "d1\<lparr>reset_tokens := put_row pr_id ?t (reset_tokens d1)\<rparr>"
  have c: "consume_password_reset_token c (clk' 0) raw rq' d1 = (Inr (u, ?t), ?d)"
    using assms(8,9) t u assms(2) by (auto simp: consume_password_reset_token_def validate_password_reset_def Let_def)
  obtain ph where ph: "hash_password c salt pw = Inr ph" "verify_password c pw ph"
    using hash_password_valid[OF _ assms(10), of pw salt] assms(8) by (auto simp: validate_password_reset_def)
  have r: "res' = Inr (clk' 0, clear_auth_cookies s @ [clear_csrf_cookie s])" "d2 = set_new_password ph (clk' 0) (clk' 1) u rq' ?d"
    using assms(11) by (simp_all add: reset_password_def c ph(1))
  show "\<exists>cookies. res' = Inr (clk' 0, cookies)" by (simp add: r(1))
  let ?v = "u\<lparr>u_password_hash := ph, u_session_version := u_session_version u + 1\<rparr>"
  have users: "users d2 = put_row u_id ?v (users d)" by (simp add: r(2) t(7))
  have "scalar (\<lambda>u. u_email u = py_lower email) (users d2) = Some ?v"
    unfolding users by (rule scalar_put_row[OF assms(1,3)]) (use scalar_Some[OF assms(1)] in simp_all)
  then show "\<exists>v. u_id v = u_id u \<and> check_credentials c \<lparr>lg_email = email, lg_password = pw, lg_mfa_code = m\<rparr> rq'' d2 = (Inr v, d2)"
    using ph(2) assms(2) by (intro exI[of _ ?v]) (simp add: check_credentials_def Let_def)
  show "\<forall>t \<in> set (reset_tokens d2). pr_user_id t = u_id u \<longrightarrow> pr_used_at t \<noteq> None"
    unfolding r(2) set_new_password_tables supersede_reset_tokens_def
    by (intro ballI impI) (rule reset_table.superseded; simp)
  show "\<forall>r \<in> set (refresh_sessions d2). rs_user_id r = u_id u \<longrightarrow> rs_revoked_at r \<noteq> None"
    using revoked_all by (auto simp: r(2))
  show "get_current_user rsa s now h d = Inr u \<longrightarrow> get_current_user rsa s now' h d2 = Inl AuthenticationError"
    using signed_out[of rsa s now h d u d2] by (simp add: users by_key_put_row u)
qed

section \<open>Deletion\<close>


text \<open>
  On a migrated database a user to whom a CSP report is attributed cannot be deleted: the trigger refuses
  the UPDATE of \<open>csp_reports\<close>, and the request is rolled back.
\<close>

theorem csp_report_blocks_deletion:
  assumes "r \<in> set (csp_reports d)" and "cr_user_id r = Some (u_id u)"
  shows "\<exists>e. delete_my_account s clk u rq d = (Inl e, d)"
proof -
  obtain res d' where del: "delete_my_account s clk u rq d = (res, d')" by fastforce
  then show ?thesis
  proof (cases rule: deletion_cases)
    case (1 e)
    then show ?thesis using del by blast
  next
    case 2
    then show ?thesis using assms by (simp add: filter_empty_conv)
  qed
qed

section \<open>Witnesses\<close>

definition toy_mail :: "email_provider \<Rightarrow> email_message \<Rightarrow> exn + unit" where
  "toy_mail p m = Inr ()"

definition toy_reset_link :: string where
  "toy_reset_link = ''0123456789abcdef''"

theorem emailed_links_single_use_witness:
  "distinct (redeemed_links toy_crypto default_settings
     [OpForgot [] toy_mail toy_reset_link 80 (\<lambda>_. seconds 10) (Inr ()) ''coach@example.com'' sample_request,
      OpReset [] (\<lambda>_. seconds 20) (Inr ()) toy_reset_link ''Secret123'' sample_request,
      OpReset [] (\<lambda>_. seconds 30) (Inr ()) toy_reset_link ''Secret456'' sample_request] (sample_db\<lparr>users := [session_coach]\<rparr>))"
  by (rule emailed_links_single_use) (simp add: tokens_inv_def keys_ok_def sample_db_def empty_db_def)

theorem password_reset_completes_witness:
  "\<exists>cookies d2. reset_password toy_crypto default_settings [] (\<lambda>_. seconds 20) (Inr ()) toy_reset_link ''Secret123'' sample_request
      (snd (request_password_reset toy_crypto [] toy_mail default_settings toy_reset_link 80 (\<lambda>_. seconds 10) (Inr ())
        ''Coach@example.com'' sample_request (sample_db\<lparr>users := [session_coach]\<rparr>))) = (Inr (seconds 20, cookies), d2)"
proof -
  let ?d = "sample_db\<lparr>users := [session_coach]\<rparr>"
  have e: "scalar (\<lambda>u. u_email u = py_lower ''Coach@example.com'') (users ?d) = Some session_coach"
  proof -
    have "py_lower ''Coach@example.com'' = ''coach@example.com''" by code_simp
    then show ?thesis by (simp add: session_coach_def sample_coach_def)
  qed
  have v: "validate_password_reset toy_reset_link ''Secret123''" by code_simp
  have m: "send_email [] toy_mail default_settings (password_reset_message default_settings session_coach toy_reset_link) = Inr ()"
    by (simp add: send_email_def get_email_provider_def toy_mail_def default_settings_def Let_def)
  have b: "bcrypt_checkpw toy_crypto p (bcrypt_hashpw toy_crypto p z) = Some True" for p z by (simp add: toy_crypto_def)
  obtain res d1 where r: "request_password_reset toy_crypto [] toy_mail default_settings toy_reset_link 80 (\<lambda>_. seconds 10) (Inr ())
      ''Coach@example.com'' sample_request ?d = (res, d1)" by fastforce
  obtain res' d2 where r': "reset_password toy_crypto default_settings [] (\<lambda>_. seconds 20) (Inr ()) toy_reset_link ''Secret123''
      sample_request d1 = (res', d2)" by fastforce
  have "\<exists>cookies. res' = Inr (seconds 20, cookies)"
    using password_reset_completes[OF e _ _ _ _ m r v _ b r', THEN conjunct1]
    by (simp add: session_coach_def sample_coach_def sample_db_def empty_db_def default_settings_def)
  then show ?thesis using r r' by auto
qed


theorem csp_report_blocks_deletion_witness:
  "\<exists>e. delete_my_account default_settings (\<lambda>_. seconds 2000) session_coach sample_request
     (sample_db\<lparr>users := [session_coach], csp_reports := [\<lparr>cr_id = 90, cr_user_id = Some 4, cr_received_at = 0, cr_document_uri = None,
        cr_violated_directive = None, cr_blocked_uri = None, cr_source_file = None, cr_line_number = None,
        cr_column_number = None, cr_user_agent = None, cr_reporter_ip = None\<rparr>]\<rparr>) =
     (Inl e, sample_db\<lparr>users := [session_coach], csp_reports := [\<lparr>cr_id = 90, cr_user_id = Some 4, cr_received_at = 0, cr_document_uri = None,
        cr_violated_directive = None, cr_blocked_uri = None, cr_source_file = None, cr_line_number = None,
        cr_column_number = None, cr_user_agent = None, cr_reporter_ip = None\<rparr>]\<rparr>)"
  by (rule csp_report_blocks_deletion[where r = "\<lparr>cr_id = 90, cr_user_id = Some 4, cr_received_at = 0, cr_document_uri = None,
        cr_violated_directive = None, cr_blocked_uri = None, cr_source_file = None, cr_line_number = None,
        cr_column_number = None, cr_user_agent = None, cr_reporter_ip = None\<rparr>"])
    (simp_all add: session_coach_def sample_coach_def)

end
