(* ===== verification/Dispatch.thy ===== *)
theory Dispatch
  imports Jobs
begin

text \<open>
  \<open>runtime/dispatch.py\<close> and \<open>routing.py\<close> of the worker: the periodic pass that publishes pending jobs
  to the broker and stamps them with the task id. The broker is the argument \<open>enqueue\<close> (\<open>None\<close> when
  the publication raises); \<open>itf i\<close> is what other transactions did to the database between the SELECT
  and the UPDATE of job \<open>i\<close>. Rows that were created at the same instant are taken in table order,
  where the database is free to choose.
\<close>

section \<open>Operations\<close>

definition queue_for_stage :: "processing_job_stage \<Rightarrow> settings \<Rightarrow> string" where
  "queue_for_stage stage s =
     (if stage = ST_TRANSCODE then celery_transcode_queue s
      else if stage \<in> {ST_DETECTION, ST_TRACKING, ST_EVENTS} then celery_gpu_queue s
      else if stage = ST_COURT_MAPPING then celery_cpu_queue s
      else if stage = ST_METRICS then celery_task_default_queue s
      else celery_task_default_queue s)"

definition dispatch_grace :: "settings \<Rightarrow> time" where
  "dispatch_grace s = seconds (min 5 (max 1 (worker_dispatch_interval_seconds s div 2)))"

definition dispatchable :: "time \<Rightarrow> job_row \<Rightarrow> bool" where
  "dispatchable cutoff j \<longleftrightarrow>
     j_status j = JS_PENDING \<and> j_celery_task_id j = None \<and> j_created_at j \<le> cutoff"

definition dispatch_audit :: "string option \<Rightarrow> job_row \<Rightarrow> string \<Rightarrow> db \<Rightarrow> db" where
  "dispatch_audit request_id job task_id d =
     write_worker_audit A_VIDEO_PROCESSING_DISPATCHED (Some (j_team_id job)) ''processing_job''
       (Some (j_id job)) request_id
       [(''video_id'', JUuid (j_video_id job)),
        (''stage'', JStr (processing_job_stage_value (j_stage job))),
        (''celery_task_id'', JStr task_id)] d"

fun dispatch_loop ::
  "(uuid \<Rightarrow> processing_job_stage \<Rightarrow> string option) \<Rightarrow> string option \<Rightarrow> (uuid \<Rightarrow> db \<Rightarrow> db) \<Rightarrow>
   job_row list \<Rightarrow> db \<Rightarrow> uuid list \<times> db" where
  "dispatch_loop enqueue request_id itf [] d = ([], d)"
| "dispatch_loop enqueue request_id itf (job # rows) d =
     (case enqueue (j_id job) (j_stage job) of
        None \<Rightarrow> dispatch_loop enqueue request_id itf rows d
      | Some task_id \<Rightarrow>
          (let d = itf (j_id job) d in
           case stamp_job task_id (j_id job) (jobs d) of
             (t, None) \<Rightarrow> dispatch_loop enqueue request_id itf rows d
           | (t, Some r) \<Rightarrow>
               (let d = dispatch_audit request_id job task_id (d\<lparr>jobs := t\<rparr>);
                    (ids, d) = dispatch_loop enqueue request_id itf rows d
                in (j_id job # ids, d))))"

definition dispatch_rows :: "settings \<Rightarrow> nat \<Rightarrow> time \<Rightarrow> job_row list \<Rightarrow> job_row list" where
  "dispatch_rows s limit now t =
     take limit (sort_key j_created_at (filter (dispatchable (now - dispatch_grace s)) t))"

definition dispatch_pending_jobs ::
  "(uuid \<Rightarrow> processing_job_stage \<Rightarrow> string option) \<Rightarrow> settings \<Rightarrow> string option \<Rightarrow> nat \<Rightarrow> time \<Rightarrow>
   (uuid \<Rightarrow> db \<Rightarrow> db) \<Rightarrow> db \<Rightarrow> uuid list \<times> db" where
  "dispatch_pending_jobs enqueue s request_id limit now itf d =
     dispatch_loop enqueue request_id itf (dispatch_rows s limit now (jobs d)) d"

text \<open>The ids a pass over the given rows publishes when every publication it needs succeeds.\<close>

definition published :: "(uuid \<Rightarrow> processing_job_stage \<Rightarrow> string option) \<Rightarrow> job_row list \<Rightarrow> uuid list" where
  "published enqueue rows = map j_id (filter (\<lambda>j. enqueue (j_id j) (j_stage j) \<noteq> None) rows)"

section \<open>Lemmas\<close>

lemma jobs_dispatch_audit [simp]: "jobs (dispatch_audit r j task d) = jobs d"
  by (simp add: dispatch_audit_def)

lemma dispatch_rows_mem:
  "j \<in> set (dispatch_rows s limit now t) \<Longrightarrow> j \<in> set t \<and> dispatchable (now - dispatch_grace s) j"
  unfolding dispatch_rows_def by (auto dest: in_set_takeD)

lemma dispatch_loop_steps:
  assumes "job_env itf" and "jobs_inv (jobs d)"
  shows "job_step\<^sup>*\<^sup>* (jobs d) (jobs (snd (dispatch_loop enqueue rid itf rows d)))"
  using assms(2)
proof (induction rows arbitrary: d)
  case (Cons job rows)
  show ?case
  proof (cases "enqueue (j_id job) (j_stage job)")
    case None
    with Cons show ?thesis by simp
  next
    case (Some task)
    let ?d = "itf (j_id job) d"
    obtain t r where tr: "stamp_job task (j_id job) (jobs ?d) = (t, r)" by fastforce
    have 1: "job_step\<^sup>*\<^sup>* (jobs d) (jobs ?d)" using assms(1) Cons.prems by (simp add: job_env_def)
    then have i1: "jobs_inv (jobs ?d)" using Cons.prems by (rule job_steps_inv)
    have 2: "job_step\<^sup>*\<^sup>* (jobs ?d) t" using stamp_refines[OF i1] tr by (metis fst_conv)
    then have i2: "jobs_inv t" using i1 by (rule job_steps_inv)
    show ?thesis
    proof (cases r)
      case None
      then show ?thesis using Some tr Cons.IH[OF i1] 1 by (simp add: rtranclp_trans)
    next
      case (Some x)
      let ?e = "dispatch_audit rid job task (?d\<lparr>jobs := t\<rparr>)"
      have "job_step\<^sup>*\<^sup>* t (jobs (snd (dispatch_loop enqueue rid itf rows ?e)))"
        using Cons.IH[of ?e] i2 by simp
      then show ?thesis using Some \<open>enqueue _ _ = Some task\<close> tr 1 2
        by (auto simp: case_prod_beta Let_def intro: rtranclp_trans)
    qed
  qed
qed simp

lemma dispatch_loop_exact:
  assumes "distinct (map j_id (jobs d))" and "distinct (map j_id rows)"
    and "\<forall>j \<in> set rows. j \<in> set (jobs d) \<and> j_status j = JS_PENDING \<and> j_celery_task_id j = None"
  shows "\<exists>d'. dispatch_loop enqueue rid (\<lambda>i d. d) rows d = (published enqueue rows, d') \<and>
    jobs d' = update_where (\<lambda>j. j_id j \<in> set (published enqueue rows))
      (\<lambda>j. j\<lparr>j_celery_task_id := enqueue (j_id j) (j_stage j)\<rparr>) (jobs d)"
  using assms unfolding published_def
proof (induction rows arbitrary: d)
  case Nil
  then show ?case by (simp add: update_where_def)
next
  case (Cons job rows)
  show ?case
  proof (cases "enqueue (j_id job) (j_stage job)")
    case None
    with Cons show ?thesis by simp
  next
    case (Some task)
    obtain t r where tr: "stamp_job task (j_id job) (jobs d) = (t, r)" by fastforce
    have key: "by_key j_id (j_id job) (jobs d) = Some job"
      using Cons.prems by (auto intro: by_key_mem)
    have r: "r = Some (job\<lparr>j_celery_task_id := Some task\<rparr>)"
      using stamp.result[OF Cons.prems(1), of task "j_id job"] key Cons.prems(3) tr by simp
    have t: "t = put_row j_id (job\<lparr>j_celery_task_id := Some task\<rparr>) (jobs d)"
      using stamp.as_put[OF Cons.prems(1), of task "j_id job"] key Cons.prems(3) tr by simp
    let ?e = "dispatch_audit rid job task (d\<lparr>jobs := t\<rparr>)"
    let ?ids = "map j_id (filter (\<lambda>j. enqueue (j_id j) (j_stage j) \<noteq> None) rows)"
    have fresh: "j_id job \<notin> set ?ids" using Cons.prems(2) by auto
    have p1: "distinct (map j_id (jobs ?e))" using Cons.prems(1) by (simp add: t keys_put_row)
    have p2: "distinct (map j_id rows)" using Cons.prems(2) by simp
    have "j_id j \<noteq> j_id job" if "j \<in> set rows" for j using Cons.prems(2) that by (auto simp: image_iff)
    then have p3: "\<forall>j \<in> set rows. j \<in> set (jobs ?e) \<and> j_status j = JS_PENDING \<and> j_celery_task_id j = None"
      using Cons.prems(3) by (simp add: t put_row_other)
    have je: "jobs ?e = t" by simp
    from Cons.IH[OF p1 p2 p3] obtain d' where d':
      "dispatch_loop enqueue rid (\<lambda>i d. d) rows ?e = (?ids, d')"
      "jobs d' = update_where (\<lambda>j. j_id j \<in> set ?ids)
        (\<lambda>j. j\<lparr>j_celery_task_id := enqueue (j_id j) (j_stage j)\<rparr>) t"
      unfolding je by blast
    have "jobs d' = update_where (\<lambda>j. j_id j = j_id job \<or> j_id j \<in> set ?ids)
        (\<lambda>j. j\<lparr>j_celery_task_id := enqueue (j_id j) (j_stage j)\<rparr>) (jobs d)"
      using update_where_put_row[OF Cons.prems(1), of job
          "\<lambda>j. j\<lparr>j_celery_task_id := enqueue (j_id j) (j_stage j)\<rparr>" "\<lambda>j. j_id j \<in> set ?ids"]
        Cons.prems(3) fresh Some unfolding d'(2) t by simp
    with Some tr r d'(1) show ?thesis by (simp add: Let_def)
  qed
qed

lemma dispatch_rows_distinct:
  "distinct (map j_id t) \<Longrightarrow> distinct (map j_id (dispatch_rows s limit now t))"
proof -
  assume "distinct (map j_id t)"
  then have "distinct (map j_id (sort_key j_created_at (filter p t)))" for p
    by (auto simp: distinct_map intro: inj_on_subset)
  then show ?thesis unfolding dispatch_rows_def take_map[symmetric] by (rule distinct_take)
qed

text \<open>A job that carries a task id, and environments and statements that leave it one.\<close>

definition has_task :: "uuid \<Rightarrow> job_row list \<Rightarrow> bool" where
  "has_task k t = (case by_key j_id k t of None \<Rightarrow> False | Some j \<Rightarrow> j_celery_task_id j \<noteq> None)"

definition keeps_task :: "uuid \<Rightarrow> (uuid \<Rightarrow> db \<Rightarrow> db) \<Rightarrow> bool" where
  "keeps_task k itf \<longleftrightarrow> (\<forall>i d. has_task k (jobs d) \<longrightarrow> has_task k (jobs (itf i d)))"

fun clears_task :: "uuid \<Rightarrow> job_op \<Rightarrow> bool" where
  "clears_task k (Op_requeue i) = (i = k)"
| "clears_task k (Op_claim tid now i) = (i = k \<and> tid = None)"
| "clears_task k op = False"

lemma has_task_run_ops:
  assumes "has_task k t" and "\<forall>op \<in> set ops. \<not> clears_task k op"
  shows "has_task k (run_ops ops t)"
proof -
  from assms(1) obtain j where j: "by_key j_id k t = Some j" "j_celery_task_id j \<noteq> None"
    by (auto simp: has_task_def split: option.splits)
  have "\<exists>j'. by_key j_id k (run_ops ops t) = Some j' \<and> j_celery_task_id j' \<noteq> None"
  proof (rule run_ops_row[where P = "\<lambda>j. j_celery_task_id j \<noteq> None", OF _ j])
    fix op and u :: "job_row list" and j
    assume op: "op \<in> set ops" and j: "by_key j_id k u = Some j" "j_celery_task_id j \<noteq> None"
    with assms(2) have "\<not> clears_task k op" by simp
    with exec_op_row[OF j(1), of op] j(2)
    show "\<exists>j'. by_key j_id k (exec_op op u) = Some j' \<and> j_celery_task_id j' \<noteq> None"
      by (cases op) (auto simp: job_value_defs)
  qed
  then show ?thesis by (auto simp: has_task_def)
qed

lemma stamp_has_task:
  assumes "distinct (map j_id t)" and "stamp_job task i t = (t', r)"
  shows "has_task k t \<Longrightarrow> has_task k t' \<and> (k = i \<longrightarrow> r = None)" and "r \<noteq> None \<Longrightarrow> has_task i t'"
  using stamp.result[OF assms(1), of task i] stamp.as_put[OF assms(1), of task i] assms(2)
  by (auto simp: has_task_def by_key_put_row dest: by_key_Some split: option.splits if_splits)

lemma dispatch_loop_keeps:
  assumes "job_env itf" and "keeps_task k itf" and "jobs_inv (jobs d)" and "has_task k (jobs d)"
  shows "k \<notin> set (fst (dispatch_loop enqueue rid itf rows d)) \<and>
    has_task k (jobs (snd (dispatch_loop enqueue rid itf rows d)))"
  using assms(3,4)
proof (induction rows arbitrary: d)
  case (Cons job rows)
  show ?case
  proof (cases "enqueue (j_id job) (j_stage job)")
    case None
    with Cons show ?thesis by simp
  next
    case (Some task)
    let ?d = "itf (j_id job) d"
    obtain t r where tr: "stamp_job task (j_id job) (jobs ?d) = (t, r)" by fastforce
    have i1: "jobs_inv (jobs ?d)" and h1: "has_task k (jobs ?d)"
      using assms(1,2) Cons.prems job_steps_inv unfolding job_env_def keeps_task_def by blast+
    have i2: "jobs_inv t" using stamp_refines[OF i1, of task "j_id job"] i1 tr job_steps_inv by auto
    have h2: "has_task k t" "k = j_id job \<longrightarrow> r = None"
      using stamp_has_task(1)[OF jobs_inv_keys[OF i1] tr h1] by auto
    show ?thesis using Some tr h2 i2 Cons.IH[OF i1 h1]
        Cons.IH[of "dispatch_audit rid job task (?d\<lparr>jobs := t\<rparr>)"]
      by (auto simp: Let_def case_prod_beta split: option.splits)
  qed
qed simp

lemma dispatch_loop_stamps:
  assumes "job_env itf" and "keeps_task k itf" and "jobs_inv (jobs d)"
    and "k \<in> set (fst (dispatch_loop enqueue rid itf rows d))"
  shows "has_task k (jobs (snd (dispatch_loop enqueue rid itf rows d)))"
  using assms(3,4)
proof (induction rows arbitrary: d)
  case (Cons job rows)
  show ?case
  proof (cases "enqueue (j_id job) (j_stage job)")
    case None
    with Cons show ?thesis by simp
  next
    case (Some task)
    let ?d = "itf (j_id job) d"
    obtain t r where tr: "stamp_job task (j_id job) (jobs ?d) = (t, r)" by fastforce
    let ?e = "dispatch_audit rid job task (?d\<lparr>jobs := t\<rparr>)"
    have i1: "jobs_inv (jobs ?d)"
      using assms(1) Cons.prems job_steps_inv unfolding job_env_def by blast
    have i2: "jobs_inv t" using stamp_refines[OF i1, of task "j_id job"] i1 tr job_steps_inv by auto
    have "r \<noteq> None \<Longrightarrow> has_task (j_id job) t"
      using stamp_has_task(2)[OF jobs_inv_keys[OF i1] tr] .
    then have "r \<noteq> None \<Longrightarrow> k = j_id job \<Longrightarrow> has_task k (jobs (snd (dispatch_loop enqueue rid itf rows ?e)))"
      using dispatch_loop_keeps[OF assms(1,2), of ?e enqueue rid rows] i2 by simp
    then show ?thesis using Some tr Cons.prems Cons.IH[OF i1] Cons.IH[of ?e] i2
      by (auto simp: Let_def case_prod_beta split: option.splits)
  qed
qed simp

section \<open>Properties\<close>

text \<open>
  a dispatcher pass that runs undisturbed publishes exactly the jobs it selected whose
  publication succeeded: those, oldest first, are returned and carry the task id the broker gave; a
  job whose publication raised and every other job is left as it was, for the next pass.
\<close>

theorem dispatch_exact:
  assumes "jobs_inv (jobs d)"
  shows "\<exists>d'. dispatch_pending_jobs enqueue s rid limit now (\<lambda>i d. d) d =
      (published enqueue (dispatch_rows s limit now (jobs d)), d') \<and>
    jobs d' = update_where
      (\<lambda>j. j_id j \<in> set (published enqueue (dispatch_rows s limit now (jobs d))))
      (\<lambda>j. j\<lparr>j_celery_task_id := enqueue (j_id j) (j_stage j)\<rparr>) (jobs d)"
  unfolding dispatch_pending_jobs_def
  by (rule dispatch_loop_exact)
    (use assms in \<open>auto simp: jobs_inv_def dispatchable_def dest: dispatch_rows_mem
      intro: dispatch_rows_distinct\<close>)

definition two_jobs :: db where
  "two_jobs = empty_db\<lparr>jobs := [new_job 7 1 2 ST_TRANSCODE 50, new_job 8 3 2 ST_TRANSCODE 20,
     new_job 9 4 2 ST_TRANSCODE (seconds 60)]\<rparr>"

theorem dispatch_exact_witness:
  "fst (dispatch_pending_jobs (\<lambda>i stage. if i = 7 then Some ''a'' else Some ''b'') default_settings
     None 100 (seconds 60) (\<lambda>i d. d) two_jobs) = [8, 7]"
proof -
  have inv: "jobs_inv (jobs two_jobs)"
    by (simp add: two_jobs_def empty_db_def jobs_inv_def new_job_def video_stage_def job_ok_def)
  have rows: "map j_id (dispatch_rows default_settings 100 (seconds 60) (jobs two_jobs)) = [8, 7]"
    by (simp add: two_jobs_def empty_db_def new_job_def dispatch_rows_def dispatchable_def
        dispatch_grace_def default_settings_def)
  show ?thesis
    using dispatch_exact[OF inv, of "\<lambda>i stage. if i = 7 then Some ''a'' else Some ''b''"
        default_settings None 100 "seconds 60"] rows by (auto simp: published_def)
qed

text \<open>
  C4: a dispatched job is not dispatched again. Whatever other dispatchers, workers and the API do
  during the pass and after it, a later pass never returns the job unless it was requeued in
  between: a release for retry keeps the task id.
\<close>

theorem dispatched_once:
  assumes "jobs_inv (jobs d)"
    and "dispatch_pending_jobs enq1 s1 r1 l1 n1 itf1 d = (ids1, d1)"
    and "jobs d2 = run_ops ops (jobs d1)"
    and "k \<in> set ids1"
    and "\<forall>op \<in> set ops. \<not> clears_task k op"
    and "job_env itf1" "keeps_task k itf1" "job_env itf2" "keeps_task k itf2"
  shows "k \<notin> set (fst (dispatch_pending_jobs enq2 s2 r2 l2 n2 itf2 d2))"
proof -
  have d1: "d1 = snd (dispatch_pending_jobs enq1 s1 r1 l1 n1 itf1 d)"
    and ids: "ids1 = fst (dispatch_pending_jobs enq1 s1 r1 l1 n1 itf1 d)" using assms(2) by simp_all
  have "has_task k (jobs d1)"
    using dispatch_loop_stamps[OF assms(6,7,1)] assms(4) unfolding d1 ids dispatch_pending_jobs_def .
  then have h: "has_task k (jobs d2)" using assms(3,5) by (simp add: has_task_run_ops)
  have "jobs_inv (jobs d1)"
    using dispatch_loop_steps[OF assms(6,1)] assms(1) job_steps_inv
    unfolding d1 dispatch_pending_jobs_def by blast
  then have "jobs_inv (jobs d2)" using run_ops_steps job_steps_inv assms(3) by metis
  with dispatch_loop_keeps[OF assms(8,9) _ h] show ?thesis by (simp add: dispatch_pending_jobs_def)
qed

definition one_pass :: "uuid list \<times> db" where
  "one_pass = dispatch_pending_jobs (\<lambda>i stage. Some ''a'') default_settings None 100 (seconds 60)
     (\<lambda>i d. d) two_jobs"

theorem dispatched_once_witness:
  "7 \<in> set (fst one_pass) \<and>
   7 \<notin> set (fst (dispatch_pending_jobs (\<lambda>i stage. Some ''b'') default_settings None 100 (seconds 99)
     (\<lambda>i d. d) ((snd one_pass)\<lparr>jobs := run_ops [Op_claim (Some ''a'') 61 7, Op_release None 62 7]
       (jobs (snd one_pass))\<rparr>)))"
proof -
  have inv: "jobs_inv (jobs two_jobs)"
    by (simp add: two_jobs_def empty_db_def jobs_inv_def new_job_def video_stage_def job_ok_def)
  have k: "7 \<in> set (fst one_pass)"
    by (simp add: one_pass_def two_jobs_def empty_db_def new_job_def dispatch_pending_jobs_def
        dispatch_rows_def dispatchable_def dispatch_grace_def default_settings_def stamp_job_def
        update_returning_def dispatch_audit_def write_worker_audit_def Let_def)
  show ?thesis
    by (intro conjI k dispatched_once[OF inv one_pass_def[symmetric,
          THEN trans, OF prod.collapse[symmetric]] _ k])
      (auto simp: keeps_task_def)
qed

end
