(* ===== verification/CV_Pipeline.thy ===== *)
theory CV_Pipeline
  imports Jobs Billing
begin

text \<open>
  \<open>runtime/cv_pipeline.py\<close> of the worker: the order of the stages, the queueing of the next one, the
  choice of a model artifact and the execution of one stage. A worker function runs in several
  transactions; \<open>itf k\<close> is what other transactions did to the database before its \<open>k\<close>-th statement
  (the points where it holds no uncommitted write), \<open>clk k\<close> the time of that transaction.
\<close>

section \<open>Stages\<close>

fun NEXT_STAGE :: "processing_job_stage \<Rightarrow> processing_job_stage option" where
  "NEXT_STAGE ST_TRANSCODE = Some ST_DETECTION"
| "NEXT_STAGE ST_DETECTION = Some ST_TRACKING"
| "NEXT_STAGE ST_TRACKING = Some ST_COURT_MAPPING"
| "NEXT_STAGE ST_COURT_MAPPING = Some ST_EVENTS"
| "NEXT_STAGE ST_EVENTS = Some ST_METRICS"
| "NEXT_STAGE ST_METRICS = None"

fun UPSTREAM_STAGE :: "processing_job_stage \<Rightarrow> processing_job_stage option" where
  "UPSTREAM_STAGE ST_TRANSCODE = None"
| "UPSTREAM_STAGE ST_DETECTION = Some ST_TRANSCODE"
| "UPSTREAM_STAGE ST_TRACKING = Some ST_DETECTION"
| "UPSTREAM_STAGE ST_COURT_MAPPING = Some ST_TRACKING"
| "UPSTREAM_STAGE ST_EVENTS = Some ST_COURT_MAPPING"
| "UPSTREAM_STAGE ST_METRICS = Some ST_EVENTS"

lemma upstream_next: "UPSTREAM_STAGE s = Some u \<longleftrightarrow> NEXT_STAGE u = Some s"
  by (cases s; cases u) auto

section \<open>Operations\<close>

record stage_result =
  sr_job_id :: uuid
  sr_status :: string
  sr_retryable :: bool
  sr_error_code :: "string option"

definition originating_user_extra :: "uuid \<Rightarrow> db \<Rightarrow> jobj" where
  "originating_user_extra video_id d =
     (case by_key v_id video_id (videos d) of
        None \<Rightarrow> []
      | Some v \<Rightarrow>
          (case v_uploaded_by v of None \<Rightarrow> [] | Some u \<Rightarrow> [(''originating_user_id'', JUuid u)]))"

definition queue_next_stage_if_enabled ::
  "settings \<Rightarrow> video_row \<Rightarrow> processing_job_stage \<Rightarrow> string option \<Rightarrow> uuid \<Rightarrow> time \<Rightarrow> db \<Rightarrow> db" where
  "queue_next_stage_if_enabled s video completed_stage request_id fresh now d =
     (if \<not> cv_pipeline_enabled s then d
      else
        (case NEXT_STAGE completed_stage of
           None \<Rightarrow> d
         | Some next_stage \<Rightarrow>
             (if scalar (\<lambda>j. j_video_id j = v_id video \<and> j_stage j = next_stage) (jobs d) \<noteq> None then d
              else
                (let d = d\<lparr>jobs := queue_job fresh (v_id video) (v_team_id video) next_stage now (jobs d)\<rparr>
                 in write_worker_audit A_VIDEO_PROCESSING_QUEUED (Some (v_team_id video)) ''processing_job''
                      (Some fresh) request_id
                      ([(''video_id'', JUuid (v_id video)),
                        (''stage'', JStr (processing_job_stage_value next_stage)),
                        (''source'', JStr (processing_job_stage_value completed_stage @ ''_completed''))] @
                       (case v_uploaded_by video of
                          None \<Rightarrow> [] | Some u \<Rightarrow> [(''originating_user_id'', JUuid u)])) d))))"

definition stage_requires_artifact :: "settings \<Rightarrow> processing_job_stage \<Rightarrow> bool" where
  "stage_requires_artifact s stage =
     (cv_require_model_artifacts s \<and>
      processing_job_stage_value stage \<in> set (cv_model_artifact_required_stages s))"

definition entitled_artifact :: "processing_job_stage \<Rightarrow> int \<Rightarrow> artifact_row \<Rightarrow> bool" where
  "entitled_artifact stage plan_tier a \<longleftrightarrow>
     a_stage a = stage \<and> a_status a = MA_ACTIVE \<and> a_commercial_use_allowed a \<and> a_min_plan_tier a \<le> plan_tier"

definition active_artifact_for_stage :: "processing_job_stage \<Rightarrow> int \<Rightarrow> db \<Rightarrow> artifact_row option" where
  "active_artifact_for_stage stage plan_tier d =
     scalar (\<lambda>a. True)
       (sort_key (\<lambda>a. (- a_min_plan_tier a, - a_created_at a))
         (filter (entitled_artifact stage plan_tier) (artifacts d)))"

definition stage_metadata ::
  "processing_job_stage \<Rightarrow> video_row \<Rightarrow> game_row option \<Rightarrow> artifact_row option \<Rightarrow> jobj" where
  "stage_metadata stage video game artifact =
     (let shot_clock_enabled = (case game of None \<Rightarrow> False | Some g \<Rightarrow> g_shot_clock_enabled g) in
      [(''stage'', JStr (processing_job_stage_value stage)),
       (''contract_only'', JBool (artifact = None)),
       (''artifact_id'', jopt (\<lambda>a. JUuid (a_id a)) artifact),
       (''video_id'', JUuid (v_id video)),
       (''frame_clock_required'', JBool True),
       (''shot_clock'', JObj [(''enabled'', JBool shot_clock_enabled),
          (''seconds'', if shot_clock_enabled
             then (case game of None \<Rightarrow> JNull | Some g \<Rightarrow> jopt JInt (g_shot_clock_seconds g)) else JNull)]),
       (''outputs'', JObj [(''detections'', JInt 0), (''tracks'', JInt 0), (''events'', JInt 0),
          (''metrics'', JInt 0)])])"

definition terminal_cv_failure ::
  "job_row \<Rightarrow> error_code \<Rightarrow> string \<Rightarrow> string option \<Rightarrow> time \<Rightarrow> db \<Rightarrow> stage_result \<times> db" where
  "terminal_cv_failure job error_code error_message request_id now d =
     (let origin_extra = originating_user_extra (j_video_id job) d;
          d = d\<lparr>jobs := fst (fail_job error_code error_message None now (j_id job) (jobs d))\<rparr>;
          d = write_worker_audit A_VIDEO_PROCESSING_FAILED (Some (j_team_id job)) ''processing_job''
                (Some (j_id job)) request_id
                ([(''video_id'', JUuid (j_video_id job)),
                  (''stage'', JStr (processing_job_stage_value (j_stage job))),
                  (''error_code'', JStr error_code), (''error_message'', JStr error_message),
                  (''retryable'', JBool False)] @ origin_extra) d
      in (\<lparr>sr_job_id = j_id job, sr_status = ''failed'', sr_retryable = False,
           sr_error_code = Some error_code\<rparr>, d))"

definition audit_started :: "job_row \<Rightarrow> string option \<Rightarrow> string option \<Rightarrow> jobj \<Rightarrow> db \<Rightarrow> db" where
  "audit_started claimed celery_task_id request_id origin_extra d =
     write_worker_audit A_VIDEO_PROCESSING_STARTED (Some (j_team_id claimed)) ''processing_job''
       (Some (j_id claimed)) request_id
       ([(''video_id'', JUuid (j_video_id claimed)),
         (''stage'', JStr (processing_job_stage_value (j_stage claimed))),
         (''celery_task_id'', jopt JStr celery_task_id)] @ origin_extra) d"

text \<open>The last transaction of a stage: completion, audit row, next stage. The row \<open>complete_job\<close>
  returns is not looked at.\<close>

definition finish_cv_stage ::
  "settings \<Rightarrow> job_row \<Rightarrow> video_row \<Rightarrow> artifact_row option \<Rightarrow> jobj \<Rightarrow> jobj \<Rightarrow> string option \<Rightarrow> uuid \<Rightarrow>
   time \<Rightarrow> db \<Rightarrow> stage_result \<times> db" where
  "finish_cv_stage s claimed video artifact metadata origin_extra request_id fresh now d =
     (let d = d\<lparr>jobs := fst (complete_job (Some metadata) None now (j_id claimed) (jobs d))\<rparr>;
          d = write_worker_audit A_VIDEO_PROCESSING_COMPLETED (Some (j_team_id claimed)) ''processing_job''
                (Some (j_id claimed)) request_id
                ([(''video_id'', JUuid (v_id video)),
                  (''stage'', JStr (processing_job_stage_value (j_stage claimed))),
                  (''artifact_id'', jopt (\<lambda>a. JUuid (a_id a)) artifact)] @ origin_extra) d;
          d = queue_next_stage_if_enabled s video (j_stage claimed) request_id fresh now d
      in (\<lparr>sr_job_id = j_id claimed, sr_status = ''completed'', sr_retryable = False,
           sr_error_code = None\<rparr>, d))"

text \<open>The work of a stage, once its prerequisites are met: entitlement, artifact, metadata.\<close>

definition run_cv_stage_work ::
  "settings \<Rightarrow> job_row \<Rightarrow> video_row \<Rightarrow> jobj \<Rightarrow> string option \<Rightarrow> uuid \<Rightarrow> (nat \<Rightarrow> time) \<Rightarrow>
   (nat \<Rightarrow> db \<Rightarrow> db) \<Rightarrow> db \<Rightarrow> stage_result \<times> db" where
  "run_cv_stage_work s claimed video origin_extra request_id fresh clk itf d =
     (let d = itf 5 d;
          d = d\<lparr>jobs := fst (touch_heartbeat (Some 25) None (clk 5) (j_id claimed) (jobs d))\<rparr>;
          d = itf 6 d;
          plan_ctx = resolve_team_plan d (v_team_id video)
      in if plan_ctx = None \<and> stage_requires_artifact s (j_stage claimed) then
           terminal_cv_failure claimed E_CV_MODEL_ARTIFACT_REQUIRED
             (''No billing entitlement context is available for '' @
              processing_job_stage_value (j_stage claimed)) request_id (clk 7) (itf 7 d)
         else
           (let plan_tier = (case plan_ctx of None \<Rightarrow> 0 | Some c \<Rightarrow> tp_plan_tier c);
                d = itf 7 d;
                artifact = active_artifact_for_stage (j_stage claimed) plan_tier d
            in if stage_requires_artifact s (j_stage claimed) \<and> artifact = None then
                 terminal_cv_failure claimed E_CV_MODEL_ARTIFACT_REQUIRED
                   (''No commercial CV artifact entitled to plan tier '' @ int_str plan_tier @
                    '' is available for '' @ processing_job_stage_value (j_stage claimed))
                   request_id (clk 8) (itf 8 d)
               else
                 (let d = itf 8 d;
                      game = by_key g_id (v_game_id video) (games d);
                      metadata = stage_metadata (j_stage claimed) video game artifact;
                      d = itf 9 d;
                      d = d\<lparr>jobs := fst (touch_heartbeat (Some 75) None (clk 9) (j_id claimed) (jobs d))\<rparr>;
                      d = itf 10 d
                  in finish_cv_stage s claimed video artifact metadata origin_extra request_id fresh (clk 10) d)))"

text \<open>From the claimed job on: the prerequisites, then the work of the stage.\<close>

definition run_claimed_cv_stage ::
  "settings \<Rightarrow> job_row \<Rightarrow> jobj \<Rightarrow> string option \<Rightarrow> uuid \<Rightarrow> (nat \<Rightarrow> time) \<Rightarrow> (nat \<Rightarrow> db \<Rightarrow> db) \<Rightarrow> db \<Rightarrow>
   stage_result \<times> db" where
  "run_claimed_cv_stage s claimed origin_extra request_id fresh clk itf d =
     (if \<not> cv_pipeline_enabled s
      then terminal_cv_failure claimed E_CV_PIPELINE_DISABLED
        ''CV pipeline is disabled for this deployment'' request_id (clk 3) (itf 3 d)
      else
        (let d = itf 3 d in
         case by_key v_id (j_video_id claimed) (videos d) of
           None \<Rightarrow>
             terminal_cv_failure claimed E_CV_STAGE_PREREQUISITE_MISSING
               ''Browser-safe video artifact is required before CV stages run'' request_id (clk 4) (itf 4 d)
         | Some video \<Rightarrow>
             if v_status video \<noteq> VS_PROCESSED \<or> \<not> truthy (v_storage_key_mezzanine video) then
               terminal_cv_failure claimed E_CV_STAGE_PREREQUISITE_MISSING
                 ''Browser-safe video artifact is required before CV stages run'' request_id (clk 4) (itf 4 d)
             else
               (let upstream = the (UPSTREAM_STAGE (j_stage claimed)); d = itf 4 d in
                if scalar (\<lambda>j. j_video_id j = v_id video \<and> j_stage j = upstream \<and> j_status j = JS_COMPLETED)
                     (jobs d) = None then
                  terminal_cv_failure claimed E_CV_STAGE_PREREQUISITE_MISSING
                    (processing_job_stage_value upstream @ '' must complete before '' @
                     processing_job_stage_value (j_stage claimed)) request_id (clk 5) (itf 5 d)
                else run_cv_stage_work s claimed video origin_extra request_id fresh clk itf d)))"

definition execute_cv_stage ::
  "settings \<Rightarrow> uuid \<Rightarrow> string option \<Rightarrow> string option \<Rightarrow> uuid \<Rightarrow> (nat \<Rightarrow> time) \<Rightarrow> (nat \<Rightarrow> db \<Rightarrow> db) \<Rightarrow>
   db \<Rightarrow> stage_result \<times> db" where
  "execute_cv_stage s job_id celery_task_id request_id fresh clk itf d =
     (let d = itf 0 d in
      case by_key j_id job_id (jobs d) of
        None \<Rightarrow>
          (\<lparr>sr_job_id = job_id, sr_status = ''skipped'', sr_retryable = False,
            sr_error_code = Some ''not_found''\<rparr>, d)
      | Some job \<Rightarrow>
          if UPSTREAM_STAGE (j_stage job) = None then
            terminal_cv_failure job E_PROCESSING_STAGE_UNKNOWN
              (''Unexpected CV stage: '' @ processing_job_stage_value (j_stage job)) request_id (clk 1) (itf 1 d)
          else
            (let d = itf 1 d in
             case claim_job celery_task_id (clk 1) job_id (jobs d) of
               (t, None) \<Rightarrow>
                 (\<lparr>sr_job_id = job_id, sr_status = ''skipped'', sr_retryable = False, sr_error_code = None\<rparr>,
                  d\<lparr>jobs := t\<rparr>)
             | (t, Some claimed) \<Rightarrow>
                 (let d = itf 2 (d\<lparr>jobs := t\<rparr>);
                      origin_extra = originating_user_extra (j_video_id claimed) d;
                      d = audit_started claimed celery_task_id request_id origin_extra d
                  in run_claimed_cv_stage s claimed origin_extra request_id fresh clk itf d)))"

section \<open>Lemmas\<close>

lemma safe_queue_next [safe_intros]:
  "safe a d \<Longrightarrow> safe a (queue_next_stage_if_enabled s v st r fresh now d)"
  unfolding queue_next_stage_if_enabled_def Let_def
  by (simp add: safe_worker_audit safe_queue_job split: option.splits)

lemma safe_terminal_cv_failure [safe_intros]:
  "safe a d \<Longrightarrow> safe a (snd (terminal_cv_failure j c m r now d))"
  unfolding terminal_cv_failure_def Let_def snd_conv by (intro safe_intros)

lemma safe_finish_cv_stage [safe_intros]:
  "safe a d \<Longrightarrow> safe a (snd (finish_cv_stage s c v ar meta x r fresh now d))"
  unfolding finish_cv_stage_def Let_def snd_conv by (intro safe_intros)

lemma safe_audit_started [safe_intros]: "safe a d \<Longrightarrow> safe a (audit_started c t r x d)"
  unfolding audit_started_def by (intro safe_intros)

lemma safe_run_cv_stage_work:
  assumes "job_env itf" and "safe a d"
  shows "safe a (snd (run_cv_stage_work s c v x r fresh clk itf d))"
  unfolding run_cv_stage_work_def Let_def
  by (auto split: option.splits intro!: safe_intros safe_itf[OF _ assms(1)] assms(2))

lemma safe_run_claimed:
  assumes "job_env itf" and "safe a d"
  shows "safe a (snd (run_claimed_cv_stage s c x r fresh clk itf d))"
  unfolding run_claimed_cv_stage_def Let_def
  by (auto split: option.splits
      intro!: safe_intros safe_run_cv_stage_work[OF assms(1)] safe_itf[OF _ assms(1)] assms(2))

lemma safe_claim:
  "claim_job tid now i (jobs d) = (t, u) \<Longrightarrow> safe a d \<Longrightarrow> safe a (d\<lparr>jobs := t\<rparr>)"
  using safe_ops(1)[of a d tid now i] by simp

lemma safe_execute_cv_stage:
  assumes "job_env itf"
  shows "safe d (snd (execute_cv_stage s i tid r fresh clk itf d))"
  unfolding execute_cv_stage_def Let_def
  by (auto split: option.splits prod.splits intro!: safe_run_claimed safe_audit_started
      safe_itf[OF _ assms] safe_terminal_cv_failure assms elim!: safe_claim)

lemma status_terminal_cv_failure [simp]: "sr_status (fst (terminal_cv_failure j c m r now d)) = ''failed''"
  by (simp add: terminal_cv_failure_def Let_def)

lemma scalar_hd: "scalar (\<lambda>a. True) xs = (if xs = [] then None else Some (hd xs))"
  by (cases xs) auto

text \<open>What a run that ends as completed went through.\<close>

lemma run_claimed_completed:
  assumes "sr_status (fst (run_claimed_cv_stage s c x r fresh clk itf d)) = ''completed''" and "job_env itf"
  obtains d4 u where "cv_pipeline_enabled s" "safe d d4" "u \<in> set (jobs d4)" "j_video_id u = j_video_id c"
    "j_stage u = the (UPSTREAM_STAGE (j_stage c))" "j_status u = JS_COMPLETED"
    "safe d4 (snd (run_claimed_cv_stage s c x r fresh clk itf d))"
proof -
  let ?d3 = "itf 3 d" let ?d4 = "itf 4 ?d3"
  have en: "cv_pipeline_enabled s"
    using assms(1) by (simp add: run_claimed_cv_stage_def split: if_splits)
  obtain v where v: "by_key v_id (j_video_id c) (videos ?d3) = Some v" "v_status v = VS_PROCESSED"
      "truthy (v_storage_key_mezzanine v)"
    using assms(1) en by (auto simp: run_claimed_cv_stage_def Let_def split: option.splits if_splits)
  let ?p = "\<lambda>j. j_video_id j = v_id v \<and> j_stage j = the (UPSTREAM_STAGE (j_stage c)) \<and> j_status j = JS_COMPLETED"
  have "scalar ?p (jobs ?d4) \<noteq> None"
    using assms(1) en v by (auto simp: run_claimed_cv_stage_def Let_def split: if_splits)
  then obtain u where u: "scalar ?p (jobs ?d4) = Some u" by blast
  have "safe ?d4 (snd (run_claimed_cv_stage s c x r fresh clk itf d))"
    unfolding run_claimed_cv_stage_def Let_def using en v u
    by (simp add: safe_run_cv_stage_work[OF assms(2)])
  moreover have "safe d ?d4" by (intro safe_itf[OF _ assms(2)] safe_refl)
  moreover have "v_id v = j_video_id c" using by_key_Some[OF v(1)] by simp
  ultimately show ?thesis using that[of ?d4 u] en scalar_Some[OF u] by simp
qed

lemma execute_cv_claimed:
  assumes "sr_status (fst (execute_cv_stage s i tid r fresh clk itf d)) = ''completed''"
  obtains t c d2 where "claim_job tid (clk 1) i (jobs (itf 1 (itf 0 d))) = (t, Some c)"
    "UPSTREAM_STAGE (j_stage (the (by_key j_id i (jobs (itf 0 d))))) \<noteq> None"
    "by_key j_id i (jobs (itf 0 d)) \<noteq> None"
    "d2 = audit_started c tid r (originating_user_extra (j_video_id c) (itf 2 ((itf 1 (itf 0 d))\<lparr>jobs := t\<rparr>)))
       (itf 2 ((itf 1 (itf 0 d))\<lparr>jobs := t\<rparr>))"
    "execute_cv_stage s i tid r fresh clk itf d = run_claimed_cv_stage s c
       (originating_user_extra (j_video_id c) (itf 2 ((itf 1 (itf 0 d))\<lparr>jobs := t\<rparr>))) r fresh clk itf d2"
  using assms unfolding execute_cv_stage_def Let_def
  by (auto split: option.splits prod.splits if_splits)

lemma claim_result:
  assumes "jobs_inv t" and "claim_job tid now i t = (t', Some c)"
  shows "by_key j_id i t' = Some c \<and> j_status c = JS_RUNNING \<and>
    (\<exists>j. by_key j_id i t = Some j \<and> video_stage c = video_stage j \<and> j_id c = i \<and> c = claim_values tid now j)"
proof -
  from assms claim.result[OF jobs_inv_keys, of t tid now i] obtain j where
    j: "by_key j_id i t = Some j" "j_status j = JS_PENDING" "c = claim_values tid now j"
    by (auto split: option.splits if_splits)
  moreover have "t' = fst (claim_job tid now i t)" using assms by simp
  ultimately show ?thesis
    using by_key_Some[OF j(1)] by (simp add: claim.row claim_values_def video_stage_def)
qed

section \<open>Properties\<close>

text \<open>
  C5: the pipeline order is enforced against every interleaving. When a delivery of a stage's job
  ends as completed, the pipeline was enabled and the job of the preceding stage of the same video
  is completed, in the state in which the delivery ends.
\<close>

theorem cv_completed_after_upstream:
  assumes "jobs_inv (jobs d)" and "job_env itf"
    and "sr_status (fst (execute_cv_stage s i tid r fresh clk itf d)) = ''completed''"
  shows "cv_pipeline_enabled s \<and>
    (\<exists>j u. by_key j_id i (jobs (snd (execute_cv_stage s i tid r fresh clk itf d))) = Some j \<and>
       u \<in> set (jobs (snd (execute_cv_stage s i tid r fresh clk itf d))) \<and>
       UPSTREAM_STAGE (j_stage j) = Some (j_stage u) \<and> j_video_id u = j_video_id j \<and>
       j_status u = JS_COMPLETED)"
proof -
  let ?D = "snd (execute_cv_stage s i tid r fresh clk itf d)"
  let ?d1 = "itf 1 (itf 0 d)"
  obtain t c d2 where cl: "claim_job tid (clk 1) i (jobs ?d1) = (t, Some c)"
    and up0: "UPSTREAM_STAGE (j_stage (the (by_key j_id i (jobs (itf 0 d))))) \<noteq> None"
    and j0: "by_key j_id i (jobs (itf 0 d)) \<noteq> None"
    and d2: "d2 = audit_started c tid r (originating_user_extra (j_video_id c) (itf 2 (?d1\<lparr>jobs := t\<rparr>)))
       (itf 2 (?d1\<lparr>jobs := t\<rparr>))"
    and ex: "execute_cv_stage s i tid r fresh clk itf d = run_claimed_cv_stage s c
       (originating_user_extra (j_video_id c) (itf 2 (?d1\<lparr>jobs := t\<rparr>))) r fresh clk itf d2"
    using execute_cv_claimed[OF assms(3)] .
  have s0: "safe d (itf 0 d)" and s1: "safe (itf 0 d) ?d1" and s2: "safe (?d1\<lparr>jobs := t\<rparr>) d2"
    and sc: "safe ?d1 (?d1\<lparr>jobs := t\<rparr>)" unfolding d2
    by (intro safe_itf[OF _ assms(2)] safe_refl safe_audit_started safe_claim[OF cl])+
  have i0: "jobs_inv (jobs (itf 0 d))" and i1: "jobs_inv (jobs ?d1)"
    and it: "jobs_inv t" and i2: "jobs_inv (jobs d2)" and st: "job_step\<^sup>*\<^sup>* (jobs (itf 0 d)) (jobs ?d1)"
    and st2: "job_step\<^sup>*\<^sup>* t (jobs d2)"
    using s0 s1 s2 sc assms(1) by (auto simp: safe_def)
  from claim_result[OF i1 cl] have ct: "by_key j_id i t = Some c" by blast
  have upc: "UPSTREAM_STAGE (j_stage c) \<noteq> None"
  proof -
    from j0 obtain j where j: "by_key j_id i (jobs (itf 0 d)) = Some j" by blast
    from job_steps_row[OF st j] claim_result[OF i1 cl] have "video_stage c = video_stage j" by auto
    with up0 j show ?thesis by (simp add: video_stage_def)
  qed
  obtain d4 u where run: "cv_pipeline_enabled s" "safe d2 d4" "u \<in> set (jobs d4)"
      "j_video_id u = j_video_id c" "j_stage u = the (UPSTREAM_STAGE (j_stage c))"
      "j_status u = JS_COMPLETED" "safe d4 ?D"
    using run_claimed_completed[OF assms(3)[unfolded ex] assms(2)] unfolding ex by metis
  have i4: "jobs_inv (jobs d4)" and st4: "job_step\<^sup>*\<^sup>* (jobs d4) (jobs ?D)"
    and st24: "job_step\<^sup>*\<^sup>* (jobs d2) (jobs d4)" using run(2,7) i2 by (auto simp: safe_def)
  from job_steps_row[OF rtranclp_trans[OF rtranclp_trans[OF st2 st24] st4] ct]
  obtain j where j: "by_key j_id i (jobs ?D) = Some j" "video_stage j = video_stage c" by blast
  have "by_key j_id (j_id u) (jobs d4) = Some u" using i4 run(3) by (simp add: by_key_mem jobs_inv_def)
  from by_key_Some[OF completed_stays[OF st4 this run(6)]] have "u \<in> set (jobs ?D)" by simp
  with j run upc show ?thesis by (auto simp: video_stage_def)
qed

definition detection_artifact :: artifact_row where
  "detection_artifact = \<lparr>a_id = 70, a_stage = ST_DETECTION, a_status = MA_ACTIVE,
     a_commercial_use_allowed = True, a_min_plan_tier = 0, a_created_at = 0\<rparr>"

definition cv_settings :: settings where
  "cv_settings = default_settings\<lparr>cv_pipeline_enabled := True\<rparr>"

definition cv_db :: db where
  "cv_db = reserved_db\<lparr>
     videos := [sample_video\<lparr>v_status := VS_PROCESSED, v_storage_key_mezzanine := Some ''mezzanine/2/1/video.mp4''\<rparr>],
     jobs := [complete_values None 6 (claim_values (Some ''t1'') 5 (new_job 7 1 2 ST_TRANSCODE 0)),
              new_job 8 1 2 ST_DETECTION 10],
     artifacts := [detection_artifact]\<rparr>"

lemmas cv_eval =
  execute_cv_stage_def run_claimed_cv_stage_def run_cv_stage_work_def finish_cv_stage_def
  terminal_cv_failure_def queue_next_stage_if_enabled_def originating_user_extra_def
  audit_started_def write_worker_audit_def queue_job_def cv_db_def cv_settings_def
  detection_artifact_def stage_requires_artifact_def active_artifact_for_stage_def
  entitled_artifact_def new_job_def claim_job_def touch_heartbeat_def complete_job_def
  claim_values_def heartbeat_values_def complete_values_def task_matches_def update_returning_def
  video_stage_def billing_eval

theorem cv_completed_after_upstream_witness:
  "sr_status (fst (execute_cv_stage cv_settings 8 (Some ''t2'') None 9 (\<lambda>k. 20) (\<lambda>k d. d) cv_db)) = ''completed'' \<and>
   (\<exists>u \<in> set (jobs (snd (execute_cv_stage cv_settings 8 (Some ''t2'') None 9 (\<lambda>k. 20) (\<lambda>k d. d) cv_db))).
      j_status u = JS_COMPLETED)"
proof -
  have inv: "jobs_inv (jobs cv_db)"
    by (simp add: jobs_inv_def cv_db_def new_job_def video_stage_def job_ok_def claim_values_def
        complete_values_def)
  have st: "sr_status (fst (execute_cv_stage cv_settings 8 (Some ''t2'') None 9 (\<lambda>k. 20) (\<lambda>k d. d) cv_db)) = ''completed''"
    by (simp add: cv_eval)
  from cv_completed_after_upstream[OF inv job_env_id st] st show ?thesis by blast
qed

text \<open>
  a stage that needs a model never runs without entitlement. When an undisturbed delivery of
  such a stage ends as completed, the team has an active subscription, and an active artifact of the
  stage, licensed for commercial use, exists whose minimum plan tier the subscription reaches.
\<close>

theorem cv_completed_entitled:
  assumes "sr_status (fst (execute_cv_stage s i tid r fresh clk (\<lambda>k d. d) d)) = ''completed''"
    and "by_key j_id i (jobs d) = Some j" and "jobs_inv (jobs d)"
    and "stage_requires_artifact s (j_stage j)"
  shows "\<exists>v ctx a. by_key v_id (j_video_id j) (videos d) = Some v \<and> v_status v = VS_PROCESSED \<and>
    resolve_team_plan d (v_team_id v) = Some ctx \<and> a \<in> set (artifacts d) \<and>
    entitled_artifact (j_stage j) (tp_plan_tier ctx) a"
proof -
  obtain t c d2 where cl: "claim_job tid (clk 1) i (jobs d) = (t, Some c)"
    and d2: "d2 = audit_started c tid r (originating_user_extra (j_video_id c) (d\<lparr>jobs := t\<rparr>)) (d\<lparr>jobs := t\<rparr>)"
    and ex: "execute_cv_stage s i tid r fresh clk (\<lambda>k d. d) d = run_claimed_cv_stage s c
       (originating_user_extra (j_video_id c) (d\<lparr>jobs := t\<rparr>)) r fresh clk (\<lambda>k d. d) d2"
    using execute_cv_claimed[OF assms(1)] by metis
  have c: "j_video_id c = j_video_id j" "j_stage c = j_stage j"
    using claim_result[OF assms(3) cl] assms(2) by (auto simp: video_stage_def)
  have frame: "videos d2 = videos d" "artifacts d2 = artifacts d"
    "resolve_team_plan (d2\<lparr>jobs := x\<rparr>) t' = resolve_team_plan d t'" for x t'
    unfolding d2 audit_started_def
    by (simp, simp, rule resolve_team_plan_reads) simp_all
  have art: "active_artifact_for_stage st n (d2\<lparr>jobs := x\<rparr>) = Some a \<Longrightarrow>
      a \<in> set (artifacts d) \<and> entitled_artifact st n a" for st n x a
    unfolding active_artifact_for_stage_def using frame by (auto dest!: scalar_Some)
  show ?thesis
    using assms(1,4) c frame(1) unfolding ex run_claimed_cv_stage_def run_cv_stage_work_def Let_def
    by (auto simp: frame(3) split: option.splits if_splits dest!: art)
qed

theorem cv_completed_entitled_witness:
  "\<exists>v ctx a. by_key v_id 1 (videos cv_db) = Some v \<and> resolve_team_plan cv_db (v_team_id v) = Some ctx \<and>
     a \<in> set (artifacts cv_db) \<and> entitled_artifact ST_DETECTION (tp_plan_tier ctx) a"
proof -
  have inv: "jobs_inv (jobs cv_db)"
    by (simp add: jobs_inv_def cv_db_def new_job_def video_stage_def job_ok_def claim_values_def
        complete_values_def)
  have st: "sr_status (fst (execute_cv_stage cv_settings 8 (Some ''t2'') None 9 (\<lambda>k. 20) (\<lambda>k d. d) cv_db)) = ''completed''"
    by (simp add: cv_eval)
  have j: "by_key j_id 8 (jobs cv_db) = Some (new_job 8 1 2 ST_DETECTION 10)"
    by (simp add: cv_db_def by_key_def new_job_def complete_values_def claim_values_def)
  have "stage_requires_artifact cv_settings (j_stage (new_job 8 1 2 ST_DETECTION 10))"
    by (simp add: stage_requires_artifact_def cv_settings_def default_settings_def new_job_def)
  from cv_completed_entitled[OF st j inv this] show ?thesis by (auto simp: new_job_def)
qed

text \<open>
  The model artifact chosen for a stage is the best the plan is entitled to: it is entitled, no
  entitled artifact has a higher minimum tier, none of the same tier is newer; and one is found
  whenever an entitled artifact exists.
\<close>

theorem best_artifact_chosen:
  assumes "b \<in> set (artifacts d)" and "entitled_artifact st n b"
  shows "\<exists>a \<in> set (artifacts d). active_artifact_for_stage st n d = Some a \<and> entitled_artifact st n a \<and>
    (a_min_plan_tier b < a_min_plan_tier a \<or>
     a_min_plan_tier b = a_min_plan_tier a \<and> a_created_at b \<le> a_created_at a)"
proof -
  let ?k = "\<lambda>a. (- a_min_plan_tier a, - a_created_at a)"
  let ?f = "filter (entitled_artifact st n) (artifacts d)"
  let ?s = "sort_key ?k ?f"
  have b: "b \<in> set ?s" using assms by simp
  then obtain a xs where s: "?s = a # xs" by (cases ?s) auto
  have "sorted (map ?k (a # xs))" unfolding s[symmetric] by simp
  with b s have "?k a \<le> ?k b" by auto
  moreover have "a \<in> set ?s" using s by simp
  moreover have "active_artifact_for_stage st n d = Some a"
    unfolding active_artifact_for_stage_def using s by simp
  ultimately show ?thesis by (auto simp: less_eq_prod_def)
qed

theorem best_artifact_chosen_witness:
  "\<exists>a. active_artifact_for_stage ST_DETECTION 3 (cv_db\<lparr>artifacts :=
      [detection_artifact, detection_artifact\<lparr>a_id := 71, a_min_plan_tier := 2\<rparr>]\<rparr>) = Some a \<and>
     (2 < a_min_plan_tier a \<or> 2 = a_min_plan_tier a \<and> 0 \<le> a_created_at a)"
  using best_artifact_chosen[of "detection_artifact\<lparr>a_id := 71, a_min_plan_tier := 2\<rparr>"
      "cv_db\<lparr>artifacts := [detection_artifact, detection_artifact\<lparr>a_id := 71, a_min_plan_tier := 2\<rparr>]\<rparr>"
      ST_DETECTION 3]
  by (auto simp: detection_artifact_def entitled_artifact_def)

text \<open>
  \<open>execute_cv_stage\<close> does not look at the row \<open>complete_job\<close> returns. In a schedule in which
  the job is failed (stale recovery, \<open>on_failure\<close>) just before its last transaction, the delivery
  still reports completion, writes the completion to the audit log and queues the next stage, while
  the job stays failed.
\<close>

theorem cv_completion_unchecked:
  "\<exists>itf. job_env itf \<and>
     (let (res, d') = execute_cv_stage cv_settings 8 (Some ''t2'') None 9 (\<lambda>k. 20) itf cv_db
      in sr_status res = ''completed'' \<and>
         map_option j_status (by_key j_id 8 (jobs d')) = Some JS_FAILED \<and>
         map_option j_stage (by_key j_id 9 (jobs d')) = Some ST_TRACKING \<and>
         A_VIDEO_PROCESSING_COMPLETED \<in> set (map au_action (audit_logs d')))"
proof (intro exI conjI)
  let ?itf = "\<lambda>k d. if k = 10
    then d\<lparr>jobs := fst (fail_job E_PROCESSING_STALE_RECOVERED ''stale'' None 20 8 (jobs d))\<rparr> else d"
  show "job_env ?itf" by (auto simp: job_env_def intro: fail_refines)
  show "let (res, d') = execute_cv_stage cv_settings 8 (Some ''t2'') None 9 (\<lambda>k. 20) ?itf cv_db
      in sr_status res = ''completed'' \<and>
         map_option j_status (by_key j_id 8 (jobs d')) = Some JS_FAILED \<and>
         map_option j_stage (by_key j_id 9 (jobs d')) = Some ST_TRACKING \<and>
         A_VIDEO_PROCESSING_COMPLETED \<in> set (map au_action (audit_logs d'))"
    by (simp add: cv_eval fail_job_def fail_values_def)
qed

end
