(* ===== verification/Transcode.thy ===== *)
theory Transcode
  imports CV_Pipeline Storage
begin

text \<open>
  \<open>runtime/transcode.py\<close> of the worker and the terminal failure hook of \<open>tasks.py\<close>. The object store is
  a \<open>presigner\<close> (\<open>None\<close> when storage is not configured); the outcome of \<open>create_browser_mezzanine\<close>
  (download, ffmpeg, upload) is the argument \<open>mezz\<close>, and \<open>beats\<close> the number of heartbeats sent while
  it runs. \<open>itf\<close> and \<open>clk\<close> are as in the CV pipeline. \<open>execute_transcode\<close> also returns the storage keys
  whose deletion it requested.
\<close>

section \<open>Worker errors\<close>

datatype worker_exn =
    TransientProcessingError error_code string jobj
  | PermanentProcessingError error_code string jobj
  | OtherException "string option" string "jobj option"

fun exc_code :: "worker_exn \<Rightarrow> string" where
  "exc_code (TransientProcessingError c m x) = (if c = [] then E_INTERNAL_ERROR else c)"
| "exc_code (PermanentProcessingError c m x) = (if c = [] then E_INTERNAL_ERROR else c)"
| "exc_code (OtherException c m x) = (if truthy c then the c else E_INTERNAL_ERROR)"

fun exc_message :: "worker_exn \<Rightarrow> string" where
  "exc_message (TransientProcessingError c m x) = m"
| "exc_message (PermanentProcessingError c m x) = m"
| "exc_message (OtherException c m x) = m"

fun exc_details :: "worker_exn \<Rightarrow> jobj option" where
  "exc_details (TransientProcessingError c m x) = Some x"
| "exc_details (PermanentProcessingError c m x) = Some x"
| "exc_details (OtherException c m x) = x"

fun is_permanent :: "worker_exn \<Rightarrow> bool" where
  "is_permanent (PermanentProcessingError c m x) = True"
| "is_permanent e = False"

section \<open>Verification of the uploaded object\<close>

definition is_md5_etag :: "string option \<Rightarrow> bool" where
  "is_md5_etag etag =
     (case etag of
        None \<Rightarrow> False
      | Some e \<Rightarrow> CHR ''-'' \<notin> set e \<and> length e = 32 \<and> (\<forall>c \<in> set e. c \<in> set ''0123456789abcdefABCDEF''))"

definition verify_storage :: "video_row \<Rightarrow> presigner \<Rightarrow> worker_exn + jobj" where
  "verify_storage video presigner =
     (if \<not> truthy (v_storage_key_raw video)
      then Inl (PermanentProcessingError E_PROCESSING_OBJECT_MISSING ''Video has no storage key'' [])
      else
        (let key = the (v_storage_key_raw video) in
         case ps_head_object presigner key of
           Inl e \<Rightarrow>
             if is_storage_failure e then
               (let storage_failure = storage_failure_diagnostics e in
                Inl (TransientProcessingError E_PROCESSING_STORAGE_FAILURE ''Storage head_object failed''
                  (if storage_failure \<noteq> [] then [(''storage_failure'', JObj storage_failure)] else [])))
             else Inl (OtherException None ''storage exception'' None)
         | Inr None \<Rightarrow>
             Inl (PermanentProcessingError E_PROCESSING_OBJECT_MISSING
               ''Uploaded object was not found in storage'' [])
         | Inr (Some metadata) \<Rightarrow>
             (let actual_size = as_int (jget ''ContentLength'' metadata);
                  actual_checksum = object_checksum_sha256 metadata
              in if actual_size \<noteq> None \<and> v_file_size_bytes video \<noteq> None \<and> actual_size \<noteq> v_file_size_bytes video
                 then Inl (PermanentProcessingError E_PROCESSING_SIZE_MISMATCH
                   ''Uploaded object size does not match the declared file size'' [])
                 else if truthy (v_checksum_sha256 video) \<and> truthy actual_checksum \<and>
                   actual_checksum \<noteq> v_checksum_sha256 video
                 then Inl (PermanentProcessingError E_PROCESSING_CHECKSUM_MISMATCH
                   ''Uploaded object checksum does not match the recorded SHA-256 digest'' [])
                 else
                   (let normalized = normalize_etag (as_str (jget ''ETag'' metadata)) in
                    Inr [(''storage_key'', JStr key), (''content_length'', jopt JInt actual_size),
                      (''storage_etag'', jopt JStr normalized),
                      (''etag_is_md5'', JBool (is_md5_etag normalized)),
                      (''client_checksum_present'', JBool (truthy (v_checksum_sha256 video)))]))))"

section \<open>Materialized outputs\<close>

record mezzanine_artifact =
  ma_mezzanine_key :: string
  ma_storage_etag :: "string option"
  ma_output_sha256 :: string
  ma_output_size_bytes :: int
  ma_duration_seconds :: "rat option"
  ma_width :: "int option"
  ma_height :: "int option"
  ma_fps :: "rat option"
  ma_codec :: "string option"
  ma_transcoder :: string

definition claimed_job_active :: "string option \<Rightarrow> uuid \<Rightarrow> job_row list \<Rightarrow> job_row option" where
  "claimed_job_active celery_task_id job_id t =
     scalar (\<lambda>j. j_id j = job_id \<and> (j_status j = JS_RUNNING \<and> task_matches celery_task_id j)) t"

definition materialized :: "mezzanine_artifact \<Rightarrow> time \<Rightarrow> video_row \<Rightarrow> video_row" where
  "materialized artifact expires v =
     v\<lparr>v_storage_key_mezzanine := Some (ma_mezzanine_key artifact),
       v_storage_etag := ma_storage_etag artifact,
       v_storage_output_sha256 := Some (ma_output_sha256 artifact),
       v_duration_seconds := ma_duration_seconds artifact, v_width := ma_width artifact,
       v_height := ma_height artifact, v_fps := ma_fps artifact, v_codec := ma_codec artifact,
       v_raw_retention_expires_at := Some expires\<rparr>"

definition materialize_outputs ::
  "settings \<Rightarrow> video_row \<Rightarrow> mezzanine_artifact \<Rightarrow> uuid \<Rightarrow> string option \<Rightarrow> time \<Rightarrow> db \<Rightarrow> jobj option \<times> db" where
  "materialize_outputs s video artifact job_id celery_task_id now d =
     (if claimed_job_active celery_task_id job_id (jobs d) = None then (None, d)
      else
        (let plan_ctx = resolve_team_plan d (v_team_id video);
             retention_days = (case plan_ctx of
                None \<Rightarrow> raw_video_retention_days s
              | Some c \<Rightarrow> (case tp_raw_video_retention_days c of None \<Rightarrow> raw_video_retention_days s | Some n \<Rightarrow> n));
             expires = (case v_raw_retention_expires_at video of
                Some t \<Rightarrow> t | None \<Rightarrow> now + days retention_days)
         in case update_returning (\<lambda>v. v_id v = v_id video \<and> v_status v = VS_PROCESSING)
                  (materialized artifact expires) (videos d) of
              (t, None) \<Rightarrow> (None, d\<lparr>videos := t\<rparr>)
            | (t, Some v) \<Rightarrow>
                (Some [(''mezzanine'', JStr (ma_mezzanine_key artifact)), (''hls'', JNull), (''thumbnail'', JNull)],
                 d\<lparr>videos := t\<rparr>)))"

section \<open>The stage\<close>

primrec heartbeats ::
  "nat \<Rightarrow> uuid \<Rightarrow> string option \<Rightarrow> (nat \<Rightarrow> time) \<Rightarrow> (nat \<Rightarrow> db \<Rightarrow> db) \<Rightarrow> db \<Rightarrow> db" where
  "heartbeats 0 job_id tid clk itf d = d"
| "heartbeats (Suc n) job_id tid clk itf d =
     (let d = itf (100 + n) d;
          d = d\<lparr>jobs := fst (touch_heartbeat (Some 50) tid (clk (100 + n)) job_id (jobs d))\<rparr>
      in heartbeats n job_id tid clk itf d)"

definition skipped_cancelled :: "uuid \<Rightarrow> stage_result" where
  "skipped_cancelled job_id = \<lparr>sr_job_id = job_id, sr_status = ''skipped'', sr_retryable = False,
     sr_error_code = Some E_PROCESSING_CANCELLED\<rparr>"

definition attempt_of :: "job_row \<Rightarrow> int" where
  "attempt_of j = (case as_int (jget ''attempt'' (or_empty (j_result_metadata j))) of None \<Rightarrow> 0 | Some n \<Rightarrow> n)"

definition failure_extra :: "job_row \<Rightarrow> worker_exn \<Rightarrow> jobj \<Rightarrow> jobj \<Rightarrow> jobj" where
  "failure_extra job exc retry origin_extra =
     jupdate ([(''video_id'', JUuid (j_video_id job)),
        (''stage'', JStr (processing_job_stage_value (j_stage job))),
        (''error_code'', JStr (exc_code exc)), (''error_message'', JStr (take 2000 (exc_message exc)))] @
        retry @ origin_extra) (exc_details exc)"

definition release_transient ::
  "job_row \<Rightarrow> worker_exn \<Rightarrow> string option \<Rightarrow> time \<Rightarrow> db \<Rightarrow> stage_result \<times> db" where
  "release_transient job exc request_id now d =
     (let origin_extra = originating_user_extra (j_video_id job) d;
          attempt = attempt_of job + 1;
          meta = jput ''attempt'' (JInt attempt) (or_empty (j_result_metadata job));
          meta = jput ''last_error'' (JStr (take 2000 (exc_message exc))) meta;
          meta = jput ''last_error_code'' (JStr (exc_code exc)) meta;
          meta = (case exc_details exc of None \<Rightarrow> meta | Some x \<Rightarrow> jput ''last_error_details'' (JObj x) meta);
          d = d\<lparr>jobs := fst (release_job_for_retry (Some meta) now (j_id job) (jobs d))\<rparr>;
          d = d\<lparr>videos := fst (set_video_status VS_QUEUED [VS_PROCESSING, VS_QUEUED] (j_video_id job) (videos d))\<rparr>;
          d = write_worker_audit A_VIDEO_PROCESSING_FAILED (Some (j_team_id job)) ''processing_job''
                (Some (j_id job)) request_id
                (failure_extra job exc [(''retryable'', JBool True), (''attempt'', JInt attempt)] origin_extra) d
      in (\<lparr>sr_job_id = j_id job, sr_status = ''failed'', sr_retryable = True,
           sr_error_code = Some (exc_code exc)\<rparr>, d))"

definition fail_permanent ::
  "job_row \<Rightarrow> worker_exn \<Rightarrow> string option \<Rightarrow> time \<Rightarrow> db \<Rightarrow> stage_result \<times> db" where
  "fail_permanent job exc request_id now d =
     (let origin_extra = originating_user_extra (j_video_id job) d;
          d = d\<lparr>jobs := fst (fail_job (exc_code exc) (take 2000 (exc_message exc)) None now (j_id job) (jobs d))\<rparr>;
          d = d\<lparr>videos := fst (set_video_status VS_FAILED [VS_PROCESSING, VS_QUEUED] (j_video_id job) (videos d))\<rparr>;
          d = write_worker_audit A_VIDEO_PROCESSING_FAILED (Some (j_team_id job)) ''processing_job''
                (Some (j_id job)) request_id (failure_extra job exc [] origin_extra) d
      in (\<lparr>sr_job_id = j_id job, sr_status = ''failed'', sr_retryable = False,
           sr_error_code = Some (exc_code exc)\<rparr>, d))"

text \<open>The check for an active claim takes no lock: other transactions may come between it and the writes.\<close>

definition handle_task_failure ::
  "uuid \<Rightarrow> worker_exn \<Rightarrow> string option \<Rightarrow> string option \<Rightarrow> (nat \<Rightarrow> time) \<Rightarrow> (nat \<Rightarrow> db \<Rightarrow> db) \<Rightarrow> db \<Rightarrow>
   stage_result \<times> db" where
  "handle_task_failure job_id exc request_id celery_task_id clk itf d =
     (let d = itf 11 d in
      case claimed_job_active celery_task_id job_id (jobs d) of
        None \<Rightarrow> (skipped_cancelled job_id, d)
      | Some job \<Rightarrow>
          (let d = itf 12 d in
           if \<not> is_permanent exc then release_transient job exc request_id (clk 12) d
           else fail_permanent job exc request_id (clk 12) d))"

text \<open>The \<open>try\<close> block: \<open>Inl\<close> is the exception it ends with, \<open>Inr None\<close> the return after a lost claim.\<close>

definition transcode_work ::
  "settings \<Rightarrow> presigner option \<Rightarrow> (video_row \<Rightarrow> worker_exn + mezzanine_artifact) \<Rightarrow> nat \<Rightarrow> job_row \<Rightarrow>
   string option \<Rightarrow> string option \<Rightarrow> jobj \<Rightarrow> (nat \<Rightarrow> time) \<Rightarrow> (nat \<Rightarrow> db \<Rightarrow> db) \<Rightarrow> db \<Rightarrow>
   (worker_exn + (jobj \<times> mezzanine_artifact \<times> jobj option)) \<times> db" where
  "transcode_work s storage mezz beats claimed tid request_id origin_extra clk itf d =
     (let d = itf 3 d;
          d = d\<lparr>jobs := fst (touch_heartbeat (Some 10) tid (clk 3) (j_id claimed) (jobs d))\<rparr>;
          d = itf 4 d
      in case by_key v_id (j_video_id claimed) (videos d) of
           None \<Rightarrow>
             (Inl (PermanentProcessingError E_VIDEO_NOT_FOUND ''Video row vanished during processing'' []), d)
         | Some video \<Rightarrow>
             (case storage of
                None \<Rightarrow>
                  (Inl (PermanentProcessingError E_STORAGE_NOT_CONFIGURED ''Object storage is not configured'' []), d)
              | Some presigner \<Rightarrow>
                  (case verify_storage video presigner of
                     Inl e \<Rightarrow> (Inl e, d)
                   | Inr verification \<Rightarrow>
                       (let d = itf 5 d;
                            d = d\<lparr>jobs := fst (touch_heartbeat (Some 50) tid (clk 5) (j_id claimed) (jobs d))\<rparr>;
                            d = heartbeats beats (j_id claimed) tid clk itf d
                        in case mezz video of
                             Inl e \<Rightarrow> (Inl e, d)
                           | Inr artifact \<Rightarrow>
                               (case materialize_outputs s video artifact (j_id claimed) tid (clk 7) (itf 7 d) of
                                  (None, d) \<Rightarrow> (Inr (verification, artifact, None), d)
                                | (Some outputs, d) \<Rightarrow>
                                    (let d = itf 8 d;
                                         d = write_worker_audit A_VIDEO_OUTPUT_MATERIALIZED (Some (j_team_id claimed))
                                               ''video'' (Some (j_video_id claimed)) request_id
                                               ([(''stage'', JStr (processing_job_stage_value (j_stage claimed))),
                                                 (''outputs'', JObj outputs),
                                                 (''transcode_mode'', JStr (ma_transcoder artifact)),
                                                 (''metadata_stripped'', JBool True),
                                                 (''output_sha256'', JStr (ma_output_sha256 artifact)),
                                                 (''output_size_bytes'', JInt (ma_output_size_bytes artifact))] @
                                                origin_extra) d;
                                         d = itf 9 d;
                                         d = d\<lparr>jobs := fst (touch_heartbeat (Some 80) tid (clk 9) (j_id claimed) (jobs d))\<rparr>
                                     in (Inr (verification, artifact, Some outputs), d)))))))"

definition transcode_result_metadata :: "jobj \<Rightarrow> mezzanine_artifact \<Rightarrow> jobj \<Rightarrow> jobj" where
  "transcode_result_metadata verification artifact outputs =
     [(''verification'', JObj verification), (''outputs'', JObj outputs),
      (''transcode_mode'', JStr (ma_transcoder artifact)), (''metadata_stripped'', JBool True),
      (''output_sha256'', JStr (ma_output_sha256 artifact)),
      (''output_size_bytes'', JInt (ma_output_size_bytes artifact))]"

definition finish_transcode ::
  "settings \<Rightarrow> job_row \<Rightarrow> string option \<Rightarrow> string option \<Rightarrow> jobj \<Rightarrow> jobj \<Rightarrow> mezzanine_artifact \<Rightarrow> jobj \<Rightarrow>
   uuid \<Rightarrow> time \<Rightarrow> db \<Rightarrow> stage_result \<times> db" where
  "finish_transcode s claimed tid request_id origin_extra verification artifact outputs fresh now d =
     (case complete_job (Some (transcode_result_metadata verification artifact outputs)) tid now
             (j_id claimed) (jobs d) of
        (t, None) \<Rightarrow> (skipped_cancelled (j_id claimed), d\<lparr>jobs := t\<rparr>)
      | (t, Some completed) \<Rightarrow>
          (let d = d\<lparr>jobs := t\<rparr>;
               d = d\<lparr>videos := fst (set_video_status VS_PROCESSED [VS_PROCESSING] (j_video_id claimed) (videos d))\<rparr>;
               d = write_worker_audit A_VIDEO_PROCESSING_COMPLETED (Some (j_team_id claimed)) ''processing_job''
                     (Some (j_id claimed)) request_id
                     ([(''video_id'', JUuid (j_video_id claimed)),
                       (''stage'', JStr (processing_job_stage_value (j_stage claimed))),
                       (''verification'', JObj verification),
                       (''output_sha256'', JStr (ma_output_sha256 artifact))] @ origin_extra) d;
               d = (case by_key v_id (j_video_id claimed) (videos d) of
                      None \<Rightarrow> d
                    | Some video \<Rightarrow> queue_next_stage_if_enabled s video ST_TRANSCODE request_id fresh now d)
           in (\<lparr>sr_job_id = j_id claimed, sr_status = ''completed'', sr_retryable = False,
                sr_error_code = None\<rparr>, d)))"

text \<open>The transaction that follows the claim.\<close>

definition begin_transcode :: "job_row \<Rightarrow> string option \<Rightarrow> string option \<Rightarrow> db \<Rightarrow> jobj \<times> db" where
  "begin_transcode claimed tid request_id d =
     (let d = d\<lparr>videos := fst (set_video_status VS_PROCESSING [VS_QUEUED, VS_PROCESSING]
                (j_video_id claimed) (videos d))\<rparr>;
          origin_extra = originating_user_extra (j_video_id claimed) d
      in (origin_extra, audit_started claimed tid request_id origin_extra d))"

text \<open>An unexpected stage raises \<open>PermanentProcessingError\<close>; the other outcomes are results.\<close>

definition execute_transcode ::
  "settings \<Rightarrow> presigner option \<Rightarrow> (video_row \<Rightarrow> worker_exn + mezzanine_artifact) \<Rightarrow> nat \<Rightarrow> uuid \<Rightarrow>
   string option \<Rightarrow> string option \<Rightarrow> uuid \<Rightarrow> (nat \<Rightarrow> time) \<Rightarrow> (nat \<Rightarrow> db \<Rightarrow> db) \<Rightarrow> db \<Rightarrow>
   (worker_exn + stage_result \<times> string list) \<times> db" where
  "execute_transcode s storage mezz beats job_id tid request_id fresh clk itf d =
     (let d = itf 0 d in
      case by_key j_id job_id (jobs d) of
        None \<Rightarrow>
          (Inr (\<lparr>sr_job_id = job_id, sr_status = ''skipped'', sr_retryable = False,
             sr_error_code = Some ''not_found''\<rparr>, []), d)
      | Some job \<Rightarrow>
          if j_stage job \<noteq> ST_TRANSCODE then
            (Inl (PermanentProcessingError E_PROCESSING_JOB_TERMINAL
               (''Unexpected stage: '' @ processing_job_stage_value (j_stage job)) []), d)
          else
            (let d = itf 1 d in
             case claim_job tid (clk 1) job_id (jobs d) of
               (t, None) \<Rightarrow>
                 (Inr (\<lparr>sr_job_id = job_id, sr_status = ''skipped'', sr_retryable = False,
                    sr_error_code = None\<rparr>, []), d\<lparr>jobs := t\<rparr>)
             | (t, Some claimed) \<Rightarrow>
                 (let (origin_extra, d) = begin_transcode claimed tid request_id (itf 2 (d\<lparr>jobs := t\<rparr>))
                  in case transcode_work s storage mezz beats claimed tid request_id origin_extra clk itf d of
                       (Inl exc, d) \<Rightarrow>
                         (let (res, d) = handle_task_failure (j_id claimed) exc request_id tid clk itf d
                          in (Inr (res, []), d))
                     | (Inr (verification, artifact, None), d) \<Rightarrow>
                         (Inr (skipped_cancelled (j_id claimed), [ma_mezzanine_key artifact]), d)
                     | (Inr (verification, artifact, Some outputs), d) \<Rightarrow>
                         (let (res, d) = finish_transcode s claimed tid request_id origin_extra verification
                              artifact outputs fresh (clk 10) (itf 10 d)
                          in (Inr (res, []), d)))))"

section \<open>The terminal failure hook\<close>

definition terminal_failure ::
  "uuid \<Rightarrow> string \<Rightarrow> error_code \<Rightarrow> string \<Rightarrow> bool \<Rightarrow> time \<Rightarrow> db \<Rightarrow> db" where
  "terminal_failure job_id task_id error_code error_message fail_video now d =
     (case get_job d job_id of
        None \<Rightarrow> d
      | Some job \<Rightarrow>
          (case fail_job error_code error_message None now (j_id job) (jobs d) of
             (t, updated) \<Rightarrow>
               (let d = d\<lparr>jobs := t\<rparr>;
                    d = (if updated \<noteq> None \<and> fail_video
                         then d\<lparr>videos := fst (set_video_status VS_FAILED [] (j_video_id job) (videos d))\<rparr> else d)
                in write_worker_audit A_VIDEO_PROCESSING_FAILED (Some (j_team_id job)) ''processing_job''
                     (Some (j_id job)) (Some task_id)
                     [(''video_id'', JUuid (j_video_id job)),
                      (''stage'', JStr (processing_job_stage_value (j_stage job))),
                      (''error_code'', JStr error_code), (''error_message'', JStr error_message),
                      (''source'', JStr ''on_failure'')] d)))"

section \<open>Lemmas\<close>

lemma safe_videos [safe_intros]: "safe a d \<Longrightarrow> safe a (d\<lparr>videos := t\<rparr>)"
  by (erule safe_jobs_eq) simp

lemma safe_heartbeats:
  assumes "job_env itf" shows "safe a d \<Longrightarrow> safe a (heartbeats n i tid clk itf d)"
  by (induction n arbitrary: d) (auto simp: Let_def intro!: safe_itf[OF _ assms] safe_ops(2))

lemma jobs_materialize [simp]: "jobs (snd (materialize_outputs s v a i tid now d)) = jobs d"
  unfolding materialize_outputs_def Let_def by (auto split: prod.splits option.splits)

lemma safe_materialize: "materialize_outputs s v ar i tid now d = (x, d') \<Longrightarrow> safe a d \<Longrightarrow> safe a d'"
  using jobs_materialize[of s v ar i tid now d] by (auto elim: safe_jobs_eq)

lemma safe_transcode_work:
  assumes "job_env itf" and "safe a d"
  shows "safe a (snd (transcode_work s st mezz beats c tid r x clk itf d))"
  unfolding transcode_work_def Let_def
  by (auto split: option.splits sum.splits prod.splits intro!: safe_intros safe_itf[OF _ assms(1)]
      safe_heartbeats[OF assms(1)] assms(2) elim!: safe_materialize)

lemma safe_handle_task_failure:
  assumes "job_env itf" and "safe a d"
  shows "safe a (snd (handle_task_failure i e r tid clk itf d))"
  unfolding handle_task_failure_def release_transient_def fail_permanent_def Let_def
  by (auto split: option.splits intro!: safe_intros safe_itf[OF _ assms(1)] assms(2))

lemma safe_complete: "complete_job m tid now i (jobs d) = (t, u) \<Longrightarrow> safe a d \<Longrightarrow> safe a (d\<lparr>jobs := t\<rparr>)"
  using safe_ops(3)[of a d m tid now i] by simp

lemma safe_finish_transcode:
  "safe a d \<Longrightarrow> safe a (snd (finish_transcode s c tid r x ver ar out fresh now d))"
  unfolding finish_transcode_def Let_def
  by (auto split: option.splits prod.splits intro!: safe_intros elim!: safe_complete)

lemma safe_begin: "begin_transcode c tid r d = (x, d') \<Longrightarrow> safe a d \<Longrightarrow> safe a d'"
  unfolding begin_transcode_def Let_def by (auto intro!: safe_intros)

lemma safe_execute_transcode:
  assumes "job_env itf"
  shows "safe d (snd (execute_transcode s st mezz beats i tid r fresh clk itf d))"
proof -
  have work: "transcode_work s st mezz beats c tid r x clk itf e = (y, e') \<Longrightarrow> safe d e \<Longrightarrow> safe d e'"
    for c x e y e' using safe_transcode_work[OF assms, of d e s st mezz beats c tid r x clk] by auto
  have fail: "handle_task_failure k e r tid clk itf f = (y, f') \<Longrightarrow> safe d f \<Longrightarrow> safe d f'" for k e f y f'
    using safe_handle_task_failure[OF assms, of d f k e r tid clk] by auto
  have fin: "finish_transcode s c tid r x ver ar out fresh now f = (y, f') \<Longrightarrow> safe d f \<Longrightarrow> safe d f'"
    for c x ver ar out now f y f' using safe_finish_transcode[of d f s c tid r x ver ar out fresh now] by auto
  show ?thesis unfolding execute_transcode_def Let_def
    by (auto split: option.splits prod.splits sum.splits intro!: safe_intros safe_itf[OF _ assms] safe_refl
        elim!: work fail fin safe_claim safe_begin)
qed

lemma safe_terminal_failure: "safe d (terminal_failure i task c m fv now d)"
proof -
  have f: "fail_job c m None now k (jobs d) = (t, u) \<Longrightarrow> safe d (d\<lparr>jobs := t\<rparr>)" for k t u
    using safe_ops(4)[of d d c m None now k] by simp
  show ?thesis unfolding terminal_failure_def Let_def
    by (auto split: option.splits prod.splits intro!: safe_intros elim!: f)
qed

text \<open>The row of a job is running under the given delivery.\<close>

definition owned :: "string option \<Rightarrow> uuid \<Rightarrow> job_row list \<Rightarrow> bool" where
  "owned tid i t \<longleftrightarrow> (\<exists>j. by_key j_id i t = Some j \<and> j_status j = JS_RUNNING \<and> task_matches tid j)"

lemma owned_touch: "owned tid i t \<Longrightarrow> owned tid i (fst (touch_heartbeat p tid now i t))"
proof -
  assume "owned tid i t"
  then obtain j where "by_key j_id i t = Some j" "j_status j = JS_RUNNING" "task_matches tid j"
    by (auto simp: owned_def)
  then show ?thesis unfolding owned_def
    by (intro exI[of _ "heartbeat_values p now j"])
      (auto simp: heartbeat_jt.row heartbeat_values_def task_matches_def split: option.splits)
qed

lemma owned_claim:
  assumes "jobs_inv t" and "claim_job tid now i t = (t', Some c)"
  shows "owned tid i t'"
  using claim_result[OF assms] by (auto simp: owned_def claim_values_def task_matches_def split: option.splits)

lemma owned_active: "owned tid i t \<Longrightarrow> claimed_job_active tid i t \<noteq> None"
  unfolding owned_def claimed_job_active_def scalar_None by (auto dest: by_key_Some)

lemma complete_row:
  assumes "complete_job m tid now i t = (t', Some c)" and "distinct (map j_id t)"
  shows "\<exists>j. by_key j_id i t = Some j \<and> j_status j = JS_RUNNING \<and> task_matches tid j \<and>
    by_key j_id i t' = Some (complete_values m now j)"
proof -
  from assms(1) complete.result[OF assms(2), of m tid now i] obtain j where
    "by_key j_id i t = Some j" "j_status j = JS_RUNNING" "task_matches tid j"
    by (auto split: option.splits if_splits)
  moreover have "t' = fst (complete_job m tid now i t)" using assms(1) by simp
  ultimately show ?thesis by (simp add: complete.row)
qed

lemma by_key_queue_next:
  "by_key j_id i (jobs d) = Some j \<Longrightarrow>
   by_key j_id i (jobs (queue_next_stage_if_enabled s v st r fresh now d)) = Some j"
  by (auto simp: queue_next_stage_if_enabled_def Let_def by_key_queue_job split: option.splits)

lemma finish_transcode_completed:
  assumes "sr_status (fst (finish_transcode s c tid r x ver ar out fresh now d)) = ''completed''"
    and "distinct (map j_id (jobs d))"
  shows "\<exists>j. by_key j_id (j_id c) (jobs d) = Some j \<and> j_status j = JS_RUNNING \<and> task_matches tid j \<and>
    by_key j_id (j_id c) (jobs (snd (finish_transcode s c tid r x ver ar out fresh now d))) =
      Some (complete_values (Some (transcode_result_metadata ver ar out)) now j)"
proof -
  obtain t u where tu: "complete_job (Some (transcode_result_metadata ver ar out)) tid now (j_id c) (jobs d) = (t, u)"
    by fastforce
  with assms(1) obtain c' where u: "u = Some c'"
    by (auto simp: finish_transcode_def skipped_cancelled_def split: option.splits)
  from complete_row[OF tu[unfolded u] assms(2)] obtain j where j: "by_key j_id (j_id c) (jobs d) = Some j"
    "j_status j = JS_RUNNING" "task_matches tid j"
    "by_key j_id (j_id c) t = Some (complete_values (Some (transcode_result_metadata ver ar out)) now j)" by blast
  with tu u show ?thesis
    by (auto simp: finish_transcode_def Let_def split: option.splits intro: by_key_queue_next)
qed

lemma execute_transcode_completed:
  assumes "execute_transcode s st mezz beats i tid r fresh clk itf d = (Inr (res, del), d')"
    and "sr_status res = ''completed''"
  obtains job t c x d2 d3 ver ar out where
    "by_key j_id i (jobs (itf 0 d)) = Some job" "j_stage job = ST_TRANSCODE"
    "claim_job tid (clk 1) i (jobs (itf 1 (itf 0 d))) = (t, Some c)"
    "begin_transcode c tid r (itf 2 ((itf 1 (itf 0 d))\<lparr>jobs := t\<rparr>)) = (x, d2)"
    "transcode_work s st mezz beats c tid r x clk itf d2 = (Inr (ver, ar, Some out), d3)"
    "finish_transcode s c tid r x ver ar out fresh (clk 10) (itf 10 d3) = (res, d')"
  using assms unfolding execute_transcode_def Let_def
  by (auto simp: skipped_cancelled_def handle_task_failure_def release_transient_def fail_permanent_def Let_def
      split: option.splits prod.splits sum.splits if_splits)

subsection \<open>Undisturbed runs\<close>

lemma videos_queue_next [simp]: "videos (queue_next_stage_if_enabled s v st r fresh now d) = videos d"
  by (simp add: queue_next_stage_if_enabled_def Let_def split: option.splits)

lemma videos_audit_started [simp]:
  "videos (audit_started c tid r x d) = videos d" "jobs (audit_started c tid r x d) = jobs d"
  by (simp_all add: audit_started_def)

lemma keys_touch [simp]: "map j_id (fst (touch_heartbeat p tid now i t)) = map j_id t"
  by (rule heartbeat_jt.keys)

lemma heartbeats_alone:
  assumes "owned tid i (jobs d)"
  shows "\<exists>t. heartbeats n i tid clk (\<lambda>k d. d) d = d\<lparr>jobs := t\<rparr> \<and> owned tid i t \<and> map j_id t = map j_id (jobs d)"
  using assms
proof (induction n arbitrary: d)
  case 0
  then show ?case by (intro exI[of _ "jobs d"]) simp
next
  case (Suc n)
  let ?t = "fst (touch_heartbeat (Some 50) tid (clk (100 + n)) i (jobs d))"
  have "owned tid i (jobs (d\<lparr>jobs := ?t\<rparr>))" using Suc.prems by (simp add: owned_touch)
  from Suc.IH[OF this] show ?case by auto
qed

lemma begin_alone:
  assumes "by_key v_id (j_video_id c) (videos d) = Some v" and "v_status v \<in> {VS_QUEUED, VS_PROCESSING}"
  shows "\<exists>x d2. begin_transcode c tid r d = (x, d2) \<and> jobs d2 = jobs d \<and>
    by_key v_id (j_video_id c) (videos d2) = Some (v\<lparr>v_status := VS_PROCESSING\<rparr>)"
  using assms by (auto simp: begin_transcode_def Let_def video_status.row)

lemma materialize_alone:
  assumes "by_key v_id (v_id v) (videos d) = Some v" and "v_status v = VS_PROCESSING"
    and "owned tid i (jobs d)"
  shows "\<exists>out d' e. materialize_outputs s v ar i tid now d = (Some out, d') \<and> jobs d' = jobs d \<and>
    by_key v_id (v_id v) (videos d') = Some (materialized ar e v)"
proof -
  let ?P = "\<lambda>x. v_id x = v_id v \<and> v_status x = VS_PROCESSING"
  have "scalar ?P (videos d) \<noteq> None"
    using by_key_Some[OF assms(1)] assms(2) unfolding scalar_None by blast
  then obtain w where w: "scalar ?P (videos d) = Some w" by blast
  have key: "v_id (materialized ar e y) = v_id y" for e y by (simp add: materialized_def)
  have "by_key v_id (v_id v) (update_where ?P (materialized ar e) (videos d)) = Some (materialized ar e v)" for e
    using by_key_update_where[of v_id "materialized ar e", OF key] assms(1,2) by simp
  with owned_active[OF assms(3)] w show ?thesis
    unfolding materialize_outputs_def Let_def update_returning_def by auto
qed

lemma work_alone:
  assumes "by_key v_id (j_video_id c) (videos d) = Some v" and "v_status v = VS_PROCESSING"
    and "owned tid (j_id c) (jobs d)"
    and "verify_storage v p = Inr ver" and "mezz v = Inr ar"
  shows "\<exists>out d' e. transcode_work s (Some p) mezz beats c tid r x clk (\<lambda>k d. d) d = (Inr (ver, ar, Some out), d') \<and>
    owned tid (j_id c) (jobs d') \<and> map j_id (jobs d') = map j_id (jobs d) \<and>
    by_key v_id (j_video_id c) (videos d') = Some (materialized ar e v)"
proof -
  have vid: "v_id v = j_video_id c" using by_key_Some[OF assms(1)] by simp
  let ?t1 = "fst (touch_heartbeat (Some 10) tid (clk 3) (j_id c) (jobs d))"
  let ?t2 = "fst (touch_heartbeat (Some 50) tid (clk 5) (j_id c) ?t1)"
  have "owned tid (j_id c) (jobs (d\<lparr>jobs := ?t2\<rparr>))" using assms(3) by (simp add: owned_touch)
  from heartbeats_alone[OF this, of beats clk] obtain t3 where t3:
    "heartbeats beats (j_id c) tid clk (\<lambda>k d. d) (d\<lparr>jobs := ?t2\<rparr>) = d\<lparr>jobs := t3\<rparr>"
    "owned tid (j_id c) t3" "map j_id t3 = map j_id (jobs d)" by auto
  from materialize_alone[of v "d\<lparr>jobs := t3\<rparr>" tid "j_id c" s ar "clk 7"] assms t3 vid obtain out d' e where
    m: "materialize_outputs s v ar (j_id c) tid (clk 7) (d\<lparr>jobs := t3\<rparr>) = (Some out, d')" "jobs d' = t3"
    "by_key v_id (j_video_id c) (videos d') = Some (materialized ar e v)" by auto
  show ?thesis unfolding transcode_work_def Let_def
    using assms(1,4,5) t3 m by (auto simp: owned_touch)
qed

lemma finish_alone:
  assumes "owned tid (j_id c) (jobs d)" and "distinct (map j_id (jobs d))"
    and "by_key v_id (j_video_id c) (videos d) = Some v" and "v_status v = VS_PROCESSING"
  shows "sr_status (fst (finish_transcode s c tid r x ver ar out fresh now d)) = ''completed'' \<and>
    by_key v_id (j_video_id c) (videos (snd (finish_transcode s c tid r x ver ar out fresh now d))) =
      Some (v\<lparr>v_status := VS_PROCESSED\<rparr>)"
proof -
  obtain t u where tu: "complete_job (Some (transcode_result_metadata ver ar out)) tid now (j_id c) (jobs d) = (t, u)"
    by fastforce
  have "u \<noteq> None" using tu assms(1) complete.result[OF assms(2), of "Some (transcode_result_metadata ver ar out)" tid now "j_id c"]
    by (auto simp: owned_def)
  with tu assms(3,4) show ?thesis
    by (auto simp: finish_transcode_def Let_def video_status.row split: option.splits)
qed

text \<open>What heartbeats leave of a claimed row.\<close>

definition same_claim :: "job_row \<Rightarrow> job_row \<Rightarrow> bool" where
  "same_claim j j' \<longleftrightarrow> j_id j' = j_id j \<and> j_status j' = j_status j \<and> j_celery_task_id j' = j_celery_task_id j \<and>
     j_result_metadata j' = j_result_metadata j \<and> video_stage j' = video_stage j \<and> j_team_id j' = j_team_id j"

lemma touch_row:
  "by_key j_id i t = Some j \<Longrightarrow>
   \<exists>j'. by_key j_id i (fst (touch_heartbeat p tid now i t)) = Some j' \<and> same_claim j j'"
  by (auto simp: heartbeat_jt.row heartbeat_values_def same_claim_def video_stage_def)

lemma same_claim_trans: "same_claim a b \<Longrightarrow> same_claim b c \<Longrightarrow> same_claim a c"
  by (auto simp: same_claim_def)

lemma heartbeats_row:
  assumes "by_key j_id i (jobs d) = Some j"
  shows "\<exists>t j'. heartbeats n i tid clk (\<lambda>k d. d) d = d\<lparr>jobs := t\<rparr> \<and> by_key j_id i t = Some j' \<and>
    same_claim j j' \<and> map j_id t = map j_id (jobs d)"
  using assms
proof (induction n arbitrary: d j)
  case 0
  then show ?case by (intro exI[of _ "jobs d"] exI[of _ j]) (simp add: same_claim_def)
next
  case (Suc n)
  let ?t = "fst (touch_heartbeat (Some 50) tid (clk (100 + n)) i (jobs d))"
  obtain j1 where j1: "by_key j_id i ?t = Some j1" "same_claim j j1" using touch_row[OF Suc.prems] by blast
  have "by_key j_id i (jobs (d\<lparr>jobs := ?t\<rparr>)) = Some j1" using j1 by simp
  from Suc.IH[OF this] j1(2) show ?case by (auto intro: same_claim_trans)
qed

lemma work_fails_alone:
  assumes "by_key v_id (j_video_id c) (videos d) = Some v" and "by_key j_id (j_id c) (jobs d) = Some j"
    and "case verify_storage v p of Inl e' \<Rightarrow> e' = e | Inr ver \<Rightarrow> mezz v = Inl e"
  shows "\<exists>t j'. transcode_work s (Some p) mezz beats c tid r x clk (\<lambda>k d. d) d = (Inl e, d\<lparr>jobs := t\<rparr>) \<and>
    by_key j_id (j_id c) t = Some j' \<and> same_claim j j' \<and> map j_id t = map j_id (jobs d)"
proof -
  let ?t1 = "fst (touch_heartbeat (Some 10) tid (clk 3) (j_id c) (jobs d))"
  let ?t2 = "fst (touch_heartbeat (Some 50) tid (clk 5) (j_id c) ?t1)"
  obtain j1 where j1: "by_key j_id (j_id c) ?t1 = Some j1" "same_claim j j1" using touch_row[OF assms(2)] by blast
  obtain j2 where j2: "by_key j_id (j_id c) ?t2 = Some j2" "same_claim j1 j2" using touch_row[OF j1(1)] by blast
  from heartbeats_row[of "j_id c" "d\<lparr>jobs := ?t2\<rparr>" j2 beats tid clk] j2 obtain t3 j3 where t3:
    "heartbeats beats (j_id c) tid clk (\<lambda>k d. d) (d\<lparr>jobs := ?t2\<rparr>) = d\<lparr>jobs := t3\<rparr>"
    "by_key j_id (j_id c) t3 = Some j3" "same_claim j2 j3" "map j_id t3 = map j_id (jobs d)" by auto
  have sc: "same_claim j j3" using j1 j2 t3 same_claim_trans by blast
  show ?thesis
  proof (cases "verify_storage v p")
    case (Inl e')
    with assms show ?thesis unfolding transcode_work_def Let_def
      by (intro exI[of _ ?t1] exI[of _ j1]) (simp add: j1)
  next
    case (Inr ver)
    with assms t3 sc show ?thesis unfolding transcode_work_def Let_def
      by (intro exI[of _ t3] exI[of _ j3]) simp
  qed
qed

lemma active_row:
  assumes "by_key j_id i t = Some j" and "j_status j = JS_RUNNING" and "task_matches tid j"
    and "distinct (map j_id t)"
  shows "claimed_job_active tid i t = Some j"
  unfolding claimed_job_active_def
  by (rule scalar_by_unique_key[OF assms(4)]) (use assms by_key_Some[OF assms(1)] in auto)

lemma failure_handled_alone:
  assumes "by_key j_id i (jobs d) = Some j" and "j_status j = JS_RUNNING" and "j_celery_task_id j = tid"
    and "distinct (map j_id (jobs d))" and "by_key v_id (j_video_id j) (videos d) = Some v"
    and "v_status v = VS_PROCESSING"
  shows "\<exists>res d' j' v'. handle_task_failure i e r tid clk (\<lambda>k d. d) d = (res, d') \<and>
    sr_status res = ''failed'' \<and> sr_retryable res = (\<not> is_permanent e) \<and>
    by_key j_id i (jobs d') = Some j' \<and> by_key v_id (j_video_id j) (videos d') = Some v' \<and>
    v' = v\<lparr>v_status := v_status v'\<rparr> \<and>
    (if is_permanent e then j_status j' = JS_FAILED \<and> v_status v' = VS_FAILED
     else j_status j' = JS_PENDING \<and> j_celery_task_id j' = tid \<and> attempt_of j' = attempt_of j + 1 \<and>
       v_status v' = VS_QUEUED)"
proof -
  have "task_matches tid j" using assms(3) by (simp add: task_matches_def split: option.splits)
  with active_row[OF assms(1,2) _ assms(4)] have act: "claimed_job_active tid i (jobs d) = Some j" .
  have i: "j_id j = i" using by_key_Some[OF assms(1)] by simp
  show ?thesis
    unfolding handle_task_failure_def release_transient_def fail_permanent_def Let_def
    using assms act i
    by (auto simp: release.row fail.row video_status.row release_values_def fail_values_def
        attempt_of_def or_empty_def split: option.splits)
qed

section \<open>Properties\<close>

text \<open>
  C7: only the owner completes. Against every interleaving, when a delivery of a transcode job
  ends as completed, the job is completed and carries the task id of that very delivery; a delivery
  whose claim was lost meanwhile never reports completion.
\<close>

theorem transcode_completed_by_owner:
  assumes "jobs_inv (jobs d)" and "job_env itf"
    and "execute_transcode s st mezz beats i tid r fresh clk itf d = (Inr (res, del), d')"
    and "sr_status res = ''completed''"
  shows "\<exists>j. by_key j_id i (jobs d') = Some j \<and> j_status j = JS_COMPLETED \<and> task_matches tid j"
proof -
  let ?d1 = "itf 1 (itf 0 d)"
  obtain job t c x d2 d3 ver ar out where
    cl: "claim_job tid (clk 1) i (jobs ?d1) = (t, Some c)"
    and bg: "begin_transcode c tid r (itf 2 (?d1\<lparr>jobs := t\<rparr>)) = (x, d2)"
    and wk: "transcode_work s st mezz beats c tid r x clk itf d2 = (Inr (ver, ar, Some out), d3)"
    and fin: "finish_transcode s c tid r x ver ar out fresh (clk 10) (itf 10 d3) = (res, d')"
    using execute_transcode_completed[OF assms(3,4)] by metis
  have s1: "safe d ?d1" by (intro safe_itf[OF _ assms(2)] safe_refl)
  then have "safe d (?d1\<lparr>jobs := t\<rparr>)" by (rule safe_claim[OF cl])
  then have "safe d (itf 2 (?d1\<lparr>jobs := t\<rparr>))" by (rule safe_itf[OF _ assms(2)])
  then have "safe d d2" by (rule safe_begin[OF bg])
  then have "safe d d3" using safe_transcode_work[OF assms(2), of d d2 s st mezz beats c tid r x clk] wk by simp
  then have "safe d (itf 10 d3)" by (rule safe_itf[OF _ assms(2)])
  then have keys: "distinct (map j_id (jobs (itf 10 d3)))"
    using assms(1) by (simp add: safe_def jobs_inv_def)
  have "jobs_inv (jobs ?d1)" using s1 assms(1) by (simp add: safe_def)
  then have "j_id c = i" using claim_result[OF _ cl] by blast
  with finish_transcode_completed[OF _ keys, of s c tid r x ver ar out fresh "clk 10"] fin assms(4)
  show ?thesis by (auto simp: complete_values_def task_matches_def split: option.splits)
qed

text \<open>
  C8: the transcode stage does its work. When a pending transcode job is delivered and nothing else
  interferes, the stored object passes verification and the media pipeline yields an artifact, then
  the delivery ends as completed, the job is completed and the video is processed and carries the
  key and digest of the artifact, whatever the number of heartbeats.
\<close>

theorem transcode_succeeds:
  assumes "jobs_inv (jobs d)" and "by_key j_id i (jobs d) = Some j" and "j_stage j = ST_TRANSCODE"
    and "j_status j = JS_PENDING" and "by_key v_id (j_video_id j) (videos d) = Some v"
    and "v_status v \<in> {VS_QUEUED, VS_PROCESSING}"
    and "verify_storage (v\<lparr>v_status := VS_PROCESSING\<rparr>) p = Inr ver"
    and "mezz (v\<lparr>v_status := VS_PROCESSING\<rparr>) = Inr ar"
  shows "\<exists>res d' j' v'. execute_transcode s (Some p) mezz beats i tid r fresh clk (\<lambda>k d. d) d = (Inr (res, []), d') \<and>
    sr_status res = ''completed'' \<and> by_key j_id i (jobs d') = Some j' \<and> j_status j' = JS_COMPLETED \<and>
    by_key v_id (j_video_id j) (videos d') = Some v' \<and> v_status v' = VS_PROCESSED \<and>
    v_storage_key_mezzanine v' = Some (ma_mezzanine_key ar) \<and>
    v_storage_output_sha256 v' = Some (ma_output_sha256 ar)"
proof -
  obtain t u where "claim_job tid (clk 1) i (jobs d) = (t, u)" by fastforce
  with claim.result[OF jobs_inv_keys[OF assms(1)], of tid "clk 1" i] assms(2,4) obtain c where
    cl: "claim_job tid (clk 1) i (jobs d) = (t, Some c)" by (auto split: option.splits)
  have c: "j_id c = i" "j_video_id c = j_video_id j"
    using claim_result[OF assms(1) cl] assms(2) by (auto simp: video_stage_def)
  have keys: "distinct (map j_id t)"
    using claim.keys[of tid "clk 1" i "jobs d"] cl assms(1) by (simp add: jobs_inv_def)
  from begin_alone[of c "d\<lparr>jobs := t\<rparr>" v tid r] assms(5,6) c obtain x d2 where
    bg: "begin_transcode c tid r (d\<lparr>jobs := t\<rparr>) = (x, d2)" "jobs d2 = t"
    "by_key v_id (j_video_id c) (videos d2) = Some (v\<lparr>v_status := VS_PROCESSING\<rparr>)" by auto
  from work_alone[of c d2 "v\<lparr>v_status := VS_PROCESSING\<rparr>" tid p ver mezz ar s beats r x clk]
    owned_claim[OF assms(1) cl] bg(2,3) c assms(7,8)
  obtain out d3 e where
    wk: "transcode_work s (Some p) mezz beats c tid r x clk (\<lambda>k d. d) d2 = (Inr (ver, ar, Some out), d3)"
    "owned tid i (jobs d3)" "map j_id (jobs d3) = map j_id t"
    "by_key v_id (j_video_id c) (videos d3) = Some (materialized ar e (v\<lparr>v_status := VS_PROCESSING\<rparr>))" by auto
  obtain res d' where fin: "finish_transcode s c tid r x ver ar out fresh (clk 10) d3 = (res, d')" by fastforce
  have "sr_status res = ''completed'' \<and> by_key v_id (j_video_id c) (videos d') =
      Some (materialized ar e (v\<lparr>v_status := VS_PROCESSING\<rparr>)\<lparr>v_status := VS_PROCESSED\<rparr>)"
    using finish_alone[of tid c d3 _ s r x ver ar out fresh "clk 10"] wk keys c fin
    by (auto simp: materialized_def)
  moreover from this obtain j' where "by_key j_id i (jobs d') = Some j'" "j_status j' = JS_COMPLETED"
    using finish_transcode_completed[of s c tid r x ver ar out fresh "clk 10" d3] fin wk(3) keys c
    by (auto simp: complete_values_def)
  moreover have "execute_transcode s (Some p) mezz beats i tid r fresh clk (\<lambda>k d. d) d = (Inr (res, []), d')"
    using assms(2,3) cl bg(1) wk(1) fin by (simp add: execute_transcode_def Let_def)
  ultimately show ?thesis using c by (auto simp: materialized_def)
qed

lemma failed_delivery:
  assumes "jobs_inv (jobs d)" and "by_key j_id i (jobs d) = Some j" and "j_stage j = ST_TRANSCODE"
    and "j_status j = JS_PENDING" and "by_key v_id (j_video_id j) (videos d) = Some v"
    and "v_status v \<in> {VS_QUEUED, VS_PROCESSING}"
    and "case verify_storage (v\<lparr>v_status := VS_PROCESSING\<rparr>) p of
      Inl e' \<Rightarrow> e' = e | Inr ver \<Rightarrow> mezz (v\<lparr>v_status := VS_PROCESSING\<rparr>) = Inl e"
  shows "\<exists>res d' j' v'. execute_transcode s (Some p) mezz beats i tid r fresh clk (\<lambda>k d. d) d = (Inr (res, []), d') \<and>
    sr_status res = ''failed'' \<and> sr_retryable res = (\<not> is_permanent e) \<and>
    by_key j_id i (jobs d') = Some j' \<and> by_key v_id (j_video_id j) (videos d') = Some v' \<and>
    v' = v\<lparr>v_status := v_status v'\<rparr> \<and>
    (if is_permanent e then j_status j' = JS_FAILED \<and> v_status v' = VS_FAILED
     else j_status j' = JS_PENDING \<and> j_celery_task_id j' = tid \<and> attempt_of j' = attempt_of j + 1 \<and>
       v_status v' = VS_QUEUED)"
proof -
  obtain t u where "claim_job tid (clk 1) i (jobs d) = (t, u)" by fastforce
  with claim.result[OF jobs_inv_keys[OF assms(1)], of tid "clk 1" i] assms(2,4) obtain c where
    cl: "claim_job tid (clk 1) i (jobs d) = (t, Some c)" by (auto split: option.splits)
  have c: "j_id c = i" "j_video_id c = j_video_id j" "by_key j_id i t = Some c" "j_status c = JS_RUNNING"
      "j_celery_task_id c = tid" "j_result_metadata c = j_result_metadata j"
    using claim_result[OF assms(1) cl] assms(2) by (auto simp: video_stage_def claim_values_def)
  have keys: "distinct (map j_id t)"
    using claim.keys[of tid "clk 1" i "jobs d"] cl assms(1) by (simp add: jobs_inv_def)
  from begin_alone[of c "d\<lparr>jobs := t\<rparr>" v tid r] assms(5,6) c obtain x d2 where
    bg: "begin_transcode c tid r (d\<lparr>jobs := t\<rparr>) = (x, d2)" "jobs d2 = t"
    "by_key v_id (j_video_id c) (videos d2) = Some (v\<lparr>v_status := VS_PROCESSING\<rparr>)" by auto
  from work_fails_alone[where mezz = mezz, OF bg(3) _ assms(7), of c s beats tid r x clk] bg(2) c obtain t3 j3 where
    wk: "transcode_work s (Some p) mezz beats c tid r x clk (\<lambda>k d. d) d2 = (Inl e, d2\<lparr>jobs := t3\<rparr>)"
    "by_key j_id i t3 = Some j3" "same_claim c j3" "map j_id t3 = map j_id t" by auto
  have j3: "j_status j3 = JS_RUNNING" "j_celery_task_id j3 = tid" "j_video_id j3 = j_video_id j"
      "attempt_of j3 = attempt_of j"
    using wk(3) c by (auto simp: same_claim_def video_stage_def attempt_of_def)
  have ex: "execute_transcode s (Some p) mezz beats i tid r fresh clk (\<lambda>k d. d) d =
      (let (res, d') = handle_task_failure i e r tid clk (\<lambda>k d. d) (d2\<lparr>jobs := t3\<rparr>) in (Inr (res, []), d'))"
    using assms(2,3) cl bg(1) wk(1) c(1) by (simp add: execute_transcode_def Let_def)
  from failure_handled_alone[of i "d2\<lparr>jobs := t3\<rparr>" j3 tid "v\<lparr>v_status := VS_PROCESSING\<rparr>" e r clk]
    wk bg(3) c keys j3 show ?thesis unfolding ex by auto
qed

text \<open>
  C9: a failed transcode is accounted for. When nothing else interferes and verification or the
  media pipeline fails, then after a permanent error the job and the video are failed; after any
  other error the job is pending again under the same task id (so the dispatcher leaves it to the
  scheduled retry), its attempt counter has grown by one, and the video is queued again.
\<close>

theorem transcode_failure_outcome:
  assumes "jobs_inv (jobs d)" and "by_key j_id i (jobs d) = Some j" and "j_stage j = ST_TRANSCODE"
    and "j_status j = JS_PENDING" and "by_key v_id (j_video_id j) (videos d) = Some v"
    and "v_status v \<in> {VS_QUEUED, VS_PROCESSING}"
    and "case verify_storage (v\<lparr>v_status := VS_PROCESSING\<rparr>) p of
      Inl e' \<Rightarrow> e' = e | Inr ver \<Rightarrow> mezz (v\<lparr>v_status := VS_PROCESSING\<rparr>) = Inl e"
  shows "\<exists>res d' j' v'. execute_transcode s (Some p) mezz beats i tid r fresh clk (\<lambda>k d. d) d = (Inr (res, []), d') \<and>
    sr_status res = ''failed'' \<and> sr_retryable res = (\<not> is_permanent e) \<and>
    by_key j_id i (jobs d') = Some j' \<and> by_key v_id (j_video_id j) (videos d') = Some v' \<and>
    (if is_permanent e then j_status j' = JS_FAILED \<and> v_status v' = VS_FAILED
     else j_status j' = JS_PENDING \<and> j_celery_task_id j' = tid \<and> attempt_of j' = attempt_of j + 1 \<and>
       v_status v' = VS_QUEUED)"
  using failed_delivery[where d = d and i = i and j = j and v = v and p = p and e = e and mezz = mezz, OF assms, of s beats tid r fresh clk] by blast

text \<open>
  verification at processing time is sound. An object that passes \<open>verify_storage\<close> exists, its
  length is the declared one wherever both are known, and its digest is the recorded one wherever
  both are known.
\<close>

theorem verified_object_matches:
  assumes "verify_storage v p = Inr ver"
  shows "\<exists>key m. v_storage_key_raw v = Some key \<and> ps_head_object p key = Inr (Some m) \<and>
    (\<forall>n k. as_int (jget ''ContentLength'' m) = Some n \<longrightarrow> v_file_size_bytes v = Some k \<longrightarrow> n = k) \<and>
    (\<forall>a b. object_checksum_sha256 m = Some a \<longrightarrow> v_checksum_sha256 v = Some b \<longrightarrow> a \<noteq> [] \<longrightarrow> b \<noteq> [] \<longrightarrow> a = b)"
  using assms unfolding verify_storage_def Let_def
  by (cases "v_storage_key_raw v") (auto split: if_splits sum.splits option.splits)

text \<open>
  The failure hook of a task does not check who owns the job. When \<open>_terminal_failure\<close> runs for
  a task whose job was cancelled, requeued and claimed by another delivery meanwhile, it fails
  the running job of that other delivery, and the video with it.
\<close>

theorem terminal_failure_ignores_owner:
  assumes "distinct (map j_id (jobs d))" and "by_key j_id i (jobs d) = Some j"
    and "j_status j = JS_RUNNING" and "j_celery_task_id j \<noteq> Some task"
    and "by_key v_id (j_video_id j) (videos d) = Some v"
  shows "map_option j_status (by_key j_id i (jobs (terminal_failure i task c m True now d))) = Some JS_FAILED \<and>
    map_option v_status (by_key v_id (j_video_id j) (videos (terminal_failure i task c m True now d))) = Some VS_FAILED"
proof -
  obtain t u where tu: "fail_job c m None now i (jobs d) = (t, u)" by fastforce
  have i: "j_id j = i" using by_key_Some[OF assms(2)] by simp
  have "u \<noteq> None" using tu fail.result[OF assms(1), of c m None now i] assms(2,3) by auto
  moreover have "by_key j_id i t = Some (fail_values c m None now j)"
    using tu fail.row[of i c m None now "jobs d"] assms(2,3) by simp
  ultimately show ?thesis using assms(2,5) tu i
    by (simp add: terminal_failure_def get_job_def Let_def video_status.row fail_values_def)
qed

definition toy_presigner :: presigner where
  "toy_presigner = \<lparr>ps_presign_upload = (\<lambda>k t n c. Inl StorageException),
     ps_complete_multipart = (\<lambda>k u ps. Inr ()), ps_abort_multipart = (\<lambda>k u. Inr ()),
     ps_head_object = (\<lambda>k. Inr (Some [(''ContentLength'', JInt 2000000)])),
     ps_presign_get = (\<lambda>k e c. Inr ''https://s3/x''), ps_delete_object = (\<lambda>k. Inr ())\<rparr>"

definition toy_artifact :: mezzanine_artifact where
  "toy_artifact = \<lparr>ma_mezzanine_key = ''mezzanine/2/1/video.mp4'', ma_storage_etag = None,
     ma_output_sha256 = ''ab'', ma_output_size_bytes = 1500000, ma_duration_seconds = None,
     ma_width = None, ma_height = None, ma_fps = None, ma_codec = None, ma_transcoder = ''ffmpeg''\<rparr>"

definition queued_video :: video_row where
  "queued_video = sample_video\<lparr>v_status := VS_QUEUED\<rparr>"

definition transcode_db :: db where
  "transcode_db = sample_db\<lparr>videos := [queued_video], jobs := [new_job 7 1 2 ST_TRANSCODE 0]\<rparr>"

lemma transcode_db_facts:
  "jobs_inv (jobs transcode_db)"
  "by_key j_id 7 (jobs transcode_db) = Some (new_job 7 1 2 ST_TRANSCODE 0)"
  "j_stage (new_job 7 1 2 ST_TRANSCODE 0) = ST_TRANSCODE"
  "j_status (new_job 7 1 2 ST_TRANSCODE 0) = JS_PENDING"
  "by_key v_id (j_video_id (new_job 7 1 2 ST_TRANSCODE 0)) (videos transcode_db) = Some queued_video"
  "v_status queued_video \<in> {VS_QUEUED, VS_PROCESSING}"
  by (simp_all add: transcode_db_def queued_video_def jobs_inv_def new_job_def video_stage_def
      job_ok_def by_key_def sample_video_def)

lemma toy_verified: "\<exists>ver. verify_storage (queued_video\<lparr>v_status := VS_PROCESSING\<rparr>) toy_presigner = Inr ver"
  by (simp add: verify_storage_def queued_video_def toy_presigner_def sample_video_def Let_def)

theorem transcode_succeeds_witness:
  "\<exists>res d'. execute_transcode default_settings (Some toy_presigner) (\<lambda>v. Inr toy_artifact) 2 7 (Some ''t1'')
     None 9 (\<lambda>k. 50) (\<lambda>k d. d) transcode_db = (Inr (res, []), d') \<and> sr_status res = ''completed''"
proof -
  obtain ver where "verify_storage (queued_video\<lparr>v_status := VS_PROCESSING\<rparr>) toy_presigner = Inr ver"
    using toy_verified by blast
  from transcode_succeeds[OF transcode_db_facts this, of "\<lambda>v. Inr toy_artifact" toy_artifact]
  show ?thesis by blast
qed

theorem transcode_failure_outcome_witness:
  "\<exists>res d' j'. execute_transcode default_settings (Some toy_presigner)
     (\<lambda>v. Inl (TransientProcessingError E_PROCESSING_STORAGE_FAILURE ''down'' [])) 2 7 (Some ''t1'')
     None 9 (\<lambda>k. 50) (\<lambda>k d. d) transcode_db = (Inr (res, []), d') \<and> sr_retryable res \<and>
     by_key j_id 7 (jobs d') = Some j' \<and> j_celery_task_id j' = Some ''t1''"
proof -
  have c: "case verify_storage (queued_video\<lparr>v_status := VS_PROCESSING\<rparr>) toy_presigner of
      Inl e' \<Rightarrow> e' = TransientProcessingError E_PROCESSING_STORAGE_FAILURE ''down'' []
    | Inr ver \<Rightarrow> (\<lambda>v. Inl (TransientProcessingError E_PROCESSING_STORAGE_FAILURE ''down'' []))
        (queued_video\<lparr>v_status := VS_PROCESSING\<rparr>) =
        (Inl (TransientProcessingError E_PROCESSING_STORAGE_FAILURE ''down'' []) :: worker_exn + mezzanine_artifact)"
    using toy_verified by auto
  show ?thesis
    using transcode_failure_outcome[where mezz = "\<lambda>v. Inl (TransientProcessingError E_PROCESSING_STORAGE_FAILURE ''down'' [])",
        OF transcode_db_facts c, of default_settings 2 "Some ''t1''" None 9 "\<lambda>k. 50"] by fastforce
qed

theorem verified_object_matches_witness:
  "\<exists>key m. v_storage_key_raw queued_video = Some key \<and> ps_head_object toy_presigner key = Inr (Some m)"
proof -
  obtain ver where "verify_storage (queued_video\<lparr>v_status := VS_PROCESSING\<rparr>) toy_presigner = Inr ver"
    using toy_verified by blast
  from verified_object_matches[OF this] show ?thesis by auto
qed

theorem terminal_failure_ignores_owner_witness:
  "map_option j_status (by_key j_id 7 (jobs (terminal_failure 7 ''t1'' ''X'' ''late'' True 60
     (transcode_db\<lparr>jobs := [claim_values (Some ''t2'') 50 (new_job 7 1 2 ST_TRANSCODE 0)]\<rparr>)))) = Some JS_FAILED"
  using terminal_failure_ignores_owner[of
      "transcode_db\<lparr>jobs := [claim_values (Some ''t2'') 50 (new_job 7 1 2 ST_TRANSCODE 0)]\<rparr>" 7
      "claim_values (Some ''t2'') 50 (new_job 7 1 2 ST_TRANSCODE 0)" "''t1''" queued_video "''X''" "''late''" 60]
  by (simp add: by_key_def claim_values_def new_job_def transcode_db_def queued_video_def sample_video_def)

definition transcode_run :: "(worker_exn + stage_result \<times> string list) \<times> db" where
  "transcode_run = execute_transcode default_settings (Some toy_presigner) (\<lambda>v. Inr toy_artifact) 1 7
     (Some ''t1'') None 9 (\<lambda>k. 50) (\<lambda>k d. d) transcode_db"

lemma transcode_run_completes: "\<exists>res. fst transcode_run = Inr (res, []) \<and> sr_status res = ''completed''"
  by (simp add: transcode_run_def execute_transcode_def transcode_db_def queued_video_def by_key_def
      new_job_def claim_job_def claim_values_def update_returning_def begin_transcode_def
      transcode_work_def touch_heartbeat_def heartbeat_values_def task_matches_def
      set_video_status_def sample_video_def verify_storage_def toy_presigner_def
      materialize_outputs_def claimed_job_active_def materialized_def finish_transcode_def
      complete_job_def resolve_team_plan_def Let_def sample_db_def empty_db_def)

theorem transcode_completed_by_owner_witness:
  "\<exists>j. by_key j_id 7 (jobs (snd transcode_run)) = Some j \<and> j_status j = JS_COMPLETED \<and>
     task_matches (Some ''t1'') j"
proof -
  obtain res where "fst transcode_run = Inr (res, [])" and st: "sr_status res = ''completed''"
    using transcode_run_completes by blast
  then have "transcode_run = (Inr (res, []), snd transcode_run)" by (metis prod.collapse)
  from transcode_completed_by_owner[OF transcode_db_facts(1) job_env_id this[unfolded transcode_run_def] st]
  show ?thesis unfolding transcode_run_def .
qed

end
