(* ===== verification/Cleanup.thy ===== *)
theory Cleanup
  imports Uploads
begin

text \<open>
  \<open>runtime/cleanup.py\<close> of the worker: the maintenance tick that fails jobs whose worker died, expires
  abandoned uploads, deletes raw footage whose retention has passed, retries deletions the store
  refused, and prunes tokens and reports. A SELECT returns a snapshot of the rows it finds, in table
  order; \<open>locked\<close> holds the ids that \<open>FOR UPDATE SKIP LOCKED\<close> skips. The row locks end with the first
  COMMIT of a loop: \<open>itf k\<close> is what other transactions do to the database from the \<open>k\<close>-th COMMIT on
  (or, in the loop that takes no locks, before the \<open>k\<close>-th row). \<open>clk k\<close> is the clock. The session's
  default synchronisation applies an UPDATE to the loaded object as well, so an audit record written
  after it reads the new column values. The calls that changed the store are returned in order.
\<close>

section \<open>Stale jobs\<close>

definition stale_cutoff :: "settings \<Rightarrow> time \<Rightarrow> time" where
  "stale_cutoff s now = now - seconds (max 1 (worker_stale_heartbeat_seconds s))"

definition stale_job :: "time \<Rightarrow> job_row \<Rightarrow> bool" where
  "stale_job cutoff j =
     (j_status j = JS_RUNNING \<and> (case j_heartbeat_at j of None \<Rightarrow> False | Some h \<Rightarrow> h < cutoff))"

definition stale_metadata :: "job_row \<Rightarrow> jobj" where
  "stale_metadata job =
     jput ''stale_since'' (jopt JTime (j_heartbeat_at job)) (or_empty (j_result_metadata job))"

definition recover_job :: "string option \<Rightarrow> time \<Rightarrow> job_row \<Rightarrow> db \<Rightarrow> db" where
  "recover_job request_id now job d =
     (let d = d\<lparr>jobs := fst (fail_job E_PROCESSING_STALE_RECOVERED ''heartbeat stale''
            (Some (stale_metadata job)) now (j_id job) (jobs d))\<rparr>;
          d = d\<lparr>videos := fst (set_video_status VS_FAILED [VS_PROCESSING, VS_QUEUED] (j_video_id job) (videos d))\<rparr>
      in write_worker_audit A_VIDEO_PROCESSING_RECOVERED_STALE (Some (j_team_id job)) ''processing_job''
           (Some (j_id job)) request_id
           [(''video_id'', JUuid (j_video_id job)),
            (''stage'', JStr (processing_job_stage_value (j_stage job))),
            (''stale_since'', jopt JTime (j_heartbeat_at job))] d)"

fun recover_loop ::
  "string option \<Rightarrow> (nat \<Rightarrow> time) \<Rightarrow> (nat \<Rightarrow> db \<Rightarrow> db) \<Rightarrow> nat \<Rightarrow> job_row list \<Rightarrow> db \<Rightarrow> uuid list \<times> db" where
  "recover_loop request_id clk itf k [] d = ([], d)"
| "recover_loop request_id clk itf k (job # rows) d =
     (let (ids, d) = recover_loop request_id clk itf (Suc k) rows
            (itf k (recover_job request_id (clk k) job d))
      in (j_id job # ids, d))"

definition recover_stale_jobs ::
  "settings \<Rightarrow> string option \<Rightarrow> (uuid \<Rightarrow> bool) \<Rightarrow> (nat \<Rightarrow> time) \<Rightarrow> (nat \<Rightarrow> db \<Rightarrow> db) \<Rightarrow> db \<Rightarrow> uuid list \<times> db" where
  "recover_stale_jobs s request_id locked clk itf d =
     recover_loop request_id clk itf 0
       (filter (\<lambda>j. stale_job (stale_cutoff s (clk 0)) j \<and> \<not> locked (j_id j)) (jobs d)) d"

section \<open>Abandoned uploads\<close>

definition upload_abandoned :: "time \<Rightarrow> video_row \<Rightarrow> bool" where
  "upload_abandoned cutoff v =
     (v_status v = VS_PENDING_UPLOAD \<and>
      (case v_upload_expires_at v of None \<Rightarrow> False | Some t \<Rightarrow> t < cutoff))"

text \<open>The calls to the store, whose failures are suppressed.\<close>

definition discard_upload :: "presigner option \<Rightarrow> video_row \<Rightarrow> storage_op list" where
  "discard_upload storage v =
     (case storage of
        None \<Rightarrow> []
      | Some ps \<Rightarrow>
          (case v_storage_key_raw v of
             None \<Rightarrow> []
           | Some key \<Rightarrow>
               (case v_upload_id v of
                  Some upload_id \<Rightarrow>
                    (case ps_abort_multipart ps key upload_id of Inl e \<Rightarrow> [] | Inr _ \<Rightarrow> [OpAbort key upload_id])
                | None \<Rightarrow>
                    (case ps_delete_object ps key of Inl e \<Rightarrow> [] | Inr _ \<Rightarrow> [OpDelete key]))))"

definition abandon_values :: "video_row \<Rightarrow> video_row" where
  "abandon_values v = v\<lparr>v_status := VS_FAILED, v_upload_id := None, v_upload_expires_at := None\<rparr>"

definition abandon_upload :: "string option \<Rightarrow> time \<Rightarrow> video_row \<Rightarrow> db \<Rightarrow> db" where
  "abandon_upload request_id now video d =
     (let d = d\<lparr>videos := update_where (\<lambda>v. v_id v = v_id video \<and> v_status v = VS_PENDING_UPLOAD)
            abandon_values (videos d)\<rparr>;
          d = release_video_upload_quota_reservation (v_team_id video) (v_id video)
            ''abandoned_upload_cleanup'' now d;
          video = abandon_values video
      in write_worker_audit A_VIDEO_UPLOAD_ABANDONED (Some (v_team_id video)) ''video''
           (Some (v_id video)) request_id
           [(''upload_expires_at'', jopt JTime (v_upload_expires_at video)),
            (''had_upload_id'', JBool (v_upload_id video \<noteq> None))] d)"

fun abandon_loop ::
  "presigner option \<Rightarrow> string option \<Rightarrow> (nat \<Rightarrow> time) \<Rightarrow> (nat \<Rightarrow> db \<Rightarrow> db) \<Rightarrow> nat \<Rightarrow> video_row list \<Rightarrow> db \<Rightarrow>
   uuid list \<times> db \<times> storage_op list" where
  "abandon_loop storage request_id clk itf k [] d = ([], d, [])"
| "abandon_loop storage request_id clk itf k (video # rows) d =
     (let (ids, d, ops) = abandon_loop storage request_id clk itf (Suc k) rows
            (abandon_upload request_id (clk k) video (itf k d))
      in (v_id video # ids, d, discard_upload storage video @ ops))"

definition cleanup_abandoned_uploads ::
  "settings \<Rightarrow> presigner option \<Rightarrow> string option \<Rightarrow> (nat \<Rightarrow> time) \<Rightarrow> (nat \<Rightarrow> db \<Rightarrow> db) \<Rightarrow> db \<Rightarrow>
   uuid list \<times> db \<times> storage_op list" where
  "cleanup_abandoned_uploads s storage request_id clk itf d =
     abandon_loop storage request_id clk itf 1
       (filter (upload_abandoned (clk 0 - seconds (worker_abandoned_upload_grace_seconds s))) (videos d)) d"

section \<open>Raw footage past its retention\<close>

definition raw_expired :: "time \<Rightarrow> video_row \<Rightarrow> bool" where
  "raw_expired now v =
     (v_storage_key_raw v \<noteq> None \<and> v_raw_storage_deleted_at v = None \<and>
      (case v_raw_retention_expires_at v of None \<Rightarrow> False | Some t \<Rightarrow> t \<le> now) \<and>
      v_status v \<in> {VS_PROCESSED, VS_FAILED})"

definition raw_batch :: "settings \<Rightarrow> (uuid \<Rightarrow> bool) \<Rightarrow> (video_row \<Rightarrow> bool) \<Rightarrow> db \<Rightarrow> video_row list" where
  "raw_batch s locked p d =
     take (nat (raw_video_retention_cleanup_batch_size s))
       (filter (\<lambda>v. p v \<and> \<not> locked (v_id v)) (videos d))"

definition request_raw_delete :: "time \<Rightarrow> video_row \<Rightarrow> video_row" where
  "request_raw_delete now v = v\<lparr>v_raw_delete_requested_at := Some now, v_raw_delete_failed_at := None,
     v_raw_delete_reason := Some ''retention_expired''\<rparr>"

definition raw_delete_failed :: "time \<Rightarrow> video_row \<Rightarrow> video_row" where
  "raw_delete_failed now v = v\<lparr>v_raw_delete_failed_at := Some now\<rparr>"

definition raw_deleted :: "time \<Rightarrow> video_row \<Rightarrow> video_row" where
  "raw_deleted now v = v\<lparr>v_storage_key_raw := None, v_storage_etag := None,
     v_raw_storage_deleted_at := Some now, v_raw_deleted_at := Some now, v_raw_delete_failed_at := None\<rparr>"

text \<open>The guarded UPDATE all of them share.\<close>

definition update_raw :: "uuid \<Rightarrow> (video_row \<Rightarrow> video_row) \<Rightarrow> db \<Rightarrow> db" where
  "update_raw i f d = d\<lparr>videos :=
     update_where (\<lambda>v. v_id v = i \<and> v_raw_storage_deleted_at v = None) f (videos d)\<rparr>"

definition raw_key :: "video_row \<Rightarrow> string" where
  "raw_key v = (case v_storage_key_raw v of None \<Rightarrow> [] | Some k \<Rightarrow> k)"

definition expire_raw_video ::
  "presigner \<Rightarrow> string option \<Rightarrow> time \<Rightarrow> (db \<Rightarrow> db) \<Rightarrow> video_row \<Rightarrow> db \<Rightarrow> bool \<times> db" where
  "expire_raw_video ps request_id now itf video d =
     (let d = itf (update_raw (v_id video) (request_raw_delete now) d)
      in case ps_delete_object ps (raw_key video) of
           Inl e \<Rightarrow>
             (False, update_raw (v_id video) (raw_delete_failed now)
               (write_worker_audit A_VIDEO_RAW_OBJECT_DELETE_FAILED (Some (v_team_id video)) ''video''
                 (Some (v_id video)) request_id
                 [(''raw_retention_expires_at'', jopt JTime (v_raw_retention_expires_at video)),
                  (''delete_reason'', JStr ''retention_expired'')] d))
         | Inr _ \<Rightarrow>
             (True, write_worker_audit A_VIDEO_RAW_OBJECT_DELETED (Some (v_team_id video)) ''video''
               (Some (v_id video)) request_id
               [(''storage_key_raw'', jopt JStr (v_storage_key_raw video)),
                (''raw_retention_expires_at'', jopt JTime (v_raw_retention_expires_at video)),
                (''delete_reason'', JStr ''retention_expired'')]
               (update_raw (v_id video) (raw_deleted now) d)))"

fun expire_loop ::
  "presigner \<Rightarrow> string option \<Rightarrow> time \<Rightarrow> (nat \<Rightarrow> db \<Rightarrow> db) \<Rightarrow> nat \<Rightarrow> video_row list \<Rightarrow> db \<Rightarrow>
   uuid list \<times> db \<times> storage_op list" where
  "expire_loop ps request_id now itf k [] d = ([], d, [])"
| "expire_loop ps request_id now itf k (video # rows) d =
     (let (done, d) = expire_raw_video ps request_id now (itf (2 * k)) video d;
          (ids, d, ops) = expire_loop ps request_id now itf (Suc k) rows (itf (2 * k + 1) d)
      in if done then (v_id video # ids, d, OpDelete (raw_key video) # ops) else (ids, d, ops))"

definition cleanup_expired_raw_videos ::
  "settings \<Rightarrow> presigner option \<Rightarrow> string option \<Rightarrow> (uuid \<Rightarrow> bool) \<Rightarrow> time \<Rightarrow> (nat \<Rightarrow> db \<Rightarrow> db) \<Rightarrow> db \<Rightarrow>
   uuid list \<times> db \<times> storage_op list" where
  "cleanup_expired_raw_videos s storage request_id locked now itf d =
     (case storage of
        None \<Rightarrow> ([], d, [])
      | Some ps \<Rightarrow> expire_loop ps request_id now itf 0 (raw_batch s locked (raw_expired now) d) d)"

section \<open>Retried deletions\<close>

definition raw_delete_pending :: "video_row \<Rightarrow> bool" where
  "raw_delete_pending v =
     (v_storage_key_raw v \<noteq> None \<and> v_raw_delete_requested_at v \<noteq> None \<and> v_raw_storage_deleted_at v = None)"

definition retry_raw_video ::
  "presigner \<Rightarrow> string option \<Rightarrow> time \<Rightarrow> video_row \<Rightarrow> db \<Rightarrow> bool \<times> db" where
  "retry_raw_video ps request_id now video d =
     (case ps_delete_object ps (raw_key video) of
        Inl e \<Rightarrow>
          (False, update_raw (v_id video) (raw_delete_failed now)
            (write_worker_audit A_VIDEO_RAW_OBJECT_DELETE_FAILED (Some (v_team_id video)) ''video''
              (Some (v_id video)) request_id
              [(''raw_deleted_at'', jopt JTime (v_raw_deleted_at video)),
               (''raw_delete_requested_at'', jopt JTime (v_raw_delete_requested_at video)),
               (''delete_reason'', jopt JStr (v_raw_delete_reason video))] d))
      | Inr _ \<Rightarrow>
          (True, write_worker_audit A_VIDEO_RAW_OBJECT_DELETED (Some (v_team_id video)) ''video''
            (Some (v_id video)) request_id
            [(''storage_key_raw'', jopt JStr (v_storage_key_raw video)),
             (''raw_deleted_at'', jopt JTime (v_raw_deleted_at (raw_deleted now video))),
             (''raw_delete_requested_at'', jopt JTime (v_raw_delete_requested_at video)),
             (''delete_reason'', jopt JStr (v_raw_delete_reason video)), (''source'', JStr ''retry'')]
            (update_raw (v_id video) (raw_deleted now) d)))"

fun retry_loop ::
  "presigner \<Rightarrow> string option \<Rightarrow> (nat \<Rightarrow> time) \<Rightarrow> (nat \<Rightarrow> db \<Rightarrow> db) \<Rightarrow> nat \<Rightarrow> video_row list \<Rightarrow> db \<Rightarrow>
   uuid list \<times> db \<times> storage_op list" where
  "retry_loop ps request_id clk itf k [] d = ([], d, [])"
| "retry_loop ps request_id clk itf k (video # rows) d =
     (let (done, d) = retry_raw_video ps request_id (clk k) video d;
          (ids, d, ops) = retry_loop ps request_id clk itf (Suc k) rows (itf k d)
      in if done then (v_id video # ids, d, OpDelete (raw_key video) # ops) else (ids, d, ops))"

definition retry_raw_video_storage_deletes ::
  "settings \<Rightarrow> presigner option \<Rightarrow> string option \<Rightarrow> (uuid \<Rightarrow> bool) \<Rightarrow> (nat \<Rightarrow> time) \<Rightarrow> (nat \<Rightarrow> db \<Rightarrow> db) \<Rightarrow> db \<Rightarrow>
   uuid list \<times> db \<times> storage_op list" where
  "retry_raw_video_storage_deletes s storage request_id locked clk itf d =
     (case storage of
        None \<Rightarrow> ([], d, [])
      | Some ps \<Rightarrow> retry_loop ps request_id clk itf 0 (raw_batch s locked raw_delete_pending d) d)"

section \<open>Tokens and reports\<close>

definition PRUNE_LIMIT :: nat where
  "PRUNE_LIMIT = 1000"

definition token_stale :: "time \<Rightarrow> time option \<Rightarrow> time \<Rightarrow> bool" where
  "token_stale now used_at expires_at \<longleftrightarrow> used_at \<noteq> None \<or> expires_at < now"

definition prune_audit :: "audit_action \<Rightarrow> string \<Rightarrow> string option \<Rightarrow> nat \<Rightarrow> db \<Rightarrow> db" where
  "prune_audit action resource_type request_id pruned d =
     (if pruned = 0 then d
      else write_worker_audit action None resource_type None request_id
        [(''count'', JInt (int pruned)), (''criterion'', JStr ''used_or_expired'')] d)"

definition cleanup_email_verification_tokens :: "string option \<Rightarrow> time \<Rightarrow> db \<Rightarrow> nat \<times> db" where
  "cleanup_email_verification_tokens request_id now d =
     (let stale_ids = take PRUNE_LIMIT (map ev_id (filter (\<lambda>t. token_stale now (ev_used_at t) (ev_expires_at t)) (email_tokens d)));
          pruned = length (filter (\<lambda>t. ev_id t \<in> set stale_ids) (email_tokens d));
          d = d\<lparr>email_tokens := filter (\<lambda>t. ev_id t \<notin> set stale_ids) (email_tokens d)\<rparr>
      in (pruned, prune_audit A_USER_EMAIL_VERIFICATION_TOKENS_PRUNED ''email_verification_token'' request_id pruned d))"

definition cleanup_password_reset_tokens :: "string option \<Rightarrow> time \<Rightarrow> db \<Rightarrow> nat \<times> db" where
  "cleanup_password_reset_tokens request_id now d =
     (let stale_ids = take PRUNE_LIMIT (map pr_id (filter (\<lambda>t. token_stale now (pr_used_at t) (pr_expires_at t)) (reset_tokens d)));
          pruned = length (filter (\<lambda>t. pr_id t \<in> set stale_ids) (reset_tokens d));
          d = d\<lparr>reset_tokens := filter (\<lambda>t. pr_id t \<notin> set stale_ids) (reset_tokens d)\<rparr>
      in (pruned, prune_audit A_USER_PASSWORD_RESET_TOKENS_PRUNED ''password_reset_token'' request_id pruned d))"

text \<open>The SQL function of migration 0024, which alone may delete from the append-only table.\<close>

definition nextballup_prune_csp_reports :: "time \<Rightarrow> db \<Rightarrow> nat \<times> db" where
  "nextballup_prune_csp_reports cutoff d =
     (length (filter (\<lambda>r. cr_received_at r < cutoff) (csp_reports d)),
      d\<lparr>csp_reports := filter (\<lambda>r. \<not> cr_received_at r < cutoff) (csp_reports d)\<rparr>)"

definition cleanup_expired_csp_reports :: "settings \<Rightarrow> time \<Rightarrow> db \<Rightarrow> nat \<times> db" where
  "cleanup_expired_csp_reports s now d =
     nextballup_prune_csp_reports (now - days (csp_report_retention_days s)) d"

section \<open>The whole tick\<close>

record cleanup_report =
  cp_recovered_stale_jobs :: "uuid list"
  cp_abandoned_uploads :: "uuid list"
  cp_expired_raw_videos :: "uuid list"
  cp_retried_raw_video_deletes :: "uuid list"
  cp_expired_demo_previews :: "string list"
  cp_pruned_email_verification_tokens :: nat
  cp_pruned_password_reset_tokens :: nat
  cp_pruned_csp_reports :: nat

text \<open>
  \<open>demo\<close> is what the sweep of the preview directory reports; \<open>clk\<close> and \<open>itf\<close> are indexed by the part
  of the tick first.
\<close>

definition run_full_cleanup ::
  "settings \<Rightarrow> presigner option \<Rightarrow> string option \<Rightarrow> (uuid \<Rightarrow> bool) \<Rightarrow> string list \<Rightarrow> (nat \<Rightarrow> nat \<Rightarrow> time) \<Rightarrow>
   (nat \<Rightarrow> nat \<Rightarrow> db \<Rightarrow> db) \<Rightarrow> db \<Rightarrow> cleanup_report \<times> db \<times> storage_op list" where
  "run_full_cleanup s storage request_id locked demo clk itf d =
     (let (recovered, d) = recover_stale_jobs s request_id locked (clk 0) (itf 0) d;
          (abandoned, d, ops1) = cleanup_abandoned_uploads s storage request_id (clk 1) (itf 1) d;
          (expired, d, ops2) = cleanup_expired_raw_videos s storage request_id locked (clk 2 0) (itf 2) d;
          (retried, d, ops3) = retry_raw_video_storage_deletes s storage request_id locked (clk 3) (itf 3) d;
          (email_tokens, d) = cleanup_email_verification_tokens request_id (clk 4 0) d;
          (reset_tokens, d) = cleanup_password_reset_tokens request_id (clk 5 0) d;
          (reports, d) = cleanup_expired_csp_reports s (clk 6 0) d
      in (\<lparr>cp_recovered_stale_jobs = recovered, cp_abandoned_uploads = abandoned,
           cp_expired_raw_videos = expired, cp_retried_raw_video_deletes = retried,
           cp_expired_demo_previews = demo, cp_pruned_email_verification_tokens = email_tokens,
           cp_pruned_password_reset_tokens = reset_tokens, cp_pruned_csp_reports = reports\<rparr>,
          d, ops1 @ ops2 @ ops3))"

section \<open>Lemmas\<close>

subsection \<open>The job table moves by job steps\<close>

lemma safe_recover_job [safe_intros]: "safe a d \<Longrightarrow> safe a (recover_job rid now job d)"
  unfolding recover_job_def Let_def
  by (intro safe_worker_audit, rule safe_jobs_eq[OF safe_ops(4)]) auto

lemma safe_recover_loop:
  "job_env itf \<Longrightarrow> safe a d \<Longrightarrow> safe a (snd (recover_loop rid clk itf k rows d))"
proof (induction rows arbitrary: k d)
  case (Cons job rows)
  have "safe a (itf k (recover_job rid (clk k) job d))"
    by (rule safe_itf[OF safe_recover_job[OF Cons.prems(2)] Cons.prems(1)])
  from Cons.IH[OF Cons.prems(1) this] show ?case by (simp add: case_prod_beta)
qed simp

lemma jobs_release [simp]: "jobs (release_video_upload_quota_reservation t v r now d) = jobs d"
  by (simp add: release_video_upload_quota_reservation_def record_usage_frame split: option.split)

lemma jobs_abandon [simp]: "jobs (abandon_upload rid now v d) = jobs d"
  by (simp add: abandon_upload_def Let_def)

lemma safe_abandon_loop:
  "job_env itf \<Longrightarrow> safe a d \<Longrightarrow> safe a (fst (snd (abandon_loop storage rid clk itf k rows d)))"
proof (induction rows arbitrary: k d)
  case (Cons v rows)
  have "safe a (abandon_upload rid (clk k) v (itf k d))"
    by (rule safe_jobs_eq[OF safe_itf[OF Cons.prems(2,1)] jobs_abandon])
  from Cons.IH[OF Cons.prems(1) this] show ?case by (simp add: case_prod_beta)
qed simp

lemma jobs_update_raw [simp]: "jobs (update_raw i f d) = jobs d"
  by (simp add: update_raw_def)

lemma jobs_expire_raw: "jobs (snd (expire_raw_video ps rid now itf v d)) = jobs (itf (update_raw (v_id v) (request_raw_delete now) d))"
  by (simp add: expire_raw_video_def Let_def split: sum.split)

lemma jobs_retry_raw [simp]: "jobs (snd (retry_raw_video ps rid now v d)) = jobs d"
  by (simp add: retry_raw_video_def split: sum.split)

lemma safe_expire_loop:
  "job_env itf \<Longrightarrow> safe a d \<Longrightarrow> safe a (fst (snd (expire_loop ps rid now itf k rows d)))"
proof (induction rows arbitrary: k d)
  case (Cons v rows)
  have "safe a (update_raw (v_id v) (request_raw_delete now) d)"
    using Cons.prems(2) by (rule safe_jobs_eq) simp
  then have "safe a (itf (2 * k) (update_raw (v_id v) (request_raw_delete now) d))"
    using Cons.prems(1) by (rule safe_itf)
  then have "safe a (snd (expire_raw_video ps rid now (itf (2 * k)) v d))"
    by (rule safe_jobs_eq) (simp add: jobs_expire_raw)
  then have "safe a (itf (2 * k + 1) (snd (expire_raw_video ps rid now (itf (2 * k)) v d)))"
    using Cons.prems(1) by (rule safe_itf)
  from Cons.IH[OF Cons.prems(1) this] show ?case by (simp add: case_prod_beta)
qed simp

lemma safe_retry_loop:
  "job_env itf \<Longrightarrow> safe a d \<Longrightarrow> safe a (fst (snd (retry_loop ps rid clk itf k rows d)))"
proof (induction rows arbitrary: k d)
  case (Cons v rows)
  have "safe a (itf k (snd (retry_raw_video ps rid (clk k) v d)))"
    by (rule safe_itf[OF safe_jobs_eq[OF Cons.prems(2) jobs_retry_raw] Cons.prems(1)])
  from Cons.IH[OF Cons.prems(1) this] show ?case by (simp add: case_prod_beta)
qed simp

lemma jobs_prune [simp]:
  "jobs (snd (cleanup_email_verification_tokens rid now d)) = jobs d"
  "jobs (snd (cleanup_password_reset_tokens rid now d)) = jobs d"
  "jobs (snd (cleanup_expired_csp_reports s now d)) = jobs d"
  by (simp_all add: cleanup_email_verification_tokens_def cleanup_password_reset_tokens_def
      cleanup_expired_csp_reports_def nextballup_prune_csp_reports_def prune_audit_def Let_def)

lemma safe_full_cleanup:
  assumes "\<And>p. job_env (itf p)"
  shows "safe d (fst (snd (run_full_cleanup s storage rid locked demo clk itf d)))"
proof -
  define d1 where "d1 = snd (recover_stale_jobs s rid locked (clk 0) (itf 0) d)"
  define d2 where "d2 = fst (snd (cleanup_abandoned_uploads s storage rid (clk 1) (itf 1) d1))"
  define d3 where "d3 = fst (snd (cleanup_expired_raw_videos s storage rid locked (clk 2 0) (itf 2) d2))"
  define d4 where "d4 = fst (snd (retry_raw_video_storage_deletes s storage rid locked (clk 3) (itf 3) d3))"
  have 1: "safe d d1" unfolding d1_def recover_stale_jobs_def by (rule safe_recover_loop[OF assms safe_refl])
  have 2: "safe d d2" unfolding d2_def cleanup_abandoned_uploads_def by (rule safe_abandon_loop[OF assms 1])
  have 3: "safe d d3" using 2 unfolding d3_def cleanup_expired_raw_videos_def
    by (auto split: option.split intro: safe_expire_loop[OF assms])
  have 4: "safe d d4" using 3 unfolding d4_def retry_raw_video_storage_deletes_def
    by (auto split: option.split intro: safe_retry_loop[OF assms])
  have "jobs (fst (snd (run_full_cleanup s storage rid locked demo clk itf d))) = jobs d4"
    by (simp add: run_full_cleanup_def case_prod_beta Let_def d4_def d3_def d2_def d1_def)
  with 4 show ?thesis by (rule safe_jobs_eq)
qed

subsection \<open>What a loop does to each row when nothing interferes\<close>

lemma recover_job_rows:
  "jobs (recover_job rid now job d) =
     fst (fail_job E_PROCESSING_STALE_RECOVERED ''heartbeat stale'' (Some (stale_metadata job)) now (j_id job) (jobs d))"
  "videos (recover_job rid now job d) =
     fst (set_video_status VS_FAILED [VS_PROCESSING, VS_QUEUED] (j_video_id job) (videos d))"
  by (simp_all add: recover_job_def Let_def)

lemma recover_ids: "fst (recover_loop rid clk itf k rows d) = map j_id rows"
  by (induction rows arbitrary: k d) (simp_all add: case_prod_beta)

lemma recover_loop_frame:
  "i \<notin> j_id ` set rows \<Longrightarrow>
     by_key j_id i (jobs (snd (recover_loop rid clk (\<lambda>k d. d) k rows d))) = by_key j_id i (jobs d)"
  by (induction rows arbitrary: k d) (auto simp: case_prod_beta recover_job_rows fail.frame)

lemma recover_loop_row:
  assumes "distinct (map j_id rows)" and "job \<in> set rows"
    and "by_key j_id (j_id job) (jobs d) = Some j" and "j_status j = JS_RUNNING"
  shows "\<exists>now. by_key j_id (j_id job) (jobs (snd (recover_loop rid clk (\<lambda>k d. d) k rows d))) =
    Some (fail_values E_PROCESSING_STALE_RECOVERED ''heartbeat stale'' (Some (stale_metadata job)) now j)"
  using assms
proof (induction rows arbitrary: k d)
  case (Cons a rows)
  show ?case
  proof (cases "a = job")
    case True
    then have "j_id job \<notin> j_id ` set rows" using Cons.prems(1) by auto
    with True Cons.prems show ?thesis
      by (auto simp: case_prod_beta recover_loop_frame recover_job_rows fail.row)
  next
    case False
    then have "j_id job \<in> j_id ` set rows" using Cons.prems(2) by simp
    then have "j_id job \<noteq> j_id a" using Cons.prems(1) by auto
    then have "by_key j_id (j_id job) (jobs (recover_job rid (clk k) a d)) = Some j"
      using Cons.prems by (simp add: recover_job_rows fail.frame)
    with Cons.IH[of "recover_job rid (clk k) a d" "Suc k"] Cons.prems False show ?thesis
      by (auto simp: case_prod_beta)
  qed
qed simp

lemma recover_loop_video:
  "by_key v_id i (videos d) = Some v \<Longrightarrow>
     by_key v_id i (videos (snd (recover_loop rid clk (\<lambda>k d. d) k rows d))) =
       Some (if i \<in> j_video_id ` set rows \<and> v_status v \<in> {VS_PROCESSING, VS_QUEUED}
             then v\<lparr>v_status := VS_FAILED\<rparr> else v)"
proof (induction rows arbitrary: k d v)
  case (Cons a rows)
  have "by_key v_id i (videos (recover_job rid (clk k) a d)) =
    Some (if i = j_video_id a \<and> v_status v \<in> {VS_PROCESSING, VS_QUEUED} then v\<lparr>v_status := VS_FAILED\<rparr> else v)"
    using Cons.prems by (cases "i = j_video_id a") (simp_all add: recover_job_rows video_status.row video_status.frame)
  from Cons.IH[OF this, of "Suc k"] show ?case by (auto simp: case_prod_beta)
qed simp

lemma raw_values_id [simp]:
  "v_id (request_raw_delete now v) = v_id v" "v_id (raw_delete_failed now v) = v_id v"
  "v_id (raw_deleted now v) = v_id v" "v_id (abandon_values v) = v_id v"
  by (simp_all add: request_raw_delete_def raw_delete_failed_def raw_deleted_def abandon_values_def)

lemma raw_values_open [simp]:
  "v_raw_storage_deleted_at (request_raw_delete now v) = v_raw_storage_deleted_at v"
  "v_raw_storage_deleted_at (raw_delete_failed now v) = v_raw_storage_deleted_at v"
  by (simp_all add: request_raw_delete_def raw_delete_failed_def)

lemma by_key_update_guarded:
  assumes "\<And>v. v_id (f v) = v_id v"
  shows "by_key v_id i (update_where (\<lambda>v. v_id v = k \<and> p v) f t) =
    map_option (\<lambda>v. if i = k \<and> p v then f v else v) (by_key v_id i t)"
  unfolding by_key_def by (induction t) (auto simp: assms)

lemma by_key_update_raw:
  "(\<And>v. v_id (f v) = v_id v) \<Longrightarrow> by_key v_id i (videos (update_raw k f d)) =
     map_option (\<lambda>v. if i = k \<and> v_raw_storage_deleted_at v = None then f v else v) (by_key v_id i (videos d))"
  by (simp add: update_raw_def by_key_update_guarded)

text \<open>The two loops over raw objects do the same to a row, but for the request that precedes.\<close>

definition raw_outcome :: "presigner \<Rightarrow> time \<Rightarrow> video_row \<Rightarrow> video_row \<Rightarrow> video_row" where
  "raw_outcome ps now video v =
     (case ps_delete_object ps (raw_key video) of
        Inl e \<Rightarrow> raw_delete_failed now v | Inr _ \<Rightarrow> raw_deleted now v)"

lemma raw_outcome_id [simp]: "v_id (raw_outcome ps now video v) = v_id v"
  by (simp add: raw_outcome_def split: sum.split)

lemma retry_raw_row:
  "by_key v_id i (videos (snd (retry_raw_video ps rid now video d))) =
     map_option (\<lambda>v. if i = v_id video \<and> v_raw_storage_deleted_at v = None
       then raw_outcome ps now video v else v) (by_key v_id i (videos d))"
  by (cases "ps_delete_object ps (raw_key video)"; cases "by_key v_id i (videos d)")
    (simp_all add: retry_raw_video_def raw_outcome_def by_key_update_raw)

lemma expire_raw_row:
  "by_key v_id i (videos (snd (expire_raw_video ps rid now (\<lambda>d. d) video d))) =
     map_option (\<lambda>v. if i = v_id video \<and> v_raw_storage_deleted_at v = None
       then raw_outcome ps now video (request_raw_delete now v) else v) (by_key v_id i (videos d))"
  by (cases "ps_delete_object ps (raw_key video)"; cases "by_key v_id i (videos d)")
    (simp_all add: expire_raw_video_def raw_outcome_def by_key_update_raw)

lemma expire_loop_frame:
  "i \<notin> v_id ` set rows \<Longrightarrow>
     by_key v_id i (videos (fst (snd (expire_loop ps rid now (\<lambda>k d. d) k rows d)))) = by_key v_id i (videos d)"
  by (induction rows arbitrary: k d) (auto simp: case_prod_beta expire_raw_row option.map_ident)

lemma expire_loop_row:
  assumes "distinct (map v_id rows)" and "video \<in> set rows"
    and "by_key v_id (v_id video) (videos d) = Some v" and "v_raw_storage_deleted_at v = None"
  shows "by_key v_id (v_id video) (videos (fst (snd (expire_loop ps rid now (\<lambda>k d. d) k rows d)))) =
    Some (raw_outcome ps now video (request_raw_delete now v))"
  using assms
proof (induction rows arbitrary: k d)
  case (Cons a rows)
  let ?d = "snd (expire_raw_video ps rid now (\<lambda>d. d) a d)"
  show ?case
  proof (cases "a = video")
    case True
    then have "v_id video \<notin> v_id ` set rows" using Cons.prems(1) by auto
    from expire_loop_frame[OF this, where d = ?d and k = "Suc k"] True Cons.prems(3,4) show ?thesis
      by (simp add: case_prod_beta expire_raw_row)
  next
    case False
    then have "v_id video \<in> v_id ` set rows" using Cons.prems(2) by simp
    then have "v_id video \<noteq> v_id a" using Cons.prems(1) by auto
    then have "by_key v_id (v_id video) (videos ?d) = Some v"
      using Cons.prems(3) by (simp add: expire_raw_row)
    with Cons.IH[of ?d "Suc k"] Cons.prems False show ?thesis by (simp add: case_prod_beta)
  qed
qed simp

lemma retry_loop_frame:
  "i \<notin> v_id ` set rows \<Longrightarrow>
     by_key v_id i (videos (fst (snd (retry_loop ps rid clk (\<lambda>k d. d) k rows d)))) = by_key v_id i (videos d)"
  by (induction rows arbitrary: k d) (auto simp: case_prod_beta retry_raw_row option.map_ident)

lemma retry_loop_row:
  assumes "distinct (map v_id rows)" and "video \<in> set rows"
    and "by_key v_id (v_id video) (videos d) = Some v" and "v_raw_storage_deleted_at v = None"
  shows "\<exists>now. by_key v_id (v_id video) (videos (fst (snd (retry_loop ps rid clk (\<lambda>k d. d) k rows d)))) =
    Some (raw_outcome ps now video v)"
  using assms
proof (induction rows arbitrary: k d)
  case (Cons a rows)
  let ?d = "snd (retry_raw_video ps rid (clk k) a d)"
  show ?case
  proof (cases "a = video")
    case True
    then have "v_id video \<notin> v_id ` set rows" using Cons.prems(1) by auto
    from retry_loop_frame[OF this, where d = ?d and k = "Suc k"] True Cons.prems(3,4) show ?thesis
      by (auto simp: case_prod_beta retry_raw_row)
  next
    case False
    then have "v_id video \<in> v_id ` set rows" using Cons.prems(2) by simp
    then have "v_id video \<noteq> v_id a" using Cons.prems(1) by auto
    then have "by_key v_id (v_id video) (videos ?d) = Some v"
      using Cons.prems(3) by (simp add: retry_raw_row)
    with Cons.IH[of ?d "Suc k"] Cons.prems False show ?thesis by (simp add: case_prod_beta)
  qed
qed simp

lemma expire_loop_ops:
  "set (snd (snd (expire_loop ps rid now itf k rows d))) =
     {OpDelete (raw_key v) | v. v \<in> set rows \<and> (\<exists>u. ps_delete_object ps (raw_key v) = Inr u)}"
  by (induction rows arbitrary: k d)
    (auto simp: case_prod_beta expire_raw_video_def Let_def split: sum.split)

lemma retry_loop_ops:
  "set (snd (snd (retry_loop ps rid clk itf k rows d))) =
     {OpDelete (raw_key v) | v. v \<in> set rows \<and> (\<exists>u. ps_delete_object ps (raw_key v) = Inr u)}"
  by (induction rows arbitrary: k d)
    (auto simp: case_prod_beta retry_raw_video_def split: sum.split)

lemma raw_batch_distinct: "distinct (map v_id (videos d)) \<Longrightarrow> distinct (map v_id (raw_batch s locked p d))"
  unfolding raw_batch_def take_map[symmetric] by (intro distinct_take distinct_map_filter)

lemma raw_batch_mem: "v \<in> set (raw_batch s locked p d) \<Longrightarrow> v \<in> set (videos d) \<and> p v"
  unfolding raw_batch_def by (auto dest: in_set_takeD)

section \<open>Properties\<close>

text \<open>
  C18: Stale recovery fails exactly the dead jobs. When no other transaction interferes,
  \<open>recover_stale_jobs\<close> reports and fails precisely the running jobs whose last heartbeat is older than
  the configured limit and whose row is not locked; each keeps the time of that heartbeat in its
  metadata, every other job is unchanged, and a video is failed exactly when one of its jobs was
  recovered while it was queued or processing.
\<close>

theorem stale_jobs_recovered:
  assumes "jobs_inv (jobs d)" and "recover_stale_jobs s rid locked clk (\<lambda>k d. d) d = (ids, d')"
    and "\<And>j. stale j \<longleftrightarrow> j_status j = JS_RUNNING \<and> \<not> locked (j_id j) \<and>
      (\<exists>h. j_heartbeat_at j = Some h \<and> h < clk 0 - seconds (max 1 (worker_stale_heartbeat_seconds s)))"
  shows "ids = map j_id (filter stale (jobs d)) \<and>
    (\<forall>j \<in> set (jobs d). \<exists>j'. by_key j_id (j_id j) (jobs d') = Some j' \<and>
       (if stale j then j_status j' = JS_FAILED \<and>
          (\<exists>meta. j_result_metadata j' = Some meta \<and>
             jget ''stale_since'' meta = Some (JTime (the (j_heartbeat_at j))) \<and>
             jget ''error_code'' meta = Some (JStr E_PROCESSING_STALE_RECOVERED))
        else j' = j)) \<and>
    (\<forall>i v. by_key v_id i (videos d) = Some v \<longrightarrow> by_key v_id i (videos d') =
       Some (if (\<exists>j \<in> set (jobs d). stale j \<and> j_video_id j = i) \<and> v_status v \<in> {VS_PROCESSING, VS_QUEUED}
             then v\<lparr>v_status := VS_FAILED\<rparr> else v))"
proof -
  define rows where "rows = filter stale (jobs d)"
  have "(\<lambda>j. stale_job (stale_cutoff s (clk 0)) j \<and> \<not> locked (j_id j)) = stale"
    by (rule ext) (auto simp: assms(3) stale_job_def stale_cutoff_def split: option.splits)
  then have r: "recover_loop rid clk (\<lambda>k d. d) 0 rows d = (ids, d')"
    using assms(2) by (simp add: recover_stale_jobs_def rows_def)
  have keys: "distinct (map j_id (jobs d))" using assms(1) by (rule jobs_inv_keys)
  then have rk: "distinct (map j_id rows)" unfolding rows_def by (rule distinct_map_filter)
  have d': "d' = snd (recover_loop rid clk (\<lambda>k d. d) 0 rows d)" using r by simp
  have job: "\<exists>j'. by_key j_id (j_id j) (jobs d') = Some j' \<and>
       (if stale j then j_status j' = JS_FAILED \<and>
          (\<exists>meta. j_result_metadata j' = Some meta \<and>
             jget ''stale_since'' meta = Some (JTime (the (j_heartbeat_at j))) \<and>
             jget ''error_code'' meta = Some (JStr E_PROCESSING_STALE_RECOVERED))
        else j' = j)" if j: "j \<in> set (jobs d)" for j
  proof (cases "stale j")
    case True
    with j have "j \<in> set rows" by (simp add: rows_def)
    moreover have "j_status j = JS_RUNNING" using True assms(3) by simp
    ultimately obtain now where "by_key j_id (j_id j) (jobs d') = Some (fail_values
        E_PROCESSING_STALE_RECOVERED ''heartbeat stale'' (Some (stale_metadata j)) now j)"
      using recover_loop_row[OF rk _ by_key_mem[OF keys j]] unfolding d' by blast
    moreover obtain h where "j_heartbeat_at j = Some h" using True assms(3) by blast
    ultimately show ?thesis using True
      by (simp add: fail_values_def stale_metadata_def or_empty_def jopt_def)
  next
    case False
    have "j_id j \<notin> j_id ` set rows"
    proof
      assume "j_id j \<in> j_id ` set rows"
      then obtain x where "x \<in> set (jobs d)" "stale x" "j_id x = j_id j" by (auto simp: rows_def)
      with by_key_mem[OF keys j] by_key_mem[OF keys] have "x = j" by (metis option.inject)
      with \<open>stale x\<close> False show False by simp
    qed
    from recover_loop_frame[OF this] by_key_mem[OF keys j] False show ?thesis by (simp add: d')
  qed
  have "ids = map j_id rows" using recover_ids[of rid clk "\<lambda>k d. d" 0 rows d] r by simp
  moreover have "(i \<in> j_video_id ` set rows) = (\<exists>j \<in> set (jobs d). stale j \<and> j_video_id j = i)" for i
    by (auto simp: rows_def)
  ultimately show ?thesis
    using job recover_loop_video[where rid = rid and clk = clk and k = 0 and rows = rows and d = d]
    by (auto simp: d' rows_def)
qed

text \<open>
  Raw footage is forgotten only when it is gone. A pass of \<open>cleanup_expired_raw_videos\<close> leaves every
  video outside its batch as it was; the batch holds only processed or failed videos whose retention
  has passed. For a video of the batch the key is dropped and the deletion time set exactly when the
  store confirmed the deletion; otherwise the key is kept, the failure is recorded and the video is
  eligible for \<open>retry_raw_video_storage_deletes\<close>. The store lost no object outside the batch.
\<close>

theorem raw_footage_expiry:
  assumes "distinct (map v_id (videos d))" and "v \<in> set (videos d)"
    and "cleanup_expired_raw_videos s (Some ps) rid locked now (\<lambda>k d. d) d = (ids, d', ops)"
    and "batch = raw_batch s locked (raw_expired now) d"
  shows "\<exists>v'. by_key v_id (v_id v) (videos d') = Some v' \<and>
    (v \<notin> set batch \<longrightarrow> v' = v) \<and>
    (v \<in> set batch \<longrightarrow> v_status v \<in> {VS_PROCESSED, VS_FAILED} \<and>
       (\<exists>t k. v_raw_retention_expires_at v = Some t \<and> t \<le> now \<and> v_storage_key_raw v = Some k \<and>
         (case ps_delete_object ps k of
            Inr _ \<Rightarrow> v_storage_key_raw v' = None \<and> v_raw_storage_deleted_at v' = Some now
          | Inl _ \<Rightarrow> v_storage_key_raw v' = Some k \<and> v_raw_delete_failed_at v' = Some now \<and> raw_delete_pending v'))) \<and>
    set ops = {OpDelete (raw_key v) | v. v \<in> set batch \<and> (\<exists>u. ps_delete_object ps (raw_key v) = Inr u)}"
proof -
  have r: "expire_loop ps rid now (\<lambda>k d. d) 0 batch d = (ids, d', ops)"
    using assms(3) by (simp add: cleanup_expired_raw_videos_def assms(4))
  have d': "d' = fst (snd (expire_loop ps rid now (\<lambda>k d. d) 0 batch d))" using r by simp
  have ops: "set ops = {OpDelete (raw_key v) | v. v \<in> set batch \<and> (\<exists>u. ps_delete_object ps (raw_key v) = Inr u)}"
    using expire_loop_ops[of ps rid now "\<lambda>k d. d" 0 batch d] r by simp
  have bk: "distinct (map v_id batch)" unfolding assms(4) by (rule raw_batch_distinct[OF assms(1)])
  have key: "by_key v_id (v_id v) (videos d) = Some v" by (rule by_key_mem[OF assms(1,2)])
  show ?thesis
  proof (cases "v \<in> set batch")
    case True
    then have e: "raw_expired now v" using raw_batch_mem assms(4) by blast
    then have "v_raw_storage_deleted_at v = None" by (simp add: raw_expired_def)
    from expire_loop_row[OF bk True key this, of ps rid now 0] ops e True show ?thesis
      by (auto simp: d' raw_outcome_def raw_expired_def raw_key_def raw_delete_pending_def
          request_raw_delete_def raw_delete_failed_def raw_deleted_def split: option.splits sum.split)
  next
    case False
    have "v_id v \<notin> v_id ` set batch"
    proof
      assume "v_id v \<in> v_id ` set batch"
      then obtain x where x: "x \<in> set batch" "v_id x = v_id v" by auto
      then have "x \<in> set (videos d)" using raw_batch_mem assms(4) by blast
      with by_key_mem[OF assms(1)] key x(2) have "x = v" by (metis option.inject)
      with x(1) False show False by simp
    qed
    from expire_loop_frame[OF this] key False ops show ?thesis by (simp add: d')
  qed
qed

text \<open>
  A refused deletion is retried until it succeeds. When the store refuses to delete the raw object
  of an expired video, the next pass of \<open>retry_raw_video_storage_deletes\<close> whose batch reaches the video
  and whose store accepts the deletion removes the object and clears the key.
\<close>

theorem raw_deletion_retried:
  assumes "distinct (map v_id (videos d))" and "v \<in> set (raw_batch s locked (raw_expired now) d)"
    and "ps_delete_object ps (raw_key v) = Inl e"
    and "cleanup_expired_raw_videos s (Some ps) rid locked now (\<lambda>k d. d) d = (ids, d1, ops)"
    and "by_key v_id (v_id v) (videos d1) = Some v1"
    and "v1 \<in> set (raw_batch s' locked' raw_delete_pending d1)" and "distinct (map v_id (videos d1))"
    and "ps_delete_object ps' (raw_key v) = Inr ()"
    and "retry_raw_video_storage_deletes s' (Some ps') rid' locked' clk (\<lambda>k d. d) d1 = (ids', d2, ops')"
  shows "\<exists>v2 t. by_key v_id (v_id v) (videos d2) = Some v2 \<and> v_storage_key_raw v2 = None \<and>
    v_raw_storage_deleted_at v2 = Some t \<and> OpDelete (raw_key v) \<in> set ops'"
proof -
  have v: "v \<in> set (videos d)" "raw_expired now v" using raw_batch_mem[OF assms(2)] by auto
  have open_: "v_raw_storage_deleted_at v = None" using v(2) by (simp add: raw_expired_def)
  have d1: "d1 = fst (snd (expire_loop ps rid now (\<lambda>k d. d) 0 (raw_batch s locked (raw_expired now) d) d))"
    using assms(4) by (simp add: cleanup_expired_raw_videos_def)
  have v1: "v1 = raw_delete_failed now (request_raw_delete now v)"
    using expire_loop_row[OF raw_batch_distinct[OF assms(1)] assms(2) by_key_mem[OF assms(1) v(1)] open_]
      assms(3,5) by (simp add: d1 raw_outcome_def)
  then have k1: "raw_key v1 = raw_key v" and i1: "v_id v1 = v_id v" and o1: "v_raw_storage_deleted_at v1 = None"
    by (simp_all add: raw_key_def raw_delete_failed_def request_raw_delete_def open_)
  let ?b = "raw_batch s' locked' raw_delete_pending d1"
  have r: "retry_loop ps' rid' clk (\<lambda>k d. d) 0 ?b d1 = (ids', d2, ops')"
    using assms(9) by (simp add: retry_raw_video_storage_deletes_def)
  obtain t where "by_key v_id (v_id v1) (videos d2) = Some (raw_outcome ps' t v1 v1)"
    using retry_loop_row[OF raw_batch_distinct[OF assms(7)] assms(6), where v = v1 and ps = ps' and
        rid = rid' and clk = clk and k = 0 and d = d1] assms(5) i1 o1 r by auto
  moreover have "OpDelete (raw_key v) \<in> set ops'"
    using retry_loop_ops[of ps' rid' clk "\<lambda>k d. d" 0 ?b d1] r assms(6,8) by (auto simp flip: k1)
  ultimately show ?thesis using assms(8) by (simp add: i1 k1 raw_outcome_def raw_deleted_def)
qed

text \<open>
  The row locks of the SELECT end with the first COMMIT of the loop: a job that is alive again by the
  time its turn comes is failed all the same.
\<close>

definition stale_pair :: db where
  "stale_pair = sample_db\<lparr>jobs :=
     [(new_job 70 1 2 ST_TRANSCODE 0)\<lparr>j_status := JS_RUNNING, j_celery_task_id := Some ''a'', j_started_at := Some 0, j_heartbeat_at := Some 0\<rparr>,
      (new_job 71 9 2 ST_TRANSCODE 0)\<lparr>j_status := JS_RUNNING, j_celery_task_id := Some ''b'', j_started_at := Some 0, j_heartbeat_at := Some 0\<rparr>]\<rparr>"

definition renew_second :: "nat \<Rightarrow> db \<Rightarrow> db" where
  "renew_second k d = (if k = 0 then d\<lparr>jobs := fst (touch_heartbeat None (Some ''b'') (seconds 900) 71 (jobs d))\<rparr> else d)"

theorem revived_job_still_failed:
  "\<exists>ids d' j. recover_stale_jobs default_settings None (\<lambda>i. False) (\<lambda>k. seconds 900) renew_second stale_pair = (ids, d') \<and>
     by_key j_id 71 (jobs d') = Some j \<and> j_heartbeat_at j = Some (seconds 900) \<and> j_status j = JS_FAILED"
proof -
  let ?r = "recover_stale_jobs default_settings None (\<lambda>i. False) (\<lambda>k. seconds 900) renew_second stale_pair"
  have "map_option (\<lambda>j. (j_heartbeat_at j, j_status j)) (by_key j_id 71 (jobs (snd ?r))) =
    Some (Some (seconds 900), JS_FAILED)" by code_simp
  then obtain j where "by_key j_id 71 (jobs (snd ?r)) = Some j" "j_heartbeat_at j = Some (seconds 900)"
    "j_status j = JS_FAILED" by auto
  then show ?thesis by (metis prod.collapse)
qed

text \<open>
  The audit record of an abandoned upload never names the expiry or the multipart upload it had: it is
  written after the UPDATE that cleared both columns of the loaded object.
\<close>

theorem abandoned_audit_blind:
  "au_extra (last (audit_logs (abandon_upload rid now video d))) =
     Some [(''upload_expires_at'', JNull), (''had_upload_id'', JBool False)]"
  by (simp add: abandon_upload_def Let_def write_worker_audit_def abandon_values_def jopt_def)

text \<open>
  The loop over abandoned uploads takes no lock: an upload completed between its SELECT and its turn
  stays queued for processing, but its object is deleted and its reservation released.
\<close>

definition late_completion :: "nat \<Rightarrow> db \<Rightarrow> db" where
  "late_completion k d = fst (snd (sample_complete 7 d))"

theorem late_completion_loses_object:
  "\<exists>ids d' ops v k. cleanup_abandoned_uploads default_settings (Some upload_store) None
       (\<lambda>k. seconds 100000000000) late_completion uploaded_db = (ids, d', ops) \<and>
     by_key v_id 1 (videos d') = Some v \<and> v_status v = VS_QUEUED \<and> v_storage_key_raw v = Some k \<and>
     OpDelete k \<in> set ops"
proof -
  let ?r = "cleanup_abandoned_uploads default_settings (Some upload_store) None
       (\<lambda>k. seconds 100000000000) late_completion uploaded_db"
  have "case by_key v_id 1 (videos (fst (snd ?r))) of None \<Rightarrow> False | Some v \<Rightarrow>
      v_status v = VS_QUEUED \<and> (case v_storage_key_raw v of None \<Rightarrow> False | Some k \<Rightarrow> OpDelete k \<in> set (snd (snd ?r)))"
    by code_simp
  then obtain v k where "by_key v_id 1 (videos (fst (snd ?r))) = Some v" "v_status v = VS_QUEUED"
    "v_storage_key_raw v = Some k" "OpDelete k \<in> set (snd (snd ?r))" by (auto split: option.splits)
  then show ?thesis by (metis prod.collapse)
qed

theorem stale_jobs_recovered_witness:
  "\<exists>ids d'. recover_stale_jobs default_settings None (\<lambda>i. i = 71) (\<lambda>k. seconds 900) (\<lambda>k d. d) stale_pair = (ids, d') \<and>
     ids = [70]"
proof -
  define stale where "stale j \<longleftrightarrow> j_status j = JS_RUNNING \<and> \<not> j_id j = 71 \<and>
      (\<exists>h. j_heartbeat_at j = Some h \<and> h < seconds 900 - seconds (max 1 (worker_stale_heartbeat_seconds default_settings)))"
    for j :: job_row
  obtain ids d' where r: "recover_stale_jobs default_settings None (\<lambda>i. i = 71) (\<lambda>k. seconds 900) (\<lambda>k d. d) stale_pair = (ids, d')"
    by fastforce
  have "jobs_inv (jobs stale_pair)"
    by (simp add: jobs_inv_def stale_pair_def new_job_def video_stage_def job_ok_def)
  from conjunct1[OF stale_jobs_recovered[OF this r, of stale]]
  have "ids = map j_id (filter stale (jobs stale_pair))" by (simp add: stale_def)
  also have "\<dots> = [70]" by (simp add: stale_def stale_pair_def new_job_def default_settings_def)
  finally show ?thesis using r by blast
qed

text \<open>A failed video whose retention is over, a store that refuses deletions, and one that accepts them.\<close>

definition expired_video :: video_row where
  "expired_video = sample_video\<lparr>v_status := VS_FAILED, v_raw_retention_expires_at := Some 5\<rparr>"

definition expired_db :: db where
  "expired_db = sample_db\<lparr>videos := [expired_video, sample_video\<lparr>v_id := 8\<rparr>]\<rparr>"

definition refusing_store :: presigner where
  "refusing_store = upload_store\<lparr>ps_delete_object := (\<lambda>k. Inl (StorageFailureError []))\<rparr>"

definition sample_expiry :: "presigner \<Rightarrow> uuid list \<times> db \<times> storage_op list" where
  "sample_expiry ps = cleanup_expired_raw_videos default_settings (Some ps) None (\<lambda>i. False) 9 (\<lambda>k d. d) expired_db"

lemma expired_facts:
  "distinct (map v_id (videos expired_db))" "expired_video \<in> set (videos expired_db)"
  "raw_batch default_settings (\<lambda>i. False) (raw_expired 9) expired_db = [expired_video]"
  "raw_key expired_video = ''raw/2/1/game.mp4''" "v_id expired_video = 1"
  by (simp_all add: expired_db_def expired_video_def raw_batch_def raw_expired_def raw_key_def
      default_settings_def sample_defs)

theorem raw_footage_expiry_witness:
  "set (snd (snd (sample_expiry upload_store))) = {OpDelete ''raw/2/1/game.mp4''}"
proof -
  have r: "cleanup_expired_raw_videos default_settings (Some upload_store) None (\<lambda>i. False) 9 (\<lambda>k d. d) expired_db =
    (fst (sample_expiry upload_store), fst (snd (sample_expiry upload_store)), snd (snd (sample_expiry upload_store)))"
    by (simp add: sample_expiry_def)
  show ?thesis
    using raw_footage_expiry[OF expired_facts(1,2) r expired_facts(3)[symmetric]]
    by (auto simp: expired_facts upload_store_def)
qed

theorem raw_deletion_retried_witness:
  "\<exists>d1 d2 v2. sample_expiry refusing_store = ([], d1, []) \<and>
     retry_raw_video_storage_deletes default_settings (Some upload_store) None (\<lambda>i. False) int (\<lambda>k d. d) d1 =
       ([1], d2, [OpDelete ''raw/2/1/game.mp4'']) \<and>
     by_key v_id 1 (videos d2) = Some v2 \<and> v_storage_key_raw v2 = None"
proof -
  define d1 where "d1 = fst (snd (sample_expiry refusing_store))"
  define d2 where "d2 = fst (snd (retry_raw_video_storage_deletes default_settings (Some upload_store) None
     (\<lambda>i. False) int (\<lambda>k d. d) d1))"
  let ?v1 = "raw_delete_failed 9 (request_raw_delete 9 expired_video)"
  have r1: "cleanup_expired_raw_videos default_settings (Some refusing_store) None (\<lambda>i. False) 9 (\<lambda>k d. d) expired_db =
    ([], d1, [])" unfolding d1_def sample_expiry_def
    by (simp add: cleanup_expired_raw_videos_def expired_facts expire_raw_video_def Let_def refusing_store_def)
  have t1: "videos d1 = [?v1, sample_video\<lparr>v_id := 8\<rparr>]"
    by (simp add: d1_def sample_expiry_def cleanup_expired_raw_videos_def expired_facts(3)
        expire_raw_video_def Let_def refusing_store_def update_raw_def)
      (simp add: expired_db_def expired_video_def raw_delete_failed_def request_raw_delete_def sample_defs)
  have k1: "by_key v_id (v_id expired_video) (videos d1) = Some ?v1"
    by (simp add: t1 by_key_def)
  have b: "raw_batch default_settings (\<lambda>i. False) raw_delete_pending d1 = [?v1]"
    by (simp add: raw_batch_def t1 raw_delete_pending_def raw_delete_failed_def request_raw_delete_def
        expired_video_def default_settings_def sample_defs)
  then have b1: "?v1 \<in> set (raw_batch default_settings (\<lambda>i. False) raw_delete_pending d1)" by simp
  have k: "raw_key ?v1 = ''raw/2/1/game.mp4''" "v_id ?v1 = 1"
    by (simp_all add: raw_key_def expired_video_def raw_delete_failed_def request_raw_delete_def sample_defs)
  have r2: "retry_raw_video_storage_deletes default_settings (Some upload_store) None (\<lambda>i. False) int (\<lambda>k d. d) d1 =
    ([1], d2, [OpDelete ''raw/2/1/game.mp4''])"
    by (simp add: d2_def retry_raw_video_storage_deletes_def b k expired_facts(5) retry_raw_video_def upload_store_def)
  have dist: "distinct (map v_id (videos d1))" by (simp add: t1 k expired_facts sample_defs)
  have v: "expired_video \<in> set (raw_batch default_settings (\<lambda>i. False) (raw_expired 9) expired_db)"
    by (simp add: expired_facts)
  have refuse: "ps_delete_object refusing_store (raw_key expired_video) = Inl (StorageFailureError [])"
    "ps_delete_object upload_store (raw_key expired_video) = Inr ()"
    by (simp_all add: refusing_store_def upload_store_def)
  from raw_deletion_retried[OF expired_facts(1) v refuse(1) r1 k1 b1 dist refuse(2) r2]
  obtain v2 where "by_key v_id 1 (videos d2) = Some v2" "v_storage_key_raw v2 = None"
    by (auto simp: expired_facts)
  with r1 r2 show ?thesis by (auto simp: sample_expiry_def)
qed

end
