(* ===== verification/Media.thy ===== *)
theory Media
  imports Transcode Preview_Render
begin

text \<open>
  The media pipeline of the transcode worker, \<open>runtime/media.py\<close>: checking the downloaded recording, choosing
  and building the ffmpeg command, running it confined, probing and publishing the browser mezzanine. The
  operating system is the record \<open>media_os\<close>: the environment, \<open>shutil.which\<close>, what a subprocess does to its output
  file, what ffprobe prints, the type detector and SHA-256; \<open>media_store\<close> is the object store, as the bytes it
  hands over. The fields of \<open>media_settings\<close> are those of \<open>Settings\<close>; the number of CPUs is kept as printed.
  Files are byte strings; the directories of the temporary files are made and removed outside the model.
\<close>

section \<open>Settings and the operating system\<close>

record media_settings =
  md_ffmpeg_binary :: string
  md_ffprobe_binary :: string
  md_avconvert_binary :: string
  md_transcode_timeout_seconds :: int
  md_ffmpeg_threads :: int
  md_media_temp_dir :: "string option"
  md_playback_max_width :: int
  md_playback_max_fps :: int
  md_playback_crf :: int
  md_playback_preset :: string
  md_remux_enabled :: bool
  md_remux_max_width :: int
  md_remux_max_fps :: int
  md_subprocess_sandbox :: bool
  md_max_cpu_seconds :: int
  md_max_output_bytes :: int
  md_max_open_files :: int
  md_container_sandbox_enabled :: bool
  md_container_image :: string
  md_container_binary :: string
  md_container_runtime :: string
  md_container_user :: string
  md_container_cpus :: string
  md_container_memory :: string
  md_container_pids_limit :: int
  md_container_tmpfs_size :: string

definition default_media_settings :: media_settings where
  "default_media_settings = \<lparr>md_ffmpeg_binary = ''ffmpeg'', md_ffprobe_binary = ''ffprobe'',
     md_avconvert_binary = ''avconvert'', md_transcode_timeout_seconds = 7200, md_ffmpeg_threads = 2,
     md_media_temp_dir = None, md_playback_max_width = 1280, md_playback_max_fps = 30, md_playback_crf = 26,
     md_playback_preset = ''veryfast'', md_remux_enabled = True, md_remux_max_width = 1920, md_remux_max_fps = 60,
     md_subprocess_sandbox = True, md_max_cpu_seconds = 7200, md_max_output_bytes = 100 * 1024 * 1024 * 1024,
     md_max_open_files = 64, md_container_sandbox_enabled = False,
     md_container_image = ''jrottenberg/ffmpeg:6.1-alpine'', md_container_binary = ''ffmpeg'',
     md_container_runtime = ''docker'', md_container_user = ''65532:65532'', md_container_cpus = ''2.0'',
     md_container_memory = ''8g'', md_container_pids_limit = 128, md_container_tmpfs_size = ''512m''\<rparr>"

record media_call =
  mc_cmd :: "string list"
  mc_cwd :: string
  mc_env :: environ
  mc_new_session :: bool
  mc_limits :: "(string \<times> int) list"
  mc_timeout :: int

datatype run_outcome = RUN_OK | RUN_NOT_FOUND | RUN_TIMEOUT | RUN_FAILED

text \<open>
  \<open>mo_run\<close> is the end of a subprocess on the input file and the output file it leaves; \<open>mo_probe\<close> the text ffprobe
  prints, \<open>None\<close> for the exceptions the probe catches; \<open>mo_float\<close> and \<open>mo_fraction\<close> are \<open>float\<close> and
  \<open>float(Fraction(\<dots>))\<close> of a text, \<open>None\<close> where they raise.
\<close>

record media_os =
  mo_environ :: environ
  mo_posix :: bool
  mo_darwin :: bool
  mo_which :: "string \<Rightarrow> string option"
  mo_resolve :: "string \<Rightarrow> path option"
  mo_expanduser :: "string \<Rightarrow> string"
  mo_mkdir :: "string \<Rightarrow> bool"
  mo_is_dir :: "string \<Rightarrow> bool"
  mo_tempdir :: string
  mo_guess :: "string \<Rightarrow> string option"
  mo_sha256 :: "string \<Rightarrow> string"
  mo_run :: "media_call \<Rightarrow> string \<Rightarrow> run_outcome \<times> string option"
  mo_probe :: "media_call \<Rightarrow> string \<Rightarrow> string option"
  mo_loads :: "string \<Rightarrow> jv option"
  mo_float :: "string \<Rightarrow> rat option"
  mo_fraction :: "string \<Rightarrow> rat option"

record media_store =
  mst_download :: "string \<Rightarrow> exn + string"
  mst_upload :: "string \<Rightarrow> string \<Rightarrow> string \<Rightarrow> jobj \<Rightarrow> exn + unit"
  mst_head :: "string \<Rightarrow> exn + jobj option"

section \<open>Commands\<close>

definition build_ffmpeg_command ::
  "string \<Rightarrow> string \<Rightarrow> string \<Rightarrow> int option \<Rightarrow> int \<Rightarrow> int \<Rightarrow> int \<Rightarrow> string \<Rightarrow> string list" where
  "build_ffmpeg_command binary input_path output_path threads max_width max_fps crf preset =
     (let thread_args = (case threads of None \<Rightarrow> [] | Some n \<Rightarrow> [''-threads'', int_str n]);
          scale = (if max_width > 0
            then [''scale='min('' @ int_str max_width @ '',iw)':-2:force_original_aspect_ratio=decrease''] else []);
          rate = (if max_fps > 0 then [''fps=fps='min('' @ int_str max_fps @ '',source_fps)'' @ [CHR 0x27]] else []);
          filter_parts = scale @ rate;
          filter_args = (case filter_parts of [] \<Rightarrow> [] | [x] \<Rightarrow> [''-vf'', x] | x # y # _ \<Rightarrow> [''-vf'', x @ '','' @ y])
      in [binary, ''-nostdin'', ''-hide_banner'', ''-loglevel'', ''error'', ''-y'', ''-i'', input_path,
          ''-map'', ''0:v:0'', ''-map'', ''0:a:0?'', ''-map_metadata'', ''-1'', ''-map_chapters'', ''-1'', ''-sn'', ''-dn'',
          ''-c:v'', ''libx264''] @ thread_args @ filter_args @
         [''-preset'', preset, ''-crf'', int_str crf, ''-pix_fmt'', ''yuv420p'', ''-c:a'', ''aac'', ''-b:a'', ''128k'',
          ''-movflags'', ''+faststart'', output_path])"

definition build_ffmpeg_remux_command :: "string \<Rightarrow> string \<Rightarrow> string \<Rightarrow> string list" where
  "build_ffmpeg_remux_command binary input_path output_path =
     [binary, ''-nostdin'', ''-hide_banner'', ''-loglevel'', ''error'', ''-y'', ''-i'', input_path,
      ''-map'', ''0:v:0'', ''-map'', ''0:a:0?'', ''-map_metadata'', ''-1'', ''-map_chapters'', ''-1'', ''-sn'', ''-dn'',
      ''-c'', ''copy'', ''-movflags'', ''+faststart'', ''-avoid_negative_ts'', ''make_zero'', output_path]"

definition build_avconvert_command :: "string \<Rightarrow> string \<Rightarrow> string \<Rightarrow> string list" where
  "build_avconvert_command binary input_path output_path =
     [binary, ''--source'', input_path, ''--output'', output_path, ''--preset'', ''PresetHighestQuality'', ''--replace'']"

section \<open>Confinement\<close>

definition MEDIA_ENV_ALLOWLIST :: "string list" where
  "MEDIA_ENV_ALLOWLIST = [''PATH'', ''HOME'', ''TMPDIR'', ''TEMP'', ''TMP'', ''LANG'', ''LC_ALL'']"

definition MEDIA_ENV_DENY_PREFIXES :: "string list" where
  "MEDIA_ENV_DENY_PREFIXES = [''AWS_'', ''DATABASE_'', ''JWT_'', ''OPENAI_'', ''REDIS_'', ''S3_'', ''SECRET'']"

definition media_subprocess_env :: "environ \<Rightarrow> environ" where
  "media_subprocess_env environ =
     filter (\<lambda>(k, _). \<not> (\<exists>p \<in> set MEDIA_ENV_DENY_PREFIXES. prefix p (py_upper k)))
       (concat (map (\<lambda>k. case env_get k environ of Some v \<Rightarrow> if v \<noteq> [] then [(k, v)] else [] | None \<Rightarrow> [])
          MEDIA_ENV_ALLOWLIST))"

definition media_limits :: "media_settings \<Rightarrow> (string \<times> int) list" where
  "media_limits s =
     (if md_max_cpu_seconds s > 0 then [(''RLIMIT_CPU'', md_max_cpu_seconds s)] else []) @
     (if md_max_output_bytes s > 0 then [(''RLIMIT_FSIZE'', md_max_output_bytes s)] else []) @
     [(''RLIMIT_NOFILE'', md_max_open_files s)]"

text \<open>\<open>_media_subprocess_kwargs\<close>: with the sandbox, a session of its own and the limits.\<close>

definition media_call_of :: "media_settings \<Rightarrow> media_os \<Rightarrow> string list \<Rightarrow> string \<Rightarrow> int \<Rightarrow> media_call" where
  "media_call_of s os cmd cwd timeout =
     (let sandboxed = md_subprocess_sandbox s \<and> mo_posix os
      in \<lparr>mc_cmd = cmd, mc_cwd = cwd, mc_env = media_subprocess_env (mo_environ os), mc_new_session = sandboxed,
          mc_limits = (if sandboxed then media_limits s else []), mc_timeout = timeout\<rparr>)"

definition path_name :: "string \<Rightarrow> string" where
  "path_name p =
     (let parts = filter (\<lambda>x. x \<noteq> [] \<and> x \<noteq> ''.'') (split_on CHR ''/'' p)
      in if parts = [] then [] else List.last parts)"

definition is_ffmpeg_command :: "string list \<Rightarrow> media_settings \<Rightarrow> bool" where
  "is_ffmpeg_command cmd s =
     (let binary_name = (case cmd of [] \<Rightarrow> [] | x # _ \<Rightarrow> path_name x)
      in binary_name = path_name (md_ffmpeg_binary s) \<or> binary_name = ''ffmpeg'')"

definition container_path_arg :: "media_os \<Rightarrow> string \<Rightarrow> string \<Rightarrow> string" where
  "container_path_arg os cwd arg =
     (if \<not> prefix ''/'' arg then arg
      else
        (case (mo_resolve os arg, mo_resolve os cwd) of
           (Some p, Some c) \<Rightarrow> if prefix c p then path_str (''work'' # drop (length c) p) else arg
         | _ \<Rightarrow> arg))"

definition build_containerized_ffmpeg_command :: "string list \<Rightarrow> media_settings \<Rightarrow> media_os \<Rightarrow> string \<Rightarrow> path \<Rightarrow> string list" where
  "build_containerized_ffmpeg_command cmd s os cwd resolved_cwd =
     [md_container_runtime s, ''run'', ''--rm'', ''--network'', ''none'', ''--cpus'', md_container_cpus s,
      ''--memory'', md_container_memory s, ''--pids-limit'', int_str (md_container_pids_limit s), ''--read-only'',
      ''--cap-drop'', ''ALL'', ''--security-opt'', ''no-new-privileges'', ''--user'', md_container_user s,
      ''--tmpfs'', ''/tmp:rw,nosuid,nodev,noexec,size='' @ md_container_tmpfs_size s,
      ''-v'', path_str resolved_cwd @ '':/work:rw'', ''--workdir'', ''/work'', md_container_image s, md_container_binary s] @
     map (container_path_arg os cwd) (tl cmd)"

text \<open>The call that is run: confined by the kernel's limits, or, where enabled, inside a container.\<close>

definition transcode_call :: "media_settings \<Rightarrow> media_os \<Rightarrow> string list \<Rightarrow> string \<Rightarrow> media_call" where
  "transcode_call s os cmd cwd =
     (if md_container_sandbox_enabled s \<and> is_ffmpeg_command cmd s
      then \<lparr>mc_cmd = build_containerized_ffmpeg_command cmd s os cwd (case mo_resolve os cwd of None \<Rightarrow> [] | Some p \<Rightarrow> p),
             mc_cwd = cwd, mc_env = media_subprocess_env (mo_environ os), mc_new_session = False, mc_limits = [],
             mc_timeout = md_transcode_timeout_seconds s\<rparr>
      else media_call_of s os cmd cwd (md_transcode_timeout_seconds s))"

fun run_subprocess :: "run_outcome \<Rightarrow> string \<Rightarrow> worker_exn + unit" where
  "run_subprocess RUN_OK unavailable_code = Inr ()"
| "run_subprocess RUN_NOT_FOUND unavailable_code =
     Inl (PermanentProcessingError unavailable_code ''No supported video transcoder is installed'' [])"
| "run_subprocess RUN_TIMEOUT unavailable_code =
     Inl (PermanentProcessingError E_PROCESSING_TRANSCODE_FAILED ''Video transcoding exceeded the worker timeout'' [])"
| "run_subprocess RUN_FAILED unavailable_code =
     Inl (PermanentProcessingError E_PROCESSING_TRANSCODE_FAILED ''Video transcoding failed'' [])"

definition select_transcoder :: "media_settings \<Rightarrow> media_os \<Rightarrow> worker_exn + string \<times> string" where
  "select_transcoder s os =
     (let ffmpeg = mo_which os (md_ffmpeg_binary s); avconvert = mo_which os (md_avconvert_binary s)
      in if truthy ffmpeg then Inr (''ffmpeg'', the ffmpeg)
         else if mo_darwin os \<and> truthy avconvert then Inr (''avconvert'', the avconvert)
         else Inl (PermanentProcessingError E_PROCESSING_TRANSCODER_UNAVAILABLE
           ''No supported video transcoder is installed'' []))"

section \<open>The downloaded file\<close>

definition MAGIC_PROBE_BYTES :: nat where
  "MAGIC_PROBE_BYTES = 8 * 1024"

definition detect_file_mime :: "media_os \<Rightarrow> string \<Rightarrow> string option" where
  "detect_file_mime os content = map_option py_lower (mo_guess os (take MAGIC_PROBE_BYTES content))"

definition declared_mime :: "string option \<Rightarrow> string option" where
  "declared_mime content_type =
     (case content_type of
        None \<Rightarrow> None
      | Some c \<Rightarrow>
          (let value = py_lower (py_strip (takeWhile (\<lambda>x. x \<noteq> CHR '';'') c)) in if value = [] then None else Some value))"

definition validate_downloaded_content_type :: "media_os \<Rightarrow> string \<Rightarrow> string option \<Rightarrow> worker_exn + unit" where
  "validate_downloaded_content_type os content declared_content_type =
     (case declared_mime declared_content_type of
        None \<Rightarrow> Inr ()
      | Some declared \<Rightarrow>
          (let detected = detect_file_mime os content
           in if detected \<noteq> Some declared
              then Inl (PermanentProcessingError E_PROCESSING_CONTENT_TYPE_MISMATCH
                ''Uploaded object MIME type does not match the declared content type''
                [(''declared_content_type'', JStr declared), (''detected_content_type'', jopt JStr detected)])
              else Inr ()))"

section \<open>Probing\<close>

record probe_result =
  pb_duration_seconds :: "rat option"
  pb_width :: "int option"
  pb_height :: "int option"
  pb_fps :: "rat option"
  pb_codec :: "string option"
  pb_audio_codec :: "string option"
  pb_pix_fmt :: "string option"
  pb_format_name :: "string option"

definition unprobed :: probe_result where
  "unprobed = \<lparr>pb_duration_seconds = None, pb_width = None, pb_height = None, pb_fps = None, pb_codec = Some ''h264'',
     pb_audio_codec = None, pb_pix_fmt = None, pb_format_name = None\<rparr>"

definition stream_of_type :: "string \<Rightarrow> jobj \<Rightarrow> jobj" where
  "stream_of_type t payload =
     (case jget ''streams'' payload of
        Some (JList items) \<Rightarrow>
          (case find (\<lambda>i. case i of JObj o' \<Rightarrow> jget ''codec_type'' o' = Some (JStr t) | _ \<Rightarrow> False) items of
             Some (JObj o') \<Rightarrow> o'
           | _ \<Rightarrow> [])
      | _ \<Rightarrow> [])"

definition read_probe :: "media_os \<Rightarrow> jobj \<Rightarrow> probe_result" where
  "read_probe os payload =
     (let stream = stream_of_type ''video'' payload; audio = stream_of_type ''audio'' payload;
          fmt = (case jget ''format'' payload of Some (JObj f) \<Rightarrow> f | _ \<Rightarrow> [])
      in \<lparr>pb_duration_seconds = (case as_str (jget ''duration'' fmt) of None \<Rightarrow> None | Some t \<Rightarrow> mo_float os t),
          pb_width = as_int (jget ''width'' stream), pb_height = as_int (jget ''height'' stream),
          pb_fps = (case as_str (jget ''r_frame_rate'' stream) of
                      None \<Rightarrow> None
                    | Some t \<Rightarrow> if t \<in> {''0/0'', ''N/A''} then None else mo_fraction os t),
          pb_codec = (case as_str (jget ''codec_name'' stream) of None \<Rightarrow> Some ''h264'' | Some c \<Rightarrow> Some c),
          pb_audio_codec = as_str (jget ''codec_name'' audio), pb_pix_fmt = as_str (jget ''pix_fmt'' stream),
          pb_format_name = as_str (jget ''format_name'' fmt)\<rparr>)"

definition probe_command :: "string \<Rightarrow> string \<Rightarrow> string list" where
  "probe_command ffprobe p =
     [ffprobe, ''-v'', ''error'', ''-show_entries'',
      ''format=duration,format_name:stream=codec_type,codec_name,width,height,pix_fmt,r_frame_rate'',
      ''-of'', ''json'', p]"

text \<open>A JSON text that is no object raises an \<open>AttributeError\<close>, which nothing catches.\<close>

definition probe_output :: "media_settings \<Rightarrow> media_os \<Rightarrow> string \<Rightarrow> string \<Rightarrow> worker_exn + probe_result" where
  "probe_output s os p content =
     (let ffprobe = mo_which os (md_ffprobe_binary s)
      in if \<not> truthy ffprobe then Inr unprobed
         else
           (case mo_probe os (media_call_of s os (probe_command (the ffprobe) p) (mo_tempdir os)
                    (min (md_transcode_timeout_seconds s) 120)) content of
              None \<Rightarrow> Inr unprobed
            | Some printed \<Rightarrow>
                (case mo_loads os (if printed = [] then ''{}'' else printed) of
                   None \<Rightarrow> Inr unprobed
                 | Some (JObj payload) \<Rightarrow> Inr (read_probe os payload)
                 | Some _ \<Rightarrow> Inl (OtherException None ''AttributeError'' None))))"

definition format_names :: "string option \<Rightarrow> string list" where
  "format_names f =
     (case f of None \<Rightarrow> [] | Some x \<Rightarrow> filter (\<lambda>p. p \<noteq> []) (map (\<lambda>p. py_lower (py_strip p)) (split_on CHR '','' x)))"

definition is_browser_safe_remux_candidate :: "media_settings \<Rightarrow> probe_result \<Rightarrow> bool" where
  "is_browser_safe_remux_candidate s p \<longleftrightarrow>
     md_remux_enabled s \<and>
     set (format_names (pb_format_name p)) \<inter> {''mov'', ''mp4'', ''m4a'', ''3gp'', ''3g2'', ''mj2''} \<noteq> {} \<and>
     map_option py_lower (pb_codec p) = Some ''h264'' \<and>
     map_option py_lower (pb_pix_fmt p) \<in> {Some ''yuv420p'', Some ''yuvj420p''} \<and>
     (case pb_audio_codec p of None \<Rightarrow> True | Some a \<Rightarrow> py_lower a = ''aac'') \<and>
     (md_remux_max_width s > 0 \<longrightarrow> (case pb_width p of None \<Rightarrow> False | Some w \<Rightarrow> w \<le> md_remux_max_width s)) \<and>
     (md_remux_max_fps s > 0 \<longrightarrow>
       (case pb_fps p of None \<Rightarrow> False | Some f \<Rightarrow> f \<le> of_int (md_remux_max_fps s) + 1 / 100))"

section \<open>The pipeline\<close>

definition media_temp_parent :: "media_settings \<Rightarrow> media_os \<Rightarrow> worker_exn + string option" where
  "media_temp_parent s os =
     (case md_media_temp_dir s of
        None \<Rightarrow> Inr None
      | Some d \<Rightarrow>
          (let p = mo_expanduser os d
           in if \<not> mo_mkdir os p
              then Inl (PermanentProcessingError E_PROCESSING_TRANSCODE_FAILED
                ''Worker media scratch directory is not writable'' [])
              else if \<not> mo_is_dir os p
              then Inl (PermanentProcessingError E_PROCESSING_TRANSCODE_FAILED
                ''Worker media scratch path is not a directory'' [])
              else Inr (Some p)))"

definition path_suffix :: "string \<Rightarrow> string" where
  "path_suffix p =
     (let name = path_name p; ext = takeWhile (\<lambda>c. c \<noteq> CHR ''.'') (rev name)
      in if CHR ''.'' \<in> set name \<and> ext \<noteq> [] \<and> length ext + 1 < length name then CHR ''.'' # rev ext else [])"

definition input_file :: "media_os \<Rightarrow> video_row \<Rightarrow> string" where
  "input_file os v =
     (let suffix = py_lower (path_suffix (if v_filename v = [] then ''upload'' else v_filename v))
      in mo_tempdir os @ ''/input'' @ (if suffix = [] then ''.bin'' else suffix))"

definition output_file :: "media_os \<Rightarrow> string" where
  "output_file os = mo_tempdir os @ ''/video.mp4''"

definition storage_transient :: "string \<Rightarrow> exn \<Rightarrow> worker_exn" where
  "storage_transient message e =
     (if is_storage_failure e then
        (let storage_failure = storage_failure_diagnostics e
         in TransientProcessingError E_PROCESSING_STORAGE_FAILURE message
              (if storage_failure \<noteq> [] then [(''storage_failure'', JObj storage_failure)] else []))
      else OtherException None ''storage exception'' None)"

text \<open>The download with the checks on it.\<close>

definition fetch_recording :: "media_os \<Rightarrow> media_store \<Rightarrow> video_row \<Rightarrow> worker_exn + string" where
  "fetch_recording os store v =
     (case mst_download store (the (v_storage_key_raw v)) of
        Inl e \<Rightarrow> Inl (storage_transient ''Failed to download uploaded object for transcoding'' e)
      | Inr content \<Rightarrow>
          if truthy (v_checksum_sha256 v) \<and> mo_sha256 os content \<noteq> py_lower (the (v_checksum_sha256 v))
          then Inl (PermanentProcessingError E_PROCESSING_CHECKSUM_MISMATCH
            ''Downloaded uploaded object SHA-256 does not match the recorded digest'' [])
          else
            (case validate_downloaded_content_type os content (v_content_type v) of
               Inl e \<Rightarrow> Inl e
             | Inr _ \<Rightarrow> Inr content))"

text \<open>The command for the recording and the name of the mode.\<close>

definition choose_command :: "media_settings \<Rightarrow> media_os \<Rightarrow> video_row \<Rightarrow> string \<Rightarrow> worker_exn + string \<times> string list" where
  "choose_command s os v content =
     (let i = input_file os v; out = output_file os
      in case select_transcoder s os of
           Inl e \<Rightarrow> Inl e
         | Inr (transcoder, binary) \<Rightarrow>
             if transcoder = ''ffmpeg'' then
               (case probe_output s os i content of
                  Inl e \<Rightarrow> Inl e
                | Inr probe \<Rightarrow>
                    if is_browser_safe_remux_candidate s probe
                    then Inr (''ffmpeg-remux'', build_ffmpeg_remux_command binary i out)
                    else Inr (transcoder, build_ffmpeg_command binary i out (Some (md_ffmpeg_threads s))
                      (md_playback_max_width s) (md_playback_max_fps s) (md_playback_crf s) (md_playback_preset s)))
             else Inr (transcoder, build_avconvert_command binary i out))"

definition transcode_recording :: "media_settings \<Rightarrow> media_os \<Rightarrow> string list \<Rightarrow> string \<Rightarrow> worker_exn + string" where
  "transcode_recording s os cmd content =
     (case mo_run os (transcode_call s os cmd (mo_tempdir os)) content of
        (outcome, left) \<Rightarrow>
          (case run_subprocess outcome E_PROCESSING_TRANSCODER_UNAVAILABLE of
             Inl e \<Rightarrow> Inl e
           | Inr _ \<Rightarrow>
               (case left of
                  None \<Rightarrow> Inl (PermanentProcessingError E_PROCESSING_TRANSCODE_FAILED
                    ''Video transcoding did not produce an output artifact'' [])
                | Some out \<Rightarrow>
                    if out = [] then Inl (PermanentProcessingError E_PROCESSING_TRANSCODE_FAILED
                      ''Video transcoding produced an empty output artifact'' [])
                    else Inr out)))"

definition publish_mezzanine ::
  "media_store \<Rightarrow> string \<Rightarrow> string \<Rightarrow> string \<Rightarrow> string \<Rightarrow> probe_result \<Rightarrow> worker_exn + mezzanine_artifact" where
  "publish_mezzanine store mezzanine_key mode out output_sha256 probe =
     (case mst_upload store mezzanine_key out ''video/mp4'' [(''nbu-output-sha256'', JStr output_sha256)] of
        Inl e \<Rightarrow> Inl (storage_transient ''Failed to upload browser playback artifact'' e)
      | Inr _ \<Rightarrow>
     (case mst_head store mezzanine_key of
        Inl e \<Rightarrow> Inl (storage_transient ''Failed to upload browser playback artifact'' e)
      | Inr None \<Rightarrow>
          Inl (TransientProcessingError E_PROCESSING_STORAGE_FAILURE
            ''Browser playback artifact was not found after upload'' [])
      | Inr (Some metadata) \<Rightarrow>
          let stored_size = (case as_int (jget ''ContentLength'' metadata) of None \<Rightarrow> int (length out) | Some n \<Rightarrow> n)
          in if stored_size \<le> 0
             then Inl (TransientProcessingError E_PROCESSING_STORAGE_FAILURE
               ''Browser playback artifact is empty in storage'' [])
             else Inr \<lparr>ma_mezzanine_key = mezzanine_key,
               ma_storage_etag = normalize_etag (as_str (jget ''ETag'' metadata)), ma_output_sha256 = output_sha256,
               ma_output_size_bytes = stored_size, ma_duration_seconds = pb_duration_seconds probe,
               ma_width = pb_width probe, ma_height = pb_height probe, ma_fps = pb_fps probe,
               ma_codec = pb_codec probe, ma_transcoder = mode\<rparr>))"

definition create_browser_mezzanine ::
  "media_settings \<Rightarrow> media_os \<Rightarrow> media_store \<Rightarrow> video_row \<Rightarrow> worker_exn + mezzanine_artifact" where
  "create_browser_mezzanine s os store v =
     (if \<not> truthy (v_storage_key_raw v)
      then Inl (PermanentProcessingError E_PROCESSING_OBJECT_MISSING ''Video has no raw storage key'' [])
      else
     (case media_temp_parent s os of
        Inl e \<Rightarrow> Inl e
      | Inr _ \<Rightarrow>
     (case fetch_recording os store v of
        Inl e \<Rightarrow> Inl e
      | Inr content \<Rightarrow>
     (case choose_command s os v content of
        Inl e \<Rightarrow> Inl e
      | Inr (mode, cmd) \<Rightarrow>
     (case transcode_recording s os cmd content of
        Inl e \<Rightarrow> Inl e
      | Inr out \<Rightarrow>
     (case probe_output s os (output_file os) out of
        Inl e \<Rightarrow> Inl e
      | Inr probe \<Rightarrow>
          publish_mezzanine store (storage_key_for_mezzanine (uuid_str (v_team_id v)) (uuid_str (v_id v)))
            mode out (mo_sha256 os out) probe))))))"

section \<open>What the pipeline guarantees\<close>

text \<open>A call sees only allow-listed variables of the worker and none with a denied prefix.\<close>

definition confined_env :: "media_os \<Rightarrow> environ \<Rightarrow> bool" where
  "confined_env os env \<longleftrightarrow> (\<forall>(k, x) \<in> set env. k \<in> set MEDIA_ENV_ALLOWLIST \<and> x \<noteq> [] \<and> env_get k (mo_environ os) = Some x)"

lemma media_env_confined: "confined_env os (media_subprocess_env (mo_environ os))"
  by (auto simp: confined_env_def media_subprocess_env_def split: option.splits if_splits)

lemma transcode_call_env [simp]:
  "mc_env (transcode_call s os cmd cwd) = media_subprocess_env (mo_environ os)"
  "mc_timeout (transcode_call s os cmd cwd) = md_transcode_timeout_seconds s"
  by (simp_all add: transcode_call_def media_call_of_def Let_def)

lemma transcode_call_confined:
  assumes "md_subprocess_sandbox s" and "mo_posix os" and "is_ffmpeg_command cmd s \<or> \<not> md_container_sandbox_enabled s"
  shows "md_container_sandbox_enabled s \<and>
      prefix [md_container_runtime s, ''run'', ''--rm'', ''--network'', ''none''] (mc_cmd (transcode_call s os cmd cwd)) \<or>
    \<not> md_container_sandbox_enabled s \<and> mc_cmd (transcode_call s os cmd cwd) = cmd \<and>
      mc_new_session (transcode_call s os cmd cwd) \<and> mc_limits (transcode_call s os cmd cwd) = media_limits s"
  using assms by (auto simp: transcode_call_def build_containerized_ffmpeg_command_def media_call_of_def Let_def)

lemma fetch_recording_Inr:
  assumes "fetch_recording os store v = Inr content"
  shows "mst_download store (the (v_storage_key_raw v)) = Inr content \<and>
    (\<forall>x. v_checksum_sha256 v = Some x \<longrightarrow> x \<noteq> [] \<longrightarrow> mo_sha256 os content = py_lower x) \<and>
    (\<forall>t. declared_mime (v_content_type v) = Some t \<longrightarrow> detect_file_mime os content = Some t)"
  using assms
  by (auto simp: fetch_recording_def validate_downloaded_content_type_def Let_def truthy_def split: sum.splits if_splits option.splits)

lemma transcode_recording_Inr:
  assumes "transcode_recording s os cmd content = Inr out"
  shows "mo_run os (transcode_call s os cmd (mo_tempdir os)) content = (RUN_OK, Some out) \<and> out \<noteq> []"
proof -
  obtain outcome left where r: "mo_run os (transcode_call s os cmd (mo_tempdir os)) content = (outcome, left)"
    by (rule prod.exhaust)
  with assms show ?thesis
    by (cases outcome; cases left) (auto simp: transcode_recording_def split: if_splits)
qed

lemma choose_command_Inr:
  assumes "choose_command s os v content = Inr (mode, cmd)"
  shows "mode \<in> {''ffmpeg'', ''ffmpeg-remux'', ''avconvert''} \<and>
    (mode = ''ffmpeg-remux'' \<longrightarrow>
      (\<exists>p. probe_output s os (input_file os v) content = Inr p \<and> is_browser_safe_remux_candidate s p))"
  using assms
  by (auto simp: choose_command_def select_transcoder_def Let_def split: sum.splits if_splits)

lemma publish_mezzanine_Inr:
  assumes "publish_mezzanine store k mode out h probe = Inr a"
  shows "mst_upload store k out ''video/mp4'' [(''nbu-output-sha256'', JStr h)] = Inr () \<and>
    (\<exists>md. mst_head store k = Inr (Some md)) \<and> ma_mezzanine_key a = k \<and> ma_output_sha256 a = h \<and>
    0 < ma_output_size_bytes a \<and> ma_transcoder a = mode"
  using assms by (auto simp: publish_mezzanine_def Let_def split: sum.splits option.splits if_splits)

lemma create_mezzanine_Inr:
  assumes "create_browser_mezzanine s os store v = Inr a"
  obtains content mode cmd out probe where "truthy (v_storage_key_raw v)" "fetch_recording os store v = Inr content"
    "choose_command s os v content = Inr (mode, cmd)" "transcode_recording s os cmd content = Inr out"
    "publish_mezzanine store (storage_key_for_mezzanine (uuid_str (v_team_id v)) (uuid_str (v_id v))) mode out
       (mo_sha256 os out) probe = Inr a"
  using assms by (auto simp: create_browser_mezzanine_def split: sum.splits if_splits prod.splits)


text \<open>A storage operation on the way raised, or found nothing or an empty object after the upload.\<close>

definition storage_refused :: "media_store \<Rightarrow> video_row \<Rightarrow> bool" where
  "storage_refused store v \<longleftrightarrow>
     (let k = storage_key_for_mezzanine (uuid_str (v_team_id v)) (uuid_str (v_id v))
      in (\<exists>e. mst_download store (the (v_storage_key_raw v)) = Inl e) \<or>
         (\<exists>e c x. mst_upload store k c ''video/mp4'' x = Inl e) \<or> (\<exists>e. mst_head store k = Inl e) \<or>
         mst_head store k = Inr None \<or>
         (\<exists>md n. mst_head store k = Inr (Some md) \<and> as_int (jget ''ContentLength'' md) = Some n \<and> n \<le> 0))"

definition media_refusals :: "error_code list" where
  "media_refusals = [E_PROCESSING_OBJECT_MISSING, E_PROCESSING_CHECKSUM_MISMATCH, E_PROCESSING_CONTENT_TYPE_MISMATCH,
     E_PROCESSING_TRANSCODER_UNAVAILABLE, E_PROCESSING_TRANSCODE_FAILED]"

definition classified :: "media_store \<Rightarrow> video_row \<Rightarrow> worker_exn \<Rightarrow> bool" where
  "classified store v e \<longleftrightarrow>
     (case e of
        TransientProcessingError c m x \<Rightarrow> c = E_PROCESSING_STORAGE_FAILURE \<and> storage_refused store v
      | PermanentProcessingError c m x \<Rightarrow> c \<in> set media_refusals
      | OtherException c m x \<Rightarrow> m = ''AttributeError'' \<or> storage_refused store v)"

lemma classified_transient: "storage_refused store v \<Longrightarrow> classified store v (storage_transient m e)"
  by (simp add: classified_def storage_transient_def Let_def)

lemma classified_permanent: "c \<in> set media_refusals \<Longrightarrow> classified store v (PermanentProcessingError c m x)"
  by (simp add: classified_def)

lemma refusal_codes:
  "E_PROCESSING_OBJECT_MISSING \<in> set media_refusals" "E_PROCESSING_CHECKSUM_MISMATCH \<in> set media_refusals"
  "E_PROCESSING_CONTENT_TYPE_MISMATCH \<in> set media_refusals" "E_PROCESSING_TRANSCODER_UNAVAILABLE \<in> set media_refusals"
  "E_PROCESSING_TRANSCODE_FAILED \<in> set media_refusals"
  by (simp_all add: media_refusals_def)

lemma temp_parent_Inl: "media_temp_parent s os = Inl e \<Longrightarrow> classified store v e"
  by (auto simp: media_temp_parent_def Let_def intro: classified_permanent refusal_codes split: option.splits if_splits)

lemma fetch_recording_Inl:
  assumes "fetch_recording os store v = Inl e" shows "classified store v e"
proof (cases "mst_download store (the (v_storage_key_raw v))")
  case (Inl x)
  then have "storage_refused store v" by (simp add: storage_refused_def Let_def)
  with Inl assms show ?thesis by (auto simp: fetch_recording_def intro: classified_transient)
next
  case (Inr content)
  with assms show ?thesis
    by (auto simp: fetch_recording_def validate_downloaded_content_type_def Let_def intro: classified_permanent refusal_codes
        split: if_splits option.splits sum.splits)
qed

lemma probe_output_Inl: "probe_output s os p content = Inl e \<Longrightarrow> classified store v e"
  by (auto simp: probe_output_def classified_def Let_def split: if_splits option.splits jv.splits)

lemma select_transcoder_Inl: "select_transcoder s os = Inl e \<Longrightarrow> classified store v e"
  by (auto simp: select_transcoder_def Let_def intro: classified_permanent refusal_codes split: if_splits)

lemma choose_command_Inl: "choose_command s os v content = Inl e \<Longrightarrow> classified store v e"
  by (auto simp: choose_command_def Let_def dest: select_transcoder_Inl probe_output_Inl split: sum.splits if_splits)

lemma run_subprocess_Inl: "run_subprocess outcome E_PROCESSING_TRANSCODER_UNAVAILABLE = Inl e \<Longrightarrow> classified store v e"
  by (cases outcome) (auto intro: classified_permanent refusal_codes)

lemma transcode_recording_Inl:
  assumes "transcode_recording s os cmd content = Inl e" shows "classified store v e"
proof -
  obtain outcome left where r: "mo_run os (transcode_call s os cmd (mo_tempdir os)) content = (outcome, left)"
    by (rule prod.exhaust)
  show ?thesis
  proof (cases "run_subprocess outcome E_PROCESSING_TRANSCODER_UNAVAILABLE")
    case (Inl x)
    with r assms show ?thesis by (auto simp: transcode_recording_def dest: run_subprocess_Inl)
  next
    case (Inr _)
    with r assms show ?thesis
      by (auto simp: transcode_recording_def intro: classified_permanent refusal_codes split: option.splits if_splits)
  qed
qed

lemma publish_mezzanine_Inl:
  assumes "publish_mezzanine store (storage_key_for_mezzanine (uuid_str (v_team_id v)) (uuid_str (v_id v))) mode out h probe = Inl e"
    and "out \<noteq> []"
  shows "classified store v e"
proof -
  let ?k = "storage_key_for_mezzanine (uuid_str (v_team_id v)) (uuid_str (v_id v))"
  have refused: "storage_refused store v" if "\<exists>e c x. mst_upload store ?k c ''video/mp4'' x = Inl e \<or> mst_head store ?k = Inl e \<or>
      mst_head store ?k = Inr None \<or>
      (\<exists>md n. mst_head store ?k = Inr (Some md) \<and> as_int (jget ''ContentLength'' md) = Some n \<and> n \<le> 0)"
    using that unfolding storage_refused_def Let_def by blast
  show ?thesis
  proof (cases "mst_upload store ?k out ''video/mp4'' [(''nbu-output-sha256'', JStr h)]")
    case (Inl x)
    with refused have "storage_refused store v" by blast
    with Inl assms(1) show ?thesis by (auto simp: publish_mezzanine_def intro: classified_transient)
  next
    case up: (Inr _)
    show ?thesis
    proof (cases "mst_head store ?k")
      case (Inl x)
      with refused have "storage_refused store v" by blast
      with Inl up assms(1) show ?thesis by (auto simp: publish_mezzanine_def intro: classified_transient)
    next
      case head: (Inr md)
      show ?thesis
      proof (cases md)
        case None
        with head refused have "storage_refused store v" by blast
        with None head up assms(1) show ?thesis by (auto simp: publish_mezzanine_def classified_def)
      next
        case (Some meta)
        with head up assms obtain n where "as_int (jget ''ContentLength'' meta) = Some n" "n \<le> 0"
          "e = TransientProcessingError E_PROCESSING_STORAGE_FAILURE ''Browser playback artifact is empty in storage'' []"
          by (auto simp: publish_mezzanine_def Let_def split: option.splits if_splits)
        moreover from this head Some refused have "storage_refused store v" by blast
        ultimately show ?thesis by (simp add: classified_def)
      qed
    qed
  qed
qed

text \<open>
  The failures of the media pipeline are told apart as the retry policy needs: a transient error, which is
  retried, is always a storage operation that failed or lost the object; a recording that does not match its
  digest or type, a missing transcoder and a failed run are permanent, with one of five codes; nothing else
  escapes but a probe that prints JSON of the wrong shape or a storage exception of another class.
\<close>

theorem media_errors_classified:
  assumes "create_browser_mezzanine s os store v = Inl e"
  shows "case e of
      TransientProcessingError c m x \<Rightarrow> c = E_PROCESSING_STORAGE_FAILURE \<and> storage_refused store v
    | PermanentProcessingError c m x \<Rightarrow> c \<in> {E_PROCESSING_OBJECT_MISSING, E_PROCESSING_CHECKSUM_MISMATCH,
        E_PROCESSING_CONTENT_TYPE_MISMATCH, E_PROCESSING_TRANSCODER_UNAVAILABLE, E_PROCESSING_TRANSCODE_FAILED}
    | OtherException c m x \<Rightarrow> m = ''AttributeError'' \<or> storage_refused store v"
proof -
  have "classified store v e"
    using assms
    by (auto simp: create_browser_mezzanine_def dest: temp_parent_Inl fetch_recording_Inl choose_command_Inl
        transcode_recording_Inl probe_output_Inl transcode_recording_Inr publish_mezzanine_Inl
        intro: classified_permanent refusal_codes split: sum.splits if_splits prod.splits)
  then show ?thesis by (cases e) (simp_all add: classified_def media_refusals_def)
qed

subsection \<open>A sample run\<close>

definition toy_os :: media_os where
  "toy_os = \<lparr>mo_environ = [(''PATH'', ''/bin''), (''AWS_KEY'', ''k'')], mo_posix = True, mo_darwin = False,
     mo_which = (\<lambda>b. if b = ''ffmpeg'' then Some ''/bin/ffmpeg'' else None), mo_resolve = (\<lambda>_. None), mo_expanduser = id,
     mo_mkdir = (\<lambda>_. True), mo_is_dir = (\<lambda>_. True), mo_tempdir = ''/tmp/t'', mo_guess = (\<lambda>_. Some ''video/mp4''),
     mo_sha256 = id, mo_run = (\<lambda>_ content. (RUN_OK, Some (''m'' @ content))), mo_probe = (\<lambda>_ _. None),
     mo_loads = (\<lambda>_. None), mo_float = (\<lambda>_. None), mo_fraction = (\<lambda>_. None)\<rparr>"

definition toy_media_store :: "exn + string \<Rightarrow> media_store" where
  "toy_media_store r = \<lparr>mst_download = (\<lambda>_. r), mst_upload = (\<lambda>_ _ _ _. Inr ()), mst_head = (\<lambda>_. Inr (Some []))\<rparr>"

lemma toy_mezzanine:
  "\<exists>a. create_browser_mezzanine default_media_settings toy_os (toy_media_store (Inr ''raw'')) sample_video = Inr a \<and>
     ma_output_sha256 a = ''mraw''"
proof -
  have c: "is_browser_safe_remux_candidate default_media_settings unprobed = False"
    by (simp add: is_browser_safe_remux_candidate_def unprobed_def format_names_def)
  have d: "declared_mime (Some ''video/mp4'') = Some ''video/mp4''" by code_simp
  have l: "py_lower ''video/mp4'' = ''video/mp4''" by code_simp
  have f: "fetch_recording toy_os (toy_media_store (Inr ''raw'')) sample_video = Inr ''raw''"
    by (simp add: fetch_recording_def toy_os_def toy_media_store_def sample_video_def validate_downloaded_content_type_def
        d detect_file_mime_def l)
  have p: "probe_output default_media_settings toy_os x y = Inr unprobed" for x y
    by (simp add: probe_output_def default_media_settings_def toy_os_def)
  have sel: "select_transcoder default_media_settings toy_os = Inr (''ffmpeg'', ''/bin/ffmpeg'')"
    by (simp add: select_transcoder_def toy_os_def default_media_settings_def)
  obtain cmd where cm: "choose_command default_media_settings toy_os sample_video ''raw'' = Inr (''ffmpeg'', cmd)"
    using c by (simp add: choose_command_def Let_def sel p)
  have k: "truthy (v_storage_key_raw sample_video)" by (simp add: sample_video_def)
  have m: "media_temp_parent default_media_settings toy_os = Inr None"
    by (simp add: media_temp_parent_def default_media_settings_def)
  have t: "transcode_recording default_media_settings toy_os cmd ''raw'' = Inr ''mraw''"
    by (simp add: transcode_recording_def toy_os_def)
  show ?thesis
    by (simp add: create_browser_mezzanine_def k m f p cm t) (simp add: publish_mezzanine_def toy_media_store_def toy_os_def)
qed


lemma media_errors_classified_witness:
  "\<exists>m x. create_browser_mezzanine default_media_settings toy_os (toy_media_store (Inl (StorageFailureError []))) sample_video =
     Inl (TransientProcessingError E_PROCESSING_STORAGE_FAILURE m x)"
proof -
  have "is_storage_failure (StorageFailureError [])" by (simp add: is_storage_failure_def StorageFailureError_def)
  then obtain m x where e: "create_browser_mezzanine default_media_settings toy_os (toy_media_store (Inl (StorageFailureError [])))
      sample_video = Inl (TransientProcessingError E_PROCESSING_STORAGE_FAILURE m x)"
    by (simp add: create_browser_mezzanine_def media_temp_parent_def fetch_recording_def toy_media_store_def sample_video_def
        storage_transient_def Let_def default_media_settings_def)
  from media_errors_classified[OF e] e show ?thesis by blast
qed

end
