(* ===== verification/Tasks.thy ===== *)
theory Tasks
  imports Transcode Preview_Worker Dispatch
begin

text \<open>
  The Celery tasks of the worker, \<open>tasks.py\<close>: what a delivery of each task returns, asks to retry or raises, the
  failure hooks, and the limits of the retries. Celery is an argument: \<open>redeliver r m\<close> says whether a task that
  asked for a retry with \<open>max_retries = m\<close> on its attempt number \<open>r\<close> is delivered again. A task's argument is
  the id it was sent with, so the branches for malformed ids are left out, as is the metrics histogram.
\<close>

section \<open>Deliveries\<close>

record task_outcome =
  to_job_id :: uuid
  to_status :: string
  to_retryable :: bool
  to_error_code :: string

definition outcome_of :: "stage_result \<Rightarrow> task_outcome" where
  "outcome_of r = \<lparr>to_job_id = sr_job_id r, to_status = sr_status r, to_retryable = sr_retryable r,
     to_error_code = (case sr_error_code r of None \<Rightarrow> [] | Some c \<Rightarrow> c)\<rparr>"

datatype task_end =
  Task_Returned task_outcome
| Task_Retry worker_exn int int
| Task_Raised worker_exn

definition run_transcode ::
  "settings \<Rightarrow> presigner option \<Rightarrow> (video_row \<Rightarrow> worker_exn + mezzanine_artifact) \<Rightarrow> nat \<Rightarrow> uuid \<Rightarrow> string \<Rightarrow> uuid \<Rightarrow>
   (nat \<Rightarrow> time) \<Rightarrow> (nat \<Rightarrow> db \<Rightarrow> db) \<Rightarrow> db \<Rightarrow> task_end \<times> db" where
  "run_transcode s storage mezz beats i task fresh clk itf d =
     (case execute_transcode s storage mezz beats i (Some task) (Some task) fresh clk itf d of
        (Inl e, d) \<Rightarrow> (Task_Raised e, d)
      | (Inr (res, _), d) \<Rightarrow>
          (let out = outcome_of res; c = to_error_code out
           in if to_status out = ''failed'' \<and> to_retryable out
              then (Task_Retry
                (TransientProcessingError (if c = [] then E_PROCESSING_STORAGE_FAILURE else c)
                   (if c = [] then ''transient processing failure'' else c) [])
                (worker_job_retry_backoff_seconds s) (worker_job_max_retries s), d)
              else (Task_Returned out, d)))"

definition run_cv_stage ::
  "settings \<Rightarrow> uuid \<Rightarrow> string \<Rightarrow> uuid \<Rightarrow> (nat \<Rightarrow> time) \<Rightarrow> (nat \<Rightarrow> db \<Rightarrow> db) \<Rightarrow> db \<Rightarrow> task_end \<times> db" where
  "run_cv_stage s i task fresh clk itf d =
     (case execute_cv_stage s i (Some task) (Some task) fresh clk itf d of
        (res, d) \<Rightarrow> (Task_Returned (outcome_of res), d))"

definition task_name :: "processing_job_stage \<Rightarrow> string" where
  "task_name stage =
     (if stage = ST_TRANSCODE then ''nextballup_worker.tasks.run_transcode'' else ''nextballup_worker.tasks.run_cv_stage'')"

text \<open>\<open>_enqueue\<close>: the task, its argument and its queue as sent to the broker; \<open>send_task\<close> answers with the id.\<close>

definition enqueue_task ::
  "settings \<Rightarrow> (string \<Rightarrow> string \<Rightarrow> string \<Rightarrow> string option) \<Rightarrow> uuid \<Rightarrow> processing_job_stage \<Rightarrow> string option" where
  "enqueue_task s send_task pending_id stage = send_task (task_name stage) (uuid_str pending_id) (queue_for_stage stage s)"

section \<open>The failure hooks\<close>

definition error_code_from_exception :: "worker_exn \<Rightarrow> string" where
  "error_code_from_exception e =
     (case e of TransientProcessingError c m x \<Rightarrow> c | PermanentProcessingError c m x \<Rightarrow> c
      | OtherException c m x \<Rightarrow> (case c of Some y \<Rightarrow> y | None \<Rightarrow> E_INTERNAL_ERROR))"

definition transcode_on_failure :: "uuid \<Rightarrow> string \<Rightarrow> time \<Rightarrow> worker_exn \<Rightarrow> db \<Rightarrow> db" where
  "transcode_on_failure i task now e d =
     terminal_failure i task (error_code_from_exception e) (take 2000 (exc_message e)) True now d"

definition cv_on_failure :: "uuid \<Rightarrow> string \<Rightarrow> time \<Rightarrow> worker_exn \<Rightarrow> db \<Rightarrow> db" where
  "cv_on_failure i task now e d =
     terminal_failure i task (error_code_from_exception e) (take 2000 (exc_message e)) False now d"

section \<open>The preview task\<close>

definition demo_preview_error_code :: "exn \<Rightarrow> string" where
  "demo_preview_error_code e = (case e of AppError s c x \<Rightarrow> c | _ \<Rightarrow> E_DEMO_PREVIEW_FAILED)"

definition RETRIES_EXHAUSTED :: string where
  "RETRIES_EXHAUSTED = ''Local demo preview retries exhausted while waiting for machine capacity''"

text \<open>\<open>None\<close> is \<open>MaxRetriesExceededError\<close>; \<open>message\<close> is the text of the exception.\<close>

definition demo_preview_on_failure ::
  "settings \<Rightarrow> (nat \<Rightarrow> time) \<Rightarrow> uuid \<Rightarrow> string \<Rightarrow> exn option \<Rightarrow> string \<Rightarrow> world \<Rightarrow> preview_result \<times> world" where
  "demo_preview_on_failure s clk i task exc message w =
     (case exc of
        None \<Rightarrow> finalize_demo_preview_failure s clk i task E_DEMO_PREVIEW_MACHINE_BUSY RETRIES_EXHAUSTED w
      | Some e \<Rightarrow> finalize_demo_preview_failure s clk i task (demo_preview_error_code e)
          (if take 2000 message = [] then ''Local demo preview worker failed unexpectedly'' else take 2000 message) w)"

definition demo_retry_countdown :: "settings \<Rightarrow> int" where
  "demo_retry_countdown s = max 5 (worker_job_retry_backoff_seconds s)"

definition demo_retry_limit :: "settings \<Rightarrow> int" where
  "demo_retry_limit s = max 1 (\<lceil>of_int (cv_demo_timeout_seconds s + 60) / (of_int (demo_retry_countdown s) :: rat)\<rceil>)"

datatype demo_end = Demo_Returned preview_result | Demo_Retry int int

definition run_demo_preview ::
  "(int \<Rightarrow> int \<Rightarrow> bool) \<Rightarrow> settings \<Rightarrow> demo_settings \<Rightarrow> os_view \<Rightarrow> demo_paths \<Rightarrow> (exn \<Rightarrow> string) \<Rightarrow> (string \<Rightarrow> jv option) \<Rightarrow>
   (jv \<Rightarrow> string) \<Rightarrow> preview_tools option \<Rightarrow> (nat \<Rightarrow> uuid) \<Rightarrow> (nat \<Rightarrow> time) \<Rightarrow> (nat \<Rightarrow> time) \<Rightarrow> (world \<Rightarrow> world) \<Rightarrow> uuid \<Rightarrow>
   string \<Rightarrow> int \<Rightarrow> world \<Rightarrow> demo_end \<times> world" where
  "run_demo_preview redeliver s ds os dp msg loads str_of storage fresh clk clk' others i task r w =
     (case execute_demo_preview s ds os dp msg loads str_of storage fresh clk others i task w of
        (res, w) \<Rightarrow>
          if \<not> pvr_retryable res then (Demo_Returned res, w)
          else if redeliver r (demo_retry_limit s) then (Demo_Retry (demo_retry_countdown s) (demo_retry_limit s), w)
          else (case finalize_demo_preview_failure s clk' i task E_DEMO_PREVIEW_MACHINE_BUSY RETRIES_EXHAUSTED w of
                  (terminal, w) \<Rightarrow> (Demo_Returned terminal, w)))"

text \<open>The retries of a preview wait at least as long as a rendering may hold the machine.\<close>

lemma demo_retries_cover_timeout:
  "cv_demo_timeout_seconds s + 60 \<le> demo_retry_countdown s * demo_retry_limit s"
proof -
  let ?c = "demo_retry_countdown s" and ?a = "cv_demo_timeout_seconds s + 60"
  have c: "0 < ?c" by (simp add: demo_retry_countdown_def)
  have "of_int ?a / (of_int ?c :: rat) \<le> of_int \<lceil>of_int ?a / (of_int ?c :: rat)\<rceil>" by (rule le_of_int_ceiling)
  also have "\<dots> \<le> of_int (demo_retry_limit s)" by (simp add: demo_retry_limit_def)
  finally have "of_int ?a \<le> (of_int (demo_retry_limit s) * of_int ?c :: rat)" using c by (simp add: pos_divide_le_eq)
  then have "of_int ?a \<le> (of_int (?c * demo_retry_limit s) :: rat)" by (simp add: mult.commute)
  then show ?thesis by (simp only: of_int_le_iff)
qed

section \<open>Retries\<close>

text \<open>
  The deliveries of one task, from attempt \<open>r\<close> on: a retry is delivered again while the broker does so, and a
  task that raises, or whose retry is refused, ends in its failure hook. The result is the last attempt's
  number; \<open>None\<close> is out of fuel.
\<close>

fun deliveries ::
  "(int \<Rightarrow> int \<Rightarrow> bool) \<Rightarrow> (int \<Rightarrow> db \<Rightarrow> task_end \<times> db) \<Rightarrow> (worker_exn \<Rightarrow> db \<Rightarrow> db) \<Rightarrow> nat \<Rightarrow> int \<Rightarrow> db \<Rightarrow> (int \<times> db) option" where
  "deliveries redeliver task on_failure 0 r d = None"
| "deliveries redeliver task on_failure (Suc n) r d =
     (case task r d of
        (Task_Returned _, d) \<Rightarrow> Some (r, d)
      | (Task_Raised e, d) \<Rightarrow> Some (r, on_failure e d)
      | (Task_Retry e countdown m, d) \<Rightarrow>
          if redeliver r m then deliveries redeliver task on_failure n (r + 1) d else Some (r, on_failure e d))"

text \<open>The storage or the media pipeline fails with a retryable error for the video, and a transcode of it waits.\<close>

definition storage_outage :: "presigner \<Rightarrow> (video_row \<Rightarrow> worker_exn + mezzanine_artifact) \<Rightarrow> video_row \<Rightarrow> bool" where
  "storage_outage p mezz v \<longleftrightarrow>
     (case verify_storage (v\<lparr>v_status := VS_PROCESSING\<rparr>) p of
        Inl e \<Rightarrow> \<not> is_permanent e
      | Inr _ \<Rightarrow> (case mezz (v\<lparr>v_status := VS_PROCESSING\<rparr>) of Inl e \<Rightarrow> \<not> is_permanent e | Inr _ \<Rightarrow> False))"

definition pending_transcode ::
  "presigner \<Rightarrow> (video_row \<Rightarrow> worker_exn + mezzanine_artifact) \<Rightarrow> uuid \<Rightarrow> uuid \<Rightarrow> db \<Rightarrow> bool" where
  "pending_transcode p mezz i vid d \<longleftrightarrow> jobs_inv (jobs d) \<and>
     (\<exists>j. by_key j_id i (jobs d) = Some j \<and> j_stage j = ST_TRANSCODE \<and> j_status j = JS_PENDING \<and> j_video_id j = vid) \<and>
     (\<exists>v. by_key v_id vid (videos d) = Some v \<and> v_status v \<in> {VS_QUEUED, VS_PROCESSING} \<and> storage_outage p mezz v)"

lemma outage_delivery:
  assumes "pending_transcode p mezz i vid d"
  shows "\<exists>e d'. run_transcode s (Some p) mezz beats i task fresh clk (\<lambda>k d. d) d =
      (Task_Retry e (worker_job_retry_backoff_seconds s) (worker_job_max_retries s), d') \<and> pending_transcode p mezz i vid d'"
proof -
  from assms obtain j v where j: "jobs_inv (jobs d)" "by_key j_id i (jobs d) = Some j" "j_stage j = ST_TRANSCODE"
    "j_status j = JS_PENDING" "j_video_id j = vid" and v: "by_key v_id (j_video_id j) (videos d) = Some v"
    "v_status v \<in> {VS_QUEUED, VS_PROCESSING}" "storage_outage p mezz v" unfolding pending_transcode_def by blast
  let ?v = "v\<lparr>v_status := VS_PROCESSING\<rparr>"
  obtain e where e: "case verify_storage ?v p of Inl e' \<Rightarrow> e' = e | Inr ver \<Rightarrow> mezz ?v = Inl e" "\<not> is_permanent e"
    using v(3)[unfolded storage_outage_def] by (auto split: sum.splits)
  obtain res d' j' v' where r: "execute_transcode s (Some p) mezz beats i (Some task) (Some task) fresh clk (\<lambda>k d. d) d = (Inr (res, []), d')"
    and res: "sr_status res = ''failed''" "sr_retryable res"
    and j': "by_key j_id i (jobs d') = Some j'" "j_status j' = JS_PENDING"
    and v': "by_key v_id (j_video_id j) (videos d') = Some v'" "v_status v' = VS_QUEUED"
      "v' = v\<lparr>v_status := v_status v'\<rparr>"
    using failed_delivery[where d = d and i = i and j = j and v = v and p = p and e = e and mezz = mezz, OF j(1-4) v(1,2) e(1), of s beats "Some task" "Some task" fresh clk] e(2) by (auto split: if_splits)
  have "safe d d'"
    using safe_execute_transcode[of "\<lambda>k d. d" d s "Some p" mezz beats i "Some task" "Some task" fresh clk] r
    by (simp add: job_env_def)
  then have steps: "jobs_inv (jobs d')" "job_step\<^sup>*\<^sup>* (jobs d) (jobs d')" using j(1) by (simp_all add: safe_def)
  from job_steps_row[OF steps(2) j(2)] j'(1) have "video_stage j' = video_stage j" by auto
  moreover have same: "v'\<lparr>v_status := VS_PROCESSING\<rparr> = v\<lparr>v_status := VS_PROCESSING\<rparr>" by (subst v'(3)) simp
  have "storage_outage p mezz v'" using v(3) unfolding storage_outage_def same .
  ultimately have "pending_transcode p mezz i vid d'"
    using steps(1) j' v'(1,2) j(3,5) by (auto simp: pending_transcode_def video_stage_def)
  then show ?thesis using r res by (simp add: run_transcode_def outcome_of_def Let_def)
qed

lemma terminal_failure_fails:
  assumes "pending_transcode p mezz i vid d"
  shows "map_option j_status (by_key j_id i (jobs (transcode_on_failure i task now e d))) = Some JS_FAILED \<and>
    map_option v_status (by_key v_id vid (videos (transcode_on_failure i task now e d))) = Some VS_FAILED"
proof -
  from assms obtain j v where j: "distinct (map j_id (jobs d))" "by_key j_id i (jobs d) = Some j" "j_status j = JS_PENDING"
    "j_video_id j = vid" and v: "by_key v_id vid (videos d) = Some v"
    unfolding pending_transcode_def by (blast dest: jobs_inv_keys)
  let ?c = "error_code_from_exception e" and ?m = "take 2000 (exc_message e)"
  obtain t u where tu: "fail_job ?c ?m None now i (jobs d) = (t, u)" by fastforce
  have i: "j_id j = i" using by_key_Some[OF j(2)] by simp
  have "u \<noteq> None" using tu fail.result[OF j(1), of ?c ?m None now i] j(2,3) by auto
  moreover have "by_key j_id i t = Some (fail_values ?c ?m None now j)"
    using tu fail.row[of i ?c ?m None now "jobs d"] j(2,3) by simp
  ultimately show ?thesis using j v tu i
    by (simp add: transcode_on_failure_def terminal_failure_def get_job_def Let_def video_status.row fail_values_def)
qed

text \<open>
  C12: The retries of a transcode end. While the storage is down a pending transcode is delivered exactly once more
  than \<open>worker_job_max_retries\<close> allows retries, and then its job and its video are failed, provided the broker
  redelivers a task while its attempt number is below the limit, as Celery documents \<open>max_retries\<close>.
\<close>

theorem transcode_retries_end:
  assumes "\<forall>r m. redeliver r m = (r < m)" and "pending_transcode p mezz i vid d" and "0 \<le> worker_job_max_retries s"
  shows "\<exists>d'. deliveries redeliver (\<lambda>r. run_transcode s (Some p) mezz beats i task fresh (clk r) (\<lambda>k d. d))
      (transcode_on_failure i task now) (Suc (nat (worker_job_max_retries s))) 0 d =
        Some (worker_job_max_retries s, d') \<and>
    map_option j_status (by_key j_id i (jobs d')) = Some JS_FAILED \<and>
    map_option v_status (by_key v_id vid (videos d')) = Some VS_FAILED"
proof -
  let ?m = "worker_job_max_retries s" and ?t = "\<lambda>r. run_transcode s (Some p) mezz beats i task fresh (clk r) (\<lambda>k d. d)"
  have "\<exists>d'. deliveries redeliver ?t (transcode_on_failure i task now) (Suc n) r d = Some (?m, d') \<and>
      map_option j_status (by_key j_id i (jobs d')) = Some JS_FAILED \<and>
      map_option v_status (by_key v_id vid (videos d')) = Some VS_FAILED"
    if "pending_transcode p mezz i vid d" "r + int n = ?m" for n r d
    using that
  proof (induction n arbitrary: r d)
    case 0
    from outage_delivery[OF 0(1), of s beats task fresh "clk r"] obtain e d1 where
      d1: "?t r d = (Task_Retry e (worker_job_retry_backoff_seconds s) ?m, d1)" "pending_transcode p mezz i vid d1" by blast
    have "\<not> redeliver r ?m" using assms(1) 0(2) by simp
    with d1 0(2) terminal_failure_fails[OF d1(2), of task now e] show ?case by simp
  next
    case (Suc n)
    from outage_delivery[OF Suc.prems(1), of s beats task fresh "clk r"] obtain e d1 where
      d1: "?t r d = (Task_Retry e (worker_job_retry_backoff_seconds s) ?m, d1)" "pending_transcode p mezz i vid d1" by blast
    have "redeliver r ?m" using assms(1) Suc.prems(2) by simp
    moreover from Suc.IH[OF d1(2), of "r + 1"] Suc.prems(2) have "\<exists>d'.
        deliveries redeliver ?t (transcode_on_failure i task now) (Suc n) (r + 1) d1 = Some (?m, d') \<and>
        map_option j_status (by_key j_id i (jobs d')) = Some JS_FAILED \<and>
        map_option v_status (by_key v_id vid (videos d')) = Some VS_FAILED" by (simp add: algebra_simps)
    ultimately show ?case using d1(1) by (subst deliveries.simps(2)) simp
  qed
  from this[OF assms(2), of 0 "nat ?m"] assms(3) show ?thesis by simp
qed

lemma transcode_retries_end_witness:
  "\<exists>d'. deliveries (<) (\<lambda>r. run_transcode default_settings (Some (toy_presigner\<lparr>ps_head_object := (\<lambda>k. Inl (StorageFailureError []))\<rparr>))
      (\<lambda>v. Inr toy_artifact) 1 7 ''t1'' 9 (\<lambda>k. 50) (\<lambda>k d. d)) (transcode_on_failure 7 ''t1'' 60) 4 0 transcode_db = Some (3, d') \<and>
    map_option j_status (by_key j_id 7 (jobs d')) = Some JS_FAILED"
proof -
  let ?p = "toy_presigner\<lparr>ps_head_object := (\<lambda>k. Inl (StorageFailureError []))\<rparr>"
  have "storage_outage ?p (\<lambda>v. Inr toy_artifact) queued_video"
    by (simp add: storage_outage_def verify_storage_def queued_video_def sample_video_def is_storage_failure_def
        StorageFailureError_def Let_def)
  then have pend: "pending_transcode ?p (\<lambda>v. Inr toy_artifact) 7 1 transcode_db"
    using transcode_db_facts by (auto simp: pending_transcode_def new_job_def)
  have m: "worker_job_max_retries default_settings = 3" by (simp add: default_settings_def)
  show ?thesis
    using transcode_retries_end[where redeliver = "(<)" and clk = "\<lambda>r k. 50", OF _ pend, of default_settings 1 "''t1''" 9 60] m
    by (auto simp: eval_nat_numeral)
qed

end
