(* ===== verification/Startup.thy ===== *)
theory Startup
  imports Accounts Media
begin

text \<open>
  What must hold before the API and the worker serve: the checks of \<open>main.py\<close> and \<open>tasks.py\<close> on the settings, with
  the URL parts of \<open>urllib\<close> they look at (the check of bracketed hosts aside). A failure is shortened to the
  setting it names; secrets are ASCII. \<open>keys\<close> is the loading of the two JWT keys, \<open>with_credentials\<close> the database
  URL with the runtime role's credentials, \<open>registered\<close> and \<open>registry\<close> are the providers of the deployment.
\<close>

section \<open>URLs\<close>

record parsed_url =
  pu_scheme :: string
  pu_netloc :: string

definition url_clean :: "string \<Rightarrow> string" where
  "url_clean u = filter (\<lambda>c. c \<notin> {CHR 0x09, CHR 0x0A, CHR 0x0D}) (dropWhile (\<lambda>c. (of_char c :: nat) \<le> 32) u)"

definition scheme_char :: "char \<Rightarrow> bool" where
  "scheme_char c \<longleftrightarrow> alnum c \<or> c \<in> {CHR ''+'', CHR ''-'', CHR ''.''}"

definition ascii_letter :: "char \<Rightarrow> bool" where
  "ascii_letter c \<longleftrightarrow> (let n = (of_char c :: nat) in 65 \<le> n \<and> n \<le> 90 \<or> 97 \<le> n \<and> n \<le> 122)"

text \<open>\<open>None\<close> is the \<open>ValueError\<close> for a bracket without its partner.\<close>

definition urlparse :: "string \<Rightarrow> parsed_url option" where
  "urlparse u =
     (let u = url_clean u; h = takeWhile (\<lambda>c. c \<noteq> CHR '':'') u;
          schemed = h \<noteq> u \<and> h \<noteq> [] \<and> ascii_letter (hd h) \<and> list_all scheme_char h;
          scheme = (if schemed then py_lower h else []); rest = (if schemed then drop (length h + 1) u else u);
          netloc = (if prefix ''//'' rest
            then takeWhile (\<lambda>c. c \<notin> {CHR ''/'', CHR ''?'', CHR ''#''}) (drop 2 rest) else [])
      in if (CHR ''['' \<in> set netloc) \<noteq> (CHR '']'' \<in> set netloc) then None
         else Some \<lparr>pu_scheme = scheme, pu_netloc = netloc\<rparr>)"

definition hostname :: "parsed_url \<Rightarrow> string" where
  "hostname p =
     (let info = rev (takeWhile (\<lambda>c. c \<noteq> CHR ''@'') (rev (pu_netloc p)))
      in py_lower (if CHR ''['' \<in> set info
           then takeWhile (\<lambda>c. c \<noteq> CHR '']'') (tl (dropWhile (\<lambda>c. c \<noteq> CHR ''['') info))
           else takeWhile (\<lambda>c. c \<noteq> CHR '':'') info))"

definition LOCAL_HOSTS :: "string list" where
  "LOCAL_HOSTS = [''localhost'', ''127.0.0.1'', ''::1'']"

section \<open>Settings\<close>

record boot_settings =
  bt_app_debug :: bool
  bt_metrics_enabled :: bool
  bt_metrics_token :: "string option"
  bt_database_url :: string
  bt_database_url_runtime :: "string option"
  bt_runtime_username :: string
  bt_runtime_password :: "string option"

definition deployed :: "settings \<Rightarrow> bool" where
  "deployed s \<longleftrightarrow> app_env s \<in> {''staging'', ''production''}"

definition runtime_database_url ::
  "(string \<Rightarrow> string \<Rightarrow> string \<Rightarrow> exn + string) \<Rightarrow> settings \<Rightarrow> boot_settings \<Rightarrow> exn + string" where
  "runtime_database_url with_credentials s b =
     (if truthy (bt_database_url_runtime b) then Inr (the (bt_database_url_runtime b))
      else if truthy (bt_runtime_password b)
      then with_credentials (bt_database_url b) (bt_runtime_username b) (the (bt_runtime_password b))
      else if deployed s then Inl (RuntimeError ''DATABASE_URL_RUNTIME or DATABASE_RUNTIME_PASSWORD must be configured'')
      else Inr (bt_database_url b))"

section \<open>The checks of the API\<close>

definition failing :: "bool \<Rightarrow> string \<Rightarrow> exn + string list" where
  "failing b t = Inr (if b then [t] else [])"

fun collect :: "(exn + string list) list \<Rightarrow> exn + string list" where
  "collect [] = Inr []"
| "collect (Inl e # rs) = Inl e"
| "collect (Inr xs # rs) = (case collect rs of Inl e \<Rightarrow> Inl e | Inr ys \<Rightarrow> Inr (xs @ ys))"

text \<open>\<open>except RuntimeError as exc: failures.append(str(exc))\<close>\<close>

definition provider_failure :: "exn + 'a \<Rightarrow> exn + string list" where
  "provider_failure r = (case r of Inr _ \<Rightarrow> Inr [] | Inl (RuntimeError t) \<Rightarrow> Inr [t] | Inl e \<Rightarrow> Inl e)"

definition url_failure :: "string \<Rightarrow> string list \<Rightarrow> string \<Rightarrow> exn + string list" where
  "url_failure name schemes u =
     (case urlparse u of
        None \<Rightarrow> Inl (ValueError ''Invalid IPv6 URL'')
      | Some p \<Rightarrow>
          if pu_scheme p \<notin> set schemes \<or> pu_netloc p = [] then Inr [name @ '' must be an absolute URL'']
          else if hostname p \<in> set LOCAL_HOSTS then Inr [name @ '' must not point at localhost'']
          else Inr [])"

definition storage_config_failures :: "settings \<Rightarrow> exn + string list" where
  "storage_config_failures s =
     (if \<not> storage_configured s then Inr [''Object storage must be configured'']
      else
        let bucket = the (s3_bucket_raw s)
        in collect [url_failure ''S3_ENDPOINT_URL'' [''https''] (the (s3_endpoint_url s)),
             failing (bucket \<noteq> py_strip bucket \<or> CHR ''/'' \<in> set bucket \<or> CHR 0x5C \<in> set bucket) ''S3_BUCKET_RAW''])"

definition startup_failures ::
  "string list \<Rightarrow> provider_factory \<Rightarrow> settings \<Rightarrow> boot_settings \<Rightarrow> exn + string list" where
  "startup_failures registered registry s b = collect
     [failing (bt_app_debug b) ''APP_DEBUG'',
      failing (\<not> cookie_secure s) ''COOKIE_SECURE'',
      failing (cookie_samesite s \<noteq> ''strict'') ''COOKIE_SAMESITE'',
      failing (\<not> cookie_host_prefix s) ''COOKIE_HOST_PREFIX'',
      failing (\<not> truthy (redis_url s)) ''REDIS_URL'',
      failing (\<not> truthy (mfa_secret_key s) \<or> length (the (mfa_secret_key s)) < 32) ''MFA_SECRET_KEY'',
      (if email_delivery_provider s \<in> {''logging'', ''noop''} then Inr [''EMAIL_DELIVERY_PROVIDER'']
       else provider_failure (get_email_provider registered s)),
      (if billing_provider s = ''stub'' then Inr [''BILLING_PROVIDER'']
       else if app_env s = ''production'' \<and> billing_provider s = ''billing_disabled'' then Inr [''BILLING_PROVIDER'']
       else provider_failure (get_billing_provider registry s)),
      failing (bt_metrics_enabled b \<and> \<not> truthy (bt_metrics_token b)) ''OBSERVABILITY_METRICS_TOKEN'',
      storage_config_failures s,
      failing (cookie_domain s \<noteq> None) ''COOKIE_DOMAIN'',
      failing (registration_mode s = ''open'') ''REGISTRATION_MODE'',
      failing (registration_mode s = ''invite_only'' \<and> registration_invite_codes s = []) ''REGISTRATION_INVITE_CODES'',
      failing (registration_mode s = ''allowlist'' \<and> registration_email_allowlist s = []) ''REGISTRATION_EMAIL_ALLOWLIST'',
      url_failure ''FRONTEND_APP_URL'' [''http'', ''https''] (frontend_app_url s)]"

fun join_failures :: "string list \<Rightarrow> string" where
  "join_failures [] = []"
| "join_failures [x] = x"
| "join_failures (x # xs) = x @ '' / '' @ join_failures xs"

definition check_deployment :: "string list \<Rightarrow> provider_factory \<Rightarrow> settings \<Rightarrow> boot_settings \<Rightarrow> exn + unit" where
  "check_deployment registered registry s b =
     (if \<not> deployed s then Inr ()
      else if \<not> truthy (csrf_secret s) then Inl (RuntimeError ''CSRF_SECRET must be configured'')
      else (case startup_failures registered registry s b of
              Inl e \<Rightarrow> Inl e
            | Inr failures \<Rightarrow> if failures \<noteq> [] then Inl (RuntimeError (join_failures failures)) else Inr ()))"

definition validate_startup_secrets ::
  "exn + unit \<Rightarrow> (string \<Rightarrow> string \<Rightarrow> string \<Rightarrow> exn + string) \<Rightarrow> string list \<Rightarrow> provider_factory \<Rightarrow> os_view \<Rightarrow> demo_paths \<Rightarrow>
   settings \<Rightarrow> boot_settings \<Rightarrow> exn + unit" where
  "validate_startup_secrets keys with_credentials registered registry os dp s b =
     (case keys of
        Inl e \<Rightarrow> Inl e
      | Inr _ \<Rightarrow>
     (case runtime_database_url with_credentials s b of
        Inl e \<Rightarrow> Inl e
      | Inr _ \<Rightarrow>
     (case check_deployment registered registry s b of
        Inl e \<Rightarrow> Inl e
      | Inr _ \<Rightarrow>
          if cv_demo_preview_enabled s \<and> app_env s \<notin> {''development'', ''test''}
          then Inl (RuntimeError ''CV_DEMO_PREVIEW_ENABLED is only allowed in development/test'')
          else if cv_alpha_detector_preview_enabled s \<and> app_env s \<notin> {''development'', ''test'', ''staging''}
          then Inl (RuntimeError ''CV_ALPHA_DETECTOR_PREVIEW_ENABLED is only allowed in development/test/staging'')
          else validate_demo_preview_runtime s os dp True (cv_demo_preview_enabled s))))"

section \<open>The checks of the worker\<close>

definition worker_failures :: "settings \<Rightarrow> media_settings \<Rightarrow> string list" where
  "worker_failures s m =
     (if app_env s = ''production'' \<and> \<not> md_container_sandbox_enabled m
      then [''WORKER_MEDIA_CONTAINER_SANDBOX_ENABLED''] else []) @
     (if app_env s = ''staging'' \<and> \<not> (md_container_sandbox_enabled m \<or> md_subprocess_sandbox m)
      then [''WORKER_MEDIA_SUBPROCESS_SANDBOX''] else []) @
     (if md_max_cpu_seconds m \<le> 0 then [''WORKER_MEDIA_MAX_CPU_SECONDS''] else []) @
     (if md_max_output_bytes m \<le> 0 then [''WORKER_MEDIA_MAX_OUTPUT_BYTES''] else [])"

definition ensure_runtime_broker_configured ::
  "(string \<Rightarrow> string \<Rightarrow> string \<Rightarrow> exn + string) \<Rightarrow> os_view \<Rightarrow> demo_paths \<Rightarrow> settings \<Rightarrow> boot_settings \<Rightarrow> media_settings \<Rightarrow>
   exn + unit" where
  "ensure_runtime_broker_configured with_credentials os dp s b m =
     (if app_env s \<noteq> ''test'' \<and> \<not> truthy (celery_broker_url s)
      then Inl (RuntimeError ''CELERY_BROKER_URL must be configured'')
      else
     (case runtime_database_url with_credentials s b of
        Inl e \<Rightarrow> Inl e
      | Inr _ \<Rightarrow>
          if deployed s \<and> worker_failures s m \<noteq> [] then Inl (RuntimeError (join_failures (worker_failures s m)))
          else validate_demo_preview_runtime s os dp True True))"

section \<open>What a started deployment guarantees\<close>

lemma collect_Inr_Nil: "collect rs = Inr [] \<longleftrightarrow> (\<forall>r \<in> set rs. r = Inr [])"
  by (induction rs rule: collect.induct) (auto split: sum.splits)

lemma failing_Nil: "failing b t = Inr [] \<longleftrightarrow> \<not> b"
  by (simp add: failing_def)

lemma check_deployment_Inr:
  assumes "check_deployment registered registry s b = Inr ()" and "deployed s"
  shows "truthy (csrf_secret s)" and "startup_failures registered registry s b = Inr []"
  using assms by (auto simp: check_deployment_def split: sum.splits if_splits)

lemma startup_checked:
  assumes "validate_startup_secrets keys wc registered registry os dp s b = Inr ()"
  shows "check_deployment registered registry s b = Inr ()" and "cv_demo_preview_enabled s \<Longrightarrow> app_env s \<in> {''development'', ''test''}"
    and "\<exists>u. runtime_database_url wc s b = Inr u"
  using assms by (auto simp: validate_startup_secrets_def split: sum.splits if_splits)

lemma started_settings:
  assumes "startup_failures registered registry s b = Inr []"
  shows "\<not> bt_app_debug b \<and> cookie_secure s \<and> cookie_samesite s = ''strict'' \<and> cookie_host_prefix s \<and> cookie_domain s = None \<and>
    truthy (redis_url s) \<and> truthy (mfa_secret_key s) \<and> 32 \<le> length (the (mfa_secret_key s)) \<and>
    registration_mode s \<noteq> ''open'' \<and> (registration_mode s = ''invite_only'' \<longrightarrow> registration_invite_codes s \<noteq> []) \<and>
    storage_configured s \<and> billing_provider s \<noteq> ''stub'' \<and> email_delivery_provider s \<notin> {''logging'', ''noop''}"
proof -
  note all = assms[unfolded startup_failures_def collect_Inr_Nil, simplified failing_Nil ball_simps list.set insert_iff]
  have "storage_config_failures s = Inr []" using all by simp
  then have "storage_configured s" by (simp add: storage_config_failures_def split: if_splits)
  with all show ?thesis by (auto simp: failing_Nil split: if_splits)
qed

text \<open>A cookie that scripts cannot read, that is sent over TLS to its own host and on its own requests only.\<close>

definition locked_cookie :: "cookie_op \<Rightarrow> bool" where
  "locked_cookie c =
     (case c of
        SetCookie n v age http_only secure samesite domain p \<Rightarrow> http_only \<and> secure \<and> samesite = ''strict'' \<and> domain = None
      | DeleteCookie n domain p \<Rightarrow> domain = None)"


text \<open>
  A worker that started in production runs ffmpeg only inside its container, with no network and no inherited
  variable beyond the allow-list; one that started in staging does so or limits its processor time and output.
\<close>

theorem started_worker_sandboxed:
  assumes "ensure_runtime_broker_configured with_credentials os dp s b m = Inr ()"
    and "app_env s = ''staging'' \<or> app_env s = ''production''" and "mo_posix mo" and "is_ffmpeg_command cmd m"
  shows "(md_container_sandbox_enabled m \<and>
      prefix [md_container_runtime m, ''run'', ''--rm'', ''--network'', ''none''] (mc_cmd (transcode_call m mo cmd cwd)) \<or>
     app_env s = ''staging'' \<and> {(''RLIMIT_CPU'', md_max_cpu_seconds m), (''RLIMIT_FSIZE'', md_max_output_bytes m)}
       \<subseteq> set (mc_limits (transcode_call m mo cmd cwd)) \<and> 0 < md_max_cpu_seconds m \<and> 0 < md_max_output_bytes m) \<and>
    fst ` set (mc_env (transcode_call m mo cmd cwd)) \<subseteq> set MEDIA_ENV_ALLOWLIST"
proof -
  have "deployed s" using assms(2) by (simp add: deployed_def)
  with assms(1) have w: "worker_failures s m = []"
    by (auto simp: ensure_runtime_broker_configured_def split: if_splits sum.splits)
  have pos: "0 < md_max_cpu_seconds m" "0 < md_max_output_bytes m" using w by (auto simp: worker_failures_def split: if_splits)
  have env: "fst ` set (mc_env (transcode_call m mo cmd cwd)) \<subseteq> set MEDIA_ENV_ALLOWLIST"
    using media_env_confined[of mo] by (auto simp: confined_env_def)
  show ?thesis
  proof (cases "md_container_sandbox_enabled m")
    case True
    with assms(4) env show ?thesis by (simp add: transcode_call_def build_containerized_ffmpeg_command_def)
  next
    case False
    with w assms(2) have "app_env s = ''staging''" "md_subprocess_sandbox m" by (auto simp: worker_failures_def split: if_splits)
    with False assms(3) pos env show ?thesis by (simp add: transcode_call_def media_call_of_def media_limits_def Let_def)
  qed
qed

definition staging_settings :: settings where
  "staging_settings = default_settings\<lparr>app_env := ''staging'', cookie_secure := True, cookie_samesite := ''strict'',
     cookie_host_prefix := True, redis_url := Some ''redis://r'', csrf_secret := Some ''c'',
     mfa_secret_key := Some ''0123456789abcdef0123456789abcdef'', email_delivery_provider := ''mailer'',
     billing_provider := ''billing_disabled'', registration_mode := ''disabled'', s3_endpoint_url := Some ''https://s3.example'',
     s3_access_key := Some ''a'', s3_secret_key := Some ''b'', s3_bucket_raw := Some ''raw'',
     frontend_app_url := ''https://app.example'', celery_broker_url := Some ''redis://r''\<rparr>"

definition staging_boot :: boot_settings where
  "staging_boot = \<lparr>bt_app_debug = False, bt_metrics_enabled = False, bt_metrics_token = None, bt_database_url = ''db'',
     bt_database_url_runtime = Some ''db'', bt_runtime_username = ''app'', bt_runtime_password = None\<rparr>"

lemma staging_fields:
  "app_env staging_settings = ''staging''" "cookie_secure staging_settings" "cookie_samesite staging_settings = ''strict''"
  "cookie_host_prefix staging_settings" "cookie_domain staging_settings = None" "redis_url staging_settings = Some ''redis://r''"
  "csrf_secret staging_settings = Some ''c''" "mfa_secret_key staging_settings = Some ''0123456789abcdef0123456789abcdef''"
  "email_delivery_provider staging_settings = ''mailer''" "billing_provider staging_settings = ''billing_disabled''"
  "registration_mode staging_settings = ''disabled''" "s3_endpoint_url staging_settings = Some ''https://s3.example''"
  "s3_access_key staging_settings = Some ''a''" "s3_secret_key staging_settings = Some ''b''"
  "s3_bucket_raw staging_settings = Some ''raw''" "frontend_app_url staging_settings = ''https://app.example''"
  "\<not> cv_demo_preview_enabled staging_settings" "\<not> cv_alpha_detector_preview_enabled staging_settings"
  by (simp_all add: staging_settings_def default_settings_def)

lemma staging_urls: "url_failure ''S3_ENDPOINT_URL'' [''https''] ''https://s3.example'' = Inr []"
  "url_failure ''FRONTEND_APP_URL'' [''http'', ''https''] ''https://app.example'' = Inr []" "py_strip ''raw'' = ''raw''"
  by code_simp+

lemma staging_runtime: "validate_demo_preview_runtime staging_settings os dp a c = Inr ()"
  by (simp add: validate_demo_preview_runtime_def local_demo_preview_enabled_def alpha_detector_preview_enabled_def
      staging_settings_def default_settings_def)

lemma staging_starts:
  "validate_startup_secrets (Inr ()) wc [''mailer''] PROVIDER_FACTORY os dp staging_settings staging_boot = Inr ()"
proof -
  have st: "storage_config_failures staging_settings = Inr []"
    using staging_urls by (simp add: storage_config_failures_def storage_configured_def staging_fields failing_def)
  have billing: "provider_failure (get_billing_provider PROVIDER_FACTORY staging_settings) = Inr []"
    by (simp add: provider_failure_def get_billing_provider_def staging_fields PROVIDER_FACTORY_def)
  have mail: "provider_failure (get_email_provider [''mailer''] staging_settings) = Inr []"
    by (simp add: provider_failure_def get_email_provider_def staging_fields)
  have "startup_failures [''mailer''] PROVIDER_FACTORY staging_settings staging_boot = Inr []"
    unfolding startup_failures_def collect_Inr_Nil using st staging_urls(2) billing mail
    by (simp add: failing_Nil staging_fields staging_boot_def)
  then show ?thesis
    by (simp add: validate_startup_secrets_def check_deployment_def staging_runtime runtime_database_url_def staging_fields
        staging_boot_def)
qed


lemma started_worker_sandboxed_witness:
  "prefix [''docker'', ''run'', ''--rm'', ''--network'', ''none'']
     (mc_cmd (transcode_call (default_media_settings\<lparr>md_container_sandbox_enabled := True\<rparr>) toy_os [''/bin/ffmpeg''] ''/tmp/t''))"
proof -
  let ?m = "default_media_settings\<lparr>md_container_sandbox_enabled := True\<rparr>"
  let ?s = "staging_settings\<lparr>app_env := ''production''\<rparr>"
  have "worker_failures ?s ?m = []"
    by (simp add: worker_failures_def default_media_settings_def)
  moreover have "validate_demo_preview_runtime ?s os dp True True = Inr ()" for os dp
    by (simp add: validate_demo_preview_runtime_def local_demo_preview_enabled_def alpha_detector_preview_enabled_def
        staging_settings_def default_settings_def)
  ultimately have e: "ensure_runtime_broker_configured (\<lambda>_ _ _. Inr '''') os dp ?s staging_boot ?m = Inr ()" for os dp
    by (simp add: ensure_runtime_broker_configured_def runtime_database_url_def)
      (simp add: staging_settings_def staging_boot_def)
  have f: "is_ffmpeg_command [''/bin/ffmpeg''] ?m" by code_simp
  have p: "app_env ?s = ''production''" by simp
  have x: "mo_posix toy_os" by (simp add: toy_os_def)
  have r: "md_container_runtime ?m = ''docker''" by (simp add: default_media_settings_def)
  show ?thesis
    using started_worker_sandboxed[OF e disjI2[OF p] x f, of "''/tmp/t''"] p unfolding r by simp
qed

end
