(* ===== verification/Gateway.thy ===== *)
theory Gateway
  imports Accounts Rate_Limit "HOL-Library.Word"
begin

unbundle bit_operations_syntax

text \<open>
  The edge of the API: the client's address behind proxies (\<open>request_meta.py\<close>, with \<open>ip_address\<close>, \<open>ip_network\<close>
  and \<open>str\<close> of the standard library's \<open>ipaddress\<close>; network masks in dotted form, which the settings' validator
  rewrites to prefix lengths, are left out), the request-id and security-header middleware around the check of
  \<open>Http\<close>, the error envelope of \<open>errors.py\<close>, and the three small routers: browser reports of policy violations
  (\<open>routers/csp.py\<close>), the pilot form (\<open>routers/marketing.py\<close>) and the probes (\<open>routers/health.py\<close>).
\<close>

section \<open>Internet addresses\<close>

datatype ip = V4 "32 word" | V6 "128 word" "string option"

definition join_by :: "string \<Rightarrow> string list \<Rightarrow> string" where
  "join_by sep xs = (case xs of [] \<Rightarrow> [] | x # ys \<Rightarrow> x @ concat (map (\<lambda>y. sep @ y) ys))"

definition parse_octet :: "string \<Rightarrow> nat option" where
  "parse_octet s =
     (if s = [] \<or> \<not> list_all is_digit s \<or> 3 < length s \<or> s \<noteq> ''0'' \<and> hd s = CHR ''0'' then None
      else case py_digits 10 0 False s of None \<Rightarrow> None | Some n \<Rightarrow> if 255 < n then None else Some n)"

definition in_base :: "nat \<Rightarrow> nat list \<Rightarrow> nat" where
  "in_base b ns = foldl (\<lambda>a n. a * b + n) 0 ns"

definition parse_v4 :: "string \<Rightarrow> nat option" where
  "parse_v4 s =
     (if CHR ''/'' \<in> set s \<or> length (py_split CHR ''.'' s) \<noteq> 4 then None
      else map_option (in_base 256) (those (map parse_octet (py_split CHR ''.'' s))))"

definition parse_hextet :: "string \<Rightarrow> nat option" where
  "parse_hextet s =
     (if s = [] \<or> 4 < length s then None else map_option (in_base 16) (those (map hex_val s)))"

definition hex_str :: "nat \<Rightarrow> string" where
  "hex_str n = (let h = dropWhile (\<lambda>c. c = CHR ''0'') (hex_string 4 n) in if h = [] then ''0'' else h)"

text \<open>The parts between the colons, with an IPv4 tail replaced by two parts, around at most one gap.\<close>

definition v6_parts :: "string \<Rightarrow> string list option" where
  "v6_parts s =
     (let parts = py_split CHR '':'' s
      in if length parts < 3 then None
         else if CHR ''.'' \<in> set (last parts)
         then map_option (\<lambda>n. butlast parts @ [hex_str (n div 65536), hex_str (n mod 65536)]) (parse_v4 (last parts))
         else Some parts)"

definition v6_int :: "string list \<Rightarrow> nat option" where
  "v6_int parts =
     (if 9 < length parts then None
      else case filter (\<lambda>i. parts ! i = []) [1..<length parts - 1] of
        [] \<Rightarrow>
          if length parts \<noteq> 8 \<or> hd parts = [] \<or> last parts = [] then None
          else map_option (in_base 65536) (those (map parse_hextet parts))
      | [i] \<Rightarrow>
          let hi = (if hd parts = [] then i - 1 else i);
              lo = length parts - i - 1 - (if last parts = [] then 1 else 0)
          in if hd parts = [] \<and> hi \<noteq> 0 \<or> last parts = [] \<and> lo \<noteq> 0 \<or> 8 \<le> hi + lo then None
             else (case (those (map parse_hextet (take hi parts)), those (map parse_hextet (drop (length parts - lo) parts))) of
                     (Some xs, Some ys) \<Rightarrow> Some (in_base 65536 (xs @ replicate (8 - hi - lo) 0 @ ys))
                   | _ \<Rightarrow> None)
      | _ \<Rightarrow> None)"

definition parse_v6 :: "string \<Rightarrow> ip option" where
  "parse_v6 s =
     (case py_split1 CHR ''%'' s of
        (addr, scope) \<Rightarrow>
          if CHR ''/'' \<in> set s \<or> scope = Some [] \<or> (case scope of None \<Rightarrow> False | Some z \<Rightarrow> CHR ''%'' \<in> set z) then None
          else map_option (\<lambda>n. V6 (of_nat n) scope) (Option.bind (v6_parts addr) v6_int))"

definition ip_address :: "string \<Rightarrow> ip option" where
  "ip_address s = (case parse_v4 s of Some n \<Rightarrow> Some (V4 (of_nat n)) | None \<Rightarrow> parse_v6 s)"

text \<open>The first longest run of two or more zero parts is printed as a gap.\<close>

fun zero_run :: "nat \<Rightarrow> nat \<Rightarrow> nat \<Rightarrow> nat \<Rightarrow> string list \<Rightarrow> nat \<times> nat" where
  "zero_run i len best_start best_len [] = (best_start, best_len)"
| "zero_run i len best_start best_len (h # hs) =
     (if h \<noteq> ''0'' then zero_run (i + 1) 0 best_start best_len hs
      else if best_len < len + 1 then zero_run (i + 1) (len + 1) (i - len) (len + 1) hs
      else zero_run (i + 1) (len + 1) best_start best_len hs)"

definition compress_hextets :: "string list \<Rightarrow> string list" where
  "compress_hextets hs =
     (case zero_run 0 0 0 0 hs of
        (start, len) \<Rightarrow>
          if len \<le> 1 then hs
          else (if start = 0 then [[]] else []) @ take start hs @ [[]] @ drop (start + len) hs @
            (if start + len = length hs then [[]] else []))"

definition ip_str :: "ip \<Rightarrow> string" where
  "ip_str a =
     (case a of
        V4 w \<Rightarrow> join_by ''.'' (map (\<lambda>k. nat_str (unat (drop_bit k w AND 255))) [24, 16, 8, 0])
      | V6 w scope \<Rightarrow>
          join_by '':'' (compress_hextets (map (\<lambda>k. hex_str (unat (drop_bit (16 * k) w AND 0xFFFF))) [7, 6, 5, 4, 3, 2, 1, 0])) @
          (case scope of None \<Rightarrow> [] | Some z \<Rightarrow> CHR ''%'' # z))"

section \<open>The client behind proxies\<close>

definition parsed_ip :: "string option \<Rightarrow> ip option" where
  "parsed_ip v = (if truthy v then ip_address (py_strip (the v)) else None)"

definition normalized_ip :: "string option \<Rightarrow> string option" where
  "normalized_ip v = map_option ip_str (parsed_ip v)"

definition prefix_length :: "nat \<Rightarrow> string \<Rightarrow> nat option" where
  "prefix_length m s =
     (if s = [] \<or> \<not> list_all is_digit s then None
      else case py_int 10 s of None \<Rightarrow> None | Some n \<Rightarrow> if int m < n then None else Some (nat n))"

definition ip_network :: "string \<Rightarrow> (ip \<times> nat) option" where
  "ip_network s =
     (case py_split CHR ''/'' s of
        [a, p] \<Rightarrow>
          (case (parse_v4 a, prefix_length 32 p) of
             (Some n, Some k) \<Rightarrow> Some (V4 (of_nat n), k)
           | _ \<Rightarrow> (case (parse_v6 a, prefix_length 128 p) of (Some net, Some k) \<Rightarrow> Some (net, k) | _ \<Rightarrow> None))
      | _ \<Rightarrow> None)"

definition in_network :: "ip \<Rightarrow> ip \<times> nat \<Rightarrow> bool" where
  "in_network a n =
     (case (a, n) of
        (V4 x, (V4 y, k)) \<Rightarrow> x AND push_bit (32 - k) (mask k) = y AND push_bit (32 - k) (mask k)
      | (V6 x _, (V6 y _, k)) \<Rightarrow> x AND push_bit (128 - k) (mask k) = y AND push_bit (128 - k) (mask k)
      | _ \<Rightarrow> False)"

definition trusted_proxy_matchers :: "string list \<Rightarrow> ip list \<times> (ip \<times> nat) list" where
  "trusted_proxy_matchers values =
     (List.map_filter ip_address values, List.map_filter ip_network (filter (\<lambda>v. ip_address v = None) values))"

definition is_trusted_proxy :: "ip \<Rightarrow> ip list \<times> (ip \<times> nat) list \<Rightarrow> bool" where
  "is_trusted_proxy a m = (a \<in> set (fst m) \<or> list_ex (in_network a) (snd m))"

abbreviation trusted :: "settings \<Rightarrow> ip \<Rightarrow> bool" where
  "trusted s a \<equiv> is_trusted_proxy a (trusted_proxy_matchers (trusted_proxy_ips s))"

text \<open>\<open>host\<close> is the peer of the connection, \<open>forwarded\<close> the \<open>X-Forwarded-For\<close> header.\<close>

definition client_ip :: "settings \<Rightarrow> string option \<Rightarrow> string option \<Rightarrow> string option" where
  "client_ip s host forwarded =
     (case parsed_ip host of
        None \<Rightarrow> None
      | Some peer \<Rightarrow>
          if trusted s peer \<and> truthy forwarded then
            (case those (map (\<lambda>h. parsed_ip (Some h)) (py_split CHR '','' (the forwarded))) of
               None \<Rightarrow> Some (ip_str peer)
             | Some chain \<Rightarrow>
                 (case find (\<lambda>h. \<not> trusted s h) (rev (chain @ [peer])) of
                    Some h \<Rightarrow> Some (ip_str h)
                  | None \<Rightarrow> Some (ip_str peer)))
          else Some (ip_str peer))"

section \<open>The error envelope\<close>

text \<open>What escapes a handler; the texts of the messages for people are left out.\<close>

datatype raised =
    Raised_App int error_code jobj
  | Raised_Validation jobj
  | Raised_Http int
  | Raised_Other

record response =
  re_status :: int
  re_headers :: "(string \<times> string) list"
  re_code :: "error_code option"
  re_details :: jobj
  re_request_id :: "string option"

definition raised_of :: "exn \<Rightarrow> raised" where
  "raised_of e = (case e of AppError st c x \<Rightarrow> Raised_App st c x | _ \<Rightarrow> Raised_Other)"

definition status_code_to_error_code :: "int \<Rightarrow> error_code" where
  "status_code_to_error_code n =
     (case map_of [(400, E_VALIDATION_FAILED), (401, E_UNAUTHENTICATED), (403, E_FORBIDDEN), (404, E_NOT_FOUND),
         (405, E_METHOD_NOT_ALLOWED), (409, E_EMAIL_TAKEN), (429, E_RATE_LIMITED), (422, E_VALIDATION_FAILED)] n of
        Some c \<Rightarrow> c | None \<Rightarrow> E_INTERNAL_ERROR)"

definition envelope :: "int \<Rightarrow> error_code \<Rightarrow> jobj \<Rightarrow> string \<Rightarrow> response" where
  "envelope st c x rid = \<lparr>re_status = st, re_headers = [], re_code = Some c, re_details = x,
     re_request_id = (if rid = [] then None else Some rid)\<rparr>"

definition error_response :: "string \<Rightarrow> raised \<Rightarrow> response" where
  "error_response rid r =
     (case r of
        Raised_App st c x \<Rightarrow> envelope st c x rid
      | Raised_Validation x \<Rightarrow> envelope 422 E_VALIDATION_FAILED x rid
      | Raised_Http st \<Rightarrow> envelope st (status_code_to_error_code st) [] rid
      | Raised_Other \<Rightarrow> envelope 500 E_INTERNAL_ERROR [] rid)"

section \<open>The middleware\<close>

definition safe_request_id_char :: "char \<Rightarrow> bool" where
  "safe_request_id_char c \<longleftrightarrow>
     (let n = (of_char c :: nat) in 48 \<le> n \<and> n \<le> 57 \<or> 65 \<le> n \<and> n \<le> 90 \<or> 97 \<le> n \<and> n \<le> 122) \<or>
     c \<in> {CHR ''-'', CHR ''_'', CHR ''.''}"

definition request_id :: "string option \<Rightarrow> uuid \<Rightarrow> string" where
  "request_id incoming fresh =
     (if truthy incoming \<and> length (the incoming) \<le> 64 \<and> list_all safe_request_id_char (the incoming)
      then the incoming else uuid_str fresh)"

definition header :: "string \<Rightarrow> response \<Rightarrow> string option" where
  "header k r = map_option snd (find (\<lambda>(a, v). py_lower a = py_lower k) (re_headers r))"

definition set_header :: "string \<Rightarrow> string \<Rightarrow> response \<Rightarrow> response" where
  "set_header k v r = r\<lparr>re_headers := filter (\<lambda>(a, w). py_lower a \<noteq> py_lower k) (re_headers r) @ [(k, v)]\<rparr>"

definition default_header :: "string \<times> string \<Rightarrow> response \<Rightarrow> response" where
  "default_header kv r =
     (if header (fst kv) r = None then r\<lparr>re_headers := re_headers r @ [kv]\<rparr> else r)"

definition security_headers :: "settings \<Rightarrow> string \<Rightarrow> (string \<times> string) list" where
  "security_headers s report_to =
     [(''X-Content-Type-Options'', ''nosniff''), (''X-Frame-Options'', ''DENY''),
      (''Referrer-Policy'', ''strict-origin-when-cross-origin''),
      (''Permissions-Policy'', ''camera=(), microphone=(), geolocation=(), payment=(), usb=()''),
      (''Content-Security-Policy'',
       ''default-src 'none'; frame-ancestors 'none'; base-uri 'none'; report-uri /api/v1/_csp-report; report-to csp-endpoint''),
      (''Report-To'', report_to), (''Cross-Origin-Opener-Policy'', ''same-origin''),
      (''Cross-Origin-Resource-Policy'', ''same-site'')] @
     (if cookie_secure s \<or> app_env s \<in> {''staging'', ''production''}
      then [(''Strict-Transport-Security'', ''max-age=15552000; includeSubDomains'')] else [])"

definition report_to_value :: "string \<Rightarrow> string" where
  "report_to_value endpoint =
     json_print (JsObj [(''group'', JsStr ''csp-endpoint''), (''max_age'', JsInt 10886400),
       (''endpoints'', JsList [JsObj [(''url'', JsStr endpoint)]])])"

text \<open>
  The stack of \<open>create_app\<close>, outermost first: request id, security headers, forgery check, routers. Starlette turns
  the errors of the routers into replies inside the stack, but an unhandled exception into a reply outside it.
\<close>

definition serve ::
  "crypto \<Rightarrow> settings \<Rightarrow> time \<Rightarrow> uuid \<Rightarrow> string \<Rightarrow> http \<Rightarrow> (string \<Rightarrow> raised + response) \<Rightarrow> response" where
  "serve c s now fresh endpoint h app =
     (let rid = request_id (hx_request_id h) fresh;
          inner = (case csrf_dispatch c s now h of
              Inl e \<Rightarrow> Inl Raised_Other
            | Inr (Reject why) \<Rightarrow> Inr (envelope 403 E_CSRF_FAILED [(''reason'', JStr why)] rid)
            | Inr CallNext \<Rightarrow>
                (case app rid of
                   Inr r \<Rightarrow> Inr r
                 | Inl Raised_Other \<Rightarrow> Inl Raised_Other
                 | Inl x \<Rightarrow> Inr (error_response rid x)))
      in case inner of
           Inl x \<Rightarrow> error_response rid x
         | Inr r \<Rightarrow> set_header ''X-Request-ID'' rid
             (foldl (\<lambda>r kv. default_header kv r) r (security_headers s (report_to_value endpoint))))"
section \<open>Browser reports\<close>

definition MAX_CSP_REPORT_BYTES :: nat where
  "MAX_CSP_REPORT_BYTES = 8 * 1024"

definition content_type_ok :: "string option \<Rightarrow> bool" where
  "content_type_ok ct =
     (py_lower (py_strip (fst (py_split1 CHR '';'' (case ct of None \<Rightarrow> [] | Some t \<Rightarrow> t))))
        \<in> {''application/csp-report'', ''application/json''})"

fun read_chunks :: "bytes \<Rightarrow> bytes list \<Rightarrow> raised + bytes" where
  "read_chunks body [] = Inr body"
| "read_chunks body (c # cs) =
     (if MAX_CSP_REPORT_BYTES < length (body @ c) then Inl (Raised_Http 413) else read_chunks (body @ c) cs)"

definition read_capped_body :: "string option \<Rightarrow> bytes list \<Rightarrow> raised + bytes" where
  "read_capped_body content_length pieces =
     (if truthy content_length
      then (case py_int 10 (the content_length) of
              None \<Rightarrow> Inl (Raised_Http 400)
            | Some n \<Rightarrow> if int MAX_CSP_REPORT_BYTES < n then Inl (Raised_Http 413) else read_chunks [] pieces)
      else read_chunks [] pieces)"

text \<open>
  \<open>loads\<close> is \<open>json.loads\<close> of the decoded bytes; its \<open>ValueError\<close> stands for the two errors the handler catches, the
  \<open>PyError\<close>s (nesting too deep, an integer of too many digits) escape.
\<close>

definition decode_report :: "(bytes \<Rightarrow> exn + jv) \<Rightarrow> bytes \<Rightarrow> raised + jobj" where
  "decode_report loads raw =
     (case loads raw of
        Inr (JObj kvs) \<Rightarrow> Inr kvs
      | Inr _ \<Rightarrow> Inl (Raised_Http 400)
      | Inl (ValueError _) \<Rightarrow> Inl (Raised_Http 400)
      | Inl e \<Rightarrow> Inl (raised_of e))"

definition extract_report :: "jobj \<Rightarrow> jobj" where
  "extract_report payload =
     (case jget ''csp-report'' payload of
        Some (JObj kvs) \<Rightarrow> kvs
      | _ \<Rightarrow> (case jget ''body'' payload of Some (JObj kvs) \<Rightarrow> kvs | _ \<Rightarrow> payload))"

definition report_text :: "jobj \<Rightarrow> string \<Rightarrow> nat \<Rightarrow> string option" where
  "report_text report key m = (case jget key report of Some (JStr t) \<Rightarrow> Some (take m t) | _ \<Rightarrow> None)"

definition report_int :: "jobj \<Rightarrow> string \<Rightarrow> int option" where
  "report_int report key =
     (case jget key report of Some (JInt n) \<Rightarrow> Some n | Some (JStr t) \<Rightarrow> py_int 10 t | _ \<Rightarrow> None)"

definition report_directive :: "jobj \<Rightarrow> string" where
  "report_directive report =
     (let a = report_text report ''violated-directive'' 256; b = report_text report ''effective-directive'' 256
      in if truthy a then the a else if truthy b then the b else ''unknown'')"

text \<open>What PostgreSQL accepts for the columns: 32-bit integers and texts without a zero byte.\<close>

definition int4 :: "int option \<Rightarrow> bool" where
  "int4 n = (case n of None \<Rightarrow> True | Some k \<Rightarrow> - (2 ^ 31) \<le> k \<and> k < 2 ^ 31)"

definition pg_text :: "string option \<Rightarrow> bool" where
  "pg_text t = (case t of None \<Rightarrow> True | Some x \<Rightarrow> CHR 0x00 \<notin> set x)"

definition csp_storable :: "csp_row \<Rightarrow> bool" where
  "csp_storable r \<longleftrightarrow> int4 (cr_line_number r) \<and> int4 (cr_column_number r) \<and> pg_text (cr_document_uri r) \<and>
     pg_text (cr_violated_directive r) \<and> pg_text (cr_blocked_uri r) \<and> pg_text (cr_source_file r) \<and>
     pg_text (cr_user_agent r) \<and> pg_text (cr_reporter_ip r)"

definition csp_report_row :: "request \<Rightarrow> user_row option \<Rightarrow> uuid \<Rightarrow> time \<Rightarrow> jobj \<Rightarrow> csp_row" where
  "csp_report_row rq u fresh now report =
     \<lparr>cr_id = fresh, cr_user_id = map_option u_id u, cr_received_at = now,
      cr_document_uri = report_text report ''document-uri'' 1024, cr_violated_directive = Some (report_directive report),
      cr_blocked_uri = report_text report ''blocked-uri'' 512, cr_source_file = report_text report ''source-file'' 512,
      cr_line_number = report_int report ''line-number'', cr_column_number = report_int report ''column-number'',
      cr_user_agent = map_option (take 512) (rq_user_agent rq), cr_reporter_ip = map_option (take 64) (rq_client_ip rq)\<rparr>"

definition create_csp_report ::
  "rsa \<Rightarrow> settings \<Rightarrow> (bytes \<Rightarrow> exn + jv) \<Rightarrow> exn + unit \<Rightarrow> http \<Rightarrow> request \<Rightarrow> string option \<Rightarrow> string option \<Rightarrow> bytes list \<Rightarrow>
   uuid \<Rightarrow> time \<Rightarrow> db \<Rightarrow> (raised + int) \<times> db" where
  "create_csp_report rsa s loads rl h rq content_type content_length pieces fresh now d =
     (if \<not> content_type_ok content_type then (Inl (Raised_Http 415), d)
      else case rl of
        Inl e \<Rightarrow> (Inl (raised_of e), d)
      | Inr _ \<Rightarrow>
     (case read_capped_body content_length pieces of
        Inl e \<Rightarrow> (Inl e, d)
      | Inr raw \<Rightarrow>
     (case decode_report loads raw of
        Inl e \<Rightarrow> (Inl e, d)
      | Inr payload \<Rightarrow>
          let row = csp_report_row rq (get_optional_current_user rsa s now h d) fresh now (extract_report payload)
          in if csp_storable row then (Inr 204, d\<lparr>csp_reports := csp_reports d @ [row]\<rparr>)
             else (Inl Raised_Other, d))))"

section \<open>The pilot form\<close>

record pilot_request =
  pi_full_name :: string
  pi_email :: string
  pi_role :: string
  pi_organization :: "string option"
  pi_message :: "string option"

definition PILOT_ROLES :: "string list" where
  "PILOT_ROLES = [''head_coach'', ''assistant_coach'', ''trainer'', ''program_director'', ''other'']"

definition at_most :: "nat \<Rightarrow> string option \<Rightarrow> bool" where
  "at_most m t = (case t of None \<Rightarrow> True | Some x \<Rightarrow> length x \<le> m)"

text \<open>The lengths are checked before the blanks are stripped; \<open>email_ok\<close> is the check of \<open>EmailStr\<close>.\<close>

definition pilot_request_ok :: "(string \<Rightarrow> bool) \<Rightarrow> pilot_request \<Rightarrow> bool" where
  "pilot_request_ok email_ok p \<longleftrightarrow> 1 \<le> length (pi_full_name p) \<and> length (pi_full_name p) \<le> 120 \<and> email_ok (pi_email p) \<and>
     pi_role p \<in> set PILOT_ROLES \<and> at_most 160 (pi_organization p) \<and> at_most 2000 (pi_message p)"

definition stripped :: "string option \<Rightarrow> jv" where
  "stripped t = (case t of None \<Rightarrow> JNull | Some x \<Rightarrow> if py_strip x = [] then JNull else JStr (py_strip x))"

definition submit_pilot_interest :: "exn + unit \<Rightarrow> request \<Rightarrow> pilot_request \<Rightarrow> db \<Rightarrow> (exn + string) \<times> db" where
  "submit_pilot_interest rl rq p d =
     (case rl of
        Inl (AppError st c x) \<Rightarrow>
          (Inl (AppError st c x),
           if st = 429 then write_audit_event rq A_PILOT_INTEREST_REJECTED None None None None None
             (Some [(''reason'', JStr ''rate_limited'')]) d else d)
      | Inl e \<Rightarrow> (Inl e, d)
      | Inr _ \<Rightarrow>
          (Inr ''received'',
           write_audit_event rq A_PILOT_INTEREST_RECEIVED None (Some (pi_email p)) (Some ''pilot_interest'') None None
             (Some [(''full_name'', stripped (Some (pi_full_name p))), (''role'', JStr (pi_role p)),
               (''organization'', stripped (pi_organization p)), (''message'', stripped (pi_message p))]) d))"

section \<open>Probes\<close>

record readiness_report =
  rd_status :: string
  rd_database :: string
  rd_redis :: string
  rd_storage :: string

definition readiness :: "settings \<Rightarrow> bool \<Rightarrow> string \<Rightarrow> string \<Rightarrow> int \<times> readiness_report" where
  "readiness s database_answers redis_check storage_check =
     (let database = (if database_answers then ''ok'' else ''error'');
          redis = (if truthy (redis_url s) then redis_check else ''not_configured'');
          storage = (if storage_configured s then storage_check else ''not_configured'');
          failing = list_ex (\<lambda>x. x = ''error'' \<or> x = ''timeout'') [database, redis, storage]
      in (if failing then 503 else 200,
          \<lparr>rd_status = (if failing then ''not_ready'' else ''ready''), rd_database = database, rd_redis = redis,
           rd_storage = storage\<rparr>))"

text \<open>\<open>secrets.compare_digest\<close> refuses texts outside ASCII with a \<open>TypeError\<close>.\<close>

definition metrics ::
  "bool \<Rightarrow> string option \<Rightarrow> request \<Rightarrow> string option \<Rightarrow> db \<Rightarrow> (raised + unit) \<times> db" where
  "metrics enabled token rq presented d =
     (if \<not> enabled then (Inl (Raised_Http 404), d)
      else
        let expected = (case token of None \<Rightarrow> [] | Some t \<Rightarrow> t); presented = (case presented of None \<Rightarrow> [] | Some t \<Rightarrow> t);
            ascii = list_all (\<lambda>c. (of_char c :: nat) < 128) (presented @ expected)
        in if expected \<noteq> [] \<and> \<not> ascii then (Inl Raised_Other, d)
           else if expected = [] \<or> presented \<noteq> expected
           then (Inl (Raised_Http 403),
             write_audit_event rq A_METRICS_SCRAPE_REJECTED None None (Some ''metrics'') None None
               (Some [(''reason'', JStr (if expected = [] then ''token_not_configured'' else ''invalid_token'')),
                 (''has_presented_token'', JBool (presented \<noteq> []))]) d)
           else (Inr (), d))"

section \<open>Properties of the edge\<close>

lemma py_split_join_at: "py_split sep (p @ sep # t) = py_split sep p @ py_split sep t"
proof (induction p)
  case (Cons c p)
  show ?case
  proof (cases "c = sep")
    case False
    then show ?thesis using Cons py_split_nonempty[of sep p] by (cases "py_split sep p") auto
  qed (use Cons in simp)
qed simp

lemma those_append: "those (xs @ ys) = (case those xs of None \<Rightarrow> None | Some a \<Rightarrow> map_option (\<lambda>b. a @ b) (those ys))"
  by (cases "those ys"; induction xs) (auto split: option.splits)

lemma those_Some: "those (map Some xs) = Some xs"
  by (induction xs) auto

lemma those_None: "those xs = None \<longleftrightarrow> None \<in> set xs"
  by (induction xs) (auto split: option.splits)

lemma find_first: "\<not> P a \<Longrightarrow> \<forall>t \<in> set ts. P t \<Longrightarrow> P p \<Longrightarrow> find (\<lambda>h. \<not> P h) (rev (xs @ a # ts @ [p])) = Some a"
  by (induction ts rule: rev_induct) auto


definition proxied_settings :: settings where
  "proxied_settings = default_settings\<lparr>trusted_proxy_ips := [''10.0.0.0/8'']\<rparr>"

lemmas ip_text =
  ip_address_def parse_v4_def parse_octet_def is_digit_def digit_val_def in_base_def py_strip_def strip_by_def py_isspace_def

lemma proxied_addresses:
  "parsed_ip (Some ''10.0.0.7'') = Some (V4 0x0A000007)" "parsed_ip (Some ''1.1.1.1'') \<noteq> None" "parsed_ip (Some ''x'') = None"
  "map (\<lambda>h. parsed_ip (Some h)) (py_split CHR '','' ''9.8.7.6, 10.0.0.9'') = map Some [V4 0x09080706, V4 0x0A000009]"
  by (simp_all add: parsed_ip_def ip_text parse_v6_def v6_parts_def)

lemma proxied_matchers: "trusted_proxy_matchers (trusted_proxy_ips proxied_settings) = ([], [(V4 0x0A000000, 8)])"
proof -
  have "ip_network ''10.0.0.0/8'' = Some (V4 0x0A000000, 8)"
    by (simp add: ip_network_def ip_text prefix_length_def py_int_def Let_def INT_MAX_STR_DIGITS_def)
  moreover have "ip_address ''10.0.0.0/8'' = None" by (simp add: ip_text parse_v6_def)
  ultimately show ?thesis by (simp add: trusted_proxy_matchers_def proxied_settings_def map_filter_simps)
qed

lemma proxied_trust:
  "trusted proxied_settings (V4 0x0A000007)" "\<forall>t \<in> set [V4 0x0A000009]. trusted proxied_settings t"
  "\<not> trusted proxied_settings (V4 0x09080706)"
  by (simp_all add: proxied_matchers is_trusted_proxy_def in_network_def mask_eq_exp_minus_1)

lemma proxied_text: "ip_str (V4 0x09080706) = ''9.8.7.6''" "ip_str (V4 0x0A000007) = ''10.0.0.7''"
  by (simp_all add: ip_str_def join_by_def nat_str.simps) code_simp+


text \<open>Whoever sends an entry that is no address is counted as the proxy, whose bucket of attempts all others share.\<close>

lemma malformed_hop_counts_for_proxy:
  "client_ip proxied_settings (Some ''10.0.0.7'') (Some ''x,9.8.7.6'') = Some ''10.0.0.7''"
  using proxied_addresses(1,3) proxied_trust(1) proxied_text(2) by (simp add: client_ip_def)

lemma read_chunks_length: "length body \<le> MAX_CSP_REPORT_BYTES \<Longrightarrow> read_chunks body cs = Inr raw \<Longrightarrow> length raw \<le> MAX_CSP_REPORT_BYTES"
  by (induction body cs rule: read_chunks.induct) (auto split: if_splits)

lemma read_capped_length: "read_capped_body l cs = Inr raw \<Longrightarrow> length raw \<le> MAX_CSP_REPORT_BYTES"
  by (auto simp: read_capped_body_def intro: read_chunks_length[of "[]"] split: if_splits option.splits)

lemma report_text_short: "report_text r k m = Some t \<Longrightarrow> length t \<le> m"
  by (auto simp: report_text_def split: option.splits jv.splits)

lemma report_directive_short: "length (report_directive r) \<le> 256"
  by (auto simp: report_directive_def Let_def truthy_def dest: report_text_short split: option.splits)

definition csp_fits :: "csp_row \<Rightarrow> bool" where
  "csp_fits r \<longleftrightarrow> csp_storable r \<and> at_most 1024 (cr_document_uri r) \<and> at_most 256 (cr_violated_directive r) \<and>
     at_most 512 (cr_blocked_uri r) \<and> at_most 512 (cr_source_file r) \<and> at_most 512 (cr_user_agent r) \<and> at_most 64 (cr_reporter_ip r)"

lemma at_most_text: "at_most m (report_text r k m)" "at_most m (map_option (take m) t)"
  by (auto simp: at_most_def dest: report_text_short split: option.splits)

lemma report_row_fits: "csp_storable (csp_report_row rq u i t r) \<Longrightarrow> csp_fits (csp_report_row rq u i t r)"
  by (simp add: csp_fits_def csp_report_row_def at_most_text) (simp add: at_most_def report_directive_short)

text \<open>
  The open endpoint for browser reports stores nothing unbounded: an answer 204 means one new row whose fields fit
  their columns, from a body of at most 8192 bytes that the limiter let through, and any other answer leaves the
  database as it was.
\<close>

theorem csp_reports_bounded:
  assumes "create_csp_report rsa s loads rl h rq content_type content_length pieces fresh now d = (x, d')"
  shows "if x = Inr 204
    then rl = Inr () \<and> (\<exists>raw row. read_capped_body content_length pieces = Inr raw \<and> length raw \<le> 8192 \<and>
      d' = d\<lparr>csp_reports := csp_reports d @ [row]\<rparr> \<and> csp_fits row)
    else d' = d"
proof (cases "content_type_ok content_type \<and> rl = Inr ()")
  case ct: True
  show ?thesis
  proof (cases "read_capped_body content_length pieces")
    case Inl
    with assms ct show ?thesis by (auto simp: create_csp_report_def)
  next
    case raw: (Inr raw)
    show ?thesis
    proof (cases "decode_report loads raw")
      case Inl
      with assms ct raw show ?thesis by (auto simp: create_csp_report_def)
    next
      case (Inr payload)
      let ?row = "csp_report_row rq (get_optional_current_user rsa s now h d) fresh now (extract_report payload)"
      have "length raw \<le> 8192" using read_capped_length[OF raw] by (simp add: MAX_CSP_REPORT_BYTES_def)
      then show ?thesis using assms ct raw Inr report_row_fits[of rq "get_optional_current_user rsa s now h d" fresh now]
        by (cases "csp_storable ?row") (auto simp: create_csp_report_def Let_def)
    qed
  qed
next
  case False
  with assms show ?thesis by (cases "content_type_ok content_type"; cases rl) (auto simp: create_csp_report_def)
qed

definition plain_report :: "int \<Rightarrow> bytes \<Rightarrow> exn + jv" where
  "plain_report n raw = Inr (JObj [(''violated-directive'', JStr ''img-src''), (''line-number'', JInt n)])"

lemma plain_report_post:
  "create_csp_report rsa s (plain_report n) (Inr ()) h sample_request (Some ''application/json'') None [] 9 0 sample_db =
     (let row = csp_report_row sample_request (get_optional_current_user rsa s 0 h sample_db) 9 0
         [(''violated-directive'', JStr ''img-src''), (''line-number'', JInt n)]
      in if - (2 ^ 31) \<le> n \<and> n < 2 ^ 31 then (Inr 204, sample_db\<lparr>csp_reports := csp_reports sample_db @ [row]\<rparr>)
         else (Inl Raised_Other, sample_db))"
proof -
  have ct: "content_type_ok (Some ''application/json'')" by code_simp
  show ?thesis
    by (simp add: create_csp_report_def ct read_capped_body_def decode_report_def plain_report_def extract_report_def Let_def
        csp_storable_def csp_report_row_def report_text_def report_int_def report_directive_def int4_def pg_text_def
        sample_request_def)
qed

lemma csp_reports_bounded_witness:
  "csp_reports (snd (create_csp_report toy_rsa default_settings (plain_report 7) (Inr ()) toy_http sample_request (Some ''application/json'') None [] 9 0 sample_db)) \<noteq> []"
  using csp_reports_bounded[OF prod.collapse[symmetric], of toy_rsa default_settings "plain_report 7" "Inr ()" toy_http sample_request
      "Some ''application/json''" None "[]" 9 0 sample_db]
  by (auto simp: plain_report_post Let_def)

text \<open>A line number beyond 32 bits, which any client can send, ends in an internal error.\<close>

lemma large_line_number_crashes:
  "create_csp_report rsa s (plain_report 2147483648) (Inr ()) h sample_request (Some ''application/json'') None [] 9 0 sample_db =
     (Inl Raised_Other, sample_db)"
  by (simp add: plain_report_post Let_def)

section \<open>Replies carry their labels\<close>

lemma safe_uuid_char:
  assumes "c \<in> set (uuid_str n)"
  shows "safe_request_id_char c"
proof (cases "of_char c = (45::nat)")
  case True
  then have "c = char_of (45::nat)" by (metis char_of_char)
  also have "\<dots> = CHR ''-''" by code_simp
  finally have "c = CHR ''-''" .
  then show ?thesis by (simp add: safe_request_id_char_def)
next
  case False
  then show ?thesis using set_uuid_str[OF assms] by (auto simp: safe_request_id_char_def Let_def)
qed

lemma request_id_safe: "length (request_id i fresh) \<le> 64 \<and> list_all safe_request_id_char (request_id i fresh)"
proof -
  have "length (uuid_str fresh) = 36" by (simp add: uuid_str_def Let_def)
  then show ?thesis using safe_uuid_char by (simp add: request_id_def list_all_iff)
qed

lemma find_snoc: "\<forall>x \<in> set xs. \<not> P x \<Longrightarrow> find P (xs @ [y]) = (if P y then Some y else None)"
  by (induction xs) auto

lemma find_append_Some: "find P xs = Some x \<Longrightarrow> find P (xs @ ys) = Some x"
  by (induction xs) (auto split: if_splits)

lemma header_set: "header k (set_header k v r) = Some v"
  by (simp add: header_def set_header_def find_snoc case_prod_beta)

lemma header_default: "header (fst kv) (default_header kv r) \<noteq> None"
  by (cases kv) (auto simp: header_def default_header_def find_snoc find_None_iff case_prod_beta)

lemma header_default_keeps: "header k r \<noteq> None \<Longrightarrow> header k (default_header kv r) \<noteq> None"
  by (auto simp: header_def default_header_def dest: find_append_Some)

lemma header_defaults:
  "k \<in> fst ` set kvs \<or> header k r \<noteq> None \<Longrightarrow> header k (foldl (\<lambda>r kv. default_header kv r) r kvs) \<noteq> None"
proof (induction kvs arbitrary: r)
  case (Cons kv kvs)
  then show ?case using header_default[of kv r] header_default_keeps[of k r kv] by auto
qed simp

lemma header_other: "py_lower k \<noteq> py_lower k' \<Longrightarrow> header k (set_header k' v r) = header k r"
proof -
  assume "py_lower k \<noteq> py_lower k'"
  then have "find (\<lambda>(a, w). py_lower a = py_lower k) (filter (\<lambda>(a, w). py_lower a \<noteq> py_lower k') xs @ [(k', v)]) =
      find (\<lambda>(a, w). py_lower a = py_lower k) xs" for xs :: "(string \<times> string) list"
    by (induction xs) auto
  then show ?thesis by (simp add: header_def set_header_def)
qed

text \<open>
  Every reply of the API but that to an unhandled exception carries the request's id, which is safe to log whatever
  the client sent, and each security header; a request refused by the forgery check is answered 403 and reaches no
  handler.
\<close>

theorem replies_labelled:
  assumes "csrf_dispatch c s now h = Inr v" and "app (request_id (hx_request_id h) fresh) \<noteq> Inl Raised_Other"
    and "r = serve c s now fresh endpoint h app" and "k \<in> fst ` set (security_headers s (report_to_value endpoint))"
  shows "\<exists>rid. header ''X-Request-ID'' r = Some rid \<and> length rid \<le> 64 \<and> list_all safe_request_id_char rid \<and>
    header k r \<noteq> None \<and> (\<forall>why. v = Reject why \<longrightarrow> re_status r = 403 \<and> (\<forall>app'. serve c s now fresh endpoint h app' = r))"
proof -
  let ?rid = "request_id (hx_request_id h) fresh"
  let ?add = "foldl (\<lambda>r kv. default_header kv r)"
  obtain q where q: "r = set_header ''X-Request-ID'' ?rid (?add q (security_headers s (report_to_value endpoint)))"
    using assms(1-3) by (cases v; cases "app ?rid") (auto simp: serve_def Let_def split: raised.splits)
  have "py_lower k \<noteq> py_lower ''X-Request-ID''"
    using assms(4) by (auto simp: security_headers_def py_lower_def to_lower_def split: if_splits)
  then have k: "header k r \<noteq> None"
    unfolding q using header_defaults[of k "security_headers s (report_to_value endpoint)" q] assms(4) by (simp add: header_other)
  have status: "re_status (?add x kvs) = re_status x" for x kvs
    by (induction kvs arbitrary: x) (auto simp: default_header_def)
  have "re_status r = 403 \<and> (\<forall>app'. serve c s now fresh endpoint h app' = r)" if "v = Reject why" for why
    using assms(1,3) that by (simp add: serve_def Let_def set_header_def status envelope_def)
  then show ?thesis using q k header_set request_id_safe by blast
qed

definition probe_http :: http where
  "probe_http = toy_http\<lparr>hx_method := ''GET'', hx_path := ''/health'', hx_request_id := Some ''<script>''\<rparr>"

definition health :: "string \<Rightarrow> raised + response" where
  "health rid = Inr \<lparr>re_status = 200, re_headers = [], re_code = None, re_details = [], re_request_id = None\<rparr>"

lemma probe_passes: "csrf_dispatch toy_crypto default_settings 0 probe_http = Inr CallNext"
proof -
  have "py_upper ''GET'' \<notin> set (map py_upper [''POST'', ''PUT'', ''PATCH'', ''DELETE''])" by code_simp
  then show ?thesis by (simp add: csrf_dispatch_def probe_http_def default_settings_def)
qed

lemma replies_labelled_witness:
  "header ''X-Frame-Options'' (serve toy_crypto default_settings 0 7 ''https://api.example'' probe_http health) \<noteq> None"
  using replies_labelled[OF probe_passes _ refl, of health 7 "''X-Frame-Options''" "''https://api.example''"]
  by (auto simp: health_def security_headers_def)

text \<open>The reply to an unhandled exception is made outside the stack and carries neither.\<close>

lemma unhandled_reply_bare:
  "re_headers (serve toy_crypto default_settings 0 7 ''https://api.example'' probe_http (\<lambda>rid. Inl Raised_Other)) = []"
  by (simp add: serve_def probe_passes error_response_def envelope_def Let_def)

end
