(* ===== verification/Tenancy.thy ===== *)
theory Tenancy
  imports Accounts Cleanup
begin

text \<open>
  Tenant isolation in the database: the session variables the API and the worker bind (\<open>tenant.py\<close> of both) and the
  row-level policies, grants and visibility functions that the migrations leave in force, with what PostgreSQL makes of
  them: a statement that names columns of a row needs the SELECT policy too, on the row it finds and on the row it
  leaves. A session variable that is unset or empty is NULL, and a comparison with NULL does not hold. The tables
  \<open>team_visibility\<close> and \<open>billing_account_visibility\<close>, which triggers keep equal to the \<open>deleted_at\<close> columns, are read
  from those columns as they were when the statement began.
\<close>

section \<open>Session variables\<close>

record guc =
  gu_team :: "uuid option"
  gu_user :: "uuid option"
  gu_role :: "string option"
  gu_join :: "string option"
  gu_account :: "uuid option"
  gu_include_deleted :: bool
  gu_email_hash :: "string option"
  gu_reset_hash :: "string option"

text \<open>The variables at the start of a transaction.\<close>

definition no_guc :: guc where
  "no_guc = \<lparr>gu_team = None, gu_user = None, gu_role = None, gu_join = None, gu_account = None,
     gu_include_deleted = False, gu_email_hash = None, gu_reset_hash = None\<rparr>"

definition set_user_context :: "uuid \<Rightarrow> guc \<Rightarrow> guc" where
  "set_user_context i g = g\<lparr>gu_user := Some i\<rparr>"

definition set_user_role_context :: "user_role \<Rightarrow> guc \<Rightarrow> guc" where
  "set_user_role_context r g = g\<lparr>gu_role := Some (user_role_value r)\<rparr>"

definition set_include_deleted_context :: "bool \<Rightarrow> guc \<Rightarrow> guc" where
  "set_include_deleted_context b g = g\<lparr>gu_include_deleted := b\<rparr>"

definition set_join_invite_context :: "string \<Rightarrow> guc \<Rightarrow> guc" where
  "set_join_invite_context c g = g\<lparr>gu_join := (if c = [] then None else Some c)\<rparr>"

definition clear_join_invite_context :: "guc \<Rightarrow> guc" where
  "clear_join_invite_context g = g\<lparr>gu_join := None\<rparr>"

definition set_tenant_context :: "uuid \<Rightarrow> guc \<Rightarrow> guc" where
  "set_tenant_context i g = g\<lparr>gu_team := Some i\<rparr>"

definition clear_tenant_context :: "guc \<Rightarrow> guc" where
  "clear_tenant_context g = g\<lparr>gu_team := None\<rparr>"

definition bind_authenticated_context :: "uuid \<Rightarrow> user_role \<Rightarrow> uuid option \<Rightarrow> guc \<Rightarrow> guc" where
  "bind_authenticated_context u r team g =
     (let g = set_user_role_context r (set_user_context u g)
      in case team of None \<Rightarrow> g | Some i \<Rightarrow> set_tenant_context i g)"

definition set_billing_account_context :: "uuid option \<Rightarrow> guc \<Rightarrow> guc" where
  "set_billing_account_context i g = g\<lparr>gu_account := i\<rparr>"

definition set_worker_operator_role :: "guc \<Rightarrow> guc" where
  "set_worker_operator_role g = set_user_role_context UR_ADMIN g"

definition set_worker_context :: "uuid \<Rightarrow> guc \<Rightarrow> guc" where
  "set_worker_context i g = (set_worker_operator_role g)\<lparr>gu_team := Some i\<rparr>"

definition clear_worker_context :: "guc \<Rightarrow> guc" where
  "clear_worker_context g = g\<lparr>gu_team := None, gu_role := None\<rparr>"

section \<open>Policies\<close>

definition admin_role :: "guc \<Rightarrow> bool" where
  "admin_role g \<longleftrightarrow> gu_role g = Some ''admin''"

definition include_deleted :: "guc \<Rightarrow> bool" where
  "include_deleted g \<longleftrightarrow> admin_role g \<and> gu_include_deleted g"

definition team_visible :: "guc \<Rightarrow> db \<Rightarrow> uuid \<Rightarrow> bool" where
  "team_visible g d i =
     (case by_key t_id i (teams d) of None \<Rightarrow> False | Some t \<Rightarrow> t_deleted_at t = None \<or> include_deleted g)"

definition billing_account_visible :: "guc \<Rightarrow> db \<Rightarrow> uuid \<Rightarrow> bool" where
  "billing_account_visible g d i =
     (case by_key ba_id i (accounts d) of None \<Rightarrow> False | Some a \<Rightarrow> ba_deleted_at a = None \<or> include_deleted g)"

text \<open>Every UPDATE policy uses one condition for the row it finds and the row it leaves.\<close>

record 'r policy =
  pol_select :: "guc \<Rightarrow> db \<Rightarrow> 'r \<Rightarrow> bool"
  pol_insert :: "guc \<Rightarrow> db \<Rightarrow> 'r \<Rightarrow> bool"
  pol_update :: "guc \<Rightarrow> db \<Rightarrow> 'r \<Rightarrow> bool"
  pol_delete :: "guc \<Rightarrow> db \<Rightarrow> 'r \<Rightarrow> bool"

definition team_write :: "('r \<Rightarrow> uuid) \<Rightarrow> guc \<Rightarrow> db \<Rightarrow> 'r \<Rightarrow> bool" where
  "team_write key g d r \<longleftrightarrow> team_visible g d (key r) \<and> gu_team g = Some (key r)"

definition memberships_policy :: "membership_row policy" where
  "memberships_policy = \<lparr>pol_select = \<lambda>g d m. team_visible g d (m_team_id m) \<and>
       (admin_role g \<or> gu_team g = Some (m_team_id m) \<or> gu_user g = Some (m_user_id m)),
     pol_insert = team_write m_team_id, pol_update = team_write m_team_id, pol_delete = team_write m_team_id\<rparr>"

text \<open>The subquery on \<open>team_memberships\<close> sees that table through its own policy.\<close>

definition active_member :: "guc \<Rightarrow> db \<Rightarrow> uuid \<Rightarrow> bool" where
  "active_member g d i = list_ex (\<lambda>m. pol_select memberships_policy g d m \<and> m_team_id m = i \<and>
     gu_user g = Some (m_user_id m) \<and> m_is_active m) (memberships d)"

definition teams_policy :: "team_row policy" where
  "teams_policy = \<lparr>pol_select = \<lambda>g d t. (t_deleted_at t = None \<or> include_deleted g) \<and>
       (admin_role g \<or> gu_team g = Some (t_id t) \<or> gu_join g = Some (t_invite_code t) \<or> active_member g d (t_id t)),
     pol_insert = \<lambda>g d t. gu_team g = Some (t_id t), pol_update = team_write t_id, pol_delete = team_write t_id\<rparr>"

definition invites_policy :: "invite_row policy" where
  "invites_policy = \<lparr>pol_select = \<lambda>g d i. team_visible g d (i_team_id i) \<and>
       (admin_role g \<or> gu_team g = Some (i_team_id i) \<or> gu_join g = Some (i_invite_code i)),
     pol_insert = team_write i_team_id, pol_update = team_write i_team_id, pol_delete = team_write i_team_id\<rparr>"

text \<open>
  The template of the tables of a team: games, videos and processing jobs with the clause for administrators, privacy
  consents and the analysis tables without it.
\<close>

definition team_table_policy :: "bool \<Rightarrow> ('r \<Rightarrow> uuid) \<Rightarrow> 'r policy" where
  "team_table_policy include_admin key = \<lparr>pol_select = \<lambda>g d r. team_visible g d (key r) \<and>
       (include_admin \<and> admin_role g \<or> gu_team g = Some (key r) \<or> active_member g d (key r)),
     pol_insert = team_write key, pol_update = team_write key, pol_delete = team_write key\<rparr>"

definition audit_logs_policy :: "audit_row policy" where
  "audit_logs_policy =
     (let own = (\<lambda>g a. gu_user g \<noteq> None \<and> au_actor_user_id a = gu_user g);
          here = (\<lambda>g a. gu_team g \<noteq> None \<and> au_team_id a = gu_team g)
      in \<lparr>pol_select = \<lambda>g d a. (case au_team_id a of None \<Rightarrow> True
            | Some i \<Rightarrow> team_visible g d i \<and> (admin_role g \<or> here g a \<or> own g a)),
          pol_insert = \<lambda>g d a. au_team_id a = None \<or> here g a \<or> own g a,
          pol_update = \<lambda>g d a. False, pol_delete = \<lambda>g d a. False\<rparr>)"

definition billing_accounts_policy :: "account_row policy" where
  "billing_accounts_policy =
     (let live = (\<lambda>g a. ba_deleted_at a = None \<or> include_deleted g);
          mine = (\<lambda>g a. admin_role g \<or> gu_account g = Some (ba_id a))
      in \<lparr>pol_select = \<lambda>g d a. live g a \<and> (mine g a \<or> gu_user g \<noteq> None \<and> ba_owner_user_id a = gu_user g),
          pol_insert = \<lambda>g d a. mine g a, pol_update = \<lambda>g d a. live g a \<and> mine g a, pol_delete = \<lambda>g d a. live g a \<and> mine g a\<rparr>)"

text \<open>A policy FOR ALL is one more way to satisfy each command.\<close>

definition account_team_links_policy :: "link_row policy" where
  "account_team_links_policy =
     (let live = (\<lambda>g d l. billing_account_visible g d (l_billing_account_id l) \<and> team_visible g d (l_team_id l));
          w = (\<lambda>g d l. live g d l \<and> (admin_role g \<or>
            gu_account g = Some (l_billing_account_id l) \<and> gu_team g = Some (l_team_id l)))
      in \<lparr>pol_select = \<lambda>g d l. live g d l \<and>
            (admin_role g \<or> gu_account g = Some (l_billing_account_id l) \<or> gu_team g = Some (l_team_id l)) \<or> w g d l,
          pol_insert = w, pol_update = w, pol_delete = w\<rparr>)"

definition subscriptions_policy :: "subscription_row policy" where
  "subscriptions_policy =
     (let w = (\<lambda>g d s. billing_account_visible g d (s_billing_account_id s) \<and>
        (admin_role g \<or> gu_account g = Some (s_billing_account_id s)))
      in \<lparr>pol_select = w, pol_insert = w, pol_update = w, pol_delete = w\<rparr>)"

definition usage_events_policy :: "usage_row policy" where
  "usage_events_policy =
     (let w = (\<lambda>g d e. billing_account_visible g d (ue_billing_account_id e) \<and>
        (case ue_team_id e of None \<Rightarrow> True | Some i \<Rightarrow> team_visible g d i) \<and>
        (admin_role g \<or> gu_account g = Some (ue_billing_account_id e)))
      in \<lparr>pol_select = w, pol_insert = w, pol_update = w, pol_delete = w\<rparr>)"

definition email_tokens_policy :: "email_token_row policy" where
  "email_tokens_policy =
     (let w = (\<lambda>g d t. gu_user g = Some (ev_user_id t) \<or> gu_email_hash g = Some (ev_token_hash t))
      in \<lparr>pol_select = w, pol_insert = \<lambda>g d t. gu_user g = Some (ev_user_id t), pol_update = w,
          pol_delete = \<lambda>g d t. admin_role g\<rparr>)"

definition reset_tokens_policy :: "reset_token_row policy" where
  "reset_tokens_policy =
     (let w = (\<lambda>g d t. gu_user g = Some (pr_user_id t) \<or> gu_reset_hash g = Some (pr_token_hash t))
      in \<lparr>pol_select = \<lambda>g d t. w g d t \<or> admin_role g, pol_insert = \<lambda>g d t. gu_user g = Some (pr_user_id t),
          pol_update = w, pol_delete = \<lambda>g d t. admin_role g\<rparr>)"

definition mfa_policy :: "('r \<Rightarrow> uuid) \<Rightarrow> 'r policy" where
  "mfa_policy key =
     (let w = (\<lambda>g d r. admin_role g \<or> gu_user g = Some (key r))
      in \<lparr>pol_select = w, pol_insert = w, pol_update = w, pol_delete = w\<rparr>)"

text \<open>What the runtime role \<open>nextballup_app\<close> may do to a table at all.\<close>

datatype privilege = SELECT | INSERT | UPDATE | DELETE

definition APPEND_ONLY_TABLES :: "string list" where
  "APPEND_ONLY_TABLES = [''audit_logs'', ''csp_reports'', ''usage_events'']"

definition app_role_may :: "privilege \<Rightarrow> string \<Rightarrow> bool" where
  "app_role_may p table \<longleftrightarrow> table \<notin> {''team_visibility'', ''billing_account_visibility''} \<and>
     \<not> (p \<in> {UPDATE, DELETE} \<and> table \<in> set APPEND_ONLY_TABLES)"

section \<open>Statements under the policies\<close>

definition RLS_VIOLATION :: exn where
  "RLS_VIOLATION = PyError ''new row violates row-level security policy''"

definition found :: "'r policy \<Rightarrow> (guc \<Rightarrow> db \<Rightarrow> 'r \<Rightarrow> bool) \<Rightarrow> guc \<Rightarrow> db \<Rightarrow> ('r \<Rightarrow> bool) \<Rightarrow> 'r \<Rightarrow> bool" where
  "found P kind g d w r \<longleftrightarrow> w r \<and> pol_select P g d r \<and> kind g d r"

definition rls_select :: "'r policy \<Rightarrow> guc \<Rightarrow> db \<Rightarrow> ('r \<Rightarrow> bool) \<Rightarrow> 'r list \<Rightarrow> 'r list" where
  "rls_select P g d w t = filter (\<lambda>r. w r \<and> pol_select P g d r) t"

definition rls_insert :: "'r policy \<Rightarrow> guc \<Rightarrow> db \<Rightarrow> bool \<Rightarrow> 'r \<Rightarrow> 'r list \<Rightarrow> exn + 'r list" where
  "rls_insert P g d returning r t =
     (if pol_insert P g d r \<and> (returning \<longrightarrow> pol_select P g d r) then Inr (t @ [r]) else Inl RLS_VIOLATION)"

definition rls_update :: "'r policy \<Rightarrow> guc \<Rightarrow> db \<Rightarrow> ('r \<Rightarrow> bool) \<Rightarrow> ('r \<Rightarrow> 'r) \<Rightarrow> 'r list \<Rightarrow> exn + 'r list \<times> 'r option" where
  "rls_update P g d w f t =
     (if list_ex (\<lambda>r. found P (pol_update P) g d w r \<and> \<not> (pol_update P g d (f r) \<and> pol_select P g d (f r))) t
      then Inl RLS_VIOLATION else Inr (update_returning (found P (pol_update P) g d w) f t))"

definition rls_delete :: "'r policy \<Rightarrow> guc \<Rightarrow> db \<Rightarrow> ('r \<Rightarrow> bool) \<Rightarrow> 'r list \<Rightarrow> 'r list" where
  "rls_delete P g d w t = filter (\<lambda>r. \<not> found P (pol_delete P) g d w r) t"

text \<open>A change of a loaded object is flushed as an UPDATE by primary key that must find its row.\<close>

definition orm_update :: "'r policy \<Rightarrow> guc \<Rightarrow> db \<Rightarrow> ('r \<Rightarrow> bool) \<Rightarrow> ('r \<Rightarrow> 'r) \<Rightarrow> 'r list \<Rightarrow> exn + 'r list" where
  "orm_update P g d w f t =
     (case rls_update P g d w f t of
        Inl e \<Rightarrow> Inl e
      | Inr (t', None) \<Rightarrow> Inl (PyError ''StaleDataError'')
      | Inr (t', Some r) \<Rightarrow> Inr t')"

section \<open>Isolation\<close>

definition team_live :: "db \<Rightarrow> uuid \<Rightarrow> bool" where
  "team_live d i \<longleftrightarrow> (\<exists>t. by_key t_id i (teams d) = Some t \<and> t_deleted_at t = None)"

definition belongs :: "db \<Rightarrow> uuid \<Rightarrow> uuid \<Rightarrow> bool" where
  "belongs d u i \<longleftrightarrow> (\<exists>m \<in> set (memberships d). m_user_id m = u \<and> m_team_id m = i \<and> m_is_active m)"

lemma visible_live: "\<not> include_deleted g \<Longrightarrow> team_visible g d i = team_live d i"
  by (auto simp: team_visible_def team_live_def split: option.splits)

lemma live_visible: "team_live d i \<Longrightarrow> team_visible g d i"
  by (auto simp: team_visible_def team_live_def)

lemma active_member_belongs: "active_member g d i \<Longrightarrow> \<exists>u. gu_user g = Some u \<and> belongs d u i"
  by (auto simp: active_member_def belongs_def list_ex_iff)

lemma team_table_simps [simp]:
  "pol_select (team_table_policy b key) g d r \<longleftrightarrow> team_visible g d (key r) \<and>
     (b \<and> admin_role g \<or> gu_team g = Some (key r) \<or> active_member g d (key r))"
  "pol_insert (team_table_policy b key) = team_write key" "pol_update (team_table_policy b key) = team_write key"
  "pol_delete (team_table_policy b key) = team_write key"
  by (simp_all add: team_table_policy_def)

lemma rls_update_Inr:
  assumes "rls_update P g d w f t = Inr (t', x)"
  shows "t' = map (\<lambda>r. if found P (pol_update P) g d w r then f r else r) t"
    and "\<forall>r \<in> set t. found P (pol_update P) g d w r \<longrightarrow> pol_update P g d (f r)"
  using assms by (auto simp: rls_update_def update_returning_def update_where_def list_ex_iff split: if_splits)

lemma update_keeps_others:
  assumes "rls_update (team_table_policy b key) g d w f t = Inr (t', x)" and "gu_team g \<noteq> Some i"
  shows "filter (\<lambda>r. key r = i) t' = filter (\<lambda>r. key r = i) t"
proof -
  let ?hit = "found (team_table_policy b key) (team_write key) g d w"
  note u = rls_update_Inr[OF assms(1), simplified]
  have "filter (\<lambda>r. key r = i) (map (\<lambda>r. if ?hit r then f r else r) t) = filter (\<lambda>r. key r = i) t"
    using u(2) assms(2)
  proof (induction t)
    case (Cons r t)
    then show ?case by (auto simp: found_def team_write_def)
  qed simp
  with u(1) show ?thesis by simp
qed

lemma delete_keeps_others:
  assumes "gu_team g \<noteq> Some i"
  shows "filter (\<lambda>r. key r = i) (rls_delete (team_table_policy b key) g d w t) = filter (\<lambda>r. key r = i) t"
  using assms by (induction t) (auto simp: rls_delete_def found_def team_write_def)


definition coach_guc :: guc where
  "coach_guc = bind_authenticated_context 4 UR_COACH (Some 2) no_guc"


section \<open>The worker's statements\<close>

lemma update_returning_cong: "(\<And>r. r \<in> set t \<Longrightarrow> p r = q r) \<Longrightarrow> update_returning p f t = update_returning q f t"
  by (simp add: update_returning_def update_where_def scalar_def cong: find_cong)

text \<open>
  Inside the context of a live team an UPDATE of that team's rows is the plain UPDATE; on a team that is hidden it
  finds nothing.
\<close>

lemma rls_update_own:
  assumes "gu_team g = Some i" and "\<And>r. r \<in> set t \<Longrightarrow> w r \<Longrightarrow> key r = i" and "\<And>r. key (f r) = key r"
  shows "rls_update (team_table_policy b key) g d w f t =
    Inr (if team_visible g d i then update_returning w f t else (t, None))"
proof (cases "team_visible g d i")
  case True
  have f: "found (team_table_policy b key) (team_write key) g d w r = w r" if "r \<in> set t" for r
    using assms(1,2) that True by (auto simp: found_def team_write_def)
  then have "\<not> list_ex (\<lambda>r. found (team_table_policy b key) (team_write key) g d w r \<and>
      \<not> (team_write key g d (f r) \<and> pol_select (team_table_policy b key) g d (f r))) t"
    using assms True by (auto simp: list_ex_iff team_write_def)
  with True f show ?thesis by (simp add: rls_update_def cong: update_returning_cong)
next
  case False
  then have f: "\<not> found (team_table_policy b key) (team_write key) g d w r" if "r \<in> set t" for r
    using assms(1,2) that by (auto simp: found_def team_write_def)
  then have "update_returning (found (team_table_policy b key) (team_write key) g d w) f t = update_returning (\<lambda>r. False) f t"
    by (intro update_returning_cong) simp
  also have "\<dots> = (t, None)" by (induction t) (auto simp: update_returning_def update_where_def)
  finally show ?thesis using False f by (simp add: rls_update_def list_ex_iff)
qed

lemma worker_job_update:
  assumes "by_key j_id i (jobs d) = Some j" and "distinct (map j_id (jobs d))" and "\<not> gu_include_deleted g"
    and "\<And>r. j_team_id (f r) = j_team_id r"
  shows "rls_update (team_table_policy True j_team_id) (set_worker_context (j_team_id j) g) d (\<lambda>r. j_id r = i \<and> w r) f (jobs d) =
    Inr (if team_live d (j_team_id j) then update_returning (\<lambda>r. j_id r = i \<and> w r) f (jobs d) else (jobs d, None))"
proof -
  let ?g = "set_worker_context (j_team_id j) g"
  have "r = j" if "r \<in> set (jobs d)" "j_id r = i" for r
    using by_key_Some[OF assms(1)] assms(2) that by (metis distinct_map inj_onD)
  then have own: "j_team_id r = j_team_id j" if "r \<in> set (jobs d)" "j_id r = i \<and> w r" for r
    using that by blast
  have vis: "team_visible ?g d (j_team_id j) = team_live d (j_team_id j)"
    using assms(3) by (intro visible_live) (simp add: include_deleted_def set_worker_context_def set_worker_operator_role_def
        set_user_role_context_def)
  have team: "gu_team ?g = Some (j_team_id j)" by (simp add: set_worker_context_def)
  have "rls_update (team_table_policy True j_team_id) ?g d (\<lambda>r. j_id r = i \<and> w r) f (jobs d) =
      Inr (if team_visible ?g d (j_team_id j) then update_returning (\<lambda>r. j_id r = i \<and> w r) f (jobs d) else (jobs d, None))"
    by (rule rls_update_own[where key = j_team_id]) (use team own assms(4) in auto)
  then show ?thesis by (simp only: vis)
qed

definition worker_update ::
  "guc \<Rightarrow> job_row \<Rightarrow> db \<Rightarrow> (job_row \<Rightarrow> bool) \<Rightarrow> (job_row \<Rightarrow> job_row) \<Rightarrow> exn + job_row list \<times> job_row option" where
  "worker_update g j d w f =
     rls_update (team_table_policy True j_team_id) (set_worker_context (j_team_id j) g) d w f (jobs d)"

definition while_live :: "db \<Rightarrow> job_row \<Rightarrow> job_row list \<times> job_row option \<Rightarrow> job_row list \<times> job_row option" where
  "while_live d j x = (if team_live d (j_team_id j) then x else (jobs d, None))"

text \<open>
  C6: The job statements of the worker are what the policies make of them: in the context the worker binds for a job,
  claim, heartbeat, completion, failure and release are exactly the plain statements of \<open>runtime/jobs.py\<close> while the
  job's team lives, and find no row once the team is deleted.
\<close>

theorem worker_statements_exact:
  assumes "by_key j_id i (jobs d) = Some j" and "jobs_inv (jobs d)" and "\<not> gu_include_deleted g"
  shows "worker_update g j d (\<lambda>r. j_id r = i \<and> j_status r = JS_PENDING) (claim_values tid now) =
      Inr (while_live d j (claim_job tid now i (jobs d))) \<and>
    worker_update g j d (\<lambda>r. j_id r = i \<and> (j_status r = JS_RUNNING \<and> task_matches tid r)) (heartbeat_values p now) =
      Inr (while_live d j (touch_heartbeat p tid now i (jobs d))) \<and>
    worker_update g j d (\<lambda>r. j_id r = i \<and> (j_status r = JS_RUNNING \<and> task_matches tid r)) (complete_values meta now) =
      Inr (while_live d j (complete_job meta tid now i (jobs d))) \<and>
    worker_update g j d (\<lambda>r. j_id r = i \<and> j_status r \<in> {JS_PENDING, JS_RUNNING}) (fail_values c msg meta now) =
      Inr (while_live d j (fail_job c msg meta now i (jobs d))) \<and>
    worker_update g j d (\<lambda>r. j_id r = i \<and> j_status r = JS_RUNNING) (release_values meta now) =
      Inr (while_live d j (release_job_for_retry meta now i (jobs d)))"
proof -
  note u = worker_job_update[OF assms(1) jobs_inv_keys[OF assms(2)] assms(3)]
  show ?thesis
    unfolding worker_update_def while_live_def claim_job_def touch_heartbeat_def complete_job_def fail_job_def
      release_job_for_retry_def
    by (intro conjI; rule u) (simp_all add: claim_values_def heartbeat_values_def complete_values_def fail_values_def release_values_def)
qed

lemma worker_statements_exact_witness:
  "worker_update no_guc sample_job (sample_db\<lparr>jobs := [sample_job]\<rparr>) (\<lambda>r. j_id r = 7 \<and> j_status r = JS_PENDING)
     (claim_values (Some ''t1'') 5) = Inr (claim_job (Some ''t1'') 5 7 [sample_job])"
proof -
  let ?d = "sample_db\<lparr>jobs := [sample_job]\<rparr>"
  have j: "by_key j_id 7 (jobs ?d) = Some sample_job" by (simp add: sample_job_def new_job_def by_key_def)
  have inv: "jobs_inv (jobs ?d)" by (simp add: jobs_inv_def job_ok_def sample_job_def new_job_def)
  have live: "team_live ?d (j_team_id sample_job)"
    by (simp add: team_live_def sample_job_def new_job_def sample_defs by_key_def)
  have g: "\<not> gu_include_deleted no_guc" by (simp add: no_guc_def)
  show ?thesis
    using worker_statements_exact[OF j inv g, of "Some ''t1''" 5 None None "''c''" "''m''"] live by (simp add: while_live_def)
qed

section \<open>Where the policies stop the code\<close>

text \<open>
  No request binds \<open>app.include_deleted\<close>. So the UPDATE of \<open>delete_team\<close>, whose new row the SELECT policy hides, is an
  error for everyone.
\<close>

lemma soft_delete_refused:
  assumes "by_key t_id i (teams d) = Some t" and "t_deleted_at t = None" and "gu_team g = Some i" and "\<not> gu_include_deleted g"
  shows "orm_update teams_policy g d (\<lambda>t. t_id t = i) (\<lambda>t. t\<lparr>t_deleted_at := Some now\<rparr>) (teams d) = Inl RLS_VIOLATION"
proof -
  have t: "t \<in> set (teams d)" "t_id t = i" using by_key_Some[OF assms(1)] by auto
  have "found teams_policy (pol_update teams_policy) g d (\<lambda>t. t_id t = i) t"
    using assms t by (auto simp: found_def teams_policy_def team_write_def team_visible_def)
  moreover have "\<not> pol_select teams_policy g d (t\<lparr>t_deleted_at := Some now\<rparr>)"
    using assms(4) by (simp add: teams_policy_def include_deleted_def)
  ultimately have "list_ex (\<lambda>r. found teams_policy (pol_update teams_policy) g d (\<lambda>t. t_id t = i) r \<and>
      \<not> (pol_update teams_policy g d (r\<lparr>t_deleted_at := Some now\<rparr>) \<and> pol_select teams_policy g d (r\<lparr>t_deleted_at := Some now\<rparr>))) (teams d)"
    using t(1) by (auto simp: list_ex_iff)
  then show ?thesis by (simp add: orm_update_def rls_update_def)
qed

text \<open>
  \<open>delete_my_account\<close> binds no team: its flush of a membership finds no row, which the ORM reports as an error; its
  update of the consents finds none silently; and its update of the browser reports is not granted to the role.
\<close>

lemma update_finds_none:
  assumes "\<And>r. \<not> pol_update P g d r"
  shows "rls_update P g d w f t = Inr (t, None)" and "orm_update P g d w f t = Inl (PyError ''StaleDataError'')"
proof -
  have "update_returning (found P (pol_update P) g d w) f t = (t, None)"
    using assms by (induction t) (auto simp: update_returning_def update_where_def found_def)
  then show r: "rls_update P g d w f t = Inr (t, None)" using assms by (simp add: rls_update_def found_def list_ex_iff)
  show "orm_update P g d w f t = Inl (PyError ''StaleDataError'')" by (simp add: orm_update_def r)
qed

lemma account_deletion_blocked:
  assumes "gu_team g = None"
  shows "orm_update memberships_policy g d (\<lambda>m. m_id m = i) (\<lambda>m. m\<lparr>m_is_active := False, m_team_role := TR_PLAYER\<rparr>) (memberships d) =
      Inl (PyError ''StaleDataError'')"
    and "rls_update (team_table_policy False c_team_id) g d (\<lambda>c. c_recorded_by c = Some u) (\<lambda>c. c\<lparr>c_recorded_by := None\<rparr>) (consents d) =
      Inr (consents d, None)"
    and "\<not> app_role_may UPDATE ''csp_reports''"
proof -
  have m: "\<not> pol_update memberships_policy g d r" for r using assms by (simp add: memberships_policy_def team_write_def)
  show "orm_update memberships_policy g d (\<lambda>m. m_id m = i) (\<lambda>m. m\<lparr>m_is_active := False, m_team_role := TR_PLAYER\<rparr>) (memberships d) =
      Inl (PyError ''StaleDataError'')" by (rule update_finds_none(2)[OF m])
  have c: "\<not> pol_update (team_table_policy False c_team_id) g d r" for r using assms by (simp add: team_write_def)
  show "rls_update (team_table_policy False c_team_id) g d (\<lambda>c. c_recorded_by c = Some u) (\<lambda>c. c\<lparr>c_recorded_by := None\<rparr>) (consents d) =
      Inr (consents d, None)" by (rule update_finds_none(1)[OF c])
  show "\<not> app_role_may UPDATE ''csp_reports''" by (simp add: app_role_may_def APPEND_ONLY_TABLES_def)
qed

text \<open>
  The sweep prunes password-reset tokens as the plain DELETE does, but email tokens, whose SELECT policy has no clause
  for the administrator's role, not at all. And the audit view of administrators omits the entries of deleted teams.
\<close>

lemma reset_tokens_pruned: "rls_delete reset_tokens_policy (set_worker_operator_role g) d w t = filter (\<lambda>r. \<not> w r) t"
  by (simp add: rls_delete_def found_def reset_tokens_policy_def Let_def admin_role_def set_worker_operator_role_def
      set_user_role_context_def)

lemma email_tokens_kept: "rls_delete email_tokens_policy (set_worker_operator_role no_guc) d w t = t"
  by (simp add: rls_delete_def found_def email_tokens_policy_def Let_def set_worker_operator_role_def set_user_role_context_def
      no_guc_def)

lemma deleted_team_audit_hidden:
  assumes "by_key t_id i (teams d) = Some t" and "t_deleted_at t \<noteq> None" and "\<not> gu_include_deleted g" and "au_team_id a = Some i"
  shows "a \<notin> set (rls_select audit_logs_policy g d w (audit_logs d))"
  using assms by (simp add: rls_select_def audit_logs_policy_def Let_def team_visible_def include_deleted_def)

text \<open>Whoever holds only an emailed token reads and writes only the row of that token.\<close>

lemma token_is_capability:
  assumes "gu_user g = None" and "\<not> admin_role g"
  shows "r \<in> set (rls_select email_tokens_policy g d w t) \<Longrightarrow> gu_email_hash g = Some (ev_token_hash r)"
    and "q \<in> set (rls_select reset_tokens_policy g d w' t') \<Longrightarrow> gu_reset_hash g = Some (pr_token_hash q)"
  using assms by (auto simp: rls_select_def email_tokens_policy_def reset_tokens_policy_def Let_def)

end
