(* ===== verification/Spec2Isabelle.thy ===== *)
theory Spec2Isabelle
  imports Games Teams Rate_Limit Accounts Dispatch Transcode Cleanup Preview_Worker Media Tasks Startup Gateway Tenancy
begin

text \<open>
  A verification library of NextBallUp: the API (\<open>apps/api\<close>, FastAPI on PostgreSQL), the worker (\<open>apps/worker\<close>, Celery)
  and the packages they share (\<open>packages/core\<close>, \<open>packages/db\<close>, \<open>packages/clip_engine\<close>). Coaches upload game recordings of
  their teams; the worker verifies and transcodes them and runs analysis stages; coaches watch, tag and export.

  \<^bold>\<open>The parts and how they interact.\<close> The state of the program is its database, its object store, a directory of
  detector previews and Redis. A request runs through the middleware into a handler, which checks tokens, roles,
  limits and quotas, changes rows, writes the audit log and commits. An upload queues a processing job; the
  dispatcher publishes pending jobs to the broker; a delivery claims its job, does the work and completes, fails or
  releases it; a sweep repairs what dead workers left behind.

  \<^bold>\<open>Conventions.\<close> A handler or worker step is a function \<open>db \<Rightarrow> (exn + 'a) \<times> db\<close>: \<open>Inl\<close> is the exception raised, and
  the database is the one committed at that point. Fresh ids, random bytes and the readings of the clock are
  arguments, \<open>clk n\<close> being the n-th reading. A step that commits more than once takes \<open>itf\<close>, what other transactions do
  at its commits, restricted by hypotheses where a theorem needs it. SQL tables are lists of rows in insertion
  order (\<open>Prelude\<close>: \<open>scalar\<close>, \<open>update_where\<close>, \<open>update_returning\<close>). What is not under \<open>src/\<close> is an argument with its
  documented laws as hypotheses: boto3, Redis, RSA and the digests, the mail transports, ffmpeg and the inference
  subprocesses, the file system, Celery. Strings are lists of characters up to 255, times are microseconds.

  \<^bold>\<open>Theories and sources.\<close>
  \<^item> \<open>Prelude\<close>, \<open>Encoding\<close>, \<open>Url_Encoding\<close>, \<open>Json\<close>, \<open>Samples\<close>: types, Python's strings, integers, base 64 and JSON, tables
    and their two locales \<open>row_transition\<close> and \<open>exclusive_transition\<close>; sample rows for the witnesses.
  \<^item> \<open>Core_Types\<close> (\<open>core/enums.py, constants.py, errors.py, settings.py\<close>) and \<open>Database\<close> (\<open>db/models\<close>, both \<open>audit.py\<close>):
    the vocabulary, the rows and the database.
  \<^item> \<open>Jobs\<close> (\<open>runtime/jobs.py\<close>), \<open>Dispatch\<close> (\<open>runtime/dispatch.py, routing.py\<close>), \<open>Transcode\<close> (\<open>runtime/transcode.py\<close>),
    \<open>Media\<close> (\<open>runtime/media.py\<close>), \<open>CV_Pipeline\<close> (\<open>runtime/cv_pipeline.py\<close>), \<open>Cleanup\<close> (\<open>runtime/cleanup.py\<close>), \<open>Tasks\<close>
    (\<open>tasks.py\<close>): the pipeline. Every statement of \<open>Jobs\<close> interprets one of the two locales; all later theories reach
    the job table through the facts of those interpretations. \<open>job_step\<close> is its step relation, \<open>jobs_inv\<close> its
    invariant, \<open>safe\<close> and \<open>job_env\<close> say that a step or an environment changes jobs only by such steps.
  \<^item> \<open>Permissions\<close>, \<open>Teams\<close>, \<open>Games\<close>, \<open>Billing\<close>, \<open>Storage\<close>, \<open>Uploads\<close>, \<open>Playback\<close>, \<open>Events\<close>, \<open>Clips\<close> (the modules and routers
    of the API with these names, \<open>routers/videos.py\<close> split by concern, and the clip engine): what users do.
  \<^item> \<open>Jwt\<close>, \<open>Mfa\<close>, \<open>Http\<close>, \<open>Sessions\<close>, \<open>Accounts\<close>, \<open>Rate_Limit\<close> (\<open>security/*.py\<close>, \<open>deps.py\<close>, \<open>routers/auth.py\<close>,
    \<open>routers/mfa.py\<close>, the reset and verification modules): who users are.
  \<^item> \<open>Preview_Files\<close>, \<open>Preview_Render\<close> (\<open>core/demo_preview.py\<close>), \<open>Preview_Worker\<close> (\<open>runtime/demo_preview.py\<close>): the detector
    previews with their lock files, and the import of candidate tags.
  \<^item> \<open>Gateway\<close> (\<open>request_meta.py\<close>, the middleware, \<open>errors.py\<close>, the small routers), \<open>Startup\<close> (\<open>main.py\<close> and the start of
    the worker), \<open>Tenancy\<close> (both \<open>tenant.py\<close> and the policies the migrations leave in force).
  \<^item> This theory: the specification of the job lifecycle and the refinement of all transactions of the pipeline to it.

  \<^bold>\<open>Interfaces.\<close> \<open>row_transition\<close>, \<open>exclusive_transition\<close> and \<open>job_transition\<close> are the guarded single-row UPDATE and its
  effect on jobs; \<open>team_gate\<close> is a membership check, \<open>quota_gate\<close> a limit, \<open>token_table\<close> a table of single-use tokens;
  \<open>rsa_laws\<close> and \<open>redis_counter\<close> are the documented laws of RSA and Redis. Each is interpreted on the model's operations,
  the last two on concrete providers that satisfy the laws.

  \<^bold>\<open>What the lemmas show.\<close>
  \<^item> Jobs: one owner per claim, cancelled workers locked out, dispatch at most once, stages in order, in every
    interleaving; the whole pipeline refines \<open>spec_step\<close> (\<open>pipeline_refines\<close>), and retries end.
  \<^item> Uploads and media: only verified bytes are queued, transcoded and played; quotas hold after every upload.
  \<^item> Accounts: no refresh token, emailed link, TOTP step or recovery code is accepted twice; a token decodes to what
    was minted; deletion leaves no personal data; cookies need the forgery token; the client's address cannot be
    forged; a started deployment is locked down.
  \<^item> Teams, games and events: the tables keep their invariants under every sequence of operations, pages of a listing
    are complete, review windows stay valid.
  \<^item> Previews: the shown state is honest, the locks are exclusive and waiting for them ends, the subprocess is
    confined, an undisturbed preview completes.
  \<^item> Tenancy: a transaction touches one team only, and the worker's statements are the plain ones of \<open>Jobs\<close>.
  \<^item> Lemmas named in the findings of the manifest state what the code does where that is not what it means to do, on
    concrete inputs.

  \<^bold>\<open>Bounds and fuel.\<close> Loops over rows are structural recursions. \<open>deliveries\<close> has fuel, and one delivery more than
  \<open>worker_job_max_retries\<close> is enough (\<open>transcode_retries_end\<close>); reading a listing to its end takes fuel, one page more than
  there are rows is enough (\<open>event_pages_complete\<close>, \<open>game_listing_exact\<close>); the wait for a lock has one turn per poll up to
  the timeout (\<open>queue_lock_returns\<close>); the JSON reader has twice the length of its text (\<open>json_roundtrip\<close>). Words appear
  where the code works on bits: Internet addresses and their masks.

  \<^bold>\<open>Not modelled.\<close>
  \<^item> In the handlers: the row-level policies. \<open>Tenancy\<close> states them for themselves, with the proof that they leave the
    worker's statements as they are, and the places where they stop a handler.
  \<^item> The audit view of \<open>routers/admin.py\<close>: the audit rows here carry no id and no time.
  \<^item> Table definitions, downgrades and data steps of the migrations; the analysis tables, which nothing modelled reads or writes; the
    engine and session setup; logging, metrics and their server; Celery's configuration; the seed and shell scripts.
  \<^item> The web frontend (\<open>apps/web\<close>) and the infrastructure files, which are not Python.
  \<^item> Texts of messages for people, and characters beyond Latin-1.
\<close>

section \<open>What a processing job promises\<close>

text \<open>
  The specification of the pipeline: which jobs exist, for which video and stage, and their status. A job is
  queued once for a video and stage, moves along \<open>status_edge\<close>, and goes with its video; the import of candidate
  tags ends the events job of its video, whatever its status was.
\<close>

type_synonym job_view = "uuid \<Rightarrow> (uuid \<times> processing_job_stage \<times> processing_job_status) option"

definition view_of :: "job_row \<Rightarrow> uuid \<times> processing_job_stage \<times> processing_job_status" where
  "view_of j = (j_video_id j, j_stage j, j_status j)"

definition job_view :: "job_row list \<Rightarrow> job_view" where
  "job_view t = (\<lambda>i. map_option view_of (by_key j_id i t))"

definition unclaimed :: "job_view \<Rightarrow> uuid \<Rightarrow> processing_job_stage \<Rightarrow> bool" where
  "unclaimed w v st \<longleftrightarrow> (\<forall>i s. w i \<noteq> Some (v, st, s))"

inductive spec_step :: "job_view \<Rightarrow> job_view \<Rightarrow> bool" where
  queued: "w i = None \<Longrightarrow> unclaimed w v st \<Longrightarrow> spec_step w (w(i \<mapsto> (v, st, JS_PENDING)))"
| moved: "w i = Some (v, st, a) \<Longrightarrow> status_edge a b \<Longrightarrow> spec_step w (w(i \<mapsto> (v, st, b)))"
| removed: "spec_step w (\<lambda>i. case w i of None \<Rightarrow> None | Some (x, st, a) \<Rightarrow> if x = v then None else Some (x, st, a))"
| imported: "w i = None \<and> unclaimed w v ST_EVENTS \<or> w i = Some (v, ST_EVENTS, a) \<Longrightarrow> b \<in> {JS_COMPLETED, JS_FAILED} \<Longrightarrow>
    spec_step w (w(i \<mapsto> (v, ST_EVENTS, b)))"

text \<open>
  The transactions that write jobs, with every argument: the requests of the API, the deliveries to the
  workers, the dispatcher, the sweep and the import of candidate tags. \<open>itf\<close> is what other job transactions do
  between the statements of one that commits more than once.
\<close>

inductive pipeline_step :: "db \<Rightarrow> db \<Rightarrow> bool" where
  uploaded: "complete_upload s rq u storage video_id p job_id clk d = (x, d', ops) \<Longrightarrow> pipeline_step d d'"
| dispatched: "job_env itf \<Longrightarrow>
    dispatch_pending_jobs enqueue s rid limit now itf d = (ids, d') \<Longrightarrow> pipeline_step d d'"
| transcoded: "job_env itf \<Longrightarrow> execute_transcode s st mezz beats i tid r fresh clk itf d = (x, d') \<Longrightarrow> pipeline_step d d'"
| analysed: "job_env itf \<Longrightarrow> execute_cv_stage s i tid r fresh clk itf d = (x, d') \<Longrightarrow> pipeline_step d d'"
| abandoned: "terminal_failure i task c m fv now d = d' \<Longrightarrow> pipeline_step d d'"
| cancelled: "cancel_processing s rq u video_id stage now d = (x, d') \<Longrightarrow> pipeline_step d d'"
| requeued: "requeue_processing s rq u storage video_id stage now d = (x, d') \<Longrightarrow> pipeline_step d d'"
| deleted: "delete_failed_video s rq u storage video_id clk d = (x, d', ops) \<Longrightarrow> pipeline_step d d'"
| swept: "(\<And>p. job_env (itf p)) \<Longrightarrow> run_full_cleanup s storage rid locked demo clk itf d = (x, d', ops) \<Longrightarrow> pipeline_step d d'"
| tagged: "fresh 0 \<notin> j_id ` set (jobs d) \<Longrightarrow>
    sync_alpha_candidate_tags s loads str_of fresh clk v artifact rid d = (x, d') \<Longrightarrow> pipeline_step d d'"

lemma job_view_Some: "job_view t i = Some (v, st, s) \<Longrightarrow> \<exists>j. by_key j_id i t = Some j \<and> video_stage j = (v, st) \<and> j_status j = s"
  by (auto simp: job_view_def view_of_def video_stage_def)

lemma view_unclaimed: "(v, st) \<notin> video_stage ` set t \<Longrightarrow> unclaimed (job_view t) v st"
  by (force simp: unclaimed_def dest!: job_view_Some by_key_Some)

lemma view_append:
  assumes "j_id j \<notin> j_id ` set t"
  shows "job_view (t @ [j]) = (job_view t)(j_id j \<mapsto> view_of j)" and "job_view t (j_id j) = None"
proof -
  have none: "by_key j_id (j_id j) t = None" using assms by (simp add: by_key_None)
  then show "job_view t (j_id j) = None" by (simp add: job_view_def)
  have one: "by_key j_id i [j] = (if i = j_id j then Some j else None)" for i by (simp add: by_key_def)
  show "job_view (t @ [j]) = (job_view t)(j_id j \<mapsto> view_of j)"
    by (rule ext) (use none one in \<open>auto simp: job_view_def by_key_append split: option.split\<close>)
qed

lemma view_put:
  assumes "by_key j_id (j_id j) t = Some j0"
  shows "job_view (put_row j_id j t) = (job_view t)(j_id j \<mapsto> view_of j)"
  by (rule ext) (simp add: job_view_def by_key_put_row assms)

lemma job_step_view: "job_step t t' \<Longrightarrow> spec_step (job_view t) (job_view t')"
proof (induction rule: job_step.induct)
  case (queued i t vid stage team now)
  let ?j = "new_job i vid team stage now"
  have j: "j_id ?j = i" "view_of ?j = (vid, stage, JS_PENDING)" by (simp_all add: new_job_def view_of_def)
  with queued view_append[of ?j t] have w: "job_view (t @ [?j]) = (job_view t)(i \<mapsto> (vid, stage, JS_PENDING))"
    "job_view t i = None" by simp_all
  show ?case unfolding w(1) by (rule spec_step.queued[OF w(2) view_unclaimed[OF queued(2)]])
next
  case (edge i t j j')
  have i: "j_id j = i" using by_key_Some[OF edge(1)] by blast
  then have "by_key j_id (j_id j') t = Some j" using edge by simp
  from view_put[OF this] i edge have v: "job_view (put_row j_id j' t) = (job_view t)(i \<mapsto> view_of j')" by simp
  have "view_of j' = (j_video_id j, j_stage j, j_status j')"
    using job_edge_stage[OF edge(2)] by (simp add: view_of_def video_stage_def)
  moreover have "job_view t i = Some (j_video_id j, j_stage j, j_status j)" using edge(1) by (simp add: job_view_def view_of_def)
  ultimately show ?case unfolding v using spec_step.moved job_edge_status[OF edge(2)] by metis
qed

lemma job_steps_view: "job_step\<^sup>*\<^sup>* t t' \<Longrightarrow> spec_step\<^sup>*\<^sup>* (job_view t) (job_view t')"
  by (induction rule: rtranclp_induct) (auto dest: job_step_view)

lemma view_removed:
  assumes "distinct (map j_id t)"
  shows "job_view (filter (\<lambda>j. j_video_id j \<noteq> v) t) =
    (\<lambda>i. case job_view t i of None \<Rightarrow> None | Some (x, st, a) \<Rightarrow> if x = v then None else Some (x, st, a))"
proof (rule ext)
  fix i
  show "job_view (filter (\<lambda>j. j_video_id j \<noteq> v) t) i =
    (case job_view t i of None \<Rightarrow> None | Some (x, st, a) \<Rightarrow> if x = v then None else Some (x, st, a))"
    using assms
  proof (induction t)
    case (Cons a t)
    have "j_id a = i \<Longrightarrow> by_key j_id i (filter (\<lambda>j. j_video_id j \<noteq> v) t) = None"
      using Cons.prems by (auto simp: by_key_None)
    with Cons show ?case by (auto simp: job_view_def view_of_def by_key_def)
  qed (simp add: job_view_def by_key_def)
qed

text \<open>The import writes one row: it appends a finished events job, or replaces the one of the video.\<close>

definition ended_events :: "video_row \<Rightarrow> job_row \<Rightarrow> bool" where
  "ended_events v j \<longleftrightarrow> video_stage j = (v_id v, ST_EVENTS) \<and> job_ok j \<and> j_status j \<in> {JS_COMPLETED, JS_FAILED}"

lemma put_row_again: "j_id b = j_id a \<Longrightarrow> put_row j_id b (put_row j_id a t) = put_row j_id b t"
  by (induction t) (simp_all add: put_row_def)

lemma put_row_appended: "j_id b = j_id a \<Longrightarrow> j_id a \<notin> j_id ` set t \<Longrightarrow> put_row j_id b (t @ [a]) = t @ [b]"
  unfolding put_row_def update_where_append by (subst update_where_id) (auto simp: rev_image_eqI)

definition import_writes :: "(nat \<Rightarrow> uuid) \<Rightarrow> video_row \<Rightarrow> job_row list \<Rightarrow> job_row list \<Rightarrow> bool" where
  "import_writes fresh v t t' \<longleftrightarrow> t' = t \<or>
     (\<exists>j. ended_events v j \<and>
       ((v_id v, ST_EVENTS) \<notin> video_stage ` set t \<and> j_id j = fresh 0 \<and> t' = t @ [j] \<or>
        (\<exists>j0. j0 \<in> set t \<and> j_id j = j_id j0 \<and> video_stage j0 = (v_id v, ST_EVENTS) \<and> t' = put_row j_id j t)))"

lemma loaded_events_job:
  assumes "load_or_create_events_job (fresh 0) now v rq d = (j, d1)" and "fresh 0 \<notin> j_id ` set (jobs d)"
    and "j_id j' = j_id j" and "video_stage j' = video_stage j" and "job_ok j'" and "j_status j' \<in> {JS_COMPLETED, JS_FAILED}"
  shows "import_writes fresh v (jobs d) (put_row j_id j' (jobs d1))"
proof (cases "scalar (\<lambda>j. j_video_id j = v_id v \<and> j_stage j = ST_EVENTS) (jobs d)")
  case None
  with assms(1) have j: "j_id j = fresh 0" "video_stage j = (v_id v, ST_EVENTS)" "jobs d1 = jobs d @ [j]"
    by (auto simp: load_or_create_events_job_def Let_def video_stage_def)
  have "(v_id v, ST_EVENTS) \<notin> video_stage ` set (jobs d)"
    using None by (auto simp: scalar_None video_stage_def)
  moreover have "put_row j_id j' (jobs d1) = jobs d @ [j']" using j assms(2,3) by (simp add: put_row_appended)
  ultimately show ?thesis using j assms by (auto simp: import_writes_def ended_events_def)
next
  case (Some j0)
  then have j0: "j0 \<in> set (jobs d)" "video_stage j0 = (v_id v, ST_EVENTS)"
    using scalar_Some[OF Some] by (simp_all add: video_stage_def)
  from Some assms(1) have j: "j_id j = j_id j0" "video_stage j = video_stage j0" "jobs d1 = put_row j_id j (jobs d)"
    by (auto simp: load_or_create_events_job_def Let_def video_stage_def)
  have "put_row j_id j' (jobs d1) = put_row j_id j' (jobs d)" using j assms(3) by (simp add: put_row_again)
  with j0 j assms show ?thesis by (auto simp: import_writes_def ended_events_def)
qed

lemma sync_writes:
  assumes "sync_alpha_candidate_tags s loads str_of fresh clk v artifact rid d = (x, d')"
    and "fresh 0 \<notin> j_id ` set (jobs d)"
  shows "import_writes fresh v (jobs d) (jobs d')"
proof -
  obtain j d1 where j: "load_or_create_events_job (fresh 0) (clk 0) v rid d = (j, d1)" by (rule prod.exhaust)
  note row = loaded_events_job[where fresh = fresh, OF j assms(2)]
  have started: "j_started_at j \<noteq> None"
    using j by (auto simp: load_or_create_events_job_def Let_def split: option.splits)
  have failed: "import_writes fresh v (jobs d) (jobs (mark_events_job_failed now j v rid e d2))" if "jobs d2 = jobs d1" for now e d2
  proof -
    have "\<exists>E M. jobs (mark_events_job_failed now j v rid e d2) = put_row j_id (j\<lparr>j_status := JS_FAILED,
        j_progress_percent := 100, j_completed_at := Some now, j_error_message := Some E, j_result_metadata := Some M\<rparr>) (jobs d1)"
      using that unfolding mark_events_job_failed_def delete_alpha_candidate_events_def Let_def by (intro exI) simp
    then obtain j' where "jobs (mark_events_job_failed now j v rid e d2) = put_row j_id j' (jobs d1)"
      "j_id j' = j_id j" "video_stage j' = video_stage j" "job_ok j'" "j_status j' \<in> {JS_COMPLETED, JS_FAILED}"
      by (force simp: video_stage_def job_ok_def)
    with row show ?thesis by simp
  qed
  have keep: "jobs d2 = jobs d1" if "replace_alpha_candidate_events str_of f now v report d1 = (y, d2)" for f now report y d2
    using that by (auto simp: replace_alpha_candidate_events_def delete_alpha_candidate_events_def Let_def split: sum.splits)
  show ?thesis
  proof (cases "\<not> alpha_candidate_tags_enabled s \<or> da_candidate_tags artifact = None \<and> da_candidate_tags_error artifact = None")
    case True
    have "sync_alpha_candidate_tags s loads str_of fresh clk v artifact rid d = (None, d)"
      unfolding sync_alpha_candidate_tags_def using True by argo
    with assms(1) have "d' = d" by simp
    then show ?thesis by (simp add: import_writes_def)
  next
    case on: False
    show ?thesis
    proof (cases "da_candidate_tags_error artifact")
      case (Some e)
      with on j assms(1) have "d' = mark_events_job_failed (clk 1) j v rid e d1" by (simp add: sync_alpha_candidate_tags_def)
      with failed show ?thesis by simp
    next
      case None
      with on obtain raw where on: "alpha_candidate_tags_enabled s" "da_candidate_tags artifact = Some raw" by auto
      show ?thesis
      proof (cases "read_candidate_report loads raw")
        case (Inl e)
        with on None j assms(1) have "d' = mark_events_job_failed (clk 1) j v rid (take 1000 e) d1"
          by (simp add: sync_alpha_candidate_tags_def)
        with failed show ?thesis by simp
      next
        case (Inr report)
        obtain y d2 where r: "replace_alpha_candidate_events str_of (\<lambda>n. fresh (Suc n)) (clk 1) v report d1 = (y, d2)"
          by (rule prod.exhaust)
        show ?thesis
        proof (cases y)
          case (Inl e)
          with on None j Inr r assms(1) have "d' = mark_events_job_failed (clk 2) j v rid (take 1000 e) d2"
            by (simp add: sync_alpha_candidate_tags_def)
          with failed[OF keep[OF r]] show ?thesis by simp
        next
          case (Inr n)
          with on None j \<open>read_candidate_report loads _ = Inr report\<close> r assms(1) keep[OF r]
          obtain j' where "jobs d' = put_row j_id j' (jobs d1)" "j_id j' = j_id j" "video_stage j' = video_stage j"
            "j_status j' = JS_COMPLETED" "j_progress_percent j' = 100" "j_started_at j' = j_started_at j"
            "j_completed_at j' \<noteq> None" "j_error_message j' = None"
            by (auto simp: sync_alpha_candidate_tags_def Let_def video_stage_def)
          with row started show ?thesis by (simp add: job_ok_def)
        qed
      qed
    qed
  qed
qed

lemma import_writes_view:
  assumes "import_writes fresh v t t'" and "jobs_inv t" and "fresh 0 \<notin> j_id ` set t"
  shows "jobs_inv t' \<and> spec_step\<^sup>*\<^sup>* (job_view t) (job_view t')"
proof -
  from assms(1) consider "t' = t"
    | (new) j where "ended_events v j" "(v_id v, ST_EVENTS) \<notin> video_stage ` set t" "j_id j = fresh 0" "t' = t @ [j]"
    | (old) j j0 where "ended_events v j" "j0 \<in> set t" "j_id j = j_id j0" "video_stage j0 = (v_id v, ST_EVENTS)"
        "t' = put_row j_id j t"
    unfolding import_writes_def by blast
  then show ?thesis
  proof cases
    case new
    have "jobs_inv t'" using new assms(2,3) by (auto simp: jobs_inv_def ended_events_def)
    have w: "job_view t' = (job_view t)(fresh 0 \<mapsto> (v_id v, ST_EVENTS, j_status j))" "job_view t (fresh 0) = None"
      using view_append[of j t] new assms(3) by (simp_all add: ended_events_def view_of_def video_stage_def)
    have "spec_step (job_view t) (job_view t')" unfolding w(1)
      by (rule spec_step.imported[OF disjI1]) (use new w(2) view_unclaimed in \<open>auto simp: ended_events_def\<close>)
    with \<open>jobs_inv t'\<close> show ?thesis by blast
  next
    case old
    have by_id: "by_key j_id (j_id j) t = Some j0" using by_key_mem[OF jobs_inv_keys[OF assms(2)] old(2)] old(3) by simp
    have "map video_stage t' = map video_stage t" unfolding old(5)
      using old by (intro map_put_row[OF jobs_inv_keys[OF assms(2)] by_id]) (simp add: ended_events_def)
    moreover have "job_ok x" if "x \<in> set t'" for x
      using set_put_row[OF that[unfolded old(5)]] old(1) assms(2) by (auto simp: ended_events_def jobs_inv_def)
    ultimately have "jobs_inv t'" using assms(2) old(5) by (simp add: jobs_inv_def keys_put_row)
    have w: "job_view t' = (job_view t)(j_id j \<mapsto> (v_id v, ST_EVENTS, j_status j))"
      "job_view t (j_id j) = Some (v_id v, ST_EVENTS, j_status j0)"
      using view_put[OF by_id] by_id old by (simp_all add: job_view_def ended_events_def view_of_def video_stage_def)
    have "spec_step (job_view t) (job_view t')" unfolding w(1)
      by (rule spec_step.imported[OF disjI2]) (use old(1) w(2) in \<open>simp_all add: ended_events_def\<close>)
    with \<open>jobs_inv t'\<close> show ?thesis by blast
  qed (use assms(2) in simp)
qed

lemma safe_view: "safe d d' \<Longrightarrow> jobs_inv (jobs d) \<Longrightarrow> jobs_inv (jobs d') \<and> spec_step\<^sup>*\<^sup>* (job_view (jobs d)) (job_view (jobs d'))"
  by (simp add: safe_def job_steps_view)

lemma deletion_writes:
  assumes "delete_failed_video s rq u storage video_id clk d = (x, d', ops)"
  shows "jobs d' = jobs d \<or> (\<exists>v. jobs d' = filter (\<lambda>j. j_video_id j \<noteq> v) (jobs d))"
proof (cases "load_video d video_id")
  case None
  with assms have "d' = d" by (simp add: delete_failed_video_def split: sum.splits)
  then show ?thesis by simp
next
  case (Some v)
  show ?thesis
  proof (cases x)
    case (Inl e)
    from delete_failed_Inl[OF assms[unfolded Inl] Some] mark_failed_keeps(2)[OF Some] show ?thesis by auto
  next
    case (Inr y)
    from delete_failed_Inr[OF assms[unfolded Inr] Some] obtain c where "d' = finish_delete rq u v c (clk 1) d" by blast
    then show ?thesis by (auto simp: finish_delete_tables)
  qed
qed

lemma pipeline_step_refines:
  "pipeline_step d d' \<Longrightarrow> jobs_inv (jobs d) \<Longrightarrow>
    jobs_inv (jobs d') \<and> spec_step\<^sup>*\<^sup>* (job_view (jobs d)) (job_view (jobs d'))"
proof (induction rule: pipeline_step.induct)
  case (uploaded s rq u storage video_id p job_id clk d x d' ops)
  then show ?case using complete_upload_safe[of d s rq u storage video_id p job_id clk] by (simp add: safe_view)
next
  case (dispatched itf enqueue s rid limit now d ids d')
  then have "job_step\<^sup>*\<^sup>* (jobs d) (jobs d')"
    using dispatch_loop_steps[OF dispatched(1,3), of enqueue rid "dispatch_rows s limit now (jobs d)"]
    by (simp add: dispatch_pending_jobs_def)
  with dispatched(3) show ?case by (simp add: job_steps_view job_steps_inv)
next
  case (transcoded itf s st mezz beats i tid r fresh clk d x d')
  then show ?case using safe_execute_transcode[OF transcoded(1), of d s st mezz beats i tid r fresh clk] by (simp add: safe_view)
next
  case (analysed itf s i tid r fresh clk d x d')
  then show ?case using safe_execute_cv_stage[OF analysed(1), of d s i tid r fresh clk] by (simp add: safe_view)
next
  case (abandoned i task c m fv now d d')
  then show ?case using safe_terminal_failure[of d i task c m fv now] by (simp add: safe_view)
next
  case (cancelled s rq u video_id stage now d x d')
  then show ?case using recovery_safe(1)[of d s rq u video_id stage now] by (simp add: safe_view)
next
  case (requeued s rq u storage video_id stage now d x d')
  then show ?case using recovery_safe(2)[of d s rq u storage video_id stage now] by (simp add: safe_view)
next
  case (deleted s rq u storage video_id clk d x d' ops)
  from deletion_writes[OF deleted(1)] show ?case
  proof
    assume "jobs d' = jobs d"
    with deleted(2) show ?case by simp
  next
    assume "\<exists>v. jobs d' = filter (\<lambda>j. j_video_id j \<noteq> v) (jobs d)"
    then obtain v where v: "jobs d' = filter (\<lambda>j. j_video_id j \<noteq> v) (jobs d)" ..
    have "jobs_inv (jobs d')" unfolding v by (rule table_step_inv[OF table_step.purged deleted(2)])
    moreover have "spec_step (job_view (jobs d)) (job_view (jobs d'))"
      unfolding v view_removed[OF jobs_inv_keys[OF deleted(2)]] by (rule spec_step.removed)
    ultimately show ?case by blast
  qed
next
  case (swept itf s storage rid locked demo clk d x d' ops)
  then show ?case using safe_full_cleanup[where itf = itf, OF swept(1), of d s storage rid locked demo clk] by (simp add: safe_view)
next
  case (tagged fresh d s loads str_of clk v artifact rid x d')
  from sync_writes[OF tagged(2,1)] tagged show ?case by (intro import_writes_view[where v = v and fresh = fresh]) simp_all
qed

text \<open>
  C1: The pipeline implements the specification of a processing job: every sequence of its transactions, with
  other transactions between the statements of a delivery, is a sequence of specification steps, and keeps the
  invariant of the job table. So a video and stage never have two jobs, a status only moves along
  \<open>status_edge\<close>, and apart from the import of candidate tags nothing changes a completed job but the deletion of
  its video.
\<close>

theorem pipeline_refines:
  assumes "pipeline_step\<^sup>*\<^sup>* d d'" and "jobs_inv (jobs d)"
  shows "jobs_inv (jobs d') \<and> spec_step\<^sup>*\<^sup>* (job_view (jobs d)) (job_view (jobs d'))"
  using assms
proof (induction rule: rtranclp_induct)
  case (step e f)
  with pipeline_step_refines[OF step.hyps(2)] show ?case by (meson rtranclp_trans)
qed simp

text \<open>The import ends the events job of a video also when it was completed.\<close>

definition analysed_db :: db where
  "analysed_db = sample_db\<lparr>jobs := [complete_values None 6 (claim_values (Some ''t1'') 5 (new_job 7 1 2 ST_EVENTS 0))]\<rparr>"

lemma import_fails_completed_job:
  "map j_status (jobs analysed_db) = [JS_COMPLETED] \<and>
   map j_status (jobs (snd (sync_alpha_candidate_tags tag_config (\<lambda>_. None) (\<lambda>_. []) (\<lambda>n. n) (\<lambda>n. int n) demo_video
     \<lparr>da_output = [], da_url_path = [], da_generated_at = 0, da_candidate_tags = None, da_candidate_tags_error = Some ''e''\<rparr>
     ''t'' analysed_db))) = [JS_FAILED]"
proof -
  have en: "alpha_candidate_tags_enabled tag_config"
    by (simp add: alpha_candidate_tags_enabled_def alpha_detector_preview_enabled_def tag_config_def demo_config_def preview_settings_def)
  have v: "v_id demo_video = 1" by (simp add: demo_video_def sample_video_def)
  show ?thesis
    by (simp add: sync_alpha_candidate_tags_def en v analysed_db_def load_or_create_events_job_def mark_events_job_failed_def
        delete_alpha_candidate_events_def new_job_def complete_values_def claim_values_def put_row_def Let_def)
qed

lemma pipeline_refines_witness:
  "spec_step\<^sup>*\<^sup>* (job_view (jobs two_jobs)) (job_view (jobs (snd one_pass)))"
proof -
  have "job_env (\<lambda>i d. d)" by (simp add: job_env_def)
  then have "pipeline_step two_jobs (snd one_pass)"
    unfolding one_pass_def by (rule pipeline_step.dispatched[OF _ surjective_pairing])
  then have "pipeline_step\<^sup>*\<^sup>* two_jobs (snd one_pass)" by (rule r_into_rtranclp)
  then show ?thesis by (rule pipeline_refines[THEN conjunct2]) (simp add: two_jobs_def jobs_inv_def new_job_def job_ok_def video_stage_def)
qed

end
